(* ===== verification/Prelude.thy ===== *)
theory Prelude
  imports Main "HOL-Library.Word" "HOL-Library.Signed_Division"
begin

text \<open>
  Shared vocabulary of the development: Go's error values and panics, the wrap-around of
  64-bit integers, and the lemmas on lists, options and arithmetic that the component
  theories use.  Nothing here models a file of the repository; it is the part of the Go
  language that the sources rely on.
\<close>

section \<open>Lemma collections\<close>

named_theorems go_simps \<open>unfoldings of Go-level plumbing: outcomes, errors, integer wrap\<close>
named_theorems go_arith \<open>facts that reduce Go integer arithmetic to HOL arithmetic\<close>

section \<open>Errors and outcomes\<close>

text \<open>
  An error value of Go is a sentinel (a package variable made by \<open>errors.New\<close>, compared by
  identity), a formatted error (\<open>fmt.Errorf\<close> without \<open>%w\<close>, or a local \<open>errors.New\<close>), or a
  formatted error that wraps another one.  \<open>errors_is\<close> is \<open>errors.Is\<close>.
\<close>

datatype go_error =
    Sentinel string
  | Errorf string
  | Wrapf string go_error

fun errors_is :: "go_error \<Rightarrow> go_error \<Rightarrow> bool" where
  "errors_is (Wrapf m e) t = (Wrapf m e = t \<or> errors_is e t)"
| "errors_is e t = (e = t)"

lemma errors_is_refl [simp]: "errors_is e e"
  by (cases e) simp_all

text \<open>
  The result of a call: it returns a value, returns an error (\<open>Inl\<close> in Go's pair of a value
  and an error), or panics.
\<close>

datatype 'a outcome =
    Ret 'a
  | Fail go_error
  | Panic string

fun go_bind :: "'a outcome \<Rightarrow> ('a \<Rightarrow> 'b outcome) \<Rightarrow> 'b outcome" where
  "go_bind (Ret x) f = f x"
| "go_bind (Fail e) f = Fail e"
| "go_bind (Panic m) f = Panic m"

lemma go_bind_Ret_iff [go_simps]:
  "go_bind x f = Ret b \<longleftrightarrow> (\<exists>a. x = Ret a \<and> f a = Ret b)"
  by (cases x) auto

lemma go_bind_assoc: "go_bind (go_bind x f) g = go_bind x (\<lambda>a. go_bind (f a) g)"
  by (cases x) auto

abbreviation index_panic :: "'a outcome" where
  "index_panic \<equiv> Panic ''index out of range''"

definition returns :: "'a outcome \<Rightarrow> bool" where
  "returns x = (case x of Ret _ \<Rightarrow> True | _ \<Rightarrow> False)"

lemma returns_iff [go_simps]: "returns x \<longleftrightarrow> (\<exists>a. x = Ret a)"
  by (cases x) (auto simp: returns_def)

section \<open>Machine integers\<close>

text \<open>Two's complement wrap-around of Go's \<open>int\<close> and \<open>int64\<close> on a 64-bit platform.\<close>

definition wrap64 :: "int \<Rightarrow> int" where
  "wrap64 x = (x + 2 ^ 63) mod 2 ^ 64 - 2 ^ 63"

abbreviation in_int64 :: "int \<Rightarrow> bool" where
  "in_int64 x \<equiv> - (2 ^ 63) \<le> x \<and> x < 2 ^ 63"

lemma wrap64_id [go_arith]: "- (2 ^ 63) \<le> x \<Longrightarrow> x < 2 ^ 63 \<Longrightarrow> wrap64 x = x"
  by (simp add: wrap64_def)

lemma wrap64_add: "0 \<le> a \<Longrightarrow> a \<le> 2 ^ 62 \<Longrightarrow> 0 \<le> x \<Longrightarrow> x < 2 ^ 62 \<Longrightarrow> wrap64 (a + x) = a + x"
  by (rule wrap64_id) simp_all

lemma wrap64_range: "- (2 ^ 63) \<le> wrap64 x \<and> wrap64 x < 2 ^ 63"
  using pos_mod_bound [of "2 ^ 64" "x + 2 ^ 63"] pos_mod_sign [of "2 ^ 64" "x + 2 ^ 63"]
  by (simp add: wrap64_def)

text \<open>
  Go's division and remainder truncate towards zero; on the non-negative operands that the
  code uses they are HOL's.
\<close>

lemma sdiv_nonneg [go_arith]: "0 \<le> a \<Longrightarrow> 0 < b \<Longrightarrow> a sdiv b = a div (b::int)"
  by (auto simp: signed_divide_int_def sgn_if)

lemma smod_nonneg [go_arith]: "0 \<le> a \<Longrightarrow> 0 < b \<Longrightarrow> a smod b = a mod (b::int)"
  by (auto simp: signed_modulo_int_def signed_divide_int_def sgn_if minus_div_mult_eq_mod)

section \<open>Lists\<close>

lemma concat_update_nth:
  "i < length xss \<Longrightarrow>
     set (concat (xss[i := ys])) = set (concat (take i xss)) \<union> set ys \<union> set (concat (drop (Suc i) xss))"
  by (simp add: upd_conv_take_nth_drop) blast

lemma set_remove1_distinct: "distinct xs \<Longrightarrow> set (remove1 x xs) = set xs - {x}"
  by (rule set_remove1_eq)

lemma nth_append_last [simp]: "(xs @ [y]) ! length xs = y"
  by simp

end
