(* ===== verification/Scheduler.thy ===== *)
theory Scheduler
  imports Prelude
begin

text \<open>
  The event loop of the time wheel and the contract its clients rely on.  \<open>start\<close> is the loop of
  \<^verbatim>\<open>src/pkg/gds/timewheel.go\<close> (\<open>start\<close>) over any tick handler and any message handler: the
  select statement serves one channel at a time, so a run is a sequence of ticks and received
  messages.  The locale \<open>countdown_scheduler\<close> states what a tick and a message promise in terms
  of a table of remaining ticks; the time wheel is shown to be an instance in
  \<open>TimeWheelRefine\<close>.
\<close>

section \<open>The loop\<close>

datatype 'm loop_event = Tick | Recv 'm

fun start ::
    "('s \<Rightarrow> ('s \<times> 'o list) outcome) \<Rightarrow> ('s \<Rightarrow> 'm \<Rightarrow> 's outcome) \<Rightarrow> 's \<Rightarrow> 'm loop_event list
     \<Rightarrow> ('s \<times> 'o list list) outcome" where
  "start tick exec s [] = Ret (s, [])"
| "start tick exec s (Tick # es) =
     go_bind (tick s) (\<lambda>(s', out). go_bind (start tick exec s' es) (\<lambda>(s'', outs). Ret (s'', out # outs)))"
| "start tick exec s (Recv m # es) = go_bind (exec s m) (\<lambda>s'. start tick exec s' es)"

definition tick_count :: "'m loop_event list \<Rightarrow> nat" where
  "tick_count es = length (filter (\<lambda>e. case e of Tick \<Rightarrow> True | _ \<Rightarrow> False) es)"

lemma tick_count_simps [simp]:
  "tick_count [] = 0" "tick_count (Tick # es) = Suc (tick_count es)"
  "tick_count (Recv m # es) = tick_count es"
  by (simp_all add: tick_count_def)


section \<open>The contract\<close>

text \<open>One tick of the abstract countdown table.\<close>

definition countdown :: "(int \<times> 't) option \<Rightarrow> (int \<times> 't) option" where
  "countdown x = (case x of None \<Rightarrow> None
                  | Some (d, t) \<Rightarrow> if d \<le> 1 then None else Some (d - 1, t))"

lemma countdown_simps [simp]:
  "countdown None = None" "1 < d \<Longrightarrow> countdown (Some (d, t)) = Some (d - 1, t)"
  "countdown (Some (1, t)) = None"
  by (simp_all add: countdown_def)

text \<open>
  A message has at most one target; entries that another key owns keep their count.  A tick
  lowers every count by one and calls exactly the entries whose count was one.
\<close>

locale countdown_scheduler =
  fixes tick :: "'s \<Rightarrow> ('s \<times> 'o list) outcome"
    and exec :: "'s \<Rightarrow> 'm \<Rightarrow> 's outcome"
    and inv :: "'s \<Rightarrow> bool"
    and pending :: "'s \<Rightarrow> 'a \<Rightarrow> (int \<times> 't) option"
    and owner :: "'s \<Rightarrow> 'a \<Rightarrow> 'k option"
    and target :: "'m \<Rightarrow> 'k option"
    and admissible :: "'s \<Rightarrow> 'm \<Rightarrow> bool"
    and show_call :: "'t \<Rightarrow> 'o"
  assumes tick_spec: "inv s \<Longrightarrow>
      \<exists>s' out. tick s = Ret (s', out) \<and> inv s' \<and> pending s' = (\<lambda>a. countdown (pending s a))
        \<and> owner s' = owner s \<and> admissible s' = admissible s
        \<and> set out = {show_call t | a t. pending s a = Some (1, t)}"
    and exec_spec: "inv s \<Longrightarrow> admissible s m \<Longrightarrow>
      \<exists>s'. exec s m = Ret s' \<and> inv s' \<and> admissible s' = admissible s
        \<and> (\<forall>a k. owner s a = Some k \<longrightarrow>
             owner s' a = Some k \<and> (target m \<noteq> Some k \<longrightarrow> pending s' a = pending s a))"
begin

lemma run_total:
  assumes "inv s" "\<forall>m. Recv m \<in> set es \<longrightarrow> admissible s m"
  shows "\<exists>s' outs. start tick exec s es = Ret (s', outs) \<and> inv s' \<and> admissible s' = admissible s
      \<and> length outs = tick_count es"
  using assms
proof (induction es arbitrary: s)
  case Nil
  then show ?case by simp
next
  case (Cons e es)
  show ?case
  proof (cases e)
    case Tick
    from tick_spec [OF Cons.prems(1)] obtain s1 out where
      "tick s = Ret (s1, out)" "inv s1" "admissible s1 = admissible s" by blast
    with Cons.IH [of s1] Cons.prems(2) Tick show ?thesis by fastforce
  next
    case (Recv m)
    with Cons.prems exec_spec [of s m] obtain s1 where
      "exec s m = Ret s1" "inv s1" "admissible s1 = admissible s" by auto
    with Cons.IH [of s1] Cons.prems(2) Recv show ?thesis by auto
  qed
qed

lemma run_pending:
  assumes "inv s" "\<forall>m. Recv m \<in> set es \<longrightarrow> admissible s m \<and> target m \<noteq> Some k"
    and "owner s a = Some k" "pending s a = Some (d, t)" "int (tick_count es) < d"
  shows "\<exists>s' outs. start tick exec s es = Ret (s', outs) \<and> inv s'
      \<and> pending s' a = Some (d - int (tick_count es), t) \<and> length outs = tick_count es"
  using assms
proof (induction es arbitrary: s d)
  case Nil
  then show ?case by simp
next
  case (Cons e es)
  show ?case
  proof (cases e)
    case Tick
    from tick_spec [OF Cons.prems(1)] obtain s1 out where s1:
      "tick s = Ret (s1, out)" "inv s1" "admissible s1 = admissible s" "owner s1 = owner s"
      "pending s1 = (\<lambda>a. countdown (pending s a))" by blast
    have "1 < d" using Cons.prems(5) Tick by simp
    with s1 Cons.prems(4) have "pending s1 a = Some (d - 1, t)" by simp
    with Cons.IH [of s1 "d - 1"] Cons.prems s1 Tick show ?thesis by fastforce
  next
    case (Recv m)
    with Cons.prems exec_spec [of s m] obtain s1 where s1:
      "exec s m = Ret s1" "inv s1" "admissible s1 = admissible s" "owner s1 a = Some k"
      "pending s1 a = Some (d, t)" by auto
    with Cons.IH [of s1 d] Cons.prems Recv show ?thesis by auto
  qed
qed

lemma fires_on_time:
  assumes "inv s" "\<forall>m. Recv m \<in> set es \<longrightarrow> admissible s m \<and> target m \<noteq> Some k"
    and "owner s a = Some k" "pending s a = Some (d, t)" "int (tick_count es) = d - 1"
  shows "\<exists>s1 s2 outs out. start tick exec s es = Ret (s1, outs) \<and> pending s1 a = Some (1, t)
      \<and> tick s1 = Ret (s2, out) \<and> show_call t \<in> set out \<and> pending s2 a = None"
proof -
  have "int (tick_count es) < d" using assms(5) by simp
  from run_pending [OF assms(1-4) this] assms(5) obtain s1 outs where s1:
    "start tick exec s es = Ret (s1, outs)" "inv s1" "pending s1 a = Some (1, t)" by auto
  with tick_spec [OF s1(2)] show ?thesis by fastforce
qed

end

end
