(* ===== verification/TimeWheel.thy ===== *)
theory TimeWheel
  imports Scheduler
begin

text \<open>
  The hashed time wheel of \<^verbatim>\<open>src/pkg/gds/timewheel.go\<close>.  The wheel keeps \<open>slotNum\<close> slots, each a
  list of pointers to \<open>timeWheelSlot\<close> objects, and a map from task ids to a position and a
  pointer.  The same object is reached from a slot and from the map, and the code relies on
  that sharing (it marks an object removed through the map and drops it when the slot is
  scanned), so the objects live in an explicit \<open>heap\<close> and the slots hold addresses.

  This theory holds the model; \<open>TimeWheelRefine\<close> holds its invariant, the countdown table it
  refines and the lemmas on it, \<open>TimeWheelProps\<close> the properties.
\<close>

section \<open>Data\<close>

text \<open>
  A task id is a Go \<open>any\<close>: nil, an id the wheel assigned itself (\<open>timeWheelTaskID\<close>), or a
  key of the caller.  Values of different dynamic types are never equal.
\<close>

datatype 'k task_key =
    NilKey
  | TaskIDKey "64 word"
  | UserKey 'k

record ('k, 'd, 'c) timeWheelTask =
  task_taskID :: "'k task_key"
  data :: 'd
  callback :: 'c

record 'k baseSlot =
  delay :: int
  taskID :: "'k task_key"

record ('k, 'd, 'c) timeWheelSlot = "'k baseSlot" +
  circle :: int
  diffPos :: int
  task :: "('k, 'd, 'c) timeWheelTask"
  removed :: bool

record timeWheelPos =
  pos :: int
  item :: nat

record ('k, 'd, 'c) TimeWheel =
  interval :: int
  slots :: "nat list list"
  timers :: "'k task_key \<Rightarrow> timeWheelPos option"
  currentPos :: int
  slotNum :: int
  currentTaskID :: "64 word"
  heap :: "('k, 'd, 'c) timeWheelSlot list"

definition base_slot :: "('k, 'd, 'c) timeWheelSlot \<Rightarrow> 'k baseSlot" where
  "base_slot it = \<lparr>delay = delay it, taskID = taskID it\<rparr>"

section \<open>Operations\<close>

definition initSlots :: "int \<Rightarrow> nat list list" where
  "initSlots n = replicate (nat n) []"

definition newTimeWheelWithTicker :: "int \<Rightarrow> int \<Rightarrow> ('k, 'd, 'c) TimeWheel" where
  "newTimeWheelWithTicker iv n =
     \<lparr>interval = iv, slots = initSlots n, timers = Map.empty, currentPos = n - 1,
      slotNum = n, currentTaskID = 0, heap = []\<rparr>"

definition NewTimeWheel :: "int \<Rightarrow> int \<Rightarrow> ('k, 'd, 'c) TimeWheel outcome" where
  "NewTimeWheel iv n =
     (if iv \<le> 0 \<or> n \<le> 0
      then Fail (Errorf ''invalid parameter 'interval' or 'slotNum' must be large than zero'')
      else Ret (newTimeWheelWithTicker iv n))"

definition getPositionAndCircle :: "('k, 'd, 'c) TimeWheel \<Rightarrow> int \<Rightarrow> int \<times> int" where
  "getPositionAndCircle tw d =
     (let steps = d sdiv interval tw
      in (wrap64 (currentPos tw + steps) smod slotNum tw, wrap64 (steps - 1) sdiv slotNum tw))"

text \<open>\<open>tw.slots[p].PushBack(a)\<close>: indexing a slice out of range panics.\<close>

definition push_back :: "('k, 'd, 'c) TimeWheel \<Rightarrow> int \<Rightarrow> nat \<Rightarrow> ('k, 'd, 'c) TimeWheel outcome" where
  "push_back tw p a =
     (if 0 \<le> p \<and> p < int (length (slots tw))
      then Ret (tw\<lparr>slots := (slots tw)[nat p := slots tw ! nat p @ [a]]\<rparr>)
      else index_panic)"

definition update_item ::
    "('k, 'd, 'c) TimeWheel \<Rightarrow> nat
     \<Rightarrow> (('k, 'd, 'c) timeWheelSlot \<Rightarrow> ('k, 'd, 'c) timeWheelSlot) \<Rightarrow> ('k, 'd, 'c) TimeWheel" where
  "update_item tw a f = tw\<lparr>heap := (heap tw)[a := f (heap tw ! a)]\<rparr>"

definition updatePosition :: "('k, 'd, 'c) TimeWheel \<Rightarrow> nat \<Rightarrow> int \<Rightarrow> ('k, 'd, 'c) TimeWheel" where
  "updatePosition tw a p =
     tw\<lparr>timers := (timers tw)(taskID (heap tw ! a) \<mapsto> \<lparr>pos = p, item = a\<rparr>)\<rparr>"

definition moveTask :: "('k, 'd, 'c) TimeWheel \<Rightarrow> 'k baseSlot \<Rightarrow> ('k, 'd, 'c) TimeWheel outcome" where
  "moveTask tw b =
     (case timers tw (taskID b) of
        None \<Rightarrow> Ret tw
      | Some posItem \<Rightarrow>
          (case getPositionAndCircle tw (delay b) of (p, c) \<Rightarrow>
             if pos posItem \<le> p then
               Ret (update_item tw (item posItem)
                      (\<lambda>it. it\<lparr>circle := c, diffPos := p - pos posItem\<rparr>))
             else if 0 < c then
               Ret (update_item tw (item posItem)
                      (\<lambda>it. it\<lparr>circle := c - 1, diffPos := slotNum tw - pos posItem + p\<rparr>))
             else
               (let tw1 = update_item tw (item posItem) (\<lambda>it. it\<lparr>removed := True\<rparr>);
                    newItem = \<lparr>delay = delay b, taskID = taskID b, circle = 0, diffPos = 0,
                               task = task (heap tw1 ! item posItem), removed = False\<rparr>;
                    a = length (heap tw1);
                    tw2 = tw1\<lparr>heap := heap tw1 @ [newItem]\<rparr>
                in go_bind (push_back tw2 p a) (\<lambda>tw3. Ret (updatePosition tw3 (item posItem) p)))))"

definition addTask ::
    "('k, 'd, 'c) TimeWheel \<Rightarrow> ('k, 'd, 'c) timeWheelSlot \<Rightarrow> ('k, 'd, 'c) TimeWheel outcome" where
  "addTask tw sl0 =
     (let sl = (if delay sl0 < interval tw then sl0\<lparr>delay := interval tw\<rparr> else sl0)
      in case timers tw (taskID sl) of
           Some posItem \<Rightarrow>
             (let tw1 = update_item tw (item posItem) (\<lambda>it. it\<lparr>task := task sl\<rparr>)
              in moveTask tw1 (base_slot (heap tw1 ! item posItem)))
         | None \<Rightarrow>
             (case getPositionAndCircle tw (delay sl) of (p, c) \<Rightarrow>
                (let a = length (heap tw);
                     tw1 = tw\<lparr>heap := heap tw @ [sl\<lparr>circle := c\<rparr>]\<rparr>
                 in go_bind (push_back tw1 p a) (\<lambda>tw2.
                      Ret (if taskID sl \<noteq> NilKey
                           then tw2\<lparr>timers := (timers tw2)(taskID sl \<mapsto> \<lparr>pos = p, item = a\<rparr>)\<rparr>
                           else tw2)))))"

definition removeTask :: "('k, 'd, 'c) TimeWheel \<Rightarrow> 'k task_key \<Rightarrow> ('k, 'd, 'c) TimeWheel" where
  "removeTask tw k =
     (case timers tw k of
        None \<Rightarrow> tw
      | Some posItem \<Rightarrow>
          (update_item tw (item posItem) (\<lambda>it. it\<lparr>removed := True\<rparr>))
             \<lparr>timers := (timers tw)(k := None)\<rparr>)"

text \<open>
  The scan of one slot.  \<open>scan\<close> walks the elements the slot has when the scan starts; an
  element that moves goes to the slot \<open>diffPos\<close> further on, which is never the scanned one
  (lemma \<open>moved_slot_differs\<close>), so the walk meets no element twice.  \<open>slot_remove\<close> is
  \<open>l.Remove(e)\<close> on the slot at the hand.
\<close>

definition slot_remove :: "('k, 'd, 'c) TimeWheel \<Rightarrow> nat \<Rightarrow> ('k, 'd, 'c) TimeWheel" where
  "slot_remove tw a =
     tw\<lparr>slots := (slots tw)[nat (currentPos tw) := remove1 a (slots tw ! nat (currentPos tw))]\<rparr>"

fun scan ::
    "('k, 'd, 'c) TimeWheel \<Rightarrow> nat list \<Rightarrow> ('k, 'd, 'c) timeWheelTask list
     \<Rightarrow> (('k, 'd, 'c) TimeWheel \<times> ('k, 'd, 'c) timeWheelTask list) outcome" where
  "scan tw [] tasks = Ret (tw, tasks)"
| "scan tw (a # es) tasks =
     (let it = heap tw ! a
      in if removed it then scan (slot_remove tw a) es tasks
         else if 0 < circle it then
           scan (update_item tw a (\<lambda>i. i\<lparr>circle := circle i - 1\<rparr>)) es tasks
         else if 0 < diffPos it then
           (let p = wrap64 (currentPos tw + diffPos it) smod slotNum tw
            in go_bind (push_back (slot_remove tw a) p a) (\<lambda>tw1.
                 scan (update_item (updatePosition tw1 a p) a (\<lambda>i. i\<lparr>diffPos := 0\<rparr>)) es tasks))
         else
           scan ((slot_remove tw a)\<lparr>timers := (timers tw)(taskID it := None)\<rparr>) es
                (tasks @ [task it]))"

text \<open>\<open>doTasks\<close> calls the callbacks in order; the calls are the observable output.\<close>

definition doTasks :: "('k, 'd, 'c) timeWheelTask list \<Rightarrow> ('c \<times> 'k task_key \<times> 'd) list" where
  "doTasks tasks = map (\<lambda>t. (callback t, task_taskID t, data t)) tasks"

definition scanAndRunTask ::
    "('k, 'd, 'c) TimeWheel \<Rightarrow> nat list
     \<Rightarrow> (('k, 'd, 'c) TimeWheel \<times> ('c \<times> 'k task_key \<times> 'd) list) outcome" where
  "scanAndRunTask tw l = go_bind (scan tw l []) (\<lambda>(tw', tasks). Ret (tw', doTasks tasks))"

definition tickHandler ::
    "('k, 'd, 'c) TimeWheel
     \<Rightarrow> (('k, 'd, 'c) TimeWheel \<times> ('c \<times> 'k task_key \<times> 'd) list) outcome" where
  "tickHandler tw =
     (let tw1 = tw\<lparr>currentPos := wrap64 (currentPos tw + 1) smod slotNum tw\<rparr>
      in if 0 \<le> currentPos tw1 \<and> currentPos tw1 < int (length (slots tw1))
         then scanAndRunTask tw1 (slots tw1 ! nat (currentPos tw1))
         else index_panic)"

section \<open>The loop and its callers\<close>

text \<open>
  \<open>start\<close> (in \<open>Scheduler\<close>) is a goroutine that serves one channel at a time, so a run of the
  wheel is a sequence of ticks and messages.  The exported methods check their arguments and
  send a message.  \<open>new_slot\<close> is the object \<open>AddTimer\<close> sends to the loop: Go's zero values for
  the fields it does not set.
\<close>

definition new_slot :: "int \<Rightarrow> 'k task_key \<Rightarrow> ('k, 'd, 'c) timeWheelTask \<Rightarrow> ('k, 'd, 'c) timeWheelSlot" where
  "new_slot d k t =
     \<lparr>delay = d, taskID = k, circle = 0, diffPos = 0, task = t, removed = False\<rparr>"

datatype ('k, 'd, 'c) wheel_msg =
    AddMsg "('k, 'd, 'c) timeWheelSlot"
  | RemoveMsg "'k task_key"
  | MoveMsg "'k baseSlot"

abbreviation ErrTimeWheelArgument :: go_error where
  "ErrTimeWheelArgument \<equiv> Sentinel ''incorrect task argument''"

abbreviation ErrTimeWheelArgumentDelay :: go_error where
  "ErrTimeWheelArgumentDelay \<equiv> Sentinel ''parameter 'delay' must be large than zero''"

abbreviation ErrTimeWheelStop :: go_error where
  "ErrTimeWheelStop \<equiv> Sentinel ''time wheel is stopped''"

definition AddTimer :: "'k task_key \<Rightarrow> 'd \<Rightarrow> int \<Rightarrow> 'c \<Rightarrow> ('k, 'd, 'c) wheel_msg outcome" where
  "AddTimer k x d cb =
     (if d \<le> 0 then Fail ErrTimeWheelArgumentDelay
      else Ret (AddMsg (new_slot d k \<lparr>task_taskID = k, data = x, callback = cb\<rparr>)))"

definition AddTask ::
    "('k, 'd, 'c) TimeWheel \<Rightarrow> 'd \<Rightarrow> int \<Rightarrow> 'c
     \<Rightarrow> ('k, 'd, 'c) TimeWheel \<times> ('k task_key \<times> ('k, 'd, 'c) wheel_msg) outcome" where
  "AddTask tw x d cb =
     (if d \<le> 0 then (tw, Fail ErrTimeWheelArgumentDelay)
      else (let tid = TaskIDKey (currentTaskID tw)
            in (tw\<lparr>currentTaskID := currentTaskID tw + 1\<rparr>,
                go_bind (AddTimer tid x d cb) (\<lambda>m. Ret (tid, m)))))"

definition ResetTask :: "'k task_key \<Rightarrow> int \<Rightarrow> ('k, 'd, 'c) wheel_msg outcome" where
  "ResetTask k d =
     (if d \<le> 0 \<or> k = NilKey then Fail ErrTimeWheelArgument
      else Ret (MoveMsg \<lparr>delay = d, taskID = k\<rparr>))"

definition RemoveTask :: "'k task_key \<Rightarrow> ('k, 'd, 'c) wheel_msg outcome" where
  "RemoveTask k = (if k = NilKey then Fail ErrTimeWheelArgument else Ret (RemoveMsg k))"

fun handle :: "('k, 'd, 'c) TimeWheel \<Rightarrow> ('k, 'd, 'c) wheel_msg \<Rightarrow> ('k, 'd, 'c) TimeWheel outcome" where
  "handle tw (AddMsg sl) = addTask tw sl"
| "handle tw (RemoveMsg k) = Ret (removeTask tw k)"
| "handle tw (MoveMsg b) = moveTask tw b"

section \<open>Stopping\<close>

text \<open>
  The wheel with its control state: whether \<open>stopChan\<close> is closed and whether the loop still
  runs.  An unbuffered send completes when the loop receives it, and the select of a caller
  may take the stop branch once the channel is closed, also while the loop is still running.
\<close>

record ('k, 'd, 'c) wheel_sys =
  wheel :: "('k, 'd, 'c) TimeWheel"
  stop_closed :: bool
  loop_running :: bool

definition Stop :: "('k, 'd, 'c) wheel_sys \<Rightarrow> ('k, 'd, 'c) wheel_sys outcome" where
  "Stop s = (if stop_closed s then Panic ''close of closed channel'' else Ret (s\<lparr>stop_closed := True\<rparr>))"

inductive send ::
    "('k, 'd, 'c) wheel_sys \<Rightarrow> ('k, 'd, 'c) wheel_msg \<Rightarrow> go_error option \<Rightarrow> ('k, 'd, 'c) wheel_sys \<Rightarrow> bool" where
  sent: "loop_running s \<Longrightarrow> handle (wheel s) m = Ret w \<Longrightarrow> send s m None (s\<lparr>wheel := w\<rparr>)"
| refused: "stop_closed s \<Longrightarrow> send s m (Some ErrTimeWheelStop) s"

inductive_cases sendE: "send s m r s'"

inductive sys_step :: "('k, 'd, 'c) wheel_sys \<Rightarrow> ('k, 'd, 'c) wheel_sys \<Rightarrow> bool" where
  loop_tick: "loop_running s \<Longrightarrow> tickHandler (wheel s) = Ret (w, calls) \<Longrightarrow> sys_step s (s\<lparr>wheel := w\<rparr>)"
| call: "send s m r s' \<Longrightarrow> sys_step s s'"
| stop: "Stop s = Ret s' \<Longrightarrow> sys_step s s'"
| loop_exit: "loop_running s \<Longrightarrow> stop_closed s \<Longrightarrow> sys_step s (s\<lparr>loop_running := False\<rparr>)"

inductive sys_reach :: "('k, 'd, 'c) wheel_sys \<Rightarrow> bool" where
  init: "NewTimeWheel iv n = Ret w \<Longrightarrow> sys_reach \<lparr>wheel = w, stop_closed = False, loop_running = True\<rparr>"
| step: "sys_reach s \<Longrightarrow> sys_step s s' \<Longrightarrow> sys_reach s'"

end
