(* ===== verification/TimeWheelRefine.thy ===== *)
theory TimeWheelRefine
  imports TimeWheel
begin

text \<open>
  The time wheel of \<open>TimeWheel\<close> refines a countdown table: \<open>abs_wheel\<close> gives for each object
  the ticks it still has to wait and its task.  The sections follow the operations: the
  invariant \<open>tw_inv\<close>, the scan of one slot, the tick, adding, removing and moving a task, the
  handler of a message, and the instance of \<open>countdown_scheduler\<close>.
\<close>

section \<open>Invariant and abstraction\<close>

text \<open>The slot an address is in; the slots share no address (\<open>slots_wf\<close>).\<close>

definition slot_index :: "nat list list \<Rightarrow> nat \<Rightarrow> nat option" where
  "slot_index xss a = find (\<lambda>i. a \<in> set (xss ! i)) [0..<length xss]"

definition slots_wf :: "nat list list \<Rightarrow> bool" where
  "slots_wf xss \<longleftrightarrow>
     (\<forall>i < length xss. distinct (xss ! i)) \<and>
     (\<forall>i < length xss. \<forall>j < length xss. i \<noteq> j \<longrightarrow> set (xss ! i) \<inter> set (xss ! j) = {})"

lemma slot_index_SomeD:
  "slot_index xss a = Some i \<Longrightarrow> i < length xss \<and> a \<in> set (xss ! i)"
  by (auto simp: slot_index_def find_Some_iff)

lemma slot_index_None_iff:
  "slot_index xss a = None \<longleftrightarrow> (\<forall>i < length xss. a \<notin> set (xss ! i))"
  by (auto simp: slot_index_def find_None_iff)

lemma slot_index_Some_iff:
  assumes "slots_wf xss"
  shows "slot_index xss a = Some i \<longleftrightarrow> i < length xss \<and> a \<in> set (xss ! i)"
proof
  assume i: "i < length xss \<and> a \<in> set (xss ! i)"
  then obtain j where j: "slot_index xss a = Some j"
    by (cases "slot_index xss a") (auto simp: slot_index_None_iff)
  from slot_index_SomeD [OF this] i assms have "j = i"
    by (auto simp: slots_wf_def disjoint_iff)
  with j show "slot_index xss a = Some i" by simp
qed (rule slot_index_SomeD)

lemma slot_index_eqI:
  assumes "slots_wf xss" "slots_wf yss" "length xss = length yss"
    and "\<And>i. i < length xss \<Longrightarrow> a \<in> set (xss ! i) \<longleftrightarrow> a \<in> set (yss ! i)"
  shows "slot_index xss a = slot_index yss a"
proof (cases "slot_index yss a")
  case None
  with assms(3,4) have "slot_index xss a = None" by (simp add: slot_index_None_iff)
  with None show ?thesis by simp
next
  case (Some j)
  with assms have "slot_index xss a = Some j" by (simp add: slot_index_Some_iff)
  with Some show ?thesis by simp
qed

lemma slots_wf_remove1:
  assumes "slots_wf xss" "i < length xss"
  shows "slots_wf (xss[i := remove1 a (xss ! i)])"
  using assms by (fastforce simp: slots_wf_def nth_list_update dest: notin_set_remove1)

lemma slot_index_remove1:
  assumes wf: "slots_wf xss" and i: "i < length xss" and a: "a \<in> set (xss ! i)"
  shows "slot_index (xss[i := remove1 a (xss ! i)]) b = (if b = a then None else slot_index xss b)"
proof (cases "b = a")
  case True
  with assms show ?thesis
    by (auto simp: slot_index_None_iff nth_list_update slots_wf_def)
next
  case False
  with i have "slot_index (xss[i := remove1 a (xss ! i)]) b = slot_index xss b"
    by (intro slot_index_eqI slots_wf_remove1 wf) (auto simp: nth_list_update)
  with False show ?thesis by simp
qed

lemma slots_wf_append:
  assumes "slots_wf xss" "i < length xss" "slot_index xss a = None"
  shows "slots_wf (xss[i := xss ! i @ [a]])"
  using assms by (auto simp: slots_wf_def nth_list_update slot_index_None_iff)

lemma slot_index_append:
  assumes wf: "slots_wf xss" and i: "i < length xss" and a: "slot_index xss a = None"
  shows "slot_index (xss[i := xss ! i @ [a]]) b = (if b = a then Some i else slot_index xss b)"
proof (cases "b = a")
  case True
  with i slots_wf_append [OF assms] show ?thesis by (simp add: slot_index_Some_iff)
next
  case False
  with i have "slot_index (xss[i := xss ! i @ [a]]) b = slot_index xss b"
    by (intro slot_index_eqI slots_wf_append wf a) (auto simp: nth_list_update)
  with False show ?thesis by simp
qed

text \<open>
  The invariant.  \<open>delay_fits\<close> keeps a delay small enough that its ticks added to the hand do
  not overflow an \<open>int\<close> (with a tick of one millisecond: 292 million years).  A map entry leads to an object with the entry's key, and either that object
  is marked removed or it is in the slot the entry names.
\<close>

definition delay_fits :: "int \<Rightarrow> int \<Rightarrow> int \<Rightarrow> bool" where
  "delay_fits iv n d \<longleftrightarrow> 0 \<le> d \<and> n + d div iv \<le> 2 ^ 63"

definition item_ok :: "int \<Rightarrow> int \<Rightarrow> ('k, 'd, 'c) timeWheelSlot \<Rightarrow> bool" where
  "item_ok iv n it \<longleftrightarrow> delay_fits iv n (delay it) \<and>
     -1 \<le> circle it \<and> 0 \<le> diffPos it \<and> diffPos it < n \<and> (0 < diffPos it \<longrightarrow> taskID it \<noteq> NilKey)"

definition timer_ok :: "('k, 'd, 'c) TimeWheel \<Rightarrow> 'k task_key \<Rightarrow> timeWheelPos \<Rightarrow> bool" where
  "timer_ok tw k pi \<longleftrightarrow>
     k \<noteq> NilKey \<and> item pi < length (heap tw) \<and> taskID (heap tw ! item pi) = k \<and>
     0 \<le> pos pi \<and> pos pi < slotNum tw \<and>
     (\<not> removed (heap tw ! item pi) \<longrightarrow> slot_index (slots tw) (item pi) = Some (nat (pos pi)))"

definition tw_inv :: "('k, 'd, 'c) TimeWheel \<Rightarrow> bool" where
  "tw_inv tw \<longleftrightarrow>
     0 < interval tw \<and> 0 < slotNum tw \<and> slotNum tw < 2 ^ 62 \<and>
     length (slots tw) = nat (slotNum tw) \<and>
     0 \<le> currentPos tw \<and> currentPos tw < slotNum tw \<and>
     slots_wf (slots tw) \<and>
     (\<forall>a i. slot_index (slots tw) a = Some i \<longrightarrow> a < length (heap tw)) \<and>
     (\<forall>it \<in> set (heap tw). item_ok (interval tw) (slotNum tw) it) \<and>
     (\<forall>k pi. timers tw k = Some pi \<longrightarrow> timer_ok tw k pi)"

text \<open>
  Ticks left for an object in slot \<open>p\<close>: the way of the hand to that slot (at least one tick,
  at most a full turn), the full turns still to wait, and the slots to move on afterwards.
\<close>

definition hand_distance :: "('k, 'd, 'c) TimeWheel \<Rightarrow> int \<Rightarrow> int" where
  "hand_distance tw p = (p - currentPos tw - 1) mod slotNum tw + 1"

definition due :: "('k, 'd, 'c) TimeWheel \<Rightarrow> int \<Rightarrow> ('k, 'd, 'c) timeWheelSlot \<Rightarrow> int" where
  "due tw p it = hand_distance tw p + max 0 (circle it) * slotNum tw + diffPos it"

definition abs_wheel ::
    "('k, 'd, 'c) TimeWheel \<Rightarrow> nat \<Rightarrow> (int \<times> ('k, 'd, 'c) timeWheelTask) option" where
  "abs_wheel tw a =
     (case slot_index (slots tw) a of
        None \<Rightarrow> None
      | Some p \<Rightarrow> if removed (heap tw ! a) then None
                  else Some (due tw (int p) (heap tw ! a), task (heap tw ! a)))"

section \<open>Invariant: the fields an operation leaves alone\<close>

lemma hand_distance_bounds:
  assumes "0 < slotNum tw"
  shows "1 \<le> hand_distance tw p" "hand_distance tw p \<le> slotNum tw"
  using pos_mod_bound [OF assms, of "p - currentPos tw - 1"]
    pos_mod_sign [OF assms, of "p - currentPos tw - 1"]
  by (auto simp: hand_distance_def)

lemma tw_invD:
  assumes "tw_inv tw"
  shows "0 < interval tw" "0 < slotNum tw" "slotNum tw < 2 ^ 62"
    "length (slots tw) = nat (slotNum tw)" "0 \<le> currentPos tw" "currentPos tw < slotNum tw"
    "slots_wf (slots tw)"
  using assms by (simp_all add: tw_inv_def)

lemma tw_inv_addr: "tw_inv tw \<Longrightarrow> slot_index (slots tw) a = Some i \<Longrightarrow> a < length (heap tw)"
  by (auto simp: tw_inv_def)

lemma tw_inv_slot: "tw_inv tw \<Longrightarrow> slot_index (slots tw) a = Some i \<Longrightarrow> int i < slotNum tw"
  using tw_invD(4) slot_index_SomeD by fastforce

lemma tw_inv_item: "tw_inv tw \<Longrightarrow> a < length (heap tw) \<Longrightarrow> item_ok (interval tw) (slotNum tw) (heap tw ! a)"
  by (auto simp: tw_inv_def)

lemma tw_inv_timer: "tw_inv tw \<Longrightarrow> timers tw k = Some pi \<Longrightarrow> timer_ok tw k pi"
  by (auto simp: tw_inv_def)

lemma tw_inv_timer_slot:
  "tw_inv tw \<Longrightarrow> timers tw k = Some pi \<Longrightarrow> \<not> removed (heap tw ! item pi)
   \<Longrightarrow> slot_index (slots tw) (item pi) = Some (nat (pos pi))"
  using tw_inv_timer by (fastforce simp: timer_ok_def)

text \<open>An object update that keeps the key and the bounds keeps the invariant.\<close>

lemma tw_inv_update_item:
  assumes inv: "tw_inv tw" and a: "a < length (heap tw)"
    and f: "taskID (f (heap tw ! a)) = taskID (heap tw ! a)"
      "removed (heap tw ! a) \<Longrightarrow> removed (f (heap tw ! a))"
      "item_ok (interval tw) (slotNum tw) (f (heap tw ! a))"
  shows "tw_inv (update_item tw a f)"
proof -
  have "timer_ok (update_item tw a f) k pi" if "timers tw k = Some pi" for k pi
    using tw_inv_timer [OF inv that] f a
    by (auto simp: timer_ok_def update_item_def nth_list_update)
  with assms show ?thesis
    by (auto simp: tw_inv_def update_item_def dest!: set_update_subset_insert [THEN subsetD])
qed

lemma abs_update_item:
  assumes "a < length (heap tw)"
  shows "abs_wheel (update_item tw a f) b =
    (if b = a
     then (case slot_index (slots tw) a of
             None \<Rightarrow> None
           | Some p \<Rightarrow> if removed (f (heap tw ! a)) then None
                       else Some (due tw (int p) (f (heap tw ! a)), task (f (heap tw ! a))))
     else abs_wheel tw b)"
  using assms
  by (auto simp: abs_wheel_def update_item_def due_def hand_distance_def split: option.splits)

lemma abs_removed [simp]: "removed (heap tw ! a) \<Longrightarrow> abs_wheel tw a = None"
  by (simp add: abs_wheel_def split: option.splits)

lemma abs_reschedule:
  assumes "a < length (heap tw)" "\<not> removed (heap tw ! a) \<Longrightarrow> slot_index (slots tw) a = Some i"
    and "removed (f (heap tw ! a)) = removed (heap tw ! a)" "task (f (heap tw ! a)) = task (heap tw ! a)"
  shows "abs_wheel (update_item tw a f) =
    (if removed (heap tw ! a) then abs_wheel tw
     else (abs_wheel tw)(a \<mapsto> (due tw (int i) (f (heap tw ! a)), task (heap tw ! a))))"
  using assms by (auto simp: fun_eq_iff abs_update_item split: option.splits)

text \<open>The map of timers is not part of the abstraction.\<close>

lemma abs_timers [simp]: "abs_wheel (tw\<lparr>timers := t\<rparr>) = abs_wheel tw"
  by (auto simp: abs_wheel_def due_def hand_distance_def fun_eq_iff split: option.splits)

lemma abs_updatePosition [simp]: "abs_wheel (updatePosition tw a p) = abs_wheel tw"
  by (simp add: updatePosition_def)

section \<open>One element of the scan\<close>

text \<open>
  \<open>at_hand tw a\<close>: the address is in the slot at the hand, so the scan meets it.  For such an
  object the distance of the hand is a full turn, and meeting it takes that turn off.
\<close>

definition at_hand :: "('k, 'd, 'c) TimeWheel \<Rightarrow> nat \<Rightarrow> bool" where
  "at_hand tw a \<longleftrightarrow> slot_index (slots tw) a = Some (nat (currentPos tw))"

definition full_turn :: "int \<Rightarrow> (int \<times> 't) option \<Rightarrow> (int \<times> 't) option" where
  "full_turn n x = (case x of None \<Rightarrow> None
                    | Some (d, t) \<Rightarrow> if d \<le> n then None else Some (d - n, t))"

lemma hand_distance_at_hand [simp]:
  "0 < slotNum tw \<Longrightarrow> hand_distance tw (currentPos tw) = slotNum tw"
  by (simp add: hand_distance_def zmod_minus1)

lemma abs_at_hand:
  assumes "tw_inv tw" "at_hand tw a"
  shows "abs_wheel tw a =
    (if removed (heap tw ! a) then None
     else Some (slotNum tw + max 0 (circle (heap tw ! a)) * slotNum tw + diffPos (heap tw ! a),
                task (heap tw ! a)))"
  using assms tw_invD [OF assms(1)] by (simp add: abs_wheel_def at_hand_def due_def)

lemma wrap64_hand:
  assumes "tw_inv tw" "0 \<le> d" "currentPos tw + d < 2 ^ 63"
  shows "wrap64 (currentPos tw + d) smod slotNum tw = (currentPos tw + d) mod slotNum tw"
  using assms(2,3) tw_invD(2,5) [OF assms(1)] by (simp add: wrap64_id smod_nonneg)

lemma moved_slot:
  assumes "tw_inv tw" "0 < d" "d < slotNum tw"
  defines "p \<equiv> wrap64 (currentPos tw + d) smod slotNum tw"
  shows "p = (currentPos tw + d) mod slotNum tw" "0 \<le> p" "p < slotNum tw" "hand_distance tw p = d"
proof -
  show p: "p = (currentPos tw + d) mod slotNum tw"
    unfolding p_def using assms(2,3) tw_invD(3,6) [OF assms(1)]
    by (intro wrap64_hand assms(1)) simp_all
  note [simp] = tw_invD [OF assms(1)]
  show "0 \<le> p" "p < slotNum tw" by (simp_all add: p)
  have "(p - currentPos tw - 1) mod slotNum tw = (d - 1) mod slotNum tw"
    by (simp add: p mod_diff_left_eq algebra_simps)
  with assms(2,3) show "hand_distance tw p = d" by (simp add: hand_distance_def)
qed

lemma moved_slot_differs:
  assumes "tw_inv tw" "0 < d" "d < slotNum tw"
  shows "wrap64 (currentPos tw + d) smod slotNum tw \<noteq> currentPos tw"
  using moved_slot(4) [OF assms] tw_invD(2) [OF assms(1)] assms(3) by auto

lemma slot_remove_simps [simp]:
  "heap (slot_remove tw a) = heap tw" "timers (slot_remove tw a) = timers tw"
  "currentPos (slot_remove tw a) = currentPos tw" "slotNum (slot_remove tw a) = slotNum tw"
  "interval (slot_remove tw a) = interval tw" "length (slots (slot_remove tw a)) = length (slots tw)"
  by (simp_all add: slot_remove_def)

lemma at_hand_slot:
  assumes "tw_inv tw" "at_hand tw a"
  shows "nat (currentPos tw) < length (slots tw)" "a \<in> set (slots tw ! nat (currentPos tw))"
  using assms slot_index_SomeD by (auto simp: at_hand_def)

lemma slots_slot_remove:
  assumes "tw_inv tw" "at_hand tw a"
  shows "slots_wf (slots (slot_remove tw a))"
    "slot_index (slots (slot_remove tw a)) b = (if b = a then None else slot_index (slots tw) b)"
  using at_hand_slot [OF assms] tw_invD(7) [OF assms(1)]
  by (simp_all add: slot_remove_def slots_wf_remove1 slot_index_remove1)

lemma abs_slot_remove:
  assumes "tw_inv tw" "at_hand tw a"
  shows "abs_wheel (slot_remove tw a) b = (if b = a then None else abs_wheel tw b)"
  using assms
  by (simp add: abs_wheel_def slots_slot_remove due_def hand_distance_def split: option.splits)

lemma tw_inv_drop:
  assumes inv: "tw_inv tw" and a: "at_hand tw a"
    and t: "\<And>k pi. t k = Some pi \<Longrightarrow> timers tw k = Some pi \<and> (item pi = a \<longrightarrow> removed (heap tw ! a))"
  shows "tw_inv ((slot_remove tw a)\<lparr>timers := t\<rparr>)"
proof -
  have "timer_ok ((slot_remove tw a)\<lparr>timers := t\<rparr>) k pi" if "t k = Some pi" for k pi
    using tw_inv_timer [OF inv, of k pi] t [OF that] slots_slot_remove(2) [OF inv a]
    by (auto simp: timer_ok_def)
  with inv show ?thesis
    by (auto simp: tw_inv_def slots_slot_remove [OF inv a] split: if_splits)
qed

text \<open>The object is moved \<open>diffPos\<close> slots on: the third branch of the scan.\<close>

definition shift_item :: "('k, 'd, 'c) TimeWheel \<Rightarrow> nat \<Rightarrow> int \<Rightarrow> ('k, 'd, 'c) TimeWheel" where
  "shift_item tw a p =
     update_item
       (updatePosition
          ((slot_remove tw a)\<lparr>slots := (slots (slot_remove tw a))
              [nat p := slots (slot_remove tw a) ! nat p @ [a]]\<rparr>) a p)
       a (\<lambda>i. i\<lparr>diffPos := 0\<rparr>)"

lemma shift_item_simps [simp]:
  "interval (shift_item tw a p) = interval tw" "slotNum (shift_item tw a p) = slotNum tw"
  "currentPos (shift_item tw a p) = currentPos tw"
  "length (slots (shift_item tw a p)) = length (slots tw)"
  "heap (shift_item tw a p) = (heap tw)[a := (heap tw ! a)\<lparr>diffPos := 0\<rparr>]"
  "timers (shift_item tw a p) = (timers tw)(taskID (heap tw ! a) \<mapsto> \<lparr>pos = p, item = a\<rparr>)"
  by (simp_all add: shift_item_def update_item_def updatePosition_def slot_remove_def)

lemma slots_shift_item:
  assumes "tw_inv tw" "at_hand tw a" "0 \<le> p" "p < slotNum tw"
  shows "slots_wf (slots (shift_item tw a p))"
    "slot_index (slots (shift_item tw a p)) b = (if b = a then Some (nat p) else slot_index (slots tw) b)"
proof -
  have "nat p < length (slots (slot_remove tw a))"
    using tw_invD(4) [OF assms(1)] assms(3,4) by simp
  then show "slots_wf (slots (shift_item tw a p))"
    "slot_index (slots (shift_item tw a p)) b = (if b = a then Some (nat p) else slot_index (slots tw) b)"
    by (simp_all add: shift_item_def update_item_def updatePosition_def slots_wf_append
        slot_index_append slots_slot_remove [OF assms(1,2)])
qed

lemma tw_inv_shift_item:
  assumes inv: "tw_inv tw" and a: "at_hand tw a" and p: "0 \<le> p" "p < slotNum tw"
    and d: "0 < diffPos (heap tw ! a)"
  shows "tw_inv (shift_item tw a p)"
proof -
  have al: "a < length (heap tw)" using inv a by (auto simp: at_hand_def intro: tw_inv_addr)
  have ok: "item_ok (interval tw) (slotNum tw) (heap tw ! a)" using inv al by (rule tw_inv_item)
  have "timer_ok (shift_item tw a p) k pi" if "timers (shift_item tw a p) k = Some pi" for k pi
  proof (cases "k = taskID (heap tw ! a)")
    case True
    with that ok d al p show ?thesis
      by (auto simp: timer_ok_def slots_shift_item [OF inv a p] item_ok_def)
  next
    case False
    with that have "timer_ok tw k pi" by (intro tw_inv_timer [OF inv]) simp
    with False al show ?thesis
      by (auto simp: timer_ok_def slots_shift_item [OF inv a p] nth_list_update)
  qed
  moreover have "\<forall>it \<in> set (heap (shift_item tw a p)). item_ok (interval tw) (slotNum tw) it"
    using inv ok d
    by (auto simp: tw_inv_def item_ok_def dest!: set_update_subset_insert [THEN subsetD])
  ultimately show ?thesis
    using inv al p by (auto simp: tw_inv_def slots_shift_item [OF inv a p] split: if_splits)
qed

lemma abs_shift_item:
  assumes inv: "tw_inv tw" and a: "at_hand tw a" and p: "0 \<le> p" "p < slotNum tw"
    and it: "\<not> removed (heap tw ! a)" "circle (heap tw ! a) \<le> 0"
  shows "abs_wheel (shift_item tw a p) b =
    (if b = a then Some (hand_distance tw p, task (heap tw ! a)) else abs_wheel tw b)"
proof -
  have "a < length (heap tw)" using inv a by (auto simp: at_hand_def intro: tw_inv_addr)
  with it p show ?thesis
    by (auto simp: abs_wheel_def slots_shift_item [OF inv a p] due_def hand_distance_def
        split: option.splits)
qed

section \<open>The scan of a slot\<close>

definition scan_one :: "('k, 'd, 'c) TimeWheel \<Rightarrow> nat \<Rightarrow> ('k, 'd, 'c) TimeWheel" where
  "scan_one tw a =
     (let it = heap tw ! a
      in if removed it then slot_remove tw a
         else if 0 < circle it then update_item tw a (\<lambda>i. i\<lparr>circle := circle i - 1\<rparr>)
         else if 0 < diffPos it then
           shift_item tw a (wrap64 (currentPos tw + diffPos it) smod slotNum tw)
         else (slot_remove tw a)\<lparr>timers := (timers tw)(taskID it := None)\<rparr>)"

definition expiring :: "int \<Rightarrow> (nat \<Rightarrow> (int \<times> 't) option) \<Rightarrow> nat \<Rightarrow> 't list" where
  "expiring n m a = (case m a of Some (d, t) \<Rightarrow> if d \<le> n then [t] else [] | None \<Rightarrow> [])"

lemma at_hand_item:
  assumes "tw_inv tw" "at_hand tw a"
  shows "a < length (heap tw)" "item_ok (interval tw) (slotNum tw) (heap tw ! a)"
  using assms by (auto simp: at_hand_def intro: tw_inv_addr tw_inv_item)

lemma scan_Cons:
  assumes inv: "tw_inv tw" and a: "at_hand tw a"
  shows "scan tw (a # es) tasks = scan (scan_one tw a) es (tasks @ expiring (slotNum tw) (abs_wheel tw) a)"
proof -
  let ?it = "heap tw ! a"
  let ?p = "wrap64 (currentPos tw + diffPos ?it) smod slotNum tw"
  have N: "0 < slotNum tw" "length (slots tw) = nat (slotNum tw)" using tw_invD [OF inv] by auto
  have pb: "push_back (slot_remove tw a) ?p a = Ret ((slot_remove tw a)\<lparr>slots :=
      (slots (slot_remove tw a))[nat ?p := slots (slot_remove tw a) ! nat ?p @ [a]]\<rparr>)"
    if "0 < diffPos ?it"
    using moved_slot(2,3) [OF inv that] at_hand_item(2) [OF assms] N
    by (simp add: push_back_def item_ok_def)
  have "0 < circle ?it \<Longrightarrow> slotNum tw < slotNum tw + circle ?it * slotNum tw + diffPos ?it"
    using at_hand_item(2) [OF assms] N(1) by (simp add: item_ok_def add_pos_nonneg)
  then show ?thesis
    using at_hand_item(2) [OF assms]
    by (auto simp: scan_one_def Let_def pb shift_item_def expiring_def abs_at_hand [OF assms]
        item_ok_def not_le)
qed

lemma scan_one_frame [simp]:
  "interval (scan_one tw a) = interval tw" "slotNum (scan_one tw a) = slotNum tw"
  "currentPos (scan_one tw a) = currentPos tw" "length (heap (scan_one tw a)) = length (heap tw)"
  "length (slots (scan_one tw a)) = length (slots tw)"
  "currentTaskID (scan_one tw a) = currentTaskID tw"
  by (simp_all add: scan_one_def Let_def update_item_def)
     (simp_all add: shift_item_def update_item_def updatePosition_def slot_remove_def)

lemma map_taskID_update [simp]:
  "taskID it = taskID (xs ! a) \<Longrightarrow> map taskID (xs[a := it]) = map taskID xs"
  by (cases "a < length xs") (simp_all add: map_update list_update_same_conv list_update_beyond)

lemma scan_one_keys [simp]: "map taskID (heap (scan_one tw a)) = map taskID (heap tw)"
  by (simp add: scan_one_def Let_def update_item_def)

lemma scan_one_inv:
  assumes inv: "tw_inv tw" and a: "at_hand tw a"
  shows "tw_inv (scan_one tw a)"
proof -
  let ?it = "heap tw ! a"
  note ok = at_hand_item [OF assms]
  have drop: "tw_inv (slot_remove tw a)" if "removed ?it"
    using tw_inv_drop [OF inv a, of "timers tw"] that by (simp add: slot_remove_def)
  have dec: "tw_inv (update_item tw a (\<lambda>i. i\<lparr>circle := circle i - 1\<rparr>))" if "0 < circle ?it"
    using ok that by (intro tw_inv_update_item inv) (auto simp: item_ok_def)
  have shift: "tw_inv (shift_item tw a (wrap64 (currentPos tw + diffPos ?it) smod slotNum tw))"
    if "0 < diffPos ?it"
    using moved_slot(2,3) [OF inv that] ok that
    by (intro tw_inv_shift_item inv a) (auto simp: item_ok_def)
  have fire: "tw_inv ((slot_remove tw a)\<lparr>timers := (timers tw)(taskID ?it := None)\<rparr>)"
    using tw_inv_timer [OF inv]
    by (intro tw_inv_drop inv a) (auto simp: timer_ok_def split: if_splits)
  show ?thesis
    using drop dec shift fire by (auto simp: scan_one_def Let_def)
qed

lemma scan_one_abs:
  assumes inv: "tw_inv tw" and a: "at_hand tw a"
  shows "abs_wheel (scan_one tw a) b =
    (if b = a then full_turn (slotNum tw) (abs_wheel tw a) else abs_wheel tw b)"
proof -
  let ?it = "heap tw ! a"
  note ok = at_hand_item [OF assms] and N = tw_invD(2) [OF inv]
  let ?p = "wrap64 (currentPos tw + diffPos ?it) smod slotNum tw"
  have shift: "abs_wheel (shift_item tw a ?p) b =
      (if b = a then Some (diffPos ?it, task ?it) else abs_wheel tw b)"
    if "0 < diffPos ?it" "\<not> 0 < circle ?it" "\<not> removed ?it"
    using moved_slot(2,3,4) [OF inv that(1)] ok that
    by (subst abs_shift_item [OF assms]) (auto simp: item_ok_def)
  have "0 < circle ?it \<Longrightarrow> slotNum tw < slotNum tw + circle ?it * slotNum tw + diffPos ?it"
    using ok(2) N by (simp add: item_ok_def add_pos_nonneg)
  with a shift show ?thesis
    using ok N tw_invD(5) [OF inv]
    by (auto simp: scan_one_def Let_def abs_slot_remove [OF assms] abs_update_item
        abs_at_hand [OF assms] full_turn_def due_def item_ok_def at_hand_def algebra_simps max_def)
qed

lemma scan_one_at_hand:
  assumes inv: "tw_inv tw" and a: "at_hand tw a" and b: "b \<noteq> a"
  shows "at_hand (scan_one tw a) b = at_hand tw b"
proof -
  have "at_hand (shift_item tw a (wrap64 (currentPos tw + diffPos (heap tw ! a)) smod slotNum tw)) b
      = at_hand tw b" if "0 < diffPos (heap tw ! a)"
    using moved_slot(2,3) [OF inv that] at_hand_item(2) [OF inv a] b
    by (auto simp: at_hand_def slots_shift_item [OF inv a] item_ok_def)
  with b show ?thesis
    by (simp add: scan_one_def Let_def)
       (simp add: at_hand_def update_item_def slots_slot_remove [OF inv a])
qed

lemma scan_correct:
  assumes "tw_inv tw" "distinct es" "\<forall>a \<in> set es. at_hand tw a"
  shows "\<exists>tw'. scan tw es tasks
          = Ret (tw', tasks @ concat (map (expiring (slotNum tw) (abs_wheel tw)) es))
      \<and> tw_inv tw' \<and> slotNum tw' = slotNum tw \<and> interval tw' = interval tw
      \<and> map taskID (heap tw') = map taskID (heap tw)
      \<and> abs_wheel tw' = (\<lambda>b. if b \<in> set es then full_turn (slotNum tw) (abs_wheel tw b)
                             else abs_wheel tw b)"
  using assms
proof (induction es arbitrary: tw tasks)
  case Nil
  then show ?case by auto
next
  case (Cons a es)
  let ?tw = "scan_one tw a"
  have a: "at_hand tw a" using Cons.prems(3) by simp
  have "at_hand ?tw b" if "b \<in> set es" for b
    using Cons.prems that scan_one_at_hand [OF Cons.prems(1) a, of b] by auto
  then have es: "\<forall>b \<in> set es. at_hand ?tw b" by blast
  note abs1 = scan_one_abs [OF Cons.prems(1) a]
  have exp: "map (expiring (slotNum tw) (abs_wheel ?tw)) es = map (expiring (slotNum tw) (abs_wheel tw)) es"
    using Cons.prems(2) by (auto simp: expiring_def abs1)
  from Cons.IH [OF scan_one_inv [OF Cons.prems(1) a] _ es,
      of "tasks @ expiring (slotNum tw) (abs_wheel tw) a"] Cons.prems(2)
  obtain tw' where tw': "scan ?tw es (tasks @ expiring (slotNum tw) (abs_wheel tw) a)
        = Ret (tw', (tasks @ expiring (slotNum tw) (abs_wheel tw) a)
            @ concat (map (expiring (slotNum tw) (abs_wheel ?tw)) es))"
      "tw_inv tw'" "slotNum tw' = slotNum tw" "interval tw' = interval tw"
      "map taskID (heap tw') = map taskID (heap tw)"
      "abs_wheel tw' = (\<lambda>b. if b \<in> set es then full_turn (slotNum tw) (abs_wheel ?tw b)
                            else abs_wheel ?tw b)"
    by (auto cong: if_cong)
  with Cons.prems(2) show ?case
    by (intro exI [of _ tw']) (auto simp: scan_Cons [OF Cons.prems(1) a] exp abs1 fun_eq_iff simp del: scan.simps)
qed

section \<open>The tick\<close>

abbreviation advance :: "('k, 'd, 'c) TimeWheel \<Rightarrow> ('k, 'd, 'c) TimeWheel" where
  "advance tw \<equiv> tw\<lparr>currentPos := (currentPos tw + 1) mod slotNum tw\<rparr>"

lemma tw_inv_advance: "tw_inv tw \<Longrightarrow> tw_inv (advance tw)"
  by (auto simp: tw_inv_def timer_ok_def)

lemma hand_distance_advance:
  assumes "0 < slotNum tw"
  shows "hand_distance (advance tw) p =
    (if hand_distance tw p = 1 then slotNum tw else hand_distance tw p - 1)"
proof -
  let ?N = "slotNum tw" and ?d = "p - currentPos tw - 1"
  have "(p - (currentPos tw + 1) mod ?N - 1) mod ?N = ((p - 1) - (currentPos tw + 1) mod ?N) mod ?N"
    by (simp add: algebra_simps)
  also have "\<dots> = ((p - 1) - (currentPos tw + 1)) mod ?N" by (rule mod_diff_right_eq)
  also have "\<dots> = (?d - 1) mod ?N" by (simp add: algebra_simps)
  also have "\<dots> = (?d mod ?N - 1) mod ?N" by (simp add: mod_diff_left_eq)
  also have "\<dots> = (if ?d mod ?N = 0 then ?N - 1 else ?d mod ?N - 1)"
  proof (cases "?d mod ?N = 0")
    case True
    with assms show ?thesis by (simp add: zmod_minus1)
  next
    case False
    moreover have "0 \<le> ?d mod ?N" "?d mod ?N < ?N" using assms by simp_all
    ultimately show ?thesis by (simp add: mod_pos_pos_trivial)
  qed
  finally show ?thesis by (simp add: hand_distance_def)
qed

lemma at_hand_advance:
  assumes inv: "tw_inv tw" and i: "slot_index (slots tw) a = Some i"
  shows "at_hand (advance tw) a \<longleftrightarrow> hand_distance tw (int i) = 1"
proof -
  let ?N = "slotNum tw"
  have N: "0 < ?N" "int i < ?N" using tw_invD [OF inv] tw_inv_slot [OF inv i] by auto
  have "at_hand (advance tw) a \<longleftrightarrow> i = nat ((currentPos tw + 1) mod ?N)"
    using i by (simp add: at_hand_def)
  also have "\<dots> \<longleftrightarrow> int i = (currentPos tw + 1) mod ?N"
    using pos_mod_sign [OF N(1), of "currentPos tw + 1"] by linarith
  also have "\<dots> \<longleftrightarrow> int i mod ?N = (currentPos tw + 1) mod ?N" using N by simp
  also have "\<dots> \<longleftrightarrow> (int i - currentPos tw - 1) mod ?N = 0"
    by (simp add: mod_eq_dvd_iff dvd_eq_mod_eq_0 algebra_simps)
  finally show ?thesis by (simp add: hand_distance_def)
qed

lemma abs_advance:
  assumes inv: "tw_inv tw"
  shows "(if at_hand (advance tw) a then full_turn (slotNum tw) (abs_wheel (advance tw) a)
          else abs_wheel (advance tw) a) = countdown (abs_wheel tw a)"
proof (cases "slot_index (slots tw) a")
  case None
  then show ?thesis by (simp add: abs_wheel_def countdown_def full_turn_def)
next
  case (Some i)
  let ?it = "heap tw ! a"
  have N: "0 < slotNum tw" using tw_invD [OF inv] by simp
  have ok: "item_ok (interval tw) (slotNum tw) ?it" using inv Some by (intro tw_inv_item tw_inv_addr)
  have nn: "0 \<le> max 0 (circle ?it) * slotNum tw + diffPos ?it" using ok N by (simp add: item_ok_def)
  have "due (advance tw) (int i) ?it =
      (if hand_distance tw (int i) = 1 then due tw (int i) ?it + slotNum tw - 1 else due tw (int i) ?it - 1)"
    using N by (simp add: due_def hand_distance_advance)
  moreover have "hand_distance tw (int i) \<noteq> 1 \<Longrightarrow> 1 < due tw (int i) ?it"
    using nn hand_distance_bounds(1) [OF N, of "int i"] by (simp add: due_def)
  ultimately show ?thesis
    using at_hand_advance [OF inv Some] Some
    by (auto simp: abs_wheel_def countdown_def full_turn_def)
qed

lemma expiring_advance:
  assumes inv: "tw_inv tw" and a: "at_hand (advance tw) a"
  shows "expiring (slotNum tw) (abs_wheel (advance tw)) a = expiring 1 (abs_wheel tw) a"
proof -
  from a obtain i where i: "slot_index (slots tw) a = Some i" by (simp add: at_hand_def)
  have "0 < slotNum tw" using tw_invD [OF inv] by simp
  with i a at_hand_advance [OF inv i] show ?thesis
    by (simp add: expiring_def abs_wheel_def due_def hand_distance_advance)
qed

lemma tick_correct:
  assumes inv: "tw_inv tw"
  defines "l \<equiv> slots tw ! nat ((currentPos tw + 1) mod slotNum tw)"
  shows "\<exists>tw'. tickHandler tw = Ret (tw', doTasks (concat (map (expiring 1 (abs_wheel tw)) l)))
      \<and> tw_inv tw' \<and> slotNum tw' = slotNum tw \<and> interval tw' = interval tw
      \<and> map taskID (heap tw') = map taskID (heap tw)
      \<and> abs_wheel tw' = (\<lambda>a. countdown (abs_wheel tw a))"
proof -
  note I = tw_invD [OF inv]
  have hand: "wrap64 (currentPos tw + 1) smod slotNum tw = (currentPos tw + 1) mod slotNum tw"
    using I by (intro wrap64_hand inv) simp_all
  have nl: "nat ((currentPos tw + 1) mod slotNum tw) < length (slots tw)" using I by simp
  have es: "a \<in> set l \<longleftrightarrow> at_hand (advance tw) a" for a
    using nl I(7) by (simp add: l_def at_hand_def slot_index_Some_iff)
  have dl: "distinct l" using nl I(7) by (simp add: l_def slots_wf_def)
  from scan_correct [OF tw_inv_advance [OF inv] dl, of "[]"] es
  obtain tw' where tw': "scan (advance tw) l [] =
        Ret (tw', concat (map (expiring (slotNum tw) (abs_wheel (advance tw))) l))"
      "tw_inv tw'" "slotNum tw' = slotNum tw" "interval tw' = interval tw"
      "map taskID (heap tw') = map taskID (heap tw)"
      "abs_wheel tw' = (\<lambda>b. if b \<in> set l then full_turn (slotNum tw) (abs_wheel (advance tw) b)
                            else abs_wheel (advance tw) b)"
    by (auto cong: if_cong)
  have "map (expiring (slotNum tw) (abs_wheel (advance tw))) l = map (expiring 1 (abs_wheel tw)) l"
    using expiring_advance [OF inv] es by simp
  with tw' I show ?thesis
    by (intro exI [of _ tw'])
       (simp add: tickHandler_def scanAndRunTask_def Let_def hand l_def [symmetric] es abs_advance [OF inv] fun_eq_iff)
qed

section \<open>Adding, removing, moving\<close>

text \<open>
  Whole ticks in a delay, as \<open>getPositionAndCircle\<close> computes them.  A delay of less than one
  tick puts the object into the slot at the hand, which the hand has just left: it takes a
  full turn.
\<close>

abbreviation ticks :: "('k, 'd, 'c) TimeWheel \<Rightarrow> int \<Rightarrow> int" where
  "ticks tw d \<equiv> d div interval tw"

definition eff_ticks :: "('k, 'd, 'c) TimeWheel \<Rightarrow> int \<Rightarrow> int" where
  "eff_ticks tw d = (if ticks tw d = 0 then slotNum tw else ticks tw d)"

abbreviation fits :: "('k, 'd, 'c) TimeWheel \<Rightarrow> int \<Rightarrow> bool" where
  "fits tw \<equiv> delay_fits (interval tw) (slotNum tw)"

lemma ticks_nonneg: "tw_inv tw \<Longrightarrow> fits tw d \<Longrightarrow> 0 \<le> ticks tw d"
  using tw_invD(1) [of tw] by (simp add: delay_fits_def pos_imp_zdiv_nonneg_iff)

lemma getPositionAndCircle_eq:
  assumes inv: "tw_inv tw" and d: "fits tw d"
  shows "getPositionAndCircle tw d =
    ((currentPos tw + ticks tw d) mod slotNum tw, (ticks tw d - 1) sdiv slotNum tw)"
proof -
  note I = tw_invD [OF inv]
  have "wrap64 (currentPos tw + ticks tw d) smod slotNum tw = (currentPos tw + ticks tw d) mod slotNum tw"
    and "wrap64 (ticks tw d - 1) = ticks tw d - 1"
    using ticks_nonneg [OF assms] d I(2,5,6) by (simp_all add: smod_nonneg wrap64_id delay_fits_def)
  with d I(1) show ?thesis
    by (simp add: getPositionAndCircle_def Let_def sdiv_nonneg delay_fits_def)
qed

lemma turns_zero: "0 < n \<Longrightarrow> (0 - 1) sdiv (n::int) \<in> {-1, 0}"
  by (cases "n = 1") (auto simp: signed_divide_int_def)

lemma turns_eq: "1 \<le> s \<Longrightarrow> 0 < n \<Longrightarrow> (s - 1) sdiv n = (s - 1) div (n::int)"
  by (simp add: sdiv_nonneg)

lemma turns_bounds:
  assumes "0 < n" "0 \<le> s"
  shows "-1 \<le> (s - 1) sdiv (n::int)" "0 < (s - 1) sdiv n \<longleftrightarrow> n < s"
proof -
  have "-1 \<le> (s - 1) sdiv n \<and> (0 < (s - 1) sdiv n \<longleftrightarrow> n < s)"
  proof (cases "s = 0")
    case True
    with turns_zero [OF assms(1)] assms show ?thesis by auto
  next
    case False
    then have "0 \<le> (s - 1) div n" "0 < (s - 1) div n \<longleftrightarrow> n \<le> s - 1"
      using assms by (simp_all add: pos_imp_zdiv_nonneg_iff pos_imp_zdiv_pos_iff)
    with False assms turns_eq [of s n] show ?thesis by auto
  qed
  then show "-1 \<le> (s - 1) sdiv n" "0 < (s - 1) sdiv n \<longleftrightarrow> n < s" by blast+
qed

text \<open>
  An object put into the slot \<open>steps\<close> ahead, with \<open>(steps - 1) / slotNum\<close> turns to wait, is
  due in \<open>steps\<close> ticks.
\<close>

lemma turns_and_distance:
  assumes inv: "tw_inv tw" and d: "fits tw d"
  shows "hand_distance tw ((currentPos tw + ticks tw d) mod slotNum tw)
         + max 0 ((ticks tw d - 1) sdiv slotNum tw) * slotNum tw = eff_ticks tw d"
proof (cases "ticks tw d = 0")
  case True
  then show ?thesis
    using tw_invD(2,5,6) [OF inv] turns_zero [of "slotNum tw"] by (auto simp: eff_ticks_def)
next
  case False
  let ?N = "slotNum tw" and ?s = "ticks tw d"
  have s: "1 \<le> ?s" using False ticks_nonneg [OF assms] by simp
  have "((currentPos tw + ?s) mod ?N - currentPos tw - 1) mod ?N = (?s - 1) mod ?N"
    by (simp add: mod_diff_left_eq algebra_simps)
  moreover have "0 \<le> (?s - 1) div ?N" using s tw_invD(2) [OF inv] by (simp add: pos_imp_zdiv_nonneg_iff)
  ultimately show ?thesis
    using False s tw_invD(2) [OF inv] by (simp add: hand_distance_def eff_ticks_def turns_eq)
qed

text \<open>A fresh object pushed into a slot.\<close>

definition insert_item ::
    "('k, 'd, 'c) TimeWheel \<Rightarrow> ('k, 'd, 'c) timeWheelSlot \<Rightarrow> int \<Rightarrow> ('k, 'd, 'c) TimeWheel" where
  "insert_item tw it p =
     tw\<lparr>heap := heap tw @ [it],
        slots := (slots tw)[nat p := slots tw ! nat p @ [length (heap tw)]]\<rparr>"

lemma fresh_address:
  "tw_inv tw \<Longrightarrow> slot_index (slots tw) (length (heap tw)) = None"
  using tw_inv_addr [of tw "length (heap tw)"] by (cases "slot_index (slots tw) (length (heap tw))") auto

lemma push_back_insert_item:
  assumes "tw_inv tw" "0 \<le> p" "p < slotNum tw"
  shows "push_back (tw\<lparr>heap := heap tw @ [it]\<rparr>) p (length (heap tw)) = Ret (insert_item tw it p)"
  using assms tw_invD(4) [OF assms(1)] by (simp add: push_back_def insert_item_def)

lemma slots_insert_item:
  assumes "tw_inv tw" "0 \<le> p" "p < slotNum tw"
  shows "slots_wf (slots (insert_item tw it p))"
    "slot_index (slots (insert_item tw it p)) b =
       (if b = length (heap tw) then Some (nat p) else slot_index (slots tw) b)"
proof -
  have "nat p < length (slots tw)" using assms tw_invD(4) [OF assms(1)] by simp
  with assms fresh_address [OF assms(1)] tw_invD(7) [OF assms(1)]
  show "slots_wf (slots (insert_item tw it p))"
    "slot_index (slots (insert_item tw it p)) b =
       (if b = length (heap tw) then Some (nat p) else slot_index (slots tw) b)"
    by (simp_all add: insert_item_def slots_wf_append slot_index_append)
qed

lemma insert_item_simps [simp]:
  "interval (insert_item tw it p) = interval tw" "slotNum (insert_item tw it p) = slotNum tw"
  "currentPos (insert_item tw it p) = currentPos tw" "timers (insert_item tw it p) = timers tw"
  "heap (insert_item tw it p) = heap tw @ [it]"
  "length (slots (insert_item tw it p)) = length (slots tw)"
  by (simp_all add: insert_item_def)

lemma tw_inv_insert_item:
  assumes inv: "tw_inv tw" and p: "0 \<le> p" "p < slotNum tw" and it: "item_ok (interval tw) (slotNum tw) it"
  shows "tw_inv (insert_item tw it p)"
proof -
  have "timer_ok (insert_item tw it p) k pi" if "timers tw k = Some pi" for k pi
    using tw_inv_timer [OF inv that]
    by (auto simp: timer_ok_def slots_insert_item [OF inv p] nth_append)
  moreover have "a < length (heap (insert_item tw it p))"
    if "slot_index (slots (insert_item tw it p)) a = Some i" for a i
    using that tw_inv_addr [OF inv, of a] by (auto simp: slots_insert_item [OF inv p] split: if_splits)
  ultimately show ?thesis
    using inv it by (auto simp: tw_inv_def slots_insert_item [OF inv p])
qed

lemma abs_insert_item:
  assumes inv: "tw_inv tw" and p: "0 \<le> p" "p < slotNum tw" and it: "\<not> removed it"
  shows "abs_wheel (insert_item tw it p) = (abs_wheel tw)(length (heap tw) \<mapsto> (due tw p it, task it))"
proof
  fix b
  show "abs_wheel (insert_item tw it p) b =
      ((abs_wheel tw)(length (heap tw) \<mapsto> (due tw p it, task it))) b"
    using it p tw_inv_addr [OF inv, of b]
    by (auto simp: abs_wheel_def slots_insert_item [OF inv p] due_def hand_distance_def nth_append
        split: option.splits)
qed

lemma tw_inv_set_timer:
  assumes "tw_inv tw" "timer_ok tw k pi"
  shows "tw_inv (tw\<lparr>timers := (timers tw)(k \<mapsto> pi)\<rparr>)"
  using assms by (auto simp: tw_inv_def timer_ok_def)

text \<open>Every pending object of the wheel is due in at least one tick.\<close>

lemma abs_wheel_positive:
  assumes inv: "tw_inv tw" and a: "abs_wheel tw a = Some (d, t)"
  shows "1 \<le> d"
proof -
  from a obtain i where i: "slot_index (slots tw) a = Some i" and d: "d = due tw (int i) (heap tw ! a)"
    by (auto simp: abs_wheel_def split: option.splits if_splits)
  have "item_ok (interval tw) (slotNum tw) (heap tw ! a)" using inv i by (intro tw_inv_item tw_inv_addr)
  with d hand_distance_bounds(1) [of tw "int i"] tw_invD(2) [OF inv] show ?thesis
    by (simp add: due_def item_ok_def add_increasing2)
qed

lemma new_slot_simps [simp]:
  "delay (new_slot d k t) = d" "taskID (new_slot d k t) = k" "circle (new_slot d k t) = 0"
  "diffPos (new_slot d k t) = 0" "task (new_slot d k t) = t" "\<not> removed (new_slot d k t)"
  by (simp_all add: new_slot_def)

lemma hand_distance_cases:
  assumes "tw_inv tw" "0 \<le> q" "q < slotNum tw"
  shows "hand_distance tw q = q - currentPos tw + (if q \<le> currentPos tw then slotNum tw else 0)"
proof (cases "q \<le> currentPos tw")
  case True
  have "(q - currentPos tw - 1) mod slotNum tw = (q - currentPos tw - 1 + slotNum tw) mod slotNum tw"
    by simp
  also have "\<dots> = q - currentPos tw - 1 + slotNum tw"
    using True assms(2) tw_invD(6) [OF assms(1)] by (intro mod_pos_pos_trivial) linarith+
  finally show ?thesis using True by (simp add: hand_distance_def)
next
  case False
  have "(q - currentPos tw - 1) mod slotNum tw = q - currentPos tw - 1"
    using False assms(3) tw_invD(5) [OF assms(1)] by (intro mod_pos_pos_trivial) linarith+
  with False show ?thesis by (simp add: hand_distance_def)
qed

lemma addTask_fresh:
  assumes inv: "tw_inv tw" and k: "timers tw k = None"
    and d: "fits tw (max d (interval tw))"
  shows "\<exists>tw'. addTask tw (new_slot d k t) = Ret tw' \<and> tw_inv tw'
      \<and> slotNum tw' = slotNum tw \<and> interval tw' = interval tw
      \<and> abs_wheel tw' = (abs_wheel tw)(length (heap tw) \<mapsto> (ticks tw (max d (interval tw)), t))
      \<and> timers tw' = (if k = NilKey then timers tw
                      else (timers tw)(k \<mapsto> \<lparr>pos = (currentPos tw + ticks tw (max d (interval tw))) mod slotNum tw,
                                             item = length (heap tw)\<rparr>))
      \<and> map taskID (heap tw') = map taskID (heap tw) @ [k]"
proof -
  let ?d = "max d (interval tw)" and ?N = "slotNum tw"
  let ?p = "(currentPos tw + ticks tw ?d) mod ?N" and ?c = "(ticks tw ?d - 1) sdiv ?N"
  let ?it = "(new_slot ?d k t)\<lparr>circle := ?c\<rparr>"
  note I = tw_invD [OF inv]
  have s: "1 \<le> ticks tw ?d" using I(1) by (simp add: pos_imp_zdiv_pos_iff int_one_le_iff_zero_less)
  have p: "0 \<le> ?p" "?p < ?N" using I by auto
  have sl: "(if d < interval tw then (new_slot d k t)\<lparr>delay := interval tw\<rparr> else new_slot d k t)
      = new_slot ?d k t"
    by (simp add: new_slot_def max_def)
  let ?tw = "insert_item tw ?it ?p"
  have inv': "tw_inv ?tw"
    using turns_bounds(1) [OF I(2), of "ticks tw ?d"] s I d
    by (intro tw_inv_insert_item inv p) (simp add: item_ok_def)
  have "timer_ok ?tw k \<lparr>pos = ?p, item = length (heap tw)\<rparr>" if "k \<noteq> NilKey"
    using that p by (simp add: timer_ok_def slots_insert_item [OF inv p])
  then have inv'': "k \<noteq> NilKey \<Longrightarrow>
      tw_inv (?tw\<lparr>timers := (timers ?tw)(k \<mapsto> \<lparr>pos = ?p, item = length (heap tw)\<rparr>)\<rparr>)"
    by (intro tw_inv_set_timer inv')
  have "due tw ?p ?it = ticks tw ?d"
    using turns_and_distance [OF inv d] s by (simp add: due_def eff_ticks_def)
  then have "abs_wheel ?tw = (abs_wheel tw)(length (heap tw) \<mapsto> (ticks tw ?d, t))"
    using abs_insert_item [OF inv p, of ?it] by simp
  moreover have "addTask tw (new_slot d k t) =
      Ret (if k \<noteq> NilKey then ?tw\<lparr>timers := (timers ?tw)(k \<mapsto> \<lparr>pos = ?p, item = length (heap tw)\<rparr>)\<rparr> else ?tw)"
    by (simp add: addTask_def sl Let_def k getPositionAndCircle_eq [OF inv d]
        push_back_insert_item [OF inv p])
  ultimately show ?thesis
    using inv' inv'' by (cases "k = NilKey") simp_all
qed

lemma removeTask_inv:
  assumes inv: "tw_inv tw" shows "tw_inv (removeTask tw k)"
proof (cases "timers tw k")
  case (Some pi)
  note ok = tw_inv_timer [OF inv Some]
  have "tw_inv (update_item tw (item pi) (\<lambda>it. it\<lparr>removed := True\<rparr>))"
    using ok tw_inv_item [OF inv, of "item pi"]
    by (intro tw_inv_update_item inv) (auto simp: timer_ok_def item_ok_def)
  then have "tw_inv ((update_item tw (item pi) (\<lambda>it. it\<lparr>removed := True\<rparr>))
      \<lparr>timers := (timers tw)(k := None)\<rparr>)"
    by (auto simp: tw_inv_def timer_ok_def update_item_def split: if_splits)
  with Some show ?thesis by (simp add: removeTask_def)
qed (use inv in \<open>simp add: removeTask_def\<close>)

lemma removeTask_abs:
  assumes inv: "tw_inv tw"
  shows "abs_wheel (removeTask tw k) =
    (case timers tw k of None \<Rightarrow> abs_wheel tw | Some pi \<Rightarrow> (abs_wheel tw)(item pi := None))"
proof (cases "timers tw k")
  case (Some pi)
  then have "item pi < length (heap tw)" using tw_inv_timer [OF inv] by (auto simp: timer_ok_def)
  with Some show ?thesis
    by (auto simp: removeTask_def fun_eq_iff abs_update_item split: option.splits)
qed (simp add: removeTask_def)

text \<open>
  The effect of \<open>moveTask\<close> on a pending object.  \<open>move_error\<close> is the number of ticks by which
  the new due time misses the requested one: a full turn late when the object's slot is not
  ahead of the hand and the target slot is, a full turn early in the opposite case.
\<close>

definition move_error :: "('k, 'd, 'c) TimeWheel \<Rightarrow> int \<Rightarrow> int \<Rightarrow> int" where
  "move_error tw q p =
     (if q \<le> currentPos tw \<and> currentPos tw < p then slotNum tw
      else if p \<le> currentPos tw \<and> currentPos tw < q then - slotNum tw else 0)"

lemma moveTask_in_place:
  assumes inv: "tw_inv tw" and k: "timers tw (taskID b) = Some pi" and d: "fits tw (delay b)"
  defines "p \<equiv> (currentPos tw + ticks tw (delay b)) mod slotNum tw"
  assumes br: "pos pi \<le> p \<or> slotNum tw < ticks tw (delay b)"
  shows "\<exists>tw'. moveTask tw b = Ret tw' \<and> tw_inv tw' \<and> timers tw' = timers tw
      \<and> slotNum tw' = slotNum tw \<and> interval tw' = interval tw
      \<and> map taskID (heap tw') = map taskID (heap tw)
      \<and> abs_wheel tw' =
          (if removed (heap tw ! item pi) then abs_wheel tw
           else (abs_wheel tw)(item pi \<mapsto>
             (eff_ticks tw (delay b) + move_error tw (pos pi) p, task (heap tw ! item pi))))"
proof -
  let ?N = "slotNum tw" and ?a = "item pi" and ?q = "pos pi"
  let ?c = "(ticks tw (delay b) - 1) sdiv ?N"
  note I = tw_invD [OF inv] and ok = tw_inv_timer [OF inv k]
  have q: "0 \<le> ?q" "?q < ?N" and al: "?a < length (heap tw)" and nk: "taskID (heap tw ! ?a) \<noteq> NilKey"
    using ok by (auto simp: timer_ok_def)
  have p: "0 \<le> p" "p < ?N" using I by (auto simp: p_def)
  note c = turns_bounds [OF I(2) ticks_nonneg [OF inv d]]
  let ?f = "\<lambda>it. if ?q \<le> p then it\<lparr>circle := ?c, diffPos := p - ?q\<rparr>
                 else it\<lparr>circle := ?c - 1, diffPos := ?N - ?q + p\<rparr>"
  have mv: "moveTask tw b = Ret (update_item tw ?a ?f)"
    using br c(2)
    by (auto simp: moveTask_def k getPositionAndCircle_eq [OF inv d] p_def [symmetric])
  have "item_ok (interval tw) ?N (?f (heap tw ! ?a))"
    using br c p q nk tw_inv_item [OF inv al] by (auto simp: item_ok_def)
  then have inv': "tw_inv (update_item tw ?a ?f)"
    using al by (intro tw_inv_update_item inv) auto
  have "due tw ?q (?f (heap tw ! ?a)) = eff_ticks tw (delay b) + move_error tw ?q p"
    using turns_and_distance [OF inv d, folded p_def] br c p q I(5,6)
    by (auto simp: due_def hand_distance_cases [OF inv] move_error_def max_def algebra_simps)
  then have "abs_wheel (update_item tw ?a ?f) =
      (if removed (heap tw ! ?a) then abs_wheel tw
       else (abs_wheel tw)(?a \<mapsto> (eff_ticks tw (delay b) + move_error tw ?q p, task (heap tw ! ?a))))"
    using abs_reschedule [OF al, of "nat ?q" ?f] tw_inv_timer_slot [OF inv k] q by simp
  with mv inv' al show ?thesis
    by (auto simp: update_item_def)
qed

lemma moveTask_new_item:
  assumes inv: "tw_inv tw" and k: "timers tw (taskID b) = Some pi" and d: "fits tw (delay b)"
  defines "p \<equiv> (currentPos tw + ticks tw (delay b)) mod slotNum tw"
  assumes br: "\<not> (pos pi \<le> p \<or> slotNum tw < ticks tw (delay b))"
  shows "\<exists>tw'. moveTask tw b = Ret tw' \<and> tw_inv tw'
      \<and> slotNum tw' = slotNum tw \<and> interval tw' = interval tw
      \<and> timers tw' = (timers tw)(taskID b \<mapsto> \<lparr>pos = p, item = item pi\<rparr>)
      \<and> abs_wheel tw' = (abs_wheel tw)(item pi := None, length (heap tw) \<mapsto>
            (eff_ticks tw (delay b), task (heap tw ! item pi)))
      \<and> map taskID (heap tw') = map taskID (heap tw) @ [taskID b] \<and> removed (heap tw' ! item pi)"
proof -
  let ?N = "slotNum tw" and ?a = "item pi" and ?c = "(ticks tw (delay b) - 1) sdiv slotNum tw"
  note I = tw_invD [OF inv] and ok = tw_inv_timer [OF inv k]
  have al: "?a < length (heap tw)" and key: "taskID (heap tw ! ?a) = taskID b" and nk: "taskID b \<noteq> NilKey"
    using ok by (auto simp: timer_ok_def)
  have p: "0 \<le> p" "p < ?N" using I by (auto simp: p_def)
  have c: "\<not> 0 < ?c" using turns_bounds(2) [OF I(2) ticks_nonneg [OF inv d]] br by simp
  let ?t = "task (heap tw ! ?a)"
  let ?new = "new_slot (delay b) (taskID b) ?t"
  let ?tw1 = "update_item tw ?a (\<lambda>it. it\<lparr>removed := True\<rparr>)"
  let ?tw2 = "insert_item ?tw1 ?new p"
  have inv1: "tw_inv ?tw1"
    using al tw_inv_item [OF inv al] by (intro tw_inv_update_item inv) (auto simp: item_ok_def)
  have p1: "0 \<le> p" "p < slotNum ?tw1" using p by (simp_all add: update_item_def)
  have inv2: "tw_inv ?tw2"
    using I d by (intro tw_inv_insert_item inv1 p1) (simp add: item_ok_def update_item_def)
  have mv: "moveTask tw b = Ret (updatePosition ?tw2 ?a p)"
    using br c al push_back_insert_item [OF inv1 p1, of ?new]
    by (simp add: moveTask_def k getPositionAndCircle_eq [OF inv d] p_def [symmetric] Let_def
        new_slot_def update_item_def)
  have "timer_ok ?tw2 (taskID b) \<lparr>pos = p, item = ?a\<rparr>"
    using p nk key al by (simp add: timer_ok_def update_item_def nth_append)
  then have inv3: "tw_inv (updatePosition ?tw2 ?a p)"
    using tw_inv_set_timer [OF inv2] key al
    by (simp add: updatePosition_def update_item_def nth_append)
  have "due ?tw1 p ?new = eff_ticks tw (delay b)"
    using turns_and_distance [OF inv d, folded p_def] c
    by (simp add: due_def hand_distance_def update_item_def)
  moreover have "abs_wheel ?tw1 = (abs_wheel tw)(?a := None)"
    by (auto simp: fun_eq_iff abs_update_item [OF al] split: option.splits)
  ultimately have "abs_wheel ?tw2 = (abs_wheel tw)(?a := None, length (heap tw) \<mapsto>
      (eff_ticks tw (delay b), ?t))"
    using abs_insert_item [OF inv1 p1, of ?new] by (simp add: update_item_def)
  with mv inv3 key al show ?thesis
    by (auto simp: updatePosition_def update_item_def nth_append)
qed

section \<open>The calls of a tick\<close>

definition show_call :: "('k, 'd, 'c) timeWheelTask \<Rightarrow> 'c \<times> 'k task_key \<times> 'd" where
  "show_call t = (callback t, task_taskID t, data t)"

definition expired :: "('k, 'd, 'c) TimeWheel \<Rightarrow> nat set" where
  "expired tw = {a. \<exists>t. abs_wheel tw a = Some (1, t)}"

lemma expiring_one:
  assumes "tw_inv tw"
  shows "expiring 1 (abs_wheel tw) a =
    (if a \<in> expired tw then [snd (the (abs_wheel tw a))] else [])"
  using abs_wheel_positive [OF assms, of a] by (auto simp: expiring_def expired_def split: option.splits)

lemma expired_at_hand:
  assumes inv: "tw_inv tw" and a: "a \<in> expired tw"
  shows "a \<in> set (slots tw ! nat ((currentPos tw + 1) mod slotNum tw))"
proof -
  from a obtain i where i: "slot_index (slots tw) a = Some i" and d: "due tw (int i) (heap tw ! a) = 1"
    by (auto simp: expired_def abs_wheel_def split: option.splits if_splits)
  have "item_ok (interval tw) (slotNum tw) (heap tw ! a)" using inv i by (intro tw_inv_item tw_inv_addr)
  then have "0 \<le> max 0 (circle (heap tw ! a)) * slotNum tw" "0 \<le> diffPos (heap tw ! a)"
    using tw_invD(2) [OF inv] by (simp_all add: item_ok_def)
  with d hand_distance_bounds(1) [OF tw_invD(2) [OF inv], of "int i"]
  have "hand_distance tw (int i) = 1" by (simp add: due_def)
  with at_hand_advance [OF inv i] show ?thesis
    by (auto simp: at_hand_def dest: slot_index_SomeD)
qed

lemma concat_if_map: "concat (map (\<lambda>a. if P a then [f a] else []) xs) = map f (filter P xs)"
  by (induction xs) auto

lemma tick_calls:
  assumes inv: "tw_inv tw"
  shows "\<exists>tw' as. tickHandler tw = Ret (tw', map (\<lambda>a. show_call (snd (the (abs_wheel tw a)))) as)
      \<and> distinct as \<and> set as = expired tw
      \<and> tw_inv tw' \<and> slotNum tw' = slotNum tw \<and> interval tw' = interval tw
      \<and> map taskID (heap tw') = map taskID (heap tw)
      \<and> abs_wheel tw' = (\<lambda>a. countdown (abs_wheel tw a))"
proof -
  let ?l = "slots tw ! nat ((currentPos tw + 1) mod slotNum tw)"
  let ?as = "filter (\<lambda>a. a \<in> expired tw) ?l"
  have "nat ((currentPos tw + 1) mod slotNum tw) < length (slots tw)" using tw_invD [OF inv] by simp
  then have "distinct ?as" using tw_invD(7) [OF inv] by (simp add: slots_wf_def)
  moreover have "set ?as = expired tw" using expired_at_hand [OF inv] by auto
  moreover have "doTasks (concat (map (expiring 1 (abs_wheel tw)) ?l))
      = map (\<lambda>a. show_call (snd (the (abs_wheel tw a)))) ?as"
    by (simp add: expiring_one [OF inv] concat_if_map doTasks_def show_call_def comp_def
        cong: map_cong)
  moreover from tick_correct [OF inv] obtain tw' where
    "tickHandler tw = Ret (tw', doTasks (concat (map (expiring 1 (abs_wheel tw)) ?l)))"
    "tw_inv tw'" "slotNum tw' = slotNum tw" "interval tw' = interval tw"
    "map taskID (heap tw') = map taskID (heap tw)" "abs_wheel tw' = (\<lambda>a. countdown (abs_wheel tw a))"
    by blast
  ultimately show ?thesis
    by (intro exI [of _ tw'] exI [of _ ?as]) simp
qed

section \<open>The messages\<close>

definition owner :: "('k, 'd, 'c) TimeWheel \<Rightarrow> nat \<Rightarrow> 'k task_key option" where
  "owner tw a = (if a < length (heap tw) then Some (map taskID (heap tw) ! a) else None)"

fun msg_key :: "('k, 'd, 'c) wheel_msg \<Rightarrow> 'k task_key" where
  "msg_key (AddMsg sl) = taskID sl"
| "msg_key (RemoveMsg k) = k"
| "msg_key (MoveMsg b) = taskID b"

definition msg_target :: "('k, 'd, 'c) wheel_msg \<Rightarrow> 'k task_key option" where
  "msg_target m = (if msg_key m = NilKey then None else Some (msg_key m))"

fun msg_ok :: "('k, 'd, 'c) TimeWheel \<Rightarrow> ('k, 'd, 'c) wheel_msg \<Rightarrow> bool" where
  "msg_ok tw (AddMsg sl) = (circle sl = 0 \<and> diffPos sl = 0 \<and> \<not> removed sl \<and> fits tw (max (delay sl) (interval tw)))"
| "msg_ok tw (RemoveMsg k) = True"
| "msg_ok tw (MoveMsg b) = fits tw (delay b)"

lemma keys_prefix:
  assumes "map taskID h' = map taskID h @ ks"
  shows "length h \<le> length h' \<and> (\<forall>a < length h. taskID (h' ! a) = taskID (h ! a))"
proof -
  have len: "length h' = length h + length ks"
    using arg_cong [OF assms, of length] by simp
  have "taskID (h' ! a) = taskID (h ! a)" if "a < length h" for a
    using arg_cong [OF assms, of "\<lambda>xs. xs ! a"] that len by (simp add: nth_append)
  with len show ?thesis by simp
qed

lemma keys_same:
  assumes "map taskID h' = map taskID h"
  shows "length h \<le> length h' \<and> (\<forall>a < length h. taskID (h' ! a) = taskID (h ! a))"
  using keys_prefix [of h' h "[]"] assms by simp

text \<open>What a message guarantees, whatever it does to the entry of its own key.\<close>

definition msg_effect :: "('k, 'd, 'c) TimeWheel \<Rightarrow> 'k task_key \<Rightarrow> ('k, 'd, 'c) TimeWheel \<Rightarrow> bool" where
  "msg_effect tw k tw' \<longleftrightarrow>
     tw_inv tw' \<and> slotNum tw' = slotNum tw \<and> interval tw' = interval tw \<and>
     length (heap tw) \<le> length (heap tw') \<and>
     (\<forall>a < length (heap tw). taskID (heap tw' ! a) = taskID (heap tw ! a)) \<and>
     (\<forall>a < length (heap tw). taskID (heap tw ! a) \<noteq> k \<or> k = NilKey \<longrightarrow> abs_wheel tw' a = abs_wheel tw a)"

lemma moveTask_effect:
  assumes inv: "tw_inv tw" and d: "fits tw (delay b)"
  shows "\<exists>tw'. moveTask tw b = Ret tw' \<and> msg_effect tw (taskID b) tw'"
proof (cases "timers tw (taskID b)")
  case None
  with inv show ?thesis by (simp add: moveTask_def msg_effect_def)
next
  case (Some pi)
  have key: "taskID (heap tw ! item pi) = taskID b" "taskID b \<noteq> NilKey"
    using tw_inv_timer [OF inv Some] by (auto simp: timer_ok_def)
  show ?thesis
  proof (cases "pos pi \<le> (currentPos tw + ticks tw (delay b)) mod slotNum tw
               \<or> slotNum tw < ticks tw (delay b)")
    case True
    from moveTask_in_place [OF inv Some d True] obtain tw' where tw': "moveTask tw b = Ret tw'" "tw_inv tw'"
      "slotNum tw' = slotNum tw" "interval tw' = interval tw" "map taskID (heap tw') = map taskID (heap tw)"
      "abs_wheel tw' = abs_wheel tw \<or> (\<exists>v. abs_wheel tw' = (abs_wheel tw)(item pi \<mapsto> v))"
      by (auto split: if_splits)
    with keys_same [OF tw'(5)] key show ?thesis by (auto simp: msg_effect_def)
  next
    case False
    from moveTask_new_item [OF inv Some d False] obtain tw' v where tw': "moveTask tw b = Ret tw'" "tw_inv tw'"
      "slotNum tw' = slotNum tw" "interval tw' = interval tw"
      "map taskID (heap tw') = map taskID (heap tw) @ [taskID b]"
      "abs_wheel tw' = (abs_wheel tw)(item pi := None, length (heap tw) \<mapsto> v)"
      by blast
    with keys_prefix [OF tw'(5)] key show ?thesis by (auto simp: msg_effect_def)
  qed
qed

lemma set_task_effect:
  assumes inv: "tw_inv tw" and k: "timers tw k = Some pi"
  shows "msg_effect tw k (update_item tw (item pi) (\<lambda>it. it\<lparr>task := t\<rparr>))"
proof -
  have al: "item pi < length (heap tw)" "taskID (heap tw ! item pi) = k" "k \<noteq> NilKey"
    using tw_inv_timer [OF inv k] by (auto simp: timer_ok_def)
  have "tw_inv (update_item tw (item pi) (\<lambda>it. it\<lparr>task := t\<rparr>))"
    using tw_inv_item [OF inv al(1)] al(1) by (intro tw_inv_update_item inv) (auto simp: item_ok_def)
  with al show ?thesis
    by (auto simp: msg_effect_def abs_update_item) (simp_all add: update_item_def nth_list_update)
qed

lemma msg_effect_trans:
  "msg_effect tw k tw1 \<Longrightarrow> msg_effect tw1 k tw2 \<Longrightarrow> msg_effect tw k tw2"
  by (auto simp: msg_effect_def)

lemma addTask_effect:
  assumes inv: "tw_inv tw" and ok: "msg_ok tw (AddMsg sl)"
  shows "\<exists>tw'. addTask tw sl = Ret tw' \<and> msg_effect tw (taskID sl) tw'"
proof (cases "timers tw (taskID sl)")
  case None
  have "new_slot (delay sl) (taskID sl) (task sl) = sl" using ok by (cases sl) (simp add: new_slot_def)
  with addTask_fresh [OF inv None, of "delay sl" "task sl"] ok show ?thesis
    by (auto simp: msg_effect_def dest!: keys_prefix)
next
  case (Some pi)
  let ?tw1 = "update_item tw (item pi) (\<lambda>it. it\<lparr>task := task sl\<rparr>)"
  let ?b = "base_slot (heap ?tw1 ! item pi)"
  have al: "item pi < length (heap tw)" "taskID (heap tw ! item pi) = taskID sl"
    using tw_inv_timer [OF inv Some] by (auto simp: timer_ok_def)
  then have b: "taskID ?b = taskID sl" "delay ?b = delay (heap tw ! item pi)"
    by (simp_all add: base_slot_def update_item_def)
  note e1 = set_task_effect [OF inv Some, of "task sl"]
  then have "tw_inv ?tw1" "fits ?tw1 = fits tw" by (simp_all add: msg_effect_def update_item_def)
  moreover have "fits tw (delay ?b)" using tw_inv_item [OF inv al(1)] b by (simp add: item_ok_def)
  ultimately obtain tw' where "moveTask ?tw1 ?b = Ret tw'" "msg_effect ?tw1 (taskID sl) tw'"
    using moveTask_effect [of ?tw1 ?b] b by auto
  with e1 Some show ?thesis
    by (auto simp: addTask_def Let_def intro: msg_effect_trans)
qed

lemma removeTask_effect:
  assumes inv: "tw_inv tw" shows "msg_effect tw k (removeTask tw k)"
proof (cases "timers tw k")
  case None
  with inv show ?thesis by (simp add: msg_effect_def removeTask_def)
next
  case (Some pi)
  with tw_inv_timer [OF inv Some] removeTask_inv [OF inv] removeTask_abs [OF inv, of k] show ?thesis
    by (auto simp: msg_effect_def timer_ok_def) (simp_all add: removeTask_def update_item_def nth_list_update)
qed

lemma handle_effect:
  assumes "tw_inv tw" "msg_ok tw m"
  shows "\<exists>tw'. handle tw m = Ret tw' \<and> msg_effect tw (msg_key m) tw'"
  using assms addTask_effect moveTask_effect removeTask_effect by (cases m) auto

section \<open>The wheel as a countdown scheduler\<close>

lemma owner_keys:
  assumes "map taskID (heap tw') = map taskID (heap tw)"
  shows "owner tw' = owner tw"
proof -
  have "length (heap tw') = length (heap tw)" using arg_cong [OF assms, of length] by simp
  with assms show ?thesis by (simp add: owner_def fun_eq_iff)
qed

lemma msg_ok_frame:
  "slotNum tw' = slotNum tw \<Longrightarrow> interval tw' = interval tw \<Longrightarrow> msg_ok tw' = msg_ok tw"
proof
  fix m assume "slotNum tw' = slotNum tw" "interval tw' = interval tw"
  then show "msg_ok tw' m = msg_ok tw m" by (cases m) auto
qed

lemma set_calls:
  "set as = expired tw \<Longrightarrow>
   set (map (\<lambda>a. show_call (snd (the (abs_wheel tw a)))) as) = {show_call t | a t. abs_wheel tw a = Some (1, t)}"
  by (force simp: expired_def)

interpretation wheel: countdown_scheduler tickHandler handle tw_inv abs_wheel owner msg_target msg_ok show_call
proof
  fix tw :: "('k, 'd, 'c) TimeWheel"
  assume inv: "tw_inv tw"
  from tick_calls [OF inv] obtain tw' as where
    "tickHandler tw = Ret (tw', map (\<lambda>a. show_call (snd (the (abs_wheel tw a)))) as)" "set as = expired tw"
    "tw_inv tw'" "slotNum tw' = slotNum tw" "interval tw' = interval tw"
    "map taskID (heap tw') = map taskID (heap tw)" "abs_wheel tw' = (\<lambda>a. countdown (abs_wheel tw a))"
    by blast
  then show "\<exists>s' out. tickHandler tw = Ret (s', out) \<and> tw_inv s' \<and> abs_wheel s' = (\<lambda>a. countdown (abs_wheel tw a))
      \<and> owner s' = owner tw \<and> msg_ok s' = msg_ok tw \<and> set out = {show_call t | a t. abs_wheel tw a = Some (1, t)}"
    using owner_keys [of tw' tw] msg_ok_frame [of tw' tw] set_calls [of as tw] by blast
next
  fix tw :: "('k, 'd, 'c) TimeWheel" and m
  assume "tw_inv tw" "msg_ok tw m"
  from handle_effect [OF this] obtain tw' where "handle tw m = Ret tw'" "msg_effect tw (msg_key m) tw'"
    by blast
  then show "\<exists>s'. handle tw m = Ret s' \<and> tw_inv s' \<and> msg_ok s' = msg_ok tw \<and>
      (\<forall>a k. owner tw a = Some k \<longrightarrow> owner s' a = Some k \<and> (msg_target m \<noteq> Some k \<longrightarrow> abs_wheel s' a = abs_wheel tw a))"
    using msg_ok_frame [of tw' tw]
    by (auto simp: msg_effect_def owner_def msg_target_def split: if_splits)
qed

lemma tw_inv_new:
  assumes "0 < iv" "0 < n" "n < 2 ^ 62"
  shows "tw_inv (newTimeWheelWithTicker iv n)"
  using assms
  by (auto simp: tw_inv_def newTimeWheelWithTicker_def initSlots_def slots_wf_def slot_index_None_iff)

lemma AddTimer_msg:
  "AddTimer k x d cb = Ret m \<longleftrightarrow>
   0 < d \<and> m = AddMsg (new_slot d k \<lparr>task_taskID = k, data = x, callback = cb\<rparr>)"
  by (auto simp: AddTimer_def)

lemma handle_AddTimer:
  assumes "tw_inv tw" "timers tw k = None" "AddTimer k x d cb = Ret m" "fits tw (max d (interval tw))"
  shows "\<exists>tw0. handle tw m = Ret tw0 \<and> tw_inv tw0 \<and> msg_ok tw0 = msg_ok tw
      \<and> owner tw0 (length (heap tw)) = Some k
      \<and> abs_wheel tw0 (length (heap tw)) = Some (ticks tw (max d (interval tw)),
            \<lparr>task_taskID = k, data = x, callback = cb\<rparr>)"
proof -
  let ?t = "\<lparr>task_taskID = k, data = x, callback = cb\<rparr>"
  have m: "m = AddMsg (new_slot d k ?t)" using assms(3) by (simp add: AddTimer_msg)
  from addTask_fresh [OF assms(1,2,4), of ?t] obtain tw0 where tw0:
    "addTask tw (new_slot d k ?t) = Ret tw0" "tw_inv tw0" "slotNum tw0 = slotNum tw" "interval tw0 = interval tw"
    "abs_wheel tw0 = (abs_wheel tw)(length (heap tw) \<mapsto> (ticks tw (max d (interval tw)), ?t))"
    "map taskID (heap tw0) = map taskID (heap tw) @ [k]" by blast
  have "length (heap tw0) = Suc (length (heap tw))" using arg_cong [OF tw0(6), of length] by simp
  then have "owner tw0 (length (heap tw)) = Some k" using tw0(6) by (simp add: owner_def nth_append)
  with tw0 m msg_ok_frame [OF tw0(3,4)] show ?thesis by simp
qed

end
