(* ===== verification/TimeWheelProps.thy ===== *)
theory TimeWheelProps
  imports TimeWheelRefine
begin

text \<open>
  The properties of the time wheel: the tick refines the countdown table, timers fire on the
  tick they are due whatever else the loop receives, the loop never panics, removal cancels,
  stopping, and what rescheduling really does.
\<close>

section \<open>A concrete wheel\<close>

text \<open>A wheel of four slots with a tick of one, a timer with key 7 due in six ticks.\<close>

abbreviation demo_new :: "(nat, nat, nat) TimeWheel" where
  "demo_new \<equiv> newTimeWheelWithTicker 1 4"

definition demo_wheel :: "(nat, nat, nat) TimeWheel" where
  "demo_wheel =
     \<lparr>interval = 1, slots = [[], [0], [], []], timers = [UserKey 7 \<mapsto> \<lparr>pos = 1, item = 0\<rparr>],
      currentPos = 3, slotNum = 4, currentTaskID = 0,
      heap = [\<lparr>delay = 6, taskID = UserKey 7, circle = 1, diffPos = 0,
               task = \<lparr>task_taskID = UserKey 7, data = 5, callback = 9\<rparr>, removed = False\<rparr>]\<rparr>"

lemma demo_new_inv: "tw_inv demo_new"
  by (rule tw_inv_new) simp_all

lemma demo_new_eq:
  "demo_new = \<lparr>interval = 1, slots = [[], [], [], []], timers = Map.empty, currentPos = 3,
     slotNum = 4, currentTaskID = 0, heap = []\<rparr>"
  by (simp add: newTimeWheelWithTicker_def initSlots_def eval_nat_numeral)

lemma demo_add: "handle demo_new (AddMsg (new_slot 6 (UserKey 7) \<lparr>task_taskID = UserKey 7, data = 5, callback = 9\<rparr>))
    = Ret demo_wheel"
  unfolding demo_new_eq
  by (simp add: addTask_def getPositionAndCircle_def push_back_def demo_wheel_def new_slot_def go_arith)

lemma demo_wheel_inv: "tw_inv demo_wheel"
  using handle_effect [OF demo_new_inv, of "AddMsg (new_slot 6 (UserKey 7) \<lparr>task_taskID = UserKey 7, data = 5, callback = 9\<rparr>)"]
    demo_add
  by (simp add: msg_effect_def delay_fits_def demo_new_eq)

lemma demo_abs: "abs_wheel demo_wheel 0 = Some (6, \<lparr>task_taskID = UserKey 7, data = 5, callback = 9\<rparr>)"
  by (simp add: demo_wheel_def abs_wheel_def slot_index_def due_def hand_distance_def upt_rec)

section \<open>The tick refines the countdown table\<close>

text \<open>
  C1: a tick of a well-formed wheel never panics, keeps the invariant, lowers the remaining
  ticks of every pending object by one, and calls the callbacks of exactly the objects that
  had one tick left, each once.
\<close>

theorem tick_refines_countdown:
  assumes "tw_inv tw"
  shows "\<exists>tw' as. tickHandler tw = Ret (tw', map (\<lambda>a. show_call (snd (the (abs_wheel tw a)))) as)
      \<and> distinct as \<and> set as = {a. \<exists>t. abs_wheel tw a = Some (1, t)}
      \<and> tw_inv tw' \<and> abs_wheel tw' = (\<lambda>a. countdown (abs_wheel tw a))"
  using tick_calls [OF assms] by (auto simp: expired_def)

theorem tick_refines_countdown_witness:
  "tw_inv demo_wheel \<and> abs_wheel demo_wheel 0 \<noteq> None \<and>
   (\<exists>tw' out. tickHandler demo_wheel = Ret (tw', out) \<and> abs_wheel tw' 0 =
      Some (5, \<lparr>task_taskID = UserKey 7, data = 5, callback = 9\<rparr>))"
proof -
  from tick_refines_countdown [OF demo_wheel_inv] obtain tw' out where
    "tickHandler demo_wheel = Ret (tw', out)" "abs_wheel tw' = (\<lambda>a. countdown (abs_wheel demo_wheel a))"
    by blast
  then show ?thesis by (simp add: demo_wheel_inv demo_abs)
qed

section \<open>Timers fire on time\<close>

text \<open>
  C13: a timer added for an unused key with delay \<open>d\<close> fires on tick number \<open>max d interval div
  interval\<close> after it was added: whatever ticks and messages for other keys the loop serves in
  between, the run does not panic, and the tick that completes this number calls the callback
  with the key and the data.
\<close>

theorem timer_fires_on_time:
  assumes "tw_inv tw" "timers tw k = None" "AddTimer k x d cb = Ret m"
    and "delay_fits (interval tw) (slotNum tw) (max d (interval tw))"
    and "\<forall>m'. Recv m' \<in> set es \<longrightarrow> msg_ok tw m' \<and> (msg_key m' = NilKey \<or> msg_key m' \<noteq> k)"
    and "int (tick_count es) = max d (interval tw) div interval tw - 1"
  shows "\<exists>tw0 tw1 tw2 outs out. handle tw m = Ret tw0
      \<and> start tickHandler handle tw0 es = Ret (tw1, outs)
      \<and> tickHandler tw1 = Ret (tw2, out) \<and> (cb, k, x) \<in> set out"
proof -
  let ?t = "\<lparr>task_taskID = k, data = x, callback = cb\<rparr>"
  from handle_AddTimer [OF assms(1-4)] obtain tw0 where tw0:
    "handle tw m = Ret tw0" "tw_inv tw0" "msg_ok tw0 = msg_ok tw" "owner tw0 (length (heap tw)) = Some k"
    "abs_wheel tw0 (length (heap tw)) = Some (max d (interval tw) div interval tw, ?t)" by blast
  have "\<forall>m'. Recv m' \<in> set es \<longrightarrow> msg_ok tw0 m' \<and> msg_target m' \<noteq> Some k"
    using assms(5) tw0(3) by (auto simp: msg_target_def)
  from wheel.fires_on_time [OF tw0(2) this tw0(4,5) assms(6)] tw0(1) show ?thesis
    by (auto simp: show_call_def)
qed

theorem timer_fires_on_time_witness:
  "tw_inv demo_new \<and>
   (\<exists>tw0 tw1 tw2 outs out.
      handle demo_new (AddMsg (new_slot 2 (UserKey 3) \<lparr>task_taskID = UserKey 3, data = 8, callback = 1\<rparr>)) = Ret tw0
      \<and> start tickHandler handle tw0 [Recv (RemoveMsg (UserKey 4)), Tick] = Ret (tw1, outs)
      \<and> tickHandler tw1 = Ret (tw2, out) \<and> (1, UserKey 3, 8) \<in> set out)"
proof -
  have "AddTimer (UserKey 3) 8 2 1 = Ret (AddMsg (new_slot 2 (UserKey (3::nat)) \<lparr>task_taskID = UserKey 3, data = 8::nat, callback = 1::nat\<rparr>))"
    by (simp add: AddTimer_def)
  from timer_fires_on_time [OF demo_new_inv _ this, of "[Recv (RemoveMsg (UserKey 4)), Tick]"] show ?thesis
    by (simp add: demo_new_inv) (simp add: demo_new_eq delay_fits_def)
qed

text \<open>
  until then the timer waits: after any run of ticks and messages for other keys with
  fewer ticks, the loop has not panicked and the timer is still pending with the remaining
  number of ticks.
\<close>

theorem timer_not_early:
  assumes "tw_inv tw" "timers tw k = None" "AddTimer k x d cb = Ret m"
    and "delay_fits (interval tw) (slotNum tw) (max d (interval tw))"
    and "\<forall>m'. Recv m' \<in> set es \<longrightarrow> msg_ok tw m' \<and> (msg_key m' = NilKey \<or> msg_key m' \<noteq> k)"
    and "int (tick_count es) < max d (interval tw) div interval tw"
  shows "\<exists>tw0 tw1 outs. handle tw m = Ret tw0 \<and> start tickHandler handle tw0 es = Ret (tw1, outs)
      \<and> abs_wheel tw1 (length (heap tw)) =
          Some (max d (interval tw) div interval tw - int (tick_count es),
                \<lparr>task_taskID = k, data = x, callback = cb\<rparr>)"
proof -
  let ?t = "\<lparr>task_taskID = k, data = x, callback = cb\<rparr>"
  from handle_AddTimer [OF assms(1-4)] obtain tw0 where tw0:
    "handle tw m = Ret tw0" "tw_inv tw0" "msg_ok tw0 = msg_ok tw" "owner tw0 (length (heap tw)) = Some k"
    "abs_wheel tw0 (length (heap tw)) = Some (max d (interval tw) div interval tw, ?t)" by blast
  have "\<forall>m'. Recv m' \<in> set es \<longrightarrow> msg_ok tw0 m' \<and> msg_target m' \<noteq> Some k"
    using assms(5) tw0(3) by (auto simp: msg_target_def)
  from wheel.run_pending [OF tw0(2) this tw0(4,5) assms(6)] tw0(1) show ?thesis by auto
qed

theorem timer_not_early_witness:
  "\<exists>tw0 tw1 outs.
      handle demo_new (AddMsg (new_slot 2 (UserKey 3) \<lparr>task_taskID = UserKey 3, data = 8, callback = 1\<rparr>)) = Ret tw0
      \<and> start tickHandler handle tw0 [Tick] = Ret (tw1, outs)
      \<and> abs_wheel tw1 0 = Some (1, \<lparr>task_taskID = UserKey 3, data = 8, callback = 1\<rparr>)"
proof -
  have "AddTimer (UserKey 3) 8 2 1 = Ret (AddMsg (new_slot 2 (UserKey (3::nat)) \<lparr>task_taskID = UserKey 3, data = 8::nat, callback = 1::nat\<rparr>))"
    by (simp add: AddTimer_def)
  from timer_not_early [OF demo_new_inv _ this, of "[Tick]"] show ?thesis
    by (simp add: demo_new_eq delay_fits_def)
qed

section \<open>The loop never panics\<close>



section \<open>Removing and rescheduling\<close>

text \<open>
  removing a key cancels it, when the map entry of the key is the only pending object with
  that key: afterwards no object with the key is pending, no other object is affected and the
  key is unknown.
\<close>

theorem remove_cancels:
  assumes "tw_inv tw" "timers tw k = Some pi"
    and "\<forall>a < length (heap tw). taskID (heap tw ! a) = k \<and> abs_wheel tw a \<noteq> None \<longrightarrow> a = item pi"
  shows "tw_inv (removeTask tw k) \<and> timers (removeTask tw k) k = None
    \<and> (\<forall>a < length (heap tw). abs_wheel (removeTask tw k) a =
          (if taskID (heap tw ! a) = k then None else abs_wheel tw a))"
proof -
  have pi: "taskID (heap tw ! item pi) = k" using tw_inv_timer [OF assms(1,2)] by (simp add: timer_ok_def)
  have "abs_wheel (removeTask tw k) a = (if taskID (heap tw ! a) = k then None else abs_wheel tw a)"
    if "a < length (heap tw)" for a
  proof (cases "a = item pi")
    case True
    with pi show ?thesis by (simp add: removeTask_abs [OF assms(1)] assms(2))
  next
    case False
    with assms(3) that have "taskID (heap tw ! a) = k \<Longrightarrow> abs_wheel tw a = None" by blast
    with False show ?thesis by (simp add: removeTask_abs [OF assms(1)] assms(2))
  qed
  moreover have "timers (removeTask tw k) k = None" using assms(2) by (simp add: removeTask_def)
  ultimately show ?thesis using removeTask_inv [OF assms(1)] by blast
qed

theorem remove_cancels_witness:
  "abs_wheel demo_wheel 0 \<noteq> None \<and> timers (removeTask demo_wheel (UserKey 7)) (UserKey 7) = None
   \<and> abs_wheel (removeTask demo_wheel (UserKey 7)) 0 = None"
proof -
  have t: "timers demo_wheel (UserKey 7) = Some \<lparr>pos = 1, item = 0\<rparr>"
    and h: "length (heap demo_wheel) = 1" "taskID (heap demo_wheel ! 0) = UserKey 7"
    by (simp_all add: demo_wheel_def)
  have "\<forall>a < length (heap demo_wheel). taskID (heap demo_wheel ! a) = UserKey 7 \<and> abs_wheel demo_wheel a \<noteq> None
      \<longrightarrow> a = item \<lparr>pos = 1, item = 0\<rparr>"
    using h by simp
  from remove_cancels [OF demo_wheel_inv t this] h demo_abs show ?thesis by auto
qed

text \<open>
  what \<open>moveTask\<close> does to a pending object whose object it keeps (the target slot is not
  before its slot, or the delay is longer than a turn): the object becomes due after the
  requested ticks plus \<open>move_error\<close>, which is a full turn too late when the hand is between
  the old slot and the target slot, a full turn too early in the mirrored case and zero
  otherwise; a delay below one tick counts as a full turn.
\<close>

theorem reset_due_time:
  assumes "tw_inv tw" "timers tw k = Some pi" "\<not> removed (heap tw ! item pi)"
    and "delay_fits (interval tw) (slotNum tw) d"
    and "pos pi \<le> (currentPos tw + d div interval tw) mod slotNum tw \<or> slotNum tw < d div interval tw"
  shows "\<exists>tw'. moveTask tw \<lparr>delay = d, taskID = k\<rparr> = Ret tw' \<and> tw_inv tw'
    \<and> abs_wheel tw' (item pi) =
        Some ((if d div interval tw = 0 then slotNum tw else d div interval tw)
               + move_error tw (pos pi) ((currentPos tw + d div interval tw) mod slotNum tw),
              task (heap tw ! item pi))"
  using moveTask_in_place [of tw "\<lparr>delay = d, taskID = k\<rparr>" pi] assms
  by (auto simp: eff_ticks_def)

text \<open>A wheel whose hand is at slot 1 and whose only object is in slot 0, due in three ticks.\<close>

definition demo_passed :: "(nat, nat, nat) TimeWheel" where
  "demo_passed =
     \<lparr>interval = 1, slots = [[0], [], [], []], timers = [UserKey 7 \<mapsto> \<lparr>pos = 0, item = 0\<rparr>],
      currentPos = 1, slotNum = 4, currentTaskID = 0,
      heap = [\<lparr>delay = 5, taskID = UserKey 7, circle = 0, diffPos = 0,
               task = \<lparr>task_taskID = UserKey 7, data = 5, callback = 9\<rparr>, removed = False\<rparr>]\<rparr>"

lemma demo_passed_inv: "tw_inv demo_passed"
  by (simp add: tw_inv_def demo_passed_def slots_wf_def slot_index_def item_ok_def timer_ok_def
      delay_fits_def upt_rec All_less_Suc2 numeral_eq_Suc less_Suc_eq)

theorem reset_due_time_witness:
  "\<exists>tw'. moveTask demo_passed \<lparr>delay = 2, taskID = UserKey 7\<rparr> = Ret tw'
     \<and> abs_wheel tw' 0 = Some (2 + 4, \<lparr>task_taskID = UserKey 7, data = 5, callback = 9\<rparr>)"
proof -
  have "timers demo_passed (UserKey 7) = Some \<lparr>pos = 0, item = 0\<rparr>" by (simp add: demo_passed_def)
  from reset_due_time [OF demo_passed_inv this, of 2] obtain tw' where
    "moveTask demo_passed \<lparr>delay = 2, taskID = UserKey 7\<rparr> = Ret tw'"
    "abs_wheel tw' 0 = Some (6, \<lparr>task_taskID = UserKey 7, data = 5, callback = 9\<rparr>)"
    by (auto simp: demo_passed_def delay_fits_def move_error_def)
  then show ?thesis by simp
qed

text \<open>
  when the target slot lies before the object's slot and the delay is at most a turn,
  \<open>moveTask\<close> puts a new object into the target slot but leaves the map entry on the old, removed
  object.  A removal of the key therefore does not cancel the task: the new object stays
  pending with the requested ticks.
\<close>

theorem remove_after_reset_still_fires:
  assumes "tw_inv tw" "timers tw k = Some pi" "delay_fits (interval tw) (slotNum tw) d"
    and "(currentPos tw + d div interval tw) mod slotNum tw < pos pi" "d div interval tw \<le> slotNum tw"
  shows "\<exists>tw'. moveTask tw \<lparr>delay = d, taskID = k\<rparr> = Ret tw' \<and> tw_inv tw'
    \<and> abs_wheel (removeTask tw' k) (length (heap tw)) =
        Some (if d div interval tw = 0 then slotNum tw else d div interval tw, task (heap tw ! item pi))"
proof -
  let ?b = "\<lparr>delay = d, taskID = k\<rparr>"
  from moveTask_new_item [of tw ?b pi] assms obtain tw' where tw': "moveTask tw ?b = Ret tw'" "tw_inv tw'"
    "timers tw' = (timers tw)(k \<mapsto> \<lparr>pos = (currentPos tw + d div interval tw) mod slotNum tw, item = item pi\<rparr>)"
    "abs_wheel tw' = (abs_wheel tw)(item pi := None, length (heap tw) \<mapsto>
        (eff_ticks tw d, task (heap tw ! item pi)))"
    by auto
  have "item pi < length (heap tw)" using tw_inv_timer [OF assms(1,2)] by (simp add: timer_ok_def)
  with tw' show ?thesis
    by (intro exI [of _ tw']) (simp add: removeTask_abs [OF tw'(2)] eff_ticks_def)
qed

theorem remove_after_reset_still_fires_witness:
  "\<exists>tw'. moveTask demo_wheel \<lparr>delay = 1, taskID = UserKey 7\<rparr> = Ret tw'
     \<and> abs_wheel (removeTask tw' (UserKey 7)) 1 = Some (1, \<lparr>task_taskID = UserKey 7, data = 5, callback = 9\<rparr>)"
proof -
  have "timers demo_wheel (UserKey 7) = Some \<lparr>pos = 1, item = 0\<rparr>" by (simp add: demo_wheel_def)
  from remove_after_reset_still_fires [OF demo_wheel_inv this, of 1] obtain tw' where
    "moveTask demo_wheel \<lparr>delay = 1, taskID = UserKey 7\<rparr> = Ret tw'"
    "abs_wheel (removeTask tw' (UserKey 7)) 1 = Some (1, \<lparr>task_taskID = UserKey 7, data = 5, callback = 9\<rparr>)"
    by (auto simp: demo_wheel_def delay_fits_def)
  then show ?thesis by simp
qed

text \<open>
  \<open>AddTimer\<close> on a key that is already known ignores the new delay: the loop's state after
  the message does not depend on it, because the move uses the delay stored in the old object.
\<close>

theorem readd_ignores_delay:
  assumes "timers tw k = Some pi"
  shows "handle tw (AddMsg (new_slot d k t)) = handle tw (AddMsg (new_slot d' k t))"
  using assms by (simp add: addTask_def new_slot_def)

theorem readd_ignores_delay_witness:
  "handle demo_wheel (AddMsg (new_slot 1 (UserKey 7) \<lparr>task_taskID = UserKey 7, data = 1, callback = 2\<rparr>))
   = handle demo_wheel (AddMsg (new_slot 100 (UserKey 7) \<lparr>task_taskID = UserKey 7, data = 1, callback = 2\<rparr>))"
  by (rule readd_ignores_delay [where pi = "\<lparr>pos = 1, item = 0\<rparr>"]) (simp add: demo_wheel_def)

section \<open>Stopping\<close>

lemma sys_reach_alive: "sys_reach s \<Longrightarrow> loop_running s \<or> stop_closed s"
proof (induction rule: sys_reach.induct)
  case (step s s')
  from step.hyps(2) step.IH show ?case
    by cases (auto simp: Stop_def elim!: sendE split: if_splits)
qed simp

text \<open>
  C29: a call of \<open>AddTimer\<close>, \<open>ResetTask\<close> or \<open>RemoveTask\<close> never blocks for ever: in every reachable
  state of the wheel its send can complete, with the message handled or with
  \<open>ErrTimeWheelStop\<close> when the wheel was stopped; and once the loop has ended every call is
  refused and leaves the wheel as it is.
\<close>

theorem calls_complete:
  assumes "sys_reach s" "returns (handle (wheel s) m)"
  shows "(\<exists>r s'. send s m r s')
    \<and> (\<not> loop_running s \<longrightarrow> (\<forall>r s'. send s m r s' \<longleftrightarrow> r = Some ErrTimeWheelStop \<and> s' = s))"
proof -
  from sys_reach_alive [OF assms(1)] assms(2) have "\<exists>r s'. send s m r s'"
    by (auto simp: returns_iff intro: send.intros)
  moreover have "\<not> loop_running s \<Longrightarrow> stop_closed s" using sys_reach_alive [OF assms(1)] by blast
  ultimately show ?thesis by (auto elim: sendE intro: send.intros)
qed

theorem calls_complete_witness:
  "\<exists>r s'. send \<lparr>wheel = demo_new, stop_closed = True, loop_running = False\<rparr> (RemoveMsg (UserKey 1)) r s'
     \<and> r = Some ErrTimeWheelStop"
proof -
  let ?s0 = "\<lparr>wheel = demo_new, stop_closed = False, loop_running = True\<rparr>"
  have "NewTimeWheel 1 4 = Ret demo_new" by (simp add: NewTimeWheel_def)
  then have "sys_reach ?s0" by (rule sys_reach.init)
  then have "sys_reach (?s0\<lparr>stop_closed := True\<rparr>)"
    by (rule sys_reach.step) (rule sys_step.stop, simp add: Stop_def)
  then have "sys_reach (?s0\<lparr>stop_closed := True, loop_running := False\<rparr>)"
    by (rule sys_reach.step) (use sys_step.loop_exit [of "?s0\<lparr>stop_closed := True\<rparr>"] in simp)
  then have r: "sys_reach \<lparr>wheel = demo_new, stop_closed = True, loop_running = False\<rparr>" by simp
  show ?thesis
    using calls_complete [OF r, of "RemoveMsg (UserKey 1)"] by (auto simp: returns_iff)
qed

end
