(* ===== verification/GoTime.thy ===== *)
theory GoTime
  imports Prelude
begin

text \<open>
  The part of Go's \<open>time\<close> package that the modelled code uses: instants with a location, the
  proleptic Gregorian calendar, \<open>Date\<close>, \<open>AddDate\<close> and the clock and calendar readings of an
  instant.  An instant counts seconds since the Unix epoch; the fraction of a second plays no
  role in the readings.  A location is an offset for the instants before its first transition
  and the list of its transitions, each with the offset (seconds east of UTC) that it starts; a
  recurring rule is the list of the transitions it produces.
\<close>

section \<open>Locations and instants\<close>

record location =
  first_offset :: int
  transitions :: "(int \<times> int) list"

definition FixedZone :: "int \<Rightarrow> location" where
  "FixedZone off = \<lparr>first_offset = off, transitions = []\<rparr>"

abbreviation UTC :: location where "UTC \<equiv> FixedZone 0"

record Time =
  unix :: int
  loc :: location

text \<open>
  \<open>Location.lookup\<close>: the offset in force at an instant, with the half-open interval on which it
  is in force (\<open>None\<close> stands for the ends of time).
\<close>

fun lookup_from :: "int option \<Rightarrow> int \<Rightarrow> (int \<times> int) list \<Rightarrow> int \<Rightarrow> int \<times> int option \<times> int option" where
  "lookup_from st off [] sec = (off, st, None)"
| "lookup_from st off ((w, o') # tx) sec =
     (if sec < w then (off, st, Some w) else lookup_from (Some w) o' tx sec)"

definition lookup :: "location \<Rightarrow> int \<Rightarrow> int \<times> int option \<times> int option" where
  "lookup l sec = lookup_from None (first_offset l) (transitions l) sec"

definition offset_at :: "location \<Rightarrow> int \<Rightarrow> int" where
  "offset_at l sec = fst (lookup l sec)"

lemma lookup_FixedZone [simp]: "lookup (FixedZone off) sec = (off, None, None)"
  by (simp add: lookup_def FixedZone_def)

lemma offset_at_FixedZone [simp]: "offset_at (FixedZone off) sec = off"
  by (simp add: offset_at_def)

definition In :: "Time \<Rightarrow> location \<Rightarrow> Time" where
  "In t l = t\<lparr>loc := l\<rparr>"

text \<open>The local clock of an instant: seconds since 1970-01-01 00:00 of its location.\<close>

definition local_secs :: "Time \<Rightarrow> int" where
  "local_secs t = unix t + offset_at (loc t) (unix t)"

section \<open>The calendar\<close>

definition is_leap :: "int \<Rightarrow> bool" where
  "is_leap y \<longleftrightarrow> y mod 4 = 0 \<and> (y mod 100 \<noteq> 0 \<or> y mod 400 = 0)"

text \<open>Days from 0001-01-01 to the first of January of year \<open>y\<close>.\<close>

definition year_base :: "int \<Rightarrow> int" where
  "year_base y = 365 * (y - 1) + (y - 1) div 4 - (y - 1) div 100 + (y - 1) div 400"

lemma div_pred: "0 < n \<Longrightarrow> y div n = (y - 1) div n + (if y mod n = 0 then 1 else (0::int))"
proof -
  assume n: "0 < n"
  have y: "y = n * (y div n) + y mod n" by simp
  show ?thesis
  proof (cases "y mod n = 0")
    case True
    with y n have "(y - 1) div n = y div n - 1"
      by (intro int_div_pos_eq [of _ n _ "n - 1"]) (simp_all add: algebra_simps)
    with True show ?thesis by simp
  next
    case False
    then have "0 \<le> y mod n - 1" "y mod n - 1 < n"
      using pos_mod_sign [OF n, of y] pos_mod_bound [OF n, of y] by linarith+
    with y have "(y - 1) div n = y div n"
      by (intro int_div_pos_eq [of _ n _ "y mod n - 1"]) linarith+
    with False show ?thesis by simp
  qed
qed

lemma div_bounds: "0 < n \<Longrightarrow> n * (x div n) \<le> x \<and> x < n * (x div n) + (n::int)"
  using pos_mod_sign [of n x] pos_mod_bound [of n x] mult_div_mod_eq [of n x] by linarith

lemma leap_rule:
  fixes a b c a' b' c' y :: int
  assumes "a' = a + (if P then 1 else 0)" "b' = b + (if Q then 1 else 0)" "c' = c + (if R then 1 else 0)"
    and "R \<Longrightarrow> Q" "Q \<Longrightarrow> P"
  shows "365 * y + a' - b' + c' = 365 * (y - 1) + a - b + c + (if P \<and> (\<not> Q \<or> R) then 366 else 365)"
  using assms by (cases P; cases Q; cases R; simp)

lemma year_base_Suc: "year_base (y + 1) = year_base y + (if is_leap y then 366 else 365)"
proof -
  have "y mod 4 = 0" if "y mod 100 = 0"
    using that dvd_trans [of 4 100 y] by (simp add: mod_eq_0_iff_dvd)
  moreover have "y mod 100 = 0" if "y mod 400 = 0"
    using that dvd_trans [of 100 400 y] by (simp add: mod_eq_0_iff_dvd)
  ultimately show ?thesis
    unfolding year_base_def is_leap_def add_diff_cancel_right'
    by (intro leap_rule div_pred) simp_all
qed

text \<open>Days before the first of month \<open>m\<close> (1 to 13) in a year.\<close>

definition month_base :: "bool \<Rightarrow> int \<Rightarrow> int" where
  "month_base leap m =
     [0, 31, 59, 90, 120, 151, 181, 212, 243, 273, 304, 334, 365] ! nat (m - 1)
     + (if leap \<and> 2 < m then 1 else 0)"

definition month_length :: "int \<Rightarrow> int \<Rightarrow> int" where
  "month_length y m = month_base (is_leap y) (m + 1) - month_base (is_leap y) m"

definition year_of_day :: "int \<Rightarrow> int" where
  "year_of_day n =
     (let y = 400 * n div 146097 + 1 in
      if n < year_base y then y - 1 else if year_base (y + 1) \<le> n then y + 1 else y)"

definition month_of_yday :: "bool \<Rightarrow> int \<Rightarrow> int" where
  "month_of_yday leap d =
     (case filter (\<lambda>m. d < month_base leap (m + 1)) [1..12] of m # _ \<Rightarrow> m | [] \<Rightarrow> 12)"

definition day_number :: "int \<Rightarrow> int \<Rightarrow> int \<Rightarrow> int" where
  "day_number y m d = year_base y + month_base (is_leap y) m + d - 1"

definition civil :: "int \<Rightarrow> int \<times> int \<times> int" where
  "civil n =
     (let y = year_of_day n; yd = n - year_base y; m = month_of_yday (is_leap y) yd
      in (y, m, yd - month_base (is_leap y) m + 1))"

lemma year_of_day_bounds: "year_base (year_of_day n) \<le> n \<and> n < year_base (year_of_day n + 1)"
proof -
  define q where "q = 400 * n div 146097"
  have q: "146097 * q \<le> 400 * n" "400 * n < 146097 * q + 146097"
    using div_bounds [of 146097 "400 * n"] by (simp_all add: q_def)
  have b: "\<exists>a b c. year_base (z + 1) = 365 * z + a - b + c \<and> 4 * a \<le> z \<and> z < 4 * a + 4
      \<and> 25 * b \<le> a \<and> a < 25 * b + 25 \<and> 4 * c \<le> b \<and> b < 4 * c + 4" for z
  proof -
    have c: "z div 4 div 25 = z div 100" "z div 100 div 4 = z div 400" by (simp_all add: zdiv_zmult2_eq [symmetric])
    have "year_base (z + 1) = 365 * z + z div 4 - z div 100 + z div 400" by (simp add: year_base_def)
    moreover have "4 * (z div 4) \<le> z \<and> z < 4 * (z div 4) + 4" by (rule div_bounds) simp
    moreover have "25 * (z div 100) \<le> z div 4 \<and> z div 4 < 25 * (z div 100) + 25"
      using div_bounds [of 25 "z div 4", unfolded c] by simp
    moreover have "4 * (z div 400) \<le> z div 100 \<and> z div 100 < 4 * (z div 400) + 4"
      using div_bounds [of 4 "z div 100", unfolded c] by simp
    ultimately show ?thesis by blast
  qed
  have lo: "year_base q \<le> n"
  proof -
    from b [of "q - 1"] obtain a b c where *: "year_base q = 365 * (q - 1) + a - b + c"
      "4 * a \<le> q - 1" "a < 25 * b + 25" "4 * c \<le> b" by auto
    from *(2-) have "400 * a - 400 * b + 400 * c \<le> 97 * q + 203" by linarith
    moreover from *(1) have "year_base q = 365 * q - 365 + a - b + c" by simp
    ultimately show ?thesis using q(1) by linarith
  qed
  have hi: "n < year_base (q + 3)"
  proof -
    from b [of "q + 2"] obtain a b c where "year_base (q + 2 + 1) = 365 * (q + 2) + a - b + c"
      "q + 2 < 4 * a + 4" "25 * b \<le> a" "a < 25 * b + 25" "b < 4 * c + 4" by blast
    moreover have "q + 2 + 1 = q + 3" by simp
    ultimately have *: "year_base (q + 3) = 365 * (q + 2) + a - b + c"
      "q + 2 < 4 * a + 4" "25 * b \<le> a" "b < 4 * c + 4" by simp_all
    from *(2-) have "97 * q - 506 \<le> 400 * a - 400 * b + 400 * c" by linarith
    moreover from *(1) have "year_base (q + 3) = 365 * q + 730 + a - b + c" by simp
    ultimately show ?thesis using q(2) by linarith
  qed
  have "year_of_day n = (if n < year_base (q + 1) then q else if year_base (q + 2) \<le> n then q + 2 else q + 1)"
    by (simp add: year_of_day_def Let_def q_def add.commute)
  then show ?thesis using lo hi by (simp add: add.commute)
qed

text \<open>A day number determines its year: the years are consecutive intervals.\<close>

lemma year_base_mono: "y \<le> z \<Longrightarrow> year_base y \<le> year_base z"
proof (induction z rule: int_ge_induct)
  case (step z)
  then show ?case using year_base_Suc [of z] by simp
qed simp

lemma year_of_day_unique: "year_base y \<le> n \<Longrightarrow> n < year_base (y + 1) \<Longrightarrow> year_of_day n = y"
proof -
  assume y: "year_base y \<le> n" "n < year_base (y + 1)"
  have "\<not> year_of_day n < y" using year_base_mono [of "year_of_day n + 1" y] year_of_day_bounds [of n] y by linarith
  moreover have "\<not> y < year_of_day n" using year_base_mono [of "y + 1" "year_of_day n"] year_of_day_bounds [of n] y by linarith
  ultimately show ?thesis by simp
qed

lemma month_cases:
  assumes "1 \<le> m" "m \<le> (12::int)"
  obtains "m = 1" | "m = 2" | "m = 3" | "m = 4" | "m = 5" | "m = 6" | "m = 7" | "m = 8" | "m = 9"
    | "m = 10" | "m = 11" | "m = 12"
proof -
  have "m = 1 \<or> m = 2 \<or> m = 3 \<or> m = 4 \<or> m = 5 \<or> m = 6 \<or> m = 7 \<or> m = 8 \<or> m = 9 \<or> m = 10 \<or> m = 11 \<or> m = 12"
    using assms by presburger
  then show ?thesis using that by blast
qed

lemma upto_months: "[1..12] = [1, 2, 3, 4, 5, 6, 7, 8, 9, 10, 11, 12::int]"
  by (simp add: upto_rec1)

lemma month_of_yday_eq:
  assumes "1 \<le> m" "m \<le> 12" "month_base leap m \<le> d" "d < month_base leap (m + 1)"
  shows "month_of_yday leap d = m"
  using assms(1,2)
  by (cases rule: month_cases; cases leap)
     (use assms(3,4) in \<open>simp_all add: month_of_yday_def month_base_def upto_months\<close>)

lemma month_exists:
  "0 \<le> d \<Longrightarrow> d < month_base leap 13 \<Longrightarrow>
     \<exists>m. 1 \<le> m \<and> m \<le> 12 \<and> month_base leap m \<le> d \<and> d < month_base leap (m + 1)"
proof -
  assume d: "0 \<le> d" "d < month_base leap 13"
  have "k \<le> 12 \<Longrightarrow> d < month_base leap (int k + 1) \<Longrightarrow>
      \<exists>m. 1 \<le> m \<and> m \<le> int k \<and> month_base leap m \<le> d \<and> d < month_base leap (m + 1)" for k
  proof (induction k)
    case 0
    then show ?case using d by (simp add: month_base_def)
  next
    case (Suc k)
    show ?case
    proof (cases "d < month_base leap (int k + 1)")
      case True
      with Suc show ?thesis by force
    next
      case False
      with Suc show ?thesis by (intro exI [of _ "int k + 1"]) (simp add: add.commute)
    qed
  qed
  from this [of 12] d show ?thesis by simp
qed

lemma month_of_yday_ok:
  assumes "0 \<le> d" "d < (if leap then 366 else 365)"
  shows "1 \<le> month_of_yday leap d \<and> month_of_yday leap d \<le> 12
     \<and> month_base leap (month_of_yday leap d) \<le> d \<and> d < month_base leap (month_of_yday leap d + 1)"
proof -
  have "d < month_base leap 13" using assms by (simp add: month_base_def split: if_splits)
  with assms(1) month_exists obtain m where "1 \<le> m" "m \<le> 12" "month_base leap m \<le> d" "d < month_base leap (m + 1)"
    by blast
  then show ?thesis using month_of_yday_eq [of m leap d] by simp
qed

definition valid_date :: "int \<Rightarrow> int \<Rightarrow> int \<Rightarrow> bool" where
  "valid_date y m d \<longleftrightarrow> 1 \<le> m \<and> m \<le> 12 \<and> 1 \<le> d \<and> d \<le> month_length y m"

lemma month_base_range:
  assumes "1 \<le> m" "m \<le> 12"
  shows "0 \<le> month_base leap m" "month_base leap (m + 1) \<le> (if leap then 366 else 365)"
  using assms by (cases rule: month_cases; simp add: month_base_def)+

lemma month_length_range:
  assumes "1 \<le> m" "m \<le> 12" shows "28 \<le> month_length y m" "month_length y m \<le> 31"
  using assms by (cases rule: month_cases; simp add: month_length_def month_base_def)+

text \<open>The calendar is a bijection between day numbers and valid dates.\<close>

lemma civil_day_number: "valid_date y m d \<Longrightarrow> civil (day_number y m d) = (y, m, d)"
proof -
  assume v: "valid_date y m d"
  then have m: "1 \<le> m" "m \<le> 12" and d: "1 \<le> d" "d \<le> month_length y m" by (simp_all add: valid_date_def)
  have r: "0 \<le> month_base (is_leap y) m" "month_base (is_leap y) (m + 1) \<le> (if is_leap y then 366 else 365)"
    using month_base_range [OF m] by simp_all
  have "year_of_day (day_number y m d) = y"
    by (rule year_of_day_unique) (use r d year_base_Suc [of y] in \<open>simp_all add: day_number_def month_length_def\<close>)
  moreover have "month_of_yday (is_leap y) (month_base (is_leap y) m + d - 1) = m"
    by (rule month_of_yday_eq) (use m d in \<open>simp_all add: month_length_def\<close>)
  ultimately show ?thesis by (simp add: civil_def Let_def day_number_def algebra_simps)
qed

lemma civil_valid:
  assumes "civil n = (y, m, d)"
  shows "valid_date y m d" "day_number y m d = n"
proof -
  have b: "year_base y \<le> n" "n < year_base (y + 1)"
    using assms year_of_day_bounds [of n] by (auto simp: civil_def Let_def)
  then have "0 \<le> n - year_base y" "n - year_base y < (if is_leap y then 366 else 365)"
    using year_base_Suc [of y] by simp_all
  from month_of_yday_ok [OF this] assms show "valid_date y m d" "day_number y m d = n"
    by (auto simp: civil_def Let_def valid_date_def month_length_def day_number_def)
qed

section \<open>Readings of an instant\<close>

text \<open>Day 0 is 0001-01-01, a Monday; the Unix epoch is day 719162.\<close>

definition day_of :: "Time \<Rightarrow> int" where
  "day_of t = local_secs t div 86400 + 719162"

definition Year :: "Time \<Rightarrow> int" where "Year t = fst (civil (day_of t))"
definition Month :: "Time \<Rightarrow> int" where "Month t = fst (snd (civil (day_of t)))"
definition Day :: "Time \<Rightarrow> int" where "Day t = snd (snd (civil (day_of t)))"
definition Hour :: "Time \<Rightarrow> int" where "Hour t = local_secs t mod 86400 div 3600"
definition Minute :: "Time \<Rightarrow> int" where "Minute t = local_secs t mod 3600 div 60"
definition Second :: "Time \<Rightarrow> int" where "Second t = local_secs t mod 60"
definition Weekday :: "Time \<Rightarrow> int" where "Weekday t = (day_of t + 1) mod 7"

text \<open>
  \<open>time.Date\<close>: the month is normalised into the year, days and clock carry over by arithmetic;
  the offset is the one in force at the clock reading taken as UTC, or, when that offset is not
  the one of the resulting instant, the offset of that instant.
\<close>

definition within :: "int \<Rightarrow> int option \<Rightarrow> int option \<Rightarrow> bool" where
  "within x lo hi \<longleftrightarrow> (case lo of None \<Rightarrow> True | Some a \<Rightarrow> a \<le> x) \<and> (case hi of None \<Rightarrow> True | Some b \<Rightarrow> x < b)"

definition Date :: "int \<Rightarrow> int \<Rightarrow> int \<Rightarrow> int \<Rightarrow> int \<Rightarrow> int \<Rightarrow> location \<Rightarrow> Time" where
  "Date y m d h mi s l =
     (let n = day_number (y + (m - 1) div 12) ((m - 1) mod 12 + 1) d - 719162;
          u = n * 86400 + h * 3600 + mi * 60 + s
      in case lookup l u of (off, st, en) \<Rightarrow>
           if off = 0 then \<lparr>unix = u, loc = l\<rparr>
           else if within (u - off) st en then \<lparr>unix = u - off, loc = l\<rparr>
           else \<lparr>unix = u - offset_at l (u - off), loc = l\<rparr>)"

definition AddDate :: "Time \<Rightarrow> int \<Rightarrow> int \<Rightarrow> int \<Rightarrow> Time" where
  "AddDate t ys ms ds =
     Date (Year t + ys) (Month t + ms) (Day t + ds) (Hour t) (Minute t) (Second t) (loc t)"

lemma Date_FixedZone:
  "Date y m d h mi s (FixedZone off) =
     \<lparr>unix = (day_number (y + (m - 1) div 12) ((m - 1) mod 12 + 1) d - 719162) * 86400
              + h * 3600 + mi * 60 + s - off, loc = FixedZone off\<rparr>"
  by (simp add: Date_def Let_def within_def)

lemma civil_of_day [simp]: "civil (day_of t) = (Year t, Month t, Day t)"
  by (simp add: Year_def Month_def Day_def)

lemma reading_valid: "valid_date (Year t) (Month t) (Day t)"
  by (rule civil_valid(1)) (rule civil_of_day)

lemma Month_range: "1 \<le> Month t" "Month t \<le> 12"
  using reading_valid [of t] by (simp_all add: valid_date_def)

lemma div_range: "0 < n \<Longrightarrow> 0 \<le> x \<Longrightarrow> x < n * k \<Longrightarrow> 0 \<le> x div n \<and> x div n < (k::int)"
proof -
  assume *: "0 < n" "0 \<le> x" "x < n * k"
  have "\<not> k \<le> x div n"
    using mult_left_mono [of k "x div n" n] div_bounds [of n x] * by linarith
  with * show ?thesis by (simp add: pos_imp_zdiv_nonneg_iff)
qed

lemma clock_range: "0 \<le> Hour t" "Hour t < 24" "0 \<le> Minute t" "Minute t < 60"
  unfolding Hour_def Minute_def
  using div_range [of 3600 "local_secs t mod 86400" 24] div_range [of 60 "local_secs t mod 3600" 60]
  by simp_all

text \<open>Midnight of a valid date in a zone with a fixed offset reads back as written.\<close>

lemma midnight_reading:
  assumes "valid_date y m d"
  shows "Year (Date y m d 0 0 0 (FixedZone off)) = y" "Month (Date y m d 0 0 0 (FixedZone off)) = m"
    "Day (Date y m d 0 0 0 (FixedZone off)) = d" "Hour (Date y m d 0 0 0 (FixedZone off)) = 0"
    "Minute (Date y m d 0 0 0 (FixedZone off)) = 0" "Second (Date y m d 0 0 0 (FixedZone off)) = 0"
proof -
  have m: "(m - 1) div 12 = 0" "(m - 1) mod 12 + 1 = m" using assms by (simp_all add: valid_date_def)
  let ?t = "Date y m d 0 0 0 (FixedZone off)"
  have l: "local_secs ?t = (day_number y m d - 719162) * 86400"
    by (simp add: Date_FixedZone m local_secs_def)
  then have "day_of ?t = day_number y m d" by (simp add: day_of_def)
  with civil_day_number [OF assms] show "Year ?t = y" "Month ?t = m" "Day ?t = d"
    by (simp_all add: Year_def Month_def Day_def del: civil_of_day)
  have "x * 86400 mod 3600 = 0" "x * 86400 mod 60 = 0" for x :: int by (simp_all add: mod_eq_0_iff_dvd)
  with l show "Hour ?t = 0" "Minute ?t = 0" "Second ?t = 0" by (simp_all add: Hour_def Minute_def Second_def)
qed

end
