(* ===== verification/GoStrings.thy ===== *)
theory GoStrings
  imports Prelude
begin

text \<open>
  The functions of Go's \<open>strings\<close>, \<open>unicode/utf8\<close> and \<open>strconv\<close> packages that the modelled code
  calls.  A Go string is a list of bytes, one HOL \<open>char\<close> each.  Case mapping (\<open>ToLower\<close>,
  \<open>EqualFold\<close>) is modelled on ASCII letters; other bytes are left as they are.
\<close>

section \<open>UTF-8\<close>

abbreviation byte :: "char \<Rightarrow> nat" where "byte c \<equiv> of_char c"

abbreviation RuneError :: nat where "RuneError \<equiv> 65533"

definition cont :: "char \<Rightarrow> bool" where "cont c \<longleftrightarrow> 128 \<le> byte c \<and> byte c < 192"

text \<open>\<open>utf8.DecodeRune\<close>: the first rune and its width; a malformed byte is \<open>RuneError\<close> of width 1.\<close>

fun DecodeRune :: "string \<Rightarrow> nat \<times> nat" where
  "DecodeRune [] = (RuneError, 0)"
| "DecodeRune (a # s) =
    (let x = byte a in
     if x < 128 then (x, 1)
     else if 194 \<le> x \<and> x < 224 then
       (case s of b # _ \<Rightarrow> if cont b then (x mod 32 * 64 + byte b mod 64, 2) else (RuneError, 1)
        | _ \<Rightarrow> (RuneError, 1))
     else if 224 \<le> x \<and> x < 240 then
       (case s of b # c # _ \<Rightarrow>
            if cont b \<and> cont c \<and> (x = 224 \<longrightarrow> 160 \<le> byte b) \<and> (x = 237 \<longrightarrow> byte b < 160)
            then (x mod 16 * 4096 + byte b mod 64 * 64 + byte c mod 64, 3) else (RuneError, 1)
        | _ \<Rightarrow> (RuneError, 1))
     else if 240 \<le> x \<and> x < 245 then
       (case s of b # c # d # _ \<Rightarrow>
            if cont b \<and> cont c \<and> cont d \<and> (x = 240 \<longrightarrow> 144 \<le> byte b) \<and> (x = 244 \<longrightarrow> byte b < 144)
            then (x mod 8 * 262144 + byte b mod 64 * 4096 + byte c mod 64 * 64 + byte d mod 64, 4)
            else (RuneError, 1)
        | _ \<Rightarrow> (RuneError, 1))
     else (RuneError, 1))"

lemma DecodeRune_width:
  assumes "s \<noteq> []"
  shows "0 < snd (DecodeRune s)" "snd (DecodeRune s) \<le> length s"
  using assms by (cases s; auto simp: Let_def split: list.splits)+

lemma DecodeRune_ascii: "byte a < 128 \<Longrightarrow> DecodeRune (a # s) = (byte a, 1)"
  by simp

text \<open>The runes of a string, each with the bytes it was decoded from.\<close>

function runes :: "string \<Rightarrow> (nat \<times> string) list" where
  "runes s =
     (if s = [] then []
      else (case DecodeRune s of (r, n) \<Rightarrow> (r, take n s) # runes (drop n s)))"
  by pat_completeness auto
termination
  by (relation "measure length") (use DecodeRune_width in \<open>auto simp: prod_eq_iff\<close>)

declare runes.simps [simp del]

lemma concat_runes: "concat (map snd (runes s)) = s"
proof (induction s rule: runes.induct)
  case (1 s)
  then show ?case
    by (cases "s = []") (auto simp: runes.simps [of s] runes.simps [of "[]"] split: prod.splits)
qed

lemma runes_ascii: "\<forall>c \<in> set s. byte c < 128 \<Longrightarrow> runes s = map (\<lambda>c. (byte c, [c])) s"
proof (induction s)
  case (Cons a s)
  then show ?case by (simp add: runes.simps [of "a # s"])
qed (simp add: runes.simps)

section \<open>Searching, splitting, joining\<close>

fun HasPrefix :: "string \<Rightarrow> string \<Rightarrow> bool" where
  "HasPrefix s [] = True"
| "HasPrefix [] (c # p) = False"
| "HasPrefix (a # s) (c # p) = (a = c \<and> HasPrefix s p)"

lemma HasPrefix_iff: "HasPrefix s p \<longleftrightarrow> (\<exists>t. s = p @ t)"
  by (induction s p rule: HasPrefix.induct) auto

definition HasSuffix :: "string \<Rightarrow> string \<Rightarrow> bool" where
  "HasSuffix s p = HasPrefix (rev s) (rev p)"

lemma HasSuffix_iff: "HasSuffix s p \<longleftrightarrow> (\<exists>t. s = t @ p)"
proof -
  have "HasSuffix s p \<longleftrightarrow> (\<exists>t. rev s = rev p @ t)" by (simp add: HasSuffix_def HasPrefix_iff)
  also have "\<dots> \<longleftrightarrow> (\<exists>t. s = t @ p)" by (metis rev_append rev_rev_ident)
  finally show ?thesis .
qed

text \<open>\<open>strings.Index\<close>, with \<open>None\<close> for -1.\<close>

fun Index :: "string \<Rightarrow> string \<Rightarrow> nat option" where
  "Index [] sub = (if sub = [] then Some 0 else None)"
| "Index (a # s) sub = (if HasPrefix (a # s) sub then Some 0 else map_option Suc (Index s sub))"

lemma Index_Some:
  "Index s sub = Some i \<Longrightarrow> s = take i s @ sub @ drop (i + length sub) s \<and> i + length sub \<le> length s"
proof (induction s sub arbitrary: i rule: Index.induct)
  case (2 a s sub)
  show ?case
  proof (cases "HasPrefix (a # s) sub")
    case True
    then obtain t where t: "a # s = sub @ t" by (auto simp: HasPrefix_iff)
    have "i = 0" using True 2 by simp
    then show ?thesis using t by simp
  next
    case False
    with 2 show ?thesis by auto
  qed
qed (auto split: if_splits)

lemma Index_char_None: "Index s [c] = None \<longleftrightarrow> c \<notin> set s"
  by (induction s) auto

definition Contains :: "string \<Rightarrow> string \<Rightarrow> bool" where
  "Contains s sub \<longleftrightarrow> Index s sub \<noteq> None"

text \<open>
  \<open>strings.Split\<close>; with an empty separator it splits after each rune.  \<open>SplitN2\<close> is
  \<open>strings.SplitN(s, sep, 2)\<close>.
\<close>

function split_sep :: "string \<Rightarrow> string \<Rightarrow> string list" where
  "split_sep s sep =
     (if sep = [] then [s]
      else (case Index s sep of
              None \<Rightarrow> [s]
            | Some i \<Rightarrow> take i s # split_sep (drop (i + length sep) s) sep))"
  by pat_completeness auto
termination
proof (relation "measure (\<lambda>(s, sep). length s)", simp)
  fix s sep :: string and i
  assume "sep \<noteq> []" "Index s sep = Some i"
  then show "((drop (i + length sep) s, sep), s, sep) \<in> measure (\<lambda>(s, sep). length s)"
    using Index_Some [of s sep i] by (cases sep) auto
qed

declare split_sep.simps [simp del]

definition Split :: "string \<Rightarrow> string \<Rightarrow> string list" where
  "Split s sep = (if sep = [] then map snd (runes s) else split_sep s sep)"

definition SplitN2 :: "string \<Rightarrow> string \<Rightarrow> string list" where
  "SplitN2 s sep =
     (if sep = [] then
        (case runes s of r # q # rs \<Rightarrow> [snd r, concat (map snd (q # rs))] | rs \<Rightarrow> map snd rs)
      else case Index s sep of None \<Rightarrow> [s] | Some i \<Rightarrow> [take i s, drop (i + length sep) s])"

fun Join :: "string list \<Rightarrow> string \<Rightarrow> string" where
  "Join [] sep = []"
| "Join [s] sep = s"
| "Join (s # t # ts) sep = s @ sep @ Join (t # ts) sep"

lemma split_sep_nonempty: "split_sep s sep \<noteq> []"
  by (subst split_sep.simps) (auto split: option.splits)

lemma Split_nonempty: "sep \<noteq> [] \<Longrightarrow> Split s sep \<noteq> []"
  by (simp add: Split_def split_sep_nonempty)

lemma Join_Cons: "ts \<noteq> [] \<Longrightarrow> Join (s # ts) sep = s @ sep @ Join ts sep"
  by (cases ts) auto

text \<open>Joining what was split gives the string back.\<close>

lemma Join_Split: "sep \<noteq> [] \<Longrightarrow> Join (Split s sep) sep = s"
proof -
  have "Join (split_sep s sep) sep = s" if "sep \<noteq> []"
    using that
  proof (induction s sep rule: split_sep.induct)
    case (1 s sep)
    show ?case
    proof (cases "Index s sep")
      case None
      with 1 show ?thesis by (subst split_sep.simps) simp
    next
      case (Some i)
      with 1 have "Join (split_sep (drop (i + length sep) s) sep) sep = drop (i + length sep) s" by simp
      with Some 1 Index_Some [OF Some] show ?thesis
        by (subst split_sep.simps) (simp add: Join_Cons split_sep_nonempty)
    qed
  qed
  then show "sep \<noteq> [] \<Longrightarrow> Join (Split s sep) sep = s" by (simp add: Split_def)
qed

lemma Index_append_sep: "c \<notin> set s \<Longrightarrow> Index (s @ c # t) [c] = Some (length s)"
  by (induction s) auto

lemma Split_char_simps:
  "c \<notin> set s \<Longrightarrow> Split s [c] = [s]"
  "c \<notin> set s \<Longrightarrow> Split (s @ c # t) [c] = s # Split t [c]"
  by (auto simp: Split_def split_sep.simps [of s] split_sep.simps [of "s @ c # t"] Index_append_sep
      Index_char_None [THEN iffD2])

text \<open>
  With a longer separator the same holds for a part that lacks the separator's first character.
\<close>

lemma Index_append_seps: "d \<notin> set s \<Longrightarrow> Index (s @ d # ds @ t) (d # ds) = Some (length s)"
proof (induction s)
  case Nil
  then show ?case using HasPrefix_iff [of "d # ds @ t" "d # ds"] by simp
qed auto

lemma Index_head_None: "d \<notin> set s \<Longrightarrow> Index s (d # ds) = None"
  by (induction s) auto

lemma Split_seps:
  assumes "d \<notin> set s"
  shows "Split s (d # ds) = [s]" "Split (s @ (d # ds) @ t) (d # ds) = s # Split t (d # ds)"
  using assms Index_append_seps [OF assms, of ds t]
  by (simp_all add: Split_def split_sep.simps [of s] split_sep.simps [of "s @ d # ds @ t"] Index_head_None)

text \<open>Splitting what was joined gives the parts back.\<close>

lemma Split_Join:
  assumes "ps \<noteq> []" "\<forall>p \<in> set ps. d \<notin> set p"
  shows "Split (Join ps (d # ds)) (d # ds) = ps"
  using assms
proof (induction ps)
  case (Cons p ps)
  show ?case
  proof (cases ps)
    case Nil
    with Cons.prems show ?thesis by (simp add: Split_seps)
  next
    case (Cons q qs)
    with Cons.IH Cons.prems show ?thesis using Split_seps(2) [of d p ds "Join ps (d # ds)"] by simp
  qed
qed simp

lemma Split_char_parts: "p \<in> set (Split s [c]) \<Longrightarrow> c \<notin> set p"
proof -
  have "sep = [c] \<Longrightarrow> p \<in> set (split_sep s sep) \<Longrightarrow> c \<notin> set p" for sep
  proof (induction s sep rule: split_sep.induct)
    case (1 s sep)
    show ?case
    proof (cases "Index s [c]")
      case None
      with 1 show ?thesis by (auto simp: split_sep.simps [of s] Index_char_None)
    next
      case (Some i)
      have "c \<notin> set (take i s)" using Some
      proof (induction s arbitrary: i)
        case (Cons a s)
        then show ?case by (auto split: if_splits)
      qed simp
      with Some 1 show ?thesis by (auto simp: split_sep.simps [of s])
    qed
  qed
  then show "p \<in> set (Split s [c]) \<Longrightarrow> c \<notin> set p" by (simp add: Split_def)
qed

section \<open>Trimming and case\<close>

definition is_space_rune :: "nat \<Rightarrow> bool" where
  "is_space_rune r \<longleftrightarrow> r \<in> {9, 10, 11, 12, 13, 32, 133, 160, 5760, 8232, 8233, 8239, 8287, 12288}
     \<or> 8192 \<le> r \<and> r \<le> 8202"

definition TrimSpace :: "string \<Rightarrow> string" where
  "TrimSpace s =
     concat (map snd (rev (dropWhile (is_space_rune \<circ> fst)
       (rev (dropWhile (is_space_rune \<circ> fst) (runes s))))))"

text \<open>\<open>strings.TrimRight(s, cut)\<close> for a cut set of one ASCII character.\<close>

definition TrimRightChar :: "string \<Rightarrow> char \<Rightarrow> string" where
  "TrimRightChar s c = rev (dropWhile (\<lambda>x. x = c) (rev s))"

definition TrimChar :: "string \<Rightarrow> char \<Rightarrow> string" where
  "TrimChar s c = TrimRightChar (dropWhile (\<lambda>x. x = c) s) c"

definition lower_char :: "char \<Rightarrow> char" where
  "lower_char c = (if 65 \<le> byte c \<and> byte c \<le> 90 then char_of (byte c + 32) else c)"

definition ToLower :: "string \<Rightarrow> string" where
  "ToLower s = map lower_char s"

definition upper_char :: "char \<Rightarrow> char" where
  "upper_char c = (if 97 \<le> byte c \<and> byte c \<le> 122 then char_of (byte c - 32) else c)"

definition EqualFold :: "string \<Rightarrow> string \<Rightarrow> bool" where
  "EqualFold s t \<longleftrightarrow> ToLower s = ToLower t"

lemma EqualFold_refl [simp]: "EqualFold s s"
  by (simp add: EqualFold_def)

lemma ToLower_idem [simp]: "ToLower (ToLower s) = ToLower s"
  by (auto simp: ToLower_def lower_char_def)

lemma length_ToLower [simp]: "length (ToLower s) = length s"
  by (simp add: ToLower_def)

section \<open>Hexadecimal\<close>

text \<open>\<open>hex.EncodeToString\<close>, and the upper-case form of the verb \<open>%02X\<close>.\<close>

definition hex_digit :: "nat \<Rightarrow> char" where "hex_digit n = ''0123456789abcdef'' ! n"
definition HEX_digit :: "nat \<Rightarrow> char" where "HEX_digit n = ''0123456789ABCDEF'' ! n"

definition hex_EncodeToString :: "string \<Rightarrow> string" where
  "hex_EncodeToString s = concat (map (\<lambda>c. [hex_digit (byte c div 16), hex_digit (byte c mod 16)]) s)"

lemma length_hex [simp]: "length (hex_EncodeToString s) = 2 * length s"
  by (induction s) (simp_all add: hex_EncodeToString_def)

lemma hex_digit_mem: "n < 16 \<Longrightarrow> hex_digit n \<in> set ''0123456789abcdef''"
proof -
  assume "n < 16"
  then have "n < length ''0123456789abcdef''" by simp
  from nth_mem [OF this] show ?thesis by (simp add: hex_digit_def)
qed

lemma set_hex: "set (hex_EncodeToString s) \<subseteq> set ''0123456789abcdef''"
proof
  fix x assume "x \<in> set (hex_EncodeToString s)"
  then obtain c where "c \<in> set s" "x = hex_digit (byte c div 16) \<or> x = hex_digit (byte c mod 16)"
    by (auto simp: hex_EncodeToString_def)
  moreover have "byte c div 16 < 16" "byte c mod 16 < 16" using nat_of_char_less_256 [of c] by (simp_all add: less_mult_imp_div_less)
  ultimately show "x \<in> set ''0123456789abcdef''" using hex_digit_mem by blast
qed

section \<open>Numbers\<close>

definition is_digit :: "char \<Rightarrow> bool" where
  "is_digit c \<longleftrightarrow> 48 \<le> byte c \<and> byte c \<le> 57"

definition digit_val :: "char \<Rightarrow> int" where
  "digit_val c = int (byte c) - 48"

fun digits_val :: "int \<Rightarrow> string \<Rightarrow> int" where
  "digits_val acc [] = acc"
| "digits_val acc (c # cs) = digits_val (10 * acc + digit_val c) cs"

text \<open>\<open>strconv.Atoi\<close> and \<open>strconv.ParseInt(s, 10, 64)\<close>.\<close>

definition Atoi :: "string \<Rightarrow> int outcome" where
  "Atoi s =
     (let neg = (case s of c # _ \<Rightarrow> c = CHR ''-'' | [] \<Rightarrow> False);
          ds = (case s of c # cs \<Rightarrow> if c = CHR ''-'' \<or> c = CHR ''+'' then cs else s | [] \<Rightarrow> s);
          v = (if neg then - digits_val 0 ds else digits_val 0 ds)
      in if ds = [] \<or> \<not> list_all is_digit ds then Fail (Errorf ''invalid syntax'')
         else if v < - (2 ^ 63) \<or> 2 ^ 63 \<le> v then Fail (Errorf ''value out of range'')
         else Ret v)"

fun nat_digits :: "nat \<Rightarrow> string" where
  "nat_digits n = (if n < 10 then [char_of (48 + n)] else nat_digits (n div 10) @ [char_of (48 + n mod 10)])"

declare nat_digits.simps [simp del]

text \<open>\<open>strconv.Itoa\<close>.\<close>

definition Itoa :: "int \<Rightarrow> string" where
  "Itoa i = (if i < 0 then CHR ''-'' # nat_digits (nat (- i)) else nat_digits (nat i))"

lemma digits_val_append: "digits_val a (xs @ [c]) = 10 * digits_val a xs + digit_val c"
  by (induction xs arbitrary: a) auto

lemma nat_digits_props: "nat_digits n \<noteq> [] \<and> list_all is_digit (nat_digits n) \<and> digits_val 0 (nat_digits n) = int n"
proof (induction n rule: nat_digits.induct)
  case (1 n)
  have "byte (char_of (48 + k) :: char) = 48 + k" if "k < 10" for k :: nat
    using that by (simp add: of_char_of)
  moreover have "10 * int (n div 10) + int (n mod 10) = int n" "n mod 10 \<le> 9" by presburger+
  ultimately show ?case using 1
    by (cases "n < 10")
       (simp_all add: nat_digits.simps [of n] is_digit_def digit_val_def digits_val_append)
qed

lemma hd_digit_no_sign: "list_all is_digit (c # cs) \<Longrightarrow> c \<noteq> CHR ''-'' \<and> c \<noteq> CHR ''+''"
  by (auto simp: is_digit_def)

text \<open>Printing and parsing a 64-bit integer is the identity.\<close>

lemma Atoi_Itoa: "in_int64 i \<Longrightarrow> Atoi (Itoa i) = Ret i"
proof -
  assume i: "in_int64 i"
  define ds where "ds = nat_digits (nat \<bar>i\<bar>)"
  have ds: "ds \<noteq> []" "list_all is_digit ds" "digits_val 0 ds = \<bar>i\<bar>"
    using nat_digits_props [of "nat \<bar>i\<bar>"] by (auto simp: ds_def)
  obtain c cs where cs: "ds = c # cs" using ds(1) by (cases ds) auto
  with ds(2) have "c \<noteq> CHR ''-''" "c \<noteq> CHR ''+''" using hd_digit_no_sign by auto
  moreover have "Itoa i = (if i < 0 then CHR ''-'' # ds else ds)" by (simp add: Itoa_def ds_def abs_if)
  ultimately show ?thesis using i ds cs by (auto simp: Atoi_def Let_def split: if_splits)
qed

end
