(* ===== verification/TimeInterval.thy ===== *)
theory TimeInterval
  imports GoTime GoStrings
begin

text \<open>
  Model of \<open>pkg/gds/timeinterval/timeinterval.go\<close>: the five kinds of range and their parsers, the
  interval, and its membership test.  A receiver that a method mutates is returned updated beside
  the error.  The title-casing function of \<open>golang.org/x/text/cases\<close> and \<open>time.LoadLocation\<close> with
  its environment are arguments.
\<close>

section \<open>Data\<close>

record InclusiveRange =
  Begin :: int
  End :: int

record TimeRange =
  StartMinute :: int
  EndMinute :: int

type_synonym WeekdayRange = InclusiveRange
type_synonym DayOfMonthRange = InclusiveRange
type_synonym MonthRange = InclusiveRange
type_synonym YearRange = InclusiveRange

text \<open>A nil slice is \<open>None\<close>: it is not the same as an empty one in the membership test.\<close>

record TimeInterval =
  Times :: "TimeRange list option"
  Weekdays :: "WeekdayRange list option"
  DaysOfMonth :: "DayOfMonthRange list option"
  Months :: "MonthRange list option"
  Years :: "YearRange list option"
  Location :: "location option"

definition daysOfWeek :: "string \<Rightarrow> int option" where
  "daysOfWeek = map_of (zip [''Sunday'', ''Monday'', ''Tuesday'', ''Wednesday'', ''Thursday'', ''Friday'', ''Saturday''] [0..6])"

definition months :: "string \<Rightarrow> int option" where
  "months = map_of (zip [''January'', ''February'', ''March'', ''April'', ''May'', ''June'', ''July'',
     ''August'', ''September'', ''October'', ''November'', ''December''] [1..12])"

section \<open>Parsing members\<close>

text \<open>The regular expression \<open>^((([01][0-9])|(2[0-3])):[0-5][0-9])$|(^24:00$)\<close>.\<close>

definition validTimeRE :: "string \<Rightarrow> bool" where
  "validTimeRE s \<longleftrightarrow>
     (case s of [a, b, c, d, e] \<Rightarrow>
        (a \<in> {CHR ''0'', CHR ''1''} \<and> is_digit b \<or> a = CHR ''2'' \<and> b \<in> {CHR ''0'', CHR ''1'', CHR ''2'', CHR ''3''})
        \<and> c = CHR '':'' \<and> is_digit d \<and> byte d \<le> 53 \<and> is_digit e
      | _ \<Rightarrow> False)
     \<or> s = ''24:00''"

definition parseTime :: "string \<Rightarrow> int outcome" where
  "parseTime inp =
     (if \<not> validTimeRE inp then Fail (Errorf (''couldn't parse timestamp '' @ inp @ '', invalid format''))
      else case Split inp '':'' of
        [h, m] \<Rightarrow>
          go_bind (Atoi h) (\<lambda>timeStampHours.
          go_bind (Atoi m) (\<lambda>timeStampMinutes.
            if timeStampHours < 0 \<or> timeStampHours > 24 \<or> timeStampMinutes < 0 \<or> timeStampMinutes > 60
            then Fail (Errorf (''timestamp '' @ inp @ '' out of range''))
            else Ret (timeStampHours * 60 + timeStampMinutes)))
      | _ \<Rightarrow> Fail (Errorf (''invalid timestamp format: '' @ inp)))"

definition ir_memberFromString :: "string \<Rightarrow> int outcome" where
  "ir_memberFromString inp = Atoi inp"

definition wr_memberFromString :: "string \<Rightarrow> int outcome" where
  "wr_memberFromString inp =
     (case daysOfWeek inp of None \<Rightarrow> Fail (Errorf (inp @ '' is not a valid weekday'')) | Some d \<Rightarrow> Ret d)"

definition mr_memberFromString :: "string \<Rightarrow> int outcome" where
  "mr_memberFromString inp =
     (case months inp of None \<Rightarrow> Fail (Errorf (inp @ '' is not a valid month'')) | Some m \<Rightarrow> Ret m)"

definition tr_memberFromString :: "string \<Rightarrow> int outcome" where
  "tr_memberFromString inp =
     (case parseTime inp of Fail _ \<Rightarrow> Fail (Errorf (inp @ '' is not a valid time'')) | r \<Rightarrow> r)"

section \<open>Parsing ranges\<close>

text \<open>
  The interface \<open>stringableRange\<close>: \<open>setBegin\<close>, \<open>setEnd\<close> and \<open>memberFromString\<close> of the dynamic
  type of the receiver.  The error result is \<open>Some\<close> and the receiver is returned as it is left.
\<close>

definition stringableRangeFromString ::
  "(string \<Rightarrow> string) \<Rightarrow> (int \<Rightarrow> 'r \<Rightarrow> 'r) \<Rightarrow> (int \<Rightarrow> 'r \<Rightarrow> 'r) \<Rightarrow> (string \<Rightarrow> int outcome) \<Rightarrow>
   string \<Rightarrow> 'r \<Rightarrow> 'r \<times> unit outcome" where
  "stringableRangeFromString title setBegin setEnd memberFromString inp0 r =
     (let inp = ToLower inp0 in
      if Contains inp ''~'' then
        (case Split inp ''~'' of
           [c0, c1] \<Rightarrow>
             (case memberFromString (title c0) of
                Ret start \<Rightarrow>
                  (case memberFromString (title c1) of
                     Ret en \<Rightarrow> (setEnd en (setBegin start r), Ret ())
                   | Fail e \<Rightarrow> (r, Fail e)
                   | Panic p \<Rightarrow> (r, Panic p))
              | Fail e \<Rightarrow> (r, Fail e)
              | Panic p \<Rightarrow> (r, Panic p))
         | _ \<Rightarrow> (r, Fail (Errorf (''couldn't parse range '' @ inp @ '', invalid format''))))
      else
        (case memberFromString (title inp) of
           Ret v \<Rightarrow> (setEnd v (setBegin v r), Ret ())
         | Fail e \<Rightarrow> (r, Fail e)
         | Panic p \<Rightarrow> (r, Panic p)))"

definition ir_setBegin :: "int \<Rightarrow> InclusiveRange \<Rightarrow> InclusiveRange" where
  "ir_setBegin n ir = ir\<lparr>Begin := n\<rparr>"

definition ir_setEnd :: "int \<Rightarrow> InclusiveRange \<Rightarrow> InclusiveRange" where
  "ir_setEnd n ir = ir\<lparr>End := n\<rparr>"

definition tr_setBegin :: "int \<Rightarrow> TimeRange \<Rightarrow> TimeRange" where
  "tr_setBegin n tr = tr\<lparr>StartMinute := n\<rparr>"

definition tr_setEnd :: "int \<Rightarrow> TimeRange \<Rightarrow> TimeRange" where
  "tr_setEnd n tr = tr\<lparr>EndMinute := n\<rparr>"

text \<open>Each \<open>UnmarshalText\<close> parses first and then checks the receiver it has already set.\<close>

definition WeekdayRange_UnmarshalText :: "(string \<Rightarrow> string) \<Rightarrow> string \<Rightarrow> WeekdayRange \<Rightarrow> WeekdayRange \<times> unit outcome" where
  "WeekdayRange_UnmarshalText title inp wr =
     (case stringableRangeFromString title ir_setBegin ir_setEnd wr_memberFromString inp wr of
        (wr, Ret _) \<Rightarrow>
          (wr, if Begin wr > End wr then Fail (Errorf ''start day cannot be before end day'') else Ret ())
      | r \<Rightarrow> r)"

definition DayOfMonthRange_UnmarshalText :: "(string \<Rightarrow> string) \<Rightarrow> string \<Rightarrow> DayOfMonthRange \<Rightarrow> DayOfMonthRange \<times> unit outcome" where
  "DayOfMonthRange_UnmarshalText title inp dr =
     (case stringableRangeFromString title ir_setBegin ir_setEnd ir_memberFromString inp dr of
        (dr, Ret _) \<Rightarrow>
          (dr,
           if Begin dr = 0 \<or> Begin dr < -31 \<or> Begin dr > 31
           then Fail (Errorf (Itoa (Begin dr) @ '' is not a valid day of the month: out of range''))
           else if End dr = 0 \<or> End dr < -31 \<or> End dr > 31
           then Fail (Errorf (Itoa (End dr) @ '' is not a valid day of the month: out of range''))
           else if Begin dr < 0 \<and> End dr > 0
           then Fail (Errorf ''end day must be negative if start day is negative'')
           else let checkBegin = (if Begin dr < 0 then 28 + Begin dr else Begin dr);
                    checkEnd = (if End dr < 0 then 28 + End dr else End dr)
                in if checkBegin > checkEnd
                   then Fail (Errorf (''end day '' @ Itoa (End dr) @ '' is always before start day '' @ Itoa (Begin dr)))
                   else Ret ())
      | r \<Rightarrow> r)"

definition MonthRange_UnmarshalText :: "(string \<Rightarrow> string) \<Rightarrow> string \<Rightarrow> MonthRange \<Rightarrow> MonthRange \<times> unit outcome" where
  "MonthRange_UnmarshalText title inp mr =
     (case stringableRangeFromString title ir_setBegin ir_setEnd mr_memberFromString inp mr of
        (mr, Ret _) \<Rightarrow>
          (mr, if Begin mr > End mr
               then Fail (Errorf (''end month '' @ Itoa (End mr) @ '' is before start month '' @ Itoa (Begin mr)))
               else Ret ())
      | r \<Rightarrow> r)"

definition YearRange_UnmarshalText :: "(string \<Rightarrow> string) \<Rightarrow> string \<Rightarrow> YearRange \<Rightarrow> YearRange \<times> unit outcome" where
  "YearRange_UnmarshalText title inp yr =
     (case stringableRangeFromString title ir_setBegin ir_setEnd ir_memberFromString inp yr of
        (yr, Ret _) \<Rightarrow>
          (yr, if Begin yr > End yr
               then Fail (Errorf (''end year '' @ Itoa (End yr) @ '' is before start year '' @ Itoa (Begin yr)))
               else Ret ())
      | r \<Rightarrow> r)"

definition TimeRange_UnmarshalText :: "(string \<Rightarrow> string) \<Rightarrow> string \<Rightarrow> TimeRange \<Rightarrow> TimeRange \<times> unit outcome" where
  "TimeRange_UnmarshalText title inp tr =
     (case stringableRangeFromString title tr_setBegin tr_setEnd tr_memberFromString inp tr of
        (tr, Ret _) \<Rightarrow>
          (tr, if StartMinute tr \<ge> EndMinute tr
               then Fail (Errorf ''start time cannot be equal or greater than end time'') else Ret ())
      | r \<Rightarrow> r)"

text \<open>
  \<open>Location.UnmarshalText\<close>; the operating system's name, the environment variable and the time
  zone database are arguments.
\<close>

definition Location_UnmarshalText ::
  "string \<Rightarrow> (string \<Rightarrow> string) \<Rightarrow> (string \<Rightarrow> location outcome) \<Rightarrow> string \<Rightarrow> location \<Rightarrow> location \<times> unit outcome" where
  "Location_UnmarshalText GOOS Getenv LoadLocation str tz =
     (case LoadLocation str of
        Ret l \<Rightarrow> (l, Ret ())
      | Panic p \<Rightarrow> (tz, Panic p)
      | Fail err \<Rightarrow>
          (tz, if GOOS = ''windows''
               then (if Getenv ''ZONEINFO'' \<noteq> []
                     then Fail (Wrapf (''%w (ZONEINFO='' @ Getenv ''ZONEINFO'' @ '')'') err)
                     else Fail (Wrapf ''%w (on Windows platforms, you may have to pass the time zone database using the ZONEINFO environment variable, see https://pkg.go.dev/time#LoadLocation for details)'' err))
               else Fail err))"

section \<open>Membership\<close>

text \<open>
  The month's length in seconds is a whole number, so the truncated quotient of the
  floating-point hours by 24 is the integer quotient of the seconds by 86400.
\<close>

definition daysInMonth :: "Time \<Rightarrow> int" where
  "daysInMonth t =
     (let monthStart = Date (Year t) (Month t) 1 0 0 0 (loc t);
          monthEnd = AddDate monthStart 0 1 0
      in (unix monthEnd - unix monthStart) sdiv 86400)"

definition clamp :: "int \<Rightarrow> int \<Rightarrow> int \<Rightarrow> int" where
  "clamp n mn mx = (if n \<le> mn then mn else if n \<ge> mx then mx else n)"

definition in_times :: "Time \<Rightarrow> TimeRange \<Rightarrow> bool" where
  "in_times t validMinutes \<longleftrightarrow>
     Hour t * 60 + Minute t \<ge> StartMinute validMinutes \<and> Hour t * 60 + Minute t < EndMinute validMinutes"

definition in_days_of_month :: "Time \<Rightarrow> DayOfMonthRange \<Rightarrow> bool" where
  "in_days_of_month t validDates \<longleftrightarrow>
     (let dim = daysInMonth t;
          begin = (if Begin validDates < 0 then dim + Begin validDates + 1 else Begin validDates);
          en = (if End validDates < 0 then dim + End validDates + 1 else End validDates)
      in if begin > dim then False
         else let begin = clamp begin (-1 * dim) dim; en = clamp en (-1 * dim) dim
              in Day t \<ge> begin \<and> Day t \<le> en)"

definition in_range :: "int \<Rightarrow> InclusiveRange \<Rightarrow> bool" where
  "in_range x r \<longleftrightarrow> x \<ge> Begin r \<and> x \<le> End r"

text \<open>One block of \<open>ContainsTime\<close>: skipped for a nil slice, else some element must match.\<close>

definition check_field :: "('a \<Rightarrow> bool) \<Rightarrow> 'a list option \<Rightarrow> bool" where
  "check_field p rs = (case rs of None \<Rightarrow> True | Some l \<Rightarrow> list_ex p l)"

definition ContainsTime :: "TimeInterval \<Rightarrow> Time \<Rightarrow> bool" where
  "ContainsTime tp t0 =
     (let t = (case Location tp of None \<Rightarrow> t0 | Some l \<Rightarrow> In t0 l) in
      if \<not> check_field (in_times t) (Times tp) then False
      else if \<not> check_field (in_days_of_month t) (DaysOfMonth tp) then False
      else if \<not> check_field (in_range (Month t)) (Months tp) then False
      else if \<not> check_field (in_range (Weekday t)) (Weekdays tp) then False
      else if \<not> check_field (in_range (Year t)) (Years tp) then False
      else True)"

section \<open>The month's length\<close>

text \<open>In a zone with a fixed offset \<open>daysInMonth\<close> is the calendar's month length.\<close>

lemma next_month_day_number:
  assumes "1 \<le> m" "m \<le> 12"
  shows "day_number (y + m div 12) (m mod 12 + 1) 1 - day_number y m 1 = month_length y m"
proof (cases "m = 12")
  case True
  then show ?thesis using year_base_Suc [of y]
    by (simp add: day_number_def month_length_def month_base_def)
next
  case False
  with assms have "m div 12 = 0" "m mod 12 = m" by simp_all
  then show ?thesis by (simp add: day_number_def month_length_def)
qed

lemma daysInMonth_fixed:
  assumes "loc t = FixedZone off"
  shows "daysInMonth t = month_length (Year t) (Month t)"
proof -
  let ?y = "Year t" and ?m = "Month t"
  note m = Month_range [of t]
  let ?s = "Date ?y ?m 1 0 0 0 (FixedZone off)"
  have v: "valid_date ?y ?m 1" using m month_length_range [of ?m ?y] by (simp add: valid_date_def)
  have mm: "(?m - 1) div 12 = 0" "(?m - 1) mod 12 + 1 = ?m" "1 + (?m - 1) mod 12 = ?m" using m by simp_all
  have loc: "loc ?s = FixedZone off" by (simp add: Date_FixedZone)
  have "unix (AddDate ?s 0 1 0) - unix ?s = 86400 * month_length ?y ?m"
    unfolding AddDate_def midnight_reading [OF v] loc
    using next_month_day_number [OF m, of ?y] by (simp add: Date_FixedZone mm algebra_simps)
  moreover have "0 \<le> month_length ?y ?m" using month_length_range [OF m, of ?y] by simp
  ultimately show ?thesis by (simp add: daysInMonth_def assms Let_def go_arith)
qed

end
