(* ===== verification/TimeIntervalProps.thy ===== *)
theory TimeIntervalProps
  imports TimeInterval
begin

text \<open>
  The interface \<open>stringableRange\<close> as a locale with the facts about range parsing proved once, its
  interpretation for the receivers of the code, and the properties of parsing and membership.
\<close>

section \<open>The range interface\<close>

locale stringable_range =
  fixes setBegin :: "int \<Rightarrow> 'r \<Rightarrow> 'r" and setEnd :: "int \<Rightarrow> 'r \<Rightarrow> 'r"
    and getBegin :: "'r \<Rightarrow> int" and getEnd :: "'r \<Rightarrow> int"
    and member :: "string \<Rightarrow> int outcome" and member_ok :: "int \<Rightarrow> bool"
  assumes begin_set: "getBegin (setBegin n r) = n"
    and end_set: "getEnd (setEnd n r) = n"
    and begin_kept: "getBegin (setEnd n r) = getBegin r"
    and member_sound: "member s = Ret v \<Longrightarrow> member_ok v"
    and member_safe: "member s \<noteq> Panic p"
begin

abbreviation parse where
  "parse title \<equiv> stringableRangeFromString title setBegin setEnd member"

lemma parse_sound:
  "parse title s r = (r', Ret ()) \<Longrightarrow> member_ok (getBegin r') \<and> member_ok (getEnd r')"
  by (auto simp: stringableRangeFromString_def Let_def begin_set end_set begin_kept dest: member_sound
      split: if_splits list.splits outcome.splits)

lemma parse_safe: "snd (parse title s r) \<noteq> Panic p"
  by (auto simp: stringableRangeFromString_def Let_def member_safe split: list.splits outcome.splits)

lemma parse_error_keeps: "parse title s r = (r', Fail e) \<Longrightarrow> r' = r"
  by (auto simp: stringableRangeFromString_def Let_def split: if_splits list.splits outcome.splits)

lemma parse_pair:
  assumes "CHR ''~'' \<notin> set (ToLower a)" "CHR ''~'' \<notin> set (ToLower b)"
    and "member (title (ToLower a)) = Ret x" "member (title (ToLower b)) = Ret y"
  shows "parse title (a @ ''~'' @ b) r = (setEnd y (setBegin x r), Ret ())"
proof -
  have "ToLower (a @ ''~'' @ b) = ToLower a @ CHR ''~'' # ToLower b"
    by (simp add: ToLower_def lower_char_def)
  moreover have "Split (ToLower a @ CHR ''~'' # ToLower b) ''~'' = [ToLower a, ToLower b]"
    using assms(1,2) by (simp add: Split_char_simps)
  moreover have "Contains (ToLower a @ CHR ''~'' # ToLower b) ''~''"
    using Index_append_sep [OF assms(1)] by (simp add: Contains_def)
  ultimately show ?thesis using assms(3,4) by (simp add: stringableRangeFromString_def)
qed

end

lemma daysOfWeek_range: "daysOfWeek s = Some d \<Longrightarrow> 0 \<le> d \<and> d \<le> 6"
  by (auto simp: daysOfWeek_def upto_rec1 split: if_splits)

lemma months_range: "months s = Some m \<Longrightarrow> 1 \<le> m \<and> m \<le> 12"
  by (auto simp: months_def upto_rec1 split: if_splits)

lemma Atoi_safe: "Atoi s \<noteq> Panic p"
  by (simp add: Atoi_def Let_def)

interpretation weekday: stringable_range ir_setBegin ir_setEnd Begin End wr_memberFromString "\<lambda>d. 0 \<le> d \<and> d \<le> 6"
  by unfold_locales
    (auto simp: ir_setBegin_def ir_setEnd_def wr_memberFromString_def dest: daysOfWeek_range split: option.splits)

interpretation month: stringable_range ir_setBegin ir_setEnd Begin End mr_memberFromString "\<lambda>m. 1 \<le> m \<and> m \<le> 12"
  by unfold_locales
    (auto simp: ir_setBegin_def ir_setEnd_def mr_memberFromString_def dest: months_range split: option.splits)

interpretation number: stringable_range ir_setBegin ir_setEnd Begin End ir_memberFromString in_int64
  by unfold_locales
    (auto simp: ir_setBegin_def ir_setEnd_def ir_memberFromString_def Atoi_safe Atoi_def Let_def split: if_splits)

section \<open>Times of day\<close>

text \<open>The two-digit form of a number below one hundred and the text \<open>HH:MM\<close> of a minute of the day.\<close>

definition digit :: "int \<Rightarrow> char" where
  "digit k = ''0123456789'' ! nat k"

definition two_digits :: "int \<Rightarrow> string" where
  "two_digits n = [digit (n div 10), digit (n mod 10)]"

definition hhmm :: "int \<Rightarrow> string" where
  "hhmm n = two_digits (n div 60) @ '':'' @ two_digits (n mod 60)"

lemma digit_cases:
  assumes "0 \<le> k" "k \<le> (9::int)"
  obtains "k = 0" | "k = 1" | "k = 2" | "k = 3" | "k = 4" | "k = 5" | "k = 6" | "k = 7" | "k = 8" | "k = 9"
proof -
  have "k = 0 \<or> k = 1 \<or> k = 2 \<or> k = 3 \<or> k = 4 \<or> k = 5 \<or> k = 6 \<or> k = 7 \<or> k = 8 \<or> k = 9"
    using assms by presburger
  then show ?thesis using that by blast
qed

lemma digit_props:
  assumes "0 \<le> k" "k \<le> 9"
  shows "is_digit (digit k)" "digit_val (digit k) = k" "int (byte (digit k)) = 48 + k"
  using assms by (cases rule: digit_cases; simp add: digit_def is_digit_def digit_val_def)+

lemma is_digit_cases:
  assumes "is_digit c"
  obtains k where "0 \<le> k" "k \<le> 9" "c = digit k"
proof -
  have r: "0 \<le> digit_val c" "digit_val c \<le> 9" using assms by (auto simp: is_digit_def digit_val_def)
  with digit_props(2) [OF this] have "byte (digit (digit_val c)) = byte c" by (simp add: digit_val_def)
  then have "c = digit (digit_val c)" by (simp only: of_char_eq_iff)
  with r that show ?thesis by blast
qed

lemma div_mod_digits: "0 \<le> n \<Longrightarrow> n < 100 \<Longrightarrow> 0 \<le> n div 10 \<and> n div 10 \<le> 9 \<and> 0 \<le> n mod 10 \<and> n mod 10 \<le> (9::int)"
  by presburger

lemma two_digits_digits: "0 \<le> n \<Longrightarrow> n < 100 \<Longrightarrow> list_all is_digit (two_digits n)"
  using div_mod_digits [of n] by (simp add: two_digits_def digit_props)

lemma Atoi_two_digits: "0 \<le> n \<Longrightarrow> n < 100 \<Longrightarrow> Atoi (two_digits n) = Ret n"
proof -
  assume n: "0 \<le> n" "n < 100"
  note d = div_mod_digits [OF n]
  have "digits_val 0 (two_digits n) = n" using d by (simp add: two_digits_def digit_props)
  moreover have "digit (n div 10) \<noteq> CHR ''-'' \<and> digit (n div 10) \<noteq> CHR ''+''"
    by (rule hd_digit_no_sign [of _ "[digit (n mod 10)]"]) (use two_digits_digits [OF n] in \<open>simp add: two_digits_def\<close>)
  ultimately show ?thesis using n two_digits_digits [OF n] by (simp add: Atoi_def Let_def two_digits_def)
qed

lemma two_digits_pair: "0 \<le> a \<Longrightarrow> 0 \<le> b \<Longrightarrow> b \<le> 9 \<Longrightarrow> [digit a, digit b] = two_digits (10 * a + b)"
  by (simp add: two_digits_def)

lemma colon_not_digit: "0 \<le> n \<Longrightarrow> n < 100 \<Longrightarrow> CHR '':'' \<notin> set (two_digits n)"
proof -
  have "\<not> is_digit CHR '':''" by (simp add: is_digit_def)
  then show "0 \<le> n \<Longrightarrow> n < 100 \<Longrightarrow> CHR '':'' \<notin> set (two_digits n)"
    using two_digits_digits [of n] by (auto simp: list_all_iff)
qed

lemma hours_form:
  assumes "0 \<le> h" "h \<le> 23"
  shows "\<exists>a b. two_digits h = [a, b] \<and> (a \<in> {CHR ''0'', CHR ''1''} \<and> is_digit b
     \<or> a = CHR ''2'' \<and> b \<in> {CHR ''0'', CHR ''1'', CHR ''2'', CHR ''3''})"
proof -
  have "h div 10 = 0 \<or> h div 10 = 1 \<or> h = 20 \<or> h = 21 \<or> h = 22 \<or> h = 23" using assms by presburger
  then show ?thesis
    using digit_props(1) [of "h mod 10"] by (elim disjE) (simp_all add: two_digits_def digit_def)
qed

text \<open>\<open>parseTime\<close> accepts exactly the texts \<open>HH:MM\<close> from 00:00 to 24:00 and returns their minute.\<close>

lemma validTimeRE_hhmm: "0 \<le> n \<Longrightarrow> n \<le> 1440 \<Longrightarrow> validTimeRE (hhmm n)"
proof (cases "n = 1440")
  case False
  assume n: "0 \<le> n" "n \<le> 1440"
  with False have h: "0 \<le> n div 60" "n div 60 \<le> 23" by auto
  have m: "0 \<le> n mod 60 div 10" "n mod 60 div 10 \<le> 5" "0 \<le> n mod 60 mod 10" "n mod 60 mod 10 \<le> 9" by presburger+
  define d e where "d = digit (n mod 60 div 10)" and "e = digit (n mod 60 mod 10)"
  have de: "is_digit d" "byte d \<le> 53" "is_digit e"
    unfolding d_def e_def using digit_props [OF m(1)] digit_props(1) [OF m(3,4)] m(2) by linarith+
  from hours_form [OF h] obtain a b where ab: "two_digits (n div 60) = [a, b]"
    "a \<in> {CHR ''0'', CHR ''1''} \<and> is_digit b \<or> a = CHR ''2'' \<and> b \<in> {CHR ''0'', CHR ''1'', CHR ''2'', CHR ''3''}"
    by blast
  have "hhmm n = [a, b, CHR '':'', d, e]"
    unfolding hhmm_def ab(1) by (simp add: two_digits_def d_def e_def)
  then show ?thesis using ab(2) de by (simp add: validTimeRE_def)
qed (simp add: hhmm_def two_digits_def digit_def validTimeRE_def)

lemma validTimeRE_cases: "validTimeRE s \<Longrightarrow> \<exists>n. 0 \<le> n \<and> n \<le> 1440 \<and> s = hhmm n"
proof (cases "s = ''24:00''")
  case True
  then show ?thesis by (intro exI [of _ 1440]) (simp add: hhmm_def two_digits_def digit_def)
next
  case False
  assume "validTimeRE s"
  with False obtain a b d e where s: "s = [a, b, CHR '':'', d, e]" "is_digit d" "byte d \<le> 53" "is_digit e"
    and ab: "a \<in> {CHR ''0'', CHR ''1''} \<and> is_digit b \<or> a = CHR ''2'' \<and> b \<in> {CHR ''0'', CHR ''1'', CHR ''2'', CHR ''3''}"
    by (auto simp: validTimeRE_def split: list.splits)
  from ab have "\<exists>h. 0 \<le> h \<and> h \<le> 23 \<and> [a, b] = two_digits h"
  proof (elim disjE conjE)
    assume "a \<in> {CHR ''0'', CHR ''1''}" "is_digit b"
    then obtain k where "0 \<le> k" "k \<le> 9" "b = digit k" "a = CHR ''0'' \<or> a = CHR ''1''"
      using is_digit_cases by blast
    moreover have "digit 0 = CHR ''0''" "digit 1 = CHR ''1''" by (simp_all add: digit_def)
    ultimately have "[a, b] = two_digits k \<or> [a, b] = two_digits (10 + k)"
      using two_digits_pair [of 0 k] two_digits_pair [of 1 k] by auto
    with \<open>0 \<le> k\<close> \<open>k \<le> 9\<close> show ?thesis by (elim disjE; intro exI conjI; assumption?; simp)
  next
    assume "a = CHR ''2''" "b \<in> {CHR ''0'', CHR ''1'', CHR ''2'', CHR ''3''}"
    then have "[a, b] = two_digits 20 \<or> [a, b] = two_digits 21 \<or> [a, b] = two_digits 22 \<or> [a, b] = two_digits 23"
      by (auto simp: two_digits_def digit_def)
    then show ?thesis
      by (elim disjE; intro exI conjI; (assumption | rule order_refl)?; simp)
  qed
  then obtain h where h: "0 \<le> h" "h \<le> 23" "[a, b] = two_digits h" by blast
  from s(2,4) obtain i j where ij: "0 \<le> i" "i \<le> 9" "d = digit i"
    "0 \<le> j" "j \<le> 9" "e = digit j" using is_digit_cases by metis
  with s(3) digit_props(3) [of i] have "i \<le> 5" by simp
  with ij have m: "[d, e] = two_digits (10 * i + j)" "0 \<le> 10 * i + j" "10 * i + j < 60"
    using two_digits_pair [of i j] by simp_all
  have "s = hhmm (h * 60 + (10 * i + j))" using s(1) h m by (simp add: hhmm_def)
  moreover have "0 \<le> h * 60 + (10 * i + j)" "h * 60 + (10 * i + j) \<le> 1440" using h m by auto
  ultimately show ?thesis by blast
qed

lemma parseTime_hhmm: "0 \<le> n \<Longrightarrow> n \<le> 1440 \<Longrightarrow> parseTime (hhmm n) = Ret n"
proof -
  assume n: "0 \<le> n" "n \<le> 1440"
  then have h: "0 \<le> n div 60" "n div 60 \<le> 24" "n div 60 < 100" by auto
  have m: "0 \<le> n mod 60" "n mod 60 < 100" "n mod 60 \<le> 60" by auto
  have "Split (hhmm n) '':'' = [two_digits (n div 60), two_digits (n mod 60)]"
    using h m by (simp add: hhmm_def Split_char_simps colon_not_digit)
  then show ?thesis using n h m validTimeRE_hhmm [of n] Atoi_two_digits [of "n div 60"] Atoi_two_digits [of "n mod 60"]
    by (simp add: parseTime_def)
qed

lemma parseTime_iff: "parseTime s = Ret v \<longleftrightarrow> 0 \<le> v \<and> v \<le> 1440 \<and> s = hhmm v"
proof
  assume v: "parseTime s = Ret v"
  then have "validTimeRE s" by (auto simp: parseTime_def split: if_splits)
  with validTimeRE_cases obtain n where "0 \<le> n" "n \<le> 1440" "s = hhmm n" by blast
  with v parseTime_hhmm show "0 \<le> v \<and> v \<le> 1440 \<and> s = hhmm v" by auto
qed (auto simp: parseTime_hhmm)

lemma parseTime_safe: "parseTime s \<noteq> Panic p"
proof (cases "validTimeRE s")
  case True
  with validTimeRE_cases parseTime_hhmm show ?thesis by fastforce
qed (simp add: parseTime_def)

interpretation timeofday: stringable_range tr_setBegin tr_setEnd StartMinute EndMinute tr_memberFromString
  "\<lambda>n. 0 \<le> n \<and> n \<le> 1440"
  by unfold_locales
    (auto simp: tr_setBegin_def tr_setEnd_def tr_memberFromString_def parseTime_safe parseTime_iff split: outcome.splits)

section \<open>What the parsers accept\<close>

lemma weekday_accepted:
  "WeekdayRange_UnmarshalText title s r = (r', Ret ()) \<Longrightarrow> 0 \<le> Begin r' \<and> Begin r' \<le> End r' \<and> End r' \<le> 6"
  using weekday.parse_sound [of title s r]
  by (auto simp: WeekdayRange_UnmarshalText_def split: prod.splits outcome.splits if_splits)

lemma month_accepted:
  "MonthRange_UnmarshalText title s r = (r', Ret ()) \<Longrightarrow> 1 \<le> Begin r' \<and> Begin r' \<le> End r' \<and> End r' \<le> 12"
  using month.parse_sound [of title s r]
  by (auto simp: MonthRange_UnmarshalText_def split: prod.splits outcome.splits if_splits)

lemma time_accepted:
  "TimeRange_UnmarshalText title s r = (r', Ret ()) \<Longrightarrow> 0 \<le> StartMinute r' \<and> StartMinute r' < EndMinute r' \<and> EndMinute r' \<le> 1440"
  using timeofday.parse_sound [of title s r]
  by (auto simp: TimeRange_UnmarshalText_def split: prod.splits outcome.splits if_splits)

lemma day_accepted:
  "DayOfMonthRange_UnmarshalText title s r = (r', Ret ()) \<Longrightarrow>
     Begin r' \<noteq> 0 \<and> \<bar>Begin r'\<bar> \<le> 31 \<and> End r' \<noteq> 0 \<and> \<bar>End r'\<bar> \<le> 31 \<and> (Begin r' < 0 \<longrightarrow> End r' < 0)"
  by (auto simp: DayOfMonthRange_UnmarshalText_def Let_def split: prod.splits outcome.splits if_splits)

text \<open>
  a range that \<open>UnmarshalText\<close> accepts is well formed, whatever the title-casing does:
  weekdays lie in [0, 6], months in [1, 12], minutes in [0, 1440] with a non-empty interval, each
  ordered; day-of-month bounds are non-zero, at most 31 in size, and a negative start has a negative end.
\<close>

theorem unmarshal_well_formed:
  "(WeekdayRange_UnmarshalText title s r = (r', Ret ()) \<longrightarrow> 0 \<le> Begin r' \<and> Begin r' \<le> End r' \<and> End r' \<le> 6)
   \<and> (MonthRange_UnmarshalText title s r = (r', Ret ()) \<longrightarrow> 1 \<le> Begin r' \<and> Begin r' \<le> End r' \<and> End r' \<le> 12)
   \<and> (TimeRange_UnmarshalText title s tr = (tr', Ret ()) \<longrightarrow>
        0 \<le> StartMinute tr' \<and> StartMinute tr' < EndMinute tr' \<and> EndMinute tr' \<le> 1440)
   \<and> (DayOfMonthRange_UnmarshalText title s r = (r', Ret ()) \<longrightarrow>
        Begin r' \<noteq> 0 \<and> \<bar>Begin r'\<bar> \<le> 31 \<and> End r' \<noteq> 0 \<and> \<bar>End r'\<bar> \<le> 31 \<and> (Begin r' < 0 \<longrightarrow> End r' < 0))"
  using weekday_accepted month_accepted time_accepted day_accepted by blast

text \<open>A title function that upper-cases the first letter of a word of ASCII letters.\<close>

definition ascii_title :: "string \<Rightarrow> string" where
  "ascii_title s = (case s of [] \<Rightarrow> [] | c # cs \<Rightarrow>
     (if 97 \<le> byte c \<and> byte c \<le> 122 then char_of (byte c - 32) else c) # cs)"

lemma ascii_title_day: "ascii_title ''monday'' = ''Monday''" "ascii_title ''friday'' = ''Friday''"
  by (simp_all add: ascii_title_def char_of_def bit_0)

lemma weekday_example:
  "WeekdayRange_UnmarshalText ascii_title ''monday~FRIDAY'' \<lparr>Begin = 0, End = 0\<rparr> = (\<lparr>Begin = 1, End = 5\<rparr>, Ret ())"
proof -
  have l: "ToLower ''monday'' = ''monday''" "ToLower ''FRIDAY'' = ''friday''"
    by (simp_all add: ToLower_def lower_char_def char_of_def bit_0)
  have "stringableRangeFromString ascii_title ir_setBegin ir_setEnd wr_memberFromString (''monday'' @ ''~'' @ ''FRIDAY'') \<lparr>Begin = 0, End = 0\<rparr>
     = (ir_setEnd 5 (ir_setBegin 1 \<lparr>Begin = 0, End = 0\<rparr>), Ret ())"
    by (rule weekday.parse_pair)
       (simp_all add: l ascii_title_day wr_memberFromString_def daysOfWeek_def upto_rec1)
  then show ?thesis by (simp add: WeekdayRange_UnmarshalText_def ir_setBegin_def ir_setEnd_def)
qed

theorem unmarshal_well_formed_witness:
  "fst (WeekdayRange_UnmarshalText ascii_title ''monday~FRIDAY'' \<lparr>Begin = 0, End = 0\<rparr>) = \<lparr>Begin = 1, End = 5\<rparr>
   \<and> End (fst (WeekdayRange_UnmarshalText ascii_title ''monday~FRIDAY'' \<lparr>Begin = 0, End = 0\<rparr>)) \<le> 6"
  using unmarshal_well_formed [of ascii_title "''monday~FRIDAY''" "\<lparr>Begin = 0, End = 0\<rparr>" "\<lparr>Begin = 1, End = 5\<rparr>"]
  by (simp add: weekday_example)

section \<open>Round trips\<close>

lemma ToLower_hhmm: "0 \<le> n \<Longrightarrow> n \<le> 1440 \<Longrightarrow> ToLower (hhmm n) = hhmm n \<and> CHR ''~'' \<notin> set (hhmm n)"
proof -
  assume n: "0 \<le> n" "n \<le> 1440"
  then have "0 \<le> n div 60" "n div 60 < 100" "0 \<le> n mod 60" "n mod 60 < 100" by auto
  then have d: "\<forall>c \<in> set (hhmm n). is_digit c \<or> c = CHR '':''"
    using two_digits_digits [of "n div 60"] two_digits_digits [of "n mod 60"]
    by (auto simp: hhmm_def list_all_iff)
  have "lower_char c = c" if "is_digit c \<or> c = CHR '':''" for c
    using that by (auto simp: lower_char_def is_digit_def)
  with d have "ToLower (hhmm n) = hhmm n" by (simp add: ToLower_def map_idI)
  moreover have "\<not> (is_digit CHR ''~'' \<or> CHR ''~'' = CHR '':'')" by (simp add: is_digit_def)
  ultimately show ?thesis using d by blast
qed

text \<open>
  every time range can be written and read back: for minutes \<open>0 \<le> a < b \<le> 1440\<close> the text
  \<open>HH:MM~HH:MM\<close> parses, without error, into exactly that range, provided that title-casing leaves
  digits and colons alone; a range whose end is not after its start is refused.
\<close>

theorem time_range_roundtrip:
  assumes "\<And>n. title (hhmm n) = hhmm n" "0 \<le> a" "a \<le> 1440" "0 \<le> b" "b \<le> 1440"
  shows "TimeRange_UnmarshalText title (hhmm a @ ''~'' @ hhmm b) tr =
     (\<lparr>StartMinute = a, EndMinute = b\<rparr>,
      if a < b then Ret () else Fail (Errorf ''start time cannot be equal or greater than end time''))"
proof -
  have m: "tr_memberFromString (title (ToLower (hhmm n))) = Ret n" if "0 \<le> n" "n \<le> 1440" for n
    using that assms(1) ToLower_hhmm [of n] parseTime_hhmm [of n] by (simp add: tr_memberFromString_def)
  have "stringableRangeFromString title tr_setBegin tr_setEnd tr_memberFromString (hhmm a @ ''~'' @ hhmm b) tr
     = (tr_setEnd b (tr_setBegin a tr), Ret ())"
    by (rule timeofday.parse_pair) (use assms m ToLower_hhmm in simp_all)
  then show ?thesis
    by (cases tr) (simp add: TimeRange_UnmarshalText_def tr_setBegin_def tr_setEnd_def not_less)
qed

theorem time_range_roundtrip_witness:
  "hhmm 540 = ''09:00'' \<and> hhmm 1440 = ''24:00'' \<and>
   TimeRange_UnmarshalText (\<lambda>s. s) ''09:00~24:00'' \<lparr>StartMinute = 7, EndMinute = 7\<rparr> =
     (\<lparr>StartMinute = 540, EndMinute = 1440\<rparr>, Ret ())"
proof -
  have "hhmm 540 = ''09:00''" "hhmm 1440 = ''24:00''" by (simp_all add: hhmm_def two_digits_def digit_def)
  with time_range_roundtrip [of "\<lambda>s. s" 540 1440 "\<lparr>StartMinute = 7, EndMinute = 7\<rparr>"] show ?thesis by simp
qed

section \<open>Membership\<close>

text \<open>
  The meaning of an interval: a missing field does not constrain, a present one is the union of its
  ranges, and a negative day counts from the end of the month of length \<open>len\<close>.
\<close>

definition resolve_day :: "int \<Rightarrow> int \<Rightarrow> int" where
  "resolve_day len d = (if d < 0 then len + d + 1 else d)"

definition field_spec :: "('a \<Rightarrow> bool) \<Rightarrow> 'a list option \<Rightarrow> bool" where
  "field_spec p f \<longleftrightarrow> (\<forall>rs. f = Some rs \<longrightarrow> (\<exists>r \<in> set rs. p r))"

lemma check_field_spec: "check_field p f \<longleftrightarrow> field_spec p f"
  by (cases f) (auto simp: check_field_def field_spec_def list_ex_iff)

text \<open>The clamping and skipping of \<open>ContainsTime\<close> never change the verdict for a day of the month.\<close>

lemma days_block:
  assumes "1 \<le> Day t" "Day t \<le> daysInMonth t"
  shows "in_days_of_month t r \<longleftrightarrow>
    resolve_day (daysInMonth t) (Begin r) \<le> Day t \<and> Day t \<le> resolve_day (daysInMonth t) (End r)"
  using assms by (auto simp: in_days_of_month_def clamp_def resolve_day_def Let_def)

definition interval_spec :: "TimeInterval \<Rightarrow> Time \<Rightarrow> bool" where
  "interval_spec tp t \<longleftrightarrow>
     field_spec (\<lambda>r. StartMinute r \<le> Hour t * 60 + Minute t \<and> Hour t * 60 + Minute t < EndMinute r) (Times tp)
     \<and> field_spec (\<lambda>r. resolve_day (month_length (Year t) (Month t)) (Begin r) \<le> Day t
                     \<and> Day t \<le> resolve_day (month_length (Year t) (Month t)) (End r)) (DaysOfMonth tp)
     \<and> field_spec (\<lambda>r. Begin r \<le> Month t \<and> Month t \<le> End r) (Months tp)
     \<and> field_spec (\<lambda>r. Begin r \<le> Weekday t \<and> Weekday t \<le> End r) (Weekdays tp)
     \<and> field_spec (\<lambda>r. Begin r \<le> Year t \<and> Year t \<le> End r) (Years tp)"

text \<open>
  C2: in a zone with a fixed offset, \<open>ContainsTime\<close> decides exactly the declared interval, the local
  reading of the instant being taken in the interval's zone: minutes of the day half open, days of the
  month with negative days counted from the calendar's month end, months, weekdays and years inclusive.
\<close>

theorem contains_time_spec:
  assumes "(case Location tp of Some l \<Rightarrow> l | None \<Rightarrow> loc t) = FixedZone off"
  shows "ContainsTime tp t \<longleftrightarrow> interval_spec tp (t\<lparr>loc := FixedZone off\<rparr>)"
proof -
  let ?t = "t\<lparr>loc := FixedZone off\<rparr>"
  have t: "(case Location tp of None \<Rightarrow> t | Some l \<Rightarrow> In t l) = ?t"
    using assms by (cases "Location tp") (auto simp: In_def)
  have d: "daysInMonth ?t = month_length (Year ?t) (Month ?t)" by (rule daysInMonth_fixed) simp
  have v: "1 \<le> Day ?t" "Day ?t \<le> daysInMonth ?t" using reading_valid [of ?t] d by (simp_all add: valid_date_def)
  have "ContainsTime tp t \<longleftrightarrow> field_spec (in_times ?t) (Times tp) \<and> field_spec (in_days_of_month ?t) (DaysOfMonth tp)
      \<and> field_spec (in_range (Month ?t)) (Months tp) \<and> field_spec (in_range (Weekday ?t)) (Weekdays tp)
      \<and> field_spec (in_range (Year ?t)) (Years tp)"
    unfolding ContainsTime_def t Let_def check_field_spec by simp
  moreover have "in_days_of_month ?t = (\<lambda>r. resolve_day (month_length (Year ?t) (Month ?t)) (Begin r) \<le> Day ?t
      \<and> Day ?t \<le> resolve_day (month_length (Year ?t) (Month ?t)) (End r))"
    using days_block [OF v] d by auto
  moreover have "in_times ?t = (\<lambda>r. StartMinute r \<le> Hour ?t * 60 + Minute ?t \<and> Hour ?t * 60 + Minute ?t < EndMinute r)"
    "in_range x = (\<lambda>r. Begin r \<le> x \<and> x \<le> End r)" for x
    by (auto simp: in_times_def in_range_def)
  ultimately show ?thesis by (simp only: interval_spec_def)
qed

text \<open>An interval that holds on the last day of every month.\<close>

definition last_day :: "location \<Rightarrow> TimeInterval" where
  "last_day l = \<lparr>Times = None, Weekdays = None, DaysOfMonth = Some [\<lparr>Begin = -1, End = -1\<rparr>], Months = None,
     Years = None, Location = Some l\<rparr>"

lemmas eval_date = valid_date_def day_number_def month_length_def year_base_def month_base_def is_leap_def

lemma civilI: "valid_date y m d \<Longrightarrow> day_number y m d = n \<Longrightarrow> civil n = (y, m, d)"
  using civil_day_number by blast

text \<open>Noon of 29 February 2024 in UTC.\<close>

lemma leap_day_reading:
  "civil (day_of \<lparr>unix = 1709208000, loc = UTC\<rparr>) = (2024, 2, 29)"
  by (rule civilI) (simp_all add: eval_date day_of_def local_secs_def)

theorem contains_time_spec_witness:
  "ContainsTime (last_day UTC) \<lparr>unix = 1709208000, loc = FixedZone 3600\<rparr>"
proof -
  have "Year \<lparr>unix = 1709208000, loc = UTC\<rparr> = 2024" "Month \<lparr>unix = 1709208000, loc = UTC\<rparr> = 2"
    "Day \<lparr>unix = 1709208000, loc = UTC\<rparr> = 29"
    using leap_day_reading by simp_all
  then show ?thesis
    using contains_time_spec [where tp = "last_day UTC" and off = 0 and t = "\<lparr>unix = 1709208000, loc = FixedZone 3600\<rparr>"]
    by (simp add: last_day_def interval_spec_def field_spec_def resolve_day_def month_length_def month_base_def is_leap_def)
qed

section \<open>Months with a change of the clock\<close>

text \<open>Berlin around the change to summer time of 31 March 2024 at 01:00 UTC.\<close>

definition Berlin2024 :: location where
  "Berlin2024 = \<lparr>first_offset = 3600, transitions = [(1711846800, 7200), (1729990800, 3600)]\<rparr>"

lemma Berlin_offset:
  "offset_at Berlin2024 x = (if x < 1711846800 then 3600 else if x < 1729990800 then 7200 else 3600)"
  by (simp add: offset_at_def lookup_def Berlin2024_def)

lemma Berlin_midnights:
  "Date 2024 3 1 0 0 0 Berlin2024 = \<lparr>unix = 1709247600, loc = Berlin2024\<rparr>"
  "AddDate \<lparr>unix = 1709247600, loc = Berlin2024\<rparr> 0 1 0 = \<lparr>unix = 1711922400, loc = Berlin2024\<rparr>"
proof -
  let ?s = "\<lparr>unix = 1709247600, loc = Berlin2024\<rparr>"
  have l: "local_secs ?s = 1709251200" by (simp add: local_secs_def Berlin_offset)
  have c: "civil (1709251200 div 86400 + 719162) = (2024, 3, 1)"
    by (rule civilI) (simp_all add: eval_date)
  have "civil (day_of ?s) = (2024, 3, 1)" using c by (simp add: day_of_def l del: civil_of_day)
  then have "Year ?s = 2024" "Month ?s = 3" "Day ?s = 1" by simp_all
  moreover have "Hour ?s = 0" "Minute ?s = 0" "Second ?s = 0" by (simp_all add: Hour_def Minute_def Second_def l)
  moreover have "lookup Berlin2024 1711929600 = (7200, Some 1711846800, Some 1729990800)"
    "lookup Berlin2024 1709251200 = (3600, None, Some 1711846800)"
    by (simp_all add: lookup_def Berlin2024_def)
  ultimately show "Date 2024 3 1 0 0 0 Berlin2024 = ?s" "AddDate ?s 0 1 0 = \<lparr>unix = 1711922400, loc = Berlin2024\<rparr>"
    by (simp_all add: AddDate_def Date_def day_number_def year_base_def month_base_def is_leap_def Let_def within_def)
qed

lemma Berlin_march_days:
  assumes "Year t = 2024" "Month t = 3" "loc t = Berlin2024"
  shows "daysInMonth t = 30"
  using assms Berlin_midnights by (simp add: daysInMonth_def Let_def go_arith)

lemma Berlin_noon:
  "civil (day_of \<lparr>unix = 1711792800, loc = Berlin2024\<rparr>) = (2024, 3, 30)"
  "civil (day_of \<lparr>unix = 1711879200, loc = Berlin2024\<rparr>) = (2024, 3, 31)"
proof -
  have "local_secs \<lparr>unix = 1711792800, loc = Berlin2024\<rparr> = 1711796400"
    "local_secs \<lparr>unix = 1711879200, loc = Berlin2024\<rparr> = 1711886400" by (simp_all add: local_secs_def Berlin_offset)
  moreover have "civil (1711796400 div 86400 + 719162) = (2024, 3, 30)" "civil (1711886400 div 86400 + 719162) = (2024, 3, 31)"
    by (rule civilI; simp add: eval_date)+
  ultimately show "civil (day_of \<lparr>unix = 1711792800, loc = Berlin2024\<rparr>) = (2024, 3, 30)"
    "civil (day_of \<lparr>unix = 1711879200, loc = Berlin2024\<rparr>) = (2024, 3, 31)"
    by (simp_all add: day_of_def del: civil_of_day)
qed

text \<open>
  in a month that loses an hour to summer time, \<open>ContainsTime\<close> counts one day too few: in Berlin in
  March 2024, "the last day of the month" holds at 10:00 UTC on the 30th, and neither it nor the range
  31~31 holds on the 31st, although \<open>month_length 2024 3 = 31\<close>.
\<close>

theorem summer_time_loses_last_day:
  "month_length 2024 3 = 31
   \<and> civil (day_of \<lparr>unix = 1711879200, loc = Berlin2024\<rparr>) = (2024, 3, 31)
   \<and> ContainsTime (last_day Berlin2024) \<lparr>unix = 1711792800, loc = Berlin2024\<rparr>
   \<and> \<not> ContainsTime (last_day Berlin2024) \<lparr>unix = 1711879200, loc = Berlin2024\<rparr>
   \<and> \<not> ContainsTime ((last_day Berlin2024)\<lparr>DaysOfMonth := Some [\<lparr>Begin = 31, End = 31\<rparr>]\<rparr>)
          \<lparr>unix = 1711879200, loc = Berlin2024\<rparr>"
proof -
  let ?a = "\<lparr>unix = 1711792800, loc = Berlin2024\<rparr>" and ?b = "\<lparr>unix = 1711879200, loc = Berlin2024\<rparr>"
  have a: "Year ?a = 2024" "Month ?a = 3" "Day ?a = 30" using Berlin_noon(1) by simp_all
  have b: "Year ?b = 2024" "Month ?b = 3" "Day ?b = 31" using Berlin_noon(2) by simp_all
  have "daysInMonth ?a = 30" "daysInMonth ?b = 30" using Berlin_march_days a b by simp_all
  then show ?thesis using Berlin_noon(2) a b
    by (simp add: month_length_def month_base_def is_leap_def ContainsTime_def Let_def In_def last_day_def
        check_field_def in_days_of_month_def clamp_def)
qed

end
