(* ===== verification/Cache.thy ===== *)
theory Cache
  imports GoStrings "HOL-Library.AList"
begin

text \<open>
  Model of \<open>pkg/cache/cache.go\<close>, \<open>option.go\<close> and \<open>global.go\<close>: the values that a cache stores, the
  default serialisation with its compression tag, the options, and the registry of drivers.
  \<open>msgpack\<close> and \<open>s2\<close> are third-party packages: the record \<open>codec\<close> carries their functions.
\<close>

unbundle bit_operations_syntax

section \<open>Values of type any\<close>

text \<open>
  The dynamic values that the code distinguishes by type switch or reflection.  \<open>VPtr t v\<close> is a
  non-nil pointer to a variable of static type \<open>t\<close> that holds \<open>v\<close>; \<open>VOther\<close> is a value of any further
  named type.  A receiver argument is such a value, and a call returns it with its new content.
\<close>

datatype ty = TString | TBytes | TBool | TInt | TFloat | TAny | TOther string | TPtr ty

datatype 'o gval =
    VNil
  | VString string
  | VBytes string
  | VBool bool
  | VInt int
  | VFloat "64 word"
  | VOther string 'o
  | VPtr ty "'o gval"

fun type_of :: "'o gval \<Rightarrow> ty" where
  "type_of VNil = TAny"
| "type_of (VString _) = TString"
| "type_of (VBytes _) = TBytes"
| "type_of (VBool _) = TBool"
| "type_of (VInt _) = TInt"
| "type_of (VFloat _) = TFloat"
| "type_of (VOther n _) = TOther n"
| "type_of (VPtr t _) = TPtr t"

fun is_ptr :: "'o gval \<Rightarrow> bool" where
  "is_ptr (VPtr _ _) = True"
| "is_ptr _ = False"

text \<open>\<open>reflect.ValueOf(value).Elem().Set(reflect.ValueOf(v))\<close>.\<close>

fun reflect_set :: "'o gval \<Rightarrow> 'o gval \<Rightarrow> 'o gval outcome" where
  "reflect_set (VPtr t old) v =
     (if v = VNil then Panic ''reflect: call of reflect.Value.Set on zero Value''
      else if t = TAny \<or> type_of v = t then Ret (VPtr t v)
      else Panic ''reflect.Set: value is not assignable'')"
| "reflect_set _ v = Panic ''reflect: call of reflect.Value.Elem''"

section \<open>Errors, skip modes, statistics\<close>

definition ErrDriverNameMiss :: go_error where "ErrDriverNameMiss = Sentinel ''cache: driverName is empty''"
definition ErrCacheMiss :: go_error where "ErrCacheMiss = Sentinel ''cache: key is missing''"
definition ErrReceiverMustPointer :: go_error where
  "ErrReceiverMustPointer = Sentinel ''cache: value receiver must be a pointer''"

type_synonym SkipMode = int

definition SkipLocal :: SkipMode where "SkipLocal = push_bit 0 1"
definition SkipRemote :: SkipMode where "SkipRemote = push_bit 1 1"
definition SkipCache :: SkipMode where "SkipCache = SkipLocal OR SkipRemote"

definition SkipMode_Any :: "SkipMode \<Rightarrow> bool" where "SkipMode_Any f \<longleftrightarrow> f \<noteq> 0"
definition SkipMode_Is :: "SkipMode \<Rightarrow> SkipMode \<Rightarrow> bool" where "SkipMode_Is f mode \<longleftrightarrow> f AND mode \<noteq> 0"

lemma skip_modes:
  "SkipMode_Is SkipCache SkipLocal" "SkipMode_Is SkipCache SkipRemote"
  "SkipMode_Is SkipLocal SkipLocal" "SkipMode_Is SkipRemote SkipRemote"
  "\<not> SkipMode_Is SkipLocal SkipRemote" "\<not> SkipMode_Is SkipRemote SkipLocal" "\<not> SkipMode_Is 0 m"
  by (simp_all add: SkipMode_Is_def SkipCache_def SkipLocal_def SkipRemote_def)

record Stats =
  Hits :: "64 word"
  Misses :: "64 word"

text \<open>The receiver may be nil.\<close>

definition AddHit :: "Stats option \<Rightarrow> Stats option" where
  "AddHit s = (case s of None \<Rightarrow> None | Some s \<Rightarrow> Some (s\<lparr>Hits := Hits s + 1\<rparr>))"

definition AddMiss :: "Stats option \<Rightarrow> Stats option" where
  "AddMiss s = (case s of None \<Rightarrow> None | Some s \<Rightarrow> Some (s\<lparr>Misses := Misses s + 1\<rparr>))"

section \<open>Serialisation\<close>

record 'o codec =
  msgpack_Marshal :: "'o gval \<Rightarrow> string outcome"
  msgpack_Unmarshal :: "string \<Rightarrow> 'o gval \<Rightarrow> 'o gval outcome"
  s2_Encode :: "string \<Rightarrow> string"
  s2_Decode :: "string \<Rightarrow> string outcome"

definition compressionThreshold :: nat where "compressionThreshold = 64"
definition noCompression :: char where "noCompression = CHR 0x00"
definition s2Compression :: char where "s2Compression = CHR 0x01"

definition compress :: "'o codec \<Rightarrow> string \<Rightarrow> string" where
  "compress cd data =
     (if length data < compressionThreshold then data @ [noCompression]
      else s2_Encode cd data @ [s2Compression])"

definition DefaultMarshalFunc :: "'o codec \<Rightarrow> 'o gval \<Rightarrow> string outcome" where
  "DefaultMarshalFunc cd value =
     (case value of
        VBytes b \<Rightarrow> Ret b
      | VString s \<Rightarrow> Ret s
      | VNil \<Rightarrow> Ret []
      | _ \<Rightarrow> go_bind (msgpack_Marshal cd value) (\<lambda>b. Ret (compress cd b)))"

text \<open>The result is the receiver with its new content.\<close>

definition DefaultUnmarshalFunc :: "'o codec \<Rightarrow> string \<Rightarrow> 'o gval \<Rightarrow> 'o gval outcome" where
  "DefaultUnmarshalFunc cd b value =
     (if b = [] then Ret value
      else case value of
        VPtr TBytes _ \<Rightarrow> Ret (VPtr TBytes (VBytes b))
      | VPtr TString _ \<Rightarrow> Ret (VPtr TString (VString b))
      | VNil \<Rightarrow> Ret VNil
      | _ \<Rightarrow>
          (if last b = noCompression then msgpack_Unmarshal cd (butlast b) value
           else if last b = s2Compression then
             go_bind (s2_Decode cd (butlast b)) (\<lambda>b. msgpack_Unmarshal cd b value)
           else Fail (Errorf ''unknown compression method'')))"

text \<open>
  What the packages promise: \<open>s2\<close> decodes what it encoded, and \<open>msgpack\<close> reads an encoded value back
  into a variable of its type, for the values \<open>V\<close> that it represents in full (it leaves out unexported
  fields, for instance).
\<close>

definition codec_laws :: "'o codec \<Rightarrow> 'o gval set \<Rightarrow> bool" where
  "codec_laws cd V \<longleftrightarrow>
     (\<forall>d. s2_Decode cd (s2_Encode cd d) = Ret d)
     \<and> (\<forall>v b old. v \<in> V \<longrightarrow> msgpack_Marshal cd v = Ret b \<longrightarrow>
          msgpack_Unmarshal cd b (VPtr (type_of v) old) = Ret (VPtr (type_of v) v))"

text \<open>What the default functions can carry: everything but nil and a pointer.\<close>

definition storable :: "'o gval \<Rightarrow> bool" where
  "storable v \<longleftrightarrow> v \<noteq> VNil \<and> \<not> is_ptr v"

text \<open>The variable that a receiver of the value's type holds before the call is the zero value.\<close>

fun zero_of :: "'o gval \<Rightarrow> 'o gval" where
  "zero_of (VString _) = VString []"
| "zero_of (VBytes _) = VBytes []"
| "zero_of v = v"

definition zero_receiver :: "'o gval \<Rightarrow> 'o gval \<Rightarrow> bool" where
  "zero_receiver v r \<longleftrightarrow> (\<exists>old. r = VPtr (type_of v) old \<and> (old = zero_of v \<or> (v \<noteq> VString [] \<and> v \<noteq> VBytes [])))"

lemma compress_tag:
  "compress cd b \<noteq> []" "last (compress cd b) \<in> {noCompression, s2Compression}"
  "last (compress cd b) = noCompression \<longleftrightarrow> length b < compressionThreshold"
  by (auto simp: compress_def noCompression_def s2Compression_def)

lemma default_roundtrip:
  assumes "codec_laws cd V" "v \<in> V" "storable v" "zero_receiver v r" "DefaultMarshalFunc cd v = Ret b"
  shows "DefaultUnmarshalFunc cd b r = Ret (VPtr (type_of v) v)"
proof -
  obtain old where r: "r = VPtr (type_of v) old" "old = zero_of v \<or> (v \<noteq> VString [] \<and> v \<noteq> VBytes [])"
    using assms(4) by (auto simp: zero_receiver_def)
  have m: "DefaultUnmarshalFunc cd b (VPtr (type_of v) old) = Ret (VPtr (type_of v) v)"
    if b: "msgpack_Marshal cd v = Ret b'" "b = compress cd b'" and t: "type_of v \<noteq> TString" "type_of v \<noteq> TBytes" for b'
  proof -
    have "msgpack_Unmarshal cd b' (VPtr (type_of v) old) = Ret (VPtr (type_of v) v)"
      "s2_Decode cd (s2_Encode cd b') = Ret b'"
      using assms(1,2) b(1) by (auto simp: codec_laws_def)
    with t show ?thesis unfolding b(2)
      by (cases "length b' < compressionThreshold"; cases "type_of v")
         (simp_all add: DefaultUnmarshalFunc_def compress_def noCompression_def s2Compression_def)
  qed
  show ?thesis
  proof (cases "type_of v = TString \<or> type_of v = TBytes")
    case True
    with r assms(3,5) show ?thesis
      by (cases v) (auto simp: DefaultMarshalFunc_def DefaultUnmarshalFunc_def)
  next
    case False
    with assms(3,5) have "\<exists>b'. msgpack_Marshal cd v = Ret b' \<and> b = compress cd b'"
      by (cases v) (auto simp: DefaultMarshalFunc_def storable_def go_simps)
    with m False r(1) show ?thesis by auto
  qed
qed

section \<open>Options\<close>

definition second :: int where "second = 1000000000"
definition defaultItemTTL :: int where "defaultItemTTL = 3600 * second"

record 'o Options =
  TTL :: int
  Getter :: "(string \<Rightarrow> 'o gval outcome) option"
  SetXX :: bool
  SetNX :: bool
  Skip :: SkipMode
  Raw :: bool
  Group :: bool

type_synonym 'o Option = "'o Options \<Rightarrow> 'o Options"

definition ApplyOptions :: "'o Option list \<Rightarrow> 'o Options" where
  "ApplyOptions opts =
     fold (\<lambda>f o'. f o') opts
       \<lparr>TTL = 0, Getter = None, SetXX = False, SetNX = False, Skip = 0, Raw = False, Group = False\<rparr>"

definition Expiration :: "'o Options \<Rightarrow> int" where
  "Expiration o' = (if TTL o' = 0 \<or> TTL o' \<ge> second then TTL o' else defaultItemTTL)"

definition WithTTL :: "int \<Rightarrow> 'o Option" where "WithTTL ttl o' = o'\<lparr>TTL := ttl\<rparr>"
definition WithGetter :: "(string \<Rightarrow> 'o gval outcome) \<Rightarrow> 'o Option" where "WithGetter g o' = o'\<lparr>Getter := Some g\<rparr>"
definition WithSetXX :: "'o Option" where "WithSetXX o' = o'\<lparr>SetXX := True\<rparr>"
definition WithSetNX :: "'o Option" where "WithSetNX o' = o'\<lparr>SetNX := True\<rparr>"
definition WithSkip :: "SkipMode \<Rightarrow> 'o Option" where "WithSkip skip o' = o'\<lparr>Skip := skip\<rparr>"
definition WithRaw :: "'o Option" where "WithRaw o' = o'\<lparr>Raw := True\<rparr>"
definition WithGroup :: "'o Option" where "WithGroup o' = o'\<lparr>Group := True\<rparr>"

lemmas options_simps = ApplyOptions_def WithTTL_def WithGetter_def WithSetXX_def WithSetNX_def
  WithSkip_def WithRaw_def WithGroup_def

section \<open>The registry of drivers\<close>

text \<open>\<open>_manager.drivers\<close> and \<open>_defaultDriver\<close>; a nil interface is \<open>None\<close>.\<close>

record 'c manager =
  drivers :: "(string \<times> 'c) list"
  defaultDriver :: "'c option"

definition newManager :: "'c manager" where
  "newManager = \<lparr>drivers = [], defaultDriver = None\<rparr>"

definition SetDefault :: "string \<Rightarrow> 'c manager \<Rightarrow> 'c manager \<times> unit outcome" where
  "SetDefault driver m = (m\<lparr>defaultDriver := map_of (drivers m) driver\<rparr>, Ret ())"

definition RegisterCache :: "string \<Rightarrow> 'c \<Rightarrow> 'c manager \<Rightarrow> 'c manager \<times> unit outcome" where
  "RegisterCache name c m =
     (if name = [] then (m, Fail ErrDriverNameMiss)
      else if map_of (drivers m) name \<noteq> None
      then (m, Fail (Errorf (''driver already registered for name '' @ name)))
      else let m = m\<lparr>drivers := AList.update name c (drivers m)\<rparr>
           in if length (drivers m) = 1 then SetDefault name m else (m, Ret ()))"

definition UnRegisterCache :: "string \<Rightarrow> 'c manager \<Rightarrow> 'c manager" where
  "UnRegisterCache name m = m\<lparr>drivers := AList.delete name (drivers m)\<rparr>"

definition GetCache :: "string \<Rightarrow> 'c manager \<Rightarrow> 'c outcome" where
  "GetCache driver m =
     (case map_of (drivers m) driver of
        None \<Rightarrow> Fail (Errorf (''driver '' @ driver @ '' not registered'')) | Some c \<Rightarrow> Ret c)"

text \<open>
  The package-level \<open>Get\<close>, \<open>Set\<close>, \<open>Has\<close>, \<open>Del\<close> and \<open>IsNotFound\<close> call the method of the default driver;
  on a nil interface the call panics.
\<close>

definition call_default :: "('c \<Rightarrow> 'a outcome) \<Rightarrow> 'c manager \<Rightarrow> 'a outcome" where
  "call_default method m =
     (case defaultDriver m of
        None \<Rightarrow> Panic ''invalid memory address or nil pointer dereference'' | Some c \<Rightarrow> method c)"

end
