(* ===== verification/LFU.thy ===== *)
theory LFU
  imports Cache
begin

text \<open>
  Model of \<open>pkg/cache/lfu/cache.go\<close>: the in-process cache with forced expiry.  The third-party
  \<open>tinylfu\<close> table is a record of functions on its state; the clock reading and the draw of the
  random generator are arguments of the calls that use them.  Durations count nanoseconds.
  A call returns the new state of the cache beside its outcome, and the receiver's new content is
  the value that it returns.
\<close>

section \<open>The table\<close>

record 'o Item =
  Key :: string
  Value :: "'o gval"
  ExpireAt :: "int option"

record ('s, 'o) tinylfu =
  tinylfu_New :: "int \<Rightarrow> int \<Rightarrow> 's"
  tinylfu_Get :: "'s \<Rightarrow> int \<Rightarrow> string \<Rightarrow> 'o gval option \<times> 's"
  tinylfu_Set :: "'s \<Rightarrow> int \<Rightarrow> 'o Item \<Rightarrow> 's"
  tinylfu_Del :: "'s \<Rightarrow> string \<Rightarrow> 's"

record ('s, 'o) env =
  lib :: "('s, 'o) tinylfu"
  codecs :: "'o codec"

text \<open>
  What the table promises: reading does not change what is stored, an item is found until it
  expires or something else is stored, a deleted or never stored key is not found; storing one key
  may evict another but never changes its value; with time a key may expire but not change.
\<close>

definition peek :: "('s, 'o) tinylfu \<Rightarrow> 's \<Rightarrow> int \<Rightarrow> string \<Rightarrow> 'o gval option" where
  "peek l s now k = fst (tinylfu_Get l s now k)"

definition tinylfu_laws :: "('s, 'o) tinylfu \<Rightarrow> bool" where
  "tinylfu_laws l \<longleftrightarrow>
     (\<forall>s now k now' k'. now \<le> now' \<longrightarrow> peek l (snd (tinylfu_Get l s now k)) now' k' = peek l s now' k')
     \<and> (\<forall>s now it now'. now \<le> now' \<longrightarrow> (ExpireAt it = None \<or> now' < the (ExpireAt it)) \<longrightarrow>
          peek l (tinylfu_Set l s now it) now' (Key it) = Some (Value it))
     \<and> (\<forall>s now it now'. peek l (tinylfu_Set l s now it) now' (Key it) \<in> {None, Some (Value it)})
     \<and> (\<forall>s now it now' k. now \<le> now' \<longrightarrow> k \<noteq> Key it \<longrightarrow>
          peek l (tinylfu_Set l s now it) now' k \<in> {None, peek l s now' k})
     \<and> (\<forall>s k now. peek l (tinylfu_Del l s k) now k = None)
     \<and> (\<forall>s k k' now. k' \<noteq> k \<longrightarrow> peek l (tinylfu_Del l s k) now k' = peek l s now k')
     \<and> (\<forall>n m now k. peek l (tinylfu_New l n m) now k = None)
     \<and> (\<forall>s now now' k. now \<le> now' \<longrightarrow> peek l s now' k \<in> {None, peek l s now k})"

section \<open>Configuration\<close>

record Config =
  DriverName :: string
  Size :: int
  Samples :: int
  cfg_TTL :: int
  Deviation :: int
  Subsidiary :: bool

record 's TinyLFU =
  config :: Config
  lfu :: 's
  offset :: int

definition ErrValueReceiverNil :: go_error where
  "ErrValueReceiverNil = Sentinel ''cache: value receiver must not nil pointer''"

definition defaultTTL :: int where "defaultTTL = 60 * second"
definition maxOffset :: int where "maxOffset = 10 * second"
definition defaultSamples :: int where "defaultSamples = 100000"

definition default_config :: Config where
  "default_config = \<lparr>DriverName = [], Size = 0, Samples = defaultSamples, cfg_TTL = defaultTTL,
     Deviation = 10, Subsidiary = False\<rparr>"

text \<open>
  \<open>Apply\<close>: \<open>unmarshal\<close> is \<open>cnf.Unmarshal\<close> on the embedded configuration, \<open>self\<close> the pointer that is
  registered with the manager.
\<close>

definition Register :: "Config \<Rightarrow> 'c \<Rightarrow> 'c manager \<Rightarrow> 'c manager \<times> unit outcome" where
  "Register cfg self m = RegisterCache (DriverName cfg) self m"

definition Apply ::
  "('s, 'o) env \<Rightarrow> (Config \<Rightarrow> Config outcome) \<Rightarrow> 'c \<Rightarrow> Config \<Rightarrow> 'c manager \<Rightarrow> 'c manager \<times> 's TinyLFU outcome" where
  "Apply e unmarshal self cfg0 m =
     (case unmarshal cfg0 of
        Fail err \<Rightarrow> (m, Fail err) | Panic p \<Rightarrow> (m, Panic p)
      | Ret cfg \<Rightarrow>
          if Subsidiary cfg \<and> Deviation cfg = 0 then (m, Panic ''integer divide by zero'')
          else let off = (if Subsidiary cfg then min (cfg_TTL cfg sdiv Deviation cfg) maxOffset else 0);
                   c = \<lparr>config = cfg, lfu = tinylfu_New (lib e) (Size cfg) (Samples cfg), offset = off\<rparr>
               in if DriverName cfg \<noteq> [] then
                    (case Register cfg self m of
                       (m, Ret _) \<Rightarrow> (m, Ret c)
                     | (m, Fail err) \<Rightarrow> (m, Fail err)
                     | (m, Panic p) \<Rightarrow> (m, Panic p))
                  else (m, Ret c))"

definition NewTinyLFU ::
  "('s, 'o) env \<Rightarrow> (Config \<Rightarrow> Config outcome) \<Rightarrow> 'c \<Rightarrow> 'c manager \<Rightarrow> 'c manager \<times> 's TinyLFU outcome" where
  "NewTinyLFU e unmarshal self m = Apply e unmarshal self default_config m"

section \<open>Operations\<close>

text \<open>\<open>rand.Int63n(n)\<close> panics for \<open>n \<le> 0\<close>; \<open>rnd\<close> is the generator's raw draw.\<close>

definition Int63n :: "int \<Rightarrow> int \<Rightarrow> int outcome" where
  "Int63n rnd n = (if n \<le> 0 then Panic ''invalid argument to Int63n'' else Ret (rnd mod n))"

definition fixTTL :: "'s TinyLFU \<Rightarrow> int \<Rightarrow> int \<Rightarrow> 'o Options \<Rightarrow> int outcome" where
  "fixTTL c rnd ttl0 opt =
     (let cttl = cfg_TTL (config c);
          ttl1 = (if Subsidiary (config c) \<and> \<not> SkipMode_Is (Skip opt) SkipRemote
                  then (if ttl0 > cttl then cttl else ttl0) else ttl0);
          ttl = (if ttl1 \<le> 0 then cttl else ttl1)
      in if offset c > 0 then
           (if ttl \<ge> cttl then go_bind (Int63n rnd (offset c)) (\<lambda>x. Ret (wrap64 (ttl + x)))
            else if Deviation (config c) = 0 then Panic ''integer divide by zero''
            else go_bind (Int63n rnd (ttl sdiv Deviation (config c))) (\<lambda>x. Ret (wrap64 (ttl + x))))
         else Ret ttl)"

definition setValue :: "('s, 'o) env \<Rightarrow> int \<Rightarrow> 's TinyLFU \<Rightarrow> string \<Rightarrow> 'o gval \<Rightarrow> int \<Rightarrow> bool \<Rightarrow> 's TinyLFU \<times> unit outcome" where
  "setValue e now c key value ttl raw =
     (let ex = (if ttl \<noteq> 0 then Some (now + ttl) else None);
          put = (\<lambda>v. c\<lparr>lfu := tinylfu_Set (lib e) (lfu c) now \<lparr>Key = key, Value = v, ExpireAt = ex\<rparr>\<rparr>)
      in if raw then (put value, Ret ())
         else case DefaultMarshalFunc (codecs e) value of
                Ret b \<Rightarrow> (put (VBytes b), Ret ())
              | Fail err \<Rightarrow> (c, Fail err)
              | Panic p \<Rightarrow> (c, Panic p))"

definition SetInner ::
  "('s, 'o) env \<Rightarrow> int \<Rightarrow> int \<Rightarrow> 's TinyLFU \<Rightarrow> string \<Rightarrow> 'o gval \<Rightarrow> int \<Rightarrow> 'o Options \<Rightarrow> 's TinyLFU \<times> unit outcome" where
  "SetInner e now rnd c key value ttl opt =
     (case fixTTL c rnd ttl opt of
        Ret ttl \<Rightarrow> setValue e now c key value ttl (Raw opt)
      | Fail err \<Rightarrow> (c, Fail err)
      | Panic p \<Rightarrow> (c, Panic p))"

definition lfu_get :: "('s, 'o) env \<Rightarrow> int \<Rightarrow> 's TinyLFU \<Rightarrow> string \<Rightarrow> 'o gval option \<times> 's TinyLFU" where
  "lfu_get e now c key = (case tinylfu_Get (lib e) (lfu c) now key of (r, s) \<Rightarrow> (r, c\<lparr>lfu := s\<rparr>))"

definition setOptions ::
  "('s, 'o) env \<Rightarrow> int \<Rightarrow> int \<Rightarrow> 's TinyLFU \<Rightarrow> string \<Rightarrow> 'o gval \<Rightarrow> int \<Rightarrow> 'o Options \<Rightarrow> 's TinyLFU \<times> unit outcome" where
  "setOptions e now rnd c key value ttl opt =
     (case fixTTL c rnd ttl opt of
        Fail err \<Rightarrow> (c, Fail err)
      | Panic p \<Rightarrow> (c, Panic p)
      | Ret ttl \<Rightarrow>
          if SetXX opt then
            (case lfu_get e now c key of
               (None, c) \<Rightarrow> (c, Fail (Errorf (''setxx: key not exist:'' @ key)))
             | (Some _, c) \<Rightarrow> setValue e now c key value ttl (Raw opt))
          else if SetNX opt then
            (case lfu_get e now c key of
               (Some _, c) \<Rightarrow> (c, Fail (Errorf (''setnx key already exist:'' @ key)))
             | (None, c) \<Rightarrow> setValue e now c key value ttl (Raw opt))
          else setValue e now c key value ttl (Raw opt))"

definition Set_lfu ::
  "('s, 'o) env \<Rightarrow> int \<Rightarrow> int \<Rightarrow> 's TinyLFU \<Rightarrow> string \<Rightarrow> 'o gval \<Rightarrow> 'o Option list \<Rightarrow> 's TinyLFU \<times> unit outcome" where
  "Set_lfu e now rnd c key value opts =
     (let opt = ApplyOptions opts in setOptions e now rnd c key value (TTL opt) opt)"

text \<open>The type switch of \<open>GetInner\<close> for raw values: a failed assertion panics.\<close>

definition assign_raw :: "'o gval \<Rightarrow> 'o gval \<Rightarrow> 'o gval outcome" where
  "assign_raw value val =
     (let assert = (\<lambda>t. if type_of val = t then Ret (VPtr t val) else Panic ''interface conversion'') in
      case value of
        VPtr TString _ \<Rightarrow> assert TString
      | VPtr TBytes _ \<Rightarrow> assert TBytes
      | VPtr TBool _ \<Rightarrow> assert TBool
      | VPtr TInt _ \<Rightarrow> assert TInt
      | VPtr TFloat _ \<Rightarrow> assert TFloat
      | _ \<Rightarrow> if \<not> is_ptr value then Fail ErrReceiverMustPointer else reflect_set value val)"

definition GetInner ::
  "('s, 'o) env \<Rightarrow> int \<Rightarrow> 's TinyLFU \<Rightarrow> string \<Rightarrow> 'o gval \<Rightarrow> bool \<Rightarrow> 's TinyLFU \<times> 'o gval outcome" where
  "GetInner e now c key value raw =
     (if value = VNil then (c, Fail ErrValueReceiverNil)
      else case lfu_get e now c key of
        (None, c) \<Rightarrow> (c, Fail ErrCacheMiss)
      | (Some val, c) \<Rightarrow>
          (c, if val = VNil then Ret value
              else if \<not> raw then
                (case val of VBytes b \<Rightarrow> DefaultUnmarshalFunc (codecs e) b value
                 | _ \<Rightarrow> Fail (Errorf ''cache: can't unmarshal,value must be []byte''))
              else assign_raw value val))"

definition Get_lfu ::
  "('s, 'o) env \<Rightarrow> int \<Rightarrow> int \<Rightarrow> 's TinyLFU \<Rightarrow> string \<Rightarrow> 'o gval \<Rightarrow> 'o Option list \<Rightarrow> 's TinyLFU \<times> 'o gval outcome" where
  "Get_lfu e now rnd c key value opts =
     (let opt = ApplyOptions opts in
      case GetInner e now c key value (Raw opt) of
        (c, Fail err) \<Rightarrow>
          if \<not> errors_is err ErrCacheMiss then (c, Fail err)
          else (case Getter opt of
             None \<Rightarrow> (c, Fail err)
           | Some g \<Rightarrow>
               (case g key of
                  Fail err \<Rightarrow> (c, Fail err)
                | Panic p \<Rightarrow> (c, Panic p)
                | Ret gv \<Rightarrow>
                    if \<not> is_ptr value then (c, Fail ErrReceiverMustPointer)
                    else (case reflect_set value gv of
                       Panic p \<Rightarrow> (c, Panic p)
                     | Fail err \<Rightarrow> (c, Fail err)
                     | Ret value \<Rightarrow>
                         (case SetInner e now rnd c key gv (TTL opt) opt of
                            (c, Ret _) \<Rightarrow> (c, Ret value)
                          | (c, Fail err) \<Rightarrow> (c, Fail err)
                          | (c, Panic p) \<Rightarrow> (c, Panic p)))))
      | r \<Rightarrow> r)"

definition Has_lfu :: "('s, 'o) env \<Rightarrow> int \<Rightarrow> 's TinyLFU \<Rightarrow> string \<Rightarrow> 's TinyLFU \<times> bool" where
  "Has_lfu e now c key = (case lfu_get e now c key of (r, c) \<Rightarrow> (c, r \<noteq> None))"

definition Del_lfu :: "('s, 'o) env \<Rightarrow> 's TinyLFU \<Rightarrow> string \<Rightarrow> 's TinyLFU \<times> unit outcome" where
  "Del_lfu e c key = (c\<lparr>lfu := tinylfu_Del (lib e) (lfu c) key\<rparr>, Ret ())"

definition IsNotFound :: "go_error \<Rightarrow> bool" where
  "IsNotFound err = errors_is err ErrCacheMiss"

definition Clean :: "('s, 'o) env \<Rightarrow> 's TinyLFU \<Rightarrow> 's TinyLFU" where
  "Clean e c = c\<lparr>lfu := tinylfu_New (lib e) (Size (config c)) (Samples (config c))\<rparr>"

end
