(* ===== verification/LFUProps.thy ===== *)
theory LFUProps
  imports LFU
begin

text \<open>
  Properties of the in-process cache: bounds of the expiry, what each operation does to the stored
  contents, and a locale for caches that may lose entries but never return a stale one, interpreted
  on histories of \<open>TinyLFU\<close> operations.
\<close>

section \<open>Caches that may lose entries\<close>

text \<open>
  \<open>view\<close> is what a read would find; \<open>record\<close> is the table of the last completed writes.  If one step
  keeps the view inside the table, so does every history.
\<close>

fun history ::
  "('st \<Rightarrow> 'op \<Rightarrow> 'st) \<Rightarrow> ('st \<Rightarrow> 'op \<Rightarrow> ('k \<Rightarrow> 'v option) \<Rightarrow> 'k \<Rightarrow> 'v option) \<Rightarrow>
   'st \<times> ('k \<Rightarrow> 'v option) \<Rightarrow> 'op list \<Rightarrow> 'st \<times> ('k \<Rightarrow> 'v option)" where
  "history step written sm [] = sm"
| "history step written sm (op # ops) =
     history step written (step (fst sm) op, written (fst sm) op (snd sm)) ops"

locale lossy_cache =
  fixes step :: "'st \<Rightarrow> 'op \<Rightarrow> 'st" and view :: "'st \<Rightarrow> 'k \<Rightarrow> 'v option"
    and written :: "'st \<Rightarrow> 'op \<Rightarrow> ('k \<Rightarrow> 'v option) \<Rightarrow> 'k \<Rightarrow> 'v option" and inv :: "'st \<Rightarrow> bool"
  assumes inv_step: "inv s \<Longrightarrow> inv (step s op)"
    and view_step: "inv s \<Longrightarrow> view s \<subseteq>\<^sub>m m \<Longrightarrow> view (step s op) \<subseteq>\<^sub>m written s op m"
begin

lemma history_le:
  "inv s \<Longrightarrow> view s \<subseteq>\<^sub>m m \<Longrightarrow> history step written (s, m) ops = (s', m') \<Longrightarrow> inv s' \<and> view s' \<subseteq>\<^sub>m m'"
proof (induction ops arbitrary: s m)
  case (Cons op ops)
  from Cons.IH [OF inv_step [OF Cons.prems(1)] view_step [OF Cons.prems(1,2)]] Cons.prems(3)
  show ?case by simp
qed simp

lemma never_stale:
  assumes "inv s" "view s = Map.empty" "history step written (s, Map.empty) ops = (s', m')"
  shows "view s' k = None \<or> view s' k = m' k"
  using history_le [OF assms(1) _ assms(3)] assms(2) by (force simp: map_le_def dom_def)

end

section \<open>Laws of the table\<close>

lemma peek_laws:
  assumes "tinylfu_laws l"
  shows peek_Get: "now \<le> now' \<Longrightarrow> peek l (snd (tinylfu_Get l s now k)) now' k' = peek l s now' k'"
    and peek_Set_same: "now \<le> now' \<Longrightarrow> ExpireAt it = None \<or> now' < the (ExpireAt it) \<Longrightarrow>
          peek l (tinylfu_Set l s now it) now' (Key it) = Some (Value it)"
    and peek_Set_any: "peek l (tinylfu_Set l s now it) now' (Key it) \<in> {None, Some (Value it)}"
    and peek_Set_other: "now \<le> now' \<Longrightarrow> k \<noteq> Key it \<Longrightarrow> peek l (tinylfu_Set l s now it) now' k \<in> {None, peek l s now' k}"
    and peek_Del: "peek l (tinylfu_Del l s k) now k = None"
    and peek_Del_other: "k' \<noteq> k \<Longrightarrow> peek l (tinylfu_Del l s k) now k' = peek l s now k'"
    and peek_New: "peek l (tinylfu_New l n m) now k = None"
    and peek_later: "now \<le> now' \<Longrightarrow> peek l s now' k \<in> {None, peek l s now k}"
  using assms by (simp_all add: tinylfu_laws_def) (elim disjE; simp)

text \<open>What a read at \<open>now\<close> finds under a key.\<close>

definition found :: "('s, 'o) env \<Rightarrow> int \<Rightarrow> 's TinyLFU \<Rightarrow> string \<Rightarrow> 'o gval option" where
  "found e now c k = peek (lib e) (lfu c) now k"

lemma lfu_get_spec:
  assumes "tinylfu_laws (lib e)" "lfu_get e now c k = (r, c')"
  shows "r = found e now c k" "now \<le> now' \<Longrightarrow> found e now' c' = found e now' c" "config c' = config c" "offset c' = offset c"
proof -
  have c': "c' = c\<lparr>lfu := snd (tinylfu_Get (lib e) (lfu c) now k)\<rparr>" and r: "r = fst (tinylfu_Get (lib e) (lfu c) now k)"
    using assms(2) by (auto simp: lfu_get_def split: prod.splits)
  show "r = found e now c k" by (simp add: r found_def peek_def)
  show "now \<le> now' \<Longrightarrow> found e now' c' = found e now' c"
    using peek_Get [OF assms(1)] by (auto simp: c' found_def)
  show "config c' = config c" "offset c' = offset c" by (simp_all add: c')
qed

section \<open>Expiry\<close>

text \<open>
  The form in which a value is stored: raw, or the bytes of the default serialisation.
\<close>

definition stored_form :: "('s, 'o) env \<Rightarrow> bool \<Rightarrow> 'o gval \<Rightarrow> 'o gval option" where
  "stored_form e raw v = (if raw then Some v else
     case DefaultMarshalFunc (codecs e) v of Ret b \<Rightarrow> Some (VBytes b) | _ \<Rightarrow> None)"

lemma setValue_spec:
  assumes "tinylfu_laws (lib e)" "setValue e now c k v ttl raw = (c', r)"
  shows "config c' = config c \<and> offset c' = offset c \<and>
    (case r of
       Ret _ \<Rightarrow> \<exists>x. stored_form e raw v = Some x
         \<and> (\<forall>now'. now \<le> now' \<longrightarrow> (ttl = 0 \<or> now' < now + ttl) \<longrightarrow> found e now' c' k = Some x)
         \<and> (\<forall>now'. found e now' c' k \<in> {None, Some x})
         \<and> (\<forall>now' k'. now \<le> now' \<longrightarrow> k' \<noteq> k \<longrightarrow> found e now' c' k' \<in> {None, found e now' c k'})
     | _ \<Rightarrow> c' = c)"
proof -
  let ?put = "\<lambda>x. c\<lparr>lfu := tinylfu_Set (lib e) (lfu c) now
     \<lparr>Key = k, Value = x, ExpireAt = (if ttl \<noteq> 0 then Some (now + ttl) else None)\<rparr>\<rparr>"
  have put: "(\<forall>now'. now \<le> now' \<longrightarrow> (ttl = 0 \<or> now' < now + ttl) \<longrightarrow> found e now' (?put x) k = Some x)
     \<and> (\<forall>now'. found e now' (?put x) k \<in> {None, Some x}) \<and> (\<forall>now' k'. now \<le> now' \<longrightarrow> k' \<noteq> k \<longrightarrow> found e now' (?put x) k' \<in> {None, found e now' c k'})" for x
    using peek_Set_same [OF assms(1), of now _ "\<lparr>Key = k, Value = x, ExpireAt = (if ttl \<noteq> 0 then Some (now + ttl) else None)\<rparr>"]
      peek_Set_any [OF assms(1), of _ now "\<lparr>Key = k, Value = x, ExpireAt = (if ttl \<noteq> 0 then Some (now + ttl) else None)\<rparr>"]
      peek_Set_other [OF assms(1), of now _ _ "\<lparr>Key = k, Value = x, ExpireAt = (if ttl \<noteq> 0 then Some (now + ttl) else None)\<rparr>"]
    by (auto simp: found_def split: if_splits)
  show ?thesis
  proof (cases raw)
    case True
    with assms(2) have "c' = ?put v" "r = Ret ()" by (auto simp: setValue_def Let_def)
    with True put [of v] show ?thesis by (simp add: stored_form_def)
  next
    case False
    show ?thesis
    proof (cases "DefaultMarshalFunc (codecs e) v")
      case (Ret b)
      with False assms(2) have "c' = ?put (VBytes b)" "r = Ret ()" by (auto simp: setValue_def Let_def)
      with False Ret put [of "VBytes b"] show ?thesis by (simp add: stored_form_def)
    qed (use False assms(2) in \<open>auto simp: setValue_def Let_def\<close>)
  qed
qed

text \<open>
  The expiry that a write uses, for a cache with a positive default TTL whose request does not overflow:
  never below the request, and above it by less than ten seconds and by less than the deviation's share.
\<close>

lemma Int63n_Ret: "Int63n rnd n = Ret x \<Longrightarrow> 0 \<le> x \<and> x < n"
  by (auto simp: Int63n_def split: if_splits)

lemma Int63n_cases: "Int63n rnd n = (if n \<le> 0 then Panic ''invalid argument to Int63n'' else Ret (rnd mod n))"
  by (simp add: Int63n_def)

definition effective_ttl :: "'s TinyLFU \<Rightarrow> 'o Options \<Rightarrow> int \<Rightarrow> int" where
  "effective_ttl c opt ttl =
     (let t = (if Subsidiary (config c) \<and> \<not> SkipMode_Is (Skip opt) SkipRemote then min ttl (cfg_TTL (config c)) else ttl)
      in if t \<le> 0 then cfg_TTL (config c) else t)"

lemma fixTTL_eq:
  "fixTTL c rnd ttl opt =
     (let t = effective_ttl c opt ttl in
      if offset c > 0 then
        (if t \<ge> cfg_TTL (config c) then go_bind (Int63n rnd (offset c)) (\<lambda>x. Ret (wrap64 (t + x)))
         else if Deviation (config c) = 0 then Panic ''integer divide by zero''
         else go_bind (Int63n rnd (t sdiv Deviation (config c))) (\<lambda>x. Ret (wrap64 (t + x))))
      else Ret t)"
  by (simp add: fixTTL_def effective_ttl_def Let_def min_def)

definition cache_ok :: "'s TinyLFU \<Rightarrow> bool" where
  "cache_ok c \<longleftrightarrow> 0 < cfg_TTL (config c) \<and> 0 < Deviation (config c) \<and> cfg_TTL (config c) \<le> 2 ^ 62
     \<and> offset c = (if Subsidiary (config c) then min (cfg_TTL (config c) sdiv Deviation (config c)) maxOffset else 0)"

lemma sdiv_bounds: "0 < b \<Longrightarrow> b \<le> a \<Longrightarrow> 1 \<le> a sdiv b \<and> a sdiv b \<le> (a::int)"
proof -
  assume *: "0 < b" "b \<le> a"
  then have "1 \<le> a div b" using zdiv_mono1 [of b a b] by simp
  moreover have "a div b \<le> a" using * zdiv_mono2 [of a 1 b] by simp
  ultimately show ?thesis using * by (simp add: sdiv_nonneg)
qed

lemma NewTinyLFU_ok:
  assumes "NewTinyLFU e unmarshal self m = (m', Ret c)"
  shows "unmarshal default_config = Ret (config c)" "found e now c k = None \<or> \<not> tinylfu_laws (lib e)"
    "0 < cfg_TTL (config c) \<Longrightarrow> 0 < Deviation (config c) \<Longrightarrow> cfg_TTL (config c) \<le> 2 ^ 62 \<Longrightarrow> cache_ok c"
  using assms
  by (auto simp: NewTinyLFU_def Apply_def cache_ok_def Let_def found_def peek_New
      split: outcome.splits if_splits prod.splits)

lemma fixTTL_range:
  assumes "cache_ok c" "ttl \<le> 2 ^ 62" "ttl \<le> 0 \<or> Deviation (config c) \<le> ttl"
    and "Deviation (config c) \<le> cfg_TTL (config c)"
  shows "\<exists>x. fixTTL c rnd ttl opt = Ret (effective_ttl c opt ttl + x) \<and> 0 \<le> x
     \<and> (if \<not> Subsidiary (config c) then x = 0
         else if cfg_TTL (config c) \<le> effective_ttl c opt ttl then x < maxOffset \<and> x < cfg_TTL (config c)
         else x < effective_ttl c opt ttl sdiv Deviation (config c))"
proof -
  let ?t = "effective_ttl c opt ttl" and ?T = "cfg_TTL (config c)" and ?D = "Deviation (config c)"
  have T: "0 < ?T" "0 < ?D" "?T \<le> 2 ^ 62" using assms(1) by (auto simp: cache_ok_def)
  have t: "?D \<le> ?t" "?t \<le> 2 ^ 62" using assms T by (auto simp: effective_ttl_def Let_def min_def)
  show ?thesis
  proof (cases "Subsidiary (config c)")
    case False
    then have "offset c = 0" using assms(1) by (simp add: cache_ok_def)
    with False show ?thesis by (simp add: fixTTL_eq Let_def)
  next
    case True
    have q: "1 \<le> ?T sdiv ?D" "?T sdiv ?D \<le> ?T" "1 \<le> ?t sdiv ?D" "?t sdiv ?D \<le> ?t"
      using sdiv_bounds [of ?D ?T] sdiv_bounds [of ?D ?t] T t assms(4) by simp_all
    have off: "offset c = min (?T sdiv ?D) maxOffset" using True assms(1) by (simp add: cache_ok_def)
    with q have o: "0 < offset c" "offset c \<le> maxOffset" "offset c \<le> ?T" by (simp_all add: maxOffset_def second_def)
    show ?thesis
    proof (cases "?T \<le> ?t")
      case ge: True
      have x: "0 \<le> rnd mod offset c" "rnd mod offset c < offset c" using o(1) by simp_all
      moreover have "wrap64 (?t + rnd mod offset c) = ?t + rnd mod offset c"
        by (rule wrap64_add) (use x o(3) t T in linarith)+
      moreover have "rnd mod offset c < maxOffset" "rnd mod offset c < ?T" using x(2) o by linarith+
      ultimately show ?thesis using True ge o(1) by (simp add: fixTTL_eq Let_def Int63n_def)
    next
      case lt: False
      let ?n = "?t sdiv ?D"
      have x: "0 \<le> rnd mod ?n" "rnd mod ?n < ?n" using q(3) by simp_all
      moreover have "wrap64 (?t + rnd mod ?n) = ?t + rnd mod ?n"
        by (rule wrap64_add) (use x q t T in linarith)+
      ultimately show ?thesis using True lt o T q by (simp add: fixTTL_eq Let_def Int63n_def)
    qed
  qed
qed


text \<open>
  the expiry of a write to a configured cache never panics when the requested time is zero,
  negative, or at least the deviation (in nanoseconds).  It is the effective request (the request, capped
  by the configured TTL for a subsidiary cache that is not asked to skip the remote level, or the configured
  TTL if none is given) plus, for a subsidiary cache only, a random part below the offset (at most ten
  seconds) when the effective request reaches the configured TTL and below the deviation's share of the
  effective request otherwise.
\<close>

theorem fix_ttl_bounds:
  assumes "cache_ok c" "ttl \<le> 2 ^ 62" "ttl \<le> 0 \<or> Deviation (config c) \<le> ttl"
    and "Deviation (config c) \<le> cfg_TTL (config c)"
  shows "\<exists>x. fixTTL c rnd ttl opt = Ret (effective_ttl c opt ttl + x) \<and> 0 \<le> x
     \<and> (if \<not> Subsidiary (config c) then x = 0
         else if cfg_TTL (config c) \<le> effective_ttl c opt ttl then x < maxOffset \<and> x < cfg_TTL (config c)
         else x < effective_ttl c opt ttl sdiv Deviation (config c))"
  using assms by (rule fixTTL_range)

text \<open>
  A table that keeps every item until it expires, with a codec that writes a value of type \<open>int\<close> as its
  decimal digits, and a subsidiary cache on it with a TTL of a minute and the default deviation.
\<close>

type_synonym 'o demo_state = "(string \<times> 'o gval \<times> int option) list"

definition demo_table :: "('o demo_state, 'o) tinylfu" where
  "demo_table =
     \<lparr>tinylfu_New = (\<lambda>_ _. []),
      tinylfu_Get = (\<lambda>s now k. (case map_of s k of Some (v, ex) \<Rightarrow> if ex = None \<or> now < the ex then Some v else None
                                 | None \<Rightarrow> None, s)),
      tinylfu_Set = (\<lambda>s now it. AList.update (Key it) (Value it, ExpireAt it) s),
      tinylfu_Del = (\<lambda>s k. AList.delete k s)\<rparr>"

lemma demo_table_laws: "tinylfu_laws demo_table"
  by (auto simp: tinylfu_laws_def peek_def demo_table_def update_conv' AList.delete_conv' split: option.splits)

definition demo_codec :: "unit codec" where
  "demo_codec =
     \<lparr>msgpack_Marshal = (\<lambda>v. case v of VInt i \<Rightarrow> Ret (Itoa i) | _ \<Rightarrow> Fail (Errorf ''unsupported'')),
      msgpack_Unmarshal = (\<lambda>b r. case r of VPtr t _ \<Rightarrow> go_bind (Atoi b) (\<lambda>i. Ret (VPtr t (VInt i))) | _ \<Rightarrow> Fail (Errorf ''not a pointer'')),
      s2_Encode = (\<lambda>s. s), s2_Decode = Ret\<rparr>"

lemma demo_codec_laws: "codec_laws demo_codec {v. (\<exists>s. v = VString s) \<or> (\<exists>i. v = VInt i \<and> in_int64 i)}"
  by (auto simp: codec_laws_def demo_codec_def Atoi_Itoa)

definition demo_env :: "(unit demo_state, unit) env" where
  "demo_env = \<lparr>lib = demo_table, codecs = demo_codec\<rparr>"

definition demo_values :: "unit gval set" where
  "demo_values = {v. (\<exists>s. v = VString s) \<or> (\<exists>i. v = VInt i \<and> in_int64 i)}"

lemma demo_env_laws: "tinylfu_laws (lib demo_env)" "codec_laws (codecs demo_env) demo_values"
  using demo_table_laws demo_codec_laws by (simp_all add: demo_env_def demo_values_def)

definition demo_sub :: "unit demo_state TinyLFU" where
  "demo_sub = \<lparr>config = default_config\<lparr>Subsidiary := True\<rparr>, lfu = [], offset = 6 * second\<rparr>"

theorem fix_ttl_bounds_witness:
  "cache_ok demo_sub \<and> (\<exists>x. fixTTL demo_sub 7000000000 0 (ApplyOptions ([] :: unit Option list)) = Ret (60 * second + x)
     \<and> 0 \<le> x \<and> x < maxOffset)"
proof -
  have c: "cache_ok demo_sub" "Subsidiary (config demo_sub)" "cfg_TTL (config demo_sub) = 60 * second"
    "effective_ttl demo_sub (ApplyOptions ([] :: unit Option list)) 0 = 60 * second" "Deviation (config demo_sub) = 10"
    by (simp_all add: demo_sub_def cache_ok_def default_config_def defaultTTL_def second_def maxOffset_def go_arith
        effective_ttl_def ApplyOptions_def Let_def)
  with fix_ttl_bounds [of demo_sub 0 7000000000 "ApplyOptions ([] :: unit Option list)"] show ?thesis
    by (auto simp: second_def)
qed

text \<open>
  a subsidiary cache panics on a positive request shorter than the deviation, in nanoseconds: the
  bound it draws the random part from is then zero.
\<close>

theorem tiny_ttl_panics:
  assumes "cache_ok c" "Subsidiary (config c)" "\<not> SkipMode_Is (Skip opt) SkipRemote"
    and "0 < ttl" "ttl < Deviation (config c)" "Deviation (config c) \<le> cfg_TTL (config c)"
  shows "SetInner e now rnd c k v ttl opt = (c, Panic ''invalid argument to Int63n'')"
proof -
  have D: "0 < Deviation (config c)" using assms(1) by (simp add: cache_ok_def)
  then have "0 < offset c" using assms(1,2,6) sdiv_bounds [of "Deviation (config c)" "cfg_TTL (config c)"]
    by (simp add: cache_ok_def maxOffset_def second_def)
  moreover have "effective_ttl c opt ttl = ttl" using assms by (simp add: effective_ttl_def Let_def min_def)
  moreover have "ttl sdiv Deviation (config c) = 0" using assms(4,5) D by (simp add: sdiv_nonneg)
  ultimately have "fixTTL c rnd ttl opt = Panic ''invalid argument to Int63n''"
    using assms(5,6) D by (simp add: fixTTL_eq Let_def Int63n_def)
  then show ?thesis by (simp add: SetInner_def)
qed

theorem tiny_ttl_panics_witness:
  "snd (SetInner (demo_env :: (unit demo_state, unit) env) 0 3 demo_sub ''k'' VNil 9 (ApplyOptions [])) = Panic ''invalid argument to Int63n''"
proof -
  have "cache_ok demo_sub" "Subsidiary (config demo_sub)" "Deviation (config demo_sub) = 10"
    "Deviation (config demo_sub) \<le> cfg_TTL (config demo_sub)"
    by (simp_all add: demo_sub_def cache_ok_def default_config_def defaultTTL_def second_def maxOffset_def go_arith)
  moreover have "\<not> SkipMode_Is (Skip (ApplyOptions ([] :: unit Option list))) SkipRemote"
    by (simp add: ApplyOptions_def skip_modes)
  ultimately show ?thesis using tiny_ttl_panics [of demo_sub "ApplyOptions ([] :: unit Option list)" 9] by simp
qed

section \<open>Histories\<close>

text \<open>
  An operation with the time that passes before it; the state pairs the clock with the cache.
\<close>

datatype 'o lfu_op =
    OpSet nat int string "'o gval" "'o Option list"
  | OpGet nat int string "'o gval" "'o Option list"
  | OpHas nat string
  | OpDel nat string
  | OpClean nat

fun lfu_step :: "('s, 'o) env \<Rightarrow> int \<times> 's TinyLFU \<Rightarrow> 'o lfu_op \<Rightarrow> int \<times> 's TinyLFU" where
  "lfu_step e (now, c) (OpSet d rnd k v opts) = (now + int d, fst (Set_lfu e (now + int d) rnd c k v opts))"
| "lfu_step e (now, c) (OpGet d rnd k r opts) = (now + int d, fst (Get_lfu e (now + int d) rnd c k r opts))"
| "lfu_step e (now, c) (OpHas d k) = (now + int d, fst (Has_lfu e (now + int d) c k))"
| "lfu_step e (now, c) (OpDel d k) = (now + int d, fst (Del_lfu e c k))"
| "lfu_step e (now, c) (OpClean d) = (now + int d, Clean e c)"

text \<open>
  The table of the last completed writes: a \<open>Set\<close> that returned no error, and a \<open>Get\<close> whose getter was
  asked because the key was missing and that returned no error, write the stored form.
\<close>

definition is_miss :: "'a outcome \<Rightarrow> bool" where
  "is_miss x = (case x of Fail err \<Rightarrow> errors_is err ErrCacheMiss | _ \<Rightarrow> False)"

fun lfu_written :: "('s, 'o) env \<Rightarrow> int \<times> 's TinyLFU \<Rightarrow> 'o lfu_op \<Rightarrow> (string \<Rightarrow> 'o gval option) \<Rightarrow> string \<Rightarrow> 'o gval option" where
  "lfu_written e (now, c) (OpSet d rnd k v opts) m =
     (if snd (Set_lfu e (now + int d) rnd c k v opts) = Ret ()
      then m(k := stored_form e (Raw (ApplyOptions opts)) v) else m)"
| "lfu_written e (now, c) (OpGet d rnd k r opts) m =
     (case Getter (ApplyOptions opts) of
        Some g \<Rightarrow>
          (if is_miss (snd (GetInner e (now + int d) c k r (Raw (ApplyOptions opts))))
              \<and> returns (snd (Get_lfu e (now + int d) rnd c k r opts))
           then (case g k of Ret gv \<Rightarrow> m(k := stored_form e (Raw (ApplyOptions opts)) gv) | _ \<Rightarrow> m) else m)
      | None \<Rightarrow> m)"
| "lfu_written e (now, c) (OpHas d k) m = m"
| "lfu_written e (now, c) (OpDel d k) m = m(k := None)"
| "lfu_written e (now, c) (OpClean d) m = Map.empty"

definition lfu_view :: "('s, 'o) env \<Rightarrow> int \<times> 's TinyLFU \<Rightarrow> string \<Rightarrow> 'o gval option" where
  "lfu_view e nc k = found e (fst nc) (snd nc) k"

lemma found_later_le:
  assumes "tinylfu_laws (lib e)" "found e now c \<subseteq>\<^sub>m m" "now \<le> now'"
  shows "found e now' c \<subseteq>\<^sub>m m"
  unfolding map_le_def
proof
  fix k assume "k \<in> dom (found e now' c)"
  moreover have "found e now' c k \<in> {None, found e now c k}"
    using peek_later [OF assms(1,3)] by (simp add: found_def)
  ultimately show "found e now' c k = m k" using assms(2) by (auto simp: map_le_def dom_def)
qed

lemma setValue_le:
  assumes "tinylfu_laws (lib e)" "found e now c \<subseteq>\<^sub>m m" "setValue e now c k v ttl raw = (c', r)"
  shows "found e now c' \<subseteq>\<^sub>m (if r = Ret () then m(k := stored_form e raw v) else m)"
proof (cases "r = Ret ()")
  case True
  with setValue_spec [OF assms(1,3)] obtain x where x: "stored_form e raw v = Some x"
    "found e now c' k \<in> {None, Some x}" "\<And>k'. k' \<noteq> k \<Longrightarrow> found e now c' k' \<in> {None, found e now c k'}"
    by auto
  have "found e now c' k' = (m(k := stored_form e raw v)) k'" if "found e now c' k' \<noteq> None" for k'
    using x(1,2) x(3) [of k'] assms(2) that by (cases "k' = k") (auto simp: map_le_def dom_def)
  with True show ?thesis by (auto simp: map_le_def dom_def)
next
  case False
  with setValue_spec [OF assms(1,3)] have "c' = c" by (cases r) auto
  with False assms(2) show ?thesis by simp
qed

lemma setOptions_le:
  assumes "tinylfu_laws (lib e)" "found e now c \<subseteq>\<^sub>m m" "setOptions e now rnd c k v ttl opt = (c', r)"
  shows "found e now c' \<subseteq>\<^sub>m (if r = Ret () then m(k := stored_form e (Raw opt) v) else m)"
proof (cases "fixTTL c rnd ttl opt")
  case (Ret t)
  obtain f c1 where g: "lfu_get e now c k = (f, c1)" by fastforce
  have c1: "found e now c1 = found e now c" by (rule lfu_get_spec(2) [OF assms(1) g]) simp
  consider "setValue e now c k v t (Raw opt) = (c', r)" | "setValue e now c1 k v t (Raw opt) = (c', r)"
    | "c' = c1" "r \<noteq> Ret ()"
    using assms(3) Ret g by (auto simp: setOptions_def split: if_splits option.splits)
  then show ?thesis
  proof cases
    case 1 then show ?thesis by (rule setValue_le [OF assms(1,2)])
  next
    case 2
    moreover from assms(2) c1 have "found e now c1 \<subseteq>\<^sub>m m" by simp
    ultimately show ?thesis using setValue_le [OF assms(1)] by blast
  next
    case 3 with assms(2) c1 show ?thesis by simp
  qed
qed (use assms in \<open>auto simp: setOptions_def\<close>)

lemma SetInner_le:
  assumes "tinylfu_laws (lib e)" "found e now c \<subseteq>\<^sub>m m" "SetInner e now rnd c k v ttl opt = (c', r)"
  shows "found e now c' \<subseteq>\<^sub>m (if r = Ret () then m(k := stored_form e (Raw opt) v) else m)"
  using assms setValue_le [OF assms(1,2)]
  by (cases "fixTTL c rnd ttl opt") (auto simp: SetInner_def)

lemma GetInner_spec:
  assumes "tinylfu_laws (lib e)" "GetInner e now c k r raw = (c', x)"
  shows "now \<le> now' \<Longrightarrow> found e now' c' = found e now' c"
    and "x = (if r = VNil then Fail ErrValueReceiverNil
      else case found e now c k of None \<Rightarrow> Fail ErrCacheMiss
       | Some val \<Rightarrow> if val = VNil then Ret r
           else if \<not> raw then (case val of VBytes b \<Rightarrow> DefaultUnmarshalFunc (codecs e) b r
                 | _ \<Rightarrow> Fail (Errorf ''cache: can't unmarshal,value must be []byte''))
           else assign_raw r val)"
proof -
  obtain f c1 where g: "lfu_get e now c k = (f, c1)" by fastforce
  note s = lfu_get_spec [OF assms(1) g]
  show "now \<le> now' \<Longrightarrow> found e now' c' = found e now' c"
    using assms(2) g s(2) by (auto simp: GetInner_def split: if_splits option.splits)
  show "x = (if r = VNil then Fail ErrValueReceiverNil
      else case found e now c k of None \<Rightarrow> Fail ErrCacheMiss
       | Some val \<Rightarrow> if val = VNil then Ret r
           else if \<not> raw then (case val of VBytes b \<Rightarrow> DefaultUnmarshalFunc (codecs e) b r
                 | _ \<Rightarrow> Fail (Errorf ''cache: can't unmarshal,value must be []byte''))
           else assign_raw r val)"
    using assms(2) g by (cases f) (auto simp: GetInner_def s(1) [symmetric])
qed

lemma Get_lfu_no_getter:
  assumes "Getter (ApplyOptions opts) = None"
  shows "Get_lfu e now rnd c k r opts = GetInner e now c k r (Raw (ApplyOptions opts))"
  using assms by (auto simp: Get_lfu_def Let_def split: prod.splits outcome.splits)

lemma Get_lfu_hit:
  assumes "\<not> is_miss (snd (GetInner e now c k r (Raw (ApplyOptions opts))))"
  shows "Get_lfu e now rnd c k r opts = GetInner e now c k r (Raw (ApplyOptions opts))"
  using assms by (auto simp: Get_lfu_def Let_def is_miss_def split: prod.splits outcome.splits)

lemma Get_lfu_miss:
  assumes "GetInner e now c k r (Raw (ApplyOptions opts)) = (c1, x)" "is_miss x" "Getter (ApplyOptions opts) = Some g"
    and "Get_lfu e now rnd c k r opts = (c', y)"
  shows "(\<exists>gv r'. g k = Ret gv \<and> reflect_set r gv = Ret r' \<and> is_ptr r \<and>
            (\<exists>z. SetInner e now rnd c1 k gv (TTL (ApplyOptions opts)) (ApplyOptions opts) = (c', z)
               \<and> y = go_bind z (\<lambda>_. Ret r')))
         \<or> c' = c1 \<and> \<not> returns y"
  using assms by (auto simp: Get_lfu_def Let_def is_miss_def returns_def split: if_splits prod.splits outcome.splits)

lemma Get_lfu_le:
  assumes "tinylfu_laws (lib e)" "found e now c \<subseteq>\<^sub>m m" "Get_lfu e now rnd c k r opts = (c', y)"
  shows "found e now c' \<subseteq>\<^sub>m
     (case Getter (ApplyOptions opts) of
        Some g \<Rightarrow> if is_miss (snd (GetInner e now c k r (Raw (ApplyOptions opts)))) \<and> returns y
                  then (case g k of Ret gv \<Rightarrow> m(k := stored_form e (Raw (ApplyOptions opts)) gv) | _ \<Rightarrow> m) else m
      | None \<Rightarrow> m)"
proof -
  let ?o = "ApplyOptions opts"
  obtain c1 x where g: "GetInner e now c k r (Raw ?o) = (c1, x)" by fastforce
  have c1: "found e now c1 \<subseteq>\<^sub>m m" using GetInner_spec(1) [OF assms(1) g, of now] assms(2) by simp
  show ?thesis
  proof (cases "is_miss x \<and> Getter ?o \<noteq> None")
    case False
    then have "Get_lfu e now rnd c k r opts = (c1, x)"
      using g Get_lfu_hit [of e now c k r opts rnd] Get_lfu_no_getter [of opts e now rnd c k r] by auto
    then have "c' = c1" "y = x" using assms(3) by simp_all
    moreover have "\<not> (is_miss x \<and> returns x)" by (cases x) (auto simp: is_miss_def returns_def)
    ultimately show ?thesis using c1 g by (auto split: option.splits)
  next
    case True
    then obtain gf where gf: "Getter ?o = Some gf" and m: "is_miss x" by auto
    from Get_lfu_miss [OF g m gf assms(3)] show ?thesis
    proof (elim disjE exE conjE)
      fix gv r' z assume *: "gf k = Ret gv" "SetInner e now rnd c1 k gv (TTL ?o) ?o = (c', z)" "y = go_bind z (\<lambda>_. Ret r')"
      have "z = Ret () \<longleftrightarrow> returns y" using *(3) by (cases z) (auto simp: returns_def)
      with SetInner_le [OF assms(1) c1 *(2)] show ?thesis using g gf m *(1) by (cases "returns y") simp_all
    next
      assume "c' = c1" "\<not> returns y"
      with c1 g gf show ?thesis by simp
    qed
  qed
qed

interpretation lfu: lossy_cache "lfu_step e" "lfu_view e" "lfu_written e" "\<lambda>_. tinylfu_laws (lib e)"
  for e :: "('s, 'o) env"
proof
  fix s :: "int \<times> 's TinyLFU" and op :: "'o lfu_op" and m
  assume l: "tinylfu_laws (lib e)" and le: "lfu_view e s \<subseteq>\<^sub>m m"
  obtain now c where s: "s = (now, c)" by fastforce
  have f: "found e (now + int d) c \<subseteq>\<^sub>m m" for d
    by (rule found_later_le [OF l, of now]) (use le in \<open>simp_all add: s lfu_view_def [abs_def]\<close>)
  show "lfu_view e (lfu_step e s op) \<subseteq>\<^sub>m lfu_written e s op m"
  proof (cases op)
    case (OpSet d rnd k v opts)
    obtain c' r where "Set_lfu e (now + int d) rnd c k v opts = (c', r)" by fastforce
    with setOptions_le [OF l f] OpSet s show ?thesis by (simp add: lfu_view_def [abs_def] Set_lfu_def Let_def)
  next
    case (OpGet d rnd k r opts)
    obtain c' y where "Get_lfu e (now + int d) rnd c k r opts = (c', y)" by fastforce
    with Get_lfu_le [OF l f this] OpGet s show ?thesis
      by (simp add: lfu_view_def [abs_def] cong: option.case_cong if_cong)
  next
    case (OpHas d k)
    obtain x c' where g: "lfu_get e (now + int d) c k = (x, c')" by fastforce
    with lfu_get_spec(2) [OF l g, of "now + int d"] f [of d] OpHas s show ?thesis
      by (simp add: lfu_view_def [abs_def] Has_lfu_def)
  next
    case (OpDel d k)
    have "found e (now + int d) (c\<lparr>lfu := tinylfu_Del (lib e) (lfu c) k\<rparr>) = (found e (now + int d) c)(k := None)"
      using peek_Del [OF l] peek_Del_other [OF l] by (auto simp: found_def)
    with f [of d] OpDel s show ?thesis
      by (auto simp: lfu_view_def [abs_def] Del_lfu_def map_le_def)
  next
    case (OpClean d)
    then show ?thesis using s peek_New [OF l] by (simp add: lfu_view_def [abs_def] Clean_def found_def map_le_def)
  qed
qed

section \<open>What reads return\<close>

lemma GetInner_stored:
  assumes "tinylfu_laws (lib e)" "codec_laws (codecs e) V" "v \<in> V" "storable v" "zero_receiver v r"
    and "stored_form e False v = Some x" "found e now c k = Some x"
  shows "snd (GetInner e now c k r False) = Ret (VPtr (type_of v) v)"
proof -
  obtain b where b: "DefaultMarshalFunc (codecs e) v = Ret b" "x = VBytes b"
    using assms(6) by (auto simp: stored_form_def split: outcome.splits)
  have "r \<noteq> VNil" using assms(5) by (auto simp: zero_receiver_def)
  moreover obtain c' y where g: "GetInner e now c k r False = (c', y)" by fastforce
  ultimately show ?thesis
    using GetInner_spec(2) [OF assms(1) g] default_roundtrip [OF assms(2-5) b(1)] b(2) assms(7) by simp
qed

text \<open>
  C12: the cache may forget but is never stale: after any history of sets, gets (with or without a
  getter), membership tests, deletions, cleanings and passing time on a new cache, a plain \<open>Get\<close> of a key
  whose last completed write stored \<open>v\<close> returns \<open>v\<close> or reports a miss, and a key never written, or
  deleted since, is a miss.
\<close>

theorem lfu_never_stale:
  assumes "tinylfu_laws (lib e)" "codec_laws (codecs e) V"
    and "NewTinyLFU e unmarshal self mgr = (mgr', Ret c0)"
    and "history (lfu_step e) (lfu_written e) ((now0, c0), Map.empty) ops = ((now, c), written)"
    and "r \<noteq> VNil"
  shows "(written k = None \<longrightarrow> snd (Get_lfu e now rnd c k r []) = Fail ErrCacheMiss)
     \<and> (\<forall>v \<in> V. storable v \<longrightarrow> zero_receiver v r \<longrightarrow> stored_form e False v \<noteq> None \<longrightarrow> written k = stored_form e False v \<longrightarrow>
          snd (Get_lfu e now rnd c k r []) \<in> {Ret (VPtr (type_of v) v), Fail ErrCacheMiss})"
proof -
  have "lfu_view e (now0, c0) = Map.empty"
    using NewTinyLFU_ok(2) [OF assms(3)] assms(1) by (auto simp: lfu_view_def [abs_def])
  from lfu.never_stale [OF assms(1) this assms(4)]
  have f: "found e now c k = None \<or> found e now c k = written k" by (simp add: lfu_view_def)
  have g: "Get_lfu e now rnd c k r [] = GetInner e now c k r False"
    using Get_lfu_no_getter [of "[]"] by (simp add: ApplyOptions_def)
  obtain c' y where gi: "GetInner e now c k r False = (c', y)" by fastforce
  have miss: "snd (GetInner e now c k r False) = Fail ErrCacheMiss" if "found e now c k = None"
    using GetInner_spec(2) [OF assms(1) gi] assms(5) that gi by simp
  show ?thesis
    unfolding g using f miss GetInner_stored [OF assms(1,2), of _ r _ now c k] by auto
qed

theorem lfu_never_stale_witness:
  "snd (Get_lfu demo_env 5 0
      (snd (fst (history (lfu_step demo_env) (lfu_written demo_env)
         ((0, demo_sub), Map.empty) [OpSet 0 0 ''k'' (VInt 7) [], OpDel 5 ''k'']))) ''k'' (VPtr TInt (VInt 0)) []) = Fail ErrCacheMiss"
proof -
  let ?u = "\<lambda>cfg. Ret (cfg\<lparr>Subsidiary := True\<rparr>)"
  have n: "NewTinyLFU demo_env ?u () newManager = (newManager, Ret demo_sub)"
    by (simp add: NewTinyLFU_def Apply_def default_config_def demo_sub_def defaultTTL_def second_def maxOffset_def
        demo_env_def demo_table_def go_arith Let_def)
  obtain now c w where h: "history (lfu_step demo_env) (lfu_written demo_env)
         ((0, demo_sub), Map.empty) [OpSet 0 0 ''k'' (VInt 7) [], OpDel 5 ''k''] = ((now, c), w)"
    by (metis prod.exhaust)
  then have "now = 5" "w ''k'' = None" by auto
  with lfu_never_stale [OF demo_env_laws n h, of "VPtr TInt (VInt 0)" "''k''" 0] show ?thesis
    unfolding h by simp
qed

text \<open>
  a value that was set is found until it expires: after a \<open>Set\<close> without error at time \<open>now\<close>, where
  the expiry came out as \<open>t\<close>, a \<open>Get\<close> at any time from \<open>now\<close> on and before \<open>now + t\<close> returns the value;
  every other key is unchanged or lost.
\<close>

theorem lfu_set_get:
  assumes "tinylfu_laws (lib e)" "codec_laws (codecs e) V" "v \<in> V" "storable v" "zero_receiver v r"
    and "Set_lfu e now rnd c k v opts = (c', Ret ())" "\<not> Raw (ApplyOptions opts)"
    and "fixTTL c rnd (TTL (ApplyOptions opts)) (ApplyOptions opts) = Ret t" "now \<le> now'" "now' < now + t"
  shows "snd (Get_lfu e now' rnd' c' k r []) = Ret (VPtr (type_of v) v)
     \<and> (\<forall>k'. k' \<noteq> k \<longrightarrow> found e now' c' k' \<in> {None, found e now' c k'})"
proof -
  let ?o = "ApplyOptions opts"
  obtain f c1 where g: "lfu_get e now c k = (f, c1)" by fastforce
  have c1: "found e now' c1 = found e now' c" by (rule lfu_get_spec(2) [OF assms(1) g assms(9)])
  obtain c2 where c2: "setValue e now c2 k v t False = (c', Ret ())" "found e now' c2 = found e now' c"
    using assms(6-8) g c1
    by (auto simp: Set_lfu_def setOptions_def Let_def split: if_splits option.splits)
  from setValue_spec [OF assms(1) c2(1)] obtain x where x: "stored_form e False v = Some x"
    "found e now' c' k = Some x" "\<forall>k'. k' \<noteq> k \<longrightarrow> found e now' c' k' \<in> {None, found e now' c2 k'}"
    using assms(9,10) by auto
  moreover have "Get_lfu e now' rnd' c' k r [] = GetInner e now' c' k r False"
    using Get_lfu_no_getter [of "[]"] by (simp add: ApplyOptions_def)
  ultimately show ?thesis using GetInner_stored [OF assms(1-5) x(1,2)] c2(2) by simp
qed

lemma no_options:
  "TTL (ApplyOptions ([] :: 'o Option list)) = 0" "\<not> SetXX (ApplyOptions ([] :: 'o Option list))"
  "\<not> SetNX (ApplyOptions ([] :: 'o Option list))" "\<not> Raw (ApplyOptions ([] :: 'o Option list))"
  "Getter (ApplyOptions ([] :: 'o Option list)) = None" "Skip (ApplyOptions ([] :: 'o Option list)) = 0"
  "\<not> Group (ApplyOptions ([] :: 'o Option list))"
  by (simp_all add: ApplyOptions_def)

lemma demo_ttl: "fixTTL demo_sub 0 0 (ApplyOptions ([] :: unit Option list)) = Ret (60 * second)"
  by (simp add: fixTTL_def demo_sub_def default_config_def defaultTTL_def second_def ApplyOptions_def skip_modes
      Int63n_def wrap64_def Let_def)

lemma demo_set:
  "Set_lfu demo_env 0 0 demo_sub ''k'' (VInt 7) [] =
     (demo_sub\<lparr>lfu := [(''k'', VBytes [CHR ''7'', noCompression], Some (60 * second))]\<rparr>, Ret ())"
proof -
  have "DefaultMarshalFunc (codecs demo_env) (VInt 7) = Ret [CHR ''7'', noCompression]"
    by (simp add: DefaultMarshalFunc_def demo_codec_def Itoa_def nat_digits.simps compress_def compressionThreshold_def
        noCompression_def char_of_def bit_0 demo_env_def)
  moreover have "lfu demo_sub = []" by (simp add: demo_sub_def)
  ultimately show ?thesis
    by (simp add: Set_lfu_def setOptions_def Let_def demo_ttl no_options setValue_def second_def)
       (simp add: demo_env_def demo_table_def)
qed

theorem lfu_set_get_witness:
  "snd (Get_lfu demo_env 59 3 (fst (Set_lfu demo_env 0 0 demo_sub ''k'' (VInt 7) [])) ''k'' (VPtr TInt (VInt 0)) [])
     = Ret (VPtr TInt (VInt 7))"
proof -
  have "VInt 7 \<in> demo_values" by (simp add: demo_values_def)
  moreover have "storable (VInt 7 :: unit gval)" "zero_receiver (VInt 7) (VPtr TInt (VInt 0) :: unit gval)"
    by (simp_all add: storable_def zero_receiver_def)
  moreover have "\<not> Raw (ApplyOptions ([] :: unit Option list))" "TTL (ApplyOptions ([] :: unit Option list)) = 0"
    by (simp_all add: ApplyOptions_def)
  ultimately show ?thesis
    using lfu_set_get [OF demo_env_laws, of "VInt 7" "VPtr TInt (VInt 0)" 0 0 demo_sub "''k''" "[]" _ "60 * second" 59 3]
      demo_set demo_ttl by (simp add: second_def)
qed

end
