(* ===== verification/CacheProps.thy ===== *)
theory CacheProps
  imports LFUProps
begin

text \<open>Properties of the default serialisation and of the registry of drivers.\<close>

section \<open>Serialisation\<close>

text \<open>
  C35: what the default functions serialise they read back: for every value that msgpack represents in
  full, other than nil and pointers, unmarshalling the marshalled bytes into a fresh variable of its type gives the
  value; the last byte tells whether the rest was compressed, which happens exactly from 64 bytes on.
\<close>

theorem codec_roundtrip:
  assumes "codec_laws cd V" "v \<in> V" "storable v" "zero_receiver v r" "DefaultMarshalFunc cd v = Ret b"
  shows "DefaultUnmarshalFunc cd b r = Ret (VPtr (type_of v) v)
     \<and> (type_of v \<noteq> TString \<longrightarrow> type_of v \<noteq> TBytes \<longrightarrow>
          (\<exists>p. msgpack_Marshal cd v = Ret p \<and> b \<noteq> [] \<and>
             last b = (if length p < 64 then noCompression else s2Compression)))"
proof
  show "DefaultUnmarshalFunc cd b r = Ret (VPtr (type_of v) v)" by (rule default_roundtrip [OF assms])
  show "type_of v \<noteq> TString \<longrightarrow> type_of v \<noteq> TBytes \<longrightarrow>
          (\<exists>p. msgpack_Marshal cd v = Ret p \<and> b \<noteq> [] \<and>
             last b = (if length p < 64 then noCompression else s2Compression))"
    using assms(3,5)
    by (cases v) (auto simp: DefaultMarshalFunc_def storable_def go_simps compress_def compressionThreshold_def)
qed

theorem codec_roundtrip_witness:
  "DefaultUnmarshalFunc demo_codec (Itoa 42 @ [noCompression]) (VPtr TInt (VInt 0)) = Ret (VPtr TInt (VInt 42))"
proof -
  have "length (Itoa 42) < 64" by (simp add: Itoa_def nat_digits.simps)
  then have "DefaultMarshalFunc demo_codec (VInt 42) = Ret (Itoa 42 @ [noCompression])"
    by (simp add: DefaultMarshalFunc_def demo_codec_def compress_def compressionThreshold_def)
  from codec_roundtrip [OF demo_codec_laws _ _ _ this, of "VPtr TInt (VInt 0)"] show ?thesis
    by (simp add: storable_def zero_receiver_def)
qed

section \<open>The registry\<close>

text \<open>The drivers' names are distinct and non-empty.\<close>

definition registry_ok :: "'c manager \<Rightarrow> bool" where
  "registry_ok m \<longleftrightarrow> distinct (map fst (drivers m)) \<and> [] \<notin> fst ` set (drivers m)"

lemma registry_ok_new: "registry_ok newManager"
  by (simp add: registry_ok_def newManager_def)

lemma RegisterCache_new_name:
  assumes "name \<noteq> []" "map_of (drivers m) name = None"
  shows "\<exists>m'. RegisterCache name c m = (m', Ret ()) \<and> drivers m' = drivers m @ [(name, c)]
     \<and> defaultDriver m' = (if drivers m = [] then Some c else defaultDriver m)"
proof -
  have "AList.update name c xs = xs @ [(name, c)]" if "map_of xs name = None" for xs :: "(string \<times> 'a) list"
    using that by (induction xs) (auto split: if_splits)
  with assms show ?thesis by (simp add: RegisterCache_def SetDefault_def Let_def)
qed

lemma RegisterCache_ok: "registry_ok m \<Longrightarrow> registry_ok (fst (RegisterCache name c m))"
proof (cases "name \<noteq> [] \<and> map_of (drivers m) name = None")
  case True
  assume ok: "registry_ok m"
  from RegisterCache_new_name [of name m c] True obtain m' where
    "RegisterCache name c m = (m', Ret ())" "drivers m' = drivers m @ [(name, c)]" by auto
  moreover have "name \<notin> fst ` set (drivers m)" using True by (auto simp: map_of_eq_None_iff)
  ultimately show ?thesis using ok True by (auto simp: registry_ok_def)
qed (auto simp: RegisterCache_def)

definition register_all :: "(string \<times> 'c) list \<Rightarrow> 'c manager \<Rightarrow> 'c manager" where
  "register_all = fold (\<lambda>(n, c) m. fst (RegisterCache n c m))"

lemma register_all_default:
  "drivers m \<noteq> [] \<Longrightarrow> defaultDriver (register_all rs m) = defaultDriver m"
proof (induction rs arbitrary: m)
  case (Cons nc rs)
  obtain n c where nc: "nc = (n, c)" by fastforce
  have "drivers (fst (RegisterCache n c m)) \<noteq> [] \<and> defaultDriver (fst (RegisterCache n c m)) = defaultDriver m"
    using RegisterCache_new_name [of n m c] Cons.prems
    by (cases "n \<noteq> [] \<and> map_of (drivers m) n = None") (auto simp: RegisterCache_def)
  then show ?case using Cons.IH by (simp add: register_all_def nc)
qed (simp add: register_all_def)

text \<open>
  registrations in any number keep names distinct and non-empty, never replace a driver, and the
  default driver is the first one registered: a lookup of the first driver's name finds it whatever was registered
  later, under the same name or others.
\<close>

theorem first_driver_is_default:
  assumes "name \<noteq> []"
  shows "defaultDriver (register_all ((name, c) # rs) newManager) = Some c
     \<and> GetCache name (register_all ((name, c) # rs) newManager) = Ret c
     \<and> registry_ok (register_all ((name, c) # rs) newManager)"
proof -
  let ?m = "\<lparr>drivers = [(name, c)], defaultDriver = Some c\<rparr>"
  have r: "RegisterCache name c newManager = (?m, Ret ())"
    using assms by (simp add: RegisterCache_def SetDefault_def newManager_def Let_def)
  have keep: "map_of (drivers m) name = Some c \<Longrightarrow> map_of (drivers (register_all rs m)) name = Some c" for m
  proof (induction rs arbitrary: m)
    case (Cons nc rs)
    obtain n c' where nc: "nc = (n, c')" by fastforce
    have "map_of (drivers (fst (RegisterCache n c' m))) name = Some c"
      using Cons.prems RegisterCache_new_name [of n m c'] by (cases "n \<noteq> [] \<and> map_of (drivers m) n = None")
        (auto simp: RegisterCache_def map_add_def)
    then show ?case using Cons.IH by (simp add: register_all_def nc)
  qed (simp add: register_all_def)
  have ok: "registry_ok m \<Longrightarrow> registry_ok (register_all rs m)" for m
    by (induction rs arbitrary: m) (auto simp: register_all_def intro: RegisterCache_ok)
  have "registry_ok ?m" using assms by (simp add: registry_ok_def)
  then show ?thesis
    using register_all_default [of ?m rs] keep [of ?m] ok [of ?m] r by (simp add: register_all_def GetCache_def)
qed

theorem first_driver_is_default_witness:
  "defaultDriver (register_all [(''a'', 1 :: nat), (''b'', 2), (''a'', 3)] newManager) = Some 1"
  using first_driver_is_default [of "''a''" "1 :: nat" "[(''b'', 2), (''a'', 3)]"] by simp

text \<open>
  removing a driver does not remove it as the default: after registering one driver and
  unregistering it, its name is unknown but the package functions still reach it; choosing an unknown
  name as the default reports success, and the next package-level call panics.
\<close>

theorem default_outlives_registration:
  assumes "name \<noteq> []"
  shows "let m = UnRegisterCache name (fst (RegisterCache name c newManager)) in
     (\<exists>e. GetCache name m = Fail e) \<and> call_default f m = f c
     \<and> snd (SetDefault name m) = Ret ()
     \<and> call_default f (fst (SetDefault name m)) = Panic ''invalid memory address or nil pointer dereference''"
  using assms
  by (simp add: RegisterCache_def SetDefault_def newManager_def UnRegisterCache_def GetCache_def call_default_def Let_def)

theorem default_outlives_registration_witness:
  "call_default Ret (UnRegisterCache ''redis'' (fst (RegisterCache ''redis'' (7 :: nat) newManager))) = Ret 7"
  using default_outlives_registration [of "''redis''" "7 :: nat" Ret] by (simp add: Let_def)

end
