(* ===== verification/Redisc.thy ===== *)
theory Redisc
  imports LFU
begin

text \<open>
  Model of \<open>pkg/cache/redisc/redis.go\<close>: the cache on a redis server with an optional in-process level
  in front.  The redis client is a record of functions on the server's state.  The single-flight
  group runs its function once for the caller; callers that share a flight get the same result.
  Every call returns the new state, and the receiver's new content is the value that it returns.
\<close>

record 'r redis_cmds =
  redis_Get :: "'r \<Rightarrow> string \<Rightarrow> string outcome"
  redis_Set :: "'r \<Rightarrow> string \<Rightarrow> string \<Rightarrow> int \<Rightarrow> 'r \<times> unit outcome"
  redis_SetNX :: "'r \<Rightarrow> string \<Rightarrow> string \<Rightarrow> int \<Rightarrow> 'r \<times> bool outcome"
  redis_SetXX :: "'r \<Rightarrow> string \<Rightarrow> string \<Rightarrow> int \<Rightarrow> 'r \<times> bool outcome"
  redis_Exists :: "'r \<Rightarrow> string \<Rightarrow> int"
  redis_Del :: "'r \<Rightarrow> string \<Rightarrow> 'r \<times> int outcome"

definition redis_Nil :: go_error where "redis_Nil = Sentinel ''redis: nil''"

record ('r, 's) Redisc =
  redis :: 'r
  local :: "'s TinyLFU option"
  stats :: "Stats option"

text \<open>The environment of a call: the two levels' libraries, the clock and the draw of the generator.\<close>

record ('r, 's, 'o) renv =
  cmds :: "'r redis_cmds"
  lenv :: "('s, 'o) env"
  now :: int
  rnd :: int

section \<open>Construction\<close>

record RConfig =
  rDriverName :: string
  UseStats :: bool

definition RApply ::
  "('s, 'o) env \<Rightarrow> (RConfig \<Rightarrow> RConfig outcome) \<Rightarrow> (Config \<Rightarrow> Config outcome) option \<Rightarrow> 'r outcome \<Rightarrow>
   'c \<Rightarrow> 'c \<Rightarrow> 'r option \<Rightarrow> 'c manager \<Rightarrow> 'c manager \<times> ('r, 's) Redisc outcome" where
  "RApply e unmarshal localConf newClient lself self client m =
     (case unmarshal \<lparr>rDriverName = [], UseStats = False\<rparr> of
        Fail err \<Rightarrow> (m, Fail err) | Panic p \<Rightarrow> (m, Panic p)
      | Ret cfg \<Rightarrow>
          (let stats0 = (if UseStats cfg then Some \<lparr>Hits = 0, Misses = 0\<rparr> else None);
               (m, l) = (case localConf of
                    None \<Rightarrow> (m, Ret None)
                  | Some lu \<Rightarrow>
                      (case NewTinyLFU e (\<lambda>c. go_bind (lu c) (\<lambda>c. Ret (c\<lparr>Subsidiary := True\<rparr>))) lself m of
                         (m, r) \<Rightarrow> (m, go_bind r (\<lambda>c. Ret (Some c)))))
           in case l of
                Fail err \<Rightarrow> (m, Fail err) | Panic p \<Rightarrow> (m, Panic p)
              | Ret l \<Rightarrow>
                  (case (case client of Some r \<Rightarrow> Ret r | None \<Rightarrow> newClient) of
                     Fail err \<Rightarrow> (m, Fail err) | Panic p \<Rightarrow> (m, Panic p)
                   | Ret r \<Rightarrow>
                       (let cd = \<lparr>redis = r, local = l, stats = stats0\<rparr> in
                        if rDriverName cfg \<noteq> [] then
                          (case RegisterCache (rDriverName cfg) self m of
                             (m, Ret _) \<Rightarrow> (m, Ret cd) | (m, Fail err) \<Rightarrow> (m, Fail err) | (m, Panic p) \<Rightarrow> (m, Panic p))
                        else (m, Ret cd)))))"

section \<open>Reading\<close>

definition getRemoteData :: "('r, 's, 'o) renv \<Rightarrow> ('r, 's) Redisc \<Rightarrow> string \<Rightarrow> SkipMode \<Rightarrow> ('r, 's) Redisc \<times> string outcome" where
  "getRemoteData e cd key mode =
     (if SkipMode_Is mode SkipRemote then (cd, Fail ErrCacheMiss)
      else case redis_Get (cmds e) (redis cd) key of
        Fail err \<Rightarrow>
          (cd\<lparr>stats := AddMiss (stats cd)\<rparr>, if errors_is err redis_Nil then Fail ErrCacheMiss else Fail err)
      | Ret data \<Rightarrow> (cd\<lparr>stats := AddHit (stats cd)\<rparr>, Ret data)
      | Panic p \<Rightarrow> (cd, Panic p))"

text \<open>The first result says whether the local level takes part.\<close>

definition tryGetLocal ::
  "('r, 's, 'o) renv \<Rightarrow> ('r, 's) Redisc \<Rightarrow> string \<Rightarrow> 'o gval \<Rightarrow> 'o Options \<Rightarrow> ('r, 's) Redisc \<times> bool \<times> 'o gval outcome" where
  "tryGetLocal e cd key value opt =
     (case local cd of
        Some l \<Rightarrow>
          if SkipMode_Is (Skip opt) SkipLocal then (cd, False, Fail ErrCacheMiss)
          else (case GetInner (lenv e) (now e) l key value (Raw opt) of
                  (l, r) \<Rightarrow> (cd\<lparr>local := Some l\<rparr>, True, r))
      | None \<Rightarrow> (cd, False, Fail ErrCacheMiss))"

definition set_local ::
  "('r, 's, 'o) renv \<Rightarrow> ('r, 's) Redisc \<Rightarrow> string \<Rightarrow> 'o gval \<Rightarrow> int \<Rightarrow> 'o Options \<Rightarrow> ('r, 's) Redisc \<times> bool outcome" where
  "set_local e cd key value ttl opt =
     (case local cd of
        None \<Rightarrow> (cd, Panic ''invalid memory address or nil pointer dereference'')
      | Some l \<Rightarrow>
          (case SetInner (lenv e) (now e) (rnd e) l key value ttl opt of
             (l, Ret _) \<Rightarrow> (cd\<lparr>local := Some l\<rparr>, Ret True)
           | (l, Fail _) \<Rightarrow> (cd\<lparr>local := Some l\<rparr>, Ret False)
           | (l, Panic p) \<Rightarrow> (cd\<lparr>local := Some l\<rparr>, Panic p)))"

definition get ::
  "('r, 's, 'o) renv \<Rightarrow> ('r, 's) Redisc \<Rightarrow> string \<Rightarrow> 'o gval \<Rightarrow> 'o Options \<Rightarrow> ('r, 's) Redisc \<times> (bool \<times> 'o gval) outcome" where
  "get e cd key value opt =
     (case tryGetLocal e cd key value opt of
        (cd, loc, Ret v) \<Rightarrow> (cd, Ret (True, v))
      | (cd, loc, Panic p) \<Rightarrow> (cd, Panic p)
      | (cd, loc, Fail _) \<Rightarrow>
          (case getRemoteData e cd key (Skip opt) of
             (cd, Fail err) \<Rightarrow> (cd, Fail err)
           | (cd, Panic p) \<Rightarrow> (cd, Panic p)
           | (cd, Ret b) \<Rightarrow>
               (case DefaultUnmarshalFunc (codecs (lenv e)) b value of
                  Fail err \<Rightarrow> (cd, Fail err)
                | Panic p \<Rightarrow> (cd, Panic p)
                | Ret v \<Rightarrow>
                    if loc then
                      (case set_local e cd key v (TTL opt) opt of (cd, r) \<Rightarrow> (cd, go_bind r (\<lambda>c. Ret (c, v))))
                    else (cd, Ret (False, v)))))"

section \<open>Writing\<close>

definition set_remote ::
  "('r, 's, 'o) renv \<Rightarrow> ('r, 's) Redisc \<Rightarrow> string \<Rightarrow> string \<Rightarrow> int \<Rightarrow> 'o Options \<Rightarrow> ('r, 's) Redisc \<times> unit outcome" where
  "set_remote e cd key marshaled ttl opt =
     (let check = (\<lambda>(r, res) msg. (cd\<lparr>redis := r\<rparr>, go_bind res (\<lambda>ok. if ok then Ret () else Fail (Errorf (msg @ key))))) in
      if SetXX opt then check (redis_SetXX (cmds e) (redis cd) key marshaled ttl) ''setxx: key not exist:''
      else if SetNX opt then check (redis_SetNX (cmds e) (redis cd) key marshaled ttl) ''setnx key already exist:''
      else (case redis_Set (cmds e) (redis cd) key marshaled ttl of (r, res) \<Rightarrow> (cd\<lparr>redis := r\<rparr>, res)))"

text \<open>\<open>set\<close> returns the marshalled bytes and whether the local level has the value.\<close>

definition set_redis ::
  "('r, 's, 'o) renv \<Rightarrow> ('r, 's) Redisc \<Rightarrow> string \<Rightarrow> 'o gval \<Rightarrow> 'o Options \<Rightarrow> ('r, 's) Redisc \<times> (string \<times> bool) outcome" where
  "set_redis e cd key v opt =
     (let ttl = Expiration opt;
          remote = \<not> SkipMode_Is (Skip opt) SkipRemote;
          m = (if remote \<or> \<not> Raw opt then DefaultMarshalFunc (codecs (lenv e)) v else Ret [])
      in case m of
           Fail err \<Rightarrow> (cd, Fail err)
         | Panic p \<Rightarrow> (cd, Panic p)
         | Ret marshaled \<Rightarrow>
             (case (if remote then set_remote e cd key marshaled ttl opt else (cd, Ret ())) of
                (cd, Fail err) \<Rightarrow> (cd, Fail err)
              | (cd, Panic p) \<Rightarrow> (cd, Panic p)
              | (cd, Ret _) \<Rightarrow>
                  if local cd \<noteq> None \<and> \<not> SkipMode_Is (Skip opt) SkipLocal then
                    (case set_local e cd key (if Raw opt then v else VBytes marshaled) ttl opt of
                       (cd, r) \<Rightarrow> (cd, go_bind r (\<lambda>cached. Ret (marshaled, cached))))
                  else (cd, Ret (marshaled, False))))"

definition Set_redis ::
  "('r, 's, 'o) renv \<Rightarrow> ('r, 's) Redisc \<Rightarrow> string \<Rightarrow> 'o gval \<Rightarrow> 'o Option list \<Rightarrow> ('r, 's) Redisc \<times> unit outcome" where
  "Set_redis e cd key v opts =
     (case set_redis e cd key v (ApplyOptions opts) of (cd, r) \<Rightarrow> (cd, go_bind r (\<lambda>_. Ret ())))"

section \<open>Reading through\<close>

definition getSetItemGroup ::
  "('r, 's, 'o) renv \<Rightarrow> ('r, 's) Redisc \<Rightarrow> string \<Rightarrow> 'o gval \<Rightarrow> 'o Options \<Rightarrow>
   ('r, 's) Redisc \<times> (string \<times> bool \<times> 'o gval) outcome" where
  "getSetItemGroup e cd key value opt =
     (case tryGetLocal e cd key value opt of
        (cd, _, Ret v) \<Rightarrow> (cd, Ret ([], True, v))
      | (cd, _, Panic p) \<Rightarrow> (cd, Panic p)
      | (cd, _, Fail _) \<Rightarrow>
          (case getRemoteData e cd key (Skip opt) of
             (cd, Ret data) \<Rightarrow> (cd, Ret (data, False, value))
           | (cd, Panic p) \<Rightarrow> (cd, Panic p)
           | (cd, Fail err) \<Rightarrow>
               if errors_is err ErrCacheMiss then
                 (case Getter opt of
                    None \<Rightarrow> (cd, Fail err)
                  | Some g \<Rightarrow>
                      (case g key of
                         Fail err \<Rightarrow> (cd, Fail err)
                       | Panic p \<Rightarrow> (cd, Panic p)
                       | Ret gv \<Rightarrow>
                           (case set_redis e cd key gv opt of
                              (cd, r) \<Rightarrow> (cd, go_bind r (\<lambda>(data, cached). Ret (data, cached, value))))))
               else (cd, Fail err)))"

definition Group_redis ::
  "('r, 's, 'o) renv \<Rightarrow> ('r, 's) Redisc \<Rightarrow> string \<Rightarrow> 'o gval \<Rightarrow> 'o Options \<Rightarrow> ('r, 's) Redisc \<times> 'o gval outcome" where
  "Group_redis e cd key value opt =
     (case getSetItemGroup e cd key value opt of
        (cd, Fail err) \<Rightarrow> (cd, Fail err)
      | (cd, Panic p) \<Rightarrow> (cd, Panic p)
      | (cd, Ret (marshal, cached, v)) \<Rightarrow>
          if marshal \<noteq> [] then
            (case DefaultUnmarshalFunc (codecs (lenv e)) marshal v of
               Fail err \<Rightarrow>
                 (if cached then cd\<lparr>local := map_option (\<lambda>l. fst (Del_lfu (lenv e) l key)) (local cd)\<rparr> else cd, Fail err)
             | r \<Rightarrow> (cd, r))
          else (cd, Ret v))"

definition Get_redis ::
  "('r, 's, 'o) renv \<Rightarrow> ('r, 's) Redisc \<Rightarrow> string \<Rightarrow> 'o gval \<Rightarrow> 'o Option list \<Rightarrow> ('r, 's) Redisc \<times> 'o gval outcome" where
  "Get_redis e cd key v opts =
     (let opt = ApplyOptions opts in
      if Group opt \<or> Getter opt \<noteq> None then Group_redis e cd key v opt
      else case get e cd key v opt of (cd, r) \<Rightarrow> (cd, go_bind r (\<lambda>(_, v). Ret v)))"

section \<open>The other operations\<close>

definition DeleteFromLocalCache :: "('r, 's, 'o) renv \<Rightarrow> ('r, 's) Redisc \<Rightarrow> string \<Rightarrow> ('r, 's) Redisc" where
  "DeleteFromLocalCache e cd key =
     (case local cd of None \<Rightarrow> cd | Some l \<Rightarrow> cd\<lparr>local := Some (fst (Del_lfu (lenv e) l key))\<rparr>)"

definition Del_redis :: "('r, 's, 'o) renv \<Rightarrow> ('r, 's) Redisc \<Rightarrow> string \<Rightarrow> ('r, 's) Redisc \<times> unit outcome" where
  "Del_redis e cd key =
     (let cd = DeleteFromLocalCache e cd key in
      case redis_Del (cmds e) (redis cd) key of (r, res) \<Rightarrow> (cd\<lparr>redis := r\<rparr>, go_bind res (\<lambda>_. Ret ())))"

definition Has_redis :: "('r, 's, 'o) renv \<Rightarrow> ('r, 's) Redisc \<Rightarrow> string \<Rightarrow> ('r, 's) Redisc \<times> bool" where
  "Has_redis e cd key =
     (case local cd of
        None \<Rightarrow> (cd, redis_Exists (cmds e) (redis cd) key \<noteq> 0)
      | Some l \<Rightarrow>
          (case Has_lfu (lenv e) (now e) l key of
             (l, b) \<Rightarrow> (cd\<lparr>local := Some l\<rparr>, b \<or> redis_Exists (cmds e) (redis cd) key \<noteq> 0)))"

definition CleanLocalCache :: "('r, 's, 'o) renv \<Rightarrow> ('r, 's) Redisc \<Rightarrow> ('r, 's) Redisc" where
  "CleanLocalCache e cd = (case local cd of None \<Rightarrow> cd | Some l \<Rightarrow> cd\<lparr>local := Some (Clean (lenv e) l)\<rparr>)"

definition LocalCacheEnabled :: "('r, 's) Redisc \<Rightarrow> bool" where
  "LocalCacheEnabled cd \<longleftrightarrow> local cd \<noteq> None"

end
