(* ===== verification/RediscProps.thy ===== *)
theory RediscProps
  imports Redisc LFUProps
begin

text \<open>
  Properties of the two-level cache: a value that was set is read back through either level,
  deletion reaches both, conditional writes, and two behaviours that differ from the comments.
\<close>

section \<open>Laws of the server\<close>

text \<open>
  What the redis commands promise when they return no error: a key holds what was set last, is absent
  after a deletion, the conditional writes report whether they wrote, and no command touches another key.
\<close>

definition absent :: "'r redis_cmds \<Rightarrow> 'r \<Rightarrow> string \<Rightarrow> bool" where
  "absent rc r k \<longleftrightarrow> redis_Get rc r k = Fail redis_Nil"

definition redis_laws :: "'r redis_cmds \<Rightarrow> bool" where
  "redis_laws rc \<longleftrightarrow>
     (\<forall>r k v t r'. redis_Set rc r k v t = (r', Ret ()) \<longrightarrow> redis_Get rc r' k = Ret v)
     \<and> (\<forall>r k v t r' ok. redis_SetNX rc r k v t = (r', Ret ok) \<longrightarrow>
          ok = absent rc r k \<and> (if ok then redis_Get rc r' k = Ret v else r' = r))
     \<and> (\<forall>r k v t r' ok. redis_SetXX rc r k v t = (r', Ret ok) \<longrightarrow>
          ok = (\<not> absent rc r k) \<and> (if ok then redis_Get rc r' k = Ret v else r' = r))
     \<and> (\<forall>r k r' n. redis_Del rc r k = (r', Ret n) \<longrightarrow> absent rc r' k)
     \<and> (\<forall>r k. absent rc r k \<longrightarrow> redis_Exists rc r k = 0)"

lemma redis_laws_D:
  assumes "redis_laws rc"
  shows "redis_Set rc r k v t = (r', Ret ()) \<Longrightarrow> redis_Get rc r' k = Ret v"
    and "redis_SetNX rc r k v t = (r', Ret ok) \<Longrightarrow> ok = absent rc r k \<and> (if ok then redis_Get rc r' k = Ret v else r' = r)"
    and "redis_SetXX rc r k v t = (r', Ret ok) \<Longrightarrow> ok = (\<not> absent rc r k) \<and> (if ok then redis_Get rc r' k = Ret v else r' = r)"
    and "redis_Del rc r k = (r', Ret n) \<Longrightarrow> absent rc r' k"
    and "absent rc r k \<Longrightarrow> redis_Exists rc r k = 0"
  using assms unfolding redis_laws_def by metis+

text \<open>A server that keeps an association list, for the concrete instances.\<close>

definition demo_redis :: "(string \<times> string) list redis_cmds" where
  "demo_redis =
     \<lparr>redis_Get = (\<lambda>r k. case map_of r k of Some v \<Rightarrow> Ret v | None \<Rightarrow> Fail redis_Nil),
      redis_Set = (\<lambda>r k v t. (AList.update k v r, Ret ())),
      redis_SetNX = (\<lambda>r k v t. if map_of r k = None then (AList.update k v r, Ret True) else (r, Ret False)),
      redis_SetXX = (\<lambda>r k v t. if map_of r k \<noteq> None then (AList.update k v r, Ret True) else (r, Ret False)),
      redis_Exists = (\<lambda>r k. if map_of r k = None then 0 else 1),
      redis_Del = (\<lambda>r k. (AList.delete k r, Ret 1))\<rparr>"

lemma demo_redis_laws: "redis_laws demo_redis"
  by (auto simp: redis_laws_def absent_def demo_redis_def update_conv' AList.delete_conv' split: option.splits if_splits)

section \<open>The local level\<close>

text \<open>A local level whose expiry arithmetic cannot panic on the times that \<open>Redisc\<close> asks for.\<close>

definition local_ok :: "('r, 's) Redisc \<Rightarrow> bool" where
  "local_ok cd \<longleftrightarrow> (\<forall>l. local cd = Some l \<longrightarrow>
     cache_ok l \<and> Deviation (config l) \<le> cfg_TTL (config l) \<and> Deviation (config l) \<le> second)"

lemma Expiration_cases: "Expiration opt = 0 \<or> second \<le> Expiration opt"
  by (auto simp: Expiration_def defaultItemTTL_def second_def)

lemma set_local_stored:
  assumes "tinylfu_laws (lib (lenv e))" "local_ok cd" "local cd = Some l" "ttl = 0 \<or> second \<le> ttl" "ttl \<le> 2 ^ 62"
    and "stored_form (lenv e) (Raw opt) v = Some x"
  shows "\<exists>l'. set_local e cd k v ttl opt = (cd\<lparr>local := Some l'\<rparr>, Ret True) \<and> found (lenv e) (now e) l' k = Some x"
proof -
  have l: "cache_ok l" "Deviation (config l) \<le> cfg_TTL (config l)" "Deviation (config l) \<le> second"
    using assms(2,3) by (auto simp: local_ok_def)
  then have d: "ttl \<le> 0 \<or> Deviation (config l) \<le> ttl" using assms(4) by auto
  from fixTTL_range [OF l(1) assms(5) d l(2), of "rnd e" opt] obtain t where t: "fixTTL l (rnd e) ttl opt = Ret t"
    "effective_ttl l opt ttl \<le> t" by auto
  have "0 < effective_ttl l opt ttl" using l(1) by (auto simp: effective_ttl_def cache_ok_def Let_def)
  with t(2) have "0 < t" by simp
  obtain l' r where s: "setValue (lenv e) (now e) l k v t (Raw opt) = (l', r)" by fastforce
  have "r = Ret ()" using s assms(6)
    by (auto simp: setValue_def stored_form_def Let_def split: if_splits outcome.splits)
  with setValue_spec [OF assms(1) s] assms(6) \<open>0 < t\<close> have "found (lenv e) (now e) l' k = Some x" by auto
  moreover have "set_local e cd k v ttl opt = (cd\<lparr>local := Some l'\<rparr>, Ret True)"
    using s \<open>r = Ret ()\<close> assms(3) t(1) by (simp add: set_local_def SetInner_def)
  ultimately show ?thesis by blast
qed

section \<open>Set and get\<close>

lemma set_remote_stored:
  assumes "redis_laws (cmds e)" "set_remote e cd k b ttl opt = (cd', Ret ())"
  shows "\<exists>r'. cd' = cd\<lparr>redis := r'\<rparr> \<and> redis_Get (cmds e) r' k = Ret b"
  using assms redis_laws_D [OF assms(1)]
  by (auto simp: set_remote_def Let_def go_simps split: if_splits prod.splits)

text \<open>Reading with no options, for a state that has the bytes at the server and the local level.\<close>

lemma Get_redis_plain: "Get_redis e cd k r [] = (case get e cd k r (ApplyOptions []) of (cd, x) \<Rightarrow> (cd, go_bind x (\<lambda>(_, v). Ret v)))"
  by (simp add: Get_redis_def no_options Let_def)

lemma get_local_hit:
  assumes "local cd = Some l" "snd (GetInner (lenv e) (now e) l k r False) = Ret v"
  shows "snd (Get_redis e cd k r []) = Ret v"
  using assms
  by (cases "GetInner (lenv e) (now e) l k r False")
     (simp add: Get_redis_plain get_def tryGetLocal_def no_options skip_modes)

lemma get_remote_hit:
  assumes "local cd = None" "redis_Get (cmds e) (redis cd) k = Ret b" "DefaultUnmarshalFunc (codecs (lenv e)) b r = Ret v"
  shows "snd (Get_redis e cd k r []) = Ret v"
  using assms by (simp add: Get_redis_plain get_def tryGetLocal_def getRemoteData_def no_options skip_modes)

text \<open>
  C3: with redis and the local table keeping their promises, a value that \<open>Set\<close> stored without error and without
  skipping a level is what the next \<open>Get\<close> returns, whether the local level is configured or not, for an
  unconditional set as for \<open>SetNX\<close> and \<open>SetXX\<close>.
\<close>

theorem redis_set_get:
  assumes "tinylfu_laws (lib (lenv e))" "codec_laws (codecs (lenv e)) V" "redis_laws (cmds e)" "local_ok cd"
    and "v \<in> V" "storable v" "zero_receiver v r"
    and "Set_redis e cd k v opts = (cd', Ret ())" "Skip (ApplyOptions opts) = 0" "\<not> Raw (ApplyOptions opts)"
    and "TTL (ApplyOptions opts) \<le> 2 ^ 62"
  shows "snd (Get_redis e cd' k r []) = Ret (VPtr (type_of v) v)"
proof -
  let ?o = "ApplyOptions opts" and ?t = "Expiration (ApplyOptions opts)"
  from assms(8-10) obtain b cd1 where b: "DefaultMarshalFunc (codecs (lenv e)) v = Ret b"
    and r1: "set_remote e cd k b ?t ?o = (cd1, Ret ())"
    by (auto simp: Set_redis_def set_redis_def Let_def go_simps skip_modes split: outcome.splits prod.splits)
  from set_remote_stored [OF assms(3) r1] obtain r' where cd1: "cd1 = cd\<lparr>redis := r'\<rparr>" "redis_Get (cmds e) r' k = Ret b"
    by blast
  have rt: "DefaultUnmarshalFunc (codecs (lenv e)) b r = Ret (VPtr (type_of v) v)"
    by (rule default_roundtrip [OF assms(2,5-7) b])
  show ?thesis
  proof (cases "local cd")
    case None
    with assms(8-10) b r1 cd1 have "cd' = cd1" by (simp add: Set_redis_def set_redis_def Let_def skip_modes)
    then show ?thesis using get_remote_hit [of cd' e k b r] None cd1 rt by simp
  next
    case (Some l)
    have sf: "stored_form (lenv e) (Raw ?o) (VBytes b) = Some (VBytes b)"
      using assms(10) by (simp add: stored_form_def DefaultMarshalFunc_def)
    have "?t \<le> 2 ^ 62" using assms(11) by (simp add: Expiration_def defaultItemTTL_def second_def)
    from set_local_stored [OF assms(1) _ _ Expiration_cases this sf, of cd1 l k] assms(4) cd1 Some
    obtain l' where l': "set_local e cd1 k (VBytes b) ?t ?o = (cd1\<lparr>local := Some l'\<rparr>, Ret True)"
      "found (lenv e) (now e) l' k = Some (VBytes b)" by (auto simp: local_ok_def)
    with assms(8-10) b r1 cd1 Some have "cd' = cd1\<lparr>local := Some l'\<rparr>"
      by (simp add: Set_redis_def set_redis_def Let_def skip_modes)
    moreover have "stored_form (lenv e) False v = Some (VBytes b)" using b by (simp add: stored_form_def)
    ultimately show ?thesis
      using get_local_hit [of cd' l' e k r] GetInner_stored [OF assms(1,2,5-7) _ l'(2)] by simp
  qed
qed

definition demo_renv :: "((string \<times> string) list, unit demo_state, unit) renv" where
  "demo_renv = \<lparr>cmds = demo_redis, lenv = demo_env, now = 0, rnd = 0\<rparr>"

definition demo_redisc :: "((string \<times> string) list, unit demo_state) Redisc" where
  "demo_redisc = \<lparr>redis = [], local = Some demo_sub, stats = None\<rparr>"

lemma demo_renv_laws:
  "tinylfu_laws (lib (lenv demo_renv))" "codec_laws (codecs (lenv demo_renv)) demo_values" "redis_laws (cmds demo_renv)"
  "local_ok demo_redisc"
  using demo_env_laws demo_redis_laws
  by (simp_all add: demo_renv_def local_ok_def demo_redisc_def demo_sub_def cache_ok_def default_config_def defaultTTL_def
      second_def maxOffset_def go_arith)

lemma demo_redis_set: "Set_redis demo_renv demo_redisc ''k'' (VString ''hello'') [WithTTL second] =
   (fst (Set_redis demo_renv demo_redisc ''k'' (VString ''hello'') [WithTTL second]), Ret ())"
proof -
  let ?o = "ApplyOptions [WithTTL second] :: unit Options"
  have o: "\<not> SetXX ?o" "\<not> SetNX ?o" "\<not> Raw ?o" "Skip ?o = 0" "TTL ?o = second" by (simp_all add: options_simps)
  have "stored_form (lenv demo_renv) (Raw ?o) (VBytes ''hello'') = Some (VBytes ''hello'')"
    by (simp add: stored_form_def DefaultMarshalFunc_def o)
  moreover have "Expiration ?o = second" by (simp add: Expiration_def o)
  moreover have "second \<le> 2 ^ 62" by (simp add: second_def)
  ultimately show ?thesis
    using set_local_stored [OF demo_renv_laws(1), of "demo_redisc\<lparr>redis := [(''k'', ''hello'')]\<rparr>" demo_sub second ?o
        "VBytes ''hello''" "VBytes ''hello''" "''k''"] demo_renv_laws(4)
    by (auto simp: Set_redis_def set_redis_def set_remote_def Let_def o skip_modes DefaultMarshalFunc_def demo_renv_def
        demo_redis_def demo_redisc_def local_ok_def)
qed

theorem redis_set_get_witness:
  "snd (Get_redis demo_renv (fst (Set_redis demo_renv demo_redisc ''k'' (VString ''hello'') [WithTTL second])) ''k''
     (VPtr TString (VString [])) []) = Ret (VPtr TString (VString ''hello''))"
proof -
  have "VString ''hello'' \<in> demo_values" by (simp add: demo_values_def)
  moreover have "storable (VString ''hello'' :: unit gval)"
    "zero_receiver (VString ''hello'') (VPtr TString (VString []) :: unit gval)"
    by (simp_all add: storable_def zero_receiver_def)
  moreover have "Skip (ApplyOptions [WithTTL second] :: unit Options) = 0" "\<not> Raw (ApplyOptions [WithTTL second] :: unit Options)"
    "TTL (ApplyOptions [WithTTL second] :: unit Options) \<le> 2 ^ 62"
    by (simp_all add: options_simps second_def)
  ultimately show ?thesis using redis_set_get [OF demo_renv_laws _ _ _ demo_redis_set] by simp
qed

section \<open>Deletion\<close>

text \<open>
  a deletion without error reaches both levels: the next \<open>Get\<close> is a miss and \<open>Has\<close> is false.
\<close>

theorem redis_del_removes:
  assumes "tinylfu_laws (lib (lenv e))" "redis_laws (cmds e)" "Del_redis e cd k = (cd', Ret ())" "r \<noteq> VNil"
  shows "snd (Get_redis e cd' k r []) = Fail ErrCacheMiss \<and> \<not> snd (Has_redis e cd' k)"
proof -
  obtain rr n where r: "redis_Del (cmds e) (redis cd) k = (rr, Ret n)" "redis cd' = rr"
    and l: "local cd' = map_option (\<lambda>l. fst (Del_lfu (lenv e) l k)) (local cd)"
    using assms(3) by (auto simp: Del_redis_def DeleteFromLocalCache_def Let_def go_simps split: prod.splits option.splits)
  have a: "redis_Get (cmds e) (redis cd') k = Fail redis_Nil" "redis_Exists (cmds e) (redis cd') k = 0"
    using redis_laws_D(4,5) [OF assms(2)] r by (auto simp: absent_def)
  show ?thesis
  proof (cases "local cd'")
    case None
    with a show ?thesis
      by (simp add: Get_redis_plain get_def tryGetLocal_def getRemoteData_def no_options skip_modes Has_redis_def)
  next
    case (Some l')
    then obtain l0 where "l' = fst (Del_lfu (lenv e) l0 k)" using l by auto
    then have f: "found (lenv e) (now e) l' k = None"
      using peek_Del [OF assms(1)] by (simp add: Del_lfu_def found_def)
    obtain l1 x where g: "GetInner (lenv e) (now e) l' k r False = (l1, x)" by fastforce
    obtain y l2 where h: "lfu_get (lenv e) (now e) l' k = (y, l2)" by fastforce
    have "x = Fail ErrCacheMiss" using GetInner_spec(2) [OF assms(1) g] f assms(4) by simp
    moreover have "y = None" using lfu_get_spec(1) [OF assms(1) h] f by simp
    ultimately show ?thesis using Some a g h
      by (simp add: Get_redis_plain get_def tryGetLocal_def getRemoteData_def no_options skip_modes Has_redis_def Has_lfu_def)
  qed
qed

theorem redis_del_removes_witness:
  "snd (Get_redis demo_renv (fst (Del_redis demo_renv demo_redisc ''k'')) ''k'' (VPtr TInt (VInt 0)) []) = Fail ErrCacheMiss"
  using redis_del_removes [OF demo_renv_laws(1,3), of demo_redisc "''k''" _ "VPtr TInt (VInt 0)"]
  by (simp add: Del_redis_def DeleteFromLocalCache_def demo_renv_def demo_redisc_def demo_redis_def)

section \<open>Reading a string through the local level\<close>

lemma local_ok_kept: "local_ok cd \<Longrightarrow> local cd = Some l \<Longrightarrow> config l' = config l \<Longrightarrow> offset l' = offset l \<Longrightarrow>
   local_ok (cd\<lparr>local := Some l', stats := st\<rparr>)"
  by (auto simp: local_ok_def cache_ok_def)

lemma get_fills_local:
  fixes e :: "('r, 's, 'o) renv"
  assumes "tinylfu_laws (lib (lenv e))" "local_ok cd" "local cd = Some l" "found (lenv e) (now e) l k = None" "r \<noteq> VNil"
    and "redis_Get (cmds e) (redis cd) k = Ret b" "DefaultUnmarshalFunc (codecs (lenv e)) b r = Ret v"
    and "stored_form (lenv e) False v = Some x"
  shows "\<exists>cd' l'. Get_redis e cd k r [] = (cd', Ret v) \<and> local cd' = Some l' \<and> found (lenv e) (now e) l' k = Some x"
proof -
  obtain l1 y where g: "GetInner (lenv e) (now e) l k r False = (l1, y)" by fastforce
  have y: "y = Fail ErrCacheMiss" using GetInner_spec(2) [OF assms(1) g] assms(4,5) by simp
  have l1: "config l1 = config l" "offset l1 = offset l"
    using g by (auto simp: GetInner_def lfu_get_def split: if_splits prod.splits option.splits)
  let ?cd = "cd\<lparr>local := Some l1, stats := AddHit (stats cd)\<rparr>" and ?o = "ApplyOptions [] :: 'o Options"
  have "stored_form (lenv e) (Raw ?o) v = Some x" using assms(8) by (simp add: no_options)
  moreover have "local_ok ?cd" by (rule local_ok_kept [OF assms(2,3) l1])
  ultimately obtain l' where l': "set_local e ?cd k v 0 ?o = (?cd\<lparr>local := Some l'\<rparr>, Ret True)" "found (lenv e) (now e) l' k = Some x"
    using set_local_stored [OF assms(1), of ?cd l1 0 ?o v x k] by auto
  then show ?thesis using assms(3,6,7) g y
    by (simp add: Get_redis_plain get_def tryGetLocal_def getRemoteData_def no_options skip_modes)
qed

text \<open>
  reading a string through the two-level cache corrupts it at the local level.  When the server
  has the string \<open>s\<close> and the local level does not, the first \<open>Get\<close> into a \<open>*string\<close> returns \<open>s\<close>, but the local
  level then stores the serialised pointer, and the second \<open>Get\<close> returns those bytes: the msgpack text \<open>b\<close> of the
  pointer with the compression tag, which is not \<open>s\<close> when \<open>b\<close> is short and at least as long as \<open>s\<close>.
\<close>

theorem string_read_through_corrupts:
  assumes "tinylfu_laws (lib (lenv e))" "local_ok cd" "local cd = Some l" "found (lenv e) (now e) l k = None"
    and "redis_Get (cmds e) (redis cd) k = Ret s" "s \<noteq> []"
    and "msgpack_Marshal (codecs (lenv e)) (VPtr TString (VString s)) = Ret b"
    and "length s \<le> length b" "length b < compressionThreshold"
  shows "\<exists>cd'. Get_redis e cd k (VPtr TString (VString [])) [] = (cd', Ret (VPtr TString (VString s)))
     \<and> snd (Get_redis e cd' k (VPtr TString (VString [])) []) = Ret (VPtr TString (VString (b @ [noCompression])))
     \<and> b @ [noCompression] \<noteq> s"
proof -
  let ?r = "VPtr TString (VString [])"
  have u: "DefaultUnmarshalFunc (codecs (lenv e)) s ?r = Ret (VPtr TString (VString s))"
    using assms(6) by (simp add: DefaultUnmarshalFunc_def)
  have x: "stored_form (lenv e) False (VPtr TString (VString s)) = Some (VBytes (b @ [noCompression]))"
    using assms(7,9) by (simp add: stored_form_def DefaultMarshalFunc_def compress_def)
  from get_fills_local [OF assms(1-4) _ assms(5) u x] obtain cd' l' where
    g: "Get_redis e cd k ?r [] = (cd', Ret (VPtr TString (VString s)))" "local cd' = Some l'"
    "found (lenv e) (now e) l' k = Some (VBytes (b @ [noCompression]))" by auto
  obtain c2 y where gi: "GetInner (lenv e) (now e) l' k ?r False = (c2, y)" by fastforce
  have "y = Ret (VPtr TString (VString (b @ [noCompression])))"
    using GetInner_spec(2) [OF assms(1) gi] g(3) by (simp add: DefaultUnmarshalFunc_def)
  then have "snd (Get_redis e cd' k ?r []) = Ret (VPtr TString (VString (b @ [noCompression])))"
    using get_local_hit [where e = e and k = k and r = ?r, OF g(2)] gi by simp
  moreover have "b @ [noCompression] \<noteq> s"
  proof
    assume "b @ [noCompression] = s"
    then have "length b + 1 = length s" by auto
    with assms(8) show False by simp
  qed
  ultimately show ?thesis using g(1) by blast
qed

text \<open>A codec that writes a string behind a header byte, as msgpack does for short strings.\<close>

definition str_codec :: "unit codec" where
  "str_codec = demo_codec\<lparr>msgpack_Marshal := (\<lambda>v. case v of
       VPtr TString (VString s) \<Rightarrow> Ret (char_of (160 + length s) # s) | _ \<Rightarrow> Fail (Errorf ''unsupported''))\<rparr>"

definition str_renv :: "((string \<times> string) list, unit demo_state, unit) renv" where
  "str_renv = \<lparr>cmds = demo_redis, lenv = \<lparr>lib = demo_table, codecs = str_codec\<rparr>, now = 0, rnd = 0\<rparr>"

definition str_redisc :: "((string \<times> string) list, unit demo_state) Redisc" where
  "str_redisc = demo_redisc\<lparr>redis := [(''k'', ''hi'')]\<rparr>"

theorem string_read_through_corrupts_witness:
  "snd (Get_redis str_renv (fst (Get_redis str_renv str_redisc ''k'' (VPtr TString (VString [])) [])) ''k''
     (VPtr TString (VString [])) []) = Ret (VPtr TString (VString ((char_of (162 :: nat) # ''hi'') @ [noCompression])))"
proof -
  have "tinylfu_laws (lib (lenv str_renv))" using demo_table_laws by (simp add: str_renv_def)
  moreover have "local_ok str_redisc" "local str_redisc = Some demo_sub"
    using demo_renv_laws(4) by (simp_all add: str_redisc_def demo_redisc_def local_ok_def)
  moreover have "found (lenv str_renv) (now str_renv) demo_sub ''k'' = None"
    by (simp add: str_renv_def found_def peek_def demo_table_def demo_sub_def)
  moreover have "redis_Get (cmds str_renv) (redis str_redisc) ''k'' = Ret ''hi''"
    by (simp add: str_renv_def str_redisc_def demo_redis_def)
  moreover have "msgpack_Marshal (codecs (lenv str_renv)) (VPtr TString (VString ''hi'')) = Ret (char_of (162 :: nat) # ''hi'')"
    by (simp add: str_renv_def str_codec_def)
  ultimately show ?thesis
    using string_read_through_corrupts [of str_renv str_redisc demo_sub "''k''" "''hi''" "char_of (162 :: nat) # ''hi''"]
    by (auto simp: compressionThreshold_def)
qed

section \<open>Time to live\<close>

text \<open>
  a negative time to live, and any below one second, reaches the server as one hour: the
  write to redis is made with \<open>defaultItemTTL\<close>.
\<close>

theorem short_ttl_is_an_hour:
  fixes e :: "('r, 's, 'o) renv"
  assumes "DefaultMarshalFunc (codecs (lenv e)) v = Ret b" "ttl < second" "ttl \<noteq> 0" "local cd = None"
  shows "Set_redis e cd k v [WithTTL ttl] =
     (case redis_Set (cmds e) (redis cd) k b (3600 * second) of (r, res) \<Rightarrow> (cd\<lparr>redis := r\<rparr>, res))"
proof -
  let ?o = "ApplyOptions [WithTTL ttl] :: 'o Options"
  have o: "\<not> SetXX ?o" "\<not> SetNX ?o" "\<not> Raw ?o" "Skip ?o = 0" "Expiration ?o = 3600 * second"
    using assms(2,3) by (simp_all add: options_simps Expiration_def defaultItemTTL_def)
  obtain r res where s: "redis_Set (cmds e) (redis cd) k b (3600 * second) = (r, res)" by fastforce
  then show ?thesis using assms(1,4) o
    by (cases res) (simp_all add: Set_redis_def set_redis_def set_remote_def Let_def skip_modes)
qed

theorem short_ttl_is_an_hour_witness:
  "snd (Set_redis demo_renv (demo_redisc\<lparr>local := None\<rparr>) ''k'' (VString ''hi'') [WithTTL (-1)]) = Ret ()"
  using short_ttl_is_an_hour [of demo_renv "VString ''hi''" "''hi''" "-1" "demo_redisc\<lparr>local := None\<rparr>" "''k''"]
  by (simp add: DefaultMarshalFunc_def second_def demo_renv_def demo_redis_def)

section \<open>Conditional writes\<close>

text \<open>
  C34: \<open>SetNX\<close> is a lock: it succeeds exactly if the key is absent at the server, then the server holds the
  value; otherwise it reports an error and neither level has changed.
\<close>

theorem setnx_exclusive:
  fixes e :: "('r, 's, 'o) renv"
  assumes "redis_laws (cmds e)" "tinylfu_laws (lib (lenv e))" "local_ok cd" "DefaultMarshalFunc (codecs (lenv e)) v = Ret b"
    and "redis_SetNX (cmds e) (redis cd) k b 0 = (r', Ret ok)"
  shows "if absent (cmds e) (redis cd) k
    then \<exists>cd'. Set_redis e cd k v [WithSetNX] = (cd', Ret ()) \<and> redis_Get (cmds e) (redis cd') k = Ret b
    else Set_redis e cd k v [WithSetNX] = (cd, Fail (Errorf (''setnx key already exist:'' @ k)))"
proof -
  let ?o = "ApplyOptions [WithSetNX] :: 'o Options"
  have o: "\<not> SetXX ?o" "SetNX ?o" "\<not> Raw ?o" "Skip ?o = 0" "Expiration ?o = 0" by (simp_all add: options_simps Expiration_def)
  note nx = redis_laws_D(2) [OF assms(1,5)]
  show ?thesis
  proof (cases "absent (cmds e) (redis cd) k")
    case False
    with nx assms(5) have "set_remote e cd k b 0 ?o = (cd, Fail (Errorf (''setnx key already exist:'' @ k)))"
      by (simp add: set_remote_def o Let_def)
    with False assms(4) o show ?thesis by (simp add: Set_redis_def set_redis_def Let_def skip_modes)
  next
    case True
    let ?cd = "cd\<lparr>redis := r'\<rparr>"
    from True nx assms(5) have s: "set_remote e cd k b 0 ?o = (?cd, Ret ())" "redis_Get (cmds e) r' k = Ret b"
      by (simp_all add: set_remote_def o Let_def)
    show ?thesis
    proof (cases "local cd")
      case None
      with True s assms(4) o show ?thesis by (simp add: Set_redis_def set_redis_def Let_def skip_modes)
    next
      case (Some l)
      have "stored_form (lenv e) (Raw ?o) (VBytes b) = Some (VBytes b)" by (simp add: stored_form_def DefaultMarshalFunc_def o)
      from set_local_stored [OF assms(2), of ?cd l 0 ?o "VBytes b" "VBytes b" k] this assms(3) Some obtain l' where
        "set_local e ?cd k (VBytes b) 0 ?o = (?cd\<lparr>local := Some l'\<rparr>, Ret True)" by (auto simp: local_ok_def)
      with True s assms(4) o Some show ?thesis by (simp add: Set_redis_def set_redis_def Let_def skip_modes)
    qed
  qed
qed

theorem setnx_exclusive_witness:
  "Set_redis demo_renv str_redisc ''k'' (VString ''x'') [WithSetNX]
     = (str_redisc, Fail (Errorf ''setnx key already exist:k''))"
proof -
  have "local_ok str_redisc" using demo_renv_laws(4) by (simp add: str_redisc_def demo_redisc_def local_ok_def)
  moreover have "DefaultMarshalFunc (codecs (lenv demo_renv)) (VString ''x'') = Ret ''x''" by (simp add: DefaultMarshalFunc_def)
  moreover have "redis_SetNX (cmds demo_renv) (redis str_redisc) ''k'' ''x'' 0 = (redis str_redisc, Ret False)"
    "\<not> absent (cmds demo_renv) (redis str_redisc) ''k''"
    by (simp_all add: demo_renv_def demo_redis_def str_redisc_def absent_def)
  ultimately show ?thesis
    using setnx_exclusive [OF demo_renv_laws(3,1), of str_redisc "VString ''x''" "''x''" "''k''"] by simp
qed

end
