(* ===== verification/GdsRandom.thy ===== *)
theory GdsRandom
  imports GoStrings
begin

text \<open>
  Model of \<open>pkg/gds/random.go\<close>: random strings by rejection sampling.  The secure reader is an
  endless sequence of bytes with a position.  The loop may run for ever, so it is a partial function:
  not returning is \<open>None\<close>.
\<close>

definition randomStringCharset :: string where
  "randomStringCharset = ''ABCDEFGHIJKLMNOPQRSTUVWXYZabcdefghijklmnopqrstuvwxyz''"

definition randomStringCharsetLen :: nat where "randomStringCharsetLen = 52"

definition randomStringMaxByte :: nat where
  "randomStringMaxByte = 255 - (256 mod randomStringCharsetLen)"

text \<open>
  One pass over the bytes read: \<open>Inl\<close> the complete string, or \<open>Inr\<close> the characters chosen so far, whose
  number is the variable \<open>i\<close> of the code.
\<close>

fun rs_batch :: "nat list \<Rightarrow> nat \<Rightarrow> string \<Rightarrow> string + string" where
  "rs_batch [] len b = Inr b"
| "rs_batch (rb # r) len b =
     (if rb > randomStringMaxByte then rs_batch r len b
      else let b' = b @ [randomStringCharset ! (rb mod randomStringCharsetLen)]
           in if length b' = len then Inl b' else rs_batch r len b')"

partial_function (option) rs_loop :: "(nat \<Rightarrow> nat) \<Rightarrow> nat \<Rightarrow> nat \<Rightarrow> nat \<Rightarrow> string \<Rightarrow> string option" where
  "rs_loop src len rlen pos b =
     (case rs_batch (map src [pos..<pos + rlen]) len b of
        Inl s \<Rightarrow> Some s
      | Inr b' \<Rightarrow> rs_loop src len rlen (pos + rlen) b')"

text \<open>The length of the read buffer is computed in \<open>uint8\<close>.\<close>

definition read_len :: "8 word \<Rightarrow> 8 word" where
  "read_len len = len + len div 4"

definition RandomString :: "(nat \<Rightarrow> nat) \<Rightarrow> 8 word \<Rightarrow> string option" where
  "RandomString src len = rs_loop src (unat len) (unat (read_len len)) 0 []"

definition RandomBytes :: "(nat \<Rightarrow> string outcome) \<Rightarrow> nat \<Rightarrow> string outcome" where
  "RandomBytes rand_Read n = go_bind (rand_Read n) Ret"

section \<open>The loop\<close>

lemma charset_nth: "randomStringCharset ! (n mod randomStringCharsetLen) \<in> set randomStringCharset"
proof -
  have "length randomStringCharset = 52" by (simp add: randomStringCharset_def)
  then show ?thesis by (intro nth_mem) (simp add: randomStringCharsetLen_def)
qed

lemma rs_batch_Inl:
  "rs_batch r len b = Inl s \<Longrightarrow> length s = len \<and> set s \<subseteq> set b \<union> set randomStringCharset"
  by (induction r len b rule: rs_batch.induct) (auto simp: Let_def charset_nth split: if_splits)

lemma rs_batch_Inr:
  "length b < len \<Longrightarrow> rs_batch r len b = Inr b' \<Longrightarrow>
     length b' < len \<and> length b' = length b + length (filter (\<lambda>x. x \<le> randomStringMaxByte) r)
     \<and> set b' \<subseteq> set b \<union> set randomStringCharset"
proof (induction r len b rule: rs_batch.induct)
  case (2 rb r len b)
  let ?c = "randomStringCharset ! (rb mod randomStringCharsetLen)"
  show ?case
  proof (cases "rb > randomStringMaxByte")
    case True
    with 2 show ?thesis by simp
  next
    case False
    with 2(4) have ne: "length (b @ [?c]) \<noteq> len" "rs_batch r len (b @ [?c]) = Inr b'"
      by (auto simp: Let_def split: if_splits)
    with 2(3) have "length (b @ [?c]) < len" by simp
    from 2(2) [OF False refl ne(1) this ne(2)] False charset_nth [of rb] show ?thesis by auto
  qed
qed simp

lemma rs_loop_returns:
  assumes fair: "\<And>n. \<exists>m \<ge> n. src m \<le> randomStringMaxByte" and "0 < rlen"
  shows "length b < len \<Longrightarrow> set b \<subseteq> set randomStringCharset \<Longrightarrow>
     \<exists>s. rs_loop src len rlen pos b = Some s \<and> length s = len \<and> set s \<subseteq> set randomStringCharset"
proof (induction "len - length b" arbitrary: b pos rule: less_induct)
  case outer: less
  show ?case
  proof -
    obtain m where "pos \<le> m" "src m \<le> randomStringMaxByte" using fair by blast
    then show ?thesis
    proof (induction "m - pos" arbitrary: pos rule: less_induct)
      case inner: less
      let ?r = "map src [pos..<pos + rlen]"
      show ?case
      proof (cases "rs_batch ?r len b")
        case (Inl s)
        with rs_batch_Inl [OF this] outer.prems(2) show ?thesis by (subst rs_loop.simps) auto
      next
        case (Inr b')
        note b' = rs_batch_Inr [OF outer.prems(1) Inr]
        have step: "rs_loop src len rlen pos b = rs_loop src len rlen (pos + rlen) b'"
          using Inr by (subst rs_loop.simps) simp
        show ?thesis
        proof (cases "length b' = length b")
          case False
          with b' have "length b < length b'" "length b' < len" by linarith+
          then have "len - length b' < len - length b" "length b' < len" by simp_all
          from outer.hyps [OF this, of "pos + rlen"] b' outer.prems(2) step show ?thesis by auto
        next
          case True
          then have "filter (\<lambda>x. x \<le> randomStringMaxByte) ?r = []" using b' by (metis add_cancel_right_right length_0_conv)
          then have none: "\<not> src j \<le> randomStringMaxByte" if "pos \<le> j" "j < pos + rlen" for j
            using that by (auto simp: filter_empty_conv)
          with inner.prems have m: "pos + rlen \<le> m" by (metis not_le)
          have "b' = b"
          proof -
            have "rs_batch r len b = Inr b" if "filter (\<lambda>x. x \<le> randomStringMaxByte) r = []" for r
              using that by (induction r) (auto split: if_splits)
            with \<open>filter _ ?r = []\<close> Inr show ?thesis by auto
          qed
          moreover have "m - (pos + rlen) < m - pos" using m assms(2) by simp
          ultimately show ?thesis using inner.hyps [of "pos + rlen"] m inner.prems(2) step by simp
        qed
      qed
    qed
  qed
qed

lemma rs_loop_empty_read: "rs_loop src len 0 pos b = None"
proof -
  have "rlen \<noteq> 0" if "rs_loop src len rlen pos b = Some s" for rlen s
    using that
    by (rule rs_loop.raw_induct [where P = "\<lambda>src len rlen pos b s. rlen \<noteq> 0", rotated])
       (auto split: sum.splits intro!: gr0I)
  then show ?thesis by (cases "rs_loop src len 0 pos b") auto
qed

lemma read_len_zero: "read_len len = 0 \<longleftrightarrow> len = 0 \<or> len = 205"
proof -
  have "unat (read_len len) = (unat len + unat len div 4) mod 256"
    by (simp add: read_len_def unat_word_ariths unat_div mod_add_right_eq)
  moreover have "unat len < 256" using unsigned_less [of len] by simp
  moreover have "unat w = 0 \<longleftrightarrow> w = 0" "unat w = 205 \<longleftrightarrow> w = 205" for w :: "8 word"
    using word_unat_eq_iff [of w 0] word_unat_eq_iff [of w 205] by simp_all
  moreover have "(n + n div 4) mod 256 = 0 \<longleftrightarrow> n = 0 \<or> n = 205" if "n < 256" for n :: nat
  proof -
    have "n = 4 * q + r \<Longrightarrow> r < 4 \<Longrightarrow> n + q = 256 \<longleftrightarrow> n = 205" for q r by arith
    from this [of "n div 4" "n mod 4"] have "n + n div 4 = 256 \<longleftrightarrow> n = 205" by simp
    moreover have "n + n div 4 = 0 \<longleftrightarrow> n = 0" by auto
    moreover have "n + n div 4 < 2 * 256" using that by simp
    then have "(n + n div 4) mod 256 = (if n + n div 4 < 256 then n + n div 4 else n + n div 4 - 256)"
      by (simp add: mod_if)
    ultimately show ?thesis by (simp split: if_splits) linarith
  qed
  ultimately show ?thesis by metis
qed

section \<open>Properties\<close>

text \<open>
  C37: for every length other than 0 and 205, and a source that keeps giving bytes in the accepted range,
  \<open>RandomString\<close> returns a string of exactly that length made of letters only.
\<close>

theorem random_string_returns:
  assumes "\<And>n. \<exists>m \<ge> n. src m \<le> randomStringMaxByte" "len \<noteq> 0" "len \<noteq> 205"
  shows "\<exists>s. RandomString src len = Some s \<and> length s = unat len \<and> set s \<subseteq> set randomStringCharset"
proof -
  have "0 < unat (read_len len)" using read_len_zero [of len] assms(2,3) by (simp add: unat_gt_0)
  moreover have "0 < unat len" using assms(2) by (simp add: unat_gt_0)
  ultimately show ?thesis using rs_loop_returns [of src "unat (read_len len)" "[]" "unat len" 0] assms(1)
    by (simp add: RandomString_def)
qed

theorem random_string_returns_witness:
  "\<exists>s. RandomString (\<lambda>_. 3) 10 = Some s \<and> length s = 10"
  using random_string_returns [of "\<lambda>_. 3" 10] by (auto simp: randomStringMaxByte_def randomStringCharsetLen_def)

text \<open>
  for the lengths 0 and 205 the read buffer is empty, in the second case because its length
  wraps around in eight bits, and the call never returns, whatever the source gives.
\<close>

theorem random_string_hangs:
  "RandomString src 0 = None \<and> RandomString src 205 = None"
proof -
  have "read_len 0 = 0" "read_len 205 = 0" using read_len_zero by blast+
  then show ?thesis by (simp add: RandomString_def rs_loop_empty_read)
qed

end
