(* ===== verification/HttpSign.thy ===== *)
theory HttpSign
  imports GdsRandom GoTime "HOL-Library.List_Lexorder" "HOL-Library.Char_ord"
begin

text \<open>
  Model of \<open>pkg/httpx/util.go\<close> and \<open>pkg/httpx/signature.go\<close>: extraction of header values, path escaping,
  the signer configuration and the three signers, signing and verification.  The hash and HMAC
  functions, base64, query encoding, the text of a URL and the layouts of \<open>time.Format\<close> are functions of the
  environment.  The request is passed through the calls that change it; on an error its partial changes
  are not returned.
\<close>

section \<open>Requests\<close>

text \<open>
  A header maps canonical names to values; \<open>CanonicalHeaderKey\<close> leaves a name with an invalid byte as it is.
\<close>

definition header_byte :: "char \<Rightarrow> bool" where
  "header_byte c \<longleftrightarrow> is_digit c \<or> 65 \<le> byte c \<and> byte c \<le> 90 \<or> 97 \<le> byte c \<and> byte c \<le> 122
     \<or> c \<in> set ''!#$%&*+-.^_`|~'' \<or> byte c = 39"

fun canon :: "bool \<Rightarrow> string \<Rightarrow> string" where
  "canon up [] = []"
| "canon up (c # cs) = (if up then upper_char c else lower_char c) # canon (c = CHR ''-'') cs"

definition CanonicalHeaderKey :: "string \<Rightarrow> string" where
  "CanonicalHeaderKey k = (if list_all header_byte k then canon True k else k)"

type_synonym header = "string \<Rightarrow> string list"

definition Header_Values :: "header \<Rightarrow> string \<Rightarrow> string list" where
  "Header_Values h k = h (CanonicalHeaderKey k)"

definition Header_Set :: "header \<Rightarrow> string \<Rightarrow> string \<Rightarrow> header" where
  "Header_Set h k v = h(CanonicalHeaderKey k := [v])"

definition Header_Add :: "header \<Rightarrow> string \<Rightarrow> string \<Rightarrow> header" where
  "Header_Add h k v = h(CanonicalHeaderKey k := h (CanonicalHeaderKey k) @ [v])"

record URL =
  Opaque :: string
  Path :: string
  EscapedPath :: string
  url_Host :: string
  RawQuery :: string
  Fragment :: string

text \<open>A body is what reading it to the end gives; the context holds string values under string keys.\<close>

record Request =
  Method :: string
  Header :: header
  Host :: string
  URL :: URL
  Body :: "string outcome option"
  Context :: "string \<Rightarrow> string option"

text \<open>The environment: digest functions, encoders and the random source.\<close>

record httpenv =
  sha1 :: "string \<Rightarrow> string"
  sha256 :: "string \<Rightarrow> string"
  hmac :: "(string \<Rightarrow> string) \<Rightarrow> string \<Rightarrow> string \<Rightarrow> string"
  base64 :: "string \<Rightarrow> string"
  Query_Encode :: "string \<Rightarrow> string"
  URL_String :: "URL \<Rightarrow> string"
  time_Format :: "Time \<Rightarrow> string \<Rightarrow> string"
  time_Parse :: "string \<Rightarrow> string \<Rightarrow> Time outcome"
  random_source :: "nat \<Rightarrow> nat"

section \<open>Utilities\<close>

definition ExtractorLimit :: nat where "ExtractorLimit = 20"

definition errHeaderExtractorValueMissing :: go_error where
  "errHeaderExtractorValueMissing = Sentinel ''missing value in request header''"
definition errHeaderExtractorValueInvalid :: go_error where
  "errHeaderExtractorValueInvalid = Sentinel ''invalid value in request header''"

fun header_values_loop :: "string \<Rightarrow> nat \<Rightarrow> nat \<Rightarrow> string list \<Rightarrow> string list" where
  "header_values_loop valuePrefix prefixLen i [] = []"
| "header_values_loop valuePrefix prefixLen i (v # vs) =
     (if prefixLen = 0 then
        v # (if i \<ge> ExtractorLimit - 1 then [] else header_values_loop valuePrefix prefixLen (i + 1) vs)
      else if length v > prefixLen \<and> EqualFold (take prefixLen v) valuePrefix then
        drop prefixLen v # (if i \<ge> ExtractorLimit - 1 then [] else header_values_loop valuePrefix prefixLen (i + 1) vs)
      else header_values_loop valuePrefix prefixLen (i + 1) vs)"

definition ValuesFromHeader :: "Request \<Rightarrow> string \<Rightarrow> string \<Rightarrow> nat \<Rightarrow> string list outcome" where
  "ValuesFromHeader r header valuePrefix prefixLen =
     (let values = Header_Values (Header r) header in
      if values = [] then Fail errHeaderExtractorValueMissing
      else let result = header_values_loop valuePrefix prefixLen 0 values in
        if result = [] \<and> prefixLen > 0 then Fail errHeaderExtractorValueInvalid else Ret result)"

definition noEscape :: "char \<Rightarrow> bool" where
  "noEscape c \<longleftrightarrow> (65 \<le> byte c \<and> byte c \<le> 90) \<or> (97 \<le> byte c \<and> byte c \<le> 122) \<or> (48 \<le> byte c \<and> byte c \<le> 57)
     \<or> c = CHR ''-'' \<or> c = CHR ''.'' \<or> c = CHR ''_'' \<or> c = CHR ''~''"

fun EscapePath :: "string \<Rightarrow> bool \<Rightarrow> string" where
  "EscapePath [] encodeSep = []"
| "EscapePath (c # cs) encodeSep =
     (if noEscape c \<or> (c = CHR ''/'' \<and> \<not> encodeSep) then c # EscapePath cs encodeSep
      else CHR ''%'' # HEX_digit (byte c div 16) # HEX_digit (byte c mod 16) # EscapePath cs encodeSep)"

definition getURIPath :: "URL \<Rightarrow> string outcome" where
  "getURIPath u =
     (let nonempty = (\<lambda>uri. if uri = [] then ''/'' else uri) in
      if Opaque u \<noteq> [] then
        (let ps = Split (Opaque u) ''/'' in
         if length ps < 3 then Panic ''slice bounds out of range''
         else Ret (nonempty (''/'' @ Join (drop 3 ps) ''/'')))
      else Ret (nonempty (EscapedPath u)))"

definition ValuesFromCanonical :: "string \<Rightarrow> string \<Rightarrow> string \<Rightarrow> string \<Rightarrow> string option" where
  "ValuesFromCanonical src deli1 deli2 =
     fold (\<lambda>p vs. case SplitN2 p deli2 of [k, v] \<Rightarrow> vs(k \<mapsto> v) | _ \<Rightarrow> vs) (Split src deli1) Map.empty"

definition signatureElem :: string where "signatureElem = ''Signature=''"
definition signedHeadersElem :: string where "signedHeadersElem = ''SignedHeaders=''"

fun find_signature :: "string list \<Rightarrow> string outcome" where
  "find_signature [] = Fail (Errorf ''request not signed'')"
| "find_signature (p # ps) =
     (case Index p signatureElem of
        Some _ \<Rightarrow>
          (let sig = drop (length signatureElem) p in
           if sig = [] then Fail (Errorf ''invalid request signature authorization header'') else Ret sig)
      | None \<Rightarrow> find_signature ps)"

definition GetSignedRequestSignature :: "Request \<Rightarrow> string \<Rightarrow> string \<Rightarrow> string \<Rightarrow> string outcome" where
  "GetSignedRequestSignature r header scheme delt =
     go_bind (ValuesFromHeader r header scheme (length scheme))
       (\<lambda>auth. case auth of a # _ \<Rightarrow> find_signature (Split a delt) | [] \<Rightarrow> index_panic)"

definition FormatSignTime :: "httpenv \<Rightarrow> Time \<Rightarrow> string \<Rightarrow> string" where
  "FormatSignTime e t layout = (if layout = [] then Itoa (unix t) else time_Format e t layout)"

definition ParseSignTime :: "httpenv \<Rightarrow> string \<Rightarrow> string \<Rightarrow> location \<Rightarrow> Time outcome" where
  "ParseSignTime e layout str local_zone =
     (if layout = [] then go_bind (Atoi str) (\<lambda>uf. Ret \<lparr>unix = uf, loc = local_zone\<rparr>)
      else time_Parse e layout str)"

end
