(* ===== verification/HttpSigner.thy ===== *)
theory HttpSigner
  imports HttpSign
begin

text \<open>
  The rest of \<open>pkg/httpx/signature.go\<close>: algorithms, the signer configuration, the three signers and the
  executor.  A nil function value is \<open>None\<close>; a call of \<open>RandomString\<close> that does not return is the panic
  of that name.
\<close>

section \<open>Algorithms\<close>

record Algorithm =
  alg_name :: string
  alg_hash :: "(string \<Rightarrow> string) option"

definition AlgorithmSha256 :: "httpenv \<Rightarrow> Algorithm" where
  "AlgorithmSha256 e = \<lparr>alg_name = ''sha256'', alg_hash = Some (sha256 e)\<rparr>"

definition AlgorithmSha1 :: "httpenv \<Rightarrow> Algorithm" where
  "AlgorithmSha1 e = \<lparr>alg_name = ''sha1'', alg_hash = Some (sha1 e)\<rparr>"

definition ErrUnknownAlgorithm :: go_error where "ErrUnknownAlgorithm = Sentinel ''unknown algorithm''"
definition ErrInvalidSignature :: go_error where "ErrInvalidSignature = Sentinel ''invalid signature''"

definition algorithmFromString :: "httpenv \<Rightarrow> string \<Rightarrow> Algorithm outcome" where
  "algorithmFromString e name =
     (if ToLower name = ''sha1'' then Ret (AlgorithmSha1 e)
      else if ToLower name = ''sha256'' then Ret (AlgorithmSha256 e)
      else Fail ErrUnknownAlgorithm)"

definition Algorithm_UnmarshalText :: "httpenv \<Rightarrow> string \<Rightarrow> Algorithm \<Rightarrow> Algorithm \<times> unit outcome" where
  "Algorithm_UnmarshalText e text a =
     (case algorithmFromString e text of
        Ret alg \<Rightarrow> (alg, Ret ()) | Fail err \<Rightarrow> (a, Fail err) | Panic p \<Rightarrow> (a, Panic p))"

definition run_hash :: "Algorithm \<Rightarrow> string \<Rightarrow> string outcome" where
  "run_hash a d =
     (case alg_hash a of None \<Rightarrow> Panic ''invalid memory address or nil pointer dereference'' | Some h \<Rightarrow> Ret (h d))"

definition emptyStringSHA256 :: string where
  "emptyStringSHA256 = ''e3b0c44298fc1c149afbf4c8996fb92427ae41e4649b934ca495991b7852b855''"
definition emptyStringSHA1 :: string where
  "emptyStringSHA1 = ''d41d8cd98f00b204e9800998ecf8427e''"

section \<open>Configuration\<close>

datatype Signer = DefaultSigner | TokenSigner "string list" | HMACSigner "string list"

record SignerConfig =
  Credentials :: "string \<Rightarrow> string option"
  SignedLookups :: "(string \<times> string) list"
  AuthLookup :: string
  AuthScheme :: string
  AuthHeaders :: "string list"
  AuthHeaderDelimiter :: string
  TimestampKey :: string
  NonceKey :: string
  Alg :: Algorithm
  DateFormat :: string
  NonceLen :: "8 word"
  Delimiter :: string
  UnsignedPayload :: bool
  DisableURIPathEscaping :: bool
  Dry :: bool
  ScopeHeaders :: "string list"
  ScopeQueries :: "string list"
  SignatureQueryKey :: string
  SignatureHeaderKey :: string
  signer :: "Signer option"
  initErr :: "go_error option"

type_synonym SignerOption = "SignerConfig \<Rightarrow> SignerConfig"

text \<open>A constructor of signers may change the configuration it is given.\<close>

definition WithSigner :: "(SignerConfig \<Rightarrow> SignerConfig \<times> Signer outcome) \<Rightarrow> SignerOption" where
  "WithSigner newSigner config =
     (case newSigner config of
        (config, Ret sg) \<Rightarrow> config\<lparr>signer := Some sg\<rparr>
      | (config, Fail err) \<Rightarrow> config\<lparr>initErr := Some err, signer := None\<rparr>
      | (config, Panic p) \<Rightarrow> config)"

definition WithConfiguration :: "(SignerConfig \<Rightarrow> SignerConfig \<times> go_error option) \<Rightarrow> SignerOption" where
  "WithConfiguration unmarshal config =
     (case unmarshal config of
        (config, None) \<Rightarrow> config | (config, Some err) \<Rightarrow> config\<lparr>initErr := Some err\<rparr>)"

definition DefaultSignerConfig :: "httpenv \<Rightarrow> SignerConfig" where
  "DefaultSignerConfig e =
     \<lparr>Credentials = Map.empty, SignedLookups = [], AuthLookup = ''header:Authorization'', AuthScheme = [],
      AuthHeaders = [], AuthHeaderDelimiter = '', '', TimestampKey = ''timestamp'', NonceKey = ''nonce'',
      Alg = AlgorithmSha1 e, DateFormat = [], NonceLen = 10, Delimiter = [CHR 0x0A], UnsignedPayload = False,
      DisableURIPathEscaping = False, Dry = False, ScopeHeaders = [], ScopeQueries = [],
      SignatureQueryKey = [], SignatureHeaderKey = [], signer = None, initErr = None\<rparr>"

text \<open>
  \<open>extractSignedLookups\<close> ranges over the map in an order of its own; the scopes are sorted afterwards.
\<close>

definition lookup_loc :: "string \<times> string \<Rightarrow> string \<times> string" where
  "lookup_loc kl = (case kl of (key, l) \<Rightarrow>
     (key, if l = [] \<or> l = ''header'' then ''header:'' @ key
           else if l = ''query'' then ''query:'' @ key
           else if l = ''context'' then ''context:'' @ key
           else l))"

definition extractSignedLookups :: "SignerConfig \<Rightarrow> SignerConfig" where
  "extractSignedLookups s =
     s\<lparr>SignedLookups := map lookup_loc (SignedLookups s),
       ScopeHeaders := sort (ScopeHeaders s @ map fst (filter (\<lambda>(_, l). l = [] \<or> l = ''header'') (SignedLookups s))),
       ScopeQueries := sort (ScopeQueries s @ map fst (filter (\<lambda>(_, l). l = ''query'') (SignedLookups s)))\<rparr>"

fun auth_sources :: "string list \<Rightarrow> SignerConfig \<Rightarrow> SignerConfig outcome" where
  "auth_sources [] s = Ret s"
| "auth_sources (source # sources) s =
     (let parts = Split source '':''; kind = ToLower (TrimSpace (hd parts)) in
      if kind = ''header'' then
        (if length parts < 2 then index_panic
         else auth_sources sources (s\<lparr>SignatureHeaderKey := TrimSpace (parts ! 1)\<rparr>))
      else if kind = ''query'' then
        (if length parts < 2 then index_panic
         else auth_sources sources (s\<lparr>SignatureQueryKey := TrimSpace (parts ! 1)\<rparr>))
      else auth_sources sources s)"

definition extractAuthLookup :: "SignerConfig \<Rightarrow> SignerConfig outcome" where
  "extractAuthLookup s =
     go_bind (auth_sources (Split (AuthLookup s) '','') s)
       (\<lambda>s. Ret (if AuthScheme s \<noteq> [] \<and> \<not> HasSuffix (AuthScheme s) '' '' then s\<lparr>AuthScheme := AuthScheme s @ '' ''\<rparr> else s))"

definition initData :: "SignerConfig \<Rightarrow> SignerConfig outcome" where
  "initData s = extractAuthLookup (extractSignedLookups s)"

definition Validate :: "SignerConfig \<Rightarrow> unit outcome" where
  "Validate s =
     (if SignatureQueryKey s = [] \<and> SignatureHeaderKey s = []
      then Fail (Errorf ''http signature need a key for adding to query or header, but both not found'')
      else Ret ())"

definition build_config :: "SignerOption list \<Rightarrow> SignerConfig \<Rightarrow> SignerConfig outcome" where
  "build_config opts s0 =
     (let s = fold (\<lambda>opt s. opt s) opts s0 in
      case initErr s of
        Some err \<Rightarrow> Fail err
      | None \<Rightarrow> go_bind (initData s) (\<lambda>s. go_bind (Validate s) (\<lambda>_. Ret s)))"

definition NewSignerConfig :: "httpenv \<Rightarrow> SignerOption list \<Rightarrow> SignerConfig outcome" where
  "NewSignerConfig e opts =
     build_config opts ((DefaultSignerConfig e)\<lparr>Credentials := [''id'' \<mapsto> [], ''secret'' \<mapsto> []]\<rparr>)"

definition map_get :: "(string \<Rightarrow> string option) \<Rightarrow> string \<Rightarrow> string" where
  "map_get m k = (case m k of None \<Rightarrow> [] | Some v \<Rightarrow> v)"

definition GetAccessKeyID :: "SignerConfig \<Rightarrow> string" where
  "GetAccessKeyID s = map_get (Credentials s) ''id''"

definition GetAccessKeySecret :: "SignerConfig \<Rightarrow> string" where
  "GetAccessKeySecret s = map_get (Credentials s) ''secret''"

section \<open>Signing contexts\<close>

record SigningCtx =
  Nonce :: string
  BodyDigest :: string
  SignedHeaders :: string
  CanonicalUri :: string
  CanonicalQueryString :: string
  SignTime :: Time
  Signature :: string
  CredentialString :: string
  StringToSign :: string
  CanonicalHeaders :: "string list"
  SignedVals :: "string \<Rightarrow> string option"

definition newCtx :: "string \<Rightarrow> Time \<Rightarrow> SigningCtx" where
  "newCtx nonce signTime =
     \<lparr>Nonce = nonce, BodyDigest = [], SignedHeaders = [], CanonicalUri = [], CanonicalQueryString = [],
      SignTime = signTime, Signature = [], CredentialString = [], StringToSign = [], CanonicalHeaders = [],
      SignedVals = Map.empty\<rparr>"

abbreviation val :: "SigningCtx \<Rightarrow> string \<Rightarrow> string" where
  "val ctx k \<equiv> map_get (SignedVals ctx) k"

text \<open>The digest that all three signers make of the string to sign: keyed if there is a secret.\<close>

definition digest :: "httpenv \<Rightarrow> SignerConfig \<Rightarrow> string \<Rightarrow> string outcome" where
  "digest e s str =
     (case alg_hash (Alg s) of
        None \<Rightarrow> Panic ''invalid memory address or nil pointer dereference''
      | Some h \<Rightarrow> Ret (if GetAccessKeySecret s = [] then h str else hmac e h (GetAccessKeySecret s) str))"

definition attach_header :: "Request \<Rightarrow> string \<Rightarrow> string \<Rightarrow> Request" where
  "attach_header r key v =
     (if Header_Values (Header r) key \<noteq> [] then r\<lparr>Header := Header_Add (Header r) key v\<rparr>
      else r\<lparr>Header := Header_Set (Header r) key v\<rparr>)"

section \<open>The default signer\<close>

definition NewDefaultSigner :: "SignerConfig \<Rightarrow> SignerConfig \<times> Signer outcome" where
  "NewDefaultSigner config =
     (config, if AuthLookup config = [] then Fail (Errorf ''authLookup must not empty'') else Ret DefaultSigner)"

definition BuildBodyDigest :: "SignerConfig \<Rightarrow> Request \<Rightarrow> SigningCtx \<Rightarrow> (Request \<times> SigningCtx) outcome" where
  "BuildBodyDigest s r ctx =
     (case Body r of
        None \<Rightarrow>
          if alg_name (Alg s) = ''sha256'' then Ret (r, ctx\<lparr>BodyDigest := emptyStringSHA256\<rparr>)
          else if alg_name (Alg s) = ''sha1'' then Ret (r, ctx\<lparr>BodyDigest := emptyStringSHA1\<rparr>)
          else Fail ErrUnknownAlgorithm
      | Some body \<Rightarrow>
          go_bind body (\<lambda>bb. go_bind (run_hash (Alg s) bb)
            (\<lambda>h. Ret (r\<lparr>Body := Some (Ret bb)\<rparr>, ctx\<lparr>BodyDigest := hex_EncodeToString h\<rparr>))))"

fun BuildCanonicalHeaders :: "string list \<Rightarrow> Request \<Rightarrow> SigningCtx \<Rightarrow> SigningCtx" where
  "BuildCanonicalHeaders [] r ctx = ctx"
| "BuildCanonicalHeaders (header # headers) r ctx =
     (let add = (\<lambda>value. BuildCanonicalHeaders headers r
            (ctx\<lparr>CanonicalHeaders := CanonicalHeaders ctx @ [header], SignedVals := (SignedVals ctx)(header \<mapsto> value)\<rparr>))
      in if EqualFold header ''host'' then add (if Host r \<noteq> [] then Host r else url_Host (URL r))
         else let vs = Header_Values (Header r) header in
           if vs = [] then BuildCanonicalHeaders headers r ctx
           else add (Join (map TrimSpace vs) '',''))"

definition BuildCanonicalUri :: "SignerConfig \<Rightarrow> Request \<Rightarrow> SigningCtx \<Rightarrow> SigningCtx outcome" where
  "BuildCanonicalUri s r ctx =
     go_bind (getURIPath (URL r))
       (\<lambda>uri. Ret (ctx\<lparr>CanonicalUri := (if DisableURIPathEscaping s then uri else EscapePath uri False)\<rparr>))"

fun replace_plus :: "string \<Rightarrow> string" where
  "replace_plus [] = []"
| "replace_plus (c # cs) = (if c = CHR ''+'' then ''%20'' @ replace_plus cs else c # replace_plus cs)"

definition BuildCanonicalQueryString :: "httpenv \<Rightarrow> Request \<Rightarrow> SigningCtx \<Rightarrow> Request \<times> SigningCtx" where
  "BuildCanonicalQueryString e r ctx =
     (let q = replace_plus (Query_Encode e (RawQuery (URL r)))
      in (r\<lparr>URL := (URL r)\<lparr>RawQuery := q\<rparr>\<rparr>, ctx\<lparr>CanonicalQueryString := q\<rparr>))"

definition Default_BuildCanonicalRequest ::
  "httpenv \<Rightarrow> SignerConfig \<Rightarrow> Request \<Rightarrow> SigningCtx \<Rightarrow> (Request \<times> SigningCtx) outcome" where
  "Default_BuildCanonicalRequest e s r0 ctx0 =
     (let ts = FormatSignTime e (SignTime ctx0) (DateFormat s);
          ctx1 = ctx0\<lparr>SignedVals := (SignedVals ctx0)(TimestampKey s \<mapsto> ts)\<rparr>;
          r1 = (if \<not> Dry s \<and> TimestampKey s \<noteq> [] then r0\<lparr>Header := Header_Set (Header r0) (TimestampKey s) ts\<rparr> else r0)
      in go_bind (if UnsignedPayload s then Ret (r1, ctx1) else BuildBodyDigest s r1 ctx1) (\<lambda>(r, ctx).
         let ctx = BuildCanonicalHeaders (ScopeHeaders s) r (ctx\<lparr>CanonicalHeaders := []\<rparr>) in
         go_bind (BuildCanonicalUri s r ctx) (\<lambda>ctx.
         case BuildCanonicalQueryString e r ctx of (r, ctx) \<Rightarrow>
           Ret (r, ctx\<lparr>SignedHeaders := Join (CanonicalHeaders ctx) '';''\<rparr>))))"

definition header_lines :: "string \<Rightarrow> SigningCtx \<Rightarrow> string" where
  "header_lines delim ctx = concat (map (\<lambda>h. h @ '':'' @ val ctx h @ delim) (CanonicalHeaders ctx))"

definition Default_StringToSign :: "SignerConfig \<Rightarrow> Request \<Rightarrow> SigningCtx \<Rightarrow> SigningCtx outcome" where
  "Default_StringToSign s r ctx =
     (let d = Delimiter s;
          creq = Method r @ d @ CanonicalUri ctx @ d @ CanonicalQueryString ctx @ d @ header_lines d ctx
                 @ d @ SignedHeaders ctx @ d @ BodyDigest ctx
      in go_bind (run_hash (Alg s) creq) (\<lambda>h.
           Ret (ctx\<lparr>StringToSign := TrimRightChar (AuthScheme s) (CHR '' '') @ d @ val ctx (TimestampKey s) @ d
                  @ (if CredentialString ctx \<noteq> [] then CredentialString ctx @ d else []) @ hex_EncodeToString h\<rparr>)))"

definition Default_AttachRequest :: "SignerConfig \<Rightarrow> Request \<Rightarrow> SigningCtx \<Rightarrow> Request" where
  "Default_AttachRequest s r ctx =
     (if Dry s then r
      else if SignatureQueryKey s \<noteq> [] then
        r\<lparr>URL := (URL r)\<lparr>RawQuery := RawQuery (URL r) @ ''&'' @ SignatureQueryKey s @ ''='' @ Signature ctx\<rparr>\<rparr>
      else attach_header r (SignatureHeaderKey s)
        (AuthScheme s @ concat (map (\<lambda>h. h @ ''='' @ val ctx h @ AuthHeaderDelimiter s) (AuthHeaders s))
         @ signedHeadersElem @ SignedHeaders ctx @ AuthHeaderDelimiter s @ signatureElem @ Signature ctx))"

section \<open>The token signer\<close>

definition lookUpSorted :: "SignerConfig \<Rightarrow> string list" where
  "lookUpSorted s = sort (map fst (SignedLookups s))"

definition NewTokenSigner :: "SignerConfig \<Rightarrow> SignerConfig \<times> Signer outcome" where
  "NewTokenSigner config = (config, Ret (TokenSigner (lookUpSorted config)))"

definition Token_StringToSign :: "SignerConfig \<Rightarrow> string list \<Rightarrow> SigningCtx \<Rightarrow> SigningCtx outcome" where
  "Token_StringToSign s ks ctx =
     (if ks = [] then Panic ''slice bounds out of range''
      else Ret (ctx\<lparr>StringToSign :=
             concat (map (\<lambda>k. k @ ''='' @ val ctx k @ Delimiter s) (butlast ks))
             @ last ks @ ''='' @ val ctx (last ks)\<rparr>))"

definition valueFromLookupExp :: "Request \<Rightarrow> string \<Rightarrow> string outcome" where
  "valueFromLookupExp r expr =
     (let hps = Split expr ''>'';
          scheme = (if length hps > 1 then hps ! 1 @ '' '' else [])
      in case ValuesFromHeader r (hd hps) scheme (length scheme) of
           Ret (v # _) \<Rightarrow> Ret v
         | Ret [] \<Rightarrow> index_panic
         | Fail _ \<Rightarrow> Ret []
         | Panic p \<Rightarrow> Panic p)"

fun Token_BuildCanonicalRequest ::
  "httpenv \<Rightarrow> SignerConfig \<Rightarrow> (string \<times> string) list \<Rightarrow> Request \<Rightarrow> SigningCtx \<Rightarrow> SigningCtx outcome" where
  "Token_BuildCanonicalRequest e s [] r ctx = Ret ctx"
| "Token_BuildCanonicalRequest e s ((key, l) # rest) r ctx =
     (let put = (\<lambda>ctx v. Token_BuildCanonicalRequest e s rest r (ctx\<lparr>SignedVals := (SignedVals ctx)(key \<mapsto> v)\<rparr>)) in
      if key = TimestampKey s then put ctx (FormatSignTime e (SignTime ctx) (DateFormat s))
      else if key = NonceKey s then
        (if Nonce ctx = [] then
           (case RandomString (random_source e) (NonceLen s) of
              None \<Rightarrow> Panic ''RandomString does not return''
            | Some n \<Rightarrow> put (ctx\<lparr>Nonce := n\<rparr>) n)
         else put ctx (Nonce ctx))
      else if l = ''CanonicalUri'' then put ctx (URL_String e ((URL r)\<lparr>Fragment := []\<rparr>))
      else if HasPrefix l ''header:'' then
        go_bind (valueFromLookupExp r (drop 7 l))
          (\<lambda>v. if v = [] then Token_BuildCanonicalRequest e s rest r ctx else put ctx v)
      else if HasPrefix l ''context:'' then
        (case Context r (drop 8 l) of
           None \<Rightarrow> Token_BuildCanonicalRequest e s rest r ctx | Some cv \<Rightarrow> put ctx cv)
      else Token_BuildCanonicalRequest e s rest r ctx)"

definition Token_AttachRequest :: "SignerConfig \<Rightarrow> Request \<Rightarrow> SigningCtx \<Rightarrow> Request" where
  "Token_AttachRequest s r ctx =
     attach_header r (SignatureHeaderKey s)
       (AuthScheme s @ concat (map (\<lambda>h. h @ ''='' @ val ctx h @ AuthHeaderDelimiter s) (AuthHeaders s))
        @ signatureElem @ Signature ctx)"

section \<open>The HMAC signer\<close>

definition NewHMACSigner :: "httpenv \<Rightarrow> SignerConfig \<Rightarrow> SignerConfig \<times> Signer outcome" where
  "NewHMACSigner e config =
     (let c1 = (if TimestampKey config = [] then config\<lparr>TimestampKey := ''date''\<rparr> else config);
          c2 = (if DateFormat c1 = [] then c1\<lparr>DateFormat := ''Mon, 02 Jan 2006 15:04:05 GMT''\<rparr> else c1);
          c3 = (if alg_name (Alg c2) = [] then c2\<lparr>Alg := AlgorithmSha256 e\<rparr> else c2)
      in (c3, Ret (HMACSigner (lookUpSorted c3))))"

fun HMAC_headers :: "string list \<Rightarrow> Request \<Rightarrow> SigningCtx \<Rightarrow> SigningCtx outcome" where
  "HMAC_headers [] r ctx = Ret ctx"
| "HMAC_headers (header # headers) r ctx =
     (let ctx = ctx\<lparr>CanonicalHeaders := CanonicalHeaders ctx @ [header]\<rparr> in
      go_bind (valueFromLookupExp r header)
        (\<lambda>v. HMAC_headers headers r
           (if v = [] then ctx else ctx\<lparr>SignedVals := (SignedVals ctx)(header \<mapsto> v)\<rparr>)))"

definition HMAC_BuildCanonicalRequest :: "httpenv \<Rightarrow> SignerConfig \<Rightarrow> Request \<Rightarrow> SigningCtx \<Rightarrow> SigningCtx outcome" where
  "HMAC_BuildCanonicalRequest e s r ctx =
     (let ctx = ctx\<lparr>SignedVals := (SignedVals ctx)(TimestampKey s \<mapsto> FormatSignTime e (In (SignTime ctx) UTC) (DateFormat s))\<rparr>
      in go_bind (HMAC_headers (ScopeHeaders s) r ctx) (\<lambda>ctx.
           Ret (ctx\<lparr>CanonicalHeaders := sort (CanonicalHeaders ctx), CanonicalUri := Path (URL r),
                    CanonicalQueryString := Query_Encode e (RawQuery (URL r))\<rparr>)))"

definition HMAC_StringToSign :: "SignerConfig \<Rightarrow> Request \<Rightarrow> SigningCtx \<Rightarrow> SigningCtx" where
  "HMAC_StringToSign s r ctx =
     (let d = Delimiter s in
      ctx\<lparr>StringToSign := Method r @ d @ CanonicalUri ctx @ d @ CanonicalQueryString ctx @ d @ GetAccessKeyID s @ d
            @ val ctx (TimestampKey s) @ d @ header_lines d ctx\<rparr>)"

text \<open>The separator of the header list is decided by the number of signed lookups.\<close>

definition hmac_auth_headers :: "SignerConfig \<Rightarrow> string" where
  "hmac_auth_headers s =
     concat (map (\<lambda>(i, h). h @ (if int i \<noteq> int (length (SignedLookups s)) - 1 then '';'' else []))
       (enumerate 0 (AuthHeaders s)))"

definition HMAC_AttachRequest :: "SignerConfig \<Rightarrow> Request \<Rightarrow> SigningCtx \<Rightarrow> Request" where
  "HMAC_AttachRequest s r ctx =
     (if AuthScheme s = [] then
        (let h1 = Header_Set (Header r) (SignatureHeaderKey s) (Signature ctx);
             h2 = (if alg_name (Alg s) = ''sha256'' then Header_Set h1 ''X-HMAC-ALGORITHM'' ''hmac-sha256''
                   else if alg_name (Alg s) = ''sha1'' then Header_Set h1 ''X-HMAC-ALGORITHM'' ''hmac-sha1''
                   else h1);
             h3 = Header_Set h2 ''X-HMAC-ACCESS-KEY'' (GetAccessKeyID s);
             h4 = Header_Set h3 (TimestampKey s) (val ctx (TimestampKey s))
         in r\<lparr>Header := Header_Set h4 ''X-HMAC-SIGNED-HEADERS'' (Join (CanonicalHeaders ctx) '';'')\<rparr>)
      else let d = AuthHeaderDelimiter s in
        attach_header r (SignatureHeaderKey s)
          (AuthScheme s @ d @ GetAccessKeyID s @ d @ Signature ctx @ d @ alg_name (Alg s) @ d
           @ val ctx (TimestampKey s) @ d @ hmac_auth_headers s))"

section \<open>Signing and verifying\<close>

text \<open>The methods of the interface \<open>Signer\<close>, by the dynamic type of the signer.\<close>

definition BuildCanonicalRequest ::
  "httpenv \<Rightarrow> SignerConfig \<Rightarrow> Signer \<Rightarrow> Request \<Rightarrow> SigningCtx \<Rightarrow> (Request \<times> SigningCtx) outcome" where
  "BuildCanonicalRequest e s sg r ctx =
     (case sg of
        DefaultSigner \<Rightarrow> Default_BuildCanonicalRequest e s r ctx
      | TokenSigner _ \<Rightarrow> go_bind (Token_BuildCanonicalRequest e s (SignedLookups s) r ctx) (\<lambda>ctx. Ret (r, ctx))
      | HMACSigner _ \<Rightarrow> go_bind (HMAC_BuildCanonicalRequest e s r ctx) (\<lambda>ctx. Ret (r, ctx)))"

definition CalculateSignature ::
  "httpenv \<Rightarrow> SignerConfig \<Rightarrow> Signer \<Rightarrow> Request \<Rightarrow> SigningCtx \<Rightarrow> SigningCtx outcome" where
  "CalculateSignature e s sg r ctx =
     (case sg of
        DefaultSigner \<Rightarrow>
          go_bind (Default_StringToSign s r ctx) (\<lambda>ctx.
            go_bind (digest e s (StringToSign ctx)) (\<lambda>d. Ret (ctx\<lparr>Signature := hex_EncodeToString d\<rparr>)))
      | TokenSigner ks \<Rightarrow>
          go_bind (Token_StringToSign s ks ctx) (\<lambda>ctx.
            go_bind (digest e s (StringToSign ctx)) (\<lambda>d. Ret (ctx\<lparr>Signature := hex_EncodeToString d\<rparr>)))
      | HMACSigner _ \<Rightarrow>
          (let ctx = HMAC_StringToSign s r ctx in
            go_bind (digest e s (StringToSign ctx)) (\<lambda>d. Ret (ctx\<lparr>Signature := base64 e d\<rparr>))))"

definition AttachRequest :: "SignerConfig \<Rightarrow> Signer \<Rightarrow> Request \<Rightarrow> SigningCtx \<Rightarrow> Request" where
  "AttachRequest s sg r ctx =
     (case sg of
        DefaultSigner \<Rightarrow> Default_AttachRequest s r ctx
      | TokenSigner _ \<Rightarrow> Token_AttachRequest s r ctx
      | HMACSigner _ \<Rightarrow> HMAC_AttachRequest s r ctx)"

text \<open>\<open>AttachData\<close> does nothing for the three signers.\<close>

definition compute ::
  "httpenv \<Rightarrow> SignerConfig \<Rightarrow> Signer \<Rightarrow> Request \<Rightarrow> string \<Rightarrow> Time \<Rightarrow> (Request \<times> SigningCtx) outcome" where
  "compute e s sg r nonce signTime =
     go_bind (BuildCanonicalRequest e s sg r (newCtx nonce signTime)) (\<lambda>(r, ctx).
       go_bind (CalculateSignature e s sg r ctx) (\<lambda>ctx. Ret (r, ctx)))"

definition Sign :: "httpenv \<Rightarrow> SignerConfig \<Rightarrow> Signer \<Rightarrow> Request \<Rightarrow> string \<Rightarrow> Time \<Rightarrow> Request outcome" where
  "Sign e s sg r nonce signTime =
     go_bind (compute e s sg r nonce signTime) (\<lambda>(r, ctx). Ret (AttachRequest s sg r ctx))"

definition Verify :: "httpenv \<Rightarrow> SignerConfig \<Rightarrow> Signer \<Rightarrow> Request \<Rightarrow> string \<Rightarrow> Time \<Rightarrow> unit outcome" where
  "Verify e s sg r nonce signTime =
     go_bind (GetSignedRequestSignature r (SignatureHeaderKey s) (AuthScheme s) (AuthHeaderDelimiter s)) (\<lambda>sig.
       go_bind (compute e s sg r nonce signTime) (\<lambda>(r, ctx).
         if Signature ctx = sig then Ret () else Fail ErrInvalidSignature))"

definition BuildSigner :: "SignerOption list \<Rightarrow> SignerConfig \<Rightarrow> (SignerConfig \<times> Signer option) outcome" where
  "BuildSigner opts s0 = go_bind (build_config opts s0) (\<lambda>s. Ret (s, signer s))"

definition NewSignature :: "httpenv \<Rightarrow> SignerOption list \<Rightarrow> (SignerConfig \<times> Signer) outcome" where
  "NewSignature e opts =
     go_bind (NewSignerConfig e opts) (\<lambda>cfg.
       case signer cfg of
         Some sg \<Rightarrow> Ret (cfg, sg)
       | None \<Rightarrow> (case NewDefaultSigner cfg of (cfg, r) \<Rightarrow> go_bind r (\<lambda>sg. Ret (cfg, sg))))"

end
