(* ===== verification/HttpSignProps.thy ===== *)
theory HttpSignProps
  imports HttpSigner
begin

text \<open>
  Properties of request signing: escaping, times, the canonical strings, and that what a signer signs it
  verifies, proved once for a scheme of computing, attaching and extracting and interpreted for the default
  and the token signer.
\<close>

section \<open>Signing schemes\<close>

locale signing_scheme =
  fixes comp :: "'r \<Rightarrow> ('r \<times> 'c) outcome" and put_sig :: "'r \<Rightarrow> 'c \<Rightarrow> 'r"
    and read_sig :: "'r \<Rightarrow> 's outcome" and sig :: "'c \<Rightarrow> 's" and good :: "'r \<Rightarrow> bool"
  assumes stable: "good r \<Longrightarrow> comp r = Ret (r1, c) \<Longrightarrow> \<exists>r2 c2. comp (put_sig r1 c) = Ret (r2, c2) \<and> sig c2 = sig c"
    and extracts: "good r \<Longrightarrow> comp r = Ret (r1, c) \<Longrightarrow> read_sig (put_sig r1 c) = Ret (sig c)"
begin

lemma signed_verifies:
  assumes "good r" "go_bind (comp r) (\<lambda>(r, c). Ret (put_sig r c)) = Ret r'"
  shows "go_bind (read_sig r') (\<lambda>g. go_bind (comp r') (\<lambda>(_, c). if sig c = g then Ret () else Fail err)) = Ret ()"
proof -
  from assms(2) obtain r1 c where c: "comp r = Ret (r1, c)" "r' = put_sig r1 c"
    by (auto simp: go_simps)
  from stable [OF assms(1) c(1)] obtain r2 c2 where "comp r' = Ret (r2, c2)" "sig c2 = sig c"
    using c(2) by auto
  with extracts [OF assms(1) c(1)] c(2) show ?thesis by simp
qed

end

section \<open>Attaching and extracting\<close>

definition no_head :: "string \<Rightarrow> string \<Rightarrow> bool" where
  "no_head delim s \<longleftrightarrow> delim \<noteq> [] \<and> hd delim \<notin> set s"

lemma header_set_same [simp]: "Header_Values (Header_Set h k v) k = [v]"
  by (simp add: Header_Values_def Header_Set_def)

lemma header_set_other:
  "CanonicalHeaderKey k' \<noteq> CanonicalHeaderKey k \<Longrightarrow> Header_Values (Header_Set h k v) k' = Header_Values h k'"
  by (simp add: Header_Values_def Header_Set_def)

lemma attach_header_fresh:
  "Header_Values (Header r) k = [] \<Longrightarrow> attach_header r k v = r\<lparr>Header := Header_Set (Header r) k v\<rparr>"
  by (simp add: attach_header_def)

lemma ValuesFromHeader_single:
  assumes "Header_Values (Header r) k = [scheme @ v]" "v \<noteq> []"
  shows "ValuesFromHeader r k scheme (length scheme) = Ret [v]"
  using assms by (cases v) (simp_all add: ValuesFromHeader_def)

lemma Index_signature: "Index (signatureElem @ g) signatureElem = Some 0"
  by (simp add: signatureElem_def HasPrefix_iff)

lemma find_signature_skip:
  "\<forall>p \<in> set ps. Index p signatureElem = None \<Longrightarrow> find_signature (ps @ qs) = find_signature qs"
  by (induction ps) auto

lemma find_signature_hit: "g \<noteq> [] \<Longrightarrow> find_signature ((signatureElem @ g) # qs) = Ret g"
  using Index_signature [of g] by (simp add: Let_def)

text \<open>A list of fields each followed by the delimiter, and the signature.\<close>

lemma concat_fields_Join:
  "concat (map (\<lambda>f. f @ D) fs) @ last_field = Join (fs @ [last_field]) D"
  by (induction fs) (auto simp: Join_Cons)

lemma extract_fields:
  assumes "Header_Values (Header r) k = [scheme @ concat (map (\<lambda>f. f @ D) fs) @ signatureElem @ g]" "g \<noteq> []"
    and "\<forall>f \<in> set fs. no_head D f \<and> Index f signatureElem = None" "no_head D signatureElem" "no_head D g"
  shows "GetSignedRequestSignature r k scheme D = Ret g"
proof -
  obtain d ds where D: "D = d # ds" using assms(4) by (cases D) (auto simp: no_head_def)
  let ?v = "concat (map (\<lambda>f. f @ D) fs) @ signatureElem @ g"
  have "?v \<noteq> []" by (simp add: signatureElem_def)
  from ValuesFromHeader_single [OF assms(1) this] have v: "ValuesFromHeader r k scheme (length scheme) = Ret [?v]" .
  have "Split ?v D = fs @ [signatureElem @ g]"
    unfolding concat_fields_Join D
    by (rule Split_Join) (use assms(3-5) D in \<open>auto simp: no_head_def\<close>)
  then show ?thesis
    using v find_signature_skip [of fs "[signatureElem @ g]"] find_signature_hit [OF assms(2)] assms(3)
    by (simp add: GetSignedRequestSignature_def)
qed

lemma hex_no_head: "no_head D ''0123456789abcdef'' \<Longrightarrow> no_head D (hex_EncodeToString s)"
  using set_hex [of s] unfolding no_head_def by blast

section \<open>The token signer\<close>

text \<open>Two requests that agree on what the signed lookups read.\<close>

definition lookup_header :: "string \<Rightarrow> string" where
  "lookup_header l = hd (Split (drop 7 l) ''>'')"

lemma valueFromLookupExp_cong:
  assumes "Header_Values (Header r') (hd (Split x ''>'')) = Header_Values (Header r) (hd (Split x ''>''))"
  shows "valueFromLookupExp r' x = valueFromLookupExp r x"
  using assms by (simp add: valueFromLookupExp_def ValuesFromHeader_def Let_def)

lemma Token_build_cong:
  assumes "URL r' = URL r" "Context r' = Context r"
    and "\<forall>(k, l) \<in> set ls. HasPrefix l ''header:'' \<longrightarrow>
           Header_Values (Header r') (lookup_header l) = Header_Values (Header r) (lookup_header l)"
  shows "Token_BuildCanonicalRequest e s ls r' ctx = Token_BuildCanonicalRequest e s ls r ctx"
  using assms(3)
proof (induction ls arbitrary: ctx)
  case (Cons kl ls)
  obtain k l where kl: "kl = (k, l)" by fastforce
  have ih: "Token_BuildCanonicalRequest e s ls r' c = Token_BuildCanonicalRequest e s ls r c" for c
    using Cons by auto
  have "HasPrefix l ''header:'' \<Longrightarrow> valueFromLookupExp r' (drop 7 l) = valueFromLookupExp r (drop 7 l)"
    using Cons.prems kl by (intro valueFromLookupExp_cong) (auto simp: lookup_header_def)
  with ih assms(1,2) kl show ?case by (simp cong: if_cong option.case_cong)
qed simp

text \<open>
  A configuration and a request for which the token signer's result can be verified: the request has no
  signature header yet, no signed lookup reads that header, the delimiter cannot occur in what is written
  into the header, and the digest is not empty.
\<close>

definition fields_clean :: "SignerConfig \<Rightarrow> SigningCtx \<Rightarrow> bool" where
  "fields_clean s ctx \<longleftrightarrow> (\<forall>h \<in> set (AuthHeaders s). no_head (AuthHeaderDelimiter s) (h @ ''='' @ val ctx h)
     \<and> Index (h @ ''='' @ val ctx h) signatureElem = None)"

definition delim_ok :: "SignerConfig \<Rightarrow> bool" where
  "delim_ok s \<longleftrightarrow> no_head (AuthHeaderDelimiter s) signatureElem \<and> no_head (AuthHeaderDelimiter s) ''0123456789abcdef''"

definition digest_ok :: "httpenv \<Rightarrow> SignerConfig \<Rightarrow> bool" where
  "digest_ok e s \<longleftrightarrow> (\<forall>x. digest e s x \<noteq> Ret [])"

definition token_good :: "httpenv \<Rightarrow> SignerConfig \<Rightarrow> Signer \<Rightarrow> string \<Rightarrow> Time \<Rightarrow> Request \<Rightarrow> bool" where
  "token_good e s sg nonce t r \<longleftrightarrow>
     (\<exists>ks. sg = TokenSigner ks) \<and> delim_ok s \<and> digest_ok e s
     \<and> Header_Values (Header r) (SignatureHeaderKey s) = []
     \<and> (\<forall>(k, l) \<in> set (SignedLookups s). HasPrefix l ''header:'' \<longrightarrow>
          CanonicalHeaderKey (lookup_header l) \<noteq> CanonicalHeaderKey (SignatureHeaderKey s))
     \<and> (\<forall>r1 ctx. compute e s sg r nonce t = Ret (r1, ctx) \<longrightarrow> fields_clean s ctx)"

lemma token_compute:
  assumes "compute e s (TokenSigner ks) r nonce t = Ret (r1, ctx)"
  shows "r1 = r" "\<exists>d x. digest e s x = Ret d \<and> Signature ctx = hex_EncodeToString d"
  using assms by (auto simp: compute_def BuildCanonicalRequest_def CalculateSignature_def go_simps)

lemma signature_nonempty:
  assumes "digest_ok e s" "digest e s x = Ret d" "g = hex_EncodeToString d"
  shows "g \<noteq> []"
proof -
  have "d \<noteq> []" using assms(1,2) by (auto simp: digest_ok_def)
  then have "length g \<noteq> 0" using assms(3) by simp
  then show ?thesis by auto
qed

interpretation token: signing_scheme "\<lambda>r. compute e s sg r nonce t" "AttachRequest s sg"
  "\<lambda>r. GetSignedRequestSignature r (SignatureHeaderKey s) (AuthScheme s) (AuthHeaderDelimiter s)"
  Signature "token_good e s sg nonce t"
  for e s sg nonce t
proof
  fix r r1 ctx
  assume g: "token_good e s sg nonce t r" and c: "compute e s sg r nonce t = Ret (r1, ctx)"
  then obtain ks where ks: "sg = TokenSigner ks" by (auto simp: token_good_def)
  note tc = token_compute [OF c [unfolded ks]]
  let ?v = "AuthScheme s @ concat (map (\<lambda>h. h @ ''='' @ val ctx h @ AuthHeaderDelimiter s) (AuthHeaders s))
        @ signatureElem @ Signature ctx"
  let ?r = "r\<lparr>Header := Header_Set (Header r) (SignatureHeaderKey s) ?v\<rparr>"
  have a: "AttachRequest s sg r1 ctx = ?r"
    using g by (simp add: AttachRequest_def ks Token_AttachRequest_def tc(1) attach_header_fresh token_good_def)
  have "Token_BuildCanonicalRequest e s (SignedLookups s) ?r x = Token_BuildCanonicalRequest e s (SignedLookups s) r x" for x
    using g by (intro Token_build_cong) (auto simp: token_good_def header_set_other)
  then have "compute e s sg ?r nonce t = go_bind (compute e s sg r nonce t) (\<lambda>(_, c). Ret (?r, c))"
    by (simp add: compute_def BuildCanonicalRequest_def CalculateSignature_def ks go_bind_assoc)
  with a c show "\<exists>r2 c2. compute e s sg (AttachRequest s sg r1 ctx) nonce t = Ret (r2, c2) \<and> Signature c2 = Signature ctx"
    by simp
  show "GetSignedRequestSignature (AttachRequest s sg r1 ctx) (SignatureHeaderKey s) (AuthScheme s) (AuthHeaderDelimiter s)
      = Ret (Signature ctx)"
  proof -
    have f: "fields_clean s ctx" "delim_ok s" "digest_ok e s" using g c by (auto simp: token_good_def)
    from tc(2) obtain d x where d: "digest e s x = Ret d" "Signature ctx = hex_EncodeToString d" by blast
    show ?thesis
      unfolding a
      by (rule extract_fields [where fs = "map (\<lambda>h. h @ ''='' @ val ctx h) (AuthHeaders s)"])
         (use f d signature_nonempty [OF f(3) d] hex_no_head in
           \<open>auto simp: comp_def fields_clean_def delim_ok_def\<close>)
  qed
qed

section \<open>The default signer\<close>

lemma BuildCanonicalHeaders_cong:
  assumes "Host r' = Host r" "url_Host (URL r') = url_Host (URL r)"
    and "\<forall>h \<in> set hs. EqualFold h ''host'' \<or> Header_Values (Header r') h = Header_Values (Header r) h"
  shows "BuildCanonicalHeaders hs r' ctx = BuildCanonicalHeaders hs r ctx"
  using assms(3)
proof (induction hs arbitrary: ctx)
  case (Cons h hs)
  then show ?case using assms(1,2) by (cases "EqualFold h ''host''") (simp_all add: Let_def)
qed simp

text \<open>What the canonical request depends on, and that it does not change the method.\<close>

definition same_input :: "httpenv \<Rightarrow> SignerConfig \<Rightarrow> Request \<Rightarrow> Request \<Rightarrow> bool" where
  "same_input e s r r' \<longleftrightarrow> Method r' = Method r \<and> Host r' = Host r \<and> url_Host (URL r') = url_Host (URL r)
     \<and> Opaque (URL r') = Opaque (URL r) \<and> EscapedPath (URL r') = EscapedPath (URL r)
     \<and> replace_plus (Query_Encode e (RawQuery (URL r'))) = replace_plus (Query_Encode e (RawQuery (URL r)))
     \<and> (\<forall>h \<in> set (ScopeHeaders s). EqualFold h ''host'' \<or> CanonicalHeaderKey h = CanonicalHeaderKey (TimestampKey s)
            \<or> Header_Values (Header r') h = Header_Values (Header r) h)
     \<and> Body r' = Body r"

lemma BuildBodyDigest_shape:
  "BuildBodyDigest s r ctx = Ret (r1, ctx1) \<Longrightarrow> r1 = r \<and> (\<exists>b. ctx1 = ctx\<lparr>BodyDigest := b\<rparr>
     \<and> (\<forall>r'. Body r' = Body r \<longrightarrow> BuildBodyDigest s r' ctx = Ret (r', ctx\<lparr>BodyDigest := b\<rparr>)))"
  by (auto simp: BuildBodyDigest_def go_simps split: option.splits if_splits)

definition stamped :: "httpenv \<Rightarrow> SignerConfig \<Rightarrow> SigningCtx \<Rightarrow> Request \<Rightarrow> Request" where
  "stamped e s ctx r = (if \<not> Dry s \<and> TimestampKey s \<noteq> []
     then r\<lparr>Header := Header_Set (Header r) (TimestampKey s) (FormatSignTime e (SignTime ctx) (DateFormat s))\<rparr> else r)"

lemma stamped_simps [simp]:
  "Method (stamped e s ctx r) = Method r" "Host (stamped e s ctx r) = Host r" "URL (stamped e s ctx r) = URL r"
  "Body (stamped e s ctx r) = Body r"
  by (simp_all add: stamped_def)

lemma stamped_values:
  "CanonicalHeaderKey h \<noteq> CanonicalHeaderKey (TimestampKey s) \<Longrightarrow>
     Header_Values (Header (stamped e s ctx r)) h = Header_Values (Header r) h"
  by (simp add: stamped_def header_set_other)

definition body_step :: "SignerConfig \<Rightarrow> Request \<Rightarrow> SigningCtx \<Rightarrow> (Request \<times> SigningCtx) outcome" where
  "body_step s r ctx = (if UnsignedPayload s then Ret (r, ctx) else BuildBodyDigest s r ctx)"

lemma body_step_shape:
  assumes "body_step s r ctx = Ret (r1, ctx1)"
  shows "r1 = r" "Body r' = Body r \<Longrightarrow> body_step s r' ctx = Ret (r', ctx1)"
  using assms BuildBodyDigest_shape [of s r ctx r1 ctx1] by (auto simp: body_step_def split: if_splits)

lemma default_build_eq:
  "Default_BuildCanonicalRequest e s r ctx0 =
     go_bind (body_step s (stamped e s ctx0 r)
        (ctx0\<lparr>SignedVals := (SignedVals ctx0)(TimestampKey s \<mapsto> FormatSignTime e (SignTime ctx0) (DateFormat s))\<rparr>)) (\<lambda>(r, ctx).
       go_bind (BuildCanonicalUri s r (BuildCanonicalHeaders (ScopeHeaders s) r (ctx\<lparr>CanonicalHeaders := []\<rparr>))) (\<lambda>ctx.
         case BuildCanonicalQueryString e r ctx of (r, ctx) \<Rightarrow>
           Ret (r, ctx\<lparr>SignedHeaders := Join (CanonicalHeaders ctx) '';''\<rparr>)))"
  by (simp add: Default_BuildCanonicalRequest_def body_step_def stamped_def Let_def)

lemma default_build:
  assumes "Default_BuildCanonicalRequest e s r ctx0 = Ret (r1, ctx)"
  shows "r1 = (stamped e s ctx0 r)\<lparr>URL := (URL r)\<lparr>RawQuery := replace_plus (Query_Encode e (RawQuery (URL r)))\<rparr>\<rparr>"
    and "same_input e s r r' \<Longrightarrow> \<not> Dry s \<Longrightarrow> TimestampKey s \<noteq> [] \<Longrightarrow>
      \<exists>r2. Default_BuildCanonicalRequest e s r' ctx0 = Ret (r2, ctx) \<and> Method r2 = Method r1"
proof -
  let ?c0 = "ctx0\<lparr>SignedVals := (SignedVals ctx0)(TimestampKey s \<mapsto> FormatSignTime e (SignTime ctx0) (DateFormat s))\<rparr>"
  let ?q = "replace_plus (Query_Encode e (RawQuery (URL r)))"
  from assms obtain ra ca cb where b: "body_step s (stamped e s ctx0 r) ?c0 = Ret (ra, ca)"
    and u: "BuildCanonicalUri s ra (BuildCanonicalHeaders (ScopeHeaders s) ra (ca\<lparr>CanonicalHeaders := []\<rparr>)) = Ret cb"
    and q: "BuildCanonicalQueryString e ra cb = (r1, cb\<lparr>CanonicalQueryString := ?q\<rparr>)"
    and c: "ctx = cb\<lparr>CanonicalQueryString := ?q, SignedHeaders := Join (CanonicalHeaders cb) '';''\<rparr>"
    using body_step_shape(1)
    by (fastforce simp: default_build_eq go_simps BuildCanonicalQueryString_def Let_def)
  have ra: "ra = stamped e s ctx0 r" by (rule body_step_shape(1) [OF b])
  then show r1: "r1 = (stamped e s ctx0 r)\<lparr>URL := (URL r)\<lparr>RawQuery := ?q\<rparr>\<rparr>"
    using q by (simp add: BuildCanonicalQueryString_def Let_def)
  assume same: "same_input e s r r'" and dt: "\<not> Dry s" "TimestampKey s \<noteq> []"
  let ?r' = "stamped e s ctx0 r'"
  have "body_step s ?r' ?c0 = Ret (?r', ca)"
    using body_step_shape(2) [OF b, of ?r'] same by (simp add: same_input_def)
  moreover have "BuildCanonicalHeaders (ScopeHeaders s) ?r' x = BuildCanonicalHeaders (ScopeHeaders s) ra x" for x
  proof (rule BuildCanonicalHeaders_cong)
    show "\<forall>h \<in> set (ScopeHeaders s). EqualFold h ''host'' \<or> Header_Values (Header ?r') h = Header_Values (Header ra) h"
    proof
      fix h assume h: "h \<in> set (ScopeHeaders s)"
      show "EqualFold h ''host'' \<or> Header_Values (Header ?r') h = Header_Values (Header ra) h"
      proof (cases "CanonicalHeaderKey h = CanonicalHeaderKey (TimestampKey s)")
        case True
        then show ?thesis using dt by (simp add: ra stamped_def Header_Values_def Header_Set_def)
      next
        case False
        then show ?thesis using h same by (auto simp: ra stamped_values same_input_def)
      qed
    qed
  qed (use same in \<open>simp_all add: ra same_input_def\<close>)
  moreover have "BuildCanonicalUri s ?r' x = BuildCanonicalUri s ra x" for x
    using same by (simp add: BuildCanonicalUri_def getURIPath_def ra same_input_def)
  ultimately show "\<exists>r2. Default_BuildCanonicalRequest e s r' ctx0 = Ret (r2, ctx) \<and> Method r2 = Method r1"
    using u c same r1 by (simp add: default_build_eq BuildCanonicalQueryString_def Let_def same_input_def)
qed

text \<open>
  A configuration and a request for which the default signer's result can be verified: as for the token
  signer, and the signature goes into a header other than the timestamp's, the header list of the signature is
  clean, and normalising a query twice changes nothing.
\<close>

definition default_good :: "httpenv \<Rightarrow> SignerConfig \<Rightarrow> Signer \<Rightarrow> string \<Rightarrow> Time \<Rightarrow> Request \<Rightarrow> bool" where
  "default_good e s sg nonce t r \<longleftrightarrow>
     sg = DefaultSigner \<and> delim_ok s \<and> digest_ok e s \<and> \<not> Dry s \<and> TimestampKey s \<noteq> [] \<and> SignatureQueryKey s = []
     \<and> (\<forall>q. replace_plus (Query_Encode e (replace_plus (Query_Encode e q))) = replace_plus (Query_Encode e q))
     \<and> Header_Values (Header r) (SignatureHeaderKey s) = []
     \<and> CanonicalHeaderKey (TimestampKey s) \<noteq> CanonicalHeaderKey (SignatureHeaderKey s)
     \<and> (\<forall>h \<in> set (ScopeHeaders s). EqualFold h ''host'' \<or> CanonicalHeaderKey h \<noteq> CanonicalHeaderKey (SignatureHeaderKey s))
     \<and> (\<forall>r1 ctx. compute e s sg r nonce t = Ret (r1, ctx) \<longrightarrow> fields_clean s ctx
          \<and> no_head (AuthHeaderDelimiter s) (signedHeadersElem @ SignedHeaders ctx)
          \<and> Index (signedHeadersElem @ SignedHeaders ctx) signatureElem = None)"

lemma default_compute:
  assumes "compute e s DefaultSigner r nonce t = Ret (r1, ctx)"
  shows "\<exists>ctx'. Default_BuildCanonicalRequest e s r (newCtx nonce t) = Ret (r1, ctx')
    \<and> CalculateSignature e s DefaultSigner r1 ctx' = Ret ctx"
    and "\<exists>d x. digest e s x = Ret d \<and> Signature ctx = hex_EncodeToString d"
  using assms by (auto simp: compute_def BuildCanonicalRequest_def CalculateSignature_def go_simps)

lemma CalculateSignature_method:
  "Method r' = Method r \<Longrightarrow> CalculateSignature e s DefaultSigner r' ctx = CalculateSignature e s DefaultSigner r ctx"
  by (simp add: CalculateSignature_def Default_StringToSign_def Let_def)

interpretation default: signing_scheme "\<lambda>r. compute e s sg r nonce t" "AttachRequest s sg"
  "\<lambda>r. GetSignedRequestSignature r (SignatureHeaderKey s) (AuthScheme s) (AuthHeaderDelimiter s)"
  Signature "default_good e s sg nonce t"
  for e s sg nonce t
proof
  fix r r1 ctx
  assume g: "default_good e s sg nonce t r" and c: "compute e s sg r nonce t = Ret (r1, ctx)"
  then have sg: "sg = DefaultSigner" by (simp add: default_good_def)
  from default_compute [OF c [unfolded sg]] obtain ctx' d x where
    b: "Default_BuildCanonicalRequest e s r (newCtx nonce t) = Ret (r1, ctx')"
    and cs: "CalculateSignature e s DefaultSigner r1 ctx' = Ret ctx"
    and d: "digest e s x = Ret d" "Signature ctx = hex_EncodeToString d" by blast
  note r1 = default_build(1) [OF b]
  have fresh: "Header_Values (Header r1) (SignatureHeaderKey s) = []"
    using g by (subst r1) (simp add: default_good_def stamped_values eq_commute)
  let ?v = "AuthScheme s @ concat (map (\<lambda>h. h @ ''='' @ val ctx h @ AuthHeaderDelimiter s) (AuthHeaders s))
         @ signedHeadersElem @ SignedHeaders ctx @ AuthHeaderDelimiter s @ signatureElem @ Signature ctx"
  let ?r = "r1\<lparr>Header := Header_Set (Header r1) (SignatureHeaderKey s) ?v\<rparr>"
  have a: "AttachRequest s sg r1 ctx = ?r"
    using g by (simp add: AttachRequest_def sg Default_AttachRequest_def attach_header_fresh [OF fresh] default_good_def)
  have "EqualFold h ''host'' \<or> CanonicalHeaderKey h = CanonicalHeaderKey (TimestampKey s)
      \<or> Header_Values (Header ?r) h = Header_Values (Header r) h" if "h \<in> set (ScopeHeaders s)" for h
  proof (cases "EqualFold h ''host'' \<or> CanonicalHeaderKey h = CanonicalHeaderKey (TimestampKey s)")
    case False
    moreover have "CanonicalHeaderKey h \<noteq> CanonicalHeaderKey (SignatureHeaderKey s)"
      using False that g by (auto simp: default_good_def)
    ultimately show ?thesis by (simp add: r1 header_set_other stamped_values)
  qed auto
  then have "same_input e s r ?r"
    using g by (simp add: same_input_def r1 default_good_def)
  from default_build(2) [OF b this] g obtain r2 where
    r2: "Default_BuildCanonicalRequest e s ?r (newCtx nonce t) = Ret (r2, ctx')" "Method r2 = Method r1"
    by (auto simp: default_good_def)
  have "compute e s sg ?r nonce t = Ret (r2, ctx)"
    using r2 cs CalculateSignature_method [OF r2(2)] by (simp add: compute_def BuildCanonicalRequest_def sg)
  then show "\<exists>r2 c2. compute e s sg (AttachRequest s sg r1 ctx) nonce t = Ret (r2, c2) \<and> Signature c2 = Signature ctx"
    unfolding a by blast
  show "GetSignedRequestSignature (AttachRequest s sg r1 ctx) (SignatureHeaderKey s) (AuthScheme s) (AuthHeaderDelimiter s)
      = Ret (Signature ctx)"
  proof -
    have f: "fields_clean s ctx" "delim_ok s" "digest_ok e s"
      "no_head (AuthHeaderDelimiter s) (signedHeadersElem @ SignedHeaders ctx)"
      "Index (signedHeadersElem @ SignedHeaders ctx) signatureElem = None"
      using g c by (auto simp: default_good_def)
    show ?thesis
      unfolding a
      by (rule extract_fields [where fs = "map (\<lambda>h. h @ ''='' @ val ctx h) (AuthHeaders s) @ [signedHeadersElem @ SignedHeaders ctx]"])
         (use f d signature_nonempty [OF f(3) d] hex_no_head in
           \<open>auto simp: comp_def fields_clean_def delim_ok_def\<close>)
  qed
qed

section \<open>What is signed is verified\<close>


text \<open>
  A token signer over the header \<open>X-Token\<close> and the timestamp; the digest is the identity behind a marker,
  and the query encoder leaves the query alone.
\<close>

definition demo_http :: httpenv where
  "demo_http = \<lparr>sha1 = (\<lambda>s. CHR ''#'' # s), sha256 = (\<lambda>s. CHR ''#'' # s), hmac = (\<lambda>h k s. h (k @ s)),
     base64 = (\<lambda>s. s), Query_Encode = (\<lambda>q. q), URL_String = Path, time_Format = (\<lambda>t l. l),
     time_Parse = (\<lambda>l s. Fail (Errorf l)), random_source = (\<lambda>_. 0)\<rparr>"

definition demo_sconfig :: SignerConfig where
  "demo_sconfig = (DefaultSignerConfig demo_http)\<lparr>SignedLookups := [(''timestamp'', ''header:timestamp''), (''token'', ''header:X-Token'')],
     SignatureHeaderKey := ''Authorization'', AuthScheme := ''TOKEN ''\<rparr>"

definition demo_request :: Request where
  "demo_request = \<lparr>Method = ''GET'', Header = (\<lambda>k. if k = ''X-Token'' then [''abc''] else []), Host = ''h'',
     URL = \<lparr>Opaque = [], Path = ''/p'', EscapedPath = ''/p'', url_Host = ''h'', RawQuery = [], Fragment = []\<rparr>,
     Body = None, Context = Map.empty\<rparr>"

definition demo_token :: Signer where "demo_token = TokenSigner [''timestamp'', ''token'']"

lemma demo_canonical:
  "CanonicalHeaderKey ''Authorization'' = ''Authorization''" "CanonicalHeaderKey ''X-Token'' = ''X-Token''"
  "CanonicalHeaderKey ''timestamp'' = ''Timestamp''"
  by (simp_all add: CanonicalHeaderKey_def header_byte_def is_digit_def upper_char_def lower_char_def char_of_def bit_0)

lemma demo_token_good: "token_good demo_http demo_sconfig demo_token [] \<lparr>unix = 9, loc = UTC\<rparr> demo_request"
proof -
  have "Split (drop 7 ''header:timestamp'') ''>'' = [''timestamp'']" "Split (drop 7 ''header:X-Token'') ''>'' = [''X-Token'']"
    by (simp_all add: Split_char_simps)
  then have l: "lookup_header ''header:timestamp'' = ''timestamp''" "lookup_header ''header:X-Token'' = ''X-Token''"
    by (simp_all add: lookup_header_def)
  show ?thesis
    by (simp add: token_good_def demo_token_def delim_ok_def digest_ok_def demo_sconfig_def DefaultSignerConfig_def no_head_def
        signatureElem_def digest_def AlgorithmSha1_def demo_http_def GetAccessKeySecret_def map_get_def demo_request_def
        Header_Values_def demo_canonical l fields_clean_def)
qed


section \<open>The canonical string\<close>

lemma token_string_Join:
  assumes "Token_StringToSign s ks ctx = Ret c"
  shows "ks \<noteq> []" "StringToSign c = Join (map (\<lambda>k. k @ ''='' @ val ctx k) ks) (Delimiter s)"
proof -
  show ks: "ks \<noteq> []" using assms by (auto simp: Token_StringToSign_def split: if_splits)
  have "concat (map (\<lambda>k. k @ ''='' @ val ctx k @ Delimiter s) (butlast ks))
      = concat (map (\<lambda>f. f @ Delimiter s) (map (\<lambda>k. k @ ''='' @ val ctx k) (butlast ks)))"
    by (simp add: comp_def)
  then have "StringToSign c = Join (map (\<lambda>k. k @ ''='' @ val ctx k) (butlast ks) @ [last ks @ ''='' @ val ctx (last ks)]) (Delimiter s)"
    using assms ks by (auto simp: Token_StringToSign_def concat_fields_Join [symmetric])
  also have "map (\<lambda>k. k @ ''='' @ val ctx k) (butlast ks) @ [last ks @ ''='' @ val ctx (last ks)]
      = map (\<lambda>k. k @ ''='' @ val ctx k) (butlast ks @ [last ks])" by simp
  finally show "StringToSign c = Join (map (\<lambda>k. k @ ''='' @ val ctx k) ks) (Delimiter s)" using ks by simp
qed

text \<open>
  the token signer's string to sign determines every signed value: two contexts with the same string
  agree on all signed keys, as long as the first character of the delimiter occurs in no key and no value.  So a
  signature, up to collisions of the digest, cannot be moved to a request with another signed value.
\<close>

theorem token_string_injective:
  assumes "Token_StringToSign s ks ctx1 = Ret c1" "Token_StringToSign s ks ctx2 = Ret c2"
    and "StringToSign c1 = StringToSign c2" "k \<in> set ks"
    and "\<forall>k \<in> set ks. no_head (Delimiter s) (k @ ''='' @ val ctx1 k) \<and> no_head (Delimiter s) (k @ ''='' @ val ctx2 k)"
  shows "val ctx1 k = val ctx2 k"
proof -
  note j1 = token_string_Join [OF assms(1)] and j2 = token_string_Join [OF assms(2)]
  obtain d ds where d: "Delimiter s = d # ds" using assms(4,5) by (cases "Delimiter s") (auto simp: no_head_def)
  have "Split (Join (map (\<lambda>k. k @ ''='' @ val ctx k) ks) (d # ds)) (d # ds) = map (\<lambda>k. k @ ''='' @ val ctx k) ks"
    if "\<forall>k \<in> set ks. no_head (d # ds) (k @ ''='' @ val ctx k)" for ctx
    by (rule Split_Join) (use that j1(1) in \<open>auto simp: no_head_def\<close>)
  from this [of ctx1] this [of ctx2] assms(3,5)
  have "map (\<lambda>k. k @ ''='' @ val ctx1 k) ks = map (\<lambda>k. k @ ''='' @ val ctx2 k) ks"
    unfolding j1(2) j2(2) d by simp
  with assms(4) show ?thesis by simp
qed

theorem token_string_injective_witness:
  "\<not> (\<exists>c. Token_StringToSign demo_sconfig [''a''] ((newCtx [] \<lparr>unix = 0, loc = UTC\<rparr>)\<lparr>SignedVals := [''a'' \<mapsto> ''x'']\<rparr>) = Ret c
     \<and> (\<exists>c'. Token_StringToSign demo_sconfig [''a''] ((newCtx [] \<lparr>unix = 0, loc = UTC\<rparr>)\<lparr>SignedVals := [''a'' \<mapsto> ''y'']\<rparr>) = Ret c'
        \<and> StringToSign c = StringToSign c'))"
proof -
  let ?c = "\<lambda>v. (newCtx [] \<lparr>unix = 0, loc = UTC\<rparr>)\<lparr>SignedVals := [''a'' \<mapsto> v]\<rparr>"
  have v: "val (?c v) ''a'' = v" for v by (simp add: map_get_def)
  have "no_head (Delimiter demo_sconfig) (''a'' @ ''='' @ ''x'')" "no_head (Delimiter demo_sconfig) (''a'' @ ''='' @ ''y'')"
    by (simp_all add: no_head_def demo_sconfig_def DefaultSignerConfig_def)
  then show ?thesis using token_string_injective [of demo_sconfig "[''a'']" "?c ''x''" _ "?c ''y''" _ "''a''"] by (auto simp: map_get_def)
qed

section \<open>The digest of an absent body\<close>

text \<open>
  with the default algorithm, SHA-1, a request without a body and a request with an empty body get
  different body digests: the constant for the absent body has 32 digits (it is an MD5 sum), the
  digest of the empty body 40.  A client's request without a body therefore does not verify at a server, where
  the body of a request is never absent.
\<close>

theorem empty_body_digest_differs:
  assumes "length (sha1 e []) = 20" "Alg s = AlgorithmSha1 e" "Body r1 = None" "Body r2 = Some (Ret [])"
    and "BuildBodyDigest s r1 ctx = Ret (r1', c1)" "BuildBodyDigest s r2 ctx = Ret (r2', c2)"
  shows "BodyDigest c1 = emptyStringSHA1 \<and> BodyDigest c2 = hex_EncodeToString (sha1 e []) \<and> BodyDigest c1 \<noteq> BodyDigest c2"
proof -
  have b: "BodyDigest c1 = emptyStringSHA1" "BodyDigest c2 = hex_EncodeToString (sha1 e [])"
    using assms(2-) by (auto simp: BuildBodyDigest_def AlgorithmSha1_def run_hash_def)
  have "length (BodyDigest c1) = 32" "length (BodyDigest c2) = 40" using assms(1) b by (simp_all add: emptyStringSHA1_def)
  then have "length (BodyDigest c1) \<noteq> length (BodyDigest c2)" by simp
  then have "BodyDigest c1 \<noteq> BodyDigest c2" by (rule contrapos_nn) simp
  with b show ?thesis by simp
qed

theorem empty_body_digest_differs_witness:
  "\<exists>c1 c2. BuildBodyDigest (DefaultSignerConfig (demo_http\<lparr>sha1 := \<lambda>_. replicate 20 (CHR ''x'')\<rparr>)) demo_request
        (newCtx [] \<lparr>unix = 0, loc = UTC\<rparr>) = Ret (demo_request, c1)
     \<and> BuildBodyDigest (DefaultSignerConfig (demo_http\<lparr>sha1 := \<lambda>_. replicate 20 (CHR ''x'')\<rparr>)) (demo_request\<lparr>Body := Some (Ret [])\<rparr>)
        (newCtx [] \<lparr>unix = 0, loc = UTC\<rparr>) = Ret (demo_request\<lparr>Body := Some (Ret [])\<rparr>, c2) \<and> BodyDigest c1 \<noteq> BodyDigest c2"
proof -
  let ?e = "demo_http\<lparr>sha1 := \<lambda>_. replicate 20 (CHR ''x'')\<rparr>" and ?r = "demo_request\<lparr>Body := Some (Ret [])\<rparr>"
  let ?s = "DefaultSignerConfig ?e" and ?ctx = "newCtx [] \<lparr>unix = 0, loc = UTC\<rparr>"
  have "BuildBodyDigest ?s demo_request ?ctx = Ret (demo_request, ?ctx\<lparr>BodyDigest := emptyStringSHA1\<rparr>)"
    by (simp add: BuildBodyDigest_def DefaultSignerConfig_def AlgorithmSha1_def demo_request_def)
  moreover have "BuildBodyDigest ?s ?r ?ctx = Ret (?r, ?ctx\<lparr>BodyDigest := hex_EncodeToString (replicate 20 (CHR ''x''))\<rparr>)"
    by (simp add: BuildBodyDigest_def DefaultSignerConfig_def AlgorithmSha1_def run_hash_def)
  moreover have "length (sha1 ?e []) = 20" "Alg ?s = AlgorithmSha1 ?e" "Body demo_request = None" "Body ?r = Some (Ret [])"
    by (simp_all add: DefaultSignerConfig_def demo_request_def)
  ultimately show ?thesis using empty_body_digest_differs by blast
qed

section \<open>Paths and times\<close>

text \<open>Percent-decoding, the reference for \<open>EscapePath\<close>.\<close>

definition unhex :: "char \<Rightarrow> nat" where
  "unhex c = (if is_digit c then byte c - 48 else byte c - 55)"

fun unescape :: "string \<Rightarrow> string" where
  "unescape (c # a # b # cs) =
     (if c = CHR ''%'' then char_of (unhex a * 16 + unhex b) # unescape cs else c # unescape (a # b # cs))"
| "unescape (c # cs) = c # unescape cs"
| "unescape [] = []"

lemma unhex_HEX: "n < 16 \<Longrightarrow> unhex (HEX_digit n) = n"
proof -
  assume "n < 16"
  then have "n \<in> set [0..<16]" by simp
  moreover have "list_all (\<lambda>n. unhex (HEX_digit n) = n) [0..<16]"
    by (simp add: upt_rec unhex_def HEX_digit_def is_digit_def)
  ultimately show ?thesis by (simp only: list_all_iff)
qed

lemma unescape_plain: "c \<noteq> CHR ''%'' \<Longrightarrow> unescape (c # cs) = c # unescape cs"
  by (cases cs; cases "tl cs") auto

text \<open>
  \<open>EscapePath\<close> loses nothing: percent-decoding its result gives the path back, with the slash
  encoded or not, and it produces only unreserved characters, the percent sign and, if asked for, the slash.
\<close>

theorem escape_path_roundtrip:
  "unescape (EscapePath p encodeSep) = p
   \<and> set (EscapePath p encodeSep) \<subseteq> {c. noEscape c \<or> c = CHR ''%'' \<or> (c = CHR ''/'' \<and> \<not> encodeSep)}"
proof (induction p)
  case (Cons c p)
  have d: "byte c div 16 < 16" "byte c mod 16 < 16"
    using nat_of_char_less_256 [of c] by (simp_all add: less_mult_imp_div_less)
  have n: "noEscape (HEX_digit n)" if "n < 16" for n
  proof -
    have "list_all (\<lambda>n. noEscape (HEX_digit n)) [0..<16]" by (simp add: upt_rec noEscape_def HEX_digit_def)
    with that show ?thesis by (simp add: list_all_iff)
  qed
  have p: "\<not> noEscape CHR ''%''" by (simp add: noEscape_def)
  show ?case
  proof (cases "noEscape c \<or> (c = CHR ''/'' \<and> \<not> encodeSep)")
    case True
    with p have "c \<noteq> CHR ''%''" by auto
    with True Cons show ?thesis by (auto simp: unescape_plain)
  next
    case False
    have "unhex (HEX_digit (byte c div 16)) * 16 + unhex (HEX_digit (byte c mod 16)) = byte c"
      using d by (simp add: unhex_HEX)
    with False Cons n d show ?thesis by auto
  qed
qed simp

text \<open>
  a signing time in the default layout survives being written and read: the text of the Unix time
  of any instant in the 64-bit range parses back to that instant.
\<close>

theorem sign_time_roundtrip:
  assumes "in_int64 (unix t)"
  shows "ParseSignTime e [] (FormatSignTime e t []) (loc t) = Ret t"
  using Atoi_Itoa [OF assms] by (simp add: ParseSignTime_def FormatSignTime_def)

theorem sign_time_roundtrip_witness:
  "ParseSignTime demo_http [] (FormatSignTime demo_http \<lparr>unix = -62135596800, loc = UTC\<rparr> []) UTC
     = Ret \<lparr>unix = -62135596800, loc = UTC\<rparr>"
  using sign_time_roundtrip [of "\<lparr>unix = -62135596800, loc = UTC\<rparr>" demo_http] by simp

end
