(* ===== verification/Security.thy ===== *)
theory Security
  imports GoStrings
begin

text \<open>
  Model of \<open>pkg/security\<close>: identities and principals, the principal in a context, the authorizer
  interface with its process-wide default, and the matching of resource patterns.  The claims of a
  token are a type of the JWT library; the library's \<open>GetSubject\<close> is a parameter.
\<close>

section \<open>Identities and principals\<close>

record 'c GenericIdentity =
  claims :: 'c

record 'c GenericPrincipal =
  GenericIdentity :: "'c GenericIdentity"

definition PrincipalContextKey :: string where "PrincipalContextKey = ''woocoo_user''"

definition Identity :: "'c GenericPrincipal \<Rightarrow> 'c GenericIdentity" where
  "Identity p = GenericIdentity p"

definition Name_identity :: "('c \<Rightarrow> string \<times> go_error option) \<Rightarrow> 'c GenericIdentity \<Rightarrow> string" where
  "Name_identity GetSubject i = fst (GetSubject (claims i))"

definition Claims :: "'c GenericIdentity \<Rightarrow> 'c" where
  "Claims i = claims i"

definition NewGenericPrincipalByClaims :: "'c \<Rightarrow> 'c GenericPrincipal" where
  "NewGenericPrincipalByClaims c = \<lparr>GenericIdentity = \<lparr>claims = c\<rparr>\<rparr>"

text \<open>
  A context maps keys to values; a value is a principal or something else, which the type assertion
  of \<open>FromContext\<close> tells apart.
\<close>

datatype 'c ctxval = CtxPrincipal "'c GenericPrincipal" | CtxOther string

type_synonym 'c gocontext = "string \<Rightarrow> 'c ctxval option"

definition WithContext :: "'c gocontext \<Rightarrow> 'c GenericPrincipal \<Rightarrow> 'c gocontext" where
  "WithContext ctx user = ctx(PrincipalContextKey \<mapsto> CtxPrincipal user)"

definition FromContext :: "'c gocontext \<Rightarrow> 'c GenericPrincipal option" where
  "FromContext ctx = (case ctx PrincipalContextKey of Some (CtxPrincipal p) \<Rightarrow> Some p | _ \<Rightarrow> None)"

lemma FromContext_WithContext [simp]: "FromContext (WithContext ctx p) = Some p"
  by (simp add: FromContext_def WithContext_def)

section \<open>Authorizers\<close>

datatype ArnKind = ArnKindWeb | ArnKindRpc | ArnKindGql

record 'u EvalArgs =
  User :: 'u
  Action :: string
  ActionVerb :: string
  Resource :: string

text \<open>An authorizer is the record of its methods; a nil pointer of arguments is \<open>None\<close>.\<close>

record ('x, 'u) Authorizer =
  Prepare :: "'x \<Rightarrow> ArnKind \<Rightarrow> string list \<Rightarrow> 'u EvalArgs option outcome"
  Eval :: "'x \<Rightarrow> 'u EvalArgs option \<Rightarrow> bool outcome"
  QueryAllowedResourceConditions :: "'x \<Rightarrow> 'u EvalArgs option \<Rightarrow> string list outcome"

definition noopAuthorizer :: "('x, 'u) Authorizer" where
  "noopAuthorizer =
     \<lparr>Prepare = (\<lambda>_ _ _. Ret None), Eval = (\<lambda>_ _. Ret True), QueryAllowedResourceConditions = (\<lambda>_ _. Ret [])\<rparr>"

text \<open>The package variable \<open>DefaultAuthorizer\<close> is the state of these two operations.\<close>

definition SetDefaultAuthorizer :: "('x, 'u) Authorizer option \<Rightarrow> ('x, 'u) Authorizer option \<Rightarrow> ('x, 'u) Authorizer option" where
  "SetDefaultAuthorizer au d = au"

definition IsAllowed :: "('x, 'u) Authorizer option \<Rightarrow> 'x \<Rightarrow> ArnKind \<Rightarrow> string list \<Rightarrow> bool outcome" where
  "IsAllowed d ctx kind parts =
     (case d of
        None \<Rightarrow> Panic ''invalid memory address or nil pointer dereference''
      | Some a \<Rightarrow> go_bind (Prepare a ctx kind parts) (\<lambda>args. Eval a ctx args))"

section \<open>Resource patterns\<close>

abbreviation star :: nat where "star \<equiv> 42"
abbreviation qmark :: nat where "qmark \<equiv> 63"

function deepMatchRune :: "nat list \<Rightarrow> nat list \<Rightarrow> bool \<Rightarrow> bool" where
  "deepMatchRune str [] simple = (str = [])"
| "deepMatchRune str (p # pattern) simple =
     (if p = qmark then
        (case str of [] \<Rightarrow> simple | _ # str' \<Rightarrow> deepMatchRune str' pattern simple)
      else if p = star then
        deepMatchRune str pattern simple
        \<or> (case str of [] \<Rightarrow> False | _ # str' \<Rightarrow> deepMatchRune str' (p # pattern) simple)
      else (case str of [] \<Rightarrow> False | c # str' \<Rightarrow> c = p \<and> deepMatchRune str' pattern simple))"
  by pat_completeness auto
termination by (relation "measure (\<lambda>(str, pattern, simple). length str + length pattern)") auto

definition rune_list :: "string \<Rightarrow> nat list" where "rune_list s = map fst (runes s)"

definition arnMatch :: "string \<Rightarrow> string \<Rightarrow> bool" where
  "arnMatch pattern resource =
     (if pattern = [] then pattern = resource
      else if pattern = ''*'' then True
      else deepMatchRune (rune_list resource) (rune_list pattern) False)"

definition Action_MatchResource :: "string \<Rightarrow> string \<Rightarrow> bool" where
  "Action_MatchResource a resource = arnMatch a resource"

definition Resource_MatchResource :: "string \<Rightarrow> string \<Rightarrow> bool" where
  "Resource_MatchResource r resource = arnMatch r resource"

section \<open>The language of a pattern\<close>

text \<open>
  What a pattern means: the resource can be cut into one part per pattern rune, where a star has any
  part, a question mark a part of one rune, and every other rune itself.
\<close>

definition part_ok :: "nat \<Rightarrow> nat list \<Rightarrow> bool" where
  "part_ok p part = (if p = star then True else if p = qmark then length part = 1 else part = [p])"

definition wildcard :: "nat list \<Rightarrow> nat list set" where
  "wildcard pattern = {concat parts | parts. list_all2 part_ok pattern parts}"

lemma wildcard_Nil [simp]: "wildcard [] = {[]}"
  by (auto simp: wildcard_def)

lemma wildcard_Cons: "s \<in> wildcard (p # ps) \<longleftrightarrow> (\<exists>u v. s = u @ v \<and> part_ok p u \<and> v \<in> wildcard ps)"
proof
  assume "s \<in> wildcard (p # ps)"
  then obtain parts where "s = concat parts" "list_all2 part_ok (p # ps) parts" by (auto simp: wildcard_def)
  then show "\<exists>u v. s = u @ v \<and> part_ok p u \<and> v \<in> wildcard ps"
    by (fastforce simp: list_all2_Cons1 wildcard_def)
next
  assume "\<exists>u v. s = u @ v \<and> part_ok p u \<and> v \<in> wildcard ps"
  then obtain u parts where "s = u @ concat parts" "part_ok p u" "list_all2 part_ok ps parts"
    by (auto simp: wildcard_def)
  then show "s \<in> wildcard (p # ps)"
    unfolding wildcard_def by (intro CollectI exI [of _ "u # parts"]) simp
qed

lemma wildcard_simps:
  "s \<in> wildcard (star # ps) \<longleftrightarrow> s \<in> wildcard ps \<or> (\<exists>c t. s = c # t \<and> t \<in> wildcard (star # ps))"
  "s \<in> wildcard (qmark # ps) \<longleftrightarrow> (\<exists>c t. s = c # t \<and> t \<in> wildcard ps)"
  "p \<noteq> star \<Longrightarrow> p \<noteq> qmark \<Longrightarrow> s \<in> wildcard (p # ps) \<longleftrightarrow> (\<exists>t. s = p # t \<and> t \<in> wildcard ps)"
proof -
  show "s \<in> wildcard (star # ps) \<longleftrightarrow> s \<in> wildcard ps \<or> (\<exists>c t. s = c # t \<and> t \<in> wildcard (star # ps))"
  proof
    assume "s \<in> wildcard (star # ps)"
    then obtain u v where "s = u @ v" "v \<in> wildcard ps" by (auto simp: wildcard_Cons)
    then show "s \<in> wildcard ps \<or> (\<exists>c t. s = c # t \<and> t \<in> wildcard (star # ps))"
      by (cases u) (auto simp: wildcard_Cons part_ok_def)
  next
    assume "s \<in> wildcard ps \<or> (\<exists>c t. s = c # t \<and> t \<in> wildcard (star # ps))"
    then show "s \<in> wildcard (star # ps)"
    proof
      assume "s \<in> wildcard ps"
      then show ?thesis unfolding wildcard_Cons by (intro exI [of _ "[]"] exI [of _ s]) (simp add: part_ok_def)
    next
      assume "\<exists>c t. s = c # t \<and> t \<in> wildcard (star # ps)"
      then obtain c u v where "s = c # u @ v" "v \<in> wildcard ps" by (auto simp: wildcard_Cons)
      then show ?thesis unfolding wildcard_Cons by (intro exI [of _ "c # u"] exI [of _ v]) (simp add: part_ok_def)
    qed
  qed
  show "s \<in> wildcard (qmark # ps) \<longleftrightarrow> (\<exists>c t. s = c # t \<and> t \<in> wildcard ps)"
    by (simp add: wildcard_Cons part_ok_def length_Suc_conv) (metis append_Cons append_Nil)
qed (auto simp: wildcard_Cons part_ok_def)

lemma deepMatchRune_wildcard: "deepMatchRune str pattern False \<longleftrightarrow> str \<in> wildcard pattern"
proof (induction str pattern False rule: deepMatchRune.induct)
  case (2 str p pattern)
  consider "p = qmark" | "p = star" | "p \<noteq> qmark" "p \<noteq> star" by blast
  then show ?case
  proof cases
    case 1
    with 2 show ?thesis by (cases str) (simp_all add: wildcard_simps(2))
  next
    case star: 2
    with 2 have "deepMatchRune str pattern False \<longleftrightarrow> str \<in> wildcard pattern" by simp
    moreover have "deepMatchRune t (star # pattern) False \<longleftrightarrow> t \<in> wildcard (star # pattern)" if "str = c # t" for c t
      using star 2 that by simp
    ultimately show ?thesis using star wildcard_simps(1) [of str pattern] by (cases str) auto
  next
    case 3
    with 2 show ?thesis by (cases str) (auto simp: wildcard_simps(3) [of p])
  qed
qed simp

lemma wildcard_all: "s \<in> wildcard [star]"
  unfolding wildcard_Cons by (intro exI [of _ s] exI [of _ "[]"]) (simp add: part_ok_def)

lemma rune_list_Nil [simp]: "rune_list s = [] \<longleftrightarrow> s = []"
  by (auto simp: rune_list_def runes.simps [of s] split: prod.splits)

lemma rune_list_star: "rune_list ''*'' = [star]"
  by (simp add: rune_list_def runes_ascii)

text \<open>
  C18: pattern matching of actions and resources is exactly the language of the pattern: a resource matches
  if and only if its runes can be cut into one part per rune of the pattern, any part for a star, one rune
  for a question mark and the rune itself otherwise.  The backtracking search, the two shortcuts and the
  end of the loop add and lose nothing.
\<close>

theorem arn_match_spec: "arnMatch pattern resource \<longleftrightarrow> rune_list resource \<in> wildcard (rune_list pattern)"
proof -
  have "rune_list [] = []" by simp
  then have "pattern = [] \<Longrightarrow> ?thesis" by (auto simp: arnMatch_def simp del: rune_list_Nil) (simp add: rune_list_Nil)+
  then show ?thesis
    by (auto simp: arnMatch_def deepMatchRune_wildcard rune_list_star wildcard_all)
qed

end
