(* ===== verification/WebExtractor.thy ===== *)
theory WebExtractor
  imports HttpSigner Security
begin

text \<open>
  The middleware base of \<open>web/handler\<close>: \<open>middleware.go\<close> (path skipping, the derivative context) and
  \<open>extractor.go\<close> (values from headers, query, path parameters, cookies and forms).  The context of a
  request belongs to the gin framework: its type is \<open>'c\<close> and the operations of it that the handlers call
  are the record \<open>gin\<close>.  A handler maps a context to a context or panics.
\<close>

section \<open>The framework's context\<close>

record 'c gin =
  c_Request :: "'c \<Rightarrow> Request"
  c_QueryArray :: "'c \<Rightarrow> string \<Rightarrow> string list"
  c_Params :: "'c \<Rightarrow> (string \<times> string) list"
  c_Cookies :: "'c \<Rightarrow> (string \<times> string) list"
  c_Form :: "'c \<Rightarrow> (string \<Rightarrow> string list) option"
  c_ParseMultipartForm :: "'c \<Rightarrow> 'c"
  c_IsAborted :: "'c \<Rightarrow> bool"
  c_ErrorList :: "'c \<Rightarrow> go_error list"
  c_Error :: "go_error \<Rightarrow> 'c \<Rightarrow> 'c"
  c_Abort :: "'c \<Rightarrow> 'c"
  c_Status :: "int \<Rightarrow> 'c \<Rightarrow> 'c"
  c_AbortWithStatus :: "int \<Rightarrow> 'c \<Rightarrow> 'c"
  c_AbortWithError :: "int \<Rightarrow> go_error \<Rightarrow> 'c \<Rightarrow> 'c"

text \<open>
  The framework's documentation: aborting stops the pending handlers, recording an error does not, the
  errors recorded are listed in order, and reading the form aborts nothing.
\<close>

definition gin_laws :: "'c gin \<Rightarrow> bool" where
  "gin_laws g \<longleftrightarrow>
     (\<forall>c e. c_IsAborted g (c_Error g e c) = c_IsAborted g c \<and> c_ErrorList g (c_Error g e c) = c_ErrorList g c @ [e])
     \<and> (\<forall>c n. c_IsAborted g (c_AbortWithStatus g n c) \<and> c_ErrorList g (c_AbortWithStatus g n c) = c_ErrorList g c)
     \<and> (\<forall>c n e. c_IsAborted g (c_AbortWithError g n e c) \<and> c_ErrorList g (c_AbortWithError g n e c) = c_ErrorList g c @ [e])
     \<and> (\<forall>c. c_IsAborted g (c_Abort g c) \<and> c_ErrorList g (c_Abort g c) = c_ErrorList g c)
     \<and> (\<forall>c n. c_IsAborted g (c_Status g n c) = c_IsAborted g c \<and> c_ErrorList g (c_Status g n c) = c_ErrorList g c)
     \<and> (\<forall>c. c_IsAborted g (c_ParseMultipartForm g c) = c_IsAborted g c
          \<and> c_ErrorList g (c_ParseMultipartForm g c) = c_ErrorList g c)"

lemma gin_lawsD:
  assumes "gin_laws g"
  shows "c_IsAborted g (c_Error g e c) = c_IsAborted g c" "c_ErrorList g (c_Error g e c) = c_ErrorList g c @ [e]"
    "c_IsAborted g (c_AbortWithStatus g n c)" "c_ErrorList g (c_AbortWithStatus g n c) = c_ErrorList g c"
    "c_IsAborted g (c_AbortWithError g n e c)" "c_ErrorList g (c_AbortWithError g n e c) = c_ErrorList g c @ [e]"
    "c_IsAborted g (c_Abort g c)" "c_ErrorList g (c_Abort g c) = c_ErrorList g c"
    "c_IsAborted g (c_Status g n c) = c_IsAborted g c" "c_ErrorList g (c_Status g n c) = c_ErrorList g c"
    "c_IsAborted g (c_ParseMultipartForm g c) = c_IsAborted g c"
    "c_ErrorList g (c_ParseMultipartForm g c) = c_ErrorList g c"
  using assms by (simp_all add: gin_laws_def)

type_synonym 'c handler = "'c \<Rightarrow> 'c outcome"
type_synonym 'c Skipper = "'c \<Rightarrow> bool"
type_synonym 'c ValuesExtractor = "'c \<Rightarrow> 'c \<times> string list outcome"

section \<open>Skipping paths\<close>

definition DefaultSkipper :: "'c Skipper" where "DefaultSkipper c = False"

definition StringsToMap :: "string list \<Rightarrow> string set" where
  "StringsToMap l = fold insert l {}"

definition PathSkip :: "string set \<Rightarrow> URL \<Rightarrow> bool" where
  "PathSkip pm url =
     (let src = TrimRightChar (Path url) CHR ''/'';
          src = (if src = [] \<or> hd src \<noteq> CHR ''/'' then CHR ''/'' # src else src)
      in src \<in> pm)"

definition PathSkipper :: "'c gin \<Rightarrow> string list \<Rightarrow> 'c Skipper" where
  "PathSkipper g exclude =
     (if exclude = [] then DefaultSkipper
      else let pm = StringsToMap exclude in (\<lambda>c. PathSkip pm (URL (c_Request g c))))"

section \<open>The derivative context\<close>

text \<open>
  The slot of the context that holds a derived context, and the context of the request: \<open>getd\<close> and \<open>setd\<close>
  are \<open>c.Get\<close> and \<open>c.Set\<close> on that slot, \<open>getr\<close> and \<open>setr\<close> the context of the request.
\<close>

record ('c, 'k) ctx_ops =
  getd :: "'c \<Rightarrow> 'k gocontext option"
  setd :: "'k gocontext \<Rightarrow> 'c \<Rightarrow> 'c"
  getr :: "'c \<Rightarrow> 'k gocontext"
  setr :: "'k gocontext \<Rightarrow> 'c \<Rightarrow> 'c"

definition SetDerivativeContext :: "('c, 'k) ctx_ops \<Rightarrow> 'c \<Rightarrow> 'k gocontext \<Rightarrow> 'c" where
  "SetDerivativeContext o1 c ctx = setd o1 ctx c"

text \<open>Without a derivative context the gin context itself is used, whose values are \<open>own\<close>.\<close>

definition GetDerivativeContext :: "('c, 'k) ctx_ops \<Rightarrow> ('c \<Rightarrow> 'k gocontext) \<Rightarrow> 'c \<Rightarrow> 'k gocontext" where
  "GetDerivativeContext o1 own c = (case getd o1 c of None \<Rightarrow> own c | Some ctx \<Rightarrow> ctx)"

definition DerivativeContextWithValue :: "('c, 'k) ctx_ops \<Rightarrow> 'c \<Rightarrow> string \<Rightarrow> 'k ctxval \<Rightarrow> 'c \<times> bool" where
  "DerivativeContextWithValue o1 c key v =
     (case getd o1 c of
        None \<Rightarrow> (setr o1 ((getr o1 c)(key \<mapsto> v)) c, False)
      | Some ctx \<Rightarrow> (SetDerivativeContext o1 c (ctx(key \<mapsto> v)), True))"

section \<open>Extractors\<close>

definition errQueryExtractorValueMissing :: go_error where
  "errQueryExtractorValueMissing = Sentinel ''missing value in the query string''"
definition errParamExtractorValueMissing :: go_error where
  "errParamExtractorValueMissing = Sentinel ''missing value in path params''"
definition errCookieExtractorValueMissing :: go_error where
  "errCookieExtractorValueMissing = Sentinel ''missing value in cookies''"
definition errFormExtractorValueMissing :: go_error where
  "errFormExtractorValueMissing = Sentinel ''missing value in the form''"

definition web_ValuesFromHeader :: "'c gin \<Rightarrow> string \<Rightarrow> string \<Rightarrow> 'c ValuesExtractor" where
  "web_ValuesFromHeader g header valuePrefix =
     (let prefixLen = length valuePrefix; header = CanonicalHeaderKey header in
      (\<lambda>c. (c, ValuesFromHeader (c_Request g c) header valuePrefix prefixLen)))"

definition ValuesFromQuery :: "'c gin \<Rightarrow> string \<Rightarrow> 'c ValuesExtractor" where
  "ValuesFromQuery g param c =
     (let result = c_QueryArray g c param in
      if result = [] then (c, Fail errQueryExtractorValueMissing)
      else if length result > ExtractorLimit - 1 then (c, Ret (take ExtractorLimit result))
      else (c, Ret result))"

text \<open>The loop of \<open>ValuesFromParam\<close> and \<open>ValuesFromCookie\<close>; \<open>i\<close> counts all pairs, matching or not.\<close>

fun named_values :: "string \<Rightarrow> nat \<Rightarrow> (string \<times> string) list \<Rightarrow> string list" where
  "named_values name i [] = []"
| "named_values name i ((k, v) # ps) =
     (if name = k then v # (if i \<ge> ExtractorLimit - 1 then [] else named_values name (i + 1) ps)
      else named_values name (i + 1) ps)"

definition ValuesFromParam :: "'c gin \<Rightarrow> string \<Rightarrow> 'c ValuesExtractor" where
  "ValuesFromParam g param c =
     (let result = named_values param 0 (c_Params g c) in
      (c, if result = [] then Fail errParamExtractorValueMissing else Ret result))"

definition ValuesFromCookie :: "'c gin \<Rightarrow> string \<Rightarrow> 'c ValuesExtractor" where
  "ValuesFromCookie g name c =
     (let cookies = c_Cookies g c in
      if cookies = [] then (c, Fail errCookieExtractorValueMissing)
      else let result = named_values name 0 cookies in
        (c, if result = [] then Fail errCookieExtractorValueMissing else Ret result))"

definition ValuesFromForm :: "'c gin \<Rightarrow> string \<Rightarrow> 'c ValuesExtractor" where
  "ValuesFromForm g name c =
     (let c = (if c_Form g c = None then c_ParseMultipartForm g c else c);
          values = (case c_Form g c of None \<Rightarrow> [] | Some f \<Rightarrow> f name)
      in if values = [] then (c, Fail errFormExtractorValueMissing)
         else if length values > ExtractorLimit - 1 then (c, Ret (take ExtractorLimit values))
         else (c, Ret values))"

text \<open>
  One source of \<open>CreateExtractors\<close>: \<open>None\<close> for a kind it does not know, which the loop passes over.
\<close>

definition header_prefix :: "string list \<Rightarrow> string \<Rightarrow> string" where
  "header_prefix parts authScheme =
     (if length parts > 2 then parts ! 2
      else if authScheme \<noteq> [] \<and> parts ! 1 = ''Authorization''
      then (if HasSuffix authScheme '' '' then authScheme else authScheme @ '' '')
      else [])"

definition source_extractor :: "'c gin \<Rightarrow> string list \<Rightarrow> string \<Rightarrow> 'c ValuesExtractor option" where
  "source_extractor g parts authScheme =
     (let kind = parts ! 0; name = parts ! 1 in
      if kind = ''query'' then Some (ValuesFromQuery g name)
      else if kind = ''param'' then Some (ValuesFromParam g name)
      else if kind = ''cookie'' then Some (ValuesFromCookie g name)
      else if kind = ''form'' then Some (ValuesFromForm g name)
      else if kind = ''header'' then Some (web_ValuesFromHeader g name (header_prefix parts authScheme))
      else None)"

fun create_loop :: "'c gin \<Rightarrow> string list \<Rightarrow> string \<Rightarrow> 'c ValuesExtractor list \<Rightarrow> 'c ValuesExtractor list outcome" where
  "create_loop g [] authScheme extractors = Ret extractors"
| "create_loop g (source # sources) authScheme extractors =
     (let parts = Split source '':'' in
      if length parts < 2
      then Fail (Errorf (''extractor source for lookup could not be split into needed parts: '' @ source))
      else create_loop g sources authScheme
        (case source_extractor g parts authScheme of None \<Rightarrow> extractors | Some f \<Rightarrow> extractors @ [f]))"

definition CreateExtractors :: "'c gin \<Rightarrow> string \<Rightarrow> string \<Rightarrow> 'c ValuesExtractor list outcome" where
  "CreateExtractors g lookups authScheme =
     (if lookups = [] then Ret []
      else go_bind (create_loop g (Split lookups '','') authScheme [])
        (\<lambda>extractors. if extractors = []
           then Fail (Errorf (''no extractors created from lookup sources: '' @ lookups @ '' '' @ authScheme))
           else Ret extractors))"

end
