(* ===== verification/GoPath.thy ===== *)
theory GoPath
  imports GoStrings
begin

text \<open>
  The functions of Go's \<open>path/filepath\<close> that the code calls, on a Unix system: \<open>Clean\<close>, \<open>Join\<close>, \<open>IsAbs\<close>,
  \<open>Dir\<close>, \<open>Abs\<close> and \<open>Ext\<close>; and the path resolution of a configuration, which several components share.
\<close>

definition IsAbs :: "string \<Rightarrow> bool" where "IsAbs p = HasPrefix p ''/''"

text \<open>
  The lexical normal form: empty and single-dot elements are dropped, a double dot removes the element
  before it, and is itself dropped at the root.
\<close>

fun clean_elems :: "bool \<Rightarrow> string list \<Rightarrow> string list \<Rightarrow> string list" where
  "clean_elems rooted stack [] = rev stack"
| "clean_elems rooted stack (e # es) =
     (if e = [] \<or> e = ''.'' then clean_elems rooted stack es
      else if e = ''..'' then
        (case stack of
           t # ts \<Rightarrow> if t = ''..'' then clean_elems rooted (e # stack) es else clean_elems rooted ts es
         | [] \<Rightarrow> if rooted then clean_elems rooted [] es else clean_elems rooted [e] es)
      else clean_elems rooted (e # stack) es)"

definition filepath_Clean :: "string \<Rightarrow> string" where
  "filepath_Clean p =
     (let es = clean_elems (IsAbs p) [] (Split p ''/'') in
      if IsAbs p then CHR ''/'' # Join es ''/'' else if es = [] then ''.'' else Join es ''/'')"

definition filepath_Join :: "string list \<Rightarrow> string" where
  "filepath_Join ps =
     (case dropWhile (\<lambda>p. p = []) ps of [] \<Rightarrow> [] | qs \<Rightarrow> filepath_Clean (Join qs ''/''))"

text \<open>\<open>filepath.Dir\<close>: all but the last element, cleaned; \<open>filepath.Abs\<close> resolves against the working directory.\<close>

definition filepath_Dir :: "string \<Rightarrow> string" where
  "filepath_Dir p = filepath_Clean (rev (dropWhile (\<lambda>c. c \<noteq> CHR ''/'') (rev p)))"

definition filepath_Abs :: "string outcome \<Rightarrow> string \<Rightarrow> string outcome" where
  "filepath_Abs cwd p = (if IsAbs p then Ret (filepath_Clean p) else go_bind cwd (\<lambda>d. Ret (filepath_Join [d, p])))"

text \<open>\<open>filepath.Ext\<close>: from the last dot of the last element; empty if it has none.\<close>

definition filepath_Ext :: "string \<Rightarrow> string" where
  "filepath_Ext p =
     (let (a, b) = (takeWhile (\<lambda>c. c \<noteq> CHR ''/'' \<and> c \<noteq> CHR ''.'') (rev p), dropWhile (\<lambda>c. c \<noteq> CHR ''/'' \<and> c \<noteq> CHR ''.'') (rev p))
      in case b of c # _ \<Rightarrow> if c = CHR ''.'' then c # rev a else [] | [] \<Rightarrow> [])"

text \<open>\<open>path.Base\<close>: the last element, without trailing slashes; \<open>path.Dir\<close> is \<open>filepath_Dir\<close>.\<close>

definition path_Base :: "string \<Rightarrow> string" where
  "path_Base p =
     (if p = [] then ''.''
      else let b = rev (takeWhile (\<lambda>c. c \<noteq> CHR ''/'') (dropWhile (\<lambda>c. c = CHR ''/'') (rev p)))
           in if b = [] then ''/'' else b)"

text \<open>\<open>Configuration.Abs\<close> of \<open>pkg/conf/config.go\<close>, for a configuration with base directory \<open>base\<close>.\<close>

definition conf_Abs :: "string \<Rightarrow> string \<Rightarrow> string" where
  "conf_Abs base path = (if path = [] then [] else if IsAbs path then path else filepath_Join [base, path])"

lemma IsAbs_Clean [simp]: "IsAbs p \<Longrightarrow> IsAbs (filepath_Clean p)"
  by (simp add: filepath_Clean_def Let_def IsAbs_def)

lemma IsAbs_append: "IsAbs p \<Longrightarrow> IsAbs (p @ q)"
  by (auto simp: IsAbs_def HasPrefix_iff)

lemma IsAbs_Join: "IsAbs p \<Longrightarrow> IsAbs (filepath_Join (p # ps))"
proof -
  assume a: "IsAbs p"
  then have "p \<noteq> []" by (auto simp: IsAbs_def)
  moreover have "IsAbs (Join (p # ps) ''/'')" using a by (cases ps) (simp_all add: IsAbs_append)
  ultimately show ?thesis by (simp add: filepath_Join_def)
qed

end
