(* ===== verification/JwtAuth.thy ===== *)
theory JwtAuth
  imports GoPath
begin

text \<open>
  Model of \<open>pkg/auth/jwt.go\<close>: the options of the JWT middleware, their initialisation, the default parser,
  key selection and token identifier, and the parsing of configured keys.  Parsing and verifying a token,
  decoding PEM keys, URLs and reading files are functions of the environment.
\<close>

definition ErrJWTMissing :: go_error where "ErrJWTMissing = Sentinel ''missing or malformed jwt''"
definition ErrJWTInvalid :: go_error where "ErrJWTInvalid = Sentinel ''invalid or expired jwt''"
definition ErrJWTClaims :: go_error where "ErrJWTClaims = Sentinel ''invalid jwt claims''"

definition AlgorithmHS256 :: string where "AlgorithmHS256 = ''HS256''"

text \<open>
  Dynamic values: a claim or header entry is a string or something else; a key is absent, a configured
  string, a byte slice or a key of the crypto libraries; claims are a map or a user's type.
\<close>

datatype jval = JString string | JOther

datatype 'k anykey = NoKey | StrKey string | BytesKey string | LibKey 'k

datatype jwtclaims = MapClaims "string \<Rightarrow> jval option" | OtherClaims string

record Token =
  tok_Alg :: string
  tok_Header :: "string \<Rightarrow> jval option"
  tok_Claims :: jwtclaims
  tok_Valid :: bool

record ('x, 'k) JWTOptions =
  SigningKey :: "'k anykey"
  SigningKeys :: "(string \<times> 'k anykey) list"
  SigningMethod :: string
  opt_Claims :: jwtclaims
  TokenLookup :: string
  jwt_AuthScheme :: string
  KeyFunc :: "(Token \<Rightarrow> 'k anykey outcome) option"
  ParseTokenFunc :: "('x \<Rightarrow> string \<Rightarrow> Token outcome) option"
  GetTokenIDFunc :: "(Token \<Rightarrow> (string \<times> bool) outcome) option"

record 'k jwtenv =
  jwt_Parse :: "string \<Rightarrow> (Token \<Rightarrow> 'k anykey outcome) \<Rightarrow> Token outcome"
  rsa_public :: "string \<Rightarrow> 'k outcome"
  rsa_private :: "string \<Rightarrow> 'k outcome"
  url_path :: "string \<Rightarrow> string outcome"
  os_ReadFile :: "string \<Rightarrow> string outcome"
  windows :: bool
  basedir :: string

definition NewJWTOptions :: "('x, 'k) JWTOptions" where
  "NewJWTOptions =
     \<lparr>SigningKey = NoKey, SigningKeys = [], SigningMethod = AlgorithmHS256, opt_Claims = MapClaims Map.empty,
      TokenLookup = ''header:Authorization'', jwt_AuthScheme = ''Bearer'', KeyFunc = None, ParseTokenFunc = None,
      GetTokenIDFunc = None\<rparr>"

section \<open>Keys\<close>

definition parseKey :: "'k jwtenv \<Rightarrow> string \<Rightarrow> string outcome" where
  "parseKey e keyStr =
     (if HasPrefix keyStr ''file://'' then
        go_bind (url_path e keyStr) (\<lambda>path.
          let path = (if windows e \<and> HasPrefix path ''/'' then drop 1 path else path);
              path = conf_Abs (basedir e) path;
              path = (if HasPrefix path ''/.'' then conf_Abs (basedir e) (drop 1 path) else path)
          in os_ReadFile e path)
      else Ret keyStr)"

definition ParseSigningKeyFromString :: "'k jwtenv \<Rightarrow> string \<Rightarrow> string \<Rightarrow> bool \<Rightarrow> 'k anykey outcome" where
  "ParseSigningKeyFromString e keystr method privateKey =
     go_bind (parseKey e keystr) (\<lambda>key.
       let m = map upper_char method in
       if m = ''RS256'' \<or> m = ''RS384'' \<or> m = ''RS512'' then
         go_bind (if privateKey then rsa_private e key else rsa_public e key) (\<lambda>k. Ret (LibKey k))
       else if m = ''ES256'' \<or> m = ''ES384'' \<or> m = ''ES512'' \<or> m = ''PS256'' \<or> m = ''PS384'' \<or> m = ''PS512''
            \<or> m = ''HS256'' \<or> m = ''HS384'' \<or> m = ''HS512'' then Ret (BytesKey key)
       else Fail (Errorf ''jwt middleware requires signing method''))"

section \<open>Default functions\<close>

text \<open>The text of the error is the verb \<open>%v\<close> of a dynamic value, of which only the prefix is kept.\<close>

definition defaultKeyFunc :: "('x, 'k) JWTOptions \<Rightarrow> Token \<Rightarrow> 'k anykey outcome" where
  "defaultKeyFunc opts t =
     (if tok_Alg t \<noteq> SigningMethod opts then Fail (Errorf ''unexpected jwt signing method='')
      else if SigningKeys opts \<noteq> [] then
        (case tok_Header t ''kid'' of
           Some (JString kid) \<Rightarrow>
             (case map_of (SigningKeys opts) kid of
                Some key \<Rightarrow> Ret key
              | None \<Rightarrow> Fail (Errorf ''unexpected jwt key id=''))
         | _ \<Rightarrow> Fail (Errorf ''unexpected jwt key id=''))
      else Ret (SigningKey opts))"

text \<open>
  The method value \<open>opts.defaultParseToken\<close> reads \<open>opts.KeyFunc\<close> when it is called; \<open>Init\<close> sets it first.
\<close>

definition defaultParseToken :: "'k jwtenv \<Rightarrow> (Token \<Rightarrow> 'k anykey outcome) \<Rightarrow> 'x \<Rightarrow> string \<Rightarrow> Token outcome" where
  "defaultParseToken e keyfunc ctx authStr =
     go_bind (jwt_Parse e authStr keyfunc) (\<lambda>token. if \<not> tok_Valid token then Fail ErrJWTInvalid else Ret token)"

definition defaultGetTokenID :: "Token \<Rightarrow> (string \<times> bool) outcome" where
  "defaultGetTokenID token =
     (case tok_Claims token of
        MapClaims m \<Rightarrow> (case m ''jti'' of Some (JString s) \<Rightarrow> Ret (s, True) | _ \<Rightarrow> Panic ''interface conversion'')
      | OtherClaims _ \<Rightarrow> Ret ([], False))"

definition Init :: "'k jwtenv \<Rightarrow> ('x, 'k) JWTOptions \<Rightarrow> ('x, 'k) JWTOptions outcome" where
  "Init e opts =
     (if SigningKey opts = NoKey \<and> SigningKeys opts = [] \<and> KeyFunc opts = None \<and> ParseTokenFunc opts = None
      then Fail (Errorf ''jwt middleware requires signing key'')
      else go_bind (case SigningKey opts of
                      StrKey sk \<Rightarrow> ParseSigningKeyFromString e sk (SigningMethod opts) False
                    | k \<Rightarrow> Ret k)
        (\<lambda>key.
           let opts = opts\<lparr>SigningKey := key\<rparr>;
               keyfunc = (case KeyFunc opts of None \<Rightarrow> defaultKeyFunc opts | Some f \<Rightarrow> f);
               parse = (case ParseTokenFunc opts of None \<Rightarrow> defaultParseToken e keyfunc | Some f \<Rightarrow> f);
               tokid = (case GetTokenIDFunc opts of None \<Rightarrow> defaultGetTokenID | Some f \<Rightarrow> f)
           in Ret (opts\<lparr>KeyFunc := Some keyfunc, ParseTokenFunc := Some parse, GetTokenIDFunc := Some tokid\<rparr>)))"

section \<open>What the defaults guarantee\<close>

lemma defaultKeyFunc_Ret:
  "defaultKeyFunc opts t = Ret k \<longleftrightarrow>
     tok_Alg t = SigningMethod opts
     \<and> (if SigningKeys opts = [] then k = SigningKey opts
        else \<exists>kid. tok_Header t ''kid'' = Some (JString kid) \<and> map_of (SigningKeys opts) kid = Some k)"
  by (auto simp: defaultKeyFunc_def split: option.splits jval.splits)

lemma Init_Ret:
  assumes "Init e opts = Ret opts'"
  shows "\<exists>kf pt ti. KeyFunc opts' = Some kf \<and> ParseTokenFunc opts' = Some pt \<and> GetTokenIDFunc opts' = Some ti
     \<and> (KeyFunc opts = None \<longrightarrow> kf = defaultKeyFunc (opts\<lparr>SigningKey := SigningKey opts'\<rparr>))
     \<and> (ParseTokenFunc opts = None \<longrightarrow> pt = defaultParseToken e kf)
     \<and> (GetTokenIDFunc opts = None \<longrightarrow> ti = defaultGetTokenID)
     \<and> TokenLookup opts' = TokenLookup opts \<and> jwt_AuthScheme opts' = jwt_AuthScheme opts"
  using assms by (auto simp: Init_def go_simps Let_def split: if_splits)

text \<open>
  What the token library documents of \<open>Parse\<close>: a token it returns is one for which the key function, asked
  before the token is marked valid, has supplied a key.
\<close>

definition parse_laws :: "'k jwtenv \<Rightarrow> bool" where
  "parse_laws e \<longleftrightarrow> (\<forall>s kf t. jwt_Parse e s kf = Ret t \<longrightarrow> (\<exists>k. kf (t\<lparr>tok_Valid := False\<rparr>) = Ret k))"

lemma defaultParseToken_alg:
  assumes "parse_laws e" "defaultParseToken e (defaultKeyFunc opts) ctx s = Ret t"
  shows "tok_Alg t = SigningMethod opts" "tok_Valid t"
    "SigningKeys opts \<noteq> [] \<Longrightarrow> \<exists>kid k. tok_Header t ''kid'' = Some (JString kid) \<and> map_of (SigningKeys opts) kid = Some k"
proof -
  from assms(2) have p: "jwt_Parse e s (defaultKeyFunc opts) = Ret t" and v: "tok_Valid t"
    by (auto simp: defaultParseToken_def go_simps split: if_splits)
  from p assms(1) obtain k where "defaultKeyFunc opts (t\<lparr>tok_Valid := False\<rparr>) = Ret k"
    unfolding parse_laws_def by blast
  then show "tok_Alg t = SigningMethod opts" "tok_Valid t"
    "SigningKeys opts \<noteq> [] \<Longrightarrow> \<exists>kid k. tok_Header t ''kid'' = Some (JString kid) \<and> map_of (SigningKeys opts) kid = Some k"
    using v by (auto simp: defaultKeyFunc_Ret)
qed

end
