(* ===== verification/WebAuth.thy ===== *)
theory WebAuth
  imports WebExtractor JwtAuth
begin

text \<open>
  The authentication middlewares of \<open>web/handler\<close>: \<open>option.go\<close>, \<open>keyauth.go\<close>, \<open>jwt.go\<close>, and the
  authorization middleware of \<open>web/handler/authz\<close>.  User functions that the configuration holds may change
  the context; the store of token identifiers is a cache, whose state \<open>'s\<close> is passed beside the context.
\<close>

section \<open>Middleware options\<close>

type_synonym 'cfg MiddlewareOption = "('cfg \<Rightarrow> 'cfg) option \<Rightarrow> ('cfg \<Rightarrow> 'cfg) option"

definition WithMiddlewareConfig :: "('cfg \<Rightarrow> 'cfg) \<Rightarrow> 'cfg MiddlewareOption" where
  "WithMiddlewareConfig configFunc o1 = Some configFunc"

definition NewMiddlewareOption :: "'cfg MiddlewareOption list \<Rightarrow> ('cfg \<Rightarrow> 'cfg) option" where
  "NewMiddlewareOption options = fold (\<lambda>f o1. f o1) options None"

definition with_config :: "'cfg MiddlewareOption list \<Rightarrow> 'cfg \<Rightarrow> 'cfg" where
  "with_config opts cfg = (case NewMiddlewareOption opts of None \<Rightarrow> cfg | Some f \<Rightarrow> f cfg)"

section \<open>Key authentication\<close>

record 'c KeyAuthConfig =
  ka_Skipper :: "'c Skipper option"
  ka_Exclude :: "string list"
  KeyLookupFuncs :: "'c ValuesExtractor list"
  KeyLookup :: string
  ka_AuthScheme :: string
  Validator :: "('c \<Rightarrow> string \<Rightarrow> 'c \<times> bool outcome) option"
  ka_ErrorHandler :: "('c \<Rightarrow> go_error option \<Rightarrow> 'c \<times> go_error option) option"

definition defaultKeyAuthConfig :: "'c KeyAuthConfig" where
  "defaultKeyAuthConfig =
     \<lparr>ka_Skipper = None, ka_Exclude = [], KeyLookupFuncs = [], KeyLookup = ''header:X-Api-Key'', ka_AuthScheme = [],
      Validator = None, ka_ErrorHandler = None\<rparr>"

definition NewKeyAuth :: "'c KeyAuthConfig MiddlewareOption list \<Rightarrow> 'c KeyAuthConfig" where
  "NewKeyAuth opts = with_config opts defaultKeyAuthConfig"

text \<open>The two nested loops: the context, whether a key was accepted, and the last errors.\<close>

fun keyauth_keys ::
  "('c \<Rightarrow> string \<Rightarrow> 'c \<times> bool outcome) \<Rightarrow> string list \<Rightarrow> 'c \<Rightarrow> go_error option \<Rightarrow> ('c \<times> bool \<times> go_error option) outcome" where
  "keyauth_keys validator [] c lastAuthErr = Ret (c, False, lastAuthErr)"
| "keyauth_keys validator (key # keys) c lastAuthErr =
     (case validator c key of
        (c, Fail err) \<Rightarrow> keyauth_keys validator keys c (Some err)
      | (c, Panic p) \<Rightarrow> Panic p
      | (c, Ret ok) \<Rightarrow> if ok then Ret (c, True, lastAuthErr) else keyauth_keys validator keys c lastAuthErr)"

fun keyauth_loop ::
  "('c \<Rightarrow> string \<Rightarrow> 'c \<times> bool outcome) \<Rightarrow> 'c ValuesExtractor list \<Rightarrow> 'c \<Rightarrow> go_error option \<Rightarrow> go_error option
   \<Rightarrow> ('c \<times> bool \<times> go_error option \<times> go_error option) outcome" where
  "keyauth_loop validator [] c lastExtractorErr lastAuthErr = Ret (c, False, lastExtractorErr, lastAuthErr)"
| "keyauth_loop validator (extractor # extractors) c lastExtractorErr lastAuthErr =
     (case extractor c of
        (c, Fail err) \<Rightarrow> keyauth_loop validator extractors c (Some err) lastAuthErr
      | (c, Panic p) \<Rightarrow> Panic p
      | (c, Ret keys) \<Rightarrow>
          go_bind (keyauth_keys validator keys c lastAuthErr) (\<lambda>(c, ok, lastAuthErr).
            if ok then Ret (c, True, lastExtractorErr, lastAuthErr)
            else keyauth_loop validator extractors c lastExtractorErr lastAuthErr))"

text \<open>After the loops: the error that the request is refused with, if there is one.\<close>

definition keyauth_finish :: "'c gin \<Rightarrow> 'c KeyAuthConfig \<Rightarrow> 'c \<Rightarrow> go_error option \<Rightarrow> go_error option \<Rightarrow> 'c" where
  "keyauth_finish g opts c lastExtractorErr lastAuthErr =
     (let err = (case lastAuthErr of None \<Rightarrow> lastExtractorErr | Some e \<Rightarrow> Some e);
          (c, err) = (case ka_ErrorHandler opts of None \<Rightarrow> (c, err) | Some h \<Rightarrow> h c err)
      in case err of None \<Rightarrow> c | Some e \<Rightarrow> c_AbortWithStatus g 401 (c_Error g e c))"

definition keyAuthWithOption :: "'c gin \<Rightarrow> 'c KeyAuthConfig \<Rightarrow> 'c handler outcome" where
  "keyAuthWithOption g opts =
     (case CreateExtractors g (KeyLookup opts) (ka_AuthScheme opts) of
        Fail err \<Rightarrow> Panic ''CreateExtractors''
      | Panic p \<Rightarrow> Panic p
      | Ret extractors \<Rightarrow>
          let extractors = (if KeyLookupFuncs opts \<noteq> [] then KeyLookupFuncs opts @ extractors else extractors) in
          case Validator opts of
            None \<Rightarrow> Panic ''keyauth middleware validator must be set''
          | Some validator \<Rightarrow>
              Ret (\<lambda>c.
                if the (ka_Skipper opts) c then Ret c
                else go_bind (keyauth_loop validator extractors c None None) (\<lambda>(c, ok, lastExtractorErr, lastAuthErr).
                  if ok then Ret c else Ret (keyauth_finish g opts c lastExtractorErr lastAuthErr))))"

definition KeyAuth_ApplyFunc ::
  "'c gin \<Rightarrow> ('c KeyAuthConfig \<Rightarrow> 'c KeyAuthConfig outcome) \<Rightarrow> 'c KeyAuthConfig \<Rightarrow> 'c handler outcome" where
  "KeyAuth_ApplyFunc g unmarshal cfg0 =
     (case unmarshal cfg0 of
        Fail err \<Rightarrow> Panic ''Unmarshal''
      | Panic p \<Rightarrow> Panic p
      | Ret cfg \<Rightarrow>
          keyAuthWithOption g
            (case ka_Skipper cfg of None \<Rightarrow> cfg\<lparr>ka_Skipper := Some (PathSkipper g (ka_Exclude cfg))\<rparr> | Some _ \<Rightarrow> cfg))"

section \<open>JSON web tokens\<close>

text \<open>The operations of \<open>cache.Cache\<close> that the middlewares call on a store.\<close>

record 's store =
  store_Has :: "'s \<Rightarrow> string \<Rightarrow> 's \<times> bool"
  store_Del :: "'s \<Rightarrow> string \<Rightarrow> 's \<times> unit outcome"

record ('c, 'k) JWTConfig =
  JWTOptions :: "('c, 'k) JWTOptions"
  jwt_Skipper :: "'c Skipper option"
  jwt_Exclude :: "string list"
  TokenLookupFuncs :: "'c ValuesExtractor list"
  jwt_ErrorHandler :: "('c \<Rightarrow> go_error option \<Rightarrow> 'c \<times> go_error option) option"
  TokenStoreKey :: string
  WithPrincipalContext :: "('c \<Rightarrow> Token \<Rightarrow> 'c \<times> unit outcome) option"

record ('c, 'k, 's) JWTMiddleware =
  Config :: "('c, 'k) JWTConfig"
  tokenStore :: "'s store option"

definition ErrTokenUnverifiable :: go_error where "ErrTokenUnverifiable = Sentinel ''token is unverifiable''"
definition ErrTokenInvalidClaims :: go_error where "ErrTokenInvalidClaims = Sentinel ''token has invalid claims''"

definition default_WithPrincipalContext :: "('c, jwtclaims) ctx_ops \<Rightarrow> 'c \<Rightarrow> Token \<Rightarrow> 'c \<times> unit outcome" where
  "default_WithPrincipalContext o1 c token =
     (case tok_Claims token of
        OtherClaims _ \<Rightarrow> (c, Fail ErrJWTClaims)
      | MapClaims m \<Rightarrow>
          (fst (DerivativeContextWithValue o1 c PrincipalContextKey
             (CtxPrincipal (NewGenericPrincipalByClaims (MapClaims m)))), Ret ()))"

definition NewJWT :: "('c, jwtclaims) ctx_ops \<Rightarrow> ('c, 'k) JWTConfig MiddlewareOption list \<Rightarrow> ('c, 'k, 's) JWTMiddleware" where
  "NewJWT o1 opts =
     (let cfg = with_config opts
        \<lparr>JWTOptions = NewJWTOptions, jwt_Skipper = None, jwt_Exclude = [], TokenLookupFuncs = [], jwt_ErrorHandler = None,
         TokenStoreKey = [], WithPrincipalContext = None\<rparr>;
          cfg = (case WithPrincipalContext cfg of
                   None \<Rightarrow> cfg\<lparr>WithPrincipalContext := Some (default_WithPrincipalContext o1)\<rparr> | Some _ \<Rightarrow> cfg)
      in \<lparr>Config = cfg, tokenStore = None\<rparr>)"

text \<open>The default logout handler; the method values of the options are set by \<open>Init\<close>, a nil one panics.\<close>

definition LogoutHandler ::
  "'c gin \<Rightarrow> ('c, jwtclaims) ctx_ops \<Rightarrow> ('c \<Rightarrow> jwtclaims gocontext) \<Rightarrow> ('c, 'k, 's) JWTMiddleware \<Rightarrow> 's \<Rightarrow> 'c \<Rightarrow> ('s \<times> 'c) outcome" where
  "LogoutHandler g o1 own mw s c =
     (case FromContext (GetDerivativeContext o1 own c) of
        None \<Rightarrow> Ret (s, c)
      | Some gp \<Rightarrow>
          (case GetTokenIDFunc (JWTOptions (Config mw)) of
             None \<Rightarrow> Panic ''invalid memory address or nil pointer dereference''
           | Some getID \<Rightarrow>
               go_bind (getID \<lparr>tok_Alg = [], tok_Header = Map.empty, tok_Claims = Claims (Identity gp), tok_Valid = False\<rparr>)
                 (\<lambda>(jti, ok).
                    case tokenStore mw of
                      None \<Rightarrow> Ret (s, c)
                    | Some st \<Rightarrow>
                        if ok then
                          (case store_Del st s jti of
                             (s, Ret _) \<Rightarrow> Ret (s, c)
                           | (s, Fail err) \<Rightarrow> Ret (s, c_Error g err c)
                           | (s, Panic p) \<Rightarrow> Panic p)
                        else Ret (s, c))))"

definition HandleToken :: "('c, 'k, 's) JWTMiddleware \<Rightarrow> 's \<Rightarrow> 'c \<Rightarrow> string \<Rightarrow> 's \<times> Token outcome" where
  "HandleToken mw s ctx authStr =
     (case ParseTokenFunc (JWTOptions (Config mw)) of
        None \<Rightarrow> (s, Panic ''invalid memory address or nil pointer dereference'')
      | Some parse \<Rightarrow>
          (case parse ctx authStr of
             Fail err \<Rightarrow> (s, Fail err)
           | Panic p \<Rightarrow> (s, Panic p)
           | Ret token \<Rightarrow>
               (case tokenStore mw of
                  None \<Rightarrow> (s, Ret token)
                | Some st \<Rightarrow>
                    (case GetTokenIDFunc (JWTOptions (Config mw)) of
                       None \<Rightarrow> (s, Panic ''invalid memory address or nil pointer dereference'')
                     | Some getID \<Rightarrow>
                         (case getID token of
                            Panic p \<Rightarrow> (s, Panic p)
                          | Fail err \<Rightarrow> (s, Fail err)
                          | Ret (jti, ok) \<Rightarrow>
                              if ok then
                                (case store_Has st s jti of
                                   (s, exists) \<Rightarrow> (s, if \<not> exists then Fail ErrTokenUnverifiable else Ret token))
                              else (s, Fail ErrTokenInvalidClaims))))))"

text \<open>How the inner loop ends: the handler returns, breaks out of both loops, or has tried all tokens.\<close>

datatype flow = Returned | BrokeOuter | Exhausted

fun jwt_tokens ::
  "('c, 'k, 's) JWTMiddleware \<Rightarrow> string list \<Rightarrow> 's \<Rightarrow> 'c \<Rightarrow> go_error option \<Rightarrow> ('s \<times> 'c \<times> flow \<times> go_error option) outcome" where
  "jwt_tokens mw [] s c lastTokenErr = Ret (s, c, Exhausted, lastTokenErr)"
| "jwt_tokens mw (authStr # auths) s c lastTokenErr =
     (case HandleToken mw s c authStr of
        (s, Fail err) \<Rightarrow> jwt_tokens mw auths s c (Some err)
      | (s, Panic p) \<Rightarrow> Panic p
      | (s, Ret token) \<Rightarrow>
          (case WithPrincipalContext (Config mw) of
             None \<Rightarrow> Ret (s, c, Returned, lastTokenErr)
           | Some wpc \<Rightarrow>
               (case wpc c token of
                  (c, Fail err) \<Rightarrow> Ret (s, c, BrokeOuter, Some err)
                | (c, Panic p) \<Rightarrow> Panic p
                | (c, Ret _) \<Rightarrow> Ret (s, c, Returned, lastTokenErr))))"

fun jwt_loop ::
  "('c, 'k, 's) JWTMiddleware \<Rightarrow> 'c ValuesExtractor list \<Rightarrow> 's \<Rightarrow> 'c \<Rightarrow> go_error option \<Rightarrow> go_error option
   \<Rightarrow> ('s \<times> 'c \<times> bool \<times> go_error option \<times> go_error option) outcome" where
  "jwt_loop mw [] s c lastExtractorErr lastTokenErr = Ret (s, c, False, lastExtractorErr, lastTokenErr)"
| "jwt_loop mw (extractor # extractors) s c lastExtractorErr lastTokenErr =
     (case extractor c of
        (c, Fail err) \<Rightarrow> jwt_loop mw extractors s c (Some ErrJWTMissing) lastTokenErr
      | (c, Panic p) \<Rightarrow> Panic p
      | (c, Ret auths) \<Rightarrow>
          go_bind (jwt_tokens mw auths s c lastTokenErr) (\<lambda>(s, c, fl, lastTokenErr).
            case fl of
              Returned \<Rightarrow> Ret (s, c, True, lastExtractorErr, lastTokenErr)
            | BrokeOuter \<Rightarrow> Ret (s, c, False, lastExtractorErr, lastTokenErr)
            | Exhausted \<Rightarrow> jwt_loop mw extractors s c lastExtractorErr lastTokenErr))"

definition jwt_finish :: "'c gin \<Rightarrow> ('c, 'k) JWTConfig \<Rightarrow> 'c \<Rightarrow> go_error option \<Rightarrow> go_error option \<Rightarrow> 'c" where
  "jwt_finish g cfg c lastExtractorErr lastTokenErr =
     (let err = (case lastTokenErr of None \<Rightarrow> lastExtractorErr | Some e \<Rightarrow> Some e);
          (c, err) = (case jwt_ErrorHandler cfg of None \<Rightarrow> (c, err) | Some h \<Rightarrow> h c err)
      in case err of None \<Rightarrow> c | Some e \<Rightarrow> c_AbortWithError g 401 e c)"

definition jwt_middleware :: "'c gin \<Rightarrow> ('c, 'k, 's) JWTMiddleware \<Rightarrow> ('s \<Rightarrow> 'c \<Rightarrow> ('s \<times> 'c) outcome) outcome" where
  "jwt_middleware g mw =
     (let cfg = Config mw in
      case CreateExtractors g (TokenLookup (JWTOptions cfg)) (jwt_AuthScheme (JWTOptions cfg)) of
        Fail err \<Rightarrow> Panic ''CreateExtractors''
      | Panic p \<Rightarrow> Panic p
      | Ret extractors \<Rightarrow>
          let extractors = (if TokenLookupFuncs cfg \<noteq> [] then TokenLookupFuncs cfg @ extractors else extractors) in
          Ret (\<lambda>s c.
            if the (jwt_Skipper cfg) c then Ret (s, c)
            else go_bind (jwt_loop mw extractors s c None None) (\<lambda>(s, c, ok, lastExtractorErr, lastTokenErr).
              if ok then Ret (s, c) else Ret (s, jwt_finish g cfg c lastExtractorErr lastTokenErr))))"

text \<open>\<open>caches\<close> is \<open>cache.GetCache\<close> of the registry.\<close>

definition JWT_ApplyFunc ::
  "'c gin \<Rightarrow> 'k jwtenv \<Rightarrow> (string \<Rightarrow> 's store outcome) \<Rightarrow> (('c, 'k) JWTConfig \<Rightarrow> ('c, 'k) JWTConfig outcome)
   \<Rightarrow> ('c, 'k, 's) JWTMiddleware \<Rightarrow> ('s \<Rightarrow> 'c \<Rightarrow> ('s \<times> 'c) outcome) outcome" where
  "JWT_ApplyFunc g e caches unmarshal mw =
     (case go_bind (unmarshal (Config mw)) (\<lambda>cfg. go_bind (Init e (JWTOptions cfg)) (\<lambda>o1. Ret (cfg\<lparr>JWTOptions := o1\<rparr>))) of
        Fail err \<Rightarrow> Panic ''ApplyFunc''
      | Panic p \<Rightarrow> Panic p
      | Ret cfg \<Rightarrow>
          (case (if TokenStoreKey cfg \<noteq> [] then go_bind (caches (TokenStoreKey cfg)) (\<lambda>st. Ret (Some st)) else Ret (tokenStore mw)) of
             Fail err \<Rightarrow> Panic ''GetCache''
           | Panic p \<Rightarrow> Panic p
           | Ret st \<Rightarrow>
               let cfg = (case jwt_Skipper cfg of None \<Rightarrow> cfg\<lparr>jwt_Skipper := Some (PathSkipper g (jwt_Exclude cfg))\<rparr> | Some _ \<Rightarrow> cfg)
               in jwt_middleware g (mw\<lparr>Config := cfg, tokenStore := st\<rparr>)))"

section \<open>Authorization\<close>

text \<open>
  The default authorizer must be set when the middleware is applied; each request reads it again, so the
  handler takes its value \<open>au\<close> at that moment.
\<close>

definition authz_ApplyFunc ::
  "'c gin \<Rightarrow> ('c, 'u) Authorizer option \<Rightarrow> string outcome \<Rightarrow> (('c, 'u) Authorizer option \<Rightarrow> 'c handler) outcome" where
  "authz_ApplyFunc g DefaultAuthorizer AppCode =
     (case AppCode of
        Fail err \<Rightarrow> Panic ''Unmarshal''
      | Panic p \<Rightarrow> Panic p
      | Ret appCode \<Rightarrow>
          (case DefaultAuthorizer of
             None \<Rightarrow> Panic ''security.DefaultAuthorizer is nil''
           | Some _ \<Rightarrow> Ret (\<lambda>au c.
               case IsAllowed au c ArnKindWeb [appCode, Method (c_Request g c), Path (URL (c_Request g c))] of
                 Fail err \<Rightarrow> Ret (c_AbortWithError g 403 (Wrapf ''authorization failed: '' err) c)
               | Panic p \<Rightarrow> Panic p
               | Ret allowed \<Rightarrow> if \<not> allowed then Ret (c_AbortWithStatus g 403 c) else Ret c)))"

end
