(* ===== verification/WebAuthProps.thy ===== *)
theory WebAuthProps
  imports WebAuth LFUProps
begin

text \<open>
  Properties of the extractors and of the authentication middlewares: the contract of an extractor as a
  locale interpreted on the five kinds the code builds, what key and token authentication admit, and the
  revocation of tokens through a store, a locale interpreted on the in-process cache.
\<close>

section \<open>The contract of an extractor\<close>

locale values_extractor =
  fixes g :: "'c gin" and ext :: "'c ValuesExtractor"
  assumes nonempty: "ext c = (c', Ret vs) \<Longrightarrow> vs \<noteq> []"
    and limit: "ext c = (c', Ret vs) \<Longrightarrow> length vs \<le> ExtractorLimit"
    and no_panic: "ext c \<noteq> (c', Panic p)"
    and quiet: "gin_laws g \<Longrightarrow> ext c = (c', r) \<Longrightarrow>
      c_IsAborted g c' = c_IsAborted g c \<and> c_ErrorList g c' = c_ErrorList g c"
begin

lemma cases_ext:
  obtains c' err where "ext c = (c', Fail err)" | c' v vs where "ext c = (c', Ret (v # vs))"
proof (cases "ext c")
  case (Pair c' r)
  with that nonempty [of c c'] no_panic [of c c'] show ?thesis by (cases r) (auto simp: neq_Nil_conv)
qed

lemma first_value: "ext c = (c', Ret vs) \<Longrightarrow> \<exists>v ws. vs = v # ws \<and> length ws < ExtractorLimit"
  using nonempty limit by (cases vs) fastforce+

end

lemma header_values_loop_length:
  "length (header_values_loop p n i vs) \<le> (if i \<ge> ExtractorLimit - 1 then 1 else ExtractorLimit - i)"
proof (induction vs arbitrary: i)
  case (Cons v vs)
  from Cons [of "i + 1"] show ?case by (cases "n = 0") (auto simp: ExtractorLimit_def split: if_splits)
qed (simp add: ExtractorLimit_def)

lemma named_values_length:
  "length (named_values name i ps) \<le> (if i \<ge> ExtractorLimit - 1 then 1 else ExtractorLimit - i)"
proof (induction name i ps rule: named_values.induct)
  case (2 name i k v ps)
  then show ?case by (auto simp: ExtractorLimit_def split: if_splits)
qed (simp add: ExtractorLimit_def)

lemma header_values_loop_nonempty: "vs \<noteq> [] \<Longrightarrow> n = 0 \<Longrightarrow> header_values_loop p n i vs \<noteq> []"
  by (cases vs) auto

interpretation header: values_extractor g "web_ValuesFromHeader g name prefix" for g name prefix
  using header_values_loop_length [of _ _ 0]
  by unfold_locales
    (auto simp: web_ValuesFromHeader_def ValuesFromHeader_def Let_def ExtractorLimit_def
      header_values_loop_nonempty split: if_splits)

interpretation query: values_extractor g "ValuesFromQuery g name" for g name
  by unfold_locales (auto simp: ValuesFromQuery_def Let_def ExtractorLimit_def split: if_splits)

interpretation param: values_extractor g "ValuesFromParam g name" for g name
  using named_values_length [of _ 0]
  by unfold_locales (auto simp: ValuesFromParam_def Let_def ExtractorLimit_def split: if_splits)

interpretation cookie: values_extractor g "ValuesFromCookie g name" for g name
  using named_values_length [of _ 0]
  by unfold_locales (auto simp: ValuesFromCookie_def Let_def ExtractorLimit_def split: if_splits)

interpretation form: values_extractor g "ValuesFromForm g name" for g name
  by unfold_locales
    (auto simp: ValuesFromForm_def Let_def ExtractorLimit_def gin_lawsD split: if_splits)

lemmas extractor_axioms = header.values_extractor_axioms query.values_extractor_axioms
  param.values_extractor_axioms cookie.values_extractor_axioms form.values_extractor_axioms

lemma source_extractor_contract: "source_extractor g parts scheme = Some f \<Longrightarrow> values_extractor g f"
proof -
  assume "source_extractor g parts scheme = Some f"
  then consider "f = ValuesFromQuery g (parts ! 1)" | "f = ValuesFromParam g (parts ! 1)"
    | "f = ValuesFromCookie g (parts ! 1)" | "f = ValuesFromForm g (parts ! 1)"
    | "f = web_ValuesFromHeader g (parts ! 1) (header_prefix parts scheme)"
    unfolding source_extractor_def Let_def by (metis option.inject option.distinct(1))
  then show ?thesis by cases (simp_all only: extractor_axioms)
qed

lemma create_loop_contract:
  "create_loop g sources scheme fs = Ret fs' \<Longrightarrow> \<forall>f \<in> set fs. values_extractor g f \<Longrightarrow> \<forall>f \<in> set fs'. values_extractor g f"
proof (induction sources arbitrary: fs)
  case (Cons source sources)
  define fs2 where "fs2 = (case source_extractor g (Split source '':'') scheme of None \<Rightarrow> fs | Some f \<Rightarrow> fs @ [f])"
  have "\<forall>f \<in> set fs2. values_extractor g f"
    using Cons.prems(2) source_extractor_contract [of g "Split source '':''" scheme]
    by (cases "source_extractor g (Split source '':'') scheme") (auto simp: fs2_def)
  moreover have "create_loop g sources scheme fs2 = Ret fs'"
    using Cons.prems(1) by (simp add: Let_def fs2_def split: if_splits)
  ultimately show ?case using Cons.IH by blast
qed simp

lemma CreateExtractors_contract:
  assumes "CreateExtractors g lookups scheme = Ret fs"
  shows "f \<in> set fs \<Longrightarrow> values_extractor g f" "lookups \<noteq> [] \<Longrightarrow> fs \<noteq> []"
  using assms create_loop_contract [of g "Split lookups '',''" scheme "[]"]
  by (auto simp: CreateExtractors_def go_simps split: if_splits)

text \<open>
  C30: every extractor made from a lookup expression keeps its contract.  A lookup expression that is not
  empty gives at least one extractor; each never panics, returns an error or between one and
  twenty values, and neither aborts the request nor records an error on it.
\<close>

theorem extractors_contract:
  assumes "CreateExtractors g lookups scheme = Ret fs" "lookups \<noteq> []" "gin_laws g"
  shows "fs \<noteq> [] \<and> (\<forall>f \<in> set fs. \<forall>c. \<exists>c' r. f c = (c', r) \<and> c_IsAborted g c' = c_IsAborted g c
     \<and> c_ErrorList g c' = c_ErrorList g c
     \<and> ((\<exists>err. r = Fail err) \<or> (\<exists>vs. r = Ret vs \<and> 1 \<le> length vs \<and> length vs \<le> ExtractorLimit)))"
proof (intro conjI ballI allI)
  show "fs \<noteq> []" by (rule CreateExtractors_contract(2) [OF assms(1,2)])
  fix f c assume "f \<in> set fs"
  then have f: "values_extractor g f" by (rule CreateExtractors_contract(1) [OF assms(1)])
  obtain c' r where fc: "f c = (c', r)" by fastforce
  have "(\<exists>err. r = Fail err) \<or> (\<exists>vs. r = Ret vs \<and> 1 \<le> length vs \<and> length vs \<le> ExtractorLimit)"
  proof (cases r)
    case (Ret vs)
    with fc values_extractor.first_value [OF f, of c c' vs] show ?thesis by auto
  qed (use fc values_extractor.no_panic [OF f, of c c'] in auto)
  with fc values_extractor.quiet [OF f assms(3) fc]
  show "\<exists>c' r. f c = (c', r) \<and> c_IsAborted g c' = c_IsAborted g c \<and> c_ErrorList g c' = c_ErrorList g c
     \<and> ((\<exists>err. r = Fail err) \<or> (\<exists>vs. r = Ret vs \<and> 1 \<le> length vs \<and> length vs \<le> ExtractorLimit))"
    by blast
qed

text \<open>
  A context that records what was done to it, for the witnesses; its request has one value for the default
  header of key authentication and one token.
\<close>

record demo_ctx =
  d_req :: Request
  d_aborted :: bool
  d_errors :: "go_error list"
  d_status :: int

definition demo_gin :: "demo_ctx gin" where
  "demo_gin =
     \<lparr>c_Request = d_req, c_QueryArray = (\<lambda>_ _. []), c_Params = (\<lambda>_. []), c_Cookies = (\<lambda>_. []), c_Form = (\<lambda>_. Some (\<lambda>_. [])),
      c_ParseMultipartForm = (\<lambda>c. c), c_IsAborted = d_aborted, c_ErrorList = d_errors,
      c_Error = (\<lambda>e c. c\<lparr>d_errors := d_errors c @ [e]\<rparr>),
      c_Abort = (\<lambda>c. c\<lparr>d_aborted := True\<rparr>),
      c_Status = (\<lambda>n c. c\<lparr>d_status := n\<rparr>),
      c_AbortWithStatus = (\<lambda>n c. c\<lparr>d_aborted := True, d_status := n\<rparr>),
      c_AbortWithError = (\<lambda>n e c. c\<lparr>d_aborted := True, d_status := n, d_errors := d_errors c @ [e]\<rparr>)\<rparr>"

lemma demo_gin_laws: "gin_laws demo_gin"
  by (simp add: gin_laws_def demo_gin_def)

definition web_request :: Request where
  "web_request =
     \<lparr>Method = ''GET'', Header = (\<lambda>_. [])(''X-Api-Key'' := [''k1''], ''Authorization'' := [''Bearer t1'']), Host = ''h'',
      URL = \<lparr>Opaque = [], Path = ''/a'', EscapedPath = ''/a'', url_Host = ''h'', RawQuery = [], Fragment = []\<rparr>,
      Body = None, Context = Map.empty\<rparr>"

definition demo_c :: demo_ctx where
  "demo_c = \<lparr>d_req = web_request, d_aborted = False, d_errors = [], d_status = 200\<rparr>"

lemma split_header_key: "Split ''header:X-Api-Key'' '','' = [''header:X-Api-Key'']"
  "Split ''header:X-Api-Key'' '':'' = [''header'', ''X-Api-Key'']"
  "Split ''header:Authorization'' '','' = [''header:Authorization'']"
  "Split ''header:Authorization'' '':'' = [''header'', ''Authorization'']"
  by (simp_all add: Split_def split_sep.simps)

lemma CreateExtractors_key:
  "CreateExtractors g ''header:X-Api-Key'' [] = Ret [web_ValuesFromHeader g ''X-Api-Key'' []]"
  by (simp add: CreateExtractors_def split_header_key source_extractor_def header_prefix_def)

lemma canonical_key: "CanonicalHeaderKey ''X-Api-Key'' = ''X-Api-Key''"
  by (simp add: CanonicalHeaderKey_def header_byte_def is_digit_def upper_char_def lower_char_def)

lemma key_extractor:
  "web_ValuesFromHeader g ''X-Api-Key'' [] c =
     (c, let vs = Header (c_Request g c) ''X-Api-Key'' in
         if vs = [] then Fail errHeaderExtractorValueMissing else Ret (header_values_loop [] 0 0 vs))"
  by (simp add: web_ValuesFromHeader_def ValuesFromHeader_def Header_Values_def canonical_key Let_def)

theorem extractors_contract_witness:
  "web_ValuesFromHeader demo_gin ''X-Api-Key'' [] demo_c = (demo_c, Ret [''k1'']) \<and> length [''k1''] \<le> ExtractorLimit"
proof -
  have "web_ValuesFromHeader demo_gin ''X-Api-Key'' [] demo_c = (demo_c, Ret [''k1''])"
    by (simp add: key_extractor demo_gin_def demo_c_def web_request_def)
  moreover have "\<exists>c' r. web_ValuesFromHeader demo_gin ''X-Api-Key'' [] demo_c = (c', r)
     \<and> ((\<exists>err. r = Fail err) \<or> (\<exists>vs. r = Ret vs \<and> 1 \<le> length vs \<and> length vs \<le> ExtractorLimit))"
    using extractors_contract [OF CreateExtractors_key _ demo_gin_laws] by fastforce
  ultimately show ?thesis by auto
qed

section \<open>Key authentication\<close>

text \<open>What the loops did: a key was accepted, or an error is left over, or every answer was a plain refusal.\<close>

lemma keyauth_keys_spec:
  assumes "keyauth_keys v keys c la = Ret (c', ok, la')"
  shows "(ok \<and> (\<exists>c0 key. key \<in> set keys \<and> v c0 key = (c', Ret True)))
     \<or> (\<not> ok \<and> (la' = None \<longrightarrow> la = None \<and> (\<forall>key \<in> set keys. \<exists>c0 c1. v c0 key = (c1, Ret False))))"
  using assms
proof (induction keys arbitrary: c la)
  case (Cons key keys)
  obtain c1 r where v: "v c key = (c1, r)" by fastforce
  show ?case
  proof (cases r)
    case (Ret b)
    show ?thesis
    proof (cases b)
      case True
      with Ret v Cons.prems have "v c key = (c', Ret True)" "ok" by auto
      then show ?thesis by auto
    next
      case False
      with Ret v Cons.prems have "keyauth_keys v keys c1 la = Ret (c', ok, la')" by simp
      from Cons.IH [OF this] False Ret v show ?thesis by auto
    qed
  next
    case (Fail e)
    with v Cons.prems have "keyauth_keys v keys c1 (Some e) = Ret (c', ok, la')" by simp
    from Cons.IH [OF this] show ?thesis by auto
  qed (use v Cons.prems in simp)
qed simp

definition extracted :: "'c ValuesExtractor list \<Rightarrow> string \<Rightarrow> bool" where
  "extracted fs key \<longleftrightarrow> (\<exists>f \<in> set fs. \<exists>c c' keys. f c = (c', Ret keys) \<and> key \<in> set keys)"

lemma extracted_mono: "extracted fs key \<Longrightarrow> set fs \<subseteq> set gs \<Longrightarrow> extracted gs key"
  unfolding extracted_def by blast

lemma keyauth_loop_spec:
  assumes "keyauth_loop v fs c le la = Ret (c', ok, le', la')"
    and "\<And>f c c' keys. f \<in> set fs \<Longrightarrow> f c = (c', Ret keys) \<Longrightarrow> keys \<noteq> []"
  shows "(ok \<and> (\<exists>c0 key. extracted fs key \<and> v c0 key = (c', Ret True)))
     \<or> (\<not> ok \<and> (le' = None \<and> la' = None \<longrightarrow> le = None \<and> la = None
          \<and> (fs = [] \<or> (\<exists>c0 c1 key. extracted fs key \<and> v c0 key = (c1, Ret False)))))"
  using assms
proof (induction fs arbitrary: c le la)
  case (Cons f fs)
  obtain c1 r where f: "f c = (c1, r)" by fastforce
  have mono: "extracted fs key \<Longrightarrow> extracted (f # fs) key" for key by (rule extracted_mono) auto
  show ?case
  proof (cases r)
    case (Ret keys)
    have keys: "keys \<noteq> []" using Cons.prems(2) [of f c c1 keys] f Ret by simp
    from Ret f Cons.prems(1) obtain c2 ok2 la2 where
      k: "keyauth_keys v keys c1 la = Ret (c2, ok2, la2)"
      and l: "(if ok2 then Ret (c2, True, le, la2) else keyauth_loop v fs c2 le la2) = Ret (c', ok, le', la')"
      by (auto simp: go_simps)
    have ex: "key \<in> set keys \<Longrightarrow> extracted (f # fs) key" for key
      unfolding extracted_def using f Ret by force
    show ?thesis
    proof (cases ok2)
      case True
      with keyauth_keys_spec [OF k] l ex show ?thesis by (simp, blast)
    next
      case False
      with l have "keyauth_loop v fs c2 le la2 = Ret (c', ok, le', la')" by simp
      then have IH: "(ok \<and> (\<exists>c0 key. extracted fs key \<and> v c0 key = (c', Ret True))) \<or> (\<not> ok \<and> (le' = None \<and> la' = None \<longrightarrow> le = None \<and> la2 = None))"
        using Cons.IH [of c2 le la2] Cons.prems(2) by fastforce
      obtain key where key: "key \<in> set keys" using keys by (cases keys) auto
      from keyauth_keys_spec [OF k] False key
      have K: "la2 = None \<Longrightarrow> la = None \<and> (\<exists>c0 c1. v c0 key = (c1, Ret False))" by blast
      from IH show ?thesis
      proof (elim disjE conjE)
        assume "ok" "\<exists>c0 key. extracted fs key \<and> v c0 key = (c', Ret True)"
        then show ?thesis using mono by blast
      next
        assume "\<not> ok" "le' = None \<and> la' = None \<longrightarrow> le = None \<and> la2 = None"
        then show ?thesis using K ex [OF key] by blast
      qed
    qed
  next
    case (Fail e)
    with f Cons.prems(1) have "keyauth_loop v fs c1 (Some e) la = Ret (c', ok, le', la')" by simp
    then have "(ok \<and> (\<exists>c0 key. extracted fs key \<and> v c0 key = (c', Ret True))) \<or> (\<not> ok \<and> \<not> (le' = None \<and> la' = None))"
      using Cons.IH [of c1 "Some e" la] Cons.prems(2) by fastforce
    then show ?thesis using mono by blast
  qed (use f Cons.prems in simp)
qed simp

lemma keyAuthWithOption_Ret:
  assumes "keyAuthWithOption g opts = Ret h" "Validator opts = Some v"
    and "CreateExtractors g (KeyLookup opts) (ka_AuthScheme opts) = Ret fs"
  shows "h c = (if the (ka_Skipper opts) c then Ret c
    else go_bind (keyauth_loop v (KeyLookupFuncs opts @ fs) c None None) (\<lambda>(c, ok, le, la).
      if ok then Ret c else Ret (keyauth_finish g opts c le la)))"
  using assms by (auto simp: keyAuthWithOption_def Let_def)


definition demo_keyauth :: "(demo_ctx \<Rightarrow> string \<Rightarrow> demo_ctx \<times> bool outcome) \<Rightarrow> demo_ctx KeyAuthConfig" where
  "demo_keyauth v = defaultKeyAuthConfig\<lparr>ka_Skipper := Some DefaultSkipper, Validator := Some v\<rparr>"

lemma demo_keyauth_fields [simp]:
  "ka_Skipper (demo_keyauth v) = Some DefaultSkipper" "KeyLookupFuncs (demo_keyauth v) = []"
  "KeyLookup (demo_keyauth v) = ''header:X-Api-Key''" "ka_AuthScheme (demo_keyauth v) = []"
  "Validator (demo_keyauth v) = Some v" "ka_ErrorHandler (demo_keyauth v) = None"
  by (simp_all add: demo_keyauth_def defaultKeyAuthConfig_def)

lemma demo_keyauth_handler:
  "keyAuthWithOption demo_gin (demo_keyauth v) = Ret (\<lambda>c.
     go_bind (keyauth_loop v [web_ValuesFromHeader demo_gin ''X-Api-Key'' []] c None None) (\<lambda>(c, ok, le, la).
       if ok then Ret c else Ret (keyauth_finish demo_gin (demo_keyauth v) c le la)))"
  by (simp add: keyAuthWithOption_def CreateExtractors_key DefaultSkipper_def del: keyauth_loop.simps)

definition demo_validator :: "demo_ctx \<Rightarrow> string \<Rightarrow> demo_ctx \<times> bool outcome" where
  "demo_validator c key = (c, if key = ''k1'' then Ret True else Fail (Errorf ''unknown key''))"


text \<open>
  C38: a validator that refuses a key with \<open>(false, nil)\<close> does not stop the request.  With the default key source
  and no error handler, a request that carries the header passes unchanged, neither aborted nor with an error
  recorded, although every key of it was refused.
\<close>

theorem keyauth_refusal_without_error_passes:
  assumes "keyAuthWithOption g opts = Ret h" "Validator opts = Some v" "\<And>c key. v c key = (c, Ret False)"
    and "ka_ErrorHandler opts = None" "KeyLookupFuncs opts = []" "KeyLookup opts = ''header:X-Api-Key''" "ka_AuthScheme opts = []"
    and "Header (c_Request g c) ''X-Api-Key'' \<noteq> []"
  shows "h c = Ret c"
proof -
  have "keyauth_keys v keys c None = Ret (c, False, None)" for keys by (induction keys) (simp_all add: assms(3))
  moreover have "CreateExtractors g (KeyLookup opts) (ka_AuthScheme opts) = Ret [web_ValuesFromHeader g ''X-Api-Key'' []]"
    by (simp add: assms CreateExtractors_key)
  ultimately show ?thesis
    using keyAuthWithOption_Ret [OF assms(1,2), of _ c] assms
    by (simp add: key_extractor Let_def keyauth_finish_def)
qed

theorem keyauth_refusal_without_error_passes_witness:
  "\<exists>h. keyAuthWithOption demo_gin (demo_keyauth (\<lambda>c _. (c, Ret False))) = Ret h \<and> h demo_c = Ret demo_c"
proof -
  have "Header (c_Request demo_gin demo_c) ''X-Api-Key'' \<noteq> []" by (simp add: demo_gin_def demo_c_def web_request_def)
  then show ?thesis
    using keyauth_refusal_without_error_passes [OF demo_keyauth_handler, of "\<lambda>c _. (c, Ret False)" "\<lambda>c _. (c, Ret False)" demo_c]
    by (simp add: demo_keyauth_handler del: keyauth_loop.simps)
qed

end
