(* ===== verification/JwtProps.thy ===== *)
theory JwtProps
  imports WebAuthProps
begin

text \<open>
  Properties of token authentication: which requests the JWT middleware admits, and that a logout revokes a
  token in a store.  The contract of a store is a locale; it is interpreted on the in-process cache, read at
  the successive readings of a clock.
\<close>

section \<open>Admission\<close>

text \<open>
  A token string led to the final store and context: it was parsed and found in the store, and its
  principal was put into the context.
\<close>

definition admitted :: "('c, 'k, 's) JWTMiddleware \<Rightarrow> 's \<Rightarrow> 'c \<Rightarrow> string \<Rightarrow> Token \<Rightarrow> bool" where
  "admitted mw s' c' authStr token \<longleftrightarrow>
     (\<exists>s0 c0. HandleToken mw s0 c0 authStr = (s', Ret token)
        \<and> (case WithPrincipalContext (Config mw) of None \<Rightarrow> c' = c0 | Some wpc \<Rightarrow> wpc c0 token = (c', Ret ())))"

lemma jwt_tokens_spec:
  assumes "jwt_tokens mw auths s c lt = Ret (s', c', fl, lt')"
  shows "case fl of
      Returned \<Rightarrow> \<exists>a \<in> set auths. \<exists>token. admitted mw s' c' a token
    | BrokeOuter \<Rightarrow> lt' \<noteq> None
    | Exhausted \<Rightarrow> auths \<noteq> [] \<or> lt \<noteq> None \<longrightarrow> lt' \<noteq> None"
  using assms
proof (induction auths arbitrary: s c lt)
  case (Cons a auths)
  obtain s1 r where h: "HandleToken mw s c a = (s1, r)" by fastforce
  show ?case
  proof (cases r)
    case (Fail e)
    with h Cons.prems have "jwt_tokens mw auths s1 c (Some e) = Ret (s', c', fl, lt')" by simp
    from Cons.IH [OF this] show ?thesis by (cases fl) auto
  next
    case (Ret token)
    show ?thesis
    proof (cases "WithPrincipalContext (Config mw)")
      case None
      with Ret h Cons.prems have "fl = Returned" "s' = s1" "c' = c" by auto
      with Ret h None have "admitted mw s' c' a token" by (auto simp: admitted_def)
      with \<open>fl = Returned\<close> show ?thesis by auto
    next
      case (Some w)
      obtain c1 q where w: "w c token = (c1, q)" by fastforce
      show ?thesis
      proof (cases q)
        case [simp]: (Ret u)
        with h Some w Cons.prems \<open>r = Ret token\<close> have "fl = Returned" "s' = s1" "c' = c1" by auto
        with h Some w \<open>r = Ret token\<close> have "admitted mw s' c' a token" by (auto simp: admitted_def)
        with \<open>fl = Returned\<close> show ?thesis by auto
      qed (use h Some w Cons.prems \<open>r = Ret token\<close> in auto)
    qed
  qed (use h Cons.prems in simp)
qed auto

lemma jwt_loop_spec:
  assumes "jwt_loop mw fs s c le lt = Ret (s', c', ok, le', lt')"
    and "\<And>f c c' vs. f \<in> set fs \<Longrightarrow> f c = (c', Ret vs) \<Longrightarrow> vs \<noteq> []"
  shows "(ok \<and> (\<exists>a token. extracted fs a \<and> admitted mw s' c' a token))
     \<or> (\<not> ok \<and> (fs \<noteq> [] \<or> le \<noteq> None \<or> lt \<noteq> None \<longrightarrow> le' \<noteq> None \<or> lt' \<noteq> None))"
  using assms
proof (induction fs arbitrary: s c le lt)
  case (Cons f fs)
  obtain c1 r where f: "f c = (c1, r)" by fastforce
  have mono: "extracted fs a \<Longrightarrow> extracted (f # fs) a" for a by (rule extracted_mono) auto
  have IH: "jwt_loop mw fs s c le lt = Ret (s', c', ok, le', lt') \<Longrightarrow>
      (ok \<and> (\<exists>a token. extracted fs a \<and> admitted mw s' c' a token))
      \<or> (\<not> ok \<and> (fs \<noteq> [] \<or> le \<noteq> None \<or> lt \<noteq> None \<longrightarrow> le' \<noteq> None \<or> lt' \<noteq> None))" for s c le lt
    using Cons.IH [of s c le lt] Cons.prems(2) by fastforce
  show ?case
  proof (cases r)
    case (Fail e)
    with f Cons.prems(1) have "jwt_loop mw fs s c1 (Some ErrJWTMissing) lt = Ret (s', c', ok, le', lt')" by simp
    from IH [OF this] mono show ?thesis by blast
  next
    case (Ret auths)
    have ne: "auths \<noteq> []" using Cons.prems(2) [of f c c1 auths] f Ret by simp
    from Ret f Cons.prems(1) obtain s2 c2 fl lt2 where
      t: "jwt_tokens mw auths s c1 lt = Ret (s2, c2, fl, lt2)"
      and l: "(case fl of Returned \<Rightarrow> Ret (s2, c2, True, le, lt2) | BrokeOuter \<Rightarrow> Ret (s2, c2, False, le, lt2)
        | Exhausted \<Rightarrow> jwt_loop mw fs s2 c2 le lt2) = Ret (s', c', ok, le', lt')"
      by (auto simp: go_simps)
    have ex: "a \<in> set auths \<Longrightarrow> extracted (f # fs) a" for a unfolding extracted_def using f Ret by force
    show ?thesis
    proof (cases fl)
      case Returned
      with jwt_tokens_spec [OF t] obtain a token where "a \<in> set auths" "admitted mw s2 c2 a token" by auto
      with Returned l ex show ?thesis by auto
    next
      case BrokeOuter
      with jwt_tokens_spec [OF t] l show ?thesis by auto
    next
      case Exhausted
      with jwt_tokens_spec [OF t] ne have "lt2 \<noteq> None" by simp
      moreover from Exhausted l have "jwt_loop mw fs s2 c2 le lt2 = Ret (s', c', ok, le', lt')" by simp
      ultimately show ?thesis using IH mono by blast
    qed
  qed (use f Cons.prems in simp)
qed simp

lemma jwt_middleware_Ret:
  assumes "jwt_middleware g mw = Ret h"
  shows "\<exists>fs. CreateExtractors g (TokenLookup (JWTOptions (Config mw))) (jwt_AuthScheme (JWTOptions (Config mw))) = Ret fs
    \<and> (\<forall>s c. h s c = (if the (jwt_Skipper (Config mw)) c then Ret (s, c)
       else go_bind (jwt_loop mw (TokenLookupFuncs (Config mw) @ fs) s c None None) (\<lambda>(s, c, ok, le, lt).
         if ok then Ret (s, c) else Ret (s, jwt_finish g (Config mw) c le lt))))"
  using assms by (auto simp: jwt_middleware_def Let_def split: outcome.splits if_splits)

lemma jwt_middleware_admits:
  assumes "gin_laws g" "jwt_middleware g mw = Ret h" "jwt_ErrorHandler (Config mw) = None" "\<not> the (jwt_Skipper (Config mw)) c"
    and "TokenLookup (JWTOptions (Config mw)) \<noteq> [] \<or> TokenLookupFuncs (Config mw) \<noteq> []"
    and "\<forall>f \<in> set (TokenLookupFuncs (Config mw)). values_extractor g f" "h s c = Ret (s', c')"
  shows "c_IsAborted g c' \<or> (\<exists>fs a token.
     CreateExtractors g (TokenLookup (JWTOptions (Config mw))) (jwt_AuthScheme (JWTOptions (Config mw))) = Ret fs
     \<and> extracted (TokenLookupFuncs (Config mw) @ fs) a \<and> admitted mw s' c' a token)"
proof -
  obtain fs where
    fs: "CreateExtractors g (TokenLookup (JWTOptions (Config mw))) (jwt_AuthScheme (JWTOptions (Config mw))) = Ret fs"
    and h: "go_bind (jwt_loop mw (TokenLookupFuncs (Config mw) @ fs) s c None None) (\<lambda>(s, c, ok, le, lt).
         if ok then Ret (s, c) else Ret (s, jwt_finish g (Config mw) c le lt)) = Ret (s', c')"
    using jwt_middleware_Ret [OF assms(2)] assms(4,7) by auto
  let ?fs = "TokenLookupFuncs (Config mw) @ fs"
  from h obtain s1 c1 ok le lt where l: "jwt_loop mw ?fs s c None None = Ret (s1, c1, ok, le, lt)"
    and r: "(if ok then Ret (s1, c1) else Ret (s1, jwt_finish g (Config mw) c1 le lt)) = Ret (s', c')"
    by (auto simp: go_simps)
  have ne: "?fs \<noteq> []" using assms(5) CreateExtractors_contract(2) [OF fs] by auto
  have "vs \<noteq> []" if "f \<in> set ?fs" "f c0 = (c2, Ret vs)" for f c0 c2 vs
    using that assms(6) CreateExtractors_contract(1) [OF fs, of f] values_extractor.nonempty [of g f] by auto
  with jwt_loop_spec [OF l]
  consider a token where "ok" "extracted ?fs a" "admitted mw s1 c1 a token" | "\<not> ok" "le \<noteq> None \<or> lt \<noteq> None"
    using ne by blast
  then show ?thesis
  proof cases
    case 1
    with r fs show ?thesis by auto
  next
    case 2
    then obtain er where "jwt_finish g (Config mw) c1 le lt = c_AbortWithError g 401 er c1"
      by (cases lt; cases le) (auto simp: jwt_finish_def assms(3))
    with r 2(1) have "c' = c_AbortWithError g 401 er c1" by simp
    with assms(1) show ?thesis by (simp add: gin_lawsD)
  qed
qed

text \<open>A token that was handled without error: it was parsed, and found in the store if there is one.\<close>

lemma HandleToken_Ret:
  assumes "HandleToken mw s0 c0 a = (s', Ret token)" "ParseTokenFunc (JWTOptions (Config mw)) = Some parse"
  shows "parse c0 a = Ret token"
    "tokenStore mw = Some st \<Longrightarrow> \<exists>getID jti. GetTokenIDFunc (JWTOptions (Config mw)) = Some getID
       \<and> getID token = Ret (jti, True) \<and> store_Has st s0 jti = (s', True)"
  using assms by (auto simp: HandleToken_def split: outcome.splits option.splits prod.splits if_splits)

lemma JWT_ApplyFunc_Ret:
  assumes "JWT_ApplyFunc g e caches unmarshal mw = Ret h" "unmarshal (Config mw) = Ret cfg"
  obtains o1 mw' where "Init e (JWTOptions cfg) = Ret o1" "jwt_middleware g mw' = Ret h"
    "JWTOptions (Config mw') = o1" "WithPrincipalContext (Config mw') = WithPrincipalContext cfg"
    "jwt_ErrorHandler (Config mw') = jwt_ErrorHandler cfg" "TokenLookupFuncs (Config mw') = TokenLookupFuncs cfg"
    "jwt_Skipper (Config mw') = Some (case jwt_Skipper cfg of None \<Rightarrow> PathSkipper g (jwt_Exclude cfg) | Some k \<Rightarrow> k)"
    "TokenStoreKey cfg \<noteq> [] \<Longrightarrow> \<exists>st. caches (TokenStoreKey cfg) = Ret st \<and> tokenStore mw' = Some st"
proof (cases "Init e (JWTOptions cfg)")
  case (Ret o1)
  define cfg1 where "cfg1 = cfg\<lparr>JWTOptions := o1\<rparr>"
  define cfg2 where "cfg2 = (case jwt_Skipper cfg1 of None \<Rightarrow> cfg1\<lparr>jwt_Skipper := Some (PathSkipper g (jwt_Exclude cfg1))\<rparr> | Some _ \<Rightarrow> cfg1)"
  have "(case (if TokenStoreKey cfg1 \<noteq> [] then go_bind (caches (TokenStoreKey cfg1)) (\<lambda>st. Ret (Some st)) else Ret (tokenStore mw)) of
      Fail err \<Rightarrow> Panic ''GetCache'' | Panic p \<Rightarrow> Panic p | Ret st \<Rightarrow> jwt_middleware g (mw\<lparr>Config := cfg2, tokenStore := st\<rparr>)) = Ret h"
    using assms by (simp only: JWT_ApplyFunc_def Ret go_bind.simps outcome.case cfg2_def Let_def cfg1_def)
  then obtain st where
    st: "(if TokenStoreKey cfg1 \<noteq> [] then go_bind (caches (TokenStoreKey cfg1)) (\<lambda>st. Ret (Some st)) else Ret (tokenStore mw)) = Ret st"
    and h: "jwt_middleware g (mw\<lparr>Config := cfg2, tokenStore := st\<rparr>) = Ret h"
    by (auto split: outcome.splits)
  show ?thesis
  proof (rule that [OF Ret h])
    show "TokenStoreKey cfg \<noteq> [] \<Longrightarrow> \<exists>sx. caches (TokenStoreKey cfg) = Ret sx \<and> tokenStore (mw\<lparr>Config := cfg2, tokenStore := st\<rparr>) = Some sx"
      using st by (auto simp: cfg1_def go_simps)
  qed (auto simp: cfg1_def cfg2_def split: option.splits)
qed (use assms in \<open>auto simp: JWT_ApplyFunc_def\<close>)


section \<open>A concrete middleware\<close>

text \<open>
  A library that accepts one token string, signed with the configured method, and a middleware with a
  store of identifiers, for the witnesses.
\<close>

definition jwt_token :: Token where
  "jwt_token = \<lparr>tok_Alg = ''HS256'', tok_Header = Map.empty, tok_Claims = MapClaims [''jti'' \<mapsto> JString ''id1''], tok_Valid = True\<rparr>"

definition demo_jwtenv :: "unit jwtenv" where
  "demo_jwtenv =
     \<lparr>jwt_Parse = (\<lambda>s kf. if s = ''t1'' then go_bind (kf (jwt_token\<lparr>tok_Valid := False\<rparr>)) (\<lambda>_. Ret jwt_token)
        else Fail ErrJWTInvalid),
      rsa_public = (\<lambda>_. Ret ()), rsa_private = (\<lambda>_. Ret ()), url_path = Ret, os_ReadFile = Ret, windows = False, basedir = ''/app''\<rparr>"

lemma demo_parse_laws: "parse_laws demo_jwtenv"
  by (auto simp: parse_laws_def demo_jwtenv_def go_simps split: if_splits)

definition demo_store :: "string list store" where
  "demo_store = \<lparr>store_Has = (\<lambda>s k. (s, k \<in> set s)), store_Del = (\<lambda>s k. (filter (\<lambda>x. x \<noteq> k) s, Ret ()))\<rparr>"

definition demo_wpc :: "demo_ctx \<Rightarrow> Token \<Rightarrow> demo_ctx \<times> unit outcome" where
  "demo_wpc c t = (c\<lparr>d_status := 299\<rparr>, Ret ())"

definition demo_jwt_config :: "(demo_ctx, unit) JWTConfig" where
  "demo_jwt_config =
     \<lparr>JWTOptions = NewJWTOptions\<lparr>SigningKey := StrKey ''secret''\<rparr>, jwt_Skipper = None, jwt_Exclude = [], TokenLookupFuncs = [],
      jwt_ErrorHandler = None, TokenStoreKey = ''redis'', WithPrincipalContext = Some demo_wpc\<rparr>"

definition demo_jwt :: "(demo_ctx, unit, string list) JWTMiddleware" where
  "demo_jwt = \<lparr>Config = demo_jwt_config, tokenStore = None\<rparr>"

lemma CreateExtractors_bearer:
  "CreateExtractors g ''header:Authorization'' ''Bearer'' = Ret [web_ValuesFromHeader g ''Authorization'' ''Bearer '']"
  by (simp add: CreateExtractors_def split_header_key source_extractor_def header_prefix_def HasSuffix_def)

lemma canonical_authorization: "CanonicalHeaderKey ''Authorization'' = ''Authorization''"
  by (simp add: CanonicalHeaderKey_def header_byte_def is_digit_def upper_char_def lower_char_def)

lemma bearer_token: "web_ValuesFromHeader demo_gin ''Authorization'' ''Bearer '' demo_c = (demo_c, Ret [''t1''])"
  by (simp add: web_ValuesFromHeader_def ValuesFromHeader_def Header_Values_def canonical_authorization demo_gin_def
      demo_c_def web_request_def Let_def EqualFold_def ToLower_def lower_char_def)

definition demo_h :: "string list \<Rightarrow> demo_ctx \<Rightarrow> (string list \<times> demo_ctx) outcome" where
  "demo_h = (case JWT_ApplyFunc demo_gin demo_jwtenv (\<lambda>_. Ret demo_store) Ret demo_jwt of Ret h \<Rightarrow> h | _ \<Rightarrow> (\<lambda>s c. Panic []))"

lemma demo_h_run:
  "JWT_ApplyFunc demo_gin demo_jwtenv (\<lambda>_. Ret demo_store) Ret demo_jwt = Ret demo_h"
  "demo_h [''id1''] demo_c = Ret ([''id1''], demo_c\<lparr>d_status := 299\<rparr>)"
  by (simp_all add: demo_h_def JWT_ApplyFunc_def demo_jwt_def demo_jwt_config_def Init_def NewJWTOptions_def
      ParseSigningKeyFromString_def parseKey_def AlgorithmHS256_def upper_char_def Let_def jwt_middleware_def
      CreateExtractors_bearer PathSkipper_def DefaultSkipper_def bearer_token HandleToken_def defaultParseToken_def
      defaultKeyFunc_def demo_jwtenv_def jwt_token_def defaultGetTokenID_def demo_store_def demo_wpc_def)


section \<open>Revocation\<close>

text \<open>
  What a store in a good state promises: deleting an identifier succeeds and makes it absent, looking up identifiers keeps it absent, and an absent
  identifier is not found.
\<close>

locale token_store =
  fixes st :: "'s store" and ok :: "'s \<Rightarrow> bool" and absent :: "'s \<Rightarrow> string \<Rightarrow> bool"
  assumes del_absent: "ok s \<Longrightarrow> store_Del st s k = (s', r) \<Longrightarrow> r = Ret () \<and> absent s' k"
    and has_absent: "absent s k \<Longrightarrow> store_Has st s k' = (s', b) \<Longrightarrow> absent s' k"
    and has_false: "absent s k \<Longrightarrow> store_Has st s k = (s', b) \<Longrightarrow> \<not> b"
begin

lemma HandleToken_absent:
  assumes "tokenStore mw = Some st" "absent s k" "HandleToken mw s c a = (s', r)"
  shows "absent s' k"
  using assms has_absent
  by (auto simp: HandleToken_def split: option.splits outcome.splits prod.splits if_splits)

lemma HandleToken_revoked:
  assumes "tokenStore mw = Some st" "absent s jti" "HandleToken mw s c a = (s', Ret token)"
    and "GetTokenIDFunc (JWTOptions (Config mw)) = Some getID"
  shows "getID token \<noteq> Ret (jti, True)"
  using assms has_false
  by (auto simp: HandleToken_def split: option.splits outcome.splits prod.splits if_splits)

lemma jwt_tokens_absent:
  assumes "tokenStore mw = Some st" "absent s k" "jwt_tokens mw auths s c lt = Ret (s', c', fl, lt')"
  shows "absent s' k"
  using assms(2,3)
proof (induction auths arbitrary: s c lt)
  case (Cons a auths)
  obtain s1 r where h: "HandleToken mw s c a = (s1, r)" by fastforce
  with HandleToken_absent [OF assms(1) Cons.prems(1)] have "absent s1 k" by blast
  with Cons h show ?case by (cases r) (auto split: option.splits outcome.splits prod.splits)
qed simp

lemma jwt_loop_absent:
  assumes "tokenStore mw = Some st" "absent s k" "jwt_loop mw fs s c le lt = Ret (s', c', okb, le', lt')"
  shows "absent s' k"
  using assms(2,3)
proof (induction fs arbitrary: s c le lt)
  case (Cons f fs)
  obtain c1 r where f: "f c = (c1, r)" by fastforce
  show ?case
  proof (cases r)
    case (Ret auths)
    with f Cons.prems obtain s2 c2 fl lt2 where t: "jwt_tokens mw auths s c1 lt = Ret (s2, c2, fl, lt2)"
      and l: "(case fl of Returned \<Rightarrow> Ret (s2, c2, True, le, lt2) | BrokeOuter \<Rightarrow> Ret (s2, c2, False, le, lt2)
        | Exhausted \<Rightarrow> jwt_loop mw fs s2 c2 le lt2) = Ret (s', c', okb, le', lt')"
      by (auto simp: go_simps)
    have "absent s2 k" by (rule jwt_tokens_absent [OF assms(1) Cons.prems(1) t])
    with l Cons.IH show ?thesis by (cases fl) auto
  qed (use f Cons in auto)
qed simp

end

text \<open>
  The in-process cache as a store.  Its state is the number of clock readings so far and the cache; \<open>clock\<close> gives
  the readings, which never go back.
\<close>

definition lfu_store :: "('s, 'o) env \<Rightarrow> (nat \<Rightarrow> int) \<Rightarrow> (nat \<times> 's TinyLFU) store" where
  "lfu_store e clock =
     \<lparr>store_Has = (\<lambda>(i, c) k. case Has_lfu e (clock i) c k of (c, b) \<Rightarrow> ((Suc i, c), b)),
      store_Del = (\<lambda>(i, c) k. case Del_lfu e c k of (c, r) \<Rightarrow> ((i, c), r))\<rparr>"

definition lfu_absent :: "('s, 'o) env \<Rightarrow> (nat \<Rightarrow> int) \<Rightarrow> nat \<times> 's TinyLFU \<Rightarrow> string \<Rightarrow> bool" where
  "lfu_absent e clock s k \<longleftrightarrow>
     tinylfu_laws (lib e) \<and> mono clock \<and> (\<forall>j \<ge> fst s. found e (clock j) (snd s) k = None)"

lemma lfu_store_simps:
  "store_Has (lfu_store e clock) (i, c) k = ((Suc i, fst (Has_lfu e (clock i) c k)), snd (Has_lfu e (clock i) c k))"
  "store_Del (lfu_store e clock) (i, c) k = ((i, fst (Del_lfu e c k)), snd (Del_lfu e c k))"
  by (simp_all add: lfu_store_def split: prod.splits)

lemma Has_lfu_found:
  assumes "tinylfu_laws (lib e)" "Has_lfu e now c k = (c', b)"
  shows "b \<longleftrightarrow> found e now c k \<noteq> None" "now \<le> now' \<Longrightarrow> found e now' c' = found e now' c"
proof -
  obtain r c1 where "lfu_get e now c k = (r, c1)" by fastforce
  with assms(2) lfu_get_spec(1) [OF assms(1) this] lfu_get_spec(2) [OF assms(1) this, of now'] show
    "b \<longleftrightarrow> found e now c k \<noteq> None" "now \<le> now' \<Longrightarrow> found e now' c' = found e now' c"
    by (auto simp: Has_lfu_def)
qed

interpretation lfu_tokens: token_store "lfu_store e clock" "\<lambda>_. tinylfu_laws (lib e) \<and> mono clock" "lfu_absent e clock"
  for e :: "('s, 'o) env" and clock
proof unfold_locales
  fix s s' :: "nat \<times> 's TinyLFU" and k k' b r
  obtain i c where s: "s = (i, c)" by (cases s)
  show "r = Ret () \<and> lfu_absent e clock s' k" if "tinylfu_laws (lib e) \<and> mono clock" "store_Del (lfu_store e clock) s k = (s', r)"
    using that by (auto simp: s lfu_store_simps lfu_absent_def Del_lfu_def found_def peek_Del)
  obtain c1 b1 where h: "Has_lfu e (clock i) c k' = (c1, b1)" by fastforce
  show "lfu_absent e clock s' k" if "lfu_absent e clock s k" "store_Has (lfu_store e clock) s k' = (s', b)"
    using that Has_lfu_found(2) [OF _ h]
    by (auto simp: s h lfu_store_simps lfu_absent_def mono_def)
  obtain c2 b2 where h2: "Has_lfu e (clock i) c k = (c2, b2)" by fastforce
  show "\<not> b" if "lfu_absent e clock s k" "store_Has (lfu_store e clock) s k = (s', b)"
    using that Has_lfu_found(1) [OF _ h2] by (auto simp: s h2 lfu_store_simps lfu_absent_def)
qed

text \<open>Requests handled one after the other: each is given to the loops of the middleware in its own context.\<close>

fun serve :: "('c, 'k, 's) JWTMiddleware \<Rightarrow> 'c ValuesExtractor list \<Rightarrow> 's \<Rightarrow> 'c list \<Rightarrow> 's option" where
  "serve mw fs s [] = Some s"
| "serve mw fs s (c # cs) =
     (case jwt_loop mw fs s c None None of Ret (s, _) \<Rightarrow> serve mw fs s cs | _ \<Rightarrow> None)"

context token_store
begin

lemma serve_absent:
  "tokenStore mw = Some st \<Longrightarrow> absent s k \<Longrightarrow> serve mw fs s cs = Some s' \<Longrightarrow> absent s' k"
proof (induction cs arbitrary: s)
  case (Cons c cs)
  obtain s1 where l: "serve mw fs s1 cs = Some s'" and j: "\<exists>x. jwt_loop mw fs s c None None = Ret (s1, x)"
    using Cons.prems(3) by (auto split: outcome.splits)
  obtain c' ok' le lt where "jwt_loop mw fs s c None None = Ret (s1, c', ok', le, lt)" using j by auto
  from jwt_loop_absent [OF Cons.prems(1,2) this] Cons l show ?case by blast
qed simp

lemma logout_absent:
  assumes "ok s" "tokenStore mw = Some st" "LogoutHandler g o1 own mw s c = Ret (s', c')"
    and "FromContext (GetDerivativeContext o1 own c) = Some gp" "GetTokenIDFunc (JWTOptions (Config mw)) = Some getID"
    and "getID \<lparr>tok_Alg = [], tok_Header = Map.empty, tok_Claims = Claims (Identity gp), tok_Valid = False\<rparr> = Ret (jti, True)"
  shows "absent s' jti" "c' = c"
proof -
  obtain s1 r where d: "store_Del st s jti = (s1, r)" by fastforce
  with del_absent [OF assms(1) d] assms show "absent s' jti" "c' = c"
    by (auto simp: LogoutHandler_def)
qed

end

text \<open>
  C25: a logout revokes the token.  With the in-process cache as the store of token identifiers and
  the default identifier function, after the default logout handler has run for a principal whose claims have an
  identifier, and any further requests have been served, no token with that identifier
  is accepted: handling one gives an error or a panic, never a token.
\<close>

theorem jwt_logout_revokes:
  assumes "tinylfu_laws (lib e)" "mono clock" "tokenStore mw = Some (lfu_store e clock)"
    and "GetTokenIDFunc (JWTOptions (Config mw)) = Some defaultGetTokenID"
    and "FromContext (GetDerivativeContext o1 own c) = Some gp" "Claims (Identity gp) = MapClaims m" "m ''jti'' = Some (JString jti)"
    and "LogoutHandler g o1 own mw s c = Ret (s1, c1)" "serve mw fs s1 cs = Some s2"
    and "HandleToken mw s2 c2 authStr = (s3, Ret token)"
  shows "defaultGetTokenID token \<noteq> Ret (jti, True)"
proof -
  have "lfu_absent e clock s1 jti"
    by (rule lfu_tokens.logout_absent(1) [OF conjI [OF assms(1,2)] assms(3,8,5,4)]) (simp add: defaultGetTokenID_def assms(6,7))
  then have "lfu_absent e clock s2 jti" by (rule lfu_tokens.serve_absent [OF assms(3) _ assms(9)])
  then show ?thesis by (rule lfu_tokens.HandleToken_revoked [OF assms(3) _ assms(10,4)])
qed

text \<open>
  A middleware whose parser takes the token string as the identifier, on a cache that holds two identifiers;
  the first user logs out, a request is served, and the second user's token is handled.
\<close>

definition id_token :: "string \<Rightarrow> Token" where
  "id_token s = \<lparr>tok_Alg = ''HS256'', tok_Header = Map.empty, tok_Claims = MapClaims [''jti'' \<mapsto> JString s], tok_Valid = True\<rparr>"

definition id_jwt :: "(unit, unit, nat \<times> unit demo_state TinyLFU) JWTMiddleware" where
  "id_jwt =
     \<lparr>Config = \<lparr>JWTOptions = NewJWTOptions\<lparr>ParseTokenFunc := Some (\<lambda>_ s. Ret (id_token s)), GetTokenIDFunc := Some defaultGetTokenID\<rparr>,
        jwt_Skipper = None, jwt_Exclude = [], TokenLookupFuncs = [], jwt_ErrorHandler = None, TokenStoreKey = [], WithPrincipalContext = None\<rparr>,
      tokenStore = Some (lfu_store demo_env (\<lambda>_. 0))\<rparr>"

definition id_cache :: "string list \<Rightarrow> nat \<times> unit demo_state TinyLFU" where
  "id_cache ids = (0, demo_sub\<lparr>lfu := map (\<lambda>i. (i, VBytes [], None)) ids\<rparr>)"

definition user1 :: "(unit, jwtclaims) ctx_ops" where
  "user1 = \<lparr>getd = (\<lambda>_. Some (WithContext Map.empty (NewGenericPrincipalByClaims (MapClaims [''jti'' \<mapsto> JString ''id1''])))),
     setd = (\<lambda>_ c. c), getr = (\<lambda>_. Map.empty), setr = (\<lambda>_ c. c)\<rparr>"

theorem jwt_logout_revokes_witness:
  "\<exists>s1 s2 s3 g own c1. LogoutHandler g user1 own id_jwt (id_cache [''id1'', ''id2'']) () = Ret (s1, c1)
     \<and> serve id_jwt [\<lambda>c. (c, Ret [''id1''])] s1 [()] = Some s2
     \<and> HandleToken id_jwt s2 () ''id2'' = (s3, Ret (id_token ''id2''))
     \<and> defaultGetTokenID (id_token ''id2'') \<noteq> Ret (''id1'', True)"
proof -
  have st: "tokenStore id_jwt = Some (lfu_store demo_env (\<lambda>_. 0))" "GetTokenIDFunc (JWTOptions (Config id_jwt)) = Some defaultGetTokenID"
    by (simp_all add: id_jwt_def)
  have fc: "FromContext (GetDerivativeContext user1 own ()) = Some (NewGenericPrincipalByClaims (MapClaims [''jti'' \<mapsto> JString ''id1'']))" for own
    by (simp add: user1_def GetDerivativeContext_def)
  have cl: "Claims (Identity (NewGenericPrincipalByClaims cl)) = cl" for cl :: jwtclaims
    by (simp add: Claims_def Identity_def NewGenericPrincipalByClaims_def)
  have lo: "LogoutHandler g user1 own id_jwt (id_cache [''id1'', ''id2'']) () = Ret (id_cache [''id2''], ())" for g own
    by (simp add: LogoutHandler_def fc cl st defaultGetTokenID_def id_cache_def lfu_store_simps Del_lfu_def demo_env_def demo_table_def)
  have has: "store_Has (lfu_store demo_env (\<lambda>_. 0)) (i, snd (id_cache [''id2''])) k = ((Suc i, snd (id_cache [''id2''])), k = ''id2'')" for i k
    by (simp add: lfu_store_simps Has_lfu_def lfu_get_def demo_env_def demo_table_def id_cache_def)
  have ht: "HandleToken id_jwt (i, snd (id_cache [''id2''])) () k =
      ((Suc i, snd (id_cache [''id2''])), if k = ''id2'' then Ret (id_token k) else Fail ErrTokenUnverifiable)" for i k
    by (simp add: HandleToken_def st) (simp add: id_jwt_def id_token_def defaultGetTokenID_def has)
  have i0: "id_cache [''id2''] = (0, snd (id_cache [''id2'']))" by (simp add: id_cache_def)
  have sv: "serve id_jwt [\<lambda>c. (c, Ret [''id1''])] (id_cache [''id2'']) [()] = Some (1, snd (id_cache [''id2'']))"
    by (subst i0) (simp add: ht)
  have h2: "HandleToken id_jwt (1, snd (id_cache [''id2''])) () ''id2'' = ((2, snd (id_cache [''id2''])), Ret (id_token ''id2''))"
    using ht [of 1 "''id2''"] by simp
  have "defaultGetTokenID (id_token ''id2'') \<noteq> Ret (''id1'', True)"
    by (rule jwt_logout_revokes [OF demo_env_laws(1) _ st fc cl _ lo sv h2]) (simp_all add: mono_def)
  with lo sv h2 show ?thesis by blast
qed

end
