(* ===== verification/WebSigner.thy ===== *)
theory WebSigner
  imports WebAuth LFU
begin

text \<open>
  Model of \<open>web/handler/signer/sign.go\<close>: the middleware that verifies signed requests and protects against
  replays.  Instants have a resolution of a second.  The store of signatures is a cache that
  the middleware uses through one call, \<open>Set\<close> with \<open>WithSetNX\<close>; its state \<open>'s\<close> is passed beside the context.
  \<open>Verify\<close> normalises the query of the request it is given; that change is not part of the context here.
\<close>

section \<open>Configuration\<close>

definition TokenSignerName :: string where "TokenSignerName = ''tokenSign''"
definition HMACSignerName :: string where "HMACSignerName = ''hmacSign''"
definition SignerName :: string where "SignerName = ''sign''"

record 'c SignConfig =
  sg_Skipper :: "'c Skipper option"
  sg_Exclude :: "string list"
  SignerCfg :: SignerConfig
  Interval :: int
  StoreKey :: string
  sg_TTL :: int

record 'c SignMiddleware =
  sg_name :: string
  sg_config :: "'c SignConfig"
  Signer :: "Signer option"
  nonceExtractor :: "'c ValuesExtractor option"
  timestampExtractor :: "'c ValuesExtractor option"
  signatureExtractor :: "'c ValuesExtractor option"

definition NewMiddleware :: "httpenv \<Rightarrow> string \<Rightarrow> 'c SignConfig MiddlewareOption list \<Rightarrow> 'c SignMiddleware" where
  "NewMiddleware e name opts =
     (let name = (if name = [] then SignerName else name);
          cfg = with_config opts
            \<lparr>sg_Skipper = None, sg_Exclude = [], SignerCfg = DefaultSignerConfig e, Interval = 5 * 60 * second, StoreKey = [],
             sg_TTL = 24 * 3600 * second\<rparr>;
          cfg = cfg\<lparr>SignerCfg := (SignerCfg cfg)\<lparr>Dry := True\<rparr>\<rparr>
      in \<lparr>sg_name = name, sg_config = cfg, Signer = None, nonceExtractor = None, timestampExtractor = None,
          signatureExtractor = None\<rparr>)"

text \<open>The first extractor of a lookup; an error is ignored.\<close>

definition first_extractor :: "'c gin \<Rightarrow> string \<Rightarrow> 'c ValuesExtractor option" where
  "first_extractor g l = (case CreateExtractors g l [] of Ret (f # _) \<Rightarrow> Some f | _ \<Rightarrow> None)"

definition lookup_extractor :: "'c gin \<Rightarrow> SignerConfig \<Rightarrow> string \<times> string \<Rightarrow> 'c SignMiddleware \<Rightarrow> 'c SignMiddleware" where
  "lookup_extractor g cfg kl mw =
     (case kl of (key, l) \<Rightarrow>
        if key = TimestampKey cfg then
          (case first_extractor g l of None \<Rightarrow> mw | Some f \<Rightarrow> mw\<lparr>timestampExtractor := Some f\<rparr>)
        else if key = NonceKey cfg then
          (case first_extractor g l of None \<Rightarrow> mw | Some f \<Rightarrow> mw\<lparr>nonceExtractor := Some f\<rparr>)
        else mw)"

definition clear_extractor :: "SignerConfig \<Rightarrow> string \<Rightarrow> 'c SignMiddleware \<Rightarrow> 'c SignMiddleware" where
  "clear_extractor cfg header mw =
     (if header = TimestampKey cfg then mw\<lparr>timestampExtractor := None\<rparr>
      else if header = NonceKey cfg then mw\<lparr>nonceExtractor := None\<rparr> else mw)"

text \<open>
  \<open>build\<close> up to the choice of the store, which is \<open>cache.GetCache\<close> of the configured key or a new
  in-process cache whose TTL is the interval and a minute.
\<close>

definition build_signer :: "httpenv \<Rightarrow> string \<Rightarrow> SignerConfig \<Rightarrow> (SignerConfig \<times> Signer option) outcome" where
  "build_signer e name cfg =
     (if name = TokenSignerName then BuildSigner [WithSigner NewTokenSigner] cfg
      else if name = HMACSignerName then BuildSigner [WithSigner (NewHMACSigner e)] cfg
      else BuildSigner [WithSigner NewDefaultSigner] cfg)"

definition build ::
  "'c gin \<Rightarrow> httpenv \<Rightarrow> ('c SignConfig \<Rightarrow> 'c SignConfig outcome) \<Rightarrow> 'c SignMiddleware \<Rightarrow> 'c SignMiddleware outcome" where
  "build g e unmarshal mw =
     go_bind (unmarshal (sg_config mw)) (\<lambda>config.
       let config = (case sg_Skipper config of
                       None \<Rightarrow> config\<lparr>sg_Skipper := Some (PathSkipper g (sg_Exclude config))\<rparr> | Some _ \<Rightarrow> config)
       in go_bind (build_signer e (sg_name mw) (SignerCfg config)) (\<lambda>(cfg, sg).
          let mw = mw\<lparr>sg_config := config\<lparr>SignerCfg := cfg\<rparr>, Signer := sg\<rparr>;
              mw = fold (lookup_extractor g cfg) (SignedLookups cfg) mw;
              mw = fold (clear_extractor cfg) (AuthHeaders cfg) mw
          in go_bind (CreateExtractors g (AuthLookup cfg) (AuthScheme cfg)) (\<lambda>fs.
             case fs of
               [] \<Rightarrow> Fail (Errorf ''no signature extractor found'')
             | f # _ \<Rightarrow> Ret (mw\<lparr>signatureExtractor := Some f\<rparr>))))"

definition default_store_config :: "int \<Rightarrow> Config \<Rightarrow> Config outcome" where
  "default_store_config interval c = Ret (c\<lparr>Size := 100000, cfg_TTL := wrap64 (interval + 60 * second)\<rparr>)"

definition default_store :: "('s, 'o) env \<Rightarrow> int \<Rightarrow> 'x \<Rightarrow> 'x manager \<Rightarrow> 'x manager \<times> 's TinyLFU outcome" where
  "default_store e interval self m = NewTinyLFU e (default_store_config interval) self m"

section \<open>Handling a request\<close>

definition errTimestampExpired :: go_error where "errTimestampExpired = Errorf ''timestamp is expired''"

text \<open>\<open>Time.Sub\<close>, which saturates.\<close>

definition time_Sub :: "Time \<Rightarrow> Time \<Rightarrow> int" where
  "time_Sub t u = max (- (2 ^ 63)) (min (2 ^ 63 - 1) (second * (unix t - unix u)))"

text \<open>One value of the verification parameters: extracted from the request, or from the signature's own fields.\<close>

definition verify_param :: "'c ValuesExtractor option \<Rightarrow> (string \<Rightarrow> string option) \<Rightarrow> string \<Rightarrow> 'c \<Rightarrow> 'c \<times> string outcome" where
  "verify_param extractor sigv key c =
     (case extractor of
        None \<Rightarrow> (c, Ret (map_get sigv key))
      | Some f \<Rightarrow>
          (case f c of
             (c, Ret (v # _)) \<Rightarrow> (c, Ret v)
           | (c, Ret []) \<Rightarrow> (c, index_panic)
           | (c, Fail err) \<Rightarrow> (c, Fail err)
           | (c, Panic p) \<Rightarrow> (c, Panic p)))"

definition extractorVerifyParam ::
  "httpenv \<Rightarrow> 'c SignMiddleware \<Rightarrow> location \<Rightarrow> Time \<Rightarrow> (string \<Rightarrow> string option) \<Rightarrow> 'c \<Rightarrow> 'c \<times> (string \<times> Time) outcome" where
  "extractorVerifyParam e mw local_zone now sigv c =
     (let cfg = SignerCfg (sg_config mw) in
      case verify_param (nonceExtractor mw) sigv (NonceKey cfg) c of
        (c, Fail err) \<Rightarrow> (c, Fail err)
      | (c, Panic p) \<Rightarrow> (c, Panic p)
      | (c, Ret nonce) \<Rightarrow>
          (case verify_param (timestampExtractor mw) sigv (TimestampKey cfg) c of
             (c, Fail err) \<Rightarrow> (c, Fail err)
           | (c, Panic p) \<Rightarrow> (c, Panic p)
           | (c, Ret st) \<Rightarrow>
               (c, go_bind (ParseSignTime e (DateFormat cfg) st local_zone) (\<lambda>sign.
                  let dif = time_Sub now sign in
                  if dif < 0 \<or> dif > Interval (sg_config mw) then Fail errTimestampExpired else Ret (nonce, sign)))))"

text \<open>\<open>setnx\<close> is \<open>cache.Set(signature, nil, WithTTL(ttl), WithSetNX())\<close>.\<close>

definition signatureValidate ::
  "'c gin \<Rightarrow> (int \<Rightarrow> 's \<Rightarrow> string \<Rightarrow> 's \<times> unit outcome) \<Rightarrow> 'c SignMiddleware \<Rightarrow> string \<Rightarrow> 's \<Rightarrow> 'c \<Rightarrow> 's \<times> 'c \<times> unit outcome" where
  "signatureValidate g setnx mw sig s c =
     (case setnx (sg_TTL (sg_config mw)) s sig of
        (s, Fail err) \<Rightarrow> (s, c_AbortWithStatus g 401 c, Fail err)
      | (s, r) \<Rightarrow> (s, c, r))"

definition SignatureName :: string where "SignatureName = ''Signature''"

definition sign_handler ::
  "'c gin \<Rightarrow> httpenv \<Rightarrow> (int \<Rightarrow> 's \<Rightarrow> string \<Rightarrow> 's \<times> unit outcome) \<Rightarrow> 'c SignMiddleware \<Rightarrow> location \<Rightarrow> Time
   \<Rightarrow> 's \<Rightarrow> 'c \<Rightarrow> ('s \<times> 'c) outcome" where
  "sign_handler g e setnx mw local_zone now s c =
     (let cfg = SignerCfg (sg_config mw) in
      if the (sg_Skipper (sg_config mw)) c then Ret (s, c)
      else (case the (signatureExtractor mw) c of
        (c, Fail err) \<Rightarrow> Ret (s, c_AbortWithError g 401 err c)
      | (c, Panic p) \<Rightarrow> Panic p
      | (c, Ret []) \<Rightarrow> index_panic
      | (c, Ret (sigStr # _)) \<Rightarrow>
          (let sigVal = ValuesFromCanonical sigStr (AuthHeaderDelimiter cfg) ''='';
               sig = map_get sigVal SignatureName
           in if sig = [] then Ret (s, c_AbortWithError g 401 ErrInvalidSignature c)
              else (case extractorVerifyParam e mw local_zone now sigVal c of
                (c, Fail err) \<Rightarrow> Ret (s, c_AbortWithError g 401 err c)
              | (c, Panic p) \<Rightarrow> Panic p
              | (c, Ret (nonceStr, signtime)) \<Rightarrow>
                  (case (case Signer mw of
                           None \<Rightarrow> Panic ''invalid memory address or nil pointer dereference''
                         | Some sg \<Rightarrow> Verify e cfg sg (c_Request g c) nonceStr signtime) of
                     Fail err \<Rightarrow> Ret (s, c_AbortWithError g 401 err c)
                   | Panic p \<Rightarrow> Panic p
                   | Ret _ \<Rightarrow>
                       (case signatureValidate g setnx mw sig s c of
                          (s, c, Fail err) \<Rightarrow> Ret (s, c_Error g err c)
                        | (s, c, Panic p) \<Rightarrow> Panic p
                        | (s, c, Ret _) \<Rightarrow> Ret (s, c)))))))"

definition Sign_ApplyFunc ::
  "'c gin \<Rightarrow> httpenv \<Rightarrow> ('c SignConfig \<Rightarrow> 'c SignConfig outcome) \<Rightarrow> 'c SignMiddleware \<Rightarrow>
   ((int \<Rightarrow> 's \<Rightarrow> string \<Rightarrow> 's \<times> unit outcome) \<Rightarrow> location \<Rightarrow> Time \<Rightarrow> 's \<Rightarrow> 'c \<Rightarrow> ('s \<times> 'c) outcome) outcome" where
  "Sign_ApplyFunc g e unmarshal mw0 =
     (case build g e unmarshal mw0 of
        Fail err \<Rightarrow> Panic ''build''
      | Panic p \<Rightarrow> Panic p
      | Ret mw \<Rightarrow> Ret (\<lambda>setnx. sign_handler g e setnx mw))"

end
