(* ===== verification/WebSignerProps.thy ===== *)
theory WebSignerProps
  imports WebSigner WebAuthProps HttpSignProps
begin

text \<open>
  Properties of the signature middleware: what it admits, the rejection of replays over any store that keeps
  its promise (a locale, interpreted on the in-process cache the middleware creates by default), and a
  replay that passes because the signature that is checked and the one that is remembered are read differently.
\<close>

section \<open>What is admitted\<close>

lemma extractorVerifyParam_Ret:
  assumes "extractorVerifyParam e mw z now sigv c = (c', Ret (n, t))"
  shows "0 \<le> time_Sub now t" "time_Sub now t \<le> Interval (sg_config mw)"
  using assms
  by (auto simp: extractorVerifyParam_def Let_def go_simps split: outcome.splits prod.splits if_splits)

text \<open>
  The request passed the checks up to the store, with signature \<open>sig\<close> to be remembered.
\<close>

definition checked ::
  "'c gin \<Rightarrow> httpenv \<Rightarrow> 'c SignMiddleware \<Rightarrow> location \<Rightarrow> Time \<Rightarrow> 'c \<Rightarrow> string \<Rightarrow> 'c \<Rightarrow> bool" where
  "checked g e mw z now c sig c2 \<longleftrightarrow>
     (\<exists>c1 v vs nonce t sg. the (signatureExtractor mw) c = (c1, Ret (v # vs))
        \<and> sig = map_get (ValuesFromCanonical v (AuthHeaderDelimiter (SignerCfg (sg_config mw))) ''='') SignatureName \<and> sig \<noteq> []
        \<and> extractorVerifyParam e mw z now (ValuesFromCanonical v (AuthHeaderDelimiter (SignerCfg (sg_config mw))) ''='') c1 = (c2, Ret (nonce, t))
        \<and> Signer mw = Some sg \<and> Verify e (SignerCfg (sg_config mw)) sg (c_Request g c2) nonce t = Ret ()
        \<and> 0 \<le> time_Sub now t \<and> time_Sub now t \<le> Interval (sg_config mw))"

lemma sign_handler_store:
  assumes "gin_laws g" "checked g e mw z now c sig c2" "\<not> the (sg_Skipper (sg_config mw)) c"
    and "sign_handler g e setnx mw z now s c = Ret (s', c')"
  shows "(\<exists>err. setnx (sg_TTL (sg_config mw)) s sig = (s', Fail err) \<and> c_IsAborted g c')
    \<or> (setnx (sg_TTL (sg_config mw)) s sig = (s', Ret ()) \<and> c' = c2)"
  using assms
  by (auto simp: checked_def sign_handler_def signatureValidate_def Let_def gin_lawsD split: prod.splits outcome.splits)

lemma sign_handler_cases:
  assumes "gin_laws g" "\<not> the (sg_Skipper (sg_config mw)) c" "sign_handler g e setnx mw z now s c = Ret (s', c')"
  shows "(c_IsAborted g c' \<and> s' = s) \<or> (\<exists>sig c2. checked g e mw z now c sig c2)"
proof -
  let ?d = "AuthHeaderDelimiter (SignerCfg (sg_config mw))"
  note h = assms(2,3)
  obtain c1 r1 where x: "the (signatureExtractor mw) c = (c1, r1)" by fastforce
  then consider er where "r1 = Fail er" | v vs where "r1 = Ret (v # vs)"
    using h by (cases r1; cases "case r1 of Ret vs \<Rightarrow> vs | _ \<Rightarrow> []") (auto simp: sign_handler_def)
  then show ?thesis
  proof cases
    case (2 v vs)
    let ?sv = "ValuesFromCanonical v ?d ''=''" and ?cfg = "SignerCfg (sg_config mw)"
    obtain c2 r2 where p: "extractorVerifyParam e mw z now ?sv c1 = (c2, r2)" by fastforce
    consider "map_get ?sv SignatureName = []" | er where "map_get ?sv SignatureName \<noteq> []" "r2 = Fail er"
      | n t where "map_get ?sv SignatureName \<noteq> []" "r2 = Ret (n, t)"
      using h x 2 p by (cases r2) (auto simp: sign_handler_def Let_def split: if_splits)
    then show ?thesis
    proof cases
      case (3 n t)
      then obtain sg where sg: "Signer mw = Some sg" using h x 2 p by (auto simp: sign_handler_def Let_def split: option.splits)
      obtain vr where vr: "Verify e ?cfg sg (c_Request g c2) n t = vr" by blast
      show ?thesis
      proof (cases vr)
        case (Ret u)
        then have "checked g e mw z now c (map_get ?sv SignatureName) c2"
          unfolding checked_def using x 2 3 p sg vr extractorVerifyParam_Ret [of e mw z now ?sv c1 c2 n t] by auto
        then show ?thesis by blast
      qed (use assms x 2 3 p sg vr in \<open>auto simp: sign_handler_def Let_def gin_lawsD\<close>)
    qed (use assms x 2 p in \<open>auto simp: sign_handler_def Let_def gin_lawsD\<close>)
  qed (use assms x in \<open>auto simp: sign_handler_def Let_def gin_lawsD\<close>)
qed

lemma admitted_stored:
  assumes "gin_laws g" "\<not> the (sg_Skipper (sg_config mw)) c" "sign_handler g e setnx mw z now s c = Ret (s', c')" "\<not> c_IsAborted g c'"
  obtains sig where "checked g e mw z now c sig c'" "setnx (sg_TTL (sg_config mw)) s sig = (s', Ret ())"
proof -
  from sign_handler_cases [OF assms(1-3)] assms(4) obtain sig c2 where c: "checked g e mw z now c sig c2" by blast
  from sign_handler_store [OF assms(1) c assms(2,3)] assms(4) c that show ?thesis by blast
qed

section \<open>Replays\<close>

text \<open>
  What a store of signatures promises: a signature that was stored is held, and a signature that is held cannot be
  stored again.
\<close>

locale nonce_store =
  fixes setnx :: "int \<Rightarrow> 's \<Rightarrow> string \<Rightarrow> 's \<times> unit outcome" and ok :: "int \<Rightarrow> 's \<Rightarrow> bool" and held :: "'s \<Rightarrow> string \<Rightarrow> bool"
  assumes claims_key: "ok ttl s \<Longrightarrow> setnx ttl s k = (s', Ret ()) \<Longrightarrow> held s' k"
    and refuses: "held s k \<Longrightarrow> setnx ttl s k \<noteq> (s', Ret ())"
begin

lemma replay:
  assumes "gin_laws g" "ok (sg_TTL (sg_config mw)) s"
    and "sign_handler g e setnx mw z now s c = Ret (s1, c1)" "\<not> the (sg_Skipper (sg_config mw)) c" "\<not> c_IsAborted g c1"
    and "sign_handler g e setnx mw z now' s1 d = Ret (s2, d1)" "\<not> the (sg_Skipper (sg_config mw)) d"
    and same: "\<And>sig sig' c2 d2. checked g e mw z now c sig c2 \<Longrightarrow> checked g e mw z now' d sig' d2 \<Longrightarrow> sig' = sig"
  shows "c_IsAborted g d1"
proof (rule ccontr)
  assume d1: "\<not> c_IsAborted g d1"
  obtain sig where c: "checked g e mw z now c sig c1" "setnx (sg_TTL (sg_config mw)) s sig = (s1, Ret ())"
    using admitted_stored [OF assms(1,4,3,5)] .
  obtain sig' where d: "checked g e mw z now' d sig' d1" "setnx (sg_TTL (sg_config mw)) s1 sig' = (s2, Ret ())"
    using admitted_stored [OF assms(1,7,6) d1] .
  from claims_key [OF assms(2) c(2)] refuses d(2) same [OF c(1) d(1)] show False by blast
qed

end

text \<open>
  The default store: the in-process cache, read and written at successive readings of a clock.  It is good for
  a time to live if the table keeps its laws, the cache is not a subsidiary one, the clock does not go back and the next
  reading comes before the entry expires.
\<close>

definition lfu_setnx :: "('s, 'o) env \<Rightarrow> (nat \<Rightarrow> int) \<Rightarrow> int \<Rightarrow> nat \<times> 's TinyLFU \<Rightarrow> string \<Rightarrow> (nat \<times> 's TinyLFU) \<times> unit outcome" where
  "lfu_setnx e clock ttl s k =
     (case Set_lfu e (clock (fst s)) 0 (snd s) k VNil [WithTTL ttl, WithSetNX] of (c, r) \<Rightarrow> ((Suc (fst s), c), r))"

definition lfu_ready :: "('s, 'o) env \<Rightarrow> (nat \<Rightarrow> int) \<Rightarrow> int \<Rightarrow> nat \<times> 's TinyLFU \<Rightarrow> bool" where
  "lfu_ready e clock ttl s \<longleftrightarrow> tinylfu_laws (lib e) \<and> 0 < ttl \<and> offset (snd s) = 0 \<and> \<not> Subsidiary (config (snd s))
     \<and> clock (fst s) \<le> clock (Suc (fst s)) \<and> clock (Suc (fst s)) < clock (fst s) + ttl"

definition lfu_held :: "('s, 'o) env \<Rightarrow> (nat \<Rightarrow> int) \<Rightarrow> nat \<times> 's TinyLFU \<Rightarrow> string \<Rightarrow> bool" where
  "lfu_held e clock s k \<longleftrightarrow> tinylfu_laws (lib e) \<and> found e (clock (fst s)) (snd s) k \<noteq> None"

lemma nx_options: "SetNX (ApplyOptions [WithTTL t, WithSetNX])" "\<not> SetXX (ApplyOptions [WithTTL t, WithSetNX])"
  "TTL (ApplyOptions [WithTTL t, WithSetNX]) = t" "Skip (ApplyOptions [WithTTL t, WithSetNX]) = 0"
  "\<not> Raw (ApplyOptions [WithTTL t, WithSetNX])"
  by (simp_all add: ApplyOptions_def WithTTL_def WithSetNX_def)

interpretation lfu_nonces: nonce_store "lfu_setnx e clock" "lfu_ready e clock" "lfu_held e clock" for e :: "('s, 'o) env" and clock
proof unfold_locales
  fix ttl k and s s' :: "nat \<times> 's TinyLFU"
  obtain i c where s: "s = (i, c)" by (cases s)
  let ?o = "ApplyOptions [WithTTL ttl, WithSetNX] :: 'o Options"
  show "lfu_held e clock s' k" if ok: "lfu_ready e clock ttl s" and set: "lfu_setnx e clock ttl s k = (s', Ret ())"
  proof -
    have fx: "fixTTL c 0 ttl ?o = Ret ttl" using ok by (simp add: lfu_ready_def s fixTTL_def nx_options)
    obtain x c1 where g: "lfu_get e (clock i) c k = (x, c1)" by fastforce
    obtain c' where s': "s' = (Suc i, c')" and st: "setValue e (clock i) c1 k VNil ttl False = (c', Ret ())"
      using set fx g by (auto simp: lfu_setnx_def s Set_lfu_def setOptions_def nx_options Let_def split: option.splits prod.splits)
    from setValue_spec [OF _ st] ok show ?thesis by (auto simp: lfu_ready_def lfu_held_def s s')
  qed
  show "lfu_setnx e clock ttl s k \<noteq> (s', Ret ())" if h: "lfu_held e clock s k"
  proof -
    obtain x c1 where g: "lfu_get e (clock i) c k = (x, c1)" by fastforce
    with lfu_get_spec(1) [OF _ g] h have "x \<noteq> None" by (auto simp: lfu_held_def s)
    with g show ?thesis
      by (auto simp: lfu_setnx_def s Set_lfu_def setOptions_def nx_options Let_def split: option.splits prod.splits outcome.splits)
  qed
qed

lemma checked_same:
  assumes "checked g e mw z now c sig c2" "checked g e mw z now' d sig' d2"
    and "snd (the (signatureExtractor mw) d) = snd (the (signatureExtractor mw) c)"
  shows "sig' = sig"
  using assms by (auto simp: checked_def)

section \<open>A concrete middleware\<close>

text \<open>
  The token signer of \<open>demo_sconfig\<close> behind the middleware.  The request carries the token, the timestamp and an
  authorization header; its signature is the digest of the string to sign.
\<close>

definition signed_request :: "string \<Rightarrow> Request" where
  "signed_request auth = demo_request\<lparr>Header := (\<lambda>_. [])(''X-Token'' := [''abc''], ''Timestamp'' := [''9''], ''Authorization'' := [''TOKEN '' @ auth])\<rparr>"

definition signed_ctx :: "string \<Rightarrow> demo_ctx" where
  "signed_ctx auth = \<lparr>d_req = signed_request auth, d_aborted = False, d_errors = [], d_status = 200\<rparr>"

definition sig_hex :: string where
  "sig_hex = hex_EncodeToString (''#timestamp=9'' @ [CHR 0x0A] @ ''token=abc'')"

definition demo_signer_mw :: "demo_ctx SignMiddleware" where
  "demo_signer_mw =
     \<lparr>sg_name = TokenSignerName,
      sg_config = \<lparr>sg_Skipper = Some DefaultSkipper, sg_Exclude = [], SignerCfg = demo_sconfig, Interval = 300 * second, StoreKey = [],
         sg_TTL = 86400 * second\<rparr>,
      Signer = Some (TokenSigner [''timestamp'', ''token'']), nonceExtractor = None,
      timestampExtractor = Some (web_ValuesFromHeader demo_gin ''timestamp'' []),
      signatureExtractor = Some (web_ValuesFromHeader demo_gin ''Authorization'' ''TOKEN '')\<rparr>"

lemma scheme_fold: "EqualFold ''TOKEN '' ''TOKEN ''" by (simp add: EqualFold_def)

lemma signed_headers:
  "auth \<noteq> [] \<Longrightarrow> ValuesFromHeader (signed_request auth) ''Authorization'' ''TOKEN '' (length ''TOKEN '') = Ret [auth]"
  "ValuesFromHeader (signed_request auth) ''X-Token'' [] 0 = Ret [''abc'']"
  "ValuesFromHeader (signed_request auth) ''Timestamp'' [] 0 = Ret [''9'']"
  by (simp_all add: ValuesFromHeader_def Header_Values_def demo_canonical signed_request_def Let_def scheme_fold
      CanonicalHeaderKey_def header_byte_def is_digit_def upper_char_def lower_char_def)

lemma signed_compute:
  "\<exists>ctx. compute demo_http demo_sconfig (TokenSigner [''timestamp'', ''token'']) (signed_request auth) [] \<lparr>unix = 9, loc = z\<rparr>
       = Ret (signed_request auth, ctx) \<and> Signature ctx = sig_hex"
proof -
  have "Split ''X-Token'' ''>'' = [''X-Token'']" by (simp add: Split_char_simps)
  then have "valueFromLookupExp (signed_request auth) ''X-Token'' = Ret ''abc''"
    by (simp add: valueFromLookupExp_def signed_headers)
  moreover have "Itoa 9 = ''9''" by (simp add: Itoa_def nat_digits.simps char_of_def bit_0)
  ultimately show ?thesis
    by (simp add: compute_def BuildCanonicalRequest_def CalculateSignature_def demo_sconfig_def DefaultSignerConfig_def
        newCtx_def Token_StringToSign_def digest_def AlgorithmSha1_def Let_def FormatSignTime_def map_get_def GetAccessKeySecret_def
        demo_http_def sig_hex_def)
qed

section \<open>Two readings of the signature\<close>

text \<open>The field of a signature, alone and followed by a second one.\<close>

abbreviation sig_field :: "string \<Rightarrow> string" where "sig_field a \<equiv> ''Signature='' @ a"

lemma split_field: "SplitN2 (sig_field a) ''='' = [''Signature'', a]"
  using Index_append_sep [of "CHR ''=''" "''Signature''" a] by (simp add: SplitN2_def)

lemma split_one: "CHR '','' \<notin> set a \<Longrightarrow> Split (sig_field a) '', '' = [sig_field a]"
  using Split_seps(1) [of "CHR '',''" "sig_field a" "'' ''"] by simp

lemma split_two:
  assumes "CHR '','' \<notin> set a" "CHR '','' \<notin> set b"
  shows "Split (sig_field a @ '', '' @ sig_field b) '', '' = [sig_field a, sig_field b]"
  using Split_seps(2) [of "CHR '',''" "sig_field a" "'' ''" "sig_field b"] split_one [OF assms(2)] assms(1) by simp

lemma find_field: "a \<noteq> [] \<Longrightarrow> find_signature (sig_field a # ps) = Ret a"
  by (simp add: signatureElem_def)

lemma remembered:
  "CHR '','' \<notin> set a \<Longrightarrow> ValuesFromCanonical (sig_field a) '', '' ''='' = [''Signature'' \<mapsto> a]"
  "CHR '','' \<notin> set a \<Longrightarrow> CHR '','' \<notin> set b \<Longrightarrow>
     ValuesFromCanonical (sig_field a @ '', '' @ sig_field b) '', '' ''='' = [''Signature'' \<mapsto> b]"
proof -
  assume a: "CHR '','' \<notin> set a"
  show "ValuesFromCanonical (sig_field a) '', '' ''='' = [''Signature'' \<mapsto> a]"
    unfolding ValuesFromCanonical_def split_one [OF a] by (simp add: split_field del: append_Cons)
  assume b: "CHR '','' \<notin> set b"
  show "ValuesFromCanonical (sig_field a @ '', '' @ sig_field b) '', '' ''='' = [''Signature'' \<mapsto> b]"
    unfolding ValuesFromCanonical_def split_two [OF a b] by (simp add: split_field del: append_Cons)
qed

lemma sig_hex_facts: "CHR '','' \<notin> set sig_hex" "sig_hex \<noteq> []"
proof -
  show "CHR '','' \<notin> set sig_hex" using set_hex [of "''#timestamp=9'' @ [CHR 0x0A] @ ''token=abc''"] unfolding sig_hex_def by auto
  have "length sig_hex \<noteq> 0" by (simp add: sig_hex_def)
  then show "sig_hex \<noteq> []" by auto
qed

text \<open>A request whose authorization begins with the genuine signature is checked, whatever it remembers.\<close>

lemma demo_checked:
  assumes "auth \<noteq> []" "find_signature (Split auth '', '') = Ret sig_hex"
    and "map_get (ValuesFromCanonical auth '', '' ''='') ''Signature'' = k" "k \<noteq> []"
    and "ValuesFromCanonical auth '', '' ''='' ''nonce'' = None"
  shows "sign_handler demo_gin demo_http setnx demo_signer_mw z \<lparr>unix = 10, loc = z\<rparr> s (signed_ctx auth) =
    (case setnx (86400 * second) s k of
       (s, Fail err) \<Rightarrow> Ret (s, c_Error demo_gin err (c_AbortWithStatus demo_gin 401 (signed_ctx auth)))
     | (s, Panic p) \<Rightarrow> Panic p
     | (s, Ret _) \<Rightarrow> Ret (s, signed_ctx auth))"
proof -
  have req: "c_Request demo_gin (signed_ctx auth) = signed_request auth" by (simp add: demo_gin_def signed_ctx_def)
  have x: "the (signatureExtractor demo_signer_mw) (signed_ctx auth) = (signed_ctx auth, Ret [auth])"
    using signed_headers(1) [OF assms(1)] by (simp add: demo_signer_mw_def web_ValuesFromHeader_def req demo_canonical)
  have t: "web_ValuesFromHeader demo_gin ''timestamp'' [] (signed_ctx auth) = (signed_ctx auth, Ret [''9''])"
    using signed_headers(3) [of auth] by (simp add: web_ValuesFromHeader_def req demo_canonical)
  have cfg: "AuthHeaderDelimiter demo_sconfig = '', ''" "AuthScheme demo_sconfig = ''TOKEN ''" "SignatureHeaderKey demo_sconfig = ''Authorization''"
    "NonceKey demo_sconfig = ''nonce''" "TimestampKey demo_sconfig = ''timestamp''" "DateFormat demo_sconfig = []"
    by (simp_all add: demo_sconfig_def DefaultSignerConfig_def)
  have "Atoi ''9'' = Ret 9" by (simp add: Atoi_def is_digit_def digit_val_def)
  then have p: "extractorVerifyParam demo_http demo_signer_mw z \<lparr>unix = 10, loc = z\<rparr> (ValuesFromCanonical auth '', '' ''='') (signed_ctx auth)
      = (signed_ctx auth, Ret ([], \<lparr>unix = 9, loc = z\<rparr>))"
    using assms(5) t
    by (simp add: extractorVerifyParam_def demo_signer_mw_def verify_param_def cfg map_get_def ParseSignTime_def time_Sub_def second_def)
  obtain ctx where c: "compute demo_http demo_sconfig (TokenSigner [''timestamp'', ''token'']) (signed_request auth) [] \<lparr>unix = 9, loc = z\<rparr>
       = Ret (signed_request auth, ctx)" "Signature ctx = sig_hex" using signed_compute by blast
  have v: "Verify demo_http demo_sconfig (TokenSigner [''timestamp'', ''token'']) (signed_request auth) [] \<lparr>unix = 9, loc = z\<rparr> = Ret ()"
    using signed_headers(1) [OF assms(1)] assms(2) c by (simp add: Verify_def GetSignedRequestSignature_def cfg)
  have mw: "SignerCfg (sg_config demo_signer_mw) = demo_sconfig" "the (sg_Skipper (sg_config demo_signer_mw)) = DefaultSkipper"
    "Signer demo_signer_mw = Some (TokenSigner [''timestamp'', ''token''])" "sg_TTL (sg_config demo_signer_mw) = 86400 * second"
    by (simp_all add: demo_signer_mw_def)
  show ?thesis
    using p v assms(3,4)
    by (simp add: sign_handler_def x mw cfg DefaultSkipper_def SignatureName_def req signatureValidate_def split: prod.split outcome.split)
qed

section \<open>Properties\<close>


definition list_setnx :: "int \<Rightarrow> string list \<Rightarrow> string \<Rightarrow> string list \<times> unit outcome" where
  "list_setnx ttl s k = (if k \<in> set s then (s, Fail (Errorf ''exists'')) else (k # s, Ret ()))"

lemma demo_accepts:
  "sign_handler demo_gin demo_http setnx demo_signer_mw z \<lparr>unix = 10, loc = z\<rparr> s (signed_ctx (sig_field sig_hex)) =
    (case setnx (86400 * second) s sig_hex of
       (s, Fail err) \<Rightarrow> Ret (s, c_Error demo_gin err (c_AbortWithStatus demo_gin 401 (signed_ctx (sig_field sig_hex))))
     | (s, Panic p) \<Rightarrow> Panic p
     | (s, Ret _) \<Rightarrow> Ret (s, signed_ctx (sig_field sig_hex)))"
proof (rule demo_checked)
  show "find_signature (Split (sig_field sig_hex) '', '') = Ret sig_hex"
    by (simp only: split_one [OF sig_hex_facts(1)] find_field [OF sig_hex_facts(2)])
qed (use sig_hex_facts in \<open>simp_all only: remembered(1) [OF sig_hex_facts(1)] map_get_def fun_upd_same option.case\<close>, simp_all)

text \<open>The captured request, with a second signature field appended to its authorization.\<close>

lemma demo_accepts_second:
  assumes "CHR '','' \<notin> set k" "k \<noteq> []"
  shows "sign_handler demo_gin demo_http setnx demo_signer_mw z \<lparr>unix = 10, loc = z\<rparr> s (signed_ctx (sig_field sig_hex @ '', '' @ sig_field k)) =
    (case setnx (86400 * second) s k of
       (s, Fail err) \<Rightarrow> Ret (s, c_Error demo_gin err (c_AbortWithStatus demo_gin 401 (signed_ctx (sig_field sig_hex @ '', '' @ sig_field k))))
     | (s, Panic p) \<Rightarrow> Panic p
     | (s, Ret _) \<Rightarrow> Ret (s, signed_ctx (sig_field sig_hex @ '', '' @ sig_field k)))"
proof (rule demo_checked)
  show "find_signature (Split (sig_field sig_hex @ '', '' @ sig_field k) '', '') = Ret sig_hex"
    by (simp only: split_two [OF sig_hex_facts(1) assms(1)] find_field [OF sig_hex_facts(2)])
qed (use assms in \<open>simp_all only: remembered(2) [OF sig_hex_facts(1) assms(1)] map_get_def fun_upd_same option.case\<close>, simp_all)

lemma signed_ctx_live: "\<not> c_IsAborted demo_gin (signed_ctx a)"
  by (simp add: demo_gin_def signed_ctx_def)

lemma demo_no_skip: "\<not> the (sg_Skipper (sg_config demo_signer_mw)) c"
  by (simp add: demo_signer_mw_def DefaultSkipper_def)


text \<open>
  C24: a replay is rejected.  With the in-process cache as the store, ready for the configured time to live: after
  a request was admitted, the next request whose authorization value is the same, at any time before the
  entry expires, is aborted.
\<close>

theorem replay_rejected:
  assumes "gin_laws g" "lfu_ready e0 clock (sg_TTL (sg_config mw)) s"
    and "sign_handler g e (lfu_setnx e0 clock) mw z now s c = Ret (s1, c1)" "\<not> the (sg_Skipper (sg_config mw)) c" "\<not> c_IsAborted g c1"
    and "sign_handler g e (lfu_setnx e0 clock) mw z now' s1 d = Ret (s2, d1)" "\<not> the (sg_Skipper (sg_config mw)) d"
    and "snd (the (signatureExtractor mw) d) = snd (the (signatureExtractor mw) c)"
  shows "c_IsAborted g d1"
  by (rule lfu_nonces.replay [OF assms(1-7)]) (rule checked_same [OF _ _ assms(8)])

definition demo_signs :: "nat \<times> unit demo_state TinyLFU" where
  "demo_signs = (0, \<lparr>config = default_config, lfu = [], offset = 0\<rparr>)"

lemma demo_ready: "lfu_ready demo_env (\<lambda>i. int i * second) (86400 * second) demo_signs"
  using demo_env_laws(1) by (simp add: lfu_ready_def demo_signs_def second_def default_config_def)

lemma demo_first:
  "lfu_setnx demo_env (\<lambda>i. int i * second) (86400 * second) demo_signs k =
     ((1, (snd demo_signs)\<lparr>lfu := [(k, VBytes [], Some (86400 * second))]\<rparr>), Ret ())"
  by (simp add: lfu_setnx_def demo_signs_def Set_lfu_def setOptions_def nx_options fixTTL_def lfu_get_def setValue_def
      DefaultMarshalFunc_def demo_env_def demo_table_def second_def default_config_def Let_def)

theorem replay_rejected_witness:
  "\<exists>s1 s2 d1. sign_handler demo_gin demo_http (lfu_setnx demo_env (\<lambda>i. int i * second)) demo_signer_mw UTC \<lparr>unix = 10, loc = UTC\<rparr>
        demo_signs (signed_ctx (sig_field sig_hex)) = Ret (s1, signed_ctx (sig_field sig_hex))
     \<and> sign_handler demo_gin demo_http (lfu_setnx demo_env (\<lambda>i. int i * second)) demo_signer_mw UTC \<lparr>unix = 10, loc = UTC\<rparr>
        s1 (signed_ctx (sig_field sig_hex)) = Ret (s2, d1) \<and> c_IsAborted demo_gin d1"
proof -
  let ?set = "lfu_setnx demo_env (\<lambda>i. int i * second)" and ?c = "signed_ctx (sig_field sig_hex)" and ?t = "\<lparr>unix = 10, loc = UTC\<rparr>"
  let ?s1 = "(1, (snd demo_signs)\<lparr>lfu := [(sig_hex, VBytes [], Some (86400 * second))]\<rparr>)"
  have h1: "sign_handler demo_gin demo_http ?set demo_signer_mw UTC ?t demo_signs ?c = Ret (?s1, ?c)"
    unfolding demo_accepts demo_first by simp
  have "?set (86400 * second) ?s1 sig_hex = ((2, snd ?s1), Fail (Errorf (''setnx key already exist:'' @ sig_hex)))"
    by (simp add: lfu_setnx_def demo_signs_def Set_lfu_def setOptions_def nx_options fixTTL_def lfu_get_def
        demo_env_def demo_table_def second_def default_config_def Let_def)
  then obtain s2 d1 where h2: "sign_handler demo_gin demo_http ?set demo_signer_mw UTC ?t ?s1 ?c = Ret (s2, d1)"
    unfolding demo_accepts by simp
  have "lfu_ready demo_env (\<lambda>i. int i * second) (sg_TTL (sg_config demo_signer_mw)) demo_signs"
    using demo_ready by (simp add: demo_signer_mw_def)
  from replay_rejected [OF demo_gin_laws this h1 demo_no_skip signed_ctx_live h2 demo_no_skip refl] h1 h2 show ?thesis by blast
qed

text \<open>
  a replay passes if a second signature field is appended.  The signature that is verified is the first
  field of the authorization that contains \<open>Signature=\<close>, the one that is remembered is the last field of that
  name.  A captured request, admitted once and rejected when it is sent again as it is, is admitted again with
  \<open>, Signature=x\<close> appended to its authorization.
\<close>

theorem replay_with_second_field_passes:
  "\<exists>s1 s2. sign_handler demo_gin demo_http (lfu_setnx demo_env (\<lambda>i. int i * second)) demo_signer_mw UTC \<lparr>unix = 10, loc = UTC\<rparr>
        demo_signs (signed_ctx (sig_field sig_hex)) = Ret (s1, signed_ctx (sig_field sig_hex))
     \<and> sign_handler demo_gin demo_http (lfu_setnx demo_env (\<lambda>i. int i * second)) demo_signer_mw UTC \<lparr>unix = 10, loc = UTC\<rparr>
        s1 (signed_ctx (sig_field sig_hex @ '', '' @ sig_field ''x'')) = Ret (s2, signed_ctx (sig_field sig_hex @ '', '' @ sig_field ''x''))"
proof -
  have x: "sig_hex \<noteq> ''x''"
  proof -
    have "length sig_hex \<noteq> length ''x''" by (simp add: sig_hex_def)
    then show ?thesis by metis
  qed
  let ?set = "lfu_setnx demo_env (\<lambda>i. int i * second)"
  let ?s1 = "(1, (snd demo_signs)\<lparr>lfu := [(sig_hex, VBytes [], Some (86400 * second))]\<rparr>)"
  have "\<exists>s2. ?set (86400 * second) ?s1 ''x'' = (s2, Ret ())"
    using x by (simp add: lfu_setnx_def demo_signs_def Set_lfu_def setOptions_def nx_options fixTTL_def lfu_get_def setValue_def
        DefaultMarshalFunc_def demo_env_def demo_table_def second_def default_config_def Let_def)
  then have "\<exists>s2. sign_handler demo_gin demo_http ?set demo_signer_mw UTC \<lparr>unix = 10, loc = UTC\<rparr> ?s1
      (signed_ctx (sig_field sig_hex @ '', '' @ sig_field ''x'')) = Ret (s2, signed_ctx (sig_field sig_hex @ '', '' @ sig_field ''x''))"
    by (subst demo_accepts_second) auto
  moreover have "sign_handler demo_gin demo_http ?set demo_signer_mw UTC \<lparr>unix = 10, loc = UTC\<rparr> demo_signs (signed_ctx (sig_field sig_hex))
      = Ret (?s1, signed_ctx (sig_field sig_hex))"
    unfolding demo_accepts demo_first by simp
  ultimately show ?thesis by blast
qed

end
