(* ===== verification/LogText.thy ===== *)
theory LogText
  imports GoStrings GoTime
begin

text \<open>
  Model of \<open>pkg/log/text.go\<close>: the text encoder of log entries.  The buffer is the string written so far; the
  pools of buffers and encoders are invisible.  The functions of the encoder's configuration
  (level, time, duration, caller, name) may only call the append methods of the encoder they are given, so each is
  the list of the calls it makes.  The values that fields and marshalers hand to the encoder are likewise the list
  of its calls.  Formatting of floats, durations and levels, JSON and base64 are functions of the environment.
\<close>

section \<open>Encoders\<close>

record EntryCaller =
  Defined :: bool
  File :: string
  Line :: int

text \<open>A call of a configured function: an append, or the direct writing of an instant with its nanoseconds.\<close>

datatype 'f prim =
    PString string
  | PInt int
  | PUint nat
  | PBool bool
  | PBytes string
  | PFloat 'f nat
  | PTime Time int

record 'f EncoderConfig =
  TimeKey :: string
  LevelKey :: string
  NameKey :: string
  CallerKey :: string
  MessageKey :: string
  StacktraceKey :: string
  LineEnding :: string
  EncodeLevel :: "int \<Rightarrow> 'f prim list"
  EncodeTime :: "Time \<Rightarrow> int \<Rightarrow> 'f prim list"
  EncodeDuration :: "int \<Rightarrow> 'f prim list"
  EncodeCaller :: "EntryCaller \<Rightarrow> 'f prim list"
  EncodeName :: "(string \<Rightarrow> 'f prim list) option"

record 'f TextEncoder =
  EncoderConfig :: "'f EncoderConfig"
  buf :: string
  spaced :: bool
  openNamespaces :: nat
  disableErrorVerbose :: bool
  needQuotes :: bool

record ('f, 'a) logenv =
  format_float :: "'f \<Rightarrow> nat \<Rightarrow> string"
  is_nan :: "'f \<Rightarrow> bool"
  is_pinf :: "'f \<Rightarrow> bool"
  is_ninf :: "'f \<Rightarrow> bool"
  b64 :: "string \<Rightarrow> string"
  json_Encode :: "'a \<Rightarrow> string outcome"
  sprint_v :: "'a \<Rightarrow> string"
  level_capital :: "int \<Rightarrow> string"
  level_string :: "int \<Rightarrow> string"
  duration_string :: "int \<Rightarrow> string"
  caller_string :: "EntryCaller \<Rightarrow> string"

abbreviation put :: "string \<Rightarrow> 'f TextEncoder \<Rightarrow> 'f TextEncoder" where
  "put s enc \<equiv> enc\<lparr>buf := buf enc @ s\<rparr>"

definition getCallerString :: "EntryCaller \<Rightarrow> string" where
  "getCallerString ec =
     (if \<not> Defined ec then ''<unknown>''
      else let base = rev (takeWhile (\<lambda>c. c \<noteq> CHR ''/'') (rev (File ec)));
               keep = (\<lambda>c. 65 \<le> byte c \<and> byte c \<le> 90 \<or> 97 \<le> byte c \<and> byte c \<le> 122 \<or> is_digit c
                        \<or> c = CHR ''.'' \<or> c = CHR ''-'' \<or> c = CHR ''_'')
           in filter keep base @ '':'' @ Itoa (Line ec))"

definition ShortCallerEncoder :: "EntryCaller \<Rightarrow> 'f prim list" where
  "ShortCallerEncoder caller = [PString (getCallerString caller)]"

definition DefaultTimeEncoder :: "Time \<Rightarrow> int \<Rightarrow> 'f prim list" where
  "DefaultTimeEncoder t ns = [PTime t ns]"

definition NewTextEncoder :: "('f, 'a) logenv \<Rightarrow> 'f EncoderConfig \<Rightarrow> bool \<Rightarrow> bool \<Rightarrow> bool \<Rightarrow> 'f TextEncoder" where
  "NewTextEncoder e config dev disableTimestamp quotes =
     \<lparr>EncoderConfig =
        \<lparr>TimeKey = (if disableTimestamp then [] else TimeKey config), LevelKey = LevelKey config, NameKey = NameKey config,
         CallerKey = CallerKey config, MessageKey = MessageKey config, StacktraceKey = StacktraceKey config,
         LineEnding = [CHR 0x0A],
         EncodeLevel = (\<lambda>l. [PString (level_capital e l)]), EncodeTime = DefaultTimeEncoder,
         EncodeDuration = (\<lambda>d. [PString (duration_string e d)]), EncodeCaller = ShortCallerEncoder, EncodeName = None\<rparr>,
      buf = [], spaced = False, openNamespaces = 0, disableErrorVerbose = dev, needQuotes = quotes\<rparr>"

definition buildTextEncoder :: "('f, 'a) logenv \<Rightarrow> 'f EncoderConfig \<Rightarrow> 'f EncoderConfig list \<Rightarrow> bool \<Rightarrow> bool \<Rightarrow> 'f TextEncoder" where
  "buildTextEncoder e production zapConfigs dev disableTimestamp =
     NewTextEncoder e (case zapConfigs of cc # _ \<Rightarrow> cc | [] \<Rightarrow> production) dev disableTimestamp True"

definition cloned :: "'f TextEncoder \<Rightarrow> 'f TextEncoder" where
  "cloned enc = enc\<lparr>buf := []\<rparr>"

definition Clone :: "'f TextEncoder \<Rightarrow> 'f TextEncoder" where
  "Clone enc = put (buf enc) (cloned enc)"

definition Truncate :: "'f TextEncoder \<Rightarrow> 'f TextEncoder" where
  "Truncate enc = enc\<lparr>buf := []\<rparr>"

section \<open>Escaping\<close>

definition backslash :: char where "backslash = CHR 0x5C"
definition quote :: char where "quote = CHR 0x22"

text \<open>What \<open>tryAddRuneSelf\<close> appends, \<open>None\<close> if the byte is not a character by itself.\<close>

definition tryAddRuneSelf :: "char \<Rightarrow> string option" where
  "tryAddRuneSelf b =
     (if 128 \<le> byte b then None
      else if 32 \<le> byte b \<and> b \<noteq> backslash \<and> b \<noteq> quote then Some [b]
      else if b = backslash \<or> b = quote then Some [backslash, b]
      else if byte b = 10 then Some [backslash, CHR ''n'']
      else if byte b = 13 then Some [backslash, CHR ''r'']
      else if byte b = 9 then Some [backslash, CHR ''t'']
      else Some (backslash # ''u00'' @ [hex_digit (byte b div 16), hex_digit (byte b mod 16)]))"

definition tryAddRuneError :: "nat \<Rightarrow> nat \<Rightarrow> string option" where
  "tryAddRuneError r sz = (if r = RuneError \<and> sz = 1 then Some (backslash # ''ufffd'') else None)"

function safe_bytes :: "string \<Rightarrow> string" where
  "safe_bytes s =
     (case s of
        [] \<Rightarrow> []
      | b # s' \<Rightarrow>
          (case tryAddRuneSelf b of
             Some x \<Rightarrow> x @ safe_bytes s'
           | None \<Rightarrow>
               (case DecodeRune s of (r, sz) \<Rightarrow>
                  (case tryAddRuneError r sz of
                     Some x \<Rightarrow> x @ safe_bytes s'
                   | None \<Rightarrow> take sz s @ safe_bytes (drop sz s)))))"
  by pat_completeness auto
termination
proof (relation "measure length")
  show "(drop sz s, s) \<in> measure length" if "s = b # s'" "(r, sz) = DecodeRune s" for s s' :: string and b r sz
  proof -
    have "snd (DecodeRune s) = sz" using that by (metis snd_conv)
    then show ?thesis using DecodeRune_width(1) [of s] that(1) by simp
  qed
qed auto

declare safe_bytes.simps [simp del]

lemma safe_bytes_Nil [simp]: "safe_bytes [] = []"
  by (simp add: safe_bytes.simps)

lemma safe_bytes_self: "tryAddRuneSelf b = Some x \<Longrightarrow> safe_bytes (b # s) = x @ safe_bytes s"
  by (simp add: safe_bytes.simps [of "b # s"])

lemma safe_bytes_rune:
  "tryAddRuneSelf b = None \<Longrightarrow> DecodeRune (b # s) = (r, n) \<Longrightarrow> \<not> (r = RuneError \<and> n = 1) \<Longrightarrow>
     safe_bytes (b # s) = take n (b # s) @ safe_bytes (drop n (b # s))"
  by (subst safe_bytes.simps) (simp add: tryAddRuneError_def)

lemma safe_bytes_bad:
  "tryAddRuneSelf b = None \<Longrightarrow> DecodeRune (b # s) = (RuneError, 1) \<Longrightarrow>
     safe_bytes (b # s) = backslash # ''ufffd'' @ safe_bytes s"
  by (subst safe_bytes.simps) (simp add: tryAddRuneError_def)

definition needDoubleQuotes :: "'f TextEncoder \<Rightarrow> string \<Rightarrow> bool" where
  "needDoubleQuotes enc s =
     (needQuotes enc \<and> list_ex (\<lambda>b. byte b \<le> 32 \<or> b = backslash \<or> b = quote \<or> b = CHR ''['' \<or> b = CHR '']'' \<or> b = CHR ''='') s)"

definition safeAddString :: "string \<Rightarrow> 'f TextEncoder \<Rightarrow> 'f TextEncoder" where
  "safeAddString s enc = put (safe_bytes s) enc"

definition safeAddStringWithQuote :: "string \<Rightarrow> 'f TextEncoder \<Rightarrow> 'f TextEncoder" where
  "safeAddStringWithQuote s enc =
     (if \<not> needDoubleQuotes enc s then safeAddString s enc
      else put [quote] (safeAddString s (put [quote] enc)))"

definition needDoubleQuotesByteString :: "'f TextEncoder \<Rightarrow> string \<Rightarrow> bool" where
  "needDoubleQuotesByteString enc b = needDoubleQuotes enc b"

definition safeAddByteString :: "string \<Rightarrow> 'f TextEncoder \<Rightarrow> 'f TextEncoder" where
  "safeAddByteString s enc = put (safe_bytes s) enc"

section \<open>Appending\<close>

definition addElementSeparator :: "'f TextEncoder \<Rightarrow> 'f TextEncoder" where
  "addElementSeparator enc =
     (if buf enc = [] then enc
      else if last (buf enc) \<in> set ''{[:, ='' then enc
      else put '','' enc)"

definition addKey :: "string \<Rightarrow> 'f TextEncoder \<Rightarrow> 'f TextEncoder" where
  "addKey key enc = put ''='' (safeAddStringWithQuote key (addElementSeparator enc))"

definition AppendBool :: "bool \<Rightarrow> 'f TextEncoder \<Rightarrow> 'f TextEncoder" where
  "AppendBool v enc = put (if v then ''true'' else ''false'') (addElementSeparator enc)"

definition AppendByteString :: "string \<Rightarrow> 'f TextEncoder \<Rightarrow> 'f TextEncoder" where
  "AppendByteString v enc0 =
     (let enc = addElementSeparator enc0 in
      if \<not> needDoubleQuotesByteString enc v then safeAddByteString v enc
      else put [quote] (safeAddByteString v (put [quote] enc)))"

definition AppendComplex128 :: "('f, 'a) logenv \<Rightarrow> 'f \<Rightarrow> 'f \<Rightarrow> 'f TextEncoder \<Rightarrow> 'f TextEncoder" where
  "AppendComplex128 e r i enc = put (format_float e r 64 @ ''+'' @ format_float e i 64 @ ''i'') (addElementSeparator enc)"

definition AppendInt64 :: "int \<Rightarrow> 'f TextEncoder \<Rightarrow> 'f TextEncoder" where
  "AppendInt64 v enc = put (Itoa v) (addElementSeparator enc)"

definition AppendUint64 :: "nat \<Rightarrow> 'f TextEncoder \<Rightarrow> 'f TextEncoder" where
  "AppendUint64 v enc = put (nat_digits v) (addElementSeparator enc)"

definition AppendString :: "string \<Rightarrow> 'f TextEncoder \<Rightarrow> 'f TextEncoder" where
  "AppendString v enc = safeAddStringWithQuote v (addElementSeparator enc)"

definition AppendReflected :: "('f, 'a) logenv \<Rightarrow> 'a \<Rightarrow> 'f TextEncoder \<Rightarrow> 'f TextEncoder" where
  "AppendReflected e v enc = AppendString (sprint_v e v) enc"

definition appendFloat :: "('f, 'a) logenv \<Rightarrow> 'f \<Rightarrow> nat \<Rightarrow> 'f TextEncoder \<Rightarrow> 'f TextEncoder" where
  "appendFloat e v bitSize enc =
     put (if is_nan e v then ''NaN'' else if is_pinf e v then ''+Inf'' else if is_ninf e v then ''-Inf''
          else format_float e v bitSize) (addElementSeparator enc)"

definition AppendFloat64 :: "('f, 'a) logenv \<Rightarrow> 'f \<Rightarrow> 'f TextEncoder \<Rightarrow> 'f TextEncoder" where
  "AppendFloat64 e v = appendFloat e v 64"

definition AppendFloat32 :: "('f, 'a) logenv \<Rightarrow> 'f \<Rightarrow> 'f TextEncoder \<Rightarrow> 'f TextEncoder" where
  "AppendFloat32 e v = appendFloat e v 32"

text \<open>The narrower integers are widened first.\<close>

definition AppendInt32 :: "32 word \<Rightarrow> 'f TextEncoder \<Rightarrow> 'f TextEncoder" where "AppendInt32 v = AppendInt64 (sint v)"
definition AppendInt16 :: "16 word \<Rightarrow> 'f TextEncoder \<Rightarrow> 'f TextEncoder" where "AppendInt16 v = AppendInt64 (sint v)"
definition AppendInt8 :: "8 word \<Rightarrow> 'f TextEncoder \<Rightarrow> 'f TextEncoder" where "AppendInt8 v = AppendInt64 (sint v)"
definition AppendUint32 :: "32 word \<Rightarrow> 'f TextEncoder \<Rightarrow> 'f TextEncoder" where "AppendUint32 v = AppendUint64 (unat v)"
definition AppendUint16 :: "16 word \<Rightarrow> 'f TextEncoder \<Rightarrow> 'f TextEncoder" where "AppendUint16 v = AppendUint64 (unat v)"
definition AppendUint8 :: "8 word \<Rightarrow> 'f TextEncoder \<Rightarrow> 'f TextEncoder" where "AppendUint8 v = AppendUint64 (unat v)"

section \<open>Instants\<close>

text \<open>
  The array of eight digits is filled from its end; \<open>i\<close> is the index of the first digit written and an index below
  zero panics.
\<close>

fun pad_digits :: "nat \<Rightarrow> nat \<Rightarrow> string \<Rightarrow> (nat \<times> string) outcome" where
  "pad_digits i n acc =
     (if i = 0 then index_panic
      else if n \<ge> 10 then pad_digits (i - 1) (n div 10) (char_of (48 + n mod 10) # acc)
      else Ret (i - 1, char_of (48 + n) # acc))"

declare pad_digits.simps [simp del]

fun pad_zeros :: "nat \<Rightarrow> nat \<Rightarrow> string \<Rightarrow> string" where
  "pad_zeros 0 width acc = acc"
| "pad_zeros (Suc i) width acc = (if 8 - Suc i < width then pad_zeros i width (CHR ''0'' # acc) else acc)"

definition writePadding :: "nat \<Rightarrow> nat \<Rightarrow> 'f TextEncoder \<Rightarrow> 'f TextEncoder outcome" where
  "writePadding n width enc = go_bind (pad_digits 8 n []) (\<lambda>(i, acc). Ret (put (pad_zeros i width acc) enc))"

definition uint64 :: "int \<Rightarrow> nat" where "uint64 i = nat (i mod 2 ^ 64)"

definition encodeTimeDirect :: "Time \<Rightarrow> int \<Rightarrow> 'f TextEncoder \<Rightarrow> 'f TextEncoder outcome" where
  "encodeTimeDirect t ns enc =
     (let pad = (\<lambda>v w c enc. go_bind (writePadding (uint64 v) w enc) (\<lambda>enc. Ret (put c enc)));
          off = offset_at (loc t) (unix t)
      in go_bind (pad (Year t) 4 ''/'' enc) (\<lambda>enc.
         go_bind (pad (Month t) 2 ''/'' enc) (\<lambda>enc.
         go_bind (pad (Day t) 2 '' '' enc) (\<lambda>enc.
         go_bind (pad (Hour t) 2 '':'' enc) (\<lambda>enc.
         go_bind (pad (Minute t) 2 '':'' enc) (\<lambda>enc.
         go_bind (pad (Second t) 2 ''.'' enc) (\<lambda>enc.
         go_bind (pad (ns sdiv 1000000) 3 '' '' enc) (\<lambda>enc.
         go_bind (pad (\<bar>off\<bar> sdiv 3600) 2 '':'' (put (if off < 0 then ''-'' else ''+'') enc)) (\<lambda>enc.
           writePadding (uint64 (\<bar>off\<bar> smod 3600 sdiv 60)) 2 enc)))))))))"

section \<open>Configured functions\<close>

fun run_prim :: "('f, 'a) logenv \<Rightarrow> 'f prim \<Rightarrow> 'f TextEncoder \<Rightarrow> 'f TextEncoder outcome" where
  "run_prim e (PString s) enc = Ret (AppendString s enc)"
| "run_prim e (PInt i) enc = Ret (AppendInt64 i enc)"
| "run_prim e (PUint n) enc = Ret (AppendUint64 n enc)"
| "run_prim e (PBool b) enc = Ret (AppendBool b enc)"
| "run_prim e (PBytes b) enc = Ret (AppendByteString b enc)"
| "run_prim e (PFloat v bits) enc = Ret (appendFloat e v bits enc)"
| "run_prim e (PTime t ns) enc = encodeTimeDirect t ns enc"

fun run_prims :: "('f, 'a) logenv \<Rightarrow> 'f prim list \<Rightarrow> 'f TextEncoder \<Rightarrow> 'f TextEncoder outcome" where
  "run_prims e [] enc = Ret enc"
| "run_prims e (p # ps) enc = go_bind (run_prim e p enc) (run_prims e ps)"

text \<open>Calls a configured function; if it wrote nothing, the fall-back is appended.\<close>

definition configured ::
  "('f, 'a) logenv \<Rightarrow> 'f prim list \<Rightarrow> ('f TextEncoder \<Rightarrow> 'f TextEncoder) \<Rightarrow> 'f TextEncoder \<Rightarrow> 'f TextEncoder outcome" where
  "configured e ps fallback enc =
     (let cur = length (buf enc) in
      go_bind (run_prims e ps enc) (\<lambda>enc. Ret (if cur = length (buf enc) then fallback enc else enc)))"

definition AppendDuration :: "('f, 'a) logenv \<Rightarrow> int \<Rightarrow> 'f TextEncoder \<Rightarrow> 'f TextEncoder outcome" where
  "AppendDuration e v enc = configured e (EncodeDuration (EncoderConfig enc) v) (AppendInt64 v) enc"

definition UnixNano :: "Time \<Rightarrow> int \<Rightarrow> int" where
  "UnixNano t ns = wrap64 (unix t * 1000000000 + ns)"

definition AppendTime :: "('f, 'a) logenv \<Rightarrow> Time \<Rightarrow> int \<Rightarrow> 'f TextEncoder \<Rightarrow> 'f TextEncoder outcome" where
  "AppendTime e t ns enc = configured e (EncodeTime (EncoderConfig enc) t ns) (AppendInt64 (UnixNano t ns)) enc"

section \<open>Fields of objects\<close>

definition AddByteString :: "string \<Rightarrow> string \<Rightarrow> 'f TextEncoder \<Rightarrow> 'f TextEncoder" where
  "AddByteString key v enc = AppendByteString v (addKey key enc)"

definition AddString :: "string \<Rightarrow> string \<Rightarrow> 'f TextEncoder \<Rightarrow> 'f TextEncoder" where
  "AddString key v enc = AppendString v (addKey key enc)"

definition AddBinary :: "('f, 'a) logenv \<Rightarrow> string \<Rightarrow> string \<Rightarrow> 'f TextEncoder \<Rightarrow> 'f TextEncoder" where
  "AddBinary e key v enc = AddString key (b64 e v) enc"

definition AddBool :: "string \<Rightarrow> bool \<Rightarrow> 'f TextEncoder \<Rightarrow> 'f TextEncoder" where
  "AddBool key v enc = AppendBool v (addKey key enc)"

definition AddComplex128 :: "('f, 'a) logenv \<Rightarrow> string \<Rightarrow> 'f \<Rightarrow> 'f \<Rightarrow> 'f TextEncoder \<Rightarrow> 'f TextEncoder" where
  "AddComplex128 e key r i enc = AppendComplex128 e r i (addKey key enc)"

definition AddDuration :: "('f, 'a) logenv \<Rightarrow> string \<Rightarrow> int \<Rightarrow> 'f TextEncoder \<Rightarrow> 'f TextEncoder outcome" where
  "AddDuration e key v enc = AppendDuration e v (addKey key enc)"

definition AddFloat64 :: "('f, 'a) logenv \<Rightarrow> string \<Rightarrow> 'f \<Rightarrow> 'f TextEncoder \<Rightarrow> 'f TextEncoder" where
  "AddFloat64 e key v enc = AppendFloat64 e v (addKey key enc)"

definition AddInt64 :: "string \<Rightarrow> int \<Rightarrow> 'f TextEncoder \<Rightarrow> 'f TextEncoder" where
  "AddInt64 key v enc = AppendInt64 v (addKey key enc)"

definition AddUint64 :: "string \<Rightarrow> nat \<Rightarrow> 'f TextEncoder \<Rightarrow> 'f TextEncoder" where
  "AddUint64 key v enc = AppendUint64 v (addKey key enc)"

definition AddTime :: "('f, 'a) logenv \<Rightarrow> string \<Rightarrow> Time \<Rightarrow> int \<Rightarrow> 'f TextEncoder \<Rightarrow> 'f TextEncoder outcome" where
  "AddTime e key t ns enc = AppendTime e t ns (addKey key enc)"

text \<open>Narrower numbers, widened first.\<close>

definition AddInt32 :: "string \<Rightarrow> 32 word \<Rightarrow> 'f TextEncoder \<Rightarrow> 'f TextEncoder" where "AddInt32 k v = AddInt64 k (sint v)"
definition AddInt16 :: "string \<Rightarrow> 16 word \<Rightarrow> 'f TextEncoder \<Rightarrow> 'f TextEncoder" where "AddInt16 k v = AddInt64 k (sint v)"
definition AddInt8 :: "string \<Rightarrow> 8 word \<Rightarrow> 'f TextEncoder \<Rightarrow> 'f TextEncoder" where "AddInt8 k v = AddInt64 k (sint v)"
definition AddUint32 :: "string \<Rightarrow> 32 word \<Rightarrow> 'f TextEncoder \<Rightarrow> 'f TextEncoder" where "AddUint32 k v = AddUint64 k (unat v)"
definition AddUint16 :: "string \<Rightarrow> 16 word \<Rightarrow> 'f TextEncoder \<Rightarrow> 'f TextEncoder" where "AddUint16 k v = AddUint64 k (unat v)"
definition AddUint8 :: "string \<Rightarrow> 8 word \<Rightarrow> 'f TextEncoder \<Rightarrow> 'f TextEncoder" where "AddUint8 k v = AddUint64 k (unat v)"

definition OpenNamespace :: "string \<Rightarrow> 'f TextEncoder \<Rightarrow> 'f TextEncoder" where
  "OpenNamespace key enc = (put ''{'' (addKey key enc))\<lparr>openNamespaces := Suc (openNamespaces enc)\<rparr>"

definition TrimNewline :: "string \<Rightarrow> string" where
  "TrimNewline s = (if s \<noteq> [] \<and> byte (last s) = 10 then butlast s else s)"

text \<open>The result of an operation that may return an error beside the encoder it has changed.\<close>

definition AddReflected :: "('f, 'a) logenv \<Rightarrow> string \<Rightarrow> 'a \<Rightarrow> 'f TextEncoder \<Rightarrow> ('f TextEncoder \<times> go_error option) outcome" where
  "AddReflected e key obj enc =
     (case json_Encode e obj of
        Fail err \<Rightarrow> Ret (enc, Some err)
      | Panic p \<Rightarrow> Panic p
      | Ret s \<Rightarrow> Ret (AppendByteString (TrimNewline s) (addKey key enc), None))"

text \<open>
  Arrays and objects: \<open>marshal\<close> is the marshaler's effect on the encoder it is given; its error is passed on.
\<close>

definition AppendArray :: "('f TextEncoder \<Rightarrow> 'f TextEncoder outcome) \<Rightarrow> 'f TextEncoder \<Rightarrow> 'f TextEncoder outcome" where
  "AppendArray marshal enc0 =
     (let enc = addElementSeparator enc0 in
      go_bind (marshal (put ''['' (cloned enc))) (\<lambda>ne. Ret (AppendByteString (buf (put '']'' ne)) enc)))"

definition AppendObject :: "('f TextEncoder \<Rightarrow> 'f TextEncoder outcome) \<Rightarrow> 'f TextEncoder \<Rightarrow> 'f TextEncoder outcome" where
  "AppendObject marshal enc0 =
     (let enc = addElementSeparator enc0 in
      go_bind (marshal (put ''{'' (cloned enc))) (\<lambda>ne. Ret (AppendByteString (buf (put ''}'' ne)) enc)))"

definition AddArray :: "string \<Rightarrow> ('f TextEncoder \<Rightarrow> 'f TextEncoder outcome) \<Rightarrow> 'f TextEncoder \<Rightarrow> 'f TextEncoder outcome" where
  "AddArray key arr enc = AppendArray arr (addKey key enc)"

definition AddObject :: "string \<Rightarrow> ('f TextEncoder \<Rightarrow> 'f TextEncoder outcome) \<Rightarrow> 'f TextEncoder \<Rightarrow> 'f TextEncoder outcome" where
  "AddObject key obj enc = AppendObject obj (addKey key enc)"

text \<open>
  The calls that a field or a marshaler makes on the encoder: with a key, the methods \<open>Add\<close>, without one the
  methods \<open>Append\<close>.
\<close>

datatype ('f, 'a) call =
    CBool "string option" bool
  | CInt "string option" int
  | CUint "string option" nat
  | CString "string option" string
  | CBytes "string option" string
  | CBinary string string
  | CFloat "string option" 'f
  | CComplex "string option" 'f 'f
  | CDuration "string option" int
  | CTime "string option" Time int
  | CReflected "string option" 'a
  | CNamespace string
  | CArray "string option" "('f, 'a) call list"
  | CObject "string option" "('f, 'a) call list"

fun run_call :: "('f, 'a) logenv \<Rightarrow> ('f, 'a) call \<Rightarrow> 'f TextEncoder \<Rightarrow> 'f TextEncoder outcome"
  and run_calls :: "('f, 'a) logenv \<Rightarrow> ('f, 'a) call list \<Rightarrow> 'f TextEncoder \<Rightarrow> 'f TextEncoder outcome" where
  "run_call e (CBool k v) enc = Ret (case k of Some key \<Rightarrow> AddBool key v enc | None \<Rightarrow> AppendBool v enc)"
| "run_call e (CInt k v) enc = Ret (case k of Some key \<Rightarrow> AddInt64 key v enc | None \<Rightarrow> AppendInt64 v enc)"
| "run_call e (CUint k v) enc = Ret (case k of Some key \<Rightarrow> AddUint64 key v enc | None \<Rightarrow> AppendUint64 v enc)"
| "run_call e (CString k v) enc = Ret (case k of Some key \<Rightarrow> AddString key v enc | None \<Rightarrow> AppendString v enc)"
| "run_call e (CBytes k v) enc = Ret (case k of Some key \<Rightarrow> AddByteString key v enc | None \<Rightarrow> AppendByteString v enc)"
| "run_call e (CBinary key v) enc = Ret (AddBinary e key v enc)"
| "run_call e (CFloat k v) enc = Ret (case k of Some key \<Rightarrow> AddFloat64 e key v enc | None \<Rightarrow> AppendFloat64 e v enc)"
| "run_call e (CComplex k r i) enc = Ret (case k of Some key \<Rightarrow> AddComplex128 e key r i enc | None \<Rightarrow> AppendComplex128 e r i enc)"
| "run_call e (CDuration k v) enc = (case k of Some key \<Rightarrow> AddDuration e key v enc | None \<Rightarrow> AppendDuration e v enc)"
| "run_call e (CTime k t ns) enc = (case k of Some key \<Rightarrow> AddTime e key t ns enc | None \<Rightarrow> AppendTime e t ns enc)"
| "run_call e (CReflected k v) enc =
     (case k of
        Some key \<Rightarrow> go_bind (AddReflected e key v enc) (\<lambda>(enc, err). Ret enc)
      | None \<Rightarrow> Ret (AppendReflected e v enc))"
| "run_call e (CNamespace key) enc = Ret (OpenNamespace key enc)"
| "run_call e (CArray k cs) enc =
     (case k of Some key \<Rightarrow> AddArray key (\<lambda>ne. run_calls e cs ne) enc | None \<Rightarrow> AppendArray (\<lambda>ne. run_calls e cs ne) enc)"
| "run_call e (CObject k cs) enc =
     (case k of Some key \<Rightarrow> AddObject key (\<lambda>ne. run_calls e cs ne) enc | None \<Rightarrow> AppendObject (\<lambda>ne. run_calls e cs ne) enc)"
| "run_calls e [] enc = Ret enc"
| "run_calls e (c # cs) enc = go_bind (run_call e c enc) (\<lambda>enc. run_calls e cs enc)"

section \<open>Entries\<close>

text \<open>
  A field is an error, with its text and, if it is a formatter, its verbose text, or the calls that its
  \<open>AddTo\<close> makes.
\<close>

datatype ('f, 'a) field = FError string string "string option" | FCalls "('f, 'a) call list"

record Entry =
  ent_Level :: int
  ent_Time :: Time
  ent_Nanos :: int
  LoggerName :: string
  Message :: string
  Caller :: EntryCaller
  Stack :: string

definition beginQuoteFiled :: "'f TextEncoder \<Rightarrow> 'f TextEncoder" where
  "beginQuoteFiled enc = put ''['' (if buf enc \<noteq> [] then put '' '' enc else enc)"

definition endQuoteFiled :: "'f TextEncoder \<Rightarrow> 'f TextEncoder" where
  "endQuoteFiled enc = put '']'' enc"

definition closeOpenNamespaces :: "'f TextEncoder \<Rightarrow> 'f TextEncoder" where
  "closeOpenNamespaces enc = put (replicate (openNamespaces enc) (CHR ''}'')) enc"

definition encodeError :: "string \<Rightarrow> string \<Rightarrow> string option \<Rightarrow> 'f TextEncoder \<Rightarrow> 'f TextEncoder" where
  "encodeError key basic verbose enc0 =
     (let enc = endQuoteFiled (AddString key basic (beginQuoteFiled enc0)) in
      if disableErrorVerbose enc then enc
      else case verbose of
        Some v \<Rightarrow> if v \<noteq> basic then endQuoteFiled (AddString (key @ ''Verbose'') v (beginQuoteFiled enc)) else enc
      | None \<Rightarrow> enc)"

fun addFields :: "('f, 'a) logenv \<Rightarrow> ('f, 'a) field list \<Rightarrow> 'f TextEncoder \<Rightarrow> 'f TextEncoder outcome" where
  "addFields e [] enc = Ret enc"
| "addFields e (FError key basic verbose # fs) enc = addFields e fs (encodeError key basic verbose enc)"
| "addFields e (FCalls cs # fs) enc =
     go_bind (run_calls e cs (beginQuoteFiled enc)) (\<lambda>enc. addFields e fs (endQuoteFiled enc))"

text \<open>One bracketed part of an entry, written if its condition holds.\<close>

definition entry_part :: "bool \<Rightarrow> ('f TextEncoder \<Rightarrow> 'f TextEncoder outcome) \<Rightarrow> 'f TextEncoder \<Rightarrow> 'f TextEncoder outcome" where
  "entry_part cond body final =
     (if cond then go_bind (body (beginQuoteFiled final)) (\<lambda>final. Ret (endQuoteFiled final)) else Ret final)"

definition EncodeEntry :: "('f, 'a) logenv \<Rightarrow> Entry \<Rightarrow> ('f, 'a) field list \<Rightarrow> 'f TextEncoder \<Rightarrow> string outcome" where
  "EncodeEntry e ent flds enc =
     (let cfg = EncoderConfig enc in
      go_bind (entry_part (TimeKey cfg \<noteq> []) (AppendTime e (ent_Time ent) (ent_Nanos ent)) (cloned enc)) (\<lambda>final.
      go_bind (entry_part (LevelKey cfg \<noteq> [])
        (configured e (EncodeLevel cfg (ent_Level ent)) (AppendString (level_string e (ent_Level ent)))) final) (\<lambda>final.
      go_bind (entry_part (LoggerName ent \<noteq> [] \<and> NameKey cfg \<noteq> [])
        (configured e ((case EncodeName cfg of None \<Rightarrow> (\<lambda>n. [PString n]) | Some f \<Rightarrow> f) (LoggerName ent))
           (AppendString (LoggerName ent))) final) (\<lambda>final.
      go_bind (entry_part (Defined (Caller ent) \<and> CallerKey cfg \<noteq> [])
        (configured e (EncodeCaller cfg (Caller ent)) (AppendString (caller_string e (Caller ent)))) final) (\<lambda>final.
      go_bind (entry_part (Message ent \<noteq> []) (\<lambda>final. Ret (AppendString (Message ent) final)) final) (\<lambda>final.
      go_bind (addFields e flds (if buf enc \<noteq> [] then put (CHR '' '' # buf enc) final else final)) (\<lambda>final.
      go_bind (entry_part (Stack ent \<noteq> [] \<and> StacktraceKey cfg \<noteq> [])
        (\<lambda>final. Ret (AddString (StacktraceKey cfg) (Stack ent) final)) (closeOpenNamespaces final)) (\<lambda>final.
      Ret (buf final @ (if LineEnding cfg \<noteq> [] then LineEnding cfg else [CHR 0x0A]))))))))))"

end
