(* ===== verification/LogTextProps.thy ===== *)
theory LogTextProps
  imports LogText
begin

text \<open>
  Properties of the text encoder: a quoted or plain value is read back as it was written, no entry contains a
  control character before its line ending, and the instants that the direct time encoder can write.
\<close>

section \<open>Valid text\<close>

definition valid_utf8 :: "string \<Rightarrow> bool" where
  "valid_utf8 s \<longleftrightarrow> (\<forall>(r, bs) \<in> set (runes s). \<not> (r = RuneError \<and> length bs = 1))"

lemma DecodeRune_high:
  assumes "128 \<le> byte b" "DecodeRune (b # s) = (r, n)"
  shows "\<forall>c \<in> set (take n (b # s)). 128 \<le> byte c"
  using assms
  by (auto simp: Let_def cont_def take_Cons' split: if_splits list.splits)

lemma valid_Cons:
  assumes "DecodeRune (b # s) = (r, n)"
  shows "valid_utf8 (b # s) \<longleftrightarrow> \<not> (r = RuneError \<and> n = 1) \<and> valid_utf8 (drop n (b # s))"
proof -
  have "runes (b # s) = (r, take n (b # s)) # runes (drop n (b # s))"
    using assms by (subst runes.simps) simp
  moreover have "length (take n (b # s)) = n"
    using DecodeRune_width(2) [of "b # s"] assms by simp
  ultimately show ?thesis by (simp add: valid_utf8_def)
qed

lemma self_low: "tryAddRuneSelf b = None \<longleftrightarrow> 128 \<le> byte b"
  by (auto simp: tryAddRuneSelf_def)

text \<open>The induction scheme of the escaping loop on valid text: one ASCII byte, or the bytes of one rune.\<close>

lemma valid_induct [consumes 1, case_names Nil ascii rune]:
  assumes "valid_utf8 s" "P []"
    and "\<And>b s. byte b < 128 \<Longrightarrow> valid_utf8 s \<Longrightarrow> P s \<Longrightarrow> P (b # s)"
    and "\<And>u s. u \<noteq> [] \<Longrightarrow> \<forall>c \<in> set u. 128 \<le> byte c \<Longrightarrow> valid_utf8 s \<Longrightarrow> safe_bytes (u @ s) = u @ safe_bytes s \<Longrightarrow> P s \<Longrightarrow> P (u @ s)"
  shows "P s"
  using assms(1)
proof (induction "length s" arbitrary: s rule: less_induct)
  case less
  show ?case
  proof (cases s)
    case (Cons b t)
    obtain r n where d: "DecodeRune (b # t) = (r, n)" by fastforce
    have n: "0 < n" using DecodeRune_width(1) [of "b # t"] d by simp
    from less.prems have v: "\<not> (r = RuneError \<and> n = 1)" "valid_utf8 (drop n s)" using valid_Cons [OF d] Cons by auto
    show ?thesis
    proof (cases "byte b < 128")
      case True
      with d have "n = 1" by simp
      with v Cons have "valid_utf8 t" by simp
      with less Cons True assms(3) show ?thesis by simp
    next
      case False
      then have "safe_bytes s = take n s @ safe_bytes (drop n s)"
        using safe_bytes_rune [OF _ d v(1)] Cons self_low by simp
      moreover have "P (drop n s)" using less.hyps [OF _ v(2)] n Cons by simp
      moreover have "\<forall>c \<in> set (take n s). 128 \<le> byte c" using DecodeRune_high [OF _ d] False Cons by simp
      ultimately show ?thesis using assms(4) [of "take n s" "drop n s"] v(2) n Cons by simp
    qed
  qed (simp add: assms(2))
qed

section \<open>Reading values back\<close>

definition unhex_low :: "char \<Rightarrow> nat" where
  "unhex_low c = (if is_digit c then byte c - 48 else byte c - 87)"

text \<open>
  A reader of the log format: a value in double quotes, with the escapes undone, or a plain value up to a space, a
  control character, a quote, a backslash, a bracket or an equals sign.
\<close>

fun read_quoted :: "string \<Rightarrow> (string \<times> string) option" where
  "read_quoted [] = None"
| "read_quoted (c # cs) =
     (if c = quote then Some ([], cs)
      else if c = backslash then
        (case cs of
           d # ds \<Rightarrow>
             if d = CHR ''u'' then
               (case ds of
                  _ # _ # h # l # es \<Rightarrow> map_option (apfst ((#) (char_of (unhex_low h * 16 + unhex_low l)))) (read_quoted es)
                | _ \<Rightarrow> None)
             else map_option (apfst ((#) (if d = CHR ''n'' then CHR 0x0A else if d = CHR ''r'' then CHR 0x0D else if d = CHR ''t'' then CHR 0x09 else d)))
               (read_quoted ds)
         | [] \<Rightarrow> None)
      else map_option (apfst ((#) c)) (read_quoted cs))"

definition plain :: "char \<Rightarrow> bool" where
  "plain c \<longleftrightarrow> 32 < byte c \<and> c \<noteq> backslash \<and> c \<noteq> quote \<and> c \<noteq> CHR ''['' \<and> c \<noteq> CHR '']'' \<and> c \<noteq> CHR ''=''"

definition read_value :: "string \<Rightarrow> (string \<times> string) option" where
  "read_value s =
     (case s of
        c # cs \<Rightarrow> if c = quote then read_quoted cs else Some (takeWhile plain s, dropWhile plain s)
      | [] \<Rightarrow> Some ([], []))"

lemma quote_backslash: "byte quote = 34" "byte backslash = 92"
  by (simp_all add: quote_def backslash_def)

lemma unhex_hex: "n < 16 \<Longrightarrow> unhex_low (hex_digit n) = n"
proof -
  assume "n < 16"
  then have "n \<in> set [0..<16]" by simp
  moreover have "list_all (\<lambda>n. unhex_low (hex_digit n) = n) [0..<16]"
    by (simp add: upt_rec unhex_low_def hex_digit_def is_digit_def)
  ultimately show ?thesis by (simp only: list_all_iff)
qed

lemma read_quoted_high:
  assumes "\<forall>c \<in> set u. 128 \<le> byte c"
  shows "read_quoted (u @ s) = map_option (apfst ((@) u)) (read_quoted s)"
  using assms
proof (induction u)
  case (Cons c u)
  then have "c \<noteq> quote" "c \<noteq> backslash" using quote_backslash by auto
  with Cons show ?case by (cases "read_quoted s") auto
qed (cases "read_quoted s", auto)

lemma read_quoted_self:
  assumes "tryAddRuneSelf b = Some x"
  shows "read_quoted (x @ s) = map_option (apfst ((#) b)) (read_quoted s)"
proof -
  have h: "byte b div 16 < 16" "byte b mod 16 < 16" using nat_of_char_less_256 [of b] by (simp_all add: less_mult_imp_div_less)
  have b: "c = char_of (byte c)" for c :: char by simp
  have qb: "quote \<noteq> backslash" "CHR ''u'' \<noteq> quote" "CHR ''u'' \<noteq> backslash" by (simp_all add: quote_def backslash_def)
  consider "x = [b]" "b \<noteq> backslash" "b \<noteq> quote" | "x = [backslash, b]" "b = backslash \<or> b = quote"
    | "x = [backslash, CHR ''n'']" "byte b = 10" | "x = [backslash, CHR ''r'']" "byte b = 13" | "x = [backslash, CHR ''t'']" "byte b = 9"
    | "x = backslash # ''u00'' @ [hex_digit (byte b div 16), hex_digit (byte b mod 16)]"
    using assms by (auto simp: tryAddRuneSelf_def split: if_splits)
  then show ?thesis
  proof cases
    case 2
    then show ?thesis using qb by (auto simp: quote_def backslash_def)
  next
    case 3
    then show ?thesis using qb b [of b] by (simp add: char_of_def bit_0)
  next
    case 4
    then show ?thesis using qb b [of b] by (simp add: char_of_def bit_0)
  next
    case 5
    then show ?thesis using qb b [of b] by (simp add: char_of_def bit_0)
  next
    case 6
    have "unhex_low (hex_digit (byte b div 16)) * 16 + unhex_low (hex_digit (byte b mod 16)) = byte b"
      using h by (simp add: unhex_hex)
    with 6 qb show ?thesis by simp
  qed (use qb in auto)
qed

lemma read_safe: "valid_utf8 s \<Longrightarrow> read_quoted (safe_bytes s @ quote # t) = Some (s, t)"
proof (induction s rule: valid_induct)
  case (ascii b s)
  then obtain x where x: "tryAddRuneSelf b = Some x" using self_low [of b] by (cases "tryAddRuneSelf b") auto
  with ascii show ?case by (simp add: safe_bytes_self read_quoted_self)
next
  case (rune u s)
  then show ?case by (simp add: read_quoted_high)
qed simp

lemma safe_plain: "valid_utf8 s \<Longrightarrow> list_all plain s \<Longrightarrow> safe_bytes s = s"
proof (induction s rule: valid_induct)
  case (ascii b s)
  then have "tryAddRuneSelf b = Some [b]" by (auto simp: tryAddRuneSelf_def plain_def)
  with ascii show ?case by (simp add: safe_bytes_self)
qed auto

lemma needDoubleQuotes_plain: "needQuotes enc \<Longrightarrow> needDoubleQuotes enc s \<longleftrightarrow> \<not> list_all plain s"
  by (auto simp: needDoubleQuotes_def plain_def list_ex_iff list_all_iff not_less)

text \<open>
  C21: a value is read back as it was written.  For an encoder with quotes, what it writes for a key or a
  string of valid UTF-8 is a prefix that a reader of the log format, stopping at the bracket or
  equals sign that follows, turns into exactly that string, whatever comes after it.
\<close>

theorem value_roundtrip:
  assumes "needQuotes enc" "valid_utf8 s" "c = CHR '']'' \<or> c = CHR ''=''"
  shows "\<exists>w. buf (safeAddStringWithQuote s enc) = buf enc @ w \<and> read_value (w @ c # rest) = Some (s, c # rest)"
proof (cases "list_all plain s")
  case True
  then have "safe_bytes s = s" using safe_plain assms(2) by blast
  then have "buf (safeAddStringWithQuote s enc) = buf enc @ s"
    using True assms(1) by (simp add: safeAddStringWithQuote_def needDoubleQuotes_plain safeAddString_def)
  moreover have "\<not> plain c" "c \<noteq> quote" using assms(3) by (auto simp: plain_def quote_def)
  then have "read_value (s @ c # rest) = Some (s, c # rest)"
    using True by (cases s) (auto simp: read_value_def plain_def list_all_iff takeWhile_append dropWhile_append)
  ultimately show ?thesis by blast
next
  case False
  then have "buf (safeAddStringWithQuote s enc) = buf enc @ (quote # safe_bytes s @ [quote])"
    using assms(1) by (simp add: safeAddStringWithQuote_def needDoubleQuotes_plain safeAddString_def)
  moreover have "read_value ((quote # safe_bytes s @ [quote]) @ c # rest) = Some (s, c # rest)"
    using read_safe [OF assms(2), of "c # rest"] by (simp add: read_value_def)
  ultimately show ?thesis by blast
qed

text \<open>An environment with fixed texts, and an encoder made with it.\<close>

definition demo_logenv :: "(int, string) logenv" where
  "demo_logenv =
     \<lparr>format_float = (\<lambda>f _. Itoa f), is_nan = (\<lambda>_. False), is_pinf = (\<lambda>_. False), is_ninf = (\<lambda>_. False), b64 = (\<lambda>s. s),
      json_Encode = Ret, sprint_v = (\<lambda>s. s), level_capital = (\<lambda>_. ''INFO''), level_string = (\<lambda>_. ''info''), duration_string = Itoa,
      caller_string = File\<rparr>"

definition demo_encoder :: "int TextEncoder" where
  "demo_encoder = NewTextEncoder demo_logenv
     \<lparr>TimeKey = ''ts'', LevelKey = ''level'', NameKey = ''logger'', CallerKey = ''caller'', MessageKey = ''msg'', StacktraceKey = ''stack'',
      LineEnding = [], EncodeLevel = (\<lambda>_. []), EncodeTime = (\<lambda>_ _. []), EncodeDuration = (\<lambda>_. []), EncodeCaller = (\<lambda>_. []),
      EncodeName = None\<rparr> False False True"

lemma demo_encoder_fields: "needQuotes demo_encoder" "buf demo_encoder = []"
  by (simp_all add: demo_encoder_def NewTextEncoder_def)

lemma valid_ascii: "\<forall>c \<in> set s. byte c < 128 \<Longrightarrow> valid_utf8 s"
  by (auto simp: valid_utf8_def runes_ascii)

theorem value_roundtrip_witness:
  "\<exists>w. buf (safeAddStringWithQuote (''a]'' @ [CHR 0x0A]) demo_encoder) = w \<and> read_value (w @ '']'') = Some (''a]'' @ [CHR 0x0A], '']'')"
  using value_roundtrip [OF demo_encoder_fields(1), of "''a]'' @ [CHR 0x0A]" "CHR '']''" "[]"]
  by (simp add: demo_encoder_fields(2) valid_ascii)

section \<open>One entry, one line\<close>

definition printable :: "string \<Rightarrow> bool" where "printable s = list_all (\<lambda>c. 32 \<le> byte c) s"

lemma printable_simps [simp]:
  "printable []" "printable (c # s) \<longleftrightarrow> 32 \<le> byte c \<and> printable s" "printable (s @ t) \<longleftrightarrow> printable s \<and> printable t"
  by (auto simp: printable_def)

lemma printable_set: "printable s \<longleftrightarrow> (\<forall>c \<in> set s. 32 \<le> byte c)"
  by (simp add: printable_def list_all_iff)

lemma printable_digits [simp]: "printable (nat_digits n)"
  using nat_digits_props [of n] by (auto simp: printable_set list_all_iff is_digit_def)

lemma printable_Itoa [simp]: "printable (Itoa i)"
  by (simp add: Itoa_def)

lemma hex_digit_printable: "n < 16 \<Longrightarrow> 32 \<le> byte (hex_digit n)"
  using hex_digit_mem [of n] by auto

lemma printable_self: "tryAddRuneSelf b = Some x \<Longrightarrow> printable x"
  using nat_of_char_less_256 [of b] hex_digit_printable [of "byte b div 16"] hex_digit_printable [of "byte b mod 16"]
  by (auto simp: tryAddRuneSelf_def backslash_def quote_def less_mult_imp_div_less split: if_splits)

text \<open>The escaping loop writes no control character, for any bytes.\<close>

lemma printable_safe [simp]: "printable (safe_bytes s)"
proof (induction "length s" arbitrary: s rule: less_induct)
  case less
  show ?case
  proof (cases s)
    case (Cons b t)
    have t: "printable (safe_bytes t)" using less Cons by simp
    obtain r n where d: "DecodeRune (b # t) = (r, n)" by fastforce
    have n: "0 < n" using DecodeRune_width(1) [of "b # t"] d by simp
    consider x where "tryAddRuneSelf b = Some x" | "tryAddRuneSelf b = None" "r = RuneError \<and> n = 1"
      | "tryAddRuneSelf b = None" "\<not> (r = RuneError \<and> n = 1)" by (cases "tryAddRuneSelf b") auto
    then show ?thesis
    proof cases
      case 1
      with t Cons show ?thesis by (simp add: safe_bytes_self printable_self)
    next
      case 2
      with d have "DecodeRune (b # t) = (RuneError, 1)" by simp
      from safe_bytes_bad [OF 2(1) this] t Cons show ?thesis by (simp add: backslash_def)
    next
      case 3
      have "printable (take n (b # t))" using DecodeRune_high [OF _ d] 3(1) self_low by (fastforce simp: printable_set)
      moreover have "printable (safe_bytes (drop n s))" using less [of "drop n s"] n Cons by simp
      ultimately show ?thesis using safe_bytes_rune [OF 3(1) d 3(2)] Cons by simp
    qed
  qed simp
qed

text \<open>What an operation keeps: a printable buffer and the configuration.\<close>

definition keeps :: "('f TextEncoder \<Rightarrow> 'f TextEncoder) \<Rightarrow> bool" where
  "keeps f \<longleftrightarrow> (\<forall>enc. (printable (buf enc) \<longrightarrow> printable (buf (f enc))) \<and> EncoderConfig (f enc) = EncoderConfig enc)"

definition keeps_o :: "('f TextEncoder \<Rightarrow> 'f TextEncoder outcome) \<Rightarrow> bool" where
  "keeps_o f \<longleftrightarrow> (\<forall>enc enc'. f enc = Ret enc' \<longrightarrow>
     (printable (buf enc) \<longrightarrow> printable (buf enc')) \<and> EncoderConfig enc' = EncoderConfig enc)"

text \<open>Formatted floats have no control characters.\<close>

definition floats_printable :: "('f, 'a) logenv \<Rightarrow> bool" where
  "floats_printable e \<longleftrightarrow> (\<forall>v b. printable (format_float e v b))"

lemma keeps_put [simp, intro]: "printable s \<Longrightarrow> keeps (put s)"
  by (simp add: keeps_def)

lemma keeps_comp [intro]: "keeps f \<Longrightarrow> keeps g \<Longrightarrow> keeps (\<lambda>enc. f (g enc))"
  by (simp add: keeps_def)

lemma keeps_if: "(\<And>enc. f enc = g enc \<or> f enc = h enc) \<Longrightarrow> keeps g \<Longrightarrow> keeps h \<Longrightarrow> keeps f"
  unfolding keeps_def by metis

lemma keeps_id: "keeps (\<lambda>enc. enc)" by (simp add: keeps_def)

lemma keeps_Ret: "keeps f \<Longrightarrow> keeps_o (\<lambda>enc. Ret (f enc))"
  by (auto simp: keeps_def keeps_o_def)

lemma keeps_bind: "keeps_o f \<Longrightarrow> keeps_o g \<Longrightarrow> keeps_o (\<lambda>enc. go_bind (f enc) g)"
  unfolding keeps_o_def go_bind_Ret_iff by metis

lemma keeps_before: "keeps_o f \<Longrightarrow> keeps g \<Longrightarrow> keeps_o (\<lambda>enc. f (g enc))"
  unfolding keeps_o_def keeps_def by metis

lemma keeps_separator: "keeps addElementSeparator"
  by (rule keeps_if [OF _ keeps_id keeps_put, of _ "'',''"]) (auto simp: addElementSeparator_def)

lemma keeps_after: "printable s \<Longrightarrow> keeps (\<lambda>enc. put s (addElementSeparator enc))"
  using keeps_comp [OF keeps_put keeps_separator] .

lemma printable_quote: "printable [quote]" by (simp add: quote_def)

lemma keeps_quoted: "keeps (\<lambda>enc. put [quote] (put (safe_bytes s) (put [quote] enc)))"
  by (simp add: keeps_def printable_quote quote_def)

lemma keeps_string: "keeps (safeAddStringWithQuote s)"
  by (rule keeps_if [OF _ keeps_put keeps_quoted, of _ "safe_bytes s" s]) (simp_all add: safeAddStringWithQuote_def safeAddString_def)

lemma keeps_key: "keeps (addKey k)"
  using keeps_comp [OF keeps_put keeps_comp [OF keeps_string keeps_separator], of "''=''" k] by (simp add: addKey_def [abs_def])

lemma keeps_bytes: "keeps (AppendByteString s)"
  by (rule keeps_if [OF _ keeps_comp [OF keeps_put keeps_separator] keeps_comp [OF keeps_quoted keeps_separator], of _ "safe_bytes s" s])
    (simp_all add: AppendByteString_def safeAddByteString_def Let_def)

lemma keeps_AppendString: "keeps (AppendString s)"
  using keeps_comp [OF keeps_string keeps_separator] by (simp add: AppendString_def [abs_def])

lemma keeps_appends:
  "keeps (AppendBool b)" "keeps (AppendInt64 i)" "keeps (AppendUint64 n)" "keeps (AppendReflected e v)"
  by (simp_all add: AppendBool_def [abs_def] AppendInt64_def [abs_def] AppendUint64_def [abs_def] AppendReflected_def [abs_def]
      keeps_after keeps_AppendString)

lemma keeps_floats:
  assumes "floats_printable e"
  shows "keeps (AppendComplex128 e r i)" "keeps (appendFloat e v bits)"
proof -
  have "printable (format_float e r 64 @ ''+'' @ format_float e i 64 @ ''i'')" using assms by (simp add: floats_printable_def)
  from keeps_after [OF this] show "keeps (AppendComplex128 e r i)" by (simp add: AppendComplex128_def [abs_def])
  have "printable (if is_nan e v then ''NaN'' else if is_pinf e v then ''+Inf'' else if is_ninf e v then ''-Inf'' else format_float e v bits)"
    using assms by (simp add: floats_printable_def)
  from keeps_after [OF this] show "keeps (appendFloat e v bits)" by (simp add: appendFloat_def [abs_def])
qed

lemma keepsD: "keeps f \<Longrightarrow> printable (buf enc) \<Longrightarrow> printable (buf (f enc))" "keeps f \<Longrightarrow> EncoderConfig (f enc) = EncoderConfig enc"
  by (simp_all add: keeps_def)

lemmas keep_rules = keeps_key keeps_bytes keeps_AppendString keeps_appends keeps_separator

lemmas keep_simps = keep_rules [THEN keepsD(1)] keep_rules [THEN keepsD(2)]

lemma pad_digits_eq:
  "pad_digits i n acc = (if length (nat_digits n) \<le> i then Ret (i - length (nat_digits n), nat_digits n @ acc) else index_panic)"
proof (induction i n acc rule: pad_digits.induct)
  case (1 i n acc)
  show ?case
  proof (cases "i = 0")
    case True
    then show ?thesis using nat_digits_props [of n] by (simp add: pad_digits.simps)
  next
    case False
    show ?thesis
    proof (cases "n \<ge> 10")
      case True
      with 1 False have "pad_digits i n acc = (if length (nat_digits (n div 10)) \<le> i - 1
          then Ret (i - 1 - length (nat_digits (n div 10)), nat_digits (n div 10) @ char_of (48 + n mod 10) # acc) else index_panic)"
        by (simp add: pad_digits.simps [of i n])
      moreover have "nat_digits n = nat_digits (n div 10) @ [char_of (48 + n mod 10)]" using True by (simp add: nat_digits.simps [of n])
      ultimately show ?thesis using False by auto
    next
      case small: False
      with False show ?thesis by (simp add: pad_digits.simps nat_digits.simps [of n])
    qed
  qed
qed

lemma pad_zeros_eq: "i \<le> 8 \<Longrightarrow> pad_zeros i w acc = replicate (min i (w - (8 - i))) (CHR ''0'') @ acc"
proof (induction i w acc rule: pad_zeros.induct)
  case (2 i w acc)
  show ?case
  proof (cases "8 - Suc i < w")
    case True
    with 2 have "pad_zeros (Suc i) w acc = replicate (min i (w - (8 - i))) (CHR ''0'') @ CHR ''0'' # acc" by simp
    moreover have "min (Suc i) (w - (8 - Suc i)) = Suc (min i (w - (8 - i)))" using True 2(2) by auto
    ultimately show ?thesis by (simp add: replicate_app_Cons_same)
  qed simp
qed simp

lemma writePadding_eq:
  assumes "w \<le> 8"
  shows "writePadding n w enc =
    (if length (nat_digits n) \<le> 8 then Ret (put (replicate (w - length (nat_digits n)) (CHR ''0'') @ nat_digits n) enc) else index_panic)"
  using assms by (simp add: writePadding_def pad_digits_eq pad_zeros_eq min_def)

lemma keeps_pad: "keeps_o (writePadding n w)"
proof -
  have "printable (replicate k (CHR ''0''))" for k by (simp add: printable_set)
  then show ?thesis
    by (auto simp: keeps_o_def writePadding_def pad_digits_eq pad_zeros_eq split: if_splits)
qed

lemma keeps_time: "keeps_o (encodeTimeDirect t ns)"
proof -
  have pad: "keeps_o (\<lambda>enc. go_bind (writePadding n w enc) (\<lambda>enc. Ret (put c enc)))" if "printable c" for n w c
    by (rule keeps_bind [OF keeps_pad]) (rule keeps_Ret [OF keeps_put [OF that]])
  show ?thesis unfolding encodeTimeDirect_def Let_def
    by ((rule keeps_bind, rule pad, simp)+, rule keeps_bind, rule keeps_before [OF pad keeps_put]) (simp_all add: keeps_pad)
qed

lemma keeps_prims: "floats_printable e \<Longrightarrow> keeps_o (run_prims e ps)"
proof (induction ps)
  case Nil
  then show ?case by (simp add: keeps_o_def)
next
  case (Cons p ps)
  have "keeps_o (run_prim e p)"
  proof (cases p)
    case (PTime t ns)
    then show ?thesis using keeps_time by (simp add: keeps_o_def)
  qed (auto simp: keeps_o_def keep_simps keepsD [OF keeps_floats(2) [OF Cons.prems]])
  from keeps_bind [OF this Cons.IH [OF Cons.prems]] show ?case by (simp add: keeps_o_def)
qed

lemma keeps_configured: "floats_printable e \<Longrightarrow> keeps f \<Longrightarrow> keeps_o (configured e ps f)"
proof -
  assume "floats_printable e" "keeps f"
  have "keeps_o (\<lambda>enc. Ret (if n = length (buf enc) then f enc else enc))" for n
    by (rule keeps_Ret, rule keeps_if [OF _ \<open>keeps f\<close> keeps_id]) simp
  then have "keeps_o (\<lambda>enc. go_bind (run_prims e ps enc) (\<lambda>enc. Ret (if n = length (buf enc) then f enc else enc)))" for n
    by (rule keeps_bind [OF keeps_prims [OF \<open>floats_printable e\<close>]])
  then show ?thesis unfolding keeps_o_def configured_def Let_def by blast
qed

lemma keeps_AppendDuration: "floats_printable e \<Longrightarrow> keeps_o (AppendDuration e v)"
  unfolding keeps_o_def AppendDuration_def
  using keeps_configured [OF _ keeps_appends(2)] unfolding keeps_o_def by blast

lemma keeps_AppendTime: "floats_printable e \<Longrightarrow> keeps_o (AppendTime e t ns)"
  unfolding keeps_o_def AppendTime_def
  using keeps_configured [OF _ keeps_appends(2)] unfolding keeps_o_def by blast

lemma keeps_bracketed:
  assumes "keeps_o marshal"
  shows "keeps_o (AppendArray marshal)" "keeps_o (AppendObject marshal)"
  using assms
  by (auto simp: keeps_o_def AppendArray_def AppendObject_def go_bind_Ret_iff Let_def keep_simps cloned_def)

lemma keeps_call_list: "\<forall>c \<in> set cs. keeps_o (run_call e c) \<Longrightarrow> keeps_o (run_calls e cs)"
proof (induction cs)
  case (Cons c cs)
  then have "keeps_o (\<lambda>enc. go_bind (run_call e c enc) (run_calls e cs))" by (intro keeps_bind) simp_all
  then show ?case by (simp add: keeps_o_def)
qed (simp add: keeps_o_def)

lemma keeps_oD:
  "keeps_o f \<Longrightarrow> f enc = Ret enc' \<Longrightarrow> printable (buf enc) \<Longrightarrow> printable (buf enc')"
  "keeps_o f \<Longrightarrow> f enc = Ret enc' \<Longrightarrow> EncoderConfig enc' = EncoderConfig enc"
  by (auto simp: keeps_o_def)

lemma keeps_keyed:
  assumes "keeps_o f" "\<And>enc. g enc = (case k of Some key \<Rightarrow> f (addKey key enc) | None \<Rightarrow> f enc)"
  shows "keeps_o g"
  using assms(1) by (cases k) (auto simp: keeps_o_def assms(2) keep_simps)

lemma keeps_call: "floats_printable e \<Longrightarrow> keeps_o (run_call e c)"
proof (induction c)
  case (CArray k cs)
  then have "keeps_o (AppendArray (run_calls e cs))" using keeps_call_list keeps_bracketed(1) by blast
  then show ?case by (rule keeps_keyed [where k = k]) (simp add: AddArray_def split: option.split)
next
  case (CObject k cs)
  then have "keeps_o (AppendObject (run_calls e cs))" using keeps_call_list keeps_bracketed(2) by blast
  then show ?case by (rule keeps_keyed [where k = k]) (simp add: AddObject_def split: option.split)
next
  case (CDuration k v)
  show ?case by (rule keeps_keyed [OF keeps_AppendDuration [OF CDuration, of v], where k = k]) (simp add: AddDuration_def split: option.split)
next
  case (CTime k t ns)
  show ?case by (rule keeps_keyed [OF keeps_AppendTime [OF CTime, of t ns], where k = k]) (simp add: AddTime_def split: option.split)
next
  case (CReflected k v)
  then show ?case
    by (auto simp: keeps_o_def AddReflected_def keep_simps go_bind_Ret_iff split: option.splits outcome.splits)
next
  case (CBool k v)
  show ?case by (rule keeps_keyed [OF keeps_Ret [OF keeps_appends(1) [of v]], where k = k]) (simp add: AddBool_def split: option.split)
next
  case (CInt k v)
  show ?case by (rule keeps_keyed [OF keeps_Ret [OF keeps_appends(2) [of v]], where k = k]) (simp add: AddInt64_def split: option.split)
next
  case (CUint k v)
  show ?case by (rule keeps_keyed [OF keeps_Ret [OF keeps_appends(3) [of v]], where k = k]) (simp add: AddUint64_def split: option.split)
next
  case (CString k v)
  show ?case by (rule keeps_keyed [OF keeps_Ret [OF keeps_AppendString [of v]], where k = k]) (simp add: AddString_def split: option.split)
next
  case (CBytes k v)
  show ?case by (rule keeps_keyed [OF keeps_Ret [OF keeps_bytes [of v]], where k = k]) (simp add: AddByteString_def split: option.split)
next
  case (CFloat k v)
  show ?case by (rule keeps_keyed [OF keeps_Ret [OF keeps_floats(2) [OF CFloat, of v 64]], where k = k])
      (simp add: AddFloat64_def AppendFloat64_def split: option.split)
next
  case (CComplex k r i)
  show ?case by (rule keeps_keyed [OF keeps_Ret [OF keeps_floats(1) [OF CComplex, of r i]], where k = k])
      (simp add: AddComplex128_def split: option.split)
next
  case (CBinary k v)
  show ?case by (simp add: keeps_o_def AddBinary_def AddString_def keep_simps)
next
  case (CNamespace k)
  show ?case by (simp add: keeps_o_def OpenNamespace_def keep_simps)
qed

lemma keeps_calls: "floats_printable e \<Longrightarrow> keeps_o (run_calls e cs)"
  by (simp add: keeps_call_list keeps_call)

section \<open>Entries\<close>

lemma keeps_brackets: "keeps beginQuoteFiled" "keeps endQuoteFiled" "keeps closeOpenNamespaces"
  by (auto simp: keeps_def beginQuoteFiled_def endQuoteFiled_def closeOpenNamespaces_def) (auto simp: printable_set)

lemma keeps_AddString: "keeps (AddString k v)"
  by (simp add: keeps_def AddString_def keep_simps)

lemma keeps_encodeError: "keeps (encodeError k b v)"
  unfolding keeps_def encodeError_def Let_def
  by (auto simp: keeps_brackets [THEN keepsD(1)] keeps_brackets [THEN keepsD(2)] keepsD [OF keeps_AddString] split: option.splits)

lemma keeps_fields: "floats_printable e \<Longrightarrow> keeps_o (addFields e fs)"
proof (induction fs)
  case (Cons f fs)
  show ?case
  proof (cases f)
    case (FError k b v)
    with keeps_before [OF Cons.IH [OF Cons.prems] keeps_encodeError] show ?thesis by (simp add: keeps_o_def)
  next
    case (FCalls cs)
    have "keeps_o (\<lambda>enc. go_bind (run_calls e cs (beginQuoteFiled enc)) (\<lambda>enc. addFields e fs (endQuoteFiled enc)))"
      using keeps_bind [OF keeps_before [OF keeps_calls [OF Cons.prems] keeps_brackets(1)]
          keeps_before [OF Cons.IH [OF Cons.prems] keeps_brackets(2)]] .
    with FCalls show ?thesis by (simp add: keeps_o_def)
  qed
qed (simp add: keeps_o_def)

lemma keeps_part: "keeps_o body \<Longrightarrow> keeps_o (entry_part cond body)"
proof (cases cond)
  case True
  assume "keeps_o body"
  from keeps_bind [OF keeps_before [OF this keeps_brackets(1)] keeps_Ret [OF keeps_brackets(2)]] True
  show ?thesis by (simp add: keeps_o_def entry_part_def)
qed (simp add: keeps_o_def entry_part_def)

text \<open>
  C22: one entry is one line.  Whatever bytes its message, keys, values, names and stack trace have, and whatever
  calls its fields make, the text of an entry is a line without any control character followed by the line
  ending, provided the context of the encoder has none: user data cannot start a new line or inject one.
\<close>

theorem entry_is_one_line:
  assumes "floats_printable e" "printable (buf enc)" "EncodeEntry e ent flds enc = Ret out"
  shows "\<exists>line. printable line \<and>
    out = line @ (if LineEnding (EncoderConfig enc) \<noteq> [] then LineEnding (EncoderConfig enc) else [CHR 0x0A])"
proof -
  note k = keeps_configured [OF assms(1) keeps_AppendString] keeps_AppendTime [OF assms(1)]
    keeps_Ret [OF keeps_AppendString] keeps_Ret [OF keeps_AddString] keeps_fields [OF assms(1)]
  note kp = keeps_part [THEN keeps_oD(1)]
  from assms(3) obtain f1 f2 f3 f4 f5 f6 f7 where
    1: "entry_part (TimeKey (EncoderConfig enc) \<noteq> []) (AppendTime e (ent_Time ent) (ent_Nanos ent)) (cloned enc) = Ret f1"
    and 2: "entry_part (LevelKey (EncoderConfig enc) \<noteq> [])
      (configured e (EncodeLevel (EncoderConfig enc) (ent_Level ent)) (AppendString (level_string e (ent_Level ent)))) f1 = Ret f2"
    and 3: "entry_part (LoggerName ent \<noteq> [] \<and> NameKey (EncoderConfig enc) \<noteq> [])
      (configured e ((case EncodeName (EncoderConfig enc) of None \<Rightarrow> (\<lambda>n. [PString n]) | Some f \<Rightarrow> f) (LoggerName ent))
        (AppendString (LoggerName ent))) f2 = Ret f3"
    and 4: "entry_part (Defined (Caller ent) \<and> CallerKey (EncoderConfig enc) \<noteq> [])
      (configured e (EncodeCaller (EncoderConfig enc) (Caller ent)) (AppendString (caller_string e (Caller ent)))) f3 = Ret f4"
    and 5: "entry_part (Message ent \<noteq> []) (\<lambda>final. Ret (AppendString (Message ent) final)) f4 = Ret f5"
    and 6: "addFields e flds (if buf enc \<noteq> [] then put (CHR '' '' # buf enc) f5 else f5) = Ret f6"
    and 7: "entry_part (Stack ent \<noteq> [] \<and> StacktraceKey (EncoderConfig enc) \<noteq> [])
      (\<lambda>final. Ret (AddString (StacktraceKey (EncoderConfig enc)) (Stack ent) final)) (closeOpenNamespaces f6) = Ret f7"
    and out: "out = buf f7 @ (if LineEnding (EncoderConfig enc) \<noteq> [] then LineEnding (EncoderConfig enc) else [CHR 0x0A])"
    unfolding EncodeEntry_def Let_def go_bind_Ret_iff by auto
  have "printable (buf f1)" by (rule kp [OF k(2) 1]) (simp add: cloned_def)
  from kp [OF k(1) 2 this] have "printable (buf f2)" .
  from kp [OF k(1) 3 this] have "printable (buf f3)" .
  from kp [OF k(1) 4 this] have "printable (buf f4)" .
  from kp [OF k(3) 5 this] have "printable (buf f5)" .
  with assms(2) have "printable (buf (if buf enc \<noteq> [] then put (CHR '' '' # buf enc) f5 else f5))" by simp
  from keeps_oD(1) [OF k(5) 6 this] have "printable (buf (closeOpenNamespaces f6))" by (rule keepsD(1) [OF keeps_brackets(3)])
  from kp [OF k(4) 7 this] out show ?thesis by blast
qed

lemma demo_floats: "floats_printable demo_logenv"
  by (simp add: floats_printable_def demo_logenv_def)

definition demo_entry :: Entry where
  "demo_entry = \<lparr>ent_Level = 0, ent_Time = \<lparr>unix = 0, loc = UTC\<rparr>, ent_Nanos = 0, LoggerName = [], Message = ''a'' @ [CHR 0x0A] @ ''b'',
     Caller = \<lparr>Defined = False, File = [], Line = 0\<rparr>, Stack = []\<rparr>"

theorem entry_is_one_line_witness:
  "\<exists>line. printable line \<and> EncodeEntry demo_logenv demo_entry [] (demo_encoder\<lparr>EncoderConfig := (EncoderConfig demo_encoder)\<lparr>TimeKey := []\<rparr>\<rparr>)
     = Ret (line @ [CHR 0x0A])"
proof -
  let ?enc = "demo_encoder\<lparr>EncoderConfig := (EncoderConfig demo_encoder)\<lparr>TimeKey := []\<rparr>\<rparr>"
  obtain out where out: "EncodeEntry demo_logenv demo_entry [] ?enc = Ret out"
    by (simp add: EncodeEntry_def entry_part_def configured_def demo_entry_def demo_encoder_def NewTextEncoder_def Let_def)
  have "LineEnding (EncoderConfig ?enc) = [CHR 0x0A]" by (simp add: demo_encoder_def NewTextEncoder_def)
  with entry_is_one_line [OF demo_floats _ out] out demo_encoder_fields(2) show ?thesis by auto
qed

section \<open>Timestamps\<close>

lemma nat_digits_length: "0 < k \<Longrightarrow> length (nat_digits n) \<le> k \<longleftrightarrow> n < 10 ^ k"
proof (induction n arbitrary: k rule: nat_digits.induct)
  case (1 n)
  show ?case
  proof (cases "n < 10")
    case True
    have "(10::nat) ^ 1 \<le> 10 ^ k" using 1(2) by (intro power_increasing) auto
    with True 1(2) show ?thesis by (simp add: nat_digits.simps [of n])
  next
    case False
    obtain j where k: "k = Suc j" using 1(2) by (cases k) auto
    have l: "length (nat_digits n) = Suc (length (nat_digits (n div 10)))" using False by (simp add: nat_digits.simps [of n])
    show ?thesis
    proof (cases "j = 0")
      case True
      moreover have "nat_digits (n div 10) \<noteq> []" using nat_digits_props by blast
      ultimately show ?thesis using False k l by simp
    next
      case j: False
      with 1(1) [OF False, of j] have "length (nat_digits (n div 10)) \<le> j \<longleftrightarrow> n div 10 < 10 ^ j" by simp
      also have "\<dots> \<longleftrightarrow> n < 10 ^ k" unfolding k using div_less_iff_less_mult [of 10 n "10 ^ j"] by (simp add: mult.commute)
      finally show ?thesis using l k by simp
    qed
  qed
qed

lemma digits_val_zeros: "digits_val 0 (replicate k (CHR ''0'') @ s) = digits_val 0 s"
  by (induction k) (simp_all add: digit_val_def)

text \<open>A padded number: as many digits as asked for, which read back as the number.\<close>

definition reads_as :: "string \<Rightarrow> nat \<Rightarrow> int \<Rightarrow> bool" where
  "reads_as s w v \<longleftrightarrow> length s = w \<and> list_all is_digit s \<and> digits_val 0 s = v"

lemma pad_ok:
  assumes "0 < w" "w \<le> 8" "0 \<le> v" "v < 10 ^ w"
  shows "\<exists>s. (\<forall>enc :: 'f TextEncoder. writePadding (uint64 v) w enc = Ret (put s enc)) \<and> reads_as s w v"
proof -
  have p8: "(10::nat) ^ w \<le> 10 ^ 8" using assms(2) by (intro power_increasing) auto
  have n: "nat v < 10 ^ w" using assms(3,4) by (simp add: nat_less_iff)
  then have "nat v < 10 ^ 8" using p8 by linarith
  then have u: "uint64 v = nat v" using assms(3) by (simp add: uint64_def nat_mod_distrib)
  have l: "length (nat_digits (nat v)) \<le> w" using n nat_digits_length [OF assms(1)] by simp
  let ?s = "replicate (w - length (nat_digits (nat v))) (CHR ''0'') @ nat_digits (nat v)"
  have "reads_as ?s w v"
    using l nat_digits_props [of "nat v"] assms(3) by (auto simp: reads_as_def digits_val_zeros list_all_iff is_digit_def)
  moreover have "writePadding (uint64 v) w enc = Ret (put ?s enc)" for enc :: "'f TextEncoder"
    using l assms(2) by (simp add: writePadding_eq u)
  ultimately show ?thesis by blast
qed

lemma pad_negative: "w \<le> 8 \<Longrightarrow> - (2 ^ 63) \<le> v \<Longrightarrow> v < 0 \<Longrightarrow> writePadding (uint64 v) w enc = index_panic"
proof -
  assume *: "w \<le> 8" "- (2 ^ 63) \<le> v" "v < 0"
  have "(v + 2 ^ 64) mod 2 ^ 64 = v + 2 ^ 64" by (rule mod_pos_pos_trivial) (use * in simp_all)
  then have m: "v mod 2 ^ 64 = v + 2 ^ 64" by (simp only: mod_add_self2)
  have "10 ^ 8 \<le> v + 2 ^ 64" using *(2) by simp
  then have "10 ^ 8 \<le> uint64 v" unfolding uint64_def m by (simp add: le_nat_iff)
  then have "\<not> length (nat_digits (uint64 v)) \<le> 8" using nat_digits_length [of 8 "uint64 v"] by simp
  then show ?thesis using * by (simp add: writePadding_eq)
qed

text \<open>
  the timestamp of an entry.  For a time of a year up to 9999 in a zone less than a hundred hours
  from Greenwich: if the year is not negative the direct encoder writes exactly thirty characters, the
  zero-padded year, month, day, hour, minute, second, millisecond and zone offset of the instant, each of which
  reads back as its value; for a year before the year zero it panics.
\<close>

theorem timestamp_fields:
  fixes enc :: "'f TextEncoder"
  assumes "- (2 ^ 63) \<le> Year t" "Year t \<le> 9999" "0 \<le> ns" "ns < 1000000000"
    and "\<bar>offset_at (loc t) (unix t)\<bar> < 360000"
  shows "if Year t < 0 then encodeTimeDirect t ns enc = index_panic
    else \<exists>y mo d h mi sc ms oh om. encodeTimeDirect t ns enc =
        Ret (put (y @ ''/'' @ mo @ ''/'' @ d @ '' '' @ h @ '':'' @ mi @ '':'' @ sc @ ''.'' @ ms @ '' ''
          @ (if offset_at (loc t) (unix t) < 0 then ''-'' else ''+'') @ oh @ '':'' @ om) enc)
      \<and> reads_as y 4 (Year t) \<and> reads_as mo 2 (Month t) \<and> reads_as d 2 (Day t)
      \<and> reads_as h 2 (Hour t) \<and> reads_as mi 2 (Minute t) \<and> reads_as sc 2 (Second t) \<and> reads_as ms 3 (ns div 1000000)
      \<and> reads_as oh 2 (\<bar>offset_at (loc t) (unix t)\<bar> div 3600) \<and> reads_as om 2 (\<bar>offset_at (loc t) (unix t)\<bar> mod 3600 div 60)"
proof (cases "Year t < 0")
  case True
  with pad_negative [of 4 "Year t" enc] assms(1) show ?thesis by (simp add: encodeTimeDirect_def Let_def)
next
  case False
  let ?off = "\<bar>offset_at (loc t) (unix t)\<bar>"
  have o: "0 \<le> ?off div 3600" "?off div 3600 < 100" "0 \<le> ?off mod 3600 div 60" "?off mod 3600 div 60 < 60"
    using assms(5) div_range [of 3600 ?off 100] div_range [of 60 "?off mod 3600" 60] by simp_all
  have sd: "?off sdiv 3600 = ?off div 3600" "?off smod 3600 sdiv 60 = ?off mod 3600 div 60" "ns sdiv 1000000 = ns div 1000000"
    using assms(3) o by (simp_all add: sdiv_nonneg smod_nonneg)
  have ms: "0 \<le> ns div 1000000" "ns div 1000000 < 1000" using assms(3,4) div_range [of 1000000 ns 1000] by simp_all
  have dy: "1 \<le> Day t" "Day t \<le> 31" using reading_valid [of t] month_length_range [of "Month t" "Year t"] Month_range [of t]
    by (auto simp: valid_date_def)
  have sc: "0 \<le> Second t" "Second t < 60" by (simp_all add: Second_def)
  let ?w = "\<lambda>v w s. (\<forall>enc :: 'f TextEncoder. writePadding (uint64 v) w enc = Ret (put s enc)) \<and> reads_as s w v"
  obtain y where y: "?w (Year t) 4 y" using pad_ok [of 4 "Year t", where 'f = 'f] False assms(2) by auto
  obtain mo where mo: "?w (Month t) 2 mo" using pad_ok [of 2 "Month t", where 'f = 'f] Month_range [of t] by auto
  obtain d where d: "?w (Day t) 2 d" using pad_ok [of 2 "Day t", where 'f = 'f] dy by auto
  obtain h where h: "?w (Hour t) 2 h" using pad_ok [of 2 "Hour t", where 'f = 'f] clock_range [of t] by auto
  obtain mi where mi: "?w (Minute t) 2 mi" using pad_ok [of 2 "Minute t", where 'f = 'f] clock_range [of t] by auto
  obtain s where s: "?w (Second t) 2 s" using pad_ok [of 2 "Second t", where 'f = 'f] sc by auto
  obtain m where m: "?w (ns div 1000000) 3 m" using pad_ok [of 3 "ns div 1000000", where 'f = 'f] ms by auto
  obtain oh where oh: "?w (?off div 3600) 2 oh" using pad_ok [of 2 "?off div 3600", where 'f = 'f] o(1,2) by auto
  obtain om where om: "?w (?off mod 3600 div 60) 2 om" using pad_ok [of 2 "?off mod 3600 div 60", where 'f = 'f] o(3,4) by auto
  have en: "encodeTimeDirect t ns enc = Ret (put (y @ ''/'' @ mo @ ''/'' @ d @ '' '' @ h @ '':'' @ mi @ '':'' @ s @ ''.'' @ m @ '' ''
      @ (if offset_at (loc t) (unix t) < 0 then ''-'' else ''+'') @ oh @ '':'' @ om) enc)"
    unfolding encodeTimeDirect_def Let_def sd using y mo d h mi s m oh om by simp
  show ?thesis unfolding if_not_P [OF False]
    by (intro exI conjI, rule en) (rule conjunct2, rule y mo d h mi s m oh om)+
qed

theorem timestamp_fields_witness:
  "\<exists>y mo d. reads_as y 4 1969 \<and> reads_as mo 2 12 \<and> reads_as d 2 31 \<and>
     (\<exists>rest. encodeTimeDirect \<lparr>unix = 0, loc = FixedZone (-3600)\<rparr> 0 demo_encoder = Ret (put (y @ ''/'' @ mo @ ''/'' @ d @ rest) demo_encoder))"
proof -
  let ?t = "\<lparr>unix = 0, loc = FixedZone (-3600)\<rparr>"
  have "day_of ?t = day_number 1969 12 31"
    by (simp add: day_of_def local_secs_def day_number_def year_base_def month_base_def is_leap_def)
  moreover have "valid_date 1969 12 31" by (simp add: valid_date_def month_length_def month_base_def is_leap_def)
  ultimately have "Year ?t = 1969" "Month ?t = 12" "Day ?t = 31"
    using civil_day_number [of 1969 12 31] by (simp_all add: Year_def Month_def Day_def)
  note r = this
  have "- (2 ^ 63) \<le> Year ?t" "Year ?t \<le> 9999" "\<not> Year ?t < 0" unfolding r by simp_all
  with timestamp_fields [of ?t 0 demo_encoder] obtain y mo d h mi sc ms oh om where
    e: "encodeTimeDirect ?t 0 demo_encoder = Ret (put (y @ ''/'' @ mo @ ''/'' @ d @ '' '' @ h @ '':'' @ mi @ '':'' @ sc @ ''.'' @ ms @ '' ''
          @ (if offset_at (loc ?t) (unix ?t) < 0 then ''-'' else ''+'') @ oh @ '':'' @ om) demo_encoder)"
    and f: "reads_as y 4 (Year ?t)" "reads_as mo 2 (Month ?t)" "reads_as d 2 (Day ?t)" by auto
  show ?thesis using f e unfolding r by blast
qed

end
