(* ===== verification/WebErrors.thy ===== *)
theory WebErrors
  imports WebAuth
begin

text \<open>
  Model of \<open>web/handler/errorhandle.go\<close>: the middleware that turns the errors recorded on a context into a
  response, its error maps, and the two helpers with which handlers record errors.  The response writer and
  the renderers belong to the gin framework; the operations of it that this file calls are the record \<open>ginw\<close>.
  The text of an error is its \<open>Error\<close> method, the parameter \<open>etext\<close>.
\<close>

section \<open>Errors of a context\<close>

text \<open>Values of \<open>any\<close> in a response body; \<open>gin.H\<close> is \<open>HMap\<close>.\<close>

datatype 'm hval = HInt int | HString string | HOther 'm | HMap "string \<Rightarrow> 'm hval option" | HList "'m hval list"

type_synonym ErrorType = "64 word"

definition ErrorTypePrivate :: ErrorType where "ErrorTypePrivate = 1"
definition ErrorTypePublic :: ErrorType where "ErrorTypePublic = 2"

record 'm ginError =
  ge_Err :: go_error
  ge_Type :: ErrorType
  ge_Meta :: "'m hval option"

text \<open>
  \<open>w_SetLastType\<close> writes the type of the error recorded last, through the pointer that \<open>c.Error\<close> returns;
  \<open>w_Response\<close> is what has been sent and is set to be sent to the client: status, headers, body.
\<close>

record ('c, 'm, 'r) ginw =
  w_Errors :: "'c \<Rightarrow> 'm ginError list"
  w_SetLastType :: "ErrorType \<Rightarrow> 'c \<Rightarrow> 'c"
  w_Status :: "'c \<Rightarrow> int"
  w_Written :: "'c \<Rightarrow> bool"
  w_Next :: "'c handler"
  w_NegotiateFormat :: "string list \<Rightarrow> 'c \<Rightarrow> string"
  w_JSON :: "int \<Rightarrow> 'm hval \<Rightarrow> 'c \<Rightarrow> 'c"
  w_XML :: "int \<Rightarrow> 'm hval \<Rightarrow> 'c \<Rightarrow> 'c"
  w_Response :: "'c \<Rightarrow> 'r"

text \<open>
  The framework's documentation: an error is recorded last and as private; aborting keeps the errors; status
  and the written flag are part of the response; a renderer writes its code and its data to the response and
  reads nothing else of the context.
\<close>

definition same_view :: "('c, 'm, 'r) ginw \<Rightarrow> 'c \<Rightarrow> 'c \<Rightarrow> bool" where
  "same_view w c1 c2 \<longleftrightarrow> w_Response w c1 = w_Response w c2 \<and> w_Status w c1 = w_Status w c2 \<and> w_Written w c1 = w_Written w c2"

definition ginw_laws :: "'c gin \<Rightarrow> ('c, 'm, 'r) ginw \<Rightarrow> bool" where
  "ginw_laws g w \<longleftrightarrow>
     (\<forall>e c. w_Errors w (c_Error g e c) = w_Errors w c @ [\<lparr>ge_Err = e, ge_Type = ErrorTypePrivate, ge_Meta = None\<rparr>])
     \<and> (\<forall>t c es e. w_Errors w c = es @ [e] \<longrightarrow> w_Errors w (w_SetLastType w t c) = es @ [e\<lparr>ge_Type := t\<rparr>])
     \<and> (\<forall>c. w_Errors w (c_Abort g c) = w_Errors w c)
     \<and> (\<forall>n c. w_Errors w (c_Status g n c) = w_Errors w c)
     \<and> (\<forall>e c. same_view w (c_Error g e c) c)
     \<and> (\<forall>n d c1 c2. same_view w c1 c2 \<longrightarrow> same_view w (w_JSON w n d c1) (w_JSON w n d c2))
     \<and> (\<forall>n d c1 c2. same_view w c1 c2 \<longrightarrow> same_view w (w_XML w n d c1) (w_XML w n d c2))
     \<and> (\<forall>n e c1 c2. same_view w c1 c2 \<longrightarrow> same_view w (c_AbortWithError g n e c1) (c_AbortWithError g n e c2))"

section \<open>Error maps\<close>

text \<open>The package variables \<open>errorCodeMap\<close>, \<open>errorMap\<close> and the two flags.\<close>

record error_maps =
  errorCodeMap :: "(64 word \<times> string) list"
  errorMap :: "(string \<times> string) list"
  useErrorCodeMap :: bool
  useErrorMap :: bool

definition init_maps :: error_maps where
  "init_maps = \<lparr>errorCodeMap = [], errorMap = [], useErrorCodeMap = False, useErrorMap = False\<rparr>"

definition SetErrorMap :: "(64 word \<times> string) list option \<Rightarrow> (string \<times> string) list option \<Rightarrow> error_maps \<Rightarrow> error_maps" where
  "SetErrorMap cm em s =
     (let s = (case cm of None \<Rightarrow> s | Some cm \<Rightarrow> s\<lparr>errorCodeMap := cm\<rparr>);
          s = s\<lparr>useErrorCodeMap := 0 < length (errorCodeMap s)\<rparr>;
          s = (case em of None \<Rightarrow> s | Some em \<Rightarrow> s\<lparr>errorMap := em\<rparr>)
      in s\<lparr>useErrorMap := 0 < length (errorMap s)\<rparr>)"

text \<open>\<open>int(code)\<close> reads the 64 bits as a signed number.\<close>

definition LookupErrorCode :: "error_maps \<Rightarrow> (go_error \<Rightarrow> string) \<Rightarrow> 64 word \<Rightarrow> go_error \<Rightarrow> int \<times> string" where
  "LookupErrorCode s etext code err =
     (case (if useErrorCodeMap s then map_of (errorCodeMap s) code else None) of
        Some txt \<Rightarrow> (sint code, txt)
      | None \<Rightarrow>
          (case (if useErrorMap s then map_of (errorMap s) (etext err) else None) of
             Some txt \<Rightarrow> (sint code, txt)
           | None \<Rightarrow> (- 1, [])))"

definition FormatResponseError ::
  "error_maps \<Rightarrow> (go_error \<Rightarrow> string) \<Rightarrow> int \<Rightarrow> go_error \<Rightarrow> go_error option \<Rightarrow> (string \<Rightarrow> 'm hval option)" where
  "FormatResponseError s etext code0 err public =
     (let (code, txt) = LookupErrorCode s etext (word_of_int code0) err in
      if code > 0 then [''code'' \<mapsto> HInt code, ''message'' \<mapsto> HString txt]
      else case public of
        Some p \<Rightarrow> [''message'' \<mapsto> HString (etext p)]
      | None \<Rightarrow> [''message'' \<mapsto> HString (etext err)])"

section \<open>The default parser\<close>

definition format_entry ::
  "error_maps \<Rightarrow> (go_error \<Rightarrow> string) \<Rightarrow> int \<Rightarrow> go_error option \<Rightarrow> 'm ginError \<Rightarrow> 'm hval" where
  "format_entry s etext code public e =
     (let se = (if ge_Type e = ErrorTypePublic then FormatResponseError s etext code (ge_Err e) None
                else if ge_Type e = ErrorTypePrivate then FormatResponseError s etext code (ge_Err e) public
                else FormatResponseError s etext (sint (ge_Type e)) (ge_Err e) public)
      in HMap (case ge_Meta e of None \<Rightarrow> se | Some m \<Rightarrow> se(''meta'' \<mapsto> m)))"

definition DefaultErrorParser ::
  "('c, 'm, 'r) ginw \<Rightarrow> (go_error \<Rightarrow> string) \<Rightarrow> error_maps \<Rightarrow> 'c \<Rightarrow> go_error option \<Rightarrow> int \<times> 'm hval" where
  "DefaultErrorParser w etext s c public =
     (let code = w_Status w c;
          code = (if code = 200 then 500 else code)
      in (code, HMap [''errors'' \<mapsto> HList (map (format_entry s etext code public) (w_Errors w c))]))"

section \<open>The response\<close>

definition MIMEJSON :: string where "MIMEJSON = ''application/json''"
definition MIMEXML :: string where "MIMEXML = ''application/xml''"

definition errNotOffered :: go_error where
  "errNotOffered = Errorf ''the accepted formats are not offered by the server''"

definition NegotiateResponse ::
  "'c gin \<Rightarrow> ('c, 'm, 'r) ginw \<Rightarrow> 'c \<Rightarrow> int \<Rightarrow> 'm hval \<Rightarrow> string list \<Rightarrow> 'c" where
  "NegotiateResponse g w c code data offered =
     (let code = (if w_Written w c then w_Status w c else if w_Status w c \<noteq> 200 then w_Status w c else code);
          format = w_NegotiateFormat w offered c
      in if format = MIMEJSON then w_JSON w code data c
         else if format = MIMEXML then w_XML w code data c
         else if w_Written w c then c_Error g errNotOffered c
         else c_AbortWithError g 406 errNotOffered c)"

definition SetContextError :: "'c gin \<Rightarrow> ('c, 'm, 'r) ginw \<Rightarrow> 'c \<Rightarrow> int \<Rightarrow> go_error \<Rightarrow> 'c" where
  "SetContextError g w c code err = w_SetLastType w (word_of_int code) (c_Error g err c)"

definition AbortWithError :: "'c gin \<Rightarrow> 'c \<Rightarrow> int \<Rightarrow> go_error \<Rightarrow> 'c" where
  "AbortWithError g c code err = c_Status g code (c_Error g err (c_Abort g c))"

section \<open>The middleware\<close>

record ('c, 'm) ErrorHandleConfig =
  eh_Accepts :: string
  eh_NegotiateFormat :: "string list"
  eh_ErrorParser :: "('c \<Rightarrow> go_error option \<Rightarrow> int \<times> 'm hval) option"
  eh_Message :: string

definition DefaultNegotiateFormat :: "string list" where "DefaultNegotiateFormat = [MIMEJSON]"

definition NewErrorHandle :: "('c, 'm) ErrorHandleConfig MiddlewareOption list \<Rightarrow> ('c, 'm) ErrorHandleConfig" where
  "NewErrorHandle opts =
     with_config opts \<lparr>eh_Accepts = [], eh_NegotiateFormat = [], eh_ErrorParser = None, eh_Message = []\<rparr>"

definition offered_formats :: "('c, 'm) ErrorHandleConfig \<Rightarrow> string list" where
  "offered_formats cfg =
     (if eh_Accepts cfg \<noteq> [] then Split (eh_Accepts cfg) '',''
      else if eh_NegotiateFormat cfg = [] then DefaultNegotiateFormat else eh_NegotiateFormat cfg)"

text \<open>
  The handler reads the error maps when it runs, so they are an argument of it; a parser of the configuration
  does not see them.
\<close>

definition ErrorHandle_ApplyFunc ::
  "'c gin \<Rightarrow> ('c, 'm, 'r) ginw \<Rightarrow> (go_error \<Rightarrow> string) \<Rightarrow>
   (('c, 'm) ErrorHandleConfig \<Rightarrow> ('c, 'm) ErrorHandleConfig outcome) \<Rightarrow> ('c, 'm) ErrorHandleConfig
   \<Rightarrow> (error_maps \<Rightarrow> 'c handler) outcome" where
  "ErrorHandle_ApplyFunc g w etext unmarshal cfg0 =
     (case unmarshal cfg0 of
        Fail err \<Rightarrow> Panic ''Unmarshal''
      | Panic p \<Rightarrow> Panic p
      | Ret cfg \<Rightarrow>
          let offered = offered_formats cfg;
              messageError = (if eh_Message cfg \<noteq> [] then Some (Errorf (eh_Message cfg)) else None)
          in Ret (\<lambda>s c.
               go_bind (w_Next w c) (\<lambda>c.
                 if w_Errors w c \<noteq> [] then
                   (let (code, e) = (case eh_ErrorParser cfg of
                                       None \<Rightarrow> DefaultErrorParser w etext s c messageError
                                     | Some parser \<Rightarrow> parser c messageError)
                    in Ret (NegotiateResponse g w c code e offered))
                 else Ret c)))"

end
