(* ===== verification/AccessLog.thy ===== *)
theory AccessLog
  imports WebErrors
begin

text \<open>
  Model of \<open>web/handler/logger.go\<close> (the access log), of \<open>pkg/log/carrier.go\<close> (log fields carried by a
  context) and of \<open>web/handler/recovery.go\<close>.  The fields of the zap library are the datatype \<open>zfield\<close>; what
  the handlers read of the gin context is the record \<open>accenv\<close>.  A handler returns the context and the record
  it hands to the logger, if any.
\<close>

section \<open>Fields and carriers\<close>

datatype 'm zfield =
    ZSkip
  | ZString string string
  | ZInt string int
  | ZDuration string int
  | ZTime string int
  | ZAny string 'm
  | ZError string go_error
  | ZStack string int

fun zkey :: "'m zfield \<Rightarrow> string" where
  "zkey ZSkip = []"
| "zkey (ZString k _) = k"
| "zkey (ZInt k _) = k"
| "zkey (ZDuration k _) = k"
| "zkey (ZTime k _) = k"
| "zkey (ZAny k _) = k"
| "zkey (ZError k _) = k"
| "zkey (ZStack k _) = k"

text \<open>\<open>field.Interface.(error)\<close>; \<open>as_error\<close> tells which dynamic values are errors.\<close>

fun zerror :: "('m \<Rightarrow> go_error option) \<Rightarrow> 'm zfield \<Rightarrow> go_error option" where
  "zerror as_error (ZError _ e) = Some e"
| "zerror as_error (ZAny _ v) = as_error v"
| "zerror as_error _ = None"

text \<open>
  A carrier is an object that contexts point to: the carriers are a store from addresses to field lists, and a
  context holds the address under the package's key.
\<close>

type_synonym 'm carriers = "nat \<Rightarrow> 'm zfield list"

definition NewCarrier :: "nat \<Rightarrow> 'm carriers \<Rightarrow> 'm carriers" where
  "NewCarrier a h = h(a := [])"

definition FromIncomingContext :: "nat option \<Rightarrow> nat option" where
  "FromIncomingContext ctx = ctx"

definition AppendToIncomingContext :: "nat option \<Rightarrow> 'm zfield list \<Rightarrow> 'm carriers \<Rightarrow> 'm carriers" where
  "AppendToIncomingContext ctx flds h =
     (case FromIncomingContext ctx of None \<Rightarrow> h | Some a \<Rightarrow> h(a := h a @ flds))"

definition NewIncomingContext :: "nat option \<Rightarrow> nat \<Rightarrow> 'm zfield list \<Rightarrow> 'm carriers \<Rightarrow> nat option \<times> 'm carriers" where
  "NewIncomingContext ctx carrier flds h =
     (Some carrier, if 0 < length flds then h(carrier := h carrier @ flds) else h)"

section \<open>Tags\<close>

datatype loggerTagType =
    loggerTagTypeString | loggerTagTypeHeader | loggerTagTypeQuery | loggerTagTypeForm | loggerTagTypeCookie
  | loggerTagTypeContext

record loggerTag =
  FullKey :: string
  tag_typ :: loggerTagType
  tag_key :: string

definition defaultLoggerFormat :: string where
  "defaultLoggerFormat = ''id,remoteIp,host,method,uri,userAgent,status,error,'' @ ''latency,bytesIn,bytesOut''"

definition InvalidLevel :: int where "InvalidLevel = 6"
definition FatalLevel :: int where "FatalLevel = 5"

record 'c LoggerConfig =
  lc_Skipper :: "'c Skipper option"
  lc_Exclude :: "string list"
  lc_Format :: string
  lc_AppendFormat :: string
  logBodyIn :: bool
  lc_Level :: int
  Tags :: "loggerTag list"

text \<open>One round of the loop of \<open>BuildTag\<close>: the tag it appends and whether it sets \<open>logBodyIn\<close>.\<close>

definition build_one :: "string \<Rightarrow> loggerTag option \<times> bool" where
  "build_one tag0 =
     (let tag = TrimSpace tag0;
          mk = (\<lambda>t k. (Some \<lparr>FullKey = tag, tag_typ = t, tag_key = k\<rparr>, False)) in
      if tag = [] then (None, False)
      else if HasPrefix tag ''header:'' then mk loggerTagTypeHeader (drop 7 tag)
      else if HasPrefix tag ''query:'' then mk loggerTagTypeQuery (drop 6 tag)
      else if HasPrefix tag ''form:'' then mk loggerTagTypeForm (drop 5 tag)
      else if HasPrefix tag ''cookie:'' then mk loggerTagTypeCookie (drop 7 tag)
      else if HasPrefix tag ''context:'' then mk loggerTagTypeContext (drop 8 tag)
      else (Some \<lparr>FullKey = tag, tag_typ = loggerTagTypeString, tag_key = []\<rparr>, tag = ''bodyIn''))"

definition BuildTag :: "string \<Rightarrow> 'c LoggerConfig \<Rightarrow> 'c LoggerConfig" where
  "BuildTag format h =
     (let rs = map build_one (Split format '','')
      in h\<lparr>logBodyIn := logBodyIn h \<or> list_ex snd rs, Tags := List.map_filter fst rs\<rparr>)"

section \<open>The fields of a request\<close>

record ('c, 'm) accenv =
  a_RequestURI :: "'c \<Rightarrow> string"
  a_Proto :: "'c \<Rightarrow> string"
  a_ContentLength :: "'c \<Rightarrow> int"
  a_Size :: "'c \<Rightarrow> int"
  a_ClientIP :: "'c \<Rightarrow> string"
  a_Query :: "string \<Rightarrow> 'c \<Rightarrow> string"
  a_PostForm :: "string \<Rightarrow> 'c \<Rightarrow> string"
  a_Cookie :: "string \<Rightarrow> 'c \<Rightarrow> string outcome"
  a_Value :: "string \<Rightarrow> 'c \<Rightarrow> 'm option"
  a_Carrier :: "'c \<Rightarrow> 'm zfield list option"
  a_SetCarrier :: "'m zfield list \<Rightarrow> 'c \<Rightarrow> 'c"
  a_PrivateErrors :: "'c \<Rightarrow> string"
  a_DurationString :: "int \<Rightarrow> string"
  a_TraceIDKey :: string
  a_AsError :: "'m \<Rightarrow> go_error option"

definition Header_Get :: "header \<Rightarrow> string \<Rightarrow> string" where
  "Header_Get h k = (case Header_Values h k of [] \<Rightarrow> [] | v # _ \<Rightarrow> v)"

text \<open>The inner switch, on the type of the tag.\<close>

definition typed_field :: "'c gin \<Rightarrow> ('c, 'm) accenv \<Rightarrow> 'c \<Rightarrow> loggerTag \<Rightarrow> 'm zfield" where
  "typed_field g a c tag =
     (case tag_typ tag of
        loggerTagTypeHeader \<Rightarrow> ZString (FullKey tag) (Header_Get (Header (c_Request g c)) (tag_key tag))
      | loggerTagTypeQuery \<Rightarrow> ZString (FullKey tag) (a_Query a (tag_key tag) c)
      | loggerTagTypeForm \<Rightarrow> ZString (FullKey tag) (a_PostForm a (tag_key tag) c)
      | loggerTagTypeCookie \<Rightarrow>
          (case a_Cookie a (tag_key tag) c of Ret v \<Rightarrow> ZString (FullKey tag) v | _ \<Rightarrow> ZSkip)
      | loggerTagTypeContext \<Rightarrow>
          (case a_Value a (tag_key tag) c of Some v \<Rightarrow> ZAny (FullKey tag) v | None \<Rightarrow> ZSkip)
      | loggerTagTypeString \<Rightarrow> ZSkip)"

text \<open>
  The loop over the tags.  \<open>path\<close> and \<open>privateErr\<close> are the variables that the body changes: a \<open>path\<close> tag
  appends the query to \<open>path\<close>.
\<close>

fun tag_fields ::
  "'c gin \<Rightarrow> ('c, 'm, 'r) ginw \<Rightarrow> ('c, 'm) accenv \<Rightarrow> 'c \<Rightarrow> string \<Rightarrow> int \<Rightarrow> loggerTag list \<Rightarrow> string \<Rightarrow> bool
   \<Rightarrow> 'm zfield list \<times> bool" where
  "tag_fields g w a c body latency [] path privateErr = ([], privateErr)"
| "tag_fields g w a c body latency (tag # tags) path privateErr =
     (let req = c_Request g c;
          k = FullKey tag;
          path' = (if k = ''path'' \<and> RawQuery (URL req) \<noteq> [] then path @ ''?'' @ RawQuery (URL req) else path);
          v = a_PrivateErrors a c;
          isErr = (k = ''error'' \<and> w_Errors w c \<noteq> [] \<and> v \<noteq> []);
          f = (if k = ''id'' then ZString (a_TraceIDKey a) (Header_Get (Header req) ''X-Request-Id'')
               else if k = ''remoteIp'' then ZString ''remoteIp'' (a_ClientIP a c)
               else if k = ''host'' then ZString ''host'' (Host req)
               else if k = ''uri'' then ZString ''uri'' (a_RequestURI a c)
               else if k = ''method'' then ZString ''method'' (Method req)
               else if k = ''path'' then ZString ''path'' path'
               else if k = ''protocol'' then ZString ''protocol'' (a_Proto a c)
               else if k = ''referer'' then ZString ''referer'' (Header_Get (Header req) ''Referer'')
               else if k = ''userAgent'' then ZString ''userAgent'' (Header_Get (Header req) ''User-Agent'')
               else if k = ''status'' then ZInt ''status'' (w_Status w c)
               else if k = ''error'' then (if isErr then ZString ''error'' v else ZSkip)
               else if k = ''latency'' then ZDuration ''latency'' latency
               else if k = ''latencyHuman'' then ZString ''latencyHuman'' (a_DurationString a latency)
               else if k = ''bodyIn'' then (if body \<noteq> [] then ZString ''bodyIn'' body else ZSkip)
               else if k = ''bytesIn'' then ZInt ''bytesIn'' (a_ContentLength a c)
               else if k = ''bytesOut'' then ZInt ''bytesOut'' (a_Size a c)
               else typed_field g a c tag);
          (fs, p) = tag_fields g w a c body latency tags path' (privateErr \<or> isErr)
      in (f # fs, p))"

text \<open>
  The fields that handlers put into the carrier: errors among them are collected, unless an error is already
  there; an \<open>error\<close> field that holds no error value is dropped.  The text of the joined errors is theirs, one
  per line.
\<close>

definition carrier_fields ::
  "(go_error \<Rightarrow> string) \<Rightarrow> ('c, 'm) accenv \<Rightarrow> 'm zfield list \<Rightarrow> bool \<Rightarrow> 'm zfield list \<Rightarrow> 'm zfield list \<times> bool" where
  "carrier_fields etext a carried privateErr flds =
     (if carried = [] then (flds, privateErr)
      else if privateErr then (flds @ carried, privateErr)
      else let errs = List.map_filter (zerror (a_AsError a)) (filter (\<lambda>f. zkey f = ''error'') carried);
               others = filter (\<lambda>f. zkey f \<noteq> ''error'') carried
           in if errs = [] then (flds @ others, privateErr)
              else (flds @ others @ [ZString ''error'' (Join (map etext errs) [CHR 0x0A])], True))"

section \<open>The middleware\<close>

datatype zlevel = InfoLevel | ErrorLevel

datatype zoption = AddStacktrace int | WithCaller bool | IncreaseLevel int

definition NewAccessLog :: "'c LoggerConfig" where
  "NewAccessLog =
     \<lparr>lc_Skipper = None, lc_Exclude = [], lc_Format = defaultLoggerFormat, lc_AppendFormat = [], logBodyIn = False,
      lc_Level = InvalidLevel, Tags = []\<rparr>"

definition buildLogger :: "'c LoggerConfig \<Rightarrow> zoption list" where
  "buildLogger cfg =
     [AddStacktrace (FatalLevel + 1), WithCaller False]
     @ (if lc_Level cfg \<noteq> InvalidLevel then [IncreaseLevel (lc_Level cfg)] else [])"

definition access_skipper :: "'c gin \<Rightarrow> ('c, 'm, 'r) ginw \<Rightarrow> 'c LoggerConfig \<Rightarrow> 'c Skipper" where
  "access_skipper g w cfg =
     (if lc_Skipper cfg = None \<and> 0 < length (lc_Exclude cfg) then
        (let pm = StringsToMap (lc_Exclude cfg) in
         (\<lambda>c. if w_Errors w c \<noteq> [] then False else PathSkip pm (URL (c_Request g c))))
      else DefaultSkipper)"

definition GetLogCarrierFromGinContext :: "('c, 'm) accenv \<Rightarrow> 'c \<Rightarrow> 'm zfield list option" where
  "GetLogCarrierFromGinContext a c = a_Carrier a c"

text \<open>
  The body is read to its end and put back, so the context does not change; bodies whose reading fails half-way,
  of which the code keeps the part it has read, are not covered.
\<close>

definition read_body :: "bool \<Rightarrow> Request \<Rightarrow> string" where
  "read_body logs r = (if logs then (case Body r of Some (Ret b) \<Rightarrow> b | _ \<Rightarrow> []) else [])"

definition access_handler ::
  "'c gin \<Rightarrow> ('c, 'm, 'r) ginw \<Rightarrow> ('c, 'm) accenv \<Rightarrow> (go_error \<Rightarrow> string) \<Rightarrow> 'c LoggerConfig \<Rightarrow> int \<Rightarrow> 'c
   \<Rightarrow> ('c \<times> (zlevel \<times> 'm zfield list) option) outcome" where
  "access_handler g w a etext cfg latency c0 =
     (let body = read_body (logBodyIn cfg) (c_Request g c0) in
      go_bind (w_Next w (a_SetCarrier a [] c0)) (\<lambda>c.
        if access_skipper g w cfg c then Ret (c, None)
        else
          let (flds, privateErr) = tag_fields g w a c body latency (Tags cfg) (Path (URL (c_Request g c))) False;
              (flds, privateErr) = (case GetLogCarrierFromGinContext a c of
                                      None \<Rightarrow> (flds, privateErr)
                                    | Some carried \<Rightarrow> carrier_fields etext a carried privateErr flds)
          in Ret (c, Some (if privateErr then ErrorLevel else InfoLevel, flds))))"

definition AccessLog_ApplyFunc ::
  "'c gin \<Rightarrow> ('c, 'm, 'r) ginw \<Rightarrow> ('c, 'm) accenv \<Rightarrow> (go_error \<Rightarrow> string) \<Rightarrow>
   ('c LoggerConfig \<Rightarrow> 'c LoggerConfig outcome) \<Rightarrow> 'c LoggerConfig
   \<Rightarrow> (int \<Rightarrow> 'c \<Rightarrow> ('c \<times> (zlevel \<times> 'm zfield list) option) outcome) outcome" where
  "AccessLog_ApplyFunc g w a etext unmarshal cfg0 =
     (case unmarshal cfg0 of
        Fail err \<Rightarrow> Panic ''Unmarshal''
      | Panic p \<Rightarrow> Panic p
      | Ret cfg \<Rightarrow> Ret (access_handler g w a etext (BuildTag (lc_Format cfg @ '','' @ lc_AppendFormat cfg) cfg)))"

section \<open>Recovery\<close>

datatype 'v panicval = PanicError go_error | PanicValue 'v

definition ErrRecovery :: go_error where "ErrRecovery = Sentinel ''internal server error''"

text \<open>\<open>vtext\<close> formats a value with \<open>%v\<close>; the second result is what is logged when no carrier takes the fields.\<close>

definition HandleRecoverError ::
  "'c gin \<Rightarrow> ('c, 'm) accenv \<Rightarrow> ('c \<Rightarrow> string) \<Rightarrow> ('v \<Rightarrow> string) \<Rightarrow> 'c \<Rightarrow> 'v panicval \<Rightarrow> int \<Rightarrow> 'c \<times> 'm zfield list option" where
  "HandleRecoverError g a dump vtext c p stackSkip =
     (let httpRequest = dump c;
          (c, err) = (case p of
             PanicError err \<Rightarrow> (AbortWithError g c 500 err, err)
           | PanicValue v \<Rightarrow> (AbortWithError g c 500 ErrRecovery, Errorf (vtext v)))
      in case GetLogCarrierFromGinContext a c of
           Some carried \<Rightarrow>
             (a_SetCarrier a (carried @ [ZError ''panic'' err, ZString ''request'' httpRequest, ZStack ''stacktrace'' stackSkip]) c, None)
         | None \<Rightarrow> (c, Some [ZError ''error'' err, ZString ''request'' httpRequest]))"

text \<open>
  \<open>ApplyFunc\<close> hands this function to \<open>gin.CustomRecovery\<close>, which runs the next handlers and calls it if they
  panic: \<open>run\<close> is the framework's run of the next handlers, with the context as they left it.
\<close>

definition Recovery_ApplyFunc ::
  "'c gin \<Rightarrow> ('c, 'm) accenv \<Rightarrow> ('c \<Rightarrow> string) \<Rightarrow> ('v \<Rightarrow> string) \<Rightarrow> ('c \<Rightarrow> 'c \<times> 'v panicval option) \<Rightarrow> 'c \<Rightarrow> 'c \<times> 'm zfield list option" where
  "Recovery_ApplyFunc g a dump vtext run c =
     (case run c of
        (c, None) \<Rightarrow> (c, None)
      | (c, Some p) \<Rightarrow> HandleRecoverError g a dump vtext c p 4)"

end
