(* ===== verification/WebErrorsProps.thy ===== *)
theory WebErrorsProps
  imports WebErrors
begin

text \<open>
  What the error middleware discloses.  With a masking message the response does not depend on the private
  errors: two runs that differ only in the texts of errors that are neither public nor listed in the error
  map send the same response.
\<close>

section \<open>One error\<close>

text \<open>Two errors that a client may not tell apart: equal, or neither public nor mapped, with equal type and meta data.\<close>

definition hidden_alike :: "(go_error \<Rightarrow> string) \<Rightarrow> error_maps \<Rightarrow> 'm ginError \<Rightarrow> 'm ginError \<Rightarrow> bool" where
  "hidden_alike etext s e1 e2 \<longleftrightarrow>
     ge_Type e1 = ge_Type e2 \<and> ge_Meta e1 = ge_Meta e2
     \<and> (ge_Err e1 = ge_Err e2
        \<or> ge_Type e1 \<noteq> ErrorTypePublic
          \<and> etext (ge_Err e1) \<notin> fst ` set (errorMap s) \<and> etext (ge_Err e2) \<notin> fst ` set (errorMap s))"

lemma LookupErrorCode_unmapped:
  assumes "etext e1 \<notin> fst ` set (errorMap s)" "etext e2 \<notin> fst ` set (errorMap s)"
  shows "LookupErrorCode s etext code e1 = LookupErrorCode s etext code e2"
  using assms by (simp add: LookupErrorCode_def map_of_eq_None_iff [THEN iffD2] split: option.split)

lemma FormatResponseError_masked:
  assumes "etext e1 \<notin> fst ` set (errorMap s)" "etext e2 \<notin> fst ` set (errorMap s)"
  shows "FormatResponseError s etext code e1 (Some p) = FormatResponseError s etext code e2 (Some p)"
  using LookupErrorCode_unmapped [OF assms, of "word_of_int code"] by (simp add: FormatResponseError_def split: prod.split)

lemma format_entry_masked:
  assumes "hidden_alike etext s e1 e2"
  shows "format_entry s etext code (Some p) e1 = format_entry s etext code (Some p) e2"
proof (cases "ge_Err e1 = ge_Err e2")
  case True
  then show ?thesis using assms by (simp add: hidden_alike_def format_entry_def)
next
  case False
  then have h: "ge_Type e1 = ge_Type e2" "ge_Meta e1 = ge_Meta e2" "ge_Type e2 \<noteq> ErrorTypePublic"
    "etext (ge_Err e1) \<notin> fst ` set (errorMap s)" "etext (ge_Err e2) \<notin> fst ` set (errorMap s)"
    using assms by (auto simp: hidden_alike_def)
  then show ?thesis
    by (simp add: format_entry_def Let_def FormatResponseError_masked [OF h(4,5)] split: option.split)
qed

lemma DefaultErrorParser_masked:
  assumes "same_view w d1 d2" "list_all2 (hidden_alike etext s) (w_Errors w d1) (w_Errors w d2)"
  shows "DefaultErrorParser w etext s d1 (Some p) = DefaultErrorParser w etext s d2 (Some p)"
proof -
  have "map (format_entry s etext code (Some p)) (w_Errors w d1) = map (format_entry s etext code (Some p)) (w_Errors w d2)"
    for code
    using assms(2) by (induction rule: list_all2_induct) (simp_all add: format_entry_masked)
  then show ?thesis using assms(1) by (simp add: DefaultErrorParser_def same_view_def Let_def)
qed

section \<open>The response\<close>

lemma same_view_Error: "ginw_laws g w \<Longrightarrow> same_view w c1 c2 \<Longrightarrow> same_view w (c_Error g e c1) (c_Error g e c2)"
  by (simp add: ginw_laws_def same_view_def)

lemma NegotiateResponse_view:
  assumes "ginw_laws g w" "same_view w d1 d2" "w_NegotiateFormat w offered d1 = w_NegotiateFormat w offered d2"
  shows "same_view w (NegotiateResponse g w d1 code data offered) (NegotiateResponse g w d2 code data offered)"
proof -
  have s: "w_Status w d1 = w_Status w d2" "w_Written w d1 = w_Written w d2" using assms(2) by (simp_all add: same_view_def)
  have r: "same_view w (w_JSON w n d d1) (w_JSON w n d d2)" "same_view w (w_XML w n d d1) (w_XML w n d d2)"
    "same_view w (c_AbortWithError g n e d1) (c_AbortWithError g n e d2)" for n d e
    using assms(1,2) by (simp_all add: ginw_laws_def)
  show ?thesis using r same_view_Error [OF assms(1,2)] by (simp add: NegotiateResponse_def Let_def s assms(3))
qed

lemma ErrorHandle_default:
  assumes "ErrorHandle_ApplyFunc g w etext unmarshal cfg0 = Ret h" "unmarshal cfg0 = Ret cfg" "eh_ErrorParser cfg = None"
    and "w_Next w c = Ret d"
  shows "h s c = (if w_Errors w d = [] then Ret d
            else case DefaultErrorParser w etext s d (if eh_Message cfg \<noteq> [] then Some (Errorf (eh_Message cfg)) else None) of
                   (code, e) \<Rightarrow> Ret (NegotiateResponse g w d code e (offered_formats cfg)))"
  using assms by (cases "w_Errors w d = []") (auto simp: ErrorHandle_ApplyFunc_def Let_def)

text \<open>
  C19: a masking message hides private errors.  With \<open>Message\<close> set and the default parser, two runs of the
  handlers behind the middleware that give the client the same view so far, and record errors of the same
  types and meta data whose texts differ only where an error is neither public nor listed in the error map,
  end in the same response: no text of a private error reaches the client.
\<close>

theorem private_errors_masked:
  assumes "ginw_laws g w" "ErrorHandle_ApplyFunc g w etext unmarshal cfg0 = Ret h" "unmarshal cfg0 = Ret cfg"
    and "eh_Message cfg \<noteq> []" "eh_ErrorParser cfg = None"
    and "w_Next w c1 = Ret d1" "w_Next w c2 = Ret d2" "same_view w d1 d2"
    and "\<And>offered. w_NegotiateFormat w offered d1 = w_NegotiateFormat w offered d2"
    and "list_all2 (hidden_alike etext s) (w_Errors w d1) (w_Errors w d2)"
  shows "\<exists>r1 r2. h s c1 = Ret r1 \<and> h s c2 = Ret r2 \<and> same_view w r1 r2"
proof -
  let ?m = "Some (Errorf (eh_Message cfg))"
  have h1: "h s c1 = (if w_Errors w d1 = [] then Ret d1
      else case DefaultErrorParser w etext s d1 ?m of (code, e) \<Rightarrow> Ret (NegotiateResponse g w d1 code e (offered_formats cfg)))"
    using ErrorHandle_default [OF assms(2,3,5,6), of s] assms(4) by simp
  have h2: "h s c2 = (if w_Errors w d2 = [] then Ret d2
      else case DefaultErrorParser w etext s d2 ?m of (code, e) \<Rightarrow> Ret (NegotiateResponse g w d2 code e (offered_formats cfg)))"
    using ErrorHandle_default [OF assms(2,3,5,7), of s] assms(4) by simp
  have p: "DefaultErrorParser w etext s d1 ?m = DefaultErrorParser w etext s d2 ?m"
    by (rule DefaultErrorParser_masked [OF assms(8,10)])
  have e: "w_Errors w d1 = [] \<longleftrightarrow> w_Errors w d2 = []" using assms(10) by (auto simp: list_all2_Nil list_all2_Nil2)
  obtain code data where cd: "DefaultErrorParser w etext s d2 ?m = (code, data)" by fastforce
  show ?thesis
  proof (cases "w_Errors w d1 = []")
    case True
    then show ?thesis using h1 h2 e assms(8) by simp
  next
    case False
    then show ?thesis using h1 h2 e p cd NegotiateResponse_view [OF assms(1,8) assms(9)] by simp
  qed
qed

text \<open>
  Without a masking message the text of a private error is the message of its entry, unless one of the maps
  has an entry for it.
\<close>

lemma private_shown_without_message:
  assumes "ge_Type e = ErrorTypePrivate" "ge_Meta e = None" "errorCodeMap s = []" "errorMap s = []"
  shows "format_entry s etext code None e = HMap [''message'' \<mapsto> HString (etext (ge_Err e))]"
  using assms by (simp add: format_entry_def FormatResponseError_def LookupErrorCode_def ErrorTypePrivate_def ErrorTypePublic_def)

text \<open>
  A handler that reports an error with the code 2 through \<open>SetContextError\<close> makes it public: its type is then
  that of gin's public errors, and the mask does not apply.
\<close>

lemma code_two_is_public:
  assumes "ginw_laws g w"
  shows "ge_Type (last (w_Errors w (SetContextError g w c 2 err))) = ErrorTypePublic"
  using assms by (simp add: ginw_laws_def SetContextError_def ErrorTypePublic_def)

section \<open>A concrete framework\<close>

record wctx =
  x_errors :: "unit ginError list"
  x_status :: int
  x_body :: "unit hval option"
  x_next :: "go_error list"

definition x_push :: "go_error \<Rightarrow> wctx \<Rightarrow> wctx" where
  "x_push e c = c\<lparr>x_errors := x_errors c @ [\<lparr>ge_Err = e, ge_Type = ErrorTypePrivate, ge_Meta = None\<rparr>]\<rparr>"

text \<open>Its handlers behind the middleware record the errors of \<open>x_next\<close>.\<close>

definition wdemo_gin :: "wctx gin" where
  "wdemo_gin =
     \<lparr>c_Request = (\<lambda>_. \<lparr>Method = ''GET'', Header = (\<lambda>_. []), Host = [],
        URL = \<lparr>Opaque = [], Path = ''/'', EscapedPath = ''/'', url_Host = [], RawQuery = [], Fragment = []\<rparr>,
        Body = None, Context = Map.empty\<rparr>),
      c_QueryArray = (\<lambda>_ _. []), c_Params = (\<lambda>_. []), c_Cookies = (\<lambda>_. []), c_Form = (\<lambda>_. None), c_ParseMultipartForm = (\<lambda>c. c),
      c_IsAborted = (\<lambda>_. False), c_ErrorList = (\<lambda>c. map ge_Err (x_errors c)), c_Error = x_push, c_Abort = (\<lambda>c. c),
      c_Status = (\<lambda>n c. c\<lparr>x_status := n\<rparr>), c_AbortWithStatus = (\<lambda>n c. c\<lparr>x_status := n\<rparr>),
      c_AbortWithError = (\<lambda>n e c. x_push e (c\<lparr>x_status := n\<rparr>))\<rparr>"

definition wdemo :: "(wctx, unit, int \<times> unit hval option) ginw" where
  "wdemo =
     \<lparr>w_Errors = x_errors,
      w_SetLastType = (\<lambda>t c. c\<lparr>x_errors := butlast (x_errors c) @ [(last (x_errors c))\<lparr>ge_Type := t\<rparr>]\<rparr>),
      w_Status = x_status, w_Written = (\<lambda>c. x_body c \<noteq> None), w_Next = (\<lambda>c. Ret (fold x_push (x_next c) c)),
      w_NegotiateFormat = (\<lambda>offered c. hd offered), w_JSON = (\<lambda>n d c. c\<lparr>x_status := n, x_body := Some d\<rparr>),
      w_XML = (\<lambda>n d c. c\<lparr>x_status := n, x_body := Some d\<rparr>), w_Response = (\<lambda>c. (x_status c, x_body c))\<rparr>"

lemma wdemo_laws: "ginw_laws wdemo_gin wdemo"
  by (simp add: ginw_laws_def same_view_def wdemo_def wdemo_gin_def x_push_def)

definition masking :: "(wctx, unit) ErrorHandleConfig" where
  "masking = \<lparr>eh_Accepts = [], eh_NegotiateFormat = [], eh_ErrorParser = None, eh_Message = ''failed''\<rparr>"

definition wrequest :: "string \<Rightarrow> wctx" where
  "wrequest txt = \<lparr>x_errors = [], x_status = 200, x_body = None, x_next = [Errorf txt]\<rparr>"

definition demo_text :: "go_error \<Rightarrow> string" where
  "demo_text e = (case e of Sentinel t \<Rightarrow> t | Errorf t \<Rightarrow> t | Wrapf t _ \<Rightarrow> t)"

theorem private_errors_masked_witness:
  "\<exists>h r1 r2. ErrorHandle_ApplyFunc wdemo_gin wdemo demo_text Ret masking = Ret h
     \<and> h init_maps (wrequest ''password wrong'') = Ret r1 \<and> h init_maps (wrequest ''user unknown'') = Ret r2
     \<and> (x_status r1, x_body r1) = (x_status r2, x_body r2)"
proof -
  obtain h where h: "ErrorHandle_ApplyFunc wdemo_gin wdemo demo_text Ret masking = Ret h"
    by (simp add: ErrorHandle_ApplyFunc_def Let_def)
  let ?d = "\<lambda>t. x_push (Errorf t) (wrequest t)"
  have n: "w_Next wdemo (wrequest t) = Ret (?d t)" for t by (simp add: wdemo_def wrequest_def)
  have "same_view wdemo (?d t) (?d u)" "list_all2 (hidden_alike demo_text init_maps) (w_Errors wdemo (?d t)) (w_Errors wdemo (?d u))"
    "w_NegotiateFormat wdemo offered (?d t) = w_NegotiateFormat wdemo offered (?d u)" for t u offered
    by (simp_all add: same_view_def wdemo_def x_push_def wrequest_def hidden_alike_def init_maps_def ErrorTypePrivate_def ErrorTypePublic_def)
  then have "\<exists>r1 r2. h init_maps (wrequest ''password wrong'') = Ret r1 \<and> h init_maps (wrequest ''user unknown'') = Ret r2
      \<and> same_view wdemo r1 r2"
    using private_errors_masked [OF wdemo_laws h _ _ _ n n] by (simp add: masking_def)
  then show ?thesis using h by (auto simp: same_view_def wdemo_def)
qed

end
