(* ===== verification/AccessLogProps.thy ===== *)
theory AccessLogProps
  imports AccessLog WebErrorsProps
begin

text \<open>
  What the access log records: which requests are logged, at which level, and that a custom skipper never
  takes effect; and what recovery leaves on the context after a panic.
\<close>

section \<open>Tags\<close>

lemma build_one_key: "map_option FullKey (fst (build_one t)) = (if TrimSpace t = [] then None else Some (TrimSpace t))"
  by (simp add: build_one_def Let_def)

lemma BuildTag_keys: "FullKey ` set (Tags (BuildTag format h)) = TrimSpace ` set (Split format '','') - {[]}"
proof -
  have "FullKey ` set (List.map_filter fst (map build_one ts)) = TrimSpace ` set ts - {[]}" for ts
  proof (induction ts)
    case (Cons t ts)
    then show ?case using build_one_key [of t] by (cases "fst (build_one t)") (auto simp: map_filter_simps split: if_splits)
  qed (simp add: map_filter_simps)
  then show ?thesis by (simp add: BuildTag_def Let_def)
qed

lemma tag_fields_private:
  "snd (tag_fields g w a c body latency tags path p) \<longleftrightarrow>
     p \<or> (''error'' \<in> FullKey ` set tags \<and> w_Errors w c \<noteq> [] \<and> a_PrivateErrors a c \<noteq> [])"
proof (induction tags arbitrary: path p)
  case (Cons tag tags)
  show ?case unfolding tag_fields.simps Let_def case_prod_beta snd_conv Cons.IH by auto
qed simp

lemma tag_fields_error:
  assumes "''error'' \<in> FullKey ` set tags" "w_Errors w c \<noteq> []" "a_PrivateErrors a c \<noteq> []"
  shows "ZString ''error'' (a_PrivateErrors a c) \<in> set (fst (tag_fields g w a c body latency tags path p))"
  using assms(1)
proof (induction tags arbitrary: path p)
  case (Cons tag tags)
  show ?case
  proof (cases "FullKey tag = ''error''")
    case True
    then show ?thesis using assms(2,3) by (simp add: Let_def split: prod.split)
  next
    case False
    then have "''error'' \<in> FullKey ` set tags" using Cons.prems by auto
    then show ?thesis using Cons.IH by (simp add: Let_def case_prod_beta)
  qed
qed simp

section \<open>Carried fields\<close>

definition carried_error :: "('c, 'm) accenv \<Rightarrow> 'm zfield list \<Rightarrow> bool" where
  "carried_error a carried \<longleftrightarrow> (\<exists>f \<in> set carried. zkey f = ''error'' \<and> zerror (a_AsError a) f \<noteq> None)"

lemma carried_errors_Nil:
  "List.map_filter (zerror (a_AsError a)) (filter (\<lambda>f. zkey f = ''error'') carried) = [] \<longleftrightarrow> \<not> carried_error a carried"
  by (induction carried) (auto simp: carried_error_def map_filter_simps split: option.splits)

lemma carrier_fields_private: "snd (carrier_fields etext a carried p flds) \<longleftrightarrow> p \<or> carried_error a carried"
  by (auto simp: carrier_fields_def Let_def carried_errors_Nil carried_error_def)

lemma carrier_fields_keep:
  "set flds \<union> {f \<in> set carried. zkey f \<noteq> ''error''} \<subseteq> set (fst (carrier_fields etext a carried p flds))"
  by (auto simp: carrier_fields_def Let_def)

lemma carrier_fields_error:
  assumes "\<not> p" "carried_error a carried"
  shows "\<exists>v. ZString ''error'' v \<in> set (fst (carrier_fields etext a carried p flds))"
  using assms carried_errors_Nil [of a carried] by (auto simp: carrier_fields_def Let_def carried_error_def)

section \<open>The record of a request\<close>

text \<open>The private errors of the context as the configured tags see them.\<close>

definition tagged_error :: "('c, 'm, 'r) ginw \<Rightarrow> ('c, 'm) accenv \<Rightarrow> 'c LoggerConfig \<Rightarrow> 'c \<Rightarrow> bool" where
  "tagged_error w a cfg d \<longleftrightarrow>
     ''error'' \<in> TrimSpace ` set (Split (lc_Format cfg @ '','' @ lc_AppendFormat cfg) '','')
     \<and> w_Errors w d \<noteq> [] \<and> a_PrivateErrors a d \<noteq> []"

lemma set_StringsToMap: "StringsToMap l = set l"
  by (simp add: StringsToMap_def union_set_fold [symmetric])

lemma access_skipper_BuildTag [simp]: "access_skipper g w (BuildTag f cfg) = access_skipper g w cfg"
  by (simp add: access_skipper_def BuildTag_def Let_def)

lemma AccessLog_handler:
  assumes "AccessLog_ApplyFunc g w a etext unmarshal cfg0 = Ret h" "unmarshal cfg0 = Ret cfg"
    and "w_Next w (a_SetCarrier a [] c) = Ret d"
  obtains flds0 p0 where
    "h latency c = Ret (d, if access_skipper g w cfg d then None
       else Some (case (case a_Carrier a d of None \<Rightarrow> (flds0, p0) | Some carried \<Rightarrow> carrier_fields etext a carried p0 flds0) of
                    (flds, p) \<Rightarrow> (if p then ErrorLevel else InfoLevel, flds)))"
    "p0 \<longleftrightarrow> tagged_error w a cfg d" "p0 \<Longrightarrow> \<exists>v. ZString ''error'' v \<in> set flds0"
proof -
  define f where "f = lc_Format cfg @ '','' @ lc_AppendFormat cfg"
  define r where "r = tag_fields g w a d (read_body (logBodyIn (BuildTag f cfg)) (c_Request g c)) latency (Tags (BuildTag f cfg))
    (Path (URL (c_Request g d))) False"
  have "h = access_handler g w a etext (BuildTag f cfg)"
    using assms(1,2) by (simp add: AccessLog_ApplyFunc_def f_def)
  then have "h latency c = Ret (d, if access_skipper g w cfg d then None
       else Some (case (case a_Carrier a d of None \<Rightarrow> (fst r, snd r) | Some carried \<Rightarrow> carrier_fields etext a carried (snd r) (fst r)) of
                    (flds, p) \<Rightarrow> (if p then ErrorLevel else InfoLevel, flds)))"
    using assms(3)
    by (auto simp: access_handler_def GetLogCarrierFromGinContext_def r_def Let_def split: prod.split option.split)
  moreover have "snd r \<longleftrightarrow> tagged_error w a cfg d"
    by (auto simp: r_def tag_fields_private BuildTag_keys tagged_error_def f_def)
  moreover have "\<exists>v. ZString ''error'' v \<in> set (fst r)" if "snd r"
    using that tag_fields_error unfolding r_def by (fastforce simp: tag_fields_private)
  ultimately show ?thesis by (rule that)
qed

text \<open>
  the access log.  A request is left out exactly if no custom skipper is configured, its path is excluded
  and no error was recorded on it.  Every other request gives one record.  Its level is error exactly if the
  tags contain \<open>error\<close> and the context has private errors, or a handler put an error value under the key
  \<open>error\<close> into the carrier; such a record has an \<open>error\<close> field.  All other carried fields are in the record.
\<close>

theorem access_log_record:
  assumes "AccessLog_ApplyFunc g w a etext unmarshal cfg0 = Ret h" "unmarshal cfg0 = Ret cfg"
    and "w_Next w (a_SetCarrier a [] c) = Ret d" "a_Carrier a d = Some carried"
  shows "if lc_Skipper cfg = None \<and> w_Errors w d = [] \<and> lc_Exclude cfg \<noteq> []
            \<and> PathSkip (set (lc_Exclude cfg)) (URL (c_Request g d))
         then h latency c = Ret (d, None)
         else \<exists>level flds. h latency c = Ret (d, Some (level, flds))
           \<and> (level = ErrorLevel \<longleftrightarrow> tagged_error w a cfg d \<or> carried_error a carried)
           \<and> (level = ErrorLevel \<longrightarrow> (\<exists>v. ZString ''error'' v \<in> set flds))
           \<and> {f \<in> set carried. zkey f \<noteq> ''error''} \<subseteq> set flds"
proof -
  obtain flds0 p0 where h0: "h latency c = Ret (d, if access_skipper g w cfg d then None
       else Some (case (case a_Carrier a d of None \<Rightarrow> (flds0, p0) | Some carried \<Rightarrow> carrier_fields etext a carried p0 flds0) of
                    (flds, p) \<Rightarrow> (if p then ErrorLevel else InfoLevel, flds)))"
    and p: "p0 \<longleftrightarrow> tagged_error w a cfg d" "p0 \<Longrightarrow> \<exists>v. ZString ''error'' v \<in> set flds0"
    by (rule AccessLog_handler [OF assms(1-3), of latency]) (rule that)
  have h: "h latency c = Ret (d, if access_skipper g w cfg d then None
       else Some (case carrier_fields etext a carried p0 flds0 of (flds, p) \<Rightarrow> (if p then ErrorLevel else InfoLevel, flds)))"
    using h0 assms(4) by simp
  have sk: "access_skipper g w cfg d \<longleftrightarrow> lc_Skipper cfg = None \<and> w_Errors w d = [] \<and> lc_Exclude cfg \<noteq> []
      \<and> PathSkip (set (lc_Exclude cfg)) (URL (c_Request g d))"
    by (auto simp: access_skipper_def set_StringsToMap DefaultSkipper_def Let_def)
  obtain flds p1 where cf: "carrier_fields etext a carried p0 flds0 = (flds, p1)" by fastforce
  have p1: "p1 \<longleftrightarrow> tagged_error w a cfg d \<or> carried_error a carried"
    using carrier_fields_private [of etext a carried p0 flds0] cf p(1) by simp
  have keep: "set flds0 \<union> {f \<in> set carried. zkey f \<noteq> ''error''} \<subseteq> set flds"
    using carrier_fields_keep [of flds0 carried etext a p0] cf by simp
  have "\<exists>v. ZString ''error'' v \<in> set flds" if p1
  proof (cases p0)
    case True
    then show ?thesis using p(2) keep by blast
  next
    case False
    then have "carried_error a carried" using that p1 p(1) by simp
    then show ?thesis using carrier_fields_error [OF False, of a carried etext flds0] cf by simp
  qed
  then show ?thesis using h cf sk p1 keep by auto
qed

definition acc_env :: "(wctx, unit) accenv" where
  "acc_env =
     \<lparr>a_RequestURI = (\<lambda>_. ''/''), a_Proto = (\<lambda>_. ''HTTP/1.1''), a_ContentLength = (\<lambda>_. 0), a_Size = (\<lambda>_. 2),
      a_ClientIP = (\<lambda>_. ''10.0.0.1''), a_Query = (\<lambda>_ _. []), a_PostForm = (\<lambda>_ _. []), a_Cookie = (\<lambda>_ _. Fail (Errorf ''no cookie'')),
      a_Value = (\<lambda>_ _. None), a_Carrier = (\<lambda>_. Some [ZError ''error'' (Errorf ''db''), ZString ''user'' ''u'']),
      a_SetCarrier = (\<lambda>_ c. c), a_PrivateErrors = (\<lambda>_. []), a_DurationString = (\<lambda>_. ''0s''), a_TraceIDKey = ''traceID'',
      a_AsError = (\<lambda>_. None)\<rparr>"

theorem access_log_record_witness:
  "\<exists>h d flds v. AccessLog_ApplyFunc wdemo_gin wdemo acc_env demo_text Ret NewAccessLog = Ret h
     \<and> h 5 (wrequest ''late'') = Ret (d, Some (ErrorLevel, flds)) \<and> {ZString ''error'' v, ZString ''user'' ''u''} \<subseteq> set flds"
proof -
  obtain h where h: "AccessLog_ApplyFunc wdemo_gin wdemo acc_env demo_text Ret NewAccessLog = Ret h"
    by (simp add: AccessLog_ApplyFunc_def)
  let ?d = "x_push (Errorf ''late'') (wrequest ''late'')" and ?c = "[ZError ''error'' (Errorf ''db''), ZString ''user'' ''u'']"
  have n: "w_Next wdemo (a_SetCarrier acc_env [] (wrequest ''late'')) = Ret ?d" "a_Carrier acc_env ?d = Some ?c"
    by (simp_all add: wdemo_def wrequest_def acc_env_def)
  have "w_Errors wdemo ?d \<noteq> []" "carried_error acc_env ?c" by (simp_all add: wdemo_def x_push_def carried_error_def)
  then obtain level flds where "h 5 (wrequest ''late'') = Ret (?d, Some (level, flds))" "level = ErrorLevel"
    "\<exists>v. ZString ''error'' v \<in> set flds" "{f \<in> set ?c. zkey f \<noteq> ''error''} \<subseteq> set flds"
    using access_log_record [OF h _ n, of NewAccessLog 5] by auto
  then show ?thesis using h by fastforce
qed

lemma access_handler_cong:
  assumes "logBodyIn cfg = logBodyIn cfg'" "Tags cfg = Tags cfg'" "access_skipper g w cfg = access_skipper g w cfg'"
  shows "access_handler g w a etext cfg = access_handler g w a etext cfg'"
  by (intro ext) (unfold access_handler_def assms, rule refl)

text \<open>
  A custom skipper is never called: configuring one turns every skipping off, also that of excluded paths.
\<close>

theorem custom_skipper_ignored:
  assumes "unmarshal cfg0 = Ret (cfg\<lparr>lc_Skipper := Some s\<rparr>)" "unmarshal' cfg0 = Ret (cfg\<lparr>lc_Skipper := None, lc_Exclude := []\<rparr>)"
  shows "AccessLog_ApplyFunc g w a etext unmarshal cfg0 = AccessLog_ApplyFunc g w a etext unmarshal' cfg0"
proof -
  have "access_handler g w a etext (BuildTag f (cfg\<lparr>lc_Skipper := Some s\<rparr>))
    = access_handler g w a etext (BuildTag f (cfg\<lparr>lc_Skipper := None, lc_Exclude := []\<rparr>))" for f
    by (rule access_handler_cong) (simp_all add: access_skipper_def BuildTag_def Let_def)
  then show ?thesis using assms by (simp add: AccessLog_ApplyFunc_def)
qed

section \<open>Recovery\<close>

text \<open>
  A panic with a value that is not an error leaves \<open>ErrRecovery\<close> on the context, whatever the value; a panic
  with an error leaves that error, as a private one.
\<close>

lemma recovery_errors:
  assumes "ginw_laws g w" "\<And>fs c. w_Errors w (a_SetCarrier a fs c) = w_Errors w c"
  shows "w_Errors w (fst (HandleRecoverError g a dump vtext c p skip)) =
    w_Errors w c @ [\<lparr>ge_Err = (case p of PanicError e \<Rightarrow> e | PanicValue _ \<Rightarrow> ErrRecovery), ge_Type = ErrorTypePrivate, ge_Meta = None\<rparr>]"
  using assms by (simp add: HandleRecoverError_def AbortWithError_def ginw_laws_def Let_def split: panicval.split option.split)

end
