(* ===== verification/Conf.thy ===== *)
theory Conf
  imports GoPath
begin

text \<open>
  Model of \<open>pkg/conf\<close>: \<open>config.go\<close>, \<open>parse.go\<close>, \<open>options.go\<close> and \<open>util.go\<close>.  A configuration is an object:
  sub-configurations point to their root, and the package keeps a pointer to the global one, so the state is
  a store of configurations.  The tree of settings belongs to the koanf library and has the type \<open>'k\<close>, its
  values the type \<open>'v\<close>; the operations that the code calls are the record \<open>koanf\<close>.  Files and the environment
  are explicit.
\<close>

section \<open>Environment variables in configuration files\<close>

text \<open>The class \<open>[ \w]\<close> of the regular expression, and a match of \<open>${[ \w]+}\<close> at the start of a text.\<close>

definition env_char :: "char \<Rightarrow> bool" where
  "env_char c \<longleftrightarrow> c = CHR '' '' \<or> c = CHR ''_'' \<or> is_digit c \<or> (65 \<le> byte c \<and> byte c \<le> 90) \<or> (97 \<le> byte c \<and> byte c \<le> 122)"

definition env_match :: "string \<Rightarrow> (string \<times> string) option" where
  "env_match s =
     (if HasPrefix s ''${'' then
        (let name = takeWhile env_char (drop 2 s); rest = dropWhile env_char (drop 2 s)
         in if name \<noteq> [] \<and> HasPrefix rest ''}'' then Some (name, drop 1 rest) else None)
      else None)"

lemma env_match_length: "env_match s = Some (name, rest) \<Longrightarrow> length rest < length s"
proof -
  assume m: "env_match s = Some (name, rest)"
  have "length (dropWhile env_char (drop 2 s)) \<le> length (drop 2 s)" by (rule length_dropWhile_le)
  moreover have "2 \<le> length s" using m by (auto simp: env_match_def HasPrefix_iff split: if_splits)
  ultimately show ?thesis using m by (auto simp: env_match_def Let_def HasPrefix_iff split: if_splits)
qed

function has_match :: "string \<Rightarrow> bool" where
  "has_match s = (case s of [] \<Rightarrow> False | c # s' \<Rightarrow> env_match s \<noteq> None \<or> has_match s')"
  by pat_completeness auto
termination by (relation "measure length") auto

declare has_match.simps [simp del]

text \<open>\<open>ReplaceAllFunc\<close>: leftmost matches, without looking at what was put in.\<close>

function replace_env :: "(string \<Rightarrow> string) \<Rightarrow> string \<Rightarrow> string" where
  "replace_env getenv s =
     (case s of
        [] \<Rightarrow> []
      | c # s' \<Rightarrow>
          (case env_match s of
             Some (name, rest) \<Rightarrow> getenv (TrimChar name CHR '' '') @ replace_env getenv rest
           | None \<Rightarrow> c # replace_env getenv s'))"
  by pat_completeness auto
termination by (relation "measure (\<lambda>(_, s). length s)") (auto dest: env_match_length)

declare replace_env.simps [simp del]

definition ParseEnv :: "(string \<Rightarrow> string) \<Rightarrow> string \<Rightarrow> string" where
  "ParseEnv getenv src = (if \<not> has_match src then src else replace_env getenv src)"

section \<open>Files and the environment\<close>

record world =
  os_Stat :: "string \<Rightarrow> go_error option"
  w_ReadFile :: "string \<Rightarrow> string outcome"
  w_Getwd :: "string outcome"
  envparse :: "string \<Rightarrow> (string \<times> string) list outcome"

type_synonym environment = "string \<Rightarrow> string option"

definition os_Getenv :: "environment \<Rightarrow> string \<Rightarrow> string" where
  "os_Getenv env k = (case env k of None \<Rightarrow> [] | Some v \<Rightarrow> v)"

text \<open>\<open>os.Setenv\<close> refuses an empty key, a key with an equals sign and null bytes.\<close>

definition os_Setenv :: "string \<Rightarrow> string \<Rightarrow> environment \<Rightarrow> environment outcome" where
  "os_Setenv k v env =
     (if k = [] \<or> CHR ''='' \<in> set k \<or> char_of (0::nat) \<in> set (k @ v) then Fail (Errorf ''setenv: invalid argument'')
      else Ret (env(k \<mapsto> v)))"

definition defaultEnvFiles :: "string list" where "defaultEnvFiles = [''.env'', ''.env.local'']"

text \<open>The variables of one file; a variable that cannot be set is only reported.\<close>

definition set_vars :: "(string \<times> string) list \<Rightarrow> environment \<Rightarrow> environment" where
  "set_vars emp env = fold (\<lambda>(k, v) env. case os_Setenv k v env of Ret env \<Rightarrow> env | _ \<Rightarrow> env) emp env"

definition load_env_file :: "world \<Rightarrow> string \<Rightarrow> string \<Rightarrow> environment \<Rightarrow> environment" where
  "load_env_file w scan name env =
     (let fp = filepath_Join [scan, name] in
      if os_Stat w fp \<noteq> None then env
      else (case go_bind (w_ReadFile w fp) (envparse w) of Ret emp \<Rightarrow> set_vars emp env | _ \<Rightarrow> env))"

definition TryLoadEnvFromFile :: "world \<Rightarrow> string \<Rightarrow> string \<Rightarrow> environment \<Rightarrow> environment" where
  "TryLoadEnvFromFile w scan md env =
     fold (load_env_file w scan) (defaultEnvFiles @ (if md \<noteq> [] then [''.env.'' @ md] else [])) env"

text \<open>The path is tried below the base directory first, then below the working directory.\<close>

definition tryAbs :: "world \<Rightarrow> string \<Rightarrow> string \<Rightarrow> string \<times> go_error option" where
  "tryAbs w basedir path =
     (if \<not> IsAbs path then
        (let rpath = filepath_Join [basedir, path] in
         if os_Stat w rpath = None then (rpath, None)
         else (case filepath_Abs (w_Getwd w) path of
                 Ret apath \<Rightarrow> (apath, os_Stat w apath)
               | Fail err \<Rightarrow> (path, Some err)
               | Panic p \<Rightarrow> (path, Some (Errorf p))))
      else (path, os_Stat w path))"

section \<open>Options\<close>

record options =
  localPath :: string
  opt_basedir :: string
  includeFiles :: "string list"
  is_global :: bool

type_synonym ConfOption = "options \<Rightarrow> options outcome"

definition defaultConfigFile :: string where "defaultConfigFile = filepath_Join [''etc'', ''app.yaml'']"

definition WithLocalPath :: "world \<Rightarrow> string \<Rightarrow> ConfOption" where
  "WithLocalPath w path opt =
     (case tryAbs w (opt_basedir opt) path of
        (p, None) \<Rightarrow> Ret (opt\<lparr>localPath := p\<rparr>)
      | (p, Some err) \<Rightarrow> Panic ''local file is not exists'')"

definition WithBaseDir :: "world \<Rightarrow> string \<Rightarrow> ConfOption" where
  "WithBaseDir w path opt =
     (case filepath_Abs (w_Getwd w) path of
        Ret d \<Rightarrow> Ret (opt\<lparr>opt_basedir := d, localPath := filepath_Join [d, defaultConfigFile]\<rparr>)
      | _ \<Rightarrow> Panic ''base dir is not exists'')"

fun WithIncludeFiles :: "world \<Rightarrow> string list \<Rightarrow> ConfOption" where
  "WithIncludeFiles w [] opt = Ret opt"
| "WithIncludeFiles w (s # ss) opt =
     (if os_Stat w s \<noteq> None then Panic ''attach config file error''
      else WithIncludeFiles w ss (opt\<lparr>includeFiles := includeFiles opt @ [s]\<rparr>))"

definition WithGlobal :: "bool \<Rightarrow> ConfOption" where
  "WithGlobal g opt = Ret (opt\<lparr>is_global := g\<rparr>)"

section \<open>The settings tree\<close>

record ('k, 'v) koanf =
  k_New :: 'k
  k_Load :: "string \<Rightarrow> 'k \<Rightarrow> 'k outcome"
  k_LoadMap :: "(string \<times> 'v) list \<Rightarrow> 'k \<Rightarrow> 'k outcome"
  k_Merge :: "'k \<Rightarrow> 'k \<Rightarrow> 'k outcome"
  k_Set :: "string \<Rightarrow> 'v \<Rightarrow> 'k \<Rightarrow> 'k outcome"
  k_Exists :: "'k \<Rightarrow> string \<Rightarrow> bool"
  k_Cut :: "'k \<Rightarrow> string \<Rightarrow> 'k"
  k_Copy :: "'k \<Rightarrow> 'k"
  k_Raw :: "'k \<Rightarrow> (string \<times> 'v) list"
  k_Get :: "'k \<Rightarrow> string \<Rightarrow> 'v option"
  k_Keys :: "'k \<Rightarrow> string list"
  k_MapKeys :: "'k \<Rightarrow> string \<Rightarrow> string list"
  k_Slices :: "'k \<Rightarrow> string \<Rightarrow> 'k list"
  k_Bool :: "'k \<Rightarrow> string \<Rightarrow> bool"
  k_Strings :: "'k \<Rightarrow> string \<Rightarrow> string list"
  k_String :: "'k \<Rightarrow> string \<Rightarrow> string"

definition NewParser :: "('k, 'v) koanf \<Rightarrow> 'k" where "NewParser kf = k_New kf"

definition NewParserFromOperator :: "'k \<Rightarrow> 'k" where "NewParserFromOperator k = k"

definition NewParserFromProvider :: "('k, 'v) koanf \<Rightarrow> string \<Rightarrow> 'k outcome" where
  "NewParserFromProvider kf content = k_Load kf content (NewParser kf)"

definition NewParserFromFile :: "('k, 'v) koanf \<Rightarrow> world \<Rightarrow> string \<Rightarrow> 'k outcome" where
  "NewParserFromFile kf w fileName = go_bind (w_ReadFile w fileName) (NewParserFromProvider kf)"

definition NewParserFromBuffer :: "('k, 'v) koanf \<Rightarrow> string outcome \<Rightarrow> 'k outcome" where
  "NewParserFromBuffer kf buf = go_bind buf (NewParserFromProvider kf)"

definition NewParserFromStringMap :: "('k, 'v) koanf \<Rightarrow> (string \<times> 'v) list \<Rightarrow> 'k" where
  "NewParserFromStringMap kf data = (case k_LoadMap kf data (NewParser kf) of Ret k \<Rightarrow> k | _ \<Rightarrow> NewParser kf)"

definition fsProviderWithEnv :: "world \<Rightarrow> environment \<Rightarrow> string \<Rightarrow> string outcome" where
  "fsProviderWithEnv w env path = go_bind (w_ReadFile w path) (\<lambda>fs. Ret (ParseEnv (os_Getenv env) fs))"

definition LoadFileWithEnv :: "('k, 'v) koanf \<Rightarrow> world \<Rightarrow> environment \<Rightarrow> string \<Rightarrow> 'k \<Rightarrow> 'k outcome" where
  "LoadFileWithEnv kf w env path k = go_bind (fsProviderWithEnv w env path) (\<lambda>b. k_Load kf b k)"

definition LoadProviderWithEnv :: "('k, 'v) koanf \<Rightarrow> environment \<Rightarrow> string outcome \<Rightarrow> 'k \<Rightarrow> 'k outcome" where
  "LoadProviderWithEnv kf env bytes k = go_bind bytes (\<lambda>bs. k_Load kf (ParseEnv (os_Getenv env) bs) k)"

definition MergeStringMap :: "('k, 'v) koanf \<Rightarrow> (string \<times> 'v) list \<Rightarrow> 'k \<Rightarrow> 'k outcome" where
  "MergeStringMap kf cfg k = go_bind (k_LoadMap kf cfg (k_New kf)) (\<lambda>toMerge. k_Merge kf k toMerge)"

definition AllKeys :: "('k, 'v) koanf \<Rightarrow> 'k \<Rightarrow> string list" where "AllKeys kf k = k_Keys kf k"

definition parser_Get :: "('k, 'v) koanf \<Rightarrow> 'k \<Rightarrow> string \<Rightarrow> 'v option" where "parser_Get kf k key = k_Get kf k key"

definition parser_Set :: "('k, 'v) koanf \<Rightarrow> string \<Rightarrow> 'v \<Rightarrow> 'k \<Rightarrow> 'k outcome" where
  "parser_Set kf key v k = (case k_Set kf key v k of Fail err \<Rightarrow> Panic ''koanf: set'' | r \<Rightarrow> r)"

definition parser_IsSet :: "('k, 'v) koanf \<Rightarrow> 'k \<Rightarrow> string \<Rightarrow> bool" where "parser_IsSet kf k key = k_Exists kf k key"

definition ToStringMap :: "('k, 'v) koanf \<Rightarrow> 'k \<Rightarrow> (string \<times> 'v) list" where "ToStringMap kf k = k_Raw kf k"

definition parser_Sub :: "('k, 'v) koanf \<Rightarrow> 'k \<Rightarrow> string \<Rightarrow> 'k outcome" where
  "parser_Sub kf k key =
     (if \<not> parser_IsSet kf k key then Fail (Errorf (''key not exists:'' @ key))
      else let sub = k_Cut kf k key in
           if length (ToStringMap kf sub) = 0 \<and> parser_Get kf k key \<noteq> None
           then Fail (Errorf (''key is not a map: '' @ key)) else Ret sub)"

text \<open>
  Filling a structure is mapstructure's business: \<open>decode unused input dst\<close>, where \<open>unused\<close> makes unknown keys
  an error; the whole tree and a single value are the two kinds of input.
\<close>

datatype 'v decode_input = WholeMap "(string \<times> 'v) list" | OneValue "'v option"

definition decode_source :: "('k, 'v) koanf \<Rightarrow> 'k \<Rightarrow> string \<Rightarrow> 'v decode_input" where
  "decode_source kf k key = (if key = [] then WholeMap (ToStringMap kf k) else OneValue (parser_Get kf k key))"

definition parser_Unmarshal ::
  "('k, 'v) koanf \<Rightarrow> (bool \<Rightarrow> 'v decode_input \<Rightarrow> 'd \<Rightarrow> 'd outcome) \<Rightarrow> 'k \<Rightarrow> string \<Rightarrow> 'd \<Rightarrow> 'd outcome" where
  "parser_Unmarshal kf decode k key dst = decode False (decode_source kf k key) dst"

definition UnmarshalExact ::
  "('k, 'v) koanf \<Rightarrow> (bool \<Rightarrow> 'v decode_input \<Rightarrow> 'd \<Rightarrow> 'd outcome) \<Rightarrow> 'k \<Rightarrow> string \<Rightarrow> 'd \<Rightarrow> 'd outcome" where
  "UnmarshalExact kf decode k key dst = decode True (decode_source kf k key) dst"

text \<open>
  The decoder's settings, and its hook for maps to pointers of structures: a nil value becomes a pointer to
  the zero structure.  The kinds that the hook reads by reflection are arguments; the entries of the source
  are values of type any.
\<close>

datatype decode_hook = ExpandNilStructPointers | TextUnmarshal | StringToTimeDuration | StringToSlice string

record decoder_config =
  TagName :: string
  Squash :: bool
  WeaklyTypedInput :: bool
  ErrorUnused :: bool
  DecodeHook :: "decode_hook list"

definition decoderConfig :: decoder_config where
  "decoderConfig =
     \<lparr>TagName = ''json'', Squash = True, WeaklyTypedInput = True, ErrorUnused = False,
      DecodeHook = [ExpandNilStructPointers, TextUnmarshal, StringToTimeDuration, StringToSlice '','']\<rparr>"

definition expandNilStructPointers ::
  "bool \<Rightarrow> bool \<Rightarrow> bool \<Rightarrow> 'v \<Rightarrow> (string \<times> 'v option) list \<Rightarrow> (string \<times> 'v option) list" where
  "expandNilStructPointers from_map to_map elem_struct_ptr zero from_entries =
     (if from_map \<and> to_map \<and> elem_struct_ptr
      then map (\<lambda>(k, v). (k, case v of None \<Rightarrow> Some zero | Some x \<Rightarrow> Some x)) from_entries
      else from_entries)"

end
