(* ===== verification/ConfTree.thy ===== *)
theory ConfTree
  imports Conf
begin

text \<open>
  Model of \<open>pkg/conf/config.go\<close> and of the TLS settings of \<open>util.go\<close>: the configurations as objects of a store,
  with their root pointers and the global one, and loading with its order of files.
\<close>

section \<open>The store\<close>

record 'k Configuration =
  cf_opts :: options
  cf_parser :: "'k option"
  cf_root :: "nat option"
  cf_Development :: bool

text \<open>\<open>st_defaults\<close> is the package variable \<open>defaultOptions\<close>.\<close>

record 'k cstate =
  confs :: "nat \<Rightarrow> 'k Configuration"
  st_next :: nat
  st_global :: "nat option"
  st_env :: environment
  st_defaults :: options

abbreviation upd_conf :: "nat \<Rightarrow> ('k Configuration \<Rightarrow> 'k Configuration) \<Rightarrow> 'k cstate \<Rightarrow> 'k cstate" where
  "upd_conf a f st \<equiv> st\<lparr>confs := (confs st)(a := f (confs st a))\<rparr>"

definition alloc :: "'k Configuration \<Rightarrow> 'k cstate \<Rightarrow> 'k cstate \<times> nat" where
  "alloc c st = (st\<lparr>confs := (confs st)(st_next st := c), st_next := Suc (st_next st)\<rparr>, st_next st)"

abbreviation nil_deref :: "'a outcome" where
  "nil_deref \<equiv> Panic ''invalid memory address or nil pointer dereference''"

text \<open>The settings of a configuration; a method on one without a parser panics.\<close>

definition kof :: "'k cstate \<Rightarrow> nat \<Rightarrow> 'k outcome" where
  "kof st a = (case cf_parser (confs st a) of None \<Rightarrow> nil_deref | Some k \<Rightarrow> Ret k)"

section \<open>Making configurations\<close>

definition AsGlobal :: "nat \<Rightarrow> 'k cstate \<Rightarrow> 'k cstate" where
  "AsGlobal a st = (upd_conf a (\<lambda>c. c\<lparr>cf_opts := (cf_opts c)\<lparr>is_global := True\<rparr>\<rparr>) st)\<lparr>st_global := Some a\<rparr>"

fun apply_options :: "ConfOption list \<Rightarrow> options \<Rightarrow> options outcome" where
  "apply_options [] opt = Ret opt"
| "apply_options (f # fs) opt = go_bind (f opt) (apply_options fs)"

definition New_conf :: "('k, 'v) koanf \<Rightarrow> ConfOption list \<Rightarrow> 'k cstate \<Rightarrow> ('k cstate \<times> nat) outcome" where
  "New_conf kf fs st =
     go_bind (apply_options fs (st_defaults st)) (\<lambda>opt.
       let (st, a) = alloc \<lparr>cf_opts = opt, cf_parser = Some (NewParser kf), cf_root = None, cf_Development = False\<rparr> st
       in Ret (if is_global opt then AsGlobal a st else st, a))"

definition NewFromParse :: "('k, 'v) koanf \<Rightarrow> 'k \<Rightarrow> ConfOption list \<Rightarrow> 'k cstate \<Rightarrow> ('k cstate \<times> nat) outcome" where
  "NewFromParse kf parser fs st =
     go_bind (New_conf kf fs st) (\<lambda>(st, a).
       Ret (upd_conf a (\<lambda>c. c\<lparr>cf_opts := (cf_opts c)\<lparr>localPath := []\<rparr>, cf_parser := Some parser\<rparr>) st, a))"

definition NewFromBytes :: "('k, 'v) koanf \<Rightarrow> string \<Rightarrow> ConfOption list \<Rightarrow> 'k cstate \<Rightarrow> ('k cstate \<times> nat) outcome" where
  "NewFromBytes kf b fs st =
     (case NewParserFromBuffer kf (Ret b) of
        Ret p \<Rightarrow> NewFromParse kf p fs st
      | Fail err \<Rightarrow> Panic ''NewParserFromBuffer''
      | Panic m \<Rightarrow> Panic m)"

definition NewFromStringMap ::
  "('k, 'v) koanf \<Rightarrow> (string \<times> 'v) list \<Rightarrow> ConfOption list \<Rightarrow> 'k cstate \<Rightarrow> ('k cstate \<times> nat) outcome" where
  "NewFromStringMap kf data fs st = NewFromParse kf (NewParserFromStringMap kf data) fs st"

text \<open>The package's \<open>init\<close>: the base directory is that of the executable unless the environment names one.\<close>

definition conf_init :: "('k, 'v) koanf \<Rightarrow> world \<Rightarrow> string \<Rightarrow> environment \<Rightarrow> ('k cstate \<times> nat) outcome" where
  "conf_init kf w argv0 env =
     (case filepath_Abs (w_Getwd w) argv0 of
        Ret pwd \<Rightarrow>
          let dir = filepath_Dir pwd;
              bs = os_Getenv env ''WOOCOO_BASEDIR'';
              base = (if bs \<noteq> [] then bs else dir);
              opt = \<lparr>localPath = filepath_Join [base, defaultConfigFile], opt_basedir = base, includeFiles = [], is_global = False\<rparr>
          in New_conf kf [WithGlobal True]
               \<lparr>confs = (\<lambda>_. \<lparr>cf_opts = opt, cf_parser = None, cf_root = None, cf_Development = False\<rparr>), st_next = 0,
                st_global = None, st_env = env, st_defaults = opt\<rparr>
      | Fail err \<Rightarrow> Panic ''filepath.Abs''
      | Panic m \<Rightarrow> Panic m)"

definition Exists_conf :: "world \<Rightarrow> 'k cstate \<Rightarrow> nat \<Rightarrow> bool" where
  "Exists_conf w st a \<longleftrightarrow> os_Stat w (localPath (cf_opts (confs st a))) = None"

definition LocalPath :: "'k cstate \<Rightarrow> nat \<Rightarrow> string" where
  "LocalPath st a = localPath (cf_opts (confs st a))"

definition GetBaseDir :: "'k cstate \<Rightarrow> nat \<Rightarrow> string" where
  "GetBaseDir st a = opt_basedir (cf_opts (confs st a))"

definition SetBaseDir :: "nat \<Rightarrow> string \<Rightarrow> 'k cstate \<Rightarrow> 'k cstate" where
  "SetBaseDir a dir st = upd_conf a (\<lambda>c. c\<lparr>cf_opts := (cf_opts c)\<lparr>opt_basedir := dir\<rparr>\<rparr>) st"

section \<open>Loading\<close>

text \<open>The include files as absolute paths; one that does not exist is a panic.\<close>

fun resolve_includes :: "world \<Rightarrow> string \<Rightarrow> string list \<Rightarrow> string list outcome" where
  "resolve_includes w basedir [] = Ret []"
| "resolve_includes w basedir (v # vs) =
     (case tryAbs w basedir v of
        (path, Some err) \<Rightarrow> Panic ''config file no exists''
      | (path, None) \<Rightarrow> go_bind (resolve_includes w basedir vs) (\<lambda>ps. Ret (path # ps)))"

fun load_files :: "('k, 'v) koanf \<Rightarrow> world \<Rightarrow> environment \<Rightarrow> string list \<Rightarrow> 'k \<Rightarrow> 'k \<times> unit outcome" where
  "load_files kf w env [] k = (k, Ret ())"
| "load_files kf w env (p # ps) k =
     (case LoadFileWithEnv kf w env p k of
        Ret k \<Rightarrow> load_files kf w env ps k
      | Fail err \<Rightarrow> (k, Fail err)
      | Panic m \<Rightarrow> (k, Panic m))"

text \<open>The first part of \<open>loadInternal\<close>: the parser, the environment files beside the main file, the main file.\<close>

definition load_main :: "('k, 'v) koanf \<Rightarrow> world \<Rightarrow> nat \<Rightarrow> 'k cstate \<Rightarrow> 'k cstate \<times> 'k outcome" where
  "load_main kf w a st =
     (let k = (case cf_parser (confs st a) of None \<Rightarrow> NewParser kf | Some k \<Rightarrow> k);
          st = upd_conf a (\<lambda>c. c\<lparr>cf_parser := Some k\<rparr>) st;
          lp = localPath (cf_opts (confs st a))
      in if lp \<noteq> [] then
           (let st = st\<lparr>st_env := TryLoadEnvFromFile w (filepath_Dir lp) [] (st_env st)\<rparr> in
            case LoadFileWithEnv kf w (st_env st) lp k of
              Ret k \<Rightarrow> (upd_conf a (\<lambda>c. c\<lparr>cf_parser := Some k\<rparr>) st, Ret k)
            | r \<Rightarrow> (st, r))
         else (st, Ret k))"

definition loadInternal :: "('k, 'v) koanf \<Rightarrow> world \<Rightarrow> nat \<Rightarrow> 'k cstate \<Rightarrow> 'k cstate \<times> unit outcome" where
  "loadInternal kf w a st =
     (case load_main kf w a st of
        (st, Fail err) \<Rightarrow> (st, Fail err)
      | (st, Panic m) \<Rightarrow> (st, Panic m)
      | (st, Ret k) \<Rightarrow>
          (let o1 = cf_opts (confs st a) in
           case (if parser_IsSet kf k ''includeFiles''
                 then resolve_includes w (opt_basedir o1) (k_Strings kf k ''includeFiles'') else Ret (includeFiles o1)) of
             Fail err \<Rightarrow> (st, Fail err)
           | Panic m \<Rightarrow> (st, Panic m)
           | Ret files \<Rightarrow>
               (case load_files kf w (st_env st) files k of
                  (k, r) \<Rightarrow> (upd_conf a (\<lambda>c. c\<lparr>cf_opts := (cf_opts c)\<lparr>includeFiles := files\<rparr>, cf_parser := Some k\<rparr>) st, r))))"

definition Load :: "('k, 'v) koanf \<Rightarrow> world \<Rightarrow> nat \<Rightarrow> 'k cstate \<Rightarrow> 'k cstate outcome" where
  "Load kf w a st =
     (case loadInternal kf w a st of
        (st, Ret _) \<Rightarrow> go_bind (kof st a) (\<lambda>k. Ret (upd_conf a (\<lambda>c. c\<lparr>cf_Development := k_Bool kf k ''development''\<rparr>) st))
      | (st, Fail err) \<Rightarrow> Panic ''config load error''
      | (st, Panic m) \<Rightarrow> Panic m)"

definition Reload :: "('k, 'v) koanf \<Rightarrow> world \<Rightarrow> nat \<Rightarrow> 'k cstate \<Rightarrow> 'k cstate outcome" where
  "Reload kf w a st = Load kf w a (upd_conf a (\<lambda>c. c\<lparr>cf_parser := None\<rparr>) st)"

text \<open>A failed merge leaves the settings as they were, as far as the library's result says.\<close>

definition Merge_conf :: "('k, 'v) koanf \<Rightarrow> nat \<Rightarrow> string \<Rightarrow> 'k cstate \<Rightarrow> 'k cstate \<times> unit outcome" where
  "Merge_conf kf a b st =
     (case go_bind (NewParserFromBuffer kf (Ret b)) (\<lambda>p. go_bind (kof st a) (\<lambda>k. k_Merge kf k p)) of
        Ret k \<Rightarrow> (upd_conf a (\<lambda>c. c\<lparr>cf_parser := Some k\<rparr>) st, Ret ())
      | Fail err \<Rightarrow> (st, Fail err)
      | Panic m \<Rightarrow> (st, Panic m))"

section \<open>Parts of a configuration\<close>

definition passRoot :: "'k cstate \<Rightarrow> nat \<Rightarrow> nat" where
  "passRoot st a = (case cf_root (confs st a) of Some r \<Rightarrow> r | None \<Rightarrow> a)"

definition Root :: "'k cstate \<Rightarrow> nat \<Rightarrow> nat" where
  "Root st a = (case cf_root (confs st a) of None \<Rightarrow> a | Some r \<Rightarrow> r)"

definition Sub :: "('k, 'v) koanf \<Rightarrow> nat \<Rightarrow> string \<Rightarrow> 'k cstate \<Rightarrow> ('k cstate \<times> nat) outcome" where
  "Sub kf a path st =
     (if path = [] then Ret (st, a)
      else go_bind (kof st a) (\<lambda>k.
        case parser_Sub kf k path of
          Fail err \<Rightarrow> Panic ''Sub''
        | Panic m \<Rightarrow> Panic m
        | Ret p \<Rightarrow>
            Ret (alloc \<lparr>cf_opts = cf_opts (confs st a), cf_parser = Some p, cf_root = Some (passRoot st a),
                        cf_Development = cf_Development (confs st a)\<rparr> st)))"

definition CutFromOperator :: "nat \<Rightarrow> 'k \<Rightarrow> 'k cstate \<Rightarrow> 'k cstate \<times> nat" where
  "CutFromOperator a k st = alloc ((confs st a)\<lparr>cf_parser := Some k, cf_root := Some (passRoot st a)\<rparr>) st"

definition Copy :: "('k, 'v) koanf \<Rightarrow> nat \<Rightarrow> 'k cstate \<Rightarrow> ('k cstate \<times> nat) outcome" where
  "Copy kf a st = go_bind (kof st a) (\<lambda>k. Ret (CutFromOperator a (k_Copy kf k) st))"

text \<open>Callbacks get the name of the part and its configuration, and may change the state.\<close>

type_synonym 'k callback = "string \<Rightarrow> nat \<Rightarrow> 'k cstate \<Rightarrow> 'k cstate outcome"

definition getRoot :: "('k, 'v) koanf \<Rightarrow> 'k \<Rightarrow> string" where
  "getRoot kf k = (case k_Raw kf k of [(key, _)] \<Rightarrow> key | _ \<Rightarrow> [])"

fun each_loop :: "('k, 'v) koanf \<Rightarrow> nat \<Rightarrow> 'k callback \<Rightarrow> 'k list \<Rightarrow> 'k cstate \<Rightarrow> 'k cstate outcome" where
  "each_loop kf a cb [] st = Ret st"
| "each_loop kf a cb (operator # ops) st =
     (let root = getRoot kf operator;
          kf' = k_Cut kf operator root;
          part = (if root \<noteq> [] \<and> length (k_Keys kf kf') \<noteq> 0 then kf' else operator);
          (st, sub) = CutFromOperator a part st
      in go_bind (cb root sub st) (each_loop kf a cb ops))"

definition Each :: "('k, 'v) koanf \<Rightarrow> nat \<Rightarrow> string \<Rightarrow> 'k callback \<Rightarrow> 'k cstate \<Rightarrow> 'k cstate outcome" where
  "Each kf a path cb st = go_bind (kof st a) (\<lambda>k. each_loop kf a cb (k_Slices kf k path) st)"

text \<open>\<open>conf.Join\<close>: without a non-empty part it ends in reading the first of no parts.\<close>

fun conf_Join :: "string list \<Rightarrow> string outcome" where
  "conf_Join [] = index_panic"
| "conf_Join (p # ps) = (if p = [] then conf_Join ps else Ret (Join (p # ps) ''.''))"

fun map_loop :: "('k, 'v) koanf \<Rightarrow> nat \<Rightarrow> string \<Rightarrow> 'k callback \<Rightarrow> string list \<Rightarrow> 'k cstate \<Rightarrow> 'k cstate outcome" where
  "map_loop kf a path cb [] st = Ret st"
| "map_loop kf a path cb (key # keys) st =
     go_bind (conf_Join [path, key]) (\<lambda>p.
     go_bind (Sub kf a p st) (\<lambda>(st, sub).
     go_bind (cb key sub st) (map_loop kf a path cb keys)))"

definition Map_conf :: "('k, 'v) koanf \<Rightarrow> nat \<Rightarrow> string \<Rightarrow> 'k callback \<Rightarrow> 'k cstate \<Rightarrow> 'k cstate outcome" where
  "Map_conf kf a path cb st = go_bind (kof st a) (\<lambda>k. map_loop kf a path cb (k_MapKeys kf k path) st)"

section \<open>Reading\<close>

definition Get_conf :: "('k, 'v) koanf \<Rightarrow> 'k cstate \<Rightarrow> nat \<Rightarrow> string \<Rightarrow> 'v option outcome" where
  "Get_conf kf st a key = go_bind (kof st a) (\<lambda>k. Ret (parser_Get kf k key))"

text \<open>The typed readers are the library's reader \<open>rd\<close> of that type on the settings.\<close>

definition read_conf :: "('k \<Rightarrow> string \<Rightarrow> 't) \<Rightarrow> 'k cstate \<Rightarrow> nat \<Rightarrow> string \<Rightarrow> 't outcome" where
  "read_conf rd st a path = go_bind (kof st a) (\<lambda>k. Ret (rd k path))"

definition IsSet :: "('k, 'v) koanf \<Rightarrow> 'k cstate \<Rightarrow> nat \<Rightarrow> string \<Rightarrow> bool outcome" where
  "IsSet kf st a path = go_bind (kof st a) (\<lambda>k. Ret (parser_IsSet kf k path))"

definition AllSettings :: "('k, 'v) koanf \<Rightarrow> 'k cstate \<Rightarrow> nat \<Rightarrow> (string \<times> 'v) list outcome" where
  "AllSettings kf st a = go_bind (kof st a) (\<lambda>k. Ret (k_Raw kf k))"

definition Namespace :: "('k, 'v) koanf \<Rightarrow> 'k cstate \<Rightarrow> nat \<Rightarrow> string outcome" where
  "Namespace kf st a = read_conf (k_String kf) st a ''namespace''"

definition AppName :: "('k, 'v) koanf \<Rightarrow> 'k cstate \<Rightarrow> nat \<Rightarrow> string outcome" where
  "AppName kf st a = read_conf (k_String kf) st a ''appName''"

definition Version :: "('k, 'v) koanf \<Rightarrow> 'k cstate \<Rightarrow> nat \<Rightarrow> string outcome" where
  "Version kf st a = read_conf (k_String kf) st a ''version''"

definition Unmarshal_conf ::
  "('k, 'v) koanf \<Rightarrow> (bool \<Rightarrow> 'v decode_input \<Rightarrow> 'd \<Rightarrow> 'd outcome) \<Rightarrow> 'k cstate \<Rightarrow> nat \<Rightarrow> 'd \<Rightarrow> 'd outcome" where
  "Unmarshal_conf kf decode st a dst = go_bind (kof st a) (\<lambda>k. parser_Unmarshal kf decode k [] dst)"

definition Configuration_Abs :: "'k cstate \<Rightarrow> nat \<Rightarrow> string \<Rightarrow> string" where
  "Configuration_Abs st a path = conf_Abs (GetBaseDir st a) path"

text \<open>\<open>Global\<close> loads the global configuration if it has no settings yet.\<close>

definition Global :: "('k, 'v) koanf \<Rightarrow> world \<Rightarrow> 'k cstate \<Rightarrow> ('k cstate \<times> nat) outcome" where
  "Global kf w st =
     (case st_global st of
        None \<Rightarrow> nil_deref
      | Some a \<Rightarrow>
          go_bind (AllSettings kf st a) (\<lambda>m.
            if length m = 0 then go_bind (Load kf w a st) (\<lambda>st. Ret (st, a)) else Ret (st, a)))"

section \<open>TLS settings and addresses\<close>

record TLS =
  tls_CA :: string
  tls_Cert :: string
  tls_Key :: string
  InsecureSkipVerify :: bool

record 'x tlslib =
  AppendCertsFromPEM :: "string \<Rightarrow> bool"
  LoadX509KeyPair :: "string \<Rightarrow> string \<Rightarrow> 'x outcome"

record 'x tls_Config =
  cfg_Insecure :: bool
  cfg_RootCAs :: "string option"
  cfg_Certificates :: "'x list"

text \<open>\<open>NewTLS\<close> is \<open>Apply\<close> on the zero value.\<close>

definition TLS_Apply ::
  "('k, 'v) koanf \<Rightarrow> (bool \<Rightarrow> 'v decode_input \<Rightarrow> TLS \<Rightarrow> TLS outcome) \<Rightarrow> 'k cstate \<Rightarrow> nat \<Rightarrow> TLS \<Rightarrow> TLS outcome" where
  "TLS_Apply kf decode st a t =
     (case Unmarshal_conf kf decode st a t of
        Fail err \<Rightarrow> Panic ''Unmarshal''
      | Panic m \<Rightarrow> Panic m
      | Ret t \<Rightarrow> Ret (t\<lparr>tls_CA := Configuration_Abs st a (tls_CA t), tls_Cert := Configuration_Abs st a (tls_Cert t),
                        tls_Key := Configuration_Abs st a (tls_Key t)\<rparr>))"

definition NewTLS :: "('k, 'v) koanf \<Rightarrow> (bool \<Rightarrow> 'v decode_input \<Rightarrow> TLS \<Rightarrow> TLS outcome) \<Rightarrow> 'k cstate \<Rightarrow> nat \<Rightarrow> TLS outcome" where
  "NewTLS kf decode st a =
     TLS_Apply kf decode st a \<lparr>tls_CA = [], tls_Cert = [], tls_Key = [], InsecureSkipVerify = False\<rparr>"

definition BuildTlsConfig :: "world \<Rightarrow> 'x tlslib \<Rightarrow> TLS \<Rightarrow> 'x tls_Config outcome" where
  "BuildTlsConfig w lib t =
     (let tc = \<lparr>cfg_Insecure = InsecureSkipVerify t, cfg_RootCAs = None, cfg_Certificates = []\<rparr> in
      go_bind (if tls_CA t \<noteq> [] then
                 go_bind (w_ReadFile w (tls_CA t)) (\<lambda>caCert.
                   if \<not> AppendCertsFromPEM lib caCert then Fail (Errorf (''failed to append CA certificate: '' @ tls_CA t))
                   else Ret (tc\<lparr>cfg_RootCAs := Some caCert\<rparr>))
               else Ret tc) (\<lambda>tc.
      if tls_Cert t \<noteq> [] \<and> tls_Key t \<noteq> [] then
        go_bind (LoadX509KeyPair lib (tls_Cert t) (tls_Key t)) (\<lambda>cert. Ret (tc\<lparr>cfg_Certificates := [cert]\<rparr>))
      else Ret tc))"

text \<open>An interface address: whether it is an IP network, whether it is a loopback, and its two forms.\<close>

record ifaddr =
  is_ipnet :: bool
  is_loopback :: bool
  to16 :: "string option"
  to4 :: "string option"

fun first_ip :: "bool \<Rightarrow> ifaddr list \<Rightarrow> string outcome" where
  "first_ip useIPv6 [] = Panic ''Unable to determine local IP address (non loopback).''"
| "first_ip useIPv6 (x # xs) =
     (if is_ipnet x \<and> \<not> is_loopback x then
        (if useIPv6 \<and> to16 x \<noteq> None then Ret (the (to16 x))
         else if to4 x \<noteq> None then Ret (the (to4 x))
         else first_ip useIPv6 xs)
      else first_ip useIPv6 xs)"

definition GetIP :: "ifaddr list outcome \<Rightarrow> bool \<Rightarrow> string outcome" where
  "GetIP addrs useIPv6 = (case addrs of Ret l \<Rightarrow> first_ip useIPv6 l | _ \<Rightarrow> Ret ''error'')"

end
