(* ===== verification/ConfProps.thy ===== *)
theory ConfProps
  imports ConfTree
begin

text \<open>
  What configurations promise: environment variables are substituted exactly at their placeholders, later
  files override earlier ones, and every part of a configuration knows the configuration it came from.
\<close>

section \<open>Placeholders\<close>

datatype piece = Lit string | Var string

fun render :: "piece \<Rightarrow> string" where
  "render (Lit s) = s"
| "render (Var n) = ''${'' @ n @ ''}''"

fun expand :: "(string \<Rightarrow> string) \<Rightarrow> piece \<Rightarrow> string" where
  "expand getenv (Lit s) = s"
| "expand getenv (Var n) = getenv (TrimChar n CHR '' '')"

text \<open>The reading of a text as pieces: literals are maximal and contain no placeholder.\<close>

fun template :: "piece list \<Rightarrow> bool" where
  "template [] = True"
| "template (Lit s # ps) \<longleftrightarrow> s \<noteq> [] \<and> \<not> has_match s \<and> (case ps of Lit _ # _ \<Rightarrow> False | _ \<Rightarrow> True) \<and> template ps"
| "template (Var n # ps) \<longleftrightarrow> n \<noteq> [] \<and> list_all env_char n \<and> template ps"

lemma has_match_simps [simp]:
  "has_match [] = False" "has_match (c # s) \<longleftrightarrow> env_match (c # s) \<noteq> None \<or> has_match s"
  by (subst has_match.simps, simp)+

lemma replace_env_Nil [simp]: "replace_env getenv [] = []"
  by (simp add: replace_env.simps)

lemma replace_env_match:
  "env_match s = Some (n, r) \<Longrightarrow> replace_env getenv s = getenv (TrimChar n CHR '' '') @ replace_env getenv r"
  by (cases s) (simp_all add: replace_env.simps [of _ "_ # _"] env_match_def)

lemma replace_env_skip: "env_match (c # s) = None \<Longrightarrow> replace_env getenv (c # s) = c # replace_env getenv s"
  by (simp add: replace_env.simps [of _ "_ # _"])

lemma brace_not_env: "\<not> env_char CHR ''}''" "\<not> env_char CHR ''$''"
  by (simp_all add: env_char_def is_digit_def)

lemma env_match_Var:
  assumes "n \<noteq> []" "list_all env_char n"
  shows "env_match (''${'' @ n @ ''}'' @ r) = Some (n, r)"
proof -
  have "takeWhile env_char (n @ CHR ''}'' # r) = n" "dropWhile env_char (n @ CHR ''}'' # r) = CHR ''}'' # r"
    using assms(2) by (simp_all add: brace_not_env list_all_iff)
  then show ?thesis using assms(1) by (simp add: env_match_def Let_def)
qed

lemma env_match_SomeD:
  assumes "env_match s = Some (n, r)"
  shows "s = ''${'' @ n @ ''}'' @ r \<and> n \<noteq> [] \<and> list_all env_char n"
proof -
  obtain t where t: "s = ''${'' @ t" using assms by (auto simp: env_match_def HasPrefix_iff split: if_splits)
  have m: "n = takeWhile env_char t" "n \<noteq> []" "HasPrefix (dropWhile env_char t) ''}''" "r = drop 1 (dropWhile env_char t)"
    using assms t by (auto simp: env_match_def Let_def split: if_splits)
  then have "dropWhile env_char t = ''}'' @ r" by (auto simp: HasPrefix_iff)
  then have "t = n @ ''}'' @ r" using m(1) takeWhile_dropWhile_id [of env_char t] by simp
  then show ?thesis using t m(1,2) by (simp add: list_all_iff) (metis set_takeWhileD)
qed

lemma env_match_append:
  assumes "s \<noteq> []" "R = [] \<or> hd R = CHR ''$''"
  shows "env_match (s @ R) = map_option (\<lambda>(n, r). (n, r @ R)) (env_match s)"
proof (cases "R = []")
  case False
  then obtain R' where R: "R = CHR ''$'' # R'" using assms(2) by (cases R) auto
  show ?thesis
  proof (cases "HasPrefix s ''${''")
    case True
    then obtain t where t: "s = ''${'' @ t" by (auto simp: HasPrefix_iff)
    show ?thesis
    proof (cases "\<forall>c \<in> set t. env_char c")
      case True
      have w: "takeWhile env_char t = t" "dropWhile env_char t = []" using True by simp_all
      have "takeWhile env_char (t @ R) = t" "dropWhile env_char (t @ R) = R"
        using True by (simp_all add: R brace_not_env)
      then have "env_match (s @ R) = None" by (simp add: t env_match_def Let_def) (simp add: R)
      moreover have "env_match s = None" by (simp only: t env_match_def Let_def append.simps HasPrefix.simps drop.simps w) (simp add: w(2))
      ultimately show ?thesis by simp
    next
      case False
      then obtain c where c: "c \<in> set t" "\<not> env_char c" by blast
      then have "takeWhile env_char (t @ R) = takeWhile env_char t" "dropWhile env_char (t @ R) = dropWhile env_char t @ R"
        by (auto simp: takeWhile_append1 dropWhile_append1)
      moreover have "dropWhile env_char t \<noteq> []" using c by auto
      ultimately show ?thesis by (cases "dropWhile env_char t") (auto simp: t env_match_def Let_def)
    qed
  next
    case False
    obtain c s' where "s = c # s'" using assms(1) by (cases s) auto
    then have "\<not> HasPrefix (s @ R) ''${''" using False R by (cases s') auto
    then show ?thesis using False by (simp add: env_match_def)
  qed
qed (simp add: option.map_ident case_prod_unfold option.map_comp)

lemma replace_env_Lit:
  assumes "\<not> has_match s" "R = [] \<or> hd R = CHR ''$''"
  shows "replace_env getenv (s @ R) = s @ replace_env getenv R"
  using assms(1)
proof (induction s)
  case (Cons c s)
  then have "env_match (c # s) = None" by (cases "env_match (c # s)") auto
  then have "env_match ((c # s) @ R) = None" using env_match_append [OF _ assms(2), of "c # s"] by simp
  then show ?case using Cons replace_env_skip [of c "s @ R"] by simp
qed simp

lemma template_hd:
  assumes "template ps" "case ps of Lit _ # _ \<Rightarrow> False | _ \<Rightarrow> True"
  shows "concat (map render ps) = [] \<or> hd (concat (map render ps)) = CHR ''$''"
  using assms by (cases ps rule: template.cases) auto

lemma replace_env_template:
  "template ps \<Longrightarrow> replace_env getenv (concat (map render ps)) = concat (map (expand getenv) ps)"
proof (induction ps rule: template.induct)
  case (2 s ps)
  then have "concat (map render ps) = [] \<or> hd (concat (map render ps)) = CHR ''$''" using template_hd by simp
  then show ?case using 2 replace_env_Lit by simp
next
  case (3 n ps)
  then show ?case using replace_env_match [OF env_match_Var [of n "concat (map render ps)"]] by simp
qed simp

lemma replace_env_no_match: "\<not> has_match s \<Longrightarrow> replace_env getenv s = s"
  using replace_env_Lit [of s "[]"] by simp

lemma template_exists: "\<exists>ps. template ps \<and> concat (map render ps) = s"
proof (induction s rule: length_induct)
  case (1 s)
  show ?case
  proof (cases s)
    case (Cons c s')
    show ?thesis
    proof (cases "env_match s")
      case None
      obtain ps where ps: "template ps" "concat (map render ps) = s'" using 1 Cons by auto
      show ?thesis
      proof (cases "\<exists>t qs. ps = Lit t # qs")
        case True
        then obtain t qs where q: "ps = Lit t # qs" by blast
        then have R: "concat (map render qs) = [] \<or> hd (concat (map render qs)) = CHR ''$''"
          using ps(1) template_hd [of qs] by simp
        have "env_match (c # t) = None" using env_match_append [OF _ R, of "c # t"] None Cons ps(2) q by simp
        then have "template (Lit (c # t) # qs)" using ps(1) q by simp
        then show ?thesis using ps(2) q Cons by (intro exI [of _ "Lit (c # t) # qs"]) simp
      next
        case False
        then have sp: "case ps of Lit _ # _ \<Rightarrow> False | _ \<Rightarrow> True" by (auto split: list.split piece.split)
        have "env_match [c] = None" using env_match_append [of "[c]" s'] template_hd [OF ps(1) sp] None Cons ps(2) by simp
        then show ?thesis using sp ps Cons by (intro exI [of _ "Lit [c] # ps"]) simp
      qed
    next
      case (Some nr)
      obtain n r where nr: "nr = (n, r)" by fastforce
      obtain ps where "template ps" "concat (map render ps) = r"
        using 1 env_match_length [of s n r] Some nr by auto
      then show ?thesis using env_match_SomeD [of s n r] Some nr by (intro exI [of _ "Var n # ps"]) simp
    qed
  qed (auto intro: exI [of _ "[]"])
qed

text \<open>
  C20: \<open>ParseEnv\<close> substitutes exactly the placeholders.  Every text has a reading as literals, which contain no
  placeholder, and placeholders; for every such reading the result is the literals as they are, with the
  variable, named without the blanks around it, for each placeholder.  What a variable contains is not
  searched again.
\<close>

theorem parse_env_spec:
  "(\<exists>ps. template ps \<and> concat (map render ps) = src)
   \<and> (\<forall>ps \<in> {ps. template ps \<and> concat (map render ps) = src}. ParseEnv getenv src = concat (map (expand getenv) ps))"
proof -
  have "ParseEnv getenv src = replace_env getenv src" using replace_env_no_match by (simp add: ParseEnv_def)
  then show ?thesis using template_exists replace_env_template by auto
qed

theorem parse_env_spec_witness:
  "ParseEnv (\<lambda>n. if n = ''HOST'' then ''${X}'' else []) ''url: ${ HOST }:${PORT}$'' = ''url: ${X}:$''"
proof -
  let ?ps = "[Lit ''url: '', Var '' HOST '', Lit '':'', Var ''PORT'', Lit ''$'']"
  have "template ?ps" by (simp add: env_match_def env_char_def is_digit_def)
  then have "?ps \<in> {ps. template ps \<and> concat (map render ps) = ''url: ${ HOST }:${PORT}$''}" by simp
  then have "ParseEnv (\<lambda>n. if n = ''HOST'' then ''${X}'' else []) ''url: ${ HOST }:${PORT}$''
      = concat (map (expand (\<lambda>n. if n = ''HOST'' then ''${X}'' else [])) ?ps)"
    using parse_env_spec [of "''url: ${ HOST }:${PORT}$''"] by blast
  then show ?thesis by (simp add: TrimChar_def TrimRightChar_def)
qed

section \<open>The order of files\<close>

text \<open>
  The documentation of the library's merge: after a text is loaded, a value that it sets at a path is the value
  there (\<open>leaf\<close>), and a path that it does not touch keeps its value.
\<close>

definition koanf_laws :: "('k, 'v) koanf \<Rightarrow> (string \<Rightarrow> string \<Rightarrow> 'v option) \<Rightarrow> (string \<Rightarrow> string \<Rightarrow> bool) \<Rightarrow> bool" where
  "koanf_laws kf leaf touches \<longleftrightarrow>
     (\<forall>b k k' p. k_Load kf b k = Ret k' \<longrightarrow>
        (\<forall>v. leaf b p = Some v \<longrightarrow> k_Get kf k' p = Some v) \<and> (\<not> touches b p \<longrightarrow> k_Get kf k' p = k_Get kf k p))"

text \<open>What a file contributes: its content with the environment's values in it.\<close>

definition file_doc :: "world \<Rightarrow> environment \<Rightarrow> string \<Rightarrow> string \<Rightarrow> bool" where
  "file_doc w env path d \<longleftrightarrow> (\<exists>raw. w_ReadFile w path = Ret raw \<and> d = ParseEnv (os_Getenv env) raw)"

lemma LoadFileWithEnv_Ret:
  "LoadFileWithEnv kf w env p k = Ret k' \<longleftrightarrow> (\<exists>d. file_doc w env p d \<and> k_Load kf d k = Ret k')"
  by (auto simp: LoadFileWithEnv_def fsProviderWithEnv_def file_doc_def go_simps)

lemma load_files_docs:
  "load_files kf w env ps k = (k', Ret ()) \<Longrightarrow>
     \<exists>docs. list_all2 (file_doc w env) ps docs \<and> fold (\<lambda>d r. go_bind r (k_Load kf d)) docs (Ret k) = Ret k'"
proof (induction ps arbitrary: k)
  case (Cons p ps)
  then obtain k1 where k1: "LoadFileWithEnv kf w env p k = Ret k1" "load_files kf w env ps k1 = (k', Ret ())"
    by (auto split: outcome.splits)
  then obtain d where d: "file_doc w env p d" "k_Load kf d k = Ret k1" by (auto simp: LoadFileWithEnv_Ret)
  obtain docs where docs: "list_all2 (file_doc w env) ps docs" "fold (\<lambda>d r. go_bind r (k_Load kf d)) docs (Ret k1) = Ret k'"
    using Cons.IH [OF k1(2)] by blast
  then show ?case using d by (intro exI [of _ "d # docs"]) simp
qed simp

lemma fold_load_Fail: "fold (\<lambda>d r. go_bind r (k_Load kf d)) docs r = Ret k' \<Longrightarrow> \<exists>k. r = Ret k"
proof (induction docs arbitrary: r)
  case (Cons d docs)
  then obtain k where "go_bind r (k_Load kf d) = Ret k" by fastforce
  then show ?case by (auto simp: go_simps)
qed simp

lemma fold_load_untouched:
  assumes "koanf_laws kf leaf touches"
  shows "fold (\<lambda>d r. go_bind r (k_Load kf d)) docs (Ret k) = Ret k' \<Longrightarrow> \<forall>d \<in> set docs. \<not> touches d p \<Longrightarrow> k_Get kf k' p = k_Get kf k p"
proof (induction docs arbitrary: k)
  case (Cons d docs)
  then obtain k1 where k1: "k_Load kf d k = Ret k1" using fold_load_Fail [of kf docs "k_Load kf d k" k'] by auto
  then have "k_Get kf k' p = k_Get kf k1 p" using Cons by simp
  also have "\<dots> = k_Get kf k p" using assms k1 Cons.prems(2) by (simp add: koanf_laws_def)
  finally show ?case .
qed simp

lemma fold_load_last:
  assumes "koanf_laws kf leaf touches" "fold (\<lambda>d r. go_bind r (k_Load kf d)) (ds @ d # es) (Ret k) = Ret k'"
    and "leaf d p = Some v" "\<forall>e \<in> set es. \<not> touches e p"
  shows "k_Get kf k' p = Some v"
proof -
  define r where "r = fold (\<lambda>d r. go_bind r (k_Load kf d)) ds (Ret k)"
  have f: "fold (\<lambda>d r. go_bind r (k_Load kf d)) es (go_bind r (k_Load kf d)) = Ret k'" using assms(2) by (simp add: r_def)
  obtain k2 where k2: "go_bind r (k_Load kf d) = Ret k2" using fold_load_Fail [OF f] by (elim exE)
  then obtain k1 where "k_Load kf d k1 = Ret k2" by (auto simp: go_simps)
  then have "k_Get kf k2 p = Some v" using assms(1,3) by (simp add: koanf_laws_def)
  then show ?thesis using fold_load_untouched [OF assms(1) _ assms(4), of k2 k'] f k2 by simp
qed

text \<open>The documents of a successful load, in their order.\<close>

lemma loadInternal_docs:
  assumes "loadInternal kf w a st = (st', Ret ())" "localPath (cf_opts (confs st a)) \<noteq> []"
  defines "lp \<equiv> localPath (cf_opts (confs st a))"
  shows "\<exists>k0 k docs. fold (\<lambda>d r. go_bind r (k_Load kf d)) docs (Ret k0) = Ret k \<and> kof st' a = Ret k
    \<and> list_all2 (file_doc w (st_env st')) (lp # includeFiles (cf_opts (confs st' a))) docs
    \<and> st_env st' = TryLoadEnvFromFile w (filepath_Dir lp) [] (st_env st)"
proof -
  define k0 where "k0 = (case cf_parser (confs st a) of None \<Rightarrow> NewParser kf | Some k \<Rightarrow> k)"
  define env where "env = TryLoadEnvFromFile w (filepath_Dir lp) [] (st_env st)"
  from assms(1) obtain st1 k1 where m: "load_main kf w a st = (st1, Ret k1)"
    by (auto simp: loadInternal_def split: prod.splits outcome.splits)
  then have l: "LoadFileWithEnv kf w env lp k0 = Ret k1"
    and st1: "st_env st1 = env"
    using assms(2) by (auto simp: load_main_def Let_def lp_def k0_def env_def split: outcome.splits)
  obtain files k where lf: "load_files kf w env files k1 = (k, Ret ())"
    and st': "st' = upd_conf a (\<lambda>c. c\<lparr>cf_opts := (cf_opts c)\<lparr>includeFiles := files\<rparr>, cf_parser := Some k\<rparr>) st1"
    using assms(1) m st1 by (auto simp: loadInternal_def Let_def split: outcome.splits prod.splits)
  obtain d where d: "file_doc w env lp d" "k_Load kf d k0 = Ret k1" using l by (auto simp: LoadFileWithEnv_Ret)
  obtain docs where "list_all2 (file_doc w env) files docs" "fold (\<lambda>d r. go_bind r (k_Load kf d)) docs (Ret k1) = Ret k"
    using load_files_docs [OF lf] by blast
  then have "fold (\<lambda>d r. go_bind r (k_Load kf d)) (d # docs) (Ret k0) = Ret k"
    "list_all2 (file_doc w (st_env st')) (lp # includeFiles (cf_opts (confs st' a))) (d # docs)"
    using d st' st1 by simp_all
  moreover have "kof st' a = Ret k" "st_env st' = env" using st' st1 by (simp_all add: kof_def)
  ultimately show ?thesis unfolding env_def by blast
qed

text \<open>
  C15: loading.  If a configuration with a main file loads, the main file and every include file were read, with
  the variables of the environment files put in, and the value at a path is that of the last of these files
  that sets it, the main file being the first, unless a later one touches the path.
\<close>

theorem load_precedence:
  assumes "koanf_laws kf leaf touches" "Load kf w a st = Ret st'" "localPath (cf_opts (confs st a)) \<noteq> []"
  shows "\<exists>docs. list_all2 (file_doc w (TryLoadEnvFromFile w (filepath_Dir (localPath (cf_opts (confs st a)))) [] (st_env st)))
           (localPath (cf_opts (confs st a)) # includeFiles (cf_opts (confs st' a))) docs
    \<and> (\<forall>ds d es p v. docs = ds @ d # es \<and> leaf d p = Some v \<and> (\<forall>e \<in> set es. \<not> touches e p) \<longrightarrow>
          Get_conf kf st' a p = Ret (Some v))"
proof -
  obtain st1 where l: "loadInternal kf w a st = (st1, Ret ())"
    using assms(2) by (auto simp: Load_def split: prod.splits outcome.splits)
  obtain k0 k docs where f: "fold (\<lambda>d r. go_bind r (k_Load kf d)) docs (Ret k0) = Ret k" and k: "kof st1 a = Ret k"
    and d: "list_all2 (file_doc w (st_env st1)) (localPath (cf_opts (confs st a)) # includeFiles (cf_opts (confs st1 a))) docs"
    and e: "st_env st1 = TryLoadEnvFromFile w (filepath_Dir (localPath (cf_opts (confs st a)))) [] (st_env st)"
    using loadInternal_docs [OF l assms(3)] by blast
  have st': "st' = upd_conf a (\<lambda>c. c\<lparr>cf_Development := k_Bool kf k ''development''\<rparr>) st1"
    using assms(2) l k by (simp add: Load_def)
  have g: "Get_conf kf st' a p = Ret (k_Get kf k p)" for p
    using k by (auto simp: Get_conf_def st' kof_def parser_Get_def split: option.splits)
  have "Get_conf kf st' a p = Ret (Some v)"
    if "docs = ds @ d # es" "leaf d p = Some v" "\<forall>e \<in> set es. \<not> touches e p" for ds d es p v
    using fold_load_last [OF assms(1) _ that(2,3), of ds k0 k] f that(1) g by simp
  then show ?thesis using d e st' by (intro exI [of _ docs]) auto
qed

text \<open>
  A settings library with one setting per text, for the witnesses, and a file system in which every file exists:
  the main file sets a port, every other file sets it from the environment.
\<close>

definition demo_koanf :: "(string \<Rightarrow> string option, string) koanf" where
  "demo_koanf =
     \<lparr>k_New = Map.empty,
      k_Load = (\<lambda>b k. case SplitN2 b '':'' of [x, y] \<Rightarrow> Ret (k(x \<mapsto> y)) | _ \<Rightarrow> Fail (Errorf ''yaml'')),
      k_LoadMap = (\<lambda>m k. Ret (k ++ map_of m)), k_Merge = (\<lambda>k k'. Ret (k ++ k')), k_Set = (\<lambda>x y k. Ret (k(x \<mapsto> y))),
      k_Exists = (\<lambda>k x. k x \<noteq> None), k_Cut = (\<lambda>k x. Map.empty), k_Copy = (\<lambda>k. k), k_Raw = (\<lambda>k. []), k_Get = (\<lambda>k x. k x),
      k_Keys = (\<lambda>k. []), k_MapKeys = (\<lambda>k x. []), k_Slices = (\<lambda>k x. []), k_Bool = (\<lambda>k x. False), k_Strings = (\<lambda>k x. []),
      k_String = (\<lambda>k x. case k x of None \<Rightarrow> [] | Some v \<Rightarrow> v)\<rparr>"

definition demo_leaf :: "string \<Rightarrow> string \<Rightarrow> string option" where
  "demo_leaf b p = (case SplitN2 b '':'' of [x, y] \<Rightarrow> if x = p then Some y else None | _ \<Rightarrow> None)"

definition demo_touches :: "string \<Rightarrow> string \<Rightarrow> bool" where
  "demo_touches b p \<longleftrightarrow> demo_leaf b p \<noteq> None"

lemma demo_koanf_laws: "koanf_laws demo_koanf demo_leaf demo_touches"
  by (auto simp: koanf_laws_def demo_koanf_def demo_leaf_def demo_touches_def split: list.splits if_splits)

definition demo_world :: world where
  "demo_world =
     \<lparr>os_Stat = (\<lambda>_. None), w_ReadFile = (\<lambda>p. Ret (if p = ''/a'' then ''port:80'' else ''port:${PORT}'')), w_Getwd = Ret ''/'',
      envparse = (\<lambda>_. Ret [(''PORT'', ''90'')])\<rparr>"

definition demo_state :: "(string \<Rightarrow> string option) cstate" where
  "demo_state =
     (let opt = \<lparr>localPath = ''/a'', opt_basedir = ''/'', includeFiles = [''/b''], is_global = False\<rparr> in
      \<lparr>confs = (\<lambda>_. \<lparr>cf_opts = opt, cf_parser = None, cf_root = None, cf_Development = False\<rparr>), st_next = 1, st_global = None,
       st_env = Map.empty, st_defaults = opt\<rparr>)"

lemma demo_env: "TryLoadEnvFromFile demo_world d [] Map.empty = [''PORT'' \<mapsto> ''90'']"
proof -
  have "char_of (0::nat) \<notin> set ''PORT90''" by (auto dest: arg_cong [of _ _ "of_char :: char \<Rightarrow> nat"])
  then have "set_vars [(''PORT'', ''90'')] env = env(''PORT'' \<mapsto> ''90'')" for env by (simp add: set_vars_def os_Setenv_def)
  then have "load_env_file demo_world d n env = env(''PORT'' \<mapsto> ''90'')" for n env
    by (simp add: load_env_file_def demo_world_def Let_def)
  then show ?thesis by (simp add: TryLoadEnvFromFile_def defaultEnvFiles_def)
qed

lemma demo_docs:
  "LoadFileWithEnv demo_koanf demo_world [''PORT'' \<mapsto> ''90''] ''/a'' k = Ret (k(''port'' \<mapsto> ''80''))"
  "LoadFileWithEnv demo_koanf demo_world [''PORT'' \<mapsto> ''90''] ''/b'' k = Ret (k(''port'' \<mapsto> ''90''))"
proof -
  have t: "template [Lit ''port:'', Var ''PORT'']" by (simp add: env_match_def env_char_def)
  have "has_match ''port:${PORT}''" by (simp add: env_match_def env_char_def is_digit_def)
  then have "ParseEnv (os_Getenv [''PORT'' \<mapsto> ''90'']) ''port:${PORT}'' = ''port:90''"
    using replace_env_template [OF t, of "os_Getenv [''PORT'' \<mapsto> ''90'']"]
    by (simp add: ParseEnv_def TrimChar_def TrimRightChar_def os_Getenv_def)
  moreover have "ParseEnv getenv ''port:80'' = ''port:80''" for getenv
    by (simp add: ParseEnv_def env_match_def)
  ultimately show "LoadFileWithEnv demo_koanf demo_world [''PORT'' \<mapsto> ''90''] ''/a'' k = Ret (k(''port'' \<mapsto> ''80''))"
    "LoadFileWithEnv demo_koanf demo_world [''PORT'' \<mapsto> ''90''] ''/b'' k = Ret (k(''port'' \<mapsto> ''90''))"
    by (simp_all add: LoadFileWithEnv_def fsProviderWithEnv_def demo_world_def demo_koanf_def SplitN2_def Index.simps)
qed

theorem load_precedence_witness:
  "\<exists>st'. Load demo_koanf demo_world 0 demo_state = Ret st' \<and> Get_conf demo_koanf st' 0 ''port'' = Ret (Some ''90'')"
proof -
  have d: "localPath (cf_opts (confs demo_state 0)) = ''/a''" "st_env demo_state = Map.empty"
    "cf_parser (confs demo_state 0) = None" "includeFiles (cf_opts (confs demo_state 0)) = [''/b'']"
    by (simp_all add: demo_state_def Let_def)
  have "load_main demo_koanf demo_world 0 demo_state =
    (upd_conf 0 (\<lambda>c. c\<lparr>cf_parser := Some [''port'' \<mapsto> ''80'']\<rparr>) (demo_state\<lparr>st_env := [''PORT'' \<mapsto> ''90'']\<rparr>), Ret [''port'' \<mapsto> ''80''])"
    by (simp add: load_main_def d demo_env demo_docs NewParser_def Let_def) (simp add: demo_koanf_def)
  moreover have "\<not> parser_IsSet demo_koanf [''port'' \<mapsto> ''80''] ''includeFiles''"
    by (simp add: parser_IsSet_def demo_koanf_def)
  moreover have "load_files demo_koanf demo_world [''PORT'' \<mapsto> ''90''] [''/b''] [''port'' \<mapsto> ''80''] = ([''port'' \<mapsto> ''90''], Ret ())"
    by (simp add: demo_docs)
  ultimately obtain st1 where l: "loadInternal demo_koanf demo_world 0 demo_state = (st1, Ret ())"
    "includeFiles (cf_opts (confs st1 0)) = [''/b'']" "cf_parser (confs st1 0) = Some [''port'' \<mapsto> ''90'']"
    by (simp add: loadInternal_def d)
  then obtain st' where st': "Load demo_koanf demo_world 0 demo_state = Ret st'" "includeFiles (cf_opts (confs st' 0)) = [''/b'']"
    by (auto simp: Load_def kof_def)
  obtain docs where docs: "list_all2 (file_doc demo_world [''PORT'' \<mapsto> ''90'']) [''/a'', ''/b''] docs"
    and g: "\<And>ds d es p v. docs = ds @ d # es \<Longrightarrow> demo_leaf d p = Some v \<Longrightarrow> \<forall>e \<in> set es. \<not> demo_touches e p \<Longrightarrow>
          Get_conf demo_koanf st' 0 p = Ret (Some v)"
    using load_precedence [OF demo_koanf_laws st'(1)] st'(2) by (auto simp: d demo_env)
  obtain d1 d2 where d12: "docs = [d1] @ d2 # []" "file_doc demo_world [''PORT'' \<mapsto> ''90''] ''/b'' d2"
    using docs by (auto simp: list_all2_Cons1)
  have "LoadFileWithEnv demo_koanf demo_world [''PORT'' \<mapsto> ''90''] ''/b'' Map.empty = k_Load demo_koanf d2 Map.empty"
    using d12(2) by (auto simp: LoadFileWithEnv_def fsProviderWithEnv_def file_doc_def)
  then have "k_Load demo_koanf d2 Map.empty = Ret [''port'' \<mapsto> ''90'']" by (simp add: demo_docs)
  then have "demo_leaf d2 ''port'' = Some ''90''"
    by (auto simp: demo_koanf_def demo_leaf_def fun_eq_iff split: list.splits if_splits)
  then show ?thesis using g [OF d12(1)] st'(1) by auto
qed

section \<open>Roots\<close>

text \<open>One call on a configuration of the store, with any arguments and whatever it panics on excluded.\<close>

inductive conf_step :: "('k, 'v) koanf \<Rightarrow> world \<Rightarrow> 'k cstate \<Rightarrow> 'k cstate \<Rightarrow> bool" for kf w where
  step_New: "New_conf kf fs st = Ret (st', a) \<Longrightarrow> conf_step kf w st st'"
| step_NewFromParse: "NewFromParse kf k fs st = Ret (st', a) \<Longrightarrow> conf_step kf w st st'"
| step_Sub: "a < st_next st \<Longrightarrow> Sub kf a path st = Ret (st', b) \<Longrightarrow> conf_step kf w st st'"
| step_Cut: "a < st_next st \<Longrightarrow> CutFromOperator a k st = (st', b) \<Longrightarrow> conf_step kf w st st'"
| step_Load: "a < st_next st \<Longrightarrow> Load kf w a st = Ret st' \<Longrightarrow> conf_step kf w st st'"
| step_Reload: "a < st_next st \<Longrightarrow> Reload kf w a st = Ret st' \<Longrightarrow> conf_step kf w st st'"
| step_Merge: "a < st_next st \<Longrightarrow> Merge_conf kf a b st = (st', r) \<Longrightarrow> conf_step kf w st st'"
| step_SetBaseDir: "a < st_next st \<Longrightarrow> conf_step kf w st (SetBaseDir a dir st)"
| step_AsGlobal: "a < st_next st \<Longrightarrow> conf_step kf w st (AsGlobal a st)"

abbreviation conf_steps :: "('k, 'v) koanf \<Rightarrow> world \<Rightarrow> 'k cstate \<Rightarrow> 'k cstate \<Rightarrow> bool" where
  "conf_steps kf w \<equiv> (conf_step kf w)\<^sup>*\<^sup>*"

text \<open>Roots are configurations of the store without a root of their own.\<close>

definition roots_ok :: "'k cstate \<Rightarrow> bool" where
  "roots_ok st \<longleftrightarrow> (\<forall>a < st_next st. \<forall>r. cf_root (confs st a) = Some r \<longrightarrow> r < st_next st \<and> cf_root (confs st r) = None)"

text \<open>A state that has all configurations of another one, with the same roots.\<close>

definition extends :: "'k cstate \<Rightarrow> 'k cstate \<Rightarrow> bool" where
  "extends st st' \<longleftrightarrow> st_next st \<le> st_next st' \<and> (\<forall>a < st_next st. cf_root (confs st' a) = cf_root (confs st a))"

lemma extends_refl [simp]: "extends st st"
  by (simp add: extends_def)

lemma extends_trans: "extends st st1 \<Longrightarrow> extends st1 st2 \<Longrightarrow> extends st st2"
  by (auto simp: extends_def)

lemma same_store:
  assumes "roots_ok st" "st_next st' = st_next st" "\<And>x. cf_root (confs st' x) = cf_root (confs st x)"
  shows "roots_ok st' \<and> extends st st'"
  unfolding roots_ok_def extends_def assms(2,3) using assms(1) [unfolded roots_ok_def] by blast

lemma alloc_ok:
  assumes "roots_ok st" "\<And>r. cf_root c = Some r \<Longrightarrow> r < st_next st \<and> cf_root (confs st r) = None"
    and "alloc c st = (st', a)"
  shows "roots_ok st' \<and> extends st st'"
proof
  have n: "st_next st' = Suc (st_next st)" "confs st' = (confs st)(st_next st := c)"
    using assms(3) by (auto simp: alloc_def)
  show "roots_ok st'"
  proof (unfold roots_ok_def, intro allI impI)
    fix x r assume x: "x < st_next st'" "cf_root (confs st' x) = Some r"
    have "r < st_next st \<and> cf_root (confs st r) = None"
    proof (cases "x = st_next st")
      case True
      then show ?thesis using assms(2) x(2) n(2) by simp
    next
      case False
      then have "x < st_next st" "cf_root (confs st x) = Some r" using x n by simp_all
      then show ?thesis using assms(1) [unfolded roots_ok_def] by blast
    qed
    then show "r < st_next st' \<and> cf_root (confs st' r) = None" using n by auto
  qed
  show "extends st st'" using n by (simp add: extends_def)
qed

lemma passRoot_ok:
  assumes "roots_ok st" "a < st_next st"
  shows "passRoot st a < st_next st \<and> cf_root (confs st (passRoot st a)) = None"
proof (cases "cf_root (confs st a)")
  case (Some r)
  then show ?thesis using assms(1) [unfolded roots_ok_def, rule_format, OF assms(2) Some] by (simp add: passRoot_def)
qed (simp add: passRoot_def assms(2))

lemma New_conf_ok:
  assumes "New_conf kf fs st = Ret (st', a)" "roots_ok st"
  shows "roots_ok st' \<and> extends st st'"
proof -
  obtain opt where opt: "apply_options fs (st_defaults st) = Ret opt" using assms(1) by (auto simp: New_conf_def go_simps)
  obtain s b where s: "alloc \<lparr>cf_opts = opt, cf_parser = Some (NewParser kf), cf_root = None, cf_Development = False\<rparr> st = (s, b)"
    by fastforce
  have st': "st' = (if is_global opt then AsGlobal b s else s)" using assms(1) opt s by (auto simp: New_conf_def)
  have ok: "roots_ok s \<and> extends st s" by (rule alloc_ok [OF assms(2) _ s]) simp
  then have "roots_ok (AsGlobal b s) \<and> extends s (AsGlobal b s)"
    by (intro same_store) (simp_all add: AsGlobal_def)
  then show ?thesis using ok st' extends_trans by (auto split: if_splits)
qed

lemma Load_roots:
  assumes "Load kf w a st = Ret st'"
  shows "st_next st' = st_next st \<and> (\<forall>x. cf_root (confs st' x) = cf_root (confs st x))"
proof -
  have m: "st_next (fst (load_main kf w a st)) = st_next st \<and> (\<forall>x. cf_root (confs (fst (load_main kf w a st)) x) = cf_root (confs st x))"
    by (simp add: load_main_def Let_def split: outcome.split)
  obtain st1 r where i: "loadInternal kf w a st = (st1, r)" by fastforce
  then have "st_next st1 = st_next st \<and> (\<forall>x. cf_root (confs st1 x) = cf_root (confs st x))"
    using m by (auto simp: loadInternal_def Let_def split: prod.splits outcome.splits)
  then show ?thesis using assms i by (auto simp: Load_def go_simps split: outcome.splits)
qed

lemma conf_step_ok:
  assumes "conf_step kf w st st'" "roots_ok st"
  shows "roots_ok st' \<and> extends st st'"
  using assms
proof cases
  case (step_New fs a)
  then show ?thesis using New_conf_ok assms(2) by blast
next
  case (step_NewFromParse k fs a)
  then obtain s where s: "New_conf kf fs st = Ret (s, a)"
    and st': "st' = upd_conf a (\<lambda>c. c\<lparr>cf_opts := (cf_opts c)\<lparr>localPath := []\<rparr>, cf_parser := Some k\<rparr>) s"
    by (auto simp: NewFromParse_def go_simps)
  have ok: "roots_ok s \<and> extends st s" by (rule New_conf_ok [OF s assms(2)])
  then have "roots_ok st' \<and> extends s st'" by (intro same_store) (simp_all add: st')
  then show ?thesis using ok extends_trans by blast
next
  case (step_Sub a path b)
  show ?thesis
  proof (cases "path = []")
    case False
    then obtain k where k: "kof st a = Ret k" using step_Sub(2) by (auto simp: Sub_def go_simps)
    then obtain p where p: "parser_Sub kf k path = Ret p"
      using False step_Sub(2) by (cases "parser_Sub kf k path") (simp_all add: Sub_def)
    have "alloc \<lparr>cf_opts = cf_opts (confs st a), cf_parser = Some p, cf_root = Some (passRoot st a),
        cf_Development = cf_Development (confs st a)\<rparr> st = (st', b)"
      using False step_Sub(2) k p by (simp add: Sub_def)
    then show ?thesis
      using alloc_ok [OF assms(2)] passRoot_ok [OF assms(2) step_Sub(1)] by (metis Configuration.select_convs(3) option.inject)
  qed (use step_Sub assms(2) in \<open>simp add: Sub_def\<close>)
next
  case (step_Cut a k b)
  then show ?thesis
    by (intro alloc_ok [OF assms(2) _ step_Cut(2) [unfolded CutFromOperator_def]]) (use passRoot_ok [OF assms(2) step_Cut(1)] in auto)
next
  case (step_Load a)
  then show ?thesis using Load_roots same_store assms(2) by metis
next
  case (step_Reload a)
  then have "st_next st' = st_next st \<and> (\<forall>x. cf_root (confs st' x) = cf_root (confs st x))"
    using Load_roots [OF step_Reload(2) [unfolded Reload_def]] by simp
  then show ?thesis using same_store [OF assms(2)] by blast
next
  case (step_Merge a b r)
  then have "st_next st' = st_next st \<and> (\<forall>x. cf_root (confs st' x) = cf_root (confs st x))"
    by (auto simp: Merge_conf_def split: outcome.splits)
  then show ?thesis using same_store [OF assms(2)] by blast
next
  case (step_SetBaseDir a dir)
  then show ?thesis using same_store [OF assms(2)] by (simp add: SetBaseDir_def)
next
  case (step_AsGlobal a)
  then show ?thesis using same_store [OF assms(2)] by (simp add: AsGlobal_def)
qed

lemma conf_steps_ok: "conf_steps kf w st st' \<Longrightarrow> roots_ok st \<Longrightarrow> roots_ok st' \<and> extends st st'"
proof (induction rule: rtranclp_induct)
  case (step y z)
  then show ?case using conf_step_ok extends_trans by blast
qed simp

text \<open>
  the root of a configuration.  Whatever configurations are made, cut, copied, loaded, merged and made
  global, a configuration keeps its root, the root of a root is itself, and \<open>Sub\<close> gives a part with the root
  of the configuration it is taken from.
\<close>

theorem root_stable:
  assumes "conf_steps kf w st st'" "roots_ok st" "a < st_next st"
  shows "Root st' a = Root st a \<and> Root st' (Root st' a) = Root st' a
    \<and> (Sub kf a path st' = Ret (st2, b) \<longrightarrow> Root st2 b = Root st' a)"
proof -
  have s: "roots_ok st'" "extends st st'" using conf_steps_ok [OF assms(1,2)] by simp_all
  then have a: "a < st_next st'" "cf_root (confs st' a) = cf_root (confs st a)" using assms(3) by (auto simp: extends_def)
  have "Root st' (Root st' a) = Root st' a"
    using passRoot_ok [OF s(1) a(1)] by (auto simp: Root_def passRoot_def split: option.splits)
  moreover have "Root st2 b = Root st' a" if sub: "Sub kf a path st' = Ret (st2, b)"
  proof (cases "path = []")
    case False
    then obtain k where k: "kof st' a = Ret k" using sub by (auto simp: Sub_def go_simps)
    then obtain p where p: "parser_Sub kf k path = Ret p"
      using False sub by (cases "parser_Sub kf k path") (simp_all add: Sub_def)
    then have "cf_root (confs st2 b) = Some (passRoot st' a)" using sub False k by (auto simp: Sub_def alloc_def)
    then show ?thesis by (simp add: Root_def passRoot_def)
  qed (use sub in \<open>simp add: Sub_def\<close>)
  ultimately show ?thesis using a(2) by (simp add: Root_def)
qed

text \<open>Visiting the parts with a callback that takes such steps is itself a sequence of such steps.\<close>

lemma each_loop_steps:
  assumes "\<And>r b s s'. cb r b s = Ret s' \<Longrightarrow> conf_steps kf w s s'" "roots_ok st" "a < st_next st"
  shows "each_loop kf a cb ks st = Ret st' \<Longrightarrow> conf_steps kf w st st'"
  using assms(2,3)
proof (induction ks arbitrary: st)
  case (Cons k ks)
  obtain s b p where s: "CutFromOperator a p st = (s, b)" "go_bind (cb (getRoot kf k) b s) (each_loop kf a cb ks) = Ret st'"
    using Cons.prems(1) by (auto simp: Let_def split: prod.splits)
  then obtain s1 where s1: "cb (getRoot kf k) b s = Ret s1" "each_loop kf a cb ks s1 = Ret st'" by (auto simp: go_simps)
  have "conf_step kf w st s" by (rule step_Cut [OF Cons.prems(3) s(1)])
  then have st: "conf_steps kf w st s1" using assms(1) [OF s1(1)] by (rule converse_rtranclp_into_rtranclp)
  then have "roots_ok s1" "a < st_next s1"
    using conf_steps_ok [OF st Cons.prems(2)] Cons.prems(3) by (auto simp: extends_def)
  then show ?case using Cons.IH [OF s1(2)] st by (meson rtranclp_trans)
qed simp

lemma Each_steps:
  assumes "\<And>r b s s'. cb r b s = Ret s' \<Longrightarrow> conf_steps kf w s s'" "roots_ok st" "a < st_next st" "Each kf a path cb st = Ret st'"
  shows "conf_steps kf w st st'"
  using each_loop_steps [OF assms(1-3)] assms(4) by (auto simp: Each_def go_simps)

theorem root_stable_witness:
  "\<exists>st1 st2 b. New_conf demo_koanf [] demo_state = Ret (st1, 1) \<and> CutFromOperator 1 Map.empty st1 = (st2, 2) \<and> Root st2 0 = 0
     \<and> Root st2 (Root st2 0) = Root st2 0 \<and> Root st2 2 = 1 \<and> (Sub demo_koanf 0 [] st2 = Ret (st2, b) \<longrightarrow> Root st2 b = Root st2 0)"
proof -
  obtain st1 where n: "New_conf demo_koanf [] demo_state = Ret (st1, 1)" "st_next st1 = 2" "cf_root (confs st1 1) = None"
    by (simp add: New_conf_def demo_state_def alloc_def Let_def)
  obtain st2 where c: "CutFromOperator 1 Map.empty st1 = (st2, 2)" "Root st2 2 = 1"
    using n(2,3) by (simp add: CutFromOperator_def alloc_def Root_def passRoot_def)
  have "conf_steps demo_koanf demo_world demo_state st2"
  proof (rule converse_rtranclp_into_rtranclp)
    show "conf_step demo_koanf demo_world demo_state st1" by (rule step_New [OF n(1)])
    have "(1::nat) < st_next st1" using n(2) by simp
    then have "conf_step demo_koanf demo_world st1 st2" by (rule step_Cut [OF _ c(1)])
    then show "conf_steps demo_koanf demo_world st1 st2" by (rule r_into_rtranclp)
  qed
  moreover have "roots_ok demo_state" "(0::nat) < st_next demo_state" "Root demo_state 0 = 0"
    by (simp_all add: demo_state_def roots_ok_def Root_def Let_def)
  ultimately show ?thesis
    using root_stable [of demo_koanf demo_world demo_state st2 0 "[]"] n(1) c by (metis (no_types))
qed

text \<open>A setting that is an empty map is refused as not being a map, and without a non-empty part \<open>Join\<close> panics.\<close>

lemma empty_map_is_refused:
  "k_Exists kf k key \<Longrightarrow> k_Raw kf (k_Cut kf k key) = [] \<Longrightarrow> k_Get kf k key \<noteq> None \<Longrightarrow>
     parser_Sub kf k key = Fail (Errorf (''key is not a map: '' @ key))"
  by (simp add: parser_Sub_def parser_IsSet_def parser_Get_def ToStringMap_def)

lemma join_of_empty_parts: "conf_Join (replicate n []) = index_panic"
  by (induction n) simp_all

text \<open>With IPv6 asked for, the first address is taken even if it is an IPv4 address, which has a 16-byte form.\<close>

lemma ipv6_request_takes_ipv4:
  "is_ipnet x \<Longrightarrow> \<not> is_loopback x \<Longrightarrow> to16 x = Some s \<Longrightarrow> GetIP (Ret (x # xs)) True = Ret s"
  by (simp add: GetIP_def)

end
