(* ===== verification/AppRun.thy ===== *)
theory AppRun
  imports Prelude
begin

text \<open>
  Model of the lifecycle in \<open>app.go\<close>: \<open>App.Run\<close>, which starts the servers and stops all of them when its
  context ends, and \<open>Group.Run\<close>, which runs actors and interrupts all when the first returns.  Both are step
  relations: a step is one action of one goroutine, and the servers' and the actors' functions may return
  anything at any time.
\<close>

section \<open>Groups of actors\<close>

datatype actor_st = ARunning | AHolding "go_error option" | AExited

text \<open>
  Where \<open>Group.Run\<close> is: before the first receive, interrupting the actor with the given index, having received
  the given number of results, or returned.
\<close>

datatype group_pc =
    GFirst
  | GInterrupt nat "go_error option"
  | GDrain nat "go_error option"
  | GReturned "go_error option"

text \<open>\<open>gs_errs\<close> is the channel's buffer; \<open>gs_calls\<close> and \<open>gs_hist\<close> record the interrupts made and all results sent.\<close>

record gstate =
  gs_actors :: "actor_st list"
  gs_errs :: "go_error option list"
  gs_pc :: group_pc
  gs_calls :: "(nat \<times> go_error option) list"
  gs_hist :: "go_error option list"

definition Group_Add :: "'a list \<Rightarrow> 'a \<Rightarrow> 'a list" where
  "Group_Add actors a = actors @ [a]"

definition Group_init :: "nat \<Rightarrow> gstate" where
  "Group_init n =
     \<lparr>gs_actors = replicate n ARunning, gs_errs = [], gs_pc = (if n = 0 then GReturned None else GFirst), gs_calls = [], gs_hist = []\<rparr>"

inductive group_step :: "gstate \<Rightarrow> gstate \<Rightarrow> bool" where
  g_execute: "i < length (gs_actors s) \<Longrightarrow> gs_actors s ! i = ARunning \<Longrightarrow>
     group_step s (s\<lparr>gs_actors := (gs_actors s)[i := AHolding e]\<rparr>)"
| g_send: "i < length (gs_actors s) \<Longrightarrow> gs_actors s ! i = AHolding e \<Longrightarrow> length (gs_errs s) < length (gs_actors s) \<Longrightarrow>
     group_step s (s\<lparr>gs_actors := (gs_actors s)[i := AExited], gs_errs := gs_errs s @ [e], gs_hist := gs_hist s @ [e]\<rparr>)"
| g_first: "gs_pc s = GFirst \<Longrightarrow> gs_errs s = e # es \<Longrightarrow> group_step s (s\<lparr>gs_errs := es, gs_pc := GInterrupt 0 e\<rparr>)"
| g_interrupt: "gs_pc s = GInterrupt k e \<Longrightarrow> k < length (gs_actors s) \<Longrightarrow>
     group_step s (s\<lparr>gs_calls := gs_calls s @ [(k, e)], gs_pc := GInterrupt (Suc k) e\<rparr>)"
| g_interrupted: "gs_pc s = GInterrupt k e \<Longrightarrow> \<not> k < length (gs_actors s) \<Longrightarrow> group_step s (s\<lparr>gs_pc := GDrain 1 e\<rparr>)"
| g_drain: "gs_pc s = GDrain i e \<Longrightarrow> i < length (gs_actors s) \<Longrightarrow> gs_errs s = x # es \<Longrightarrow>
     group_step s (s\<lparr>gs_errs := es, gs_pc := GDrain (Suc i) e\<rparr>)"
| g_return: "gs_pc s = GDrain i e \<Longrightarrow> \<not> i < length (gs_actors s) \<Longrightarrow> group_step s (s\<lparr>gs_pc := GReturned e\<rparr>)"

section \<open>Applications\<close>

text \<open>
  The errgroup library: \<open>eg_Done\<close> is the return of a function of the group with an error or none, \<open>eg_Wait\<close> the
  result of \<open>Wait\<close> after the returns so far.  Its documentation: the result is the first error returned, if
  any, and the first error ends the group's context.
\<close>

record 'g errgroup =
  eg_New :: 'g
  eg_Done :: "go_error option \<Rightarrow> 'g \<Rightarrow> 'g"
  eg_Wait :: "'g \<Rightarrow> go_error option"

definition eg_laws :: "'g errgroup \<Rightarrow> bool" where
  "eg_laws eg \<longleftrightarrow> eg_Wait eg (eg_New eg) = None
     \<and> (\<forall>e g. eg_Wait eg (eg_Done eg e g) = (case eg_Wait eg g of None \<Rightarrow> e | Some x \<Rightarrow> Some x))"

definition Canceled :: go_error where "Canceled = Sentinel ''context canceled''"
definition DeadlineExceeded :: go_error where "DeadlineExceeded = Sentinel ''context deadline exceeded''"

text \<open>
  The goroutines: one that starts each server, one that waits to stop it, and one that waits for the end of the
  context or a signal.
\<close>

datatype start_st = SIdle | SSpawned | SRunning | SExited "go_error option"
datatype stop_st = PIdle | PWaiting | PStopping | PExited "go_error option"
datatype quit_st = QIdle | QWaiting | QExited "go_error option"

text \<open>
  \<open>as_root\<close> and \<open>as_ctx\<close> are the errors with which the application's context and the group's context, which is
  derived from it, have ended; \<open>as_hist\<close> records the results of the group's functions in their order.
\<close>

record 'g app_state =
  as_starts :: "start_st list"
  as_stops :: "stop_st list"
  as_quit :: quit_st
  as_group :: 'g
  as_ctx :: "go_error option"
  as_root :: "go_error option"
  as_signal :: bool
  as_hist :: "go_error option list"

definition App_Run_init :: "'g errgroup \<Rightarrow> nat \<Rightarrow> go_error option \<Rightarrow> 'g app_state" where
  "App_Run_init eg n root =
     \<lparr>as_starts = replicate n SIdle, as_stops = replicate n PIdle, as_quit = QIdle, as_group = eg_New eg, as_ctx = root,
      as_root = root, as_signal = False, as_hist = []\<rparr>"

text \<open>A function of the group returns \<open>e\<close>.\<close>

definition eg_finish :: "'g errgroup \<Rightarrow> go_error option \<Rightarrow> 'g app_state \<Rightarrow> 'g app_state" where
  "eg_finish eg e st =
     (let g = eg_Done eg e (as_group st) in
      st\<lparr>as_group := g, as_ctx := (if as_ctx st = None \<and> eg_Wait eg g \<noteq> None then Some Canceled else as_ctx st),
         as_hist := as_hist st @ [e]\<rparr>)"

text \<open>The application's context ends with \<open>err\<close>, unless it has ended before; the group's context ends with it.\<close>

definition end_root :: "go_error \<Rightarrow> 'g app_state \<Rightarrow> 'g app_state" where
  "end_root err st =
     (if as_root st = None
      then st\<lparr>as_root := Some err, as_ctx := (case as_ctx st of None \<Rightarrow> Some err | Some x \<Rightarrow> Some x)\<rparr> else st)"

definition App_Stop :: "'g app_state \<Rightarrow> 'g app_state" where
  "App_Stop st = end_root Canceled st"

text \<open>
  The steps of \<open>Run\<close>; \<open>quitCh\<close> says whether signals are configured.  The loop launches the servers in their
  order; \<open>wg.Wait\<close> lets the third goroutine start when every server's goroutine has begun.
\<close>

inductive run_step :: "'g errgroup \<Rightarrow> bool \<Rightarrow> 'g app_state \<Rightarrow> 'g app_state \<Rightarrow> bool" for eg quitCh where
  r_launch: "i < length (as_starts st) \<Longrightarrow> as_starts st ! i = SIdle \<Longrightarrow> \<forall>j < i. as_starts st ! j \<noteq> SIdle \<Longrightarrow>
     run_step eg quitCh st (st\<lparr>as_stops := (as_stops st)[i := PWaiting], as_starts := (as_starts st)[i := SSpawned]\<rparr>)"
| r_begin: "i < length (as_starts st) \<Longrightarrow> as_starts st ! i = SSpawned \<Longrightarrow>
     run_step eg quitCh st (st\<lparr>as_starts := (as_starts st)[i := SRunning]\<rparr>)"
| r_start_returns: "i < length (as_starts st) \<Longrightarrow> as_starts st ! i = SRunning \<Longrightarrow>
     run_step eg quitCh st (eg_finish eg e (st\<lparr>as_starts := (as_starts st)[i := SExited e]\<rparr>))"
| r_stop_wakes: "i < length (as_stops st) \<Longrightarrow> as_stops st ! i = PWaiting \<Longrightarrow> as_ctx st \<noteq> None \<Longrightarrow>
     run_step eg quitCh st (st\<lparr>as_stops := (as_stops st)[i := PStopping]\<rparr>)"
| r_stop_returns: "i < length (as_stops st) \<Longrightarrow> as_stops st ! i = PStopping \<Longrightarrow>
     run_step eg quitCh st (eg_finish eg e (st\<lparr>as_stops := (as_stops st)[i := PExited e]\<rparr>))"
| r_spawn_quit: "as_quit st = QIdle \<Longrightarrow> \<forall>s \<in> set (as_starts st). s \<noteq> SIdle \<and> s \<noteq> SSpawned \<Longrightarrow>
     run_step eg quitCh st (st\<lparr>as_quit := QWaiting\<rparr>)"
| r_quit_done: "as_quit st = QWaiting \<Longrightarrow> as_ctx st \<noteq> None \<Longrightarrow> e = (if quitCh then None else as_ctx st) \<Longrightarrow>
     run_step eg quitCh st (eg_finish eg e (st\<lparr>as_quit := QExited e\<rparr>))"
| r_quit_signal: "as_quit st = QWaiting \<Longrightarrow> quitCh \<Longrightarrow> as_signal st \<Longrightarrow>
     run_step eg quitCh st (eg_finish eg None ((App_Stop st)\<lparr>as_quit := QExited None\<rparr>))"

text \<open>What happens outside: somebody calls \<open>Stop\<close>, a timeout of the application's context passes, a signal arrives.\<close>

inductive env_step :: "'g app_state \<Rightarrow> 'g app_state \<Rightarrow> bool" where
  e_stop: "env_step st (App_Stop st)"
| e_timeout: "env_step st (end_root DeadlineExceeded st)"
| e_signal: "env_step st (st\<lparr>as_signal := True\<rparr>)"

definition app_step :: "'g errgroup \<Rightarrow> bool \<Rightarrow> 'g app_state \<Rightarrow> 'g app_state \<Rightarrow> bool" where
  "app_step eg quitCh st st' \<longleftrightarrow> run_step eg quitCh st st' \<or> env_step st st'"

text \<open>\<open>eg.Wait\<close> returns when all functions of the group have; \<open>Run\<close> then drops a cancellation.\<close>

definition all_exited :: "'g app_state \<Rightarrow> bool" where
  "all_exited st \<longleftrightarrow>
     (\<forall>s \<in> set (as_starts st). \<exists>e. s = SExited e) \<and> (\<forall>s \<in> set (as_stops st). \<exists>e. s = PExited e) \<and> (\<exists>e. as_quit st = QExited e)"

definition App_Run_result :: "'g errgroup \<Rightarrow> 'g app_state \<Rightarrow> go_error option" where
  "App_Run_result eg st =
     (case eg_Wait eg (as_group st) of
        Some err \<Rightarrow> if \<not> errors_is err Canceled then Some err else None
      | None \<Rightarrow> None)"

section \<open>Construction\<close>

text \<open>The options of an application; \<open>'s\<close> are its servers, times are in nanoseconds.\<close>

record 's app_options =
  op_quitCh :: "string list"
  op_servers :: "'s list"
  op_interval :: int
  op_StopTimeout :: int

definition WithInterval :: "int \<Rightarrow> 's app_options \<Rightarrow> 's app_options" where
  "WithInterval interval s = s\<lparr>op_interval := interval\<rparr>"

definition New_app :: "('s app_options \<Rightarrow> 's app_options) list \<Rightarrow> 's app_options" where
  "New_app opts =
     fold (\<lambda>opt p. opt p) opts
       \<lparr>op_quitCh = [''SIGINT'', ''SIGTERM'', ''SIGQUIT''], op_servers = [], op_interval = 0, op_StopTimeout = 5 * 10 ^ 9\<rparr>"

definition RegisterServer :: "'s list \<Rightarrow> 's app_options \<Rightarrow> 's app_options" where
  "RegisterServer servers a = a\<lparr>op_servers := op_servers a @ servers\<rparr>"

text \<open>The error of a context whose timeout is set now: a timeout that is not positive has passed already.\<close>

definition WithTimeout :: "int \<Rightarrow> go_error option" where
  "WithTimeout timeout = (if timeout \<le> 0 then Some DeadlineExceeded else None)"

text \<open>The error of the context with which \<open>Run\<close> calls \<open>Stop\<close> of a server.\<close>

definition stopCtx :: "'s app_options \<Rightarrow> go_error option" where
  "stopCtx a = WithTimeout (op_StopTimeout a)"

definition MiniApp :: "'s list \<Rightarrow> 's app_options" where
  "MiniApp servers = RegisterServer servers \<lparr>op_quitCh = [], op_servers = [], op_interval = 0, op_StopTimeout = 0\<rparr>"

end
