(* ===== verification/AppRunProps.thy ===== *)
theory AppRunProps
  imports AppRun
begin

text \<open>
  What the lifecycle promises, by invariants over reachable states and a measure that every step decreases:
  which error \<open>Run\<close> returns, that everything has exited by then, and that it gets there.
\<close>

section \<open>Counting\<close>

lemma sum_list_map_update:
  "i < length xs \<Longrightarrow> sum_list (map f (xs[i := y])) + f (xs ! i) = sum_list (map f xs) + (f y :: nat)"
proof (induction xs arbitrary: i)
  case (Cons x xs)
  then show ?case by (cases i) (auto simp: add.commute add.left_commute)
qed simp

lemma sum_list_map_less:
  "i < length xs \<Longrightarrow> f y < (f (xs ! i) :: nat) \<Longrightarrow> sum_list (map f (xs[i := y])) < sum_list (map f xs)"
  using sum_list_map_update [of i xs f y] by linarith

text \<open>A relation that a measure decreases has no runs longer than the measure, and ends where nothing more is possible.\<close>

lemma bounded_run:
  fixes m :: "'a \<Rightarrow> nat"
  assumes "(r ^^ k) x y" "\<And>x y. r x y \<Longrightarrow> m y < m x"
  shows "k + m y \<le> m x"
  using assms(1)
proof (induction k arbitrary: y)
  case (Suc k)
  then obtain z where "(r ^^ k) x z" "r z y" by auto
  then show ?case using Suc.IH [of z] assms(2) [of z y] by simp
qed simp

lemma run_to_end:
  fixes m :: "'a \<Rightarrow> nat"
  assumes "\<And>x y. P x \<Longrightarrow> r x y \<Longrightarrow> P y \<and> m y < m x" "\<And>x. P x \<Longrightarrow> \<not> Q x \<Longrightarrow> \<exists>y. r x y" "P x"
  shows "\<exists>y. r\<^sup>*\<^sup>* x y \<and> P y \<and> Q y"
  using assms(3)
proof (induction "m x" arbitrary: x rule: less_induct)
  case less
  show ?case
  proof (cases "Q x")
    case False
    then obtain y where y: "r x y" using assms(2) less.prems by blast
    then have "P y" "m y < m x" using assms(1) less.prems by blast+
    then obtain z where "r\<^sup>*\<^sup>* y z" "P z" "Q z" using less.hyps by blast
    then show ?thesis using y by (meson converse_rtranclp_into_rtranclp)
  qed (use less.prems in blast)
qed

section \<open>Groups of actors\<close>

fun group_received :: "group_pc \<Rightarrow> nat \<Rightarrow> nat" where
  "group_received GFirst n = 0"
| "group_received (GInterrupt _ _) n = 1"
| "group_received (GDrain i _) n = i"
| "group_received (GReturned _) n = n"

definition interrupts :: "nat \<Rightarrow> go_error option \<Rightarrow> (nat \<times> go_error option) list" where
  "interrupts k e = map (\<lambda>j. (j, e)) [0..<k]"

lemma interrupts_simps [simp]: "interrupts 0 e = []" "interrupts (Suc k) e = interrupts k e @ [(k, e)]"
  by (simp_all add: interrupts_def)

fun pc_ok :: "group_pc \<Rightarrow> nat \<Rightarrow> go_error option list \<Rightarrow> (nat \<times> go_error option) list \<Rightarrow> bool" where
  "pc_ok GFirst n hist calls \<longleftrightarrow> 0 < n \<and> calls = []"
| "pc_ok (GInterrupt k e) n hist calls \<longleftrightarrow> 0 < n \<and> k \<le> n \<and> hist \<noteq> [] \<and> e = hd hist \<and> calls = interrupts k e"
| "pc_ok (GDrain i e) n hist calls \<longleftrightarrow> 0 < i \<and> i \<le> n \<and> hist \<noteq> [] \<and> e = hd hist \<and> calls = interrupts n e"
| "pc_ok (GReturned e) n hist calls \<longleftrightarrow> (if n = 0 then e = None else hist \<noteq> [] \<and> e = hd hist) \<and> calls = interrupts n e"

definition exited :: "actor_st \<Rightarrow> nat" where
  "exited a = (if a = AExited then 1 else 0)"

definition group_inv :: "nat \<Rightarrow> gstate \<Rightarrow> bool" where
  "group_inv n s \<longleftrightarrow> length (gs_actors s) = n \<and> sum_list (map exited (gs_actors s)) = length (gs_hist s)
     \<and> group_received (gs_pc s) n \<le> length (gs_hist s) \<and> gs_errs s = drop (group_received (gs_pc s) n) (gs_hist s)
     \<and> pc_ok (gs_pc s) n (gs_hist s) (gs_calls s)"

lemma exited_simps [simp]: "exited AExited = 1" "a \<noteq> AExited \<Longrightarrow> exited a = 0"
  by (simp_all add: exited_def)

lemma exited_le: "sum_list (map exited xs) \<le> length xs"
proof (induction xs)
  case (Cons x xs)
  then show ?case by (cases "x = AExited") simp_all
qed simp

lemma all_exited_sum: "\<forall>a \<in> set xs. a = AExited \<Longrightarrow> sum_list (map exited xs) = length xs"
  by (induction xs) simp_all

lemma exited_all: "sum_list (map exited xs) = length xs \<Longrightarrow> \<forall>a \<in> set xs. a = AExited"
proof (induction xs)
  case (Cons x xs)
  then show ?case using exited_le [of xs] by (cases "x = AExited") simp_all
qed simp

lemma group_inv_init: "group_inv n (Group_init n)"
  by (simp add: group_inv_def Group_init_def exited_def sum_list_replicate)

lemma drop_is_Cons: "drop r xs = y # ys \<Longrightarrow> r < length xs \<and> drop (Suc r) xs = ys \<and> xs \<noteq> []"
  by (metis drop_Suc drop_eq_Nil list.distinct(1) list.sel(3) not_le tl_drop drop_Nil)

lemma pc_ok_snoc: "pc_ok pc n hist calls \<Longrightarrow> pc_ok pc n (hist @ [e]) calls"
  by (cases pc) (auto simp: hd_append split: if_splits)

lemma group_step_inv:
  assumes "group_step s s'" "group_inv n s"
  shows "group_inv n s'"
  using assms
proof cases
  case (g_execute i e)
  then show ?thesis
    using assms(2) sum_list_map_update [of i "gs_actors s" exited "AHolding e"] by (simp add: group_inv_def exited_def)
next
  case (g_send i e)
  have inv: "length (gs_actors s) = n" "sum_list (map exited (gs_actors s)) = length (gs_hist s)"
    "group_received (gs_pc s) n \<le> length (gs_hist s)" "gs_errs s = drop (group_received (gs_pc s) n) (gs_hist s)"
    "pc_ok (gs_pc s) n (gs_hist s) (gs_calls s)"
    using assms(2) by (auto simp: group_inv_def)
  have "sum_list (map exited ((gs_actors s)[i := AExited])) = Suc (length (gs_hist s))"
    using sum_list_map_update [of i "gs_actors s" exited AExited] g_send(2,3) inv(2) by (simp add: exited_def)
  moreover have "pc_ok (gs_pc s) n (gs_hist s @ [e]) (gs_calls s)"
    by (rule pc_ok_snoc [OF inv(5)])
  ultimately show ?thesis using inv(1,3,4) by (simp add: group_inv_def g_send(1))
next
  case (g_first e es)
  then have "gs_hist s = e # es" "0 < n" using assms(2) by (auto simp: group_inv_def)
  then show ?thesis using assms(2) g_first by (simp add: group_inv_def)
next
  case (g_interrupt k e)
  then show ?thesis using assms(2) by (auto simp: group_inv_def)
next
  case (g_interrupted k e)
  then show ?thesis using assms(2) by (auto simp: group_inv_def)
next
  case (g_drain i e x es)
  then have "i < length (gs_hist s) \<and> drop (Suc i) (gs_hist s) = es"
    using assms(2) drop_is_Cons [of i "gs_hist s" x es] by (simp add: group_inv_def)
  then show ?thesis using assms(2) g_drain by (auto simp: group_inv_def)
next
  case (g_return i e)
  then show ?thesis using assms(2) by (auto simp: group_inv_def)
qed

lemma group_reachable: "group_step\<^sup>*\<^sup>* (Group_init n) s \<Longrightarrow> group_inv n s"
proof (induction rule: rtranclp_induct)
  case base
  show ?case by (rule group_inv_init)
next
  case (step s s')
  then show ?case using group_step_inv by blast
qed

fun actor_work :: "actor_st \<Rightarrow> nat" where
  "actor_work ARunning = 2"
| "actor_work (AHolding _) = 1"
| "actor_work AExited = 0"

fun pc_work :: "nat \<Rightarrow> group_pc \<Rightarrow> nat" where
  "pc_work n GFirst = 2 * n + 4"
| "pc_work n (GInterrupt k _) = n + 3 + (n - k)"
| "pc_work n (GDrain i _) = Suc (n - i)"
| "pc_work n (GReturned _) = 0"

definition group_work :: "gstate \<Rightarrow> nat" where
  "group_work s = sum_list (map actor_work (gs_actors s)) + pc_work (length (gs_actors s)) (gs_pc s)"

lemma group_step_work: "group_step s s' \<Longrightarrow> group_work s' < group_work s"
  by (induction rule: group_step.induct) (auto simp: group_work_def intro!: sum_list_map_less)

lemma group_step_enabled:
  assumes "group_inv n s" "\<not> (\<exists>e. gs_pc s = GReturned e)"
  shows "\<exists>s'. group_step s s'"
proof -
  have inv: "length (gs_actors s) = n" "sum_list (map exited (gs_actors s)) = length (gs_hist s)"
    "group_received (gs_pc s) n \<le> length (gs_hist s)" "gs_errs s = drop (group_received (gs_pc s) n) (gs_hist s)"
    "pc_ok (gs_pc s) n (gs_hist s) (gs_calls s)"
    using assms(1) by (auto simp: group_inv_def)
  show ?thesis
  proof (cases "\<forall>a \<in> set (gs_actors s). a = AExited")
    case False
    then obtain i where i: "i < n" "gs_actors s ! i \<noteq> AExited" using inv(1) by (auto simp: in_set_conv_nth)
    show ?thesis
    proof (cases "gs_actors s ! i")
      case ARunning
      then show ?thesis using g_execute [of i s] i inv(1) by blast
    next
      case (AHolding e)
      have "length (gs_hist s) < n"
        using exited_le [of "gs_actors s"] exited_all [of "gs_actors s"] False inv(1,2) by (metis le_neq_implies_less)
      then have "length (gs_errs s) < length (gs_actors s)" using inv(1,4) by simp
      then show ?thesis using g_send [of i s e] i inv(1) AHolding by blast
    qed (use i in simp)
  next
    case True
    then have "sum_list (map exited (gs_actors s)) = length (gs_actors s)" by (rule all_exited_sum)
    then have n: "length (gs_hist s) = n" using inv(1,2) by simp
    show ?thesis
    proof (cases "gs_pc s")
      case GFirst
      then have "gs_errs s \<noteq> []" using inv(4,5) n by auto
      then show ?thesis using g_first [OF GFirst] by (cases "gs_errs s") auto
    next
      case (GInterrupt k e)
      then show ?thesis using g_interrupt [OF GInterrupt] g_interrupted [OF GInterrupt] by blast
    next
      case (GDrain i e)
      show ?thesis
      proof (cases "i < n")
        case True
        then have "gs_errs s \<noteq> []" using inv(4) n GDrain by simp
        then show ?thesis using g_drain [OF GDrain] True inv(1) by (cases "gs_errs s") auto
      next
        case False
        then show ?thesis using g_return [OF GDrain] inv(1) by blast
      qed
    qed (use assms(2) in blast)
  qed
qed

text \<open>
  C27: a group of actors.  When \<open>Group.Run\<close> returns, every actor has exited, each was interrupted once, in order,
  with the error that is returned, and that error is the first result sent.  A send never blocks, and as the
  actors return, \<open>Run\<close> does: no run from a reachable state has more than 4n + 4 steps, and each can be continued
  to its return.
\<close>

theorem group_run:
  assumes "group_step\<^sup>*\<^sup>* (Group_init n) s"
  shows "(\<forall>e \<in> {e. gs_pc s = GReturned e}. gs_actors s = replicate n AExited \<and> gs_calls s = map (\<lambda>j. (j, e)) [0..<n]
            \<and> (if n = 0 then e = None else e = hd (gs_hist s)))
    \<and> length (gs_errs s) + length (filter (\<lambda>a. a \<noteq> AExited) (gs_actors s)) \<le> n
    \<and> (\<forall>k s'. (group_step ^^ k) s s' \<longrightarrow> k \<le> 4 * n + 4)
    \<and> (\<exists>s' e. group_step\<^sup>*\<^sup>* s s' \<and> gs_pc s' = GReturned e)"
proof (intro conjI allI impI ballI)
  have inv: "group_inv n s" by (rule group_reachable [OF assms])
  have c: "sum_list (map exited xs) + length (filter (\<lambda>a. a \<noteq> AExited) xs) = length xs" for xs
    by (induction xs) (simp_all add: exited_def)
  show "length (gs_errs s) + length (filter (\<lambda>a. a \<noteq> AExited) (gs_actors s)) \<le> n"
    using inv c [of "gs_actors s"] by (simp add: group_inv_def)
  show "k \<le> 4 * n + 4" if "(group_step ^^ k) s s'" for k s'
  proof -
    have a: "sum_list (map actor_work xs) \<le> 2 * length xs" for xs
    proof (induction xs)
      case (Cons x xs)
      then show ?case by (cases x) simp_all
    qed simp
    have "pc_work n (gs_pc s) \<le> 2 * n + 4" by (cases "gs_pc s") simp_all
    moreover have "group_work s = sum_list (map actor_work (gs_actors s)) + pc_work n (gs_pc s)" "length (gs_actors s) = n"
      using inv by (simp_all add: group_work_def group_inv_def)
    ultimately have "group_work s \<le> 4 * n + 4" using a [of "gs_actors s"] by linarith
    then show ?thesis using bounded_run [OF that, of group_work] group_step_work by fastforce
  qed
  have "\<exists>y. group_step\<^sup>*\<^sup>* s y \<and> group_inv n y \<and> (\<exists>e. gs_pc y = GReturned e)"
    by (rule run_to_end [of "group_inv n" group_step group_work]) (use group_step_inv group_step_work group_step_enabled inv in blast)+
  then show "\<exists>s' e. group_step\<^sup>*\<^sup>* s s' \<and> gs_pc s' = GReturned e" by blast
  fix e assume "e \<in> {e. gs_pc s = GReturned e}"
  then have e: "gs_pc s = GReturned e" by simp
  have "length (gs_hist s) \<le> n" using inv exited_le [of "gs_actors s"] by (simp add: group_inv_def)
  then have "sum_list (map exited (gs_actors s)) = length (gs_actors s)" using inv e by (simp add: group_inv_def)
  then have "\<forall>a \<in> set (gs_actors s). a = AExited" by (rule exited_all)
  then show "gs_actors s = replicate n AExited"
    using inv by (intro replicate_eqI) (simp_all add: group_inv_def)
  show "gs_calls s = map (\<lambda>j. (j, e)) [0..<n]" "if n = 0 then e = None else e = hd (gs_hist s)"
    using inv e by (auto simp: group_inv_def interrupts_def split: if_splits)
qed

text \<open>Two actors: the first returns an error, both are interrupted with it, and it is the result.\<close>

theorem group_run_witness:
  "\<exists>s' e. group_step\<^sup>*\<^sup>* (Group_init 2) s' \<and> gs_pc s' = GReturned e \<and> gs_actors s' = [AExited, AExited]
     \<and> gs_calls s' = [(0, e), (1, e)] \<and> e = hd (gs_hist s')"
proof -
  have r: "group_step\<^sup>*\<^sup>* (Group_init 2) (Group_init 2)" by simp
  obtain s' e where s': "group_step\<^sup>*\<^sup>* (Group_init 2) s'" "gs_pc s' = GReturned e"
    using group_run [OF r] by blast
  then have "gs_actors s' = replicate 2 AExited \<and> gs_calls s' = map (\<lambda>j. (j, e)) [0..<2] \<and> e = hd (gs_hist s')"
    using group_run [OF s'(1)] by simp
  then show ?thesis using s' by (intro exI [of _ s'] exI [of _ e]) (simp add: numeral_2_eq_2 upt_rec)
qed

section \<open>Applications\<close>

definition first_error :: "go_error option list \<Rightarrow> go_error option" where
  "first_error es = (case filter (\<lambda>e. e \<noteq> None) es of [] \<Rightarrow> None | e # _ \<Rightarrow> e)"

lemma first_error_simps [simp]: "first_error [] = None"
  "first_error (es @ [e]) = (case first_error es of None \<Rightarrow> e | Some x \<Rightarrow> Some x)"
  by (cases "filter (\<lambda>e. e \<noteq> None) es"; auto simp: first_error_def dest: filter_eq_ConsD)+

text \<open>All results so far, where they came from.\<close>

definition app_results :: "'g app_state \<Rightarrow> go_error option set" where
  "app_results st = {e. SExited e \<in> set (as_starts st) \<or> PExited e \<in> set (as_stops st) \<or> as_quit st = QExited e}"

definition app_inv :: "'g errgroup \<Rightarrow> bool \<Rightarrow> nat \<Rightarrow> 'g app_state \<Rightarrow> bool" where
  "app_inv eg quitCh n st \<longleftrightarrow>
     length (as_starts st) = n \<and> length (as_stops st) = n
     \<and> (\<forall>i < n. as_starts st ! i = SIdle \<longleftrightarrow> as_stops st ! i = PIdle)
     \<and> (as_quit st \<noteq> QIdle \<longrightarrow> (\<forall>s \<in> set (as_starts st). s \<noteq> SIdle \<and> s \<noteq> SSpawned))
     \<and> (as_ctx st = None \<longrightarrow> (\<forall>s \<in> set (as_stops st). s = PIdle \<or> s = PWaiting))
     \<and> eg_Wait eg (as_group st) = first_error (as_hist st)
     \<and> set (as_hist st) \<subseteq> app_results st
     \<and> (\<forall>e. as_quit st = QExited (Some e) \<longrightarrow> \<not> quitCh)"

lemma app_inv_init: "eg_laws eg \<Longrightarrow> app_inv eg quitCh n (App_Run_init eg n root)"
  by (simp add: app_inv_def App_Run_init_def eg_laws_def)

lemma finish_simps [simp]:
  "as_starts (eg_finish eg e st) = as_starts st" "as_stops (eg_finish eg e st) = as_stops st" "as_quit (eg_finish eg e st) = as_quit st"
  "as_hist (eg_finish eg e st) = as_hist st @ [e]"
  "as_root (eg_finish eg e st) = as_root st" "app_results (eg_finish eg e st) = app_results st"
  by (simp_all add: eg_finish_def Let_def app_results_def)

lemma finish_ctx: "as_ctx (eg_finish eg e st) = None \<Longrightarrow> as_ctx st = None"
  by (simp add: eg_finish_def Let_def split: if_splits)

lemma finish_Wait: "eg_laws eg \<Longrightarrow> eg_Wait eg (as_group st) = first_error (as_hist st) \<Longrightarrow>
    eg_Wait eg (as_group (eg_finish eg e st)) = first_error (as_hist (eg_finish eg e st))"
  by (simp add: eg_finish_def Let_def eg_laws_def)

lemma end_root_simps [simp]:
  "as_starts (end_root e st) = as_starts st" "as_stops (end_root e st) = as_stops st" "as_quit (end_root e st) = as_quit st"
  "as_hist (end_root e st) = as_hist st" "as_group (end_root e st) = as_group st"
  "app_results (end_root e st) = app_results st"
  by (simp_all add: end_root_def app_results_def)

lemma end_root_ctx: "as_ctx (end_root e st) = None \<Longrightarrow> as_ctx st = None"
  by (simp add: end_root_def split: option.splits if_splits)

lemma results_quit: "as_quit st = QWaiting \<Longrightarrow> app_results st \<subseteq> app_results (st\<lparr>as_quit := q\<rparr>)"
  by (auto simp: app_results_def)

lemma results_start:
  assumes "i < length (as_starts st)" "\<And>e. as_starts st ! i \<noteq> SExited e"
  shows "app_results st \<subseteq> app_results (st\<lparr>as_starts := (as_starts st)[i := x]\<rparr>)"
proof
  fix e assume "e \<in> app_results st"
  moreover have "SExited e \<in> set ((as_starts st)[i := x])" if "SExited e \<in> set (as_starts st)"
    using that assms by (metis in_set_conv_nth length_list_update nth_list_update_neq)
  ultimately show "e \<in> app_results (st\<lparr>as_starts := (as_starts st)[i := x]\<rparr>)" by (auto simp: app_results_def)
qed

lemma results_stop:
  assumes "i < length (as_stops st)" "\<And>e. as_stops st ! i \<noteq> PExited e"
  shows "app_results st \<subseteq> app_results (st\<lparr>as_stops := (as_stops st)[i := x]\<rparr>)"
proof
  fix e assume "e \<in> app_results st"
  moreover have "PExited e \<in> set ((as_stops st)[i := x])" if "PExited e \<in> set (as_stops st)"
    using that assms by (metis in_set_conv_nth length_list_update nth_list_update_neq)
  ultimately show "e \<in> app_results (st\<lparr>as_stops := (as_stops st)[i := x]\<rparr>)" by (auto simp: app_results_def)
qed

lemma set_update_all: "\<forall>x \<in> set xs. P x \<Longrightarrow> P y \<Longrightarrow> \<forall>x \<in> set (xs[i := y]). P x"
  using set_update_subset_insert by fastforce

lemma run_step_inv:
  assumes "eg_laws eg" "run_step eg quitCh st st'" "app_inv eg quitCh n st"
  shows "app_inv eg quitCh n st'"
proof -
  have inv: "length (as_starts st) = n" "length (as_stops st) = n"
    "\<And>i. i < n \<Longrightarrow> as_starts st ! i = SIdle \<longleftrightarrow> as_stops st ! i = PIdle"
    "as_quit st \<noteq> QIdle \<Longrightarrow> \<forall>s \<in> set (as_starts st). s \<noteq> SIdle \<and> s \<noteq> SSpawned"
    "as_ctx st = None \<Longrightarrow> \<forall>s \<in> set (as_stops st). s = PIdle \<or> s = PWaiting"
    "eg_Wait eg (as_group st) = first_error (as_hist st)" "set (as_hist st) \<subseteq> app_results st"
    "\<And>e. as_quit st = QExited (Some e) \<Longrightarrow> \<not> quitCh"
    using assms(3) unfolding app_inv_def by blast+
  from assms(2) show ?thesis
  proof cases
    case (r_launch i)
    have "as_starts st ! i \<in> set (as_starts st)" using r_launch(2) by simp
    then have "as_quit st = QIdle" using inv(4) r_launch(3) by metis
    moreover have "app_results st \<subseteq> app_results (st\<lparr>as_stops := (as_stops st)[i := PWaiting]\<rparr>)"
      using inv(1,2,3) r_launch(2,3) by (intro results_stop) auto
    moreover have "\<dots> \<subseteq> app_results st'"
      using results_start [of i "st\<lparr>as_stops := (as_stops st)[i := PWaiting]\<rparr>" SSpawned] r_launch by simp
    moreover have "as_ctx st = None \<Longrightarrow> \<forall>s \<in> set ((as_stops st)[i := PWaiting]). s = PIdle \<or> s = PWaiting"
      by (rule set_update_all [OF inv(5)]) simp_all
    ultimately show ?thesis using inv r_launch by (simp add: app_inv_def nth_list_update)
  next
    case (r_begin i)
    have "app_results st \<subseteq> app_results st'" using results_start [of i st SRunning] r_begin by simp
    moreover have "as_quit st \<noteq> QIdle \<Longrightarrow> \<forall>s \<in> set ((as_starts st)[i := SRunning]). s \<noteq> SIdle \<and> s \<noteq> SSpawned"
      by (rule set_update_all [OF inv(4)]) simp_all
    moreover have "\<forall>j < n. (as_starts st)[i := SRunning] ! j = SIdle \<longleftrightarrow> as_stops st ! j = PIdle"
      using inv(1,3) r_begin(2,3) by (metis length_list_update nth_list_update start_st.distinct(1,3))
    ultimately show ?thesis using inv(1,2,5,6,7,8) r_begin(1) unfolding app_inv_def by auto
  next
    case (r_start_returns i e)
    let ?s = "st\<lparr>as_starts := (as_starts st)[i := SExited e]\<rparr>"
    have r: "app_results st \<subseteq> app_results ?s" using results_start [of i st "SExited e"] r_start_returns by simp
    have "SExited e \<in> set (as_starts ?s)" using r_start_returns(2) by (simp add: set_update_memI)
    then have "insert e (set (as_hist st)) \<subseteq> app_results ?s" using r inv(7) by (auto simp: app_results_def)
    moreover have "as_quit st \<noteq> QIdle \<Longrightarrow> \<forall>s \<in> set ((as_starts st)[i := SExited e]). s \<noteq> SIdle \<and> s \<noteq> SSpawned"
      by (rule set_update_all [OF inv(4)]) simp_all
    moreover have "eg_Wait eg (as_group st') = first_error (as_hist st')"
      using finish_Wait [OF assms(1), of ?s e] inv(6) r_start_returns(1) by simp
    moreover have "as_ctx st' = None \<Longrightarrow> as_ctx st = None" using finish_ctx [of eg e ?s] r_start_returns(1) by simp
    moreover have "\<forall>j < n. (as_starts st)[i := SExited e] ! j = SIdle \<longleftrightarrow> as_stops st ! j = PIdle"
      using inv(1,3) r_start_returns(2,3) by (metis nth_list_update start_st.distinct(3,5))
    ultimately show ?thesis
      using inv(1,2,5,8) unfolding app_inv_def r_start_returns(1) by auto
  next
    case (r_stop_wakes i)
    have "app_results st \<subseteq> app_results st'" using results_stop [of i st PStopping] r_stop_wakes by simp
    moreover have "\<forall>j < n. as_starts st ! j = SIdle \<longleftrightarrow> (as_stops st)[i := PStopping] ! j = PIdle"
      using inv(2,3) r_stop_wakes(2,3) by (metis nth_list_update stop_st.distinct(1,3))
    ultimately show ?thesis using inv(1,2,4,6,7,8) r_stop_wakes(1,4) unfolding app_inv_def by auto
  next
    case (r_stop_returns i e)
    let ?s = "st\<lparr>as_stops := (as_stops st)[i := PExited e]\<rparr>"
    have r: "app_results st \<subseteq> app_results ?s" using results_stop [of i st "PExited e"] r_stop_returns by simp
    have "PExited e \<in> set (as_stops ?s)" using r_stop_returns(2) by (simp add: set_update_memI)
    then have "insert e (set (as_hist st)) \<subseteq> app_results ?s" using r inv(7) by (auto simp: app_results_def)
    moreover have "as_stops st ! i \<in> set (as_stops st)" using r_stop_returns(2) by simp
    then have "as_ctx st \<noteq> None" using inv(5) r_stop_returns(3) by (metis stop_st.distinct(3,7))
    then have "as_ctx st' \<noteq> None" using finish_ctx [of eg e ?s] r_stop_returns(1)
      by (cases "as_ctx (eg_finish eg e ?s)") auto
    moreover have "eg_Wait eg (as_group st') = first_error (as_hist st')"
      using finish_Wait [OF assms(1), of ?s e] inv(6) r_stop_returns(1) by simp
    moreover have "\<forall>j < n. as_starts st ! j = SIdle \<longleftrightarrow> (as_stops st)[i := PExited e] ! j = PIdle"
      using inv(2,3) r_stop_returns(2,3) by (metis nth_list_update stop_st.distinct(3,5))
    ultimately show ?thesis
      using inv(1,2,4,8) unfolding app_inv_def r_stop_returns(1) by auto
  next
    case r_spawn_quit
    then show ?thesis using inv by (auto simp: app_inv_def app_results_def)
  next
    case (r_quit_done e)
    let ?s = "st\<lparr>as_quit := QExited e\<rparr>"
    have "insert e (set (as_hist st)) \<subseteq> app_results ?s"
      using results_quit [OF r_quit_done(2), of "QExited e"] inv(7) by (auto simp: app_results_def)
    moreover have "as_ctx st' \<noteq> None" using finish_ctx [of eg e ?s] r_quit_done(1,3)
      by (cases "as_ctx (eg_finish eg e ?s)") auto
    moreover have "eg_Wait eg (as_group st') = first_error (as_hist st')"
      using finish_Wait [OF assms(1), of ?s e] inv(6) r_quit_done(1) by simp
    ultimately show ?thesis
      using inv(1,2,3,4) r_quit_done(2,4) unfolding app_inv_def r_quit_done(1) by (auto split: if_splits)
  next
    case r_quit_signal
    let ?s = "(App_Stop st)\<lparr>as_quit := QExited None\<rparr>"
    have a: "as_starts ?s = as_starts st" "as_stops ?s = as_stops st" "as_hist ?s = as_hist st" "as_group ?s = as_group st"
      by (simp_all add: App_Stop_def)
    have "app_results st \<subseteq> app_results ?s"
      using r_quit_signal(2) by (auto simp: app_results_def App_Stop_def)
    then have "insert None (set (as_hist st)) \<subseteq> app_results ?s" using inv(7) by (auto simp: app_results_def)
    moreover have "as_ctx st' = None \<Longrightarrow> as_ctx st = None"
      using finish_ctx [of eg None ?s] end_root_ctx [of Canceled st] r_quit_signal(1) by (simp add: App_Stop_def)
    moreover have "eg_Wait eg (as_group st') = first_error (as_hist st')"
      using finish_Wait [OF assms(1), of ?s None] inv(6) a r_quit_signal(1) by simp
    ultimately show ?thesis
      using inv(1-5) r_quit_signal(2) unfolding app_inv_def r_quit_signal(1) by (auto simp: a)
  qed
qed

lemma env_step_inv:
  assumes "env_step st st'" "app_inv eg quitCh n st"
  shows "app_inv eg quitCh n st'"
proof -
  have e: "app_inv eg quitCh n (end_root e st)" for e
    using assms(2) end_root_ctx [of e st] unfolding app_inv_def by auto
  have s: "app_inv eg quitCh n (st\<lparr>as_signal := True\<rparr>)"
    using assms(2) unfolding app_inv_def app_results_def by simp
  from assms(1) show ?thesis
  proof cases
    case e_stop
    then show ?thesis using e by (simp add: App_Stop_def)
  next
    case e_timeout
    then show ?thesis using e by simp
  next
    case e_signal
    then show ?thesis using s by simp
  qed
qed

lemma app_reachable:
  assumes "eg_laws eg" "(app_step eg quitCh)\<^sup>*\<^sup>* (App_Run_init eg n root) st"
  shows "app_inv eg quitCh n st"
  using assms(2)
proof (induction rule: rtranclp_induct)
  case base
  show ?case by (rule app_inv_init [OF assms(1)])
next
  case (step s s')
  then show ?case using run_step_inv [OF assms(1)] env_step_inv by (auto simp: app_step_def)
qed

definition group_of_errors :: "go_error option errgroup" where
  "group_of_errors = \<lparr>eg_New = None, eg_Done = (\<lambda>e g. case g of None \<Rightarrow> e | Some x \<Rightarrow> Some x), eg_Wait = id\<rparr>"

lemma group_of_errors_laws: "eg_laws group_of_errors"
  by (simp add: eg_laws_def group_of_errors_def)

section \<open>Progress\<close>

fun start_work :: "start_st \<Rightarrow> nat" where
  "start_work SIdle = 3"
| "start_work SSpawned = 2"
| "start_work SRunning = 1"
| "start_work (SExited _) = 0"

fun stop_work :: "stop_st \<Rightarrow> nat" where
  "stop_work PIdle = 3"
| "stop_work PWaiting = 2"
| "stop_work PStopping = 1"
| "stop_work (PExited _) = 0"

fun quit_work :: "quit_st \<Rightarrow> nat" where
  "quit_work QIdle = 2"
| "quit_work QWaiting = 1"
| "quit_work (QExited _) = 0"

definition app_work :: "'g app_state \<Rightarrow> nat" where
  "app_work st = sum_list (map start_work (as_starts st)) + sum_list (map stop_work (as_stops st)) + quit_work (as_quit st)"

lemma work_le: "sum_list (map start_work xs) \<le> 3 * length xs" "sum_list (map stop_work ys) \<le> 3 * length ys"
proof (induction xs)
  case (Cons x xs)
  case 1
  then show ?case using Cons.IH(1) by (cases x) simp_all
  case 2
  show ?case by (rule Cons.IH(2))
next
  case Nil
  case 1
  show ?case by simp
  case 2
  show ?case
  proof (induction ys)
    case (Cons y ys)
    then show ?case by (cases y) simp_all
  qed simp
qed

lemma run_step_work:
  assumes "run_step eg quitCh st st'" "length (as_starts st) = length (as_stops st)"
    and "\<And>i. i < length (as_starts st) \<Longrightarrow> as_starts st ! i = SIdle \<longleftrightarrow> as_stops st ! i = PIdle"
  shows "app_work st' < app_work st"
  using assms(1)
proof cases
  case (r_launch i)
  then have "as_stops st ! i = PIdle" using assms(3) by simp
  then have "sum_list (map start_work ((as_starts st)[i := SSpawned])) < sum_list (map start_work (as_starts st))"
    "sum_list (map stop_work ((as_stops st)[i := PWaiting])) < sum_list (map stop_work (as_stops st))"
    using r_launch assms(2) by (intro sum_list_map_less; simp)+
  then show ?thesis by (simp add: r_launch(1) app_work_def)
qed (simp_all add: app_work_def App_Stop_def sum_list_map_less)

text \<open>Once the context has ended, \<open>Run\<close> can always go on until everything has exited.\<close>

lemma run_step_enabled:
  assumes "app_inv eg quitCh n st" "as_ctx st \<noteq> None" "\<not> all_exited st"
  shows "\<exists>st'. run_step eg quitCh st st'"
proof -
  have inv: "length (as_starts st) = n" "length (as_stops st) = n"
    "\<And>i. i < n \<Longrightarrow> as_starts st ! i = SIdle \<longleftrightarrow> as_stops st ! i = PIdle"
    using assms(1) unfolding app_inv_def by blast+
  show ?thesis
  proof (cases "\<exists>i < n. as_starts st ! i = SIdle")
    case True
    define i where "i = (LEAST i. i < n \<and> as_starts st ! i = SIdle)"
    have "i < n \<and> as_starts st ! i = SIdle" unfolding i_def by (rule LeastI_ex) (use True in blast)
    moreover have "\<forall>j < i. as_starts st ! j \<noteq> SIdle"
      using not_less_Least [of _ "\<lambda>i. i < n \<and> as_starts st ! i = SIdle"] calculation unfolding i_def by (metis less_trans)
    ultimately show ?thesis using r_launch [of i st eg quitCh] inv(1) by blast
  next
    case False
    show ?thesis
    proof (cases "\<exists>i < n. as_starts st ! i = SSpawned \<or> as_starts st ! i = SRunning")
      case True
      then show ?thesis using r_begin [of _ st eg quitCh] r_start_returns [of _ st eg quitCh] inv(1) by blast
    next
      case starts: False
      have st: "\<exists>e. s = SExited e" if "s \<in> set (as_starts st)" for s
      proof -
        from that obtain i where "i < n" "s = as_starts st ! i" using inv(1) by (metis in_set_conv_nth)
        with False starts have "s \<noteq> SIdle" "s \<noteq> SSpawned" "s \<noteq> SRunning" by auto
        then show ?thesis by (cases s) simp_all
      qed
      show ?thesis
      proof (cases "\<exists>i < n. as_stops st ! i = PWaiting \<or> as_stops st ! i = PStopping")
        case True
        then show ?thesis using r_stop_wakes [of _ st eg quitCh] r_stop_returns [of _ st eg quitCh] inv(2) assms(2) by blast
      next
        case stops: False
        have "\<exists>e. s = PExited e" if "s \<in> set (as_stops st)" for s
        proof -
          from that obtain i where "i < n" "s = as_stops st ! i" using inv(2) by (metis in_set_conv_nth)
          with False stops inv(3) [of i] have "s \<noteq> PIdle" "s \<noteq> PWaiting" "s \<noteq> PStopping" by auto
          then show ?thesis by (cases s) simp_all
        qed
        then have "\<not> (\<exists>e. as_quit st = QExited e)" using assms(3) st by (auto simp: all_exited_def)
        then consider "as_quit st = QIdle" | "as_quit st = QWaiting" by (cases "as_quit st") auto
        then show ?thesis
        proof cases
          case 1
          then show ?thesis using r_spawn_quit [of st eg quitCh] st by fastforce
        next
          case 2
          then show ?thesis using r_quit_done [of st _ quitCh eg] assms(2) by blast
        qed
      qed
    qed
  qed
qed

lemma finish_ctx_on: "as_ctx st \<noteq> None \<Longrightarrow> as_ctx (eg_finish eg e st) \<noteq> None"
  by (auto simp: eg_finish_def Let_def)

lemma run_step_ctx:
  assumes "run_step eg quitCh st st'" "as_ctx st \<noteq> None"
  shows "as_ctx st' \<noteq> None"
  using assms(1)
proof cases
  case (r_quit_signal)
  have "as_ctx ((App_Stop st)\<lparr>as_quit := QExited None\<rparr>) \<noteq> None"
    using assms(2) by (auto simp: App_Stop_def end_root_def split: option.split)
  then show ?thesis unfolding r_quit_signal(1) by (rule finish_ctx_on)
qed (use assms(2) in \<open>simp_all add: finish_ctx_on\<close>)



text \<open>
  C5: \<open>Run\<close> ends.  Once the context has ended, by an error of a server, a stop, a timeout or a signal, and as
  \<open>Start\<close> and \<open>Stop\<close> of the servers return, \<open>Run\<close> goes on until everything has exited, in at most 6n + 2 steps
  of its goroutines, whatever their order.
\<close>

theorem app_run_ends:
  assumes "eg_laws eg" "(app_step eg quitCh)\<^sup>*\<^sup>* (App_Run_init eg n root) st" "as_ctx st \<noteq> None"
  shows "(\<exists>st'. (run_step eg quitCh)\<^sup>*\<^sup>* st st' \<and> all_exited st')
    \<and> (\<forall>k \<in> {k. \<exists>st'. (run_step eg quitCh ^^ k) st st'}. k \<le> 6 * n + 2)"
proof -
  let ?P = "\<lambda>s. app_inv eg quitCh n s \<and> as_ctx s \<noteq> None"
  have inv: "app_inv eg quitCh n st" by (rule app_reachable [OF assms(1,2)])
  have dec: "app_inv eg quitCh n s' \<and> app_work s' < app_work s" if "app_inv eg quitCh n s" "run_step eg quitCh s s'" for s s'
    using run_step_inv [OF assms(1) that(2,1)] run_step_work [OF that(2)] that(1) unfolding app_inv_def by simp
  have "\<exists>st'. (run_step eg quitCh)\<^sup>*\<^sup>* st st' \<and> ?P st' \<and> all_exited st'"
  proof (rule run_to_end [of ?P _ app_work])
    show "?P y \<and> app_work y < app_work x" if "?P x" "run_step eg quitCh x y" for x y
      using dec that run_step_ctx by blast
    show "\<exists>y. run_step eg quitCh x y" if "?P x" "\<not> all_exited x" for x
      using run_step_enabled that by blast
  qed (use inv assms(3) in blast)
  moreover have "k \<le> 6 * n + 2" if "(run_step eg quitCh ^^ k) st st'" for k st'
  proof -
    define r where "r = (\<lambda>s s'. app_inv eg quitCh n s \<and> run_step eg quitCh s s')"
    have r: "(r ^^ k) st st' \<and> app_inv eg quitCh n st'"
      using that
    proof (induction k arbitrary: st')
      case (Suc k)
      then obtain z where "(run_step eg quitCh ^^ k) st z" "run_step eg quitCh z st'" by auto
      then show ?case using Suc.IH [of z] dec by (auto simp: r_def)
    qed (use inv in simp)
    have "k + app_work st' \<le> app_work st" by (rule bounded_run [where r = r]) (use r dec r_def in blast)+
    moreover have "quit_work (as_quit st) \<le> 2" by (cases "as_quit st") simp_all
    then have "app_work st \<le> 6 * n + 2"
      using work_le(1) [of "as_starts st"] work_le(2) [of "as_stops st"] inv unfolding app_work_def app_inv_def by linarith
    ultimately show ?thesis by simp
  qed
  ultimately show ?thesis by auto
qed

theorem app_run_ends_witness:
  "\<exists>st'. (run_step group_of_errors True)\<^sup>*\<^sup>* (App_Run_init group_of_errors 2 (Some Canceled)) st' \<and> all_exited st'"
  using app_run_ends [OF group_of_errors_laws rtranclp.rtrancl_refl [of "app_step group_of_errors True" "App_Run_init group_of_errors 2 (Some Canceled)"]]
  by (auto simp: App_Run_init_def)

text \<open>
  If every server's \<open>Start\<close> has returned without an error and nobody ends the context, nothing more happens:
  \<open>Run\<close> does not return although all servers have exited.
\<close>

lemma exited_servers_do_not_end_run:
  assumes "\<forall>s \<in> set (as_starts st). s = SExited None" "\<forall>s \<in> set (as_stops st). s = PWaiting" "as_quit st = QWaiting"
    and "as_ctx st = None" "\<not> as_signal st"
  shows "\<not> run_step eg quitCh st st'"
proof
  assume "run_step eg quitCh st st'"
  then show False using assms by cases (auto dest!: nth_mem)
qed

text \<open>
  \<open>MiniApp\<close> leaves the stop timeout at zero, so the context it gives to \<open>Stop\<close> of its servers has expired before
  the call; an application made by \<open>New\<close> gives five seconds.
\<close>

lemma mini_app_stops_with_expired_context: "stopCtx (MiniApp servers) = Some DeadlineExceeded"
  by (simp add: stopCtx_def MiniApp_def RegisterServer_def WithTimeout_def)

lemma new_app_stops_in_time: "stopCtx (RegisterServer servers (New_app (map WithInterval is))) = None"
proof -
  have "op_StopTimeout (fold (\<lambda>opt p. opt p) (map WithInterval is) a) = op_StopTimeout a" for a :: "'a app_options"
    by (induction "is" arbitrary: a) (simp_all add: WithInterval_def)
  then show ?thesis by (simp add: stopCtx_def RegisterServer_def New_app_def WithTimeout_def)
qed

end
