(* ===== verification/LogWriter.thy ===== *)
theory LogWriter
  imports GoStrings
begin

text \<open>
  Model of \<open>pkg/log/std.go\<close>: the writer through which text of Go's own \<open>log\<close> package reaches the logger.  It
  splits the text into lines, keeps an incomplete line in a buffer, and takes the level of an entry from a
  bracketed word.  The zap logger below the writer is the parameter \<open>zapw\<close>; what it was given is recorded.
\<close>

section \<open>The writer\<close>

text \<open>
  \<open>lvl_Set\<close> parses a level, \<open>w_Enabled\<close> is \<open>Core().Enabled\<close>, and \<open>w_Entry\<close> is \<open>Check\<close> followed by \<open>Write\<close>: no
  entry, or what writing it ends with (entries of the panic level panic).
\<close>

record 'l zapw =
  lvl_Set :: "string \<Rightarrow> 'l option"
  w_Enabled :: "'l \<Rightarrow> bool"
  w_Entry :: "'l \<Rightarrow> string \<Rightarrow> unit outcome option"

record 'l Writer =
  w_Level :: 'l
  buff :: string
  logged :: "('l \<times> string) list"

definition newline :: char where "newline = CHR 0x0A"

definition IndexByte :: "string \<Rightarrow> char \<Rightarrow> nat option" where
  "IndexByte bs c = Index bs [c]"

definition Writer_Check :: "'l zapw \<Rightarrow> 'l Writer \<Rightarrow> string \<Rightarrow> 'l \<times> bool \<times> nat" where
  "Writer_Check z w bs =
     (case IndexByte bs (CHR ''['') of
        None \<Rightarrow> (w_Level w, False, 0)
      | Some x \<Rightarrow>
          (case IndexByte (drop x bs) (CHR '']'') of
             None \<Rightarrow> (w_Level w, False, 0)
           | Some y \<Rightarrow>
               (case lvl_Set z (drop (x + 1) (take (x + y) bs)) of
                  None \<Rightarrow> (w_Level w, True, x + y + 1)
                | Some lvl \<Rightarrow> (lvl, False, x + y + 1))))"

text \<open>The slice \<open>b[bodyidx:]\<close> panics when the index is beyond the end.\<close>

definition isSpace :: "char \<Rightarrow> bool" where
  "isSpace r \<longleftrightarrow> r = CHR '' ''"

definition Writer_log :: "'l zapw \<Rightarrow> string \<Rightarrow> 'l \<Rightarrow> nat \<Rightarrow> 'l Writer \<Rightarrow> 'l Writer \<times> unit outcome" where
  "Writer_log z b lvl bodyidx w =
     (if 0 < bodyidx \<and> length b < bodyidx then (w, Panic ''slice bounds out of range'')
      else
        (let msg = (if 0 < bodyidx then dropWhile isSpace (drop bodyidx b) else b) in
         case w_Entry z lvl msg of
           None \<Rightarrow> (w, Ret ())
         | Some r \<Rightarrow> (w\<lparr>logged := logged w @ [(lvl, msg)]\<rparr>, r)))"

definition Writer_flush :: "'l zapw \<Rightarrow> bool \<Rightarrow> 'l \<Rightarrow> nat \<Rightarrow> 'l Writer \<Rightarrow> 'l Writer \<times> unit outcome" where
  "Writer_flush z allowEmpty lvl bodyidx w =
     (if allowEmpty \<or> buff w \<noteq> [] then
        (case Writer_log z (buff w) lvl bodyidx w of
           (w', Ret u) \<Rightarrow> (w'\<lparr>buff := []\<rparr>, Ret u)
         | (w', r) \<Rightarrow> (w', r))
      else (w\<lparr>buff := []\<rparr>, Ret ()))"

definition writeLine :: "'l zapw \<Rightarrow> string \<Rightarrow> 'l \<Rightarrow> nat \<Rightarrow> 'l Writer \<Rightarrow> 'l Writer \<times> string outcome" where
  "writeLine z line lvl bodyidx w =
     (case IndexByte line newline of
        None \<Rightarrow> (w\<lparr>buff := buff w @ line\<rparr>, Ret [])
      | Some idx \<Rightarrow>
          (let remaining = drop (idx + 1) line; line = take idx line in
           if buff w = [] then
             (case Writer_log z line lvl bodyidx w of (w', r) \<Rightarrow> (w', go_bind r (\<lambda>_. Ret remaining)))
           else
             (let w = w\<lparr>buff := buff w @ line\<rparr>;
                  (lvl, bodyidx) = (if lvl = w_Level w then (case Writer_Check z w (buff w) of (l, _, i) \<Rightarrow> (l, i)) else (lvl, bodyidx)) in
              case Writer_flush z True lvl bodyidx w of (w', r) \<Rightarrow> (w', go_bind r (\<lambda>_. Ret remaining)))))"

lemma writeLine_shorter: "writeLine z line lvl i w = (w', Ret rest) \<Longrightarrow> line \<noteq> [] \<Longrightarrow> length rest < length line"
  by (auto simp: writeLine_def Let_def go_bind_Ret_iff split: option.splits prod.splits if_splits)

text \<open>The loop of \<open>Write\<close>; the level and the index of the message are those found in the whole text.\<close>

function write_loop :: "'l zapw \<Rightarrow> string \<Rightarrow> 'l \<Rightarrow> nat \<Rightarrow> 'l Writer \<Rightarrow> 'l Writer \<times> unit outcome" where
  "write_loop z bs lvl idx w =
     (if bs = [] then (w, Ret ())
      else
        (case writeLine z bs lvl idx w of
           (w', Ret rest) \<Rightarrow> write_loop z rest lvl idx w'
         | (w', Fail e) \<Rightarrow> (w', Fail e)
         | (w', Panic m) \<Rightarrow> (w', Panic m)))"
  by pat_completeness auto
termination
  by (relation "measure (\<lambda>(z, bs, lvl, idx, w). length bs)") (auto dest: writeLine_shorter [OF sym])

declare write_loop.simps [simp del]

definition Writer_Write :: "'l zapw \<Rightarrow> string \<Rightarrow> 'l Writer \<Rightarrow> 'l Writer \<times> nat outcome" where
  "Writer_Write z bs w =
     (case Writer_Check z w bs of
        (lvl, miss, idx) \<Rightarrow>
          if \<not> miss \<and> \<not> w_Enabled z lvl then (w, Ret (length bs))
          else (case write_loop z bs lvl idx w of (w', r) \<Rightarrow> (w', go_bind r (\<lambda>_. Ret (length bs)))))"

definition Writer_Sync :: "'l zapw \<Rightarrow> 'l Writer \<Rightarrow> 'l Writer \<times> unit outcome" where
  "Writer_Sync z w = Writer_flush z False (w_Level w) 0 w"

definition Writer_Close :: "'l zapw \<Rightarrow> 'l Writer \<Rightarrow> 'l Writer \<times> unit outcome" where
  "Writer_Close z w = Writer_Sync z w"

end
