(* ===== verification/LogWriterProps.thy ===== *)
theory LogWriterProps
  imports LogWriter
begin

text \<open>
  What the writer of \<open>pkg/log/std.go\<close> does with text: without brackets, entries are the lines of the text however
  it is cut into pieces; with a bracketed word, the first line is cut and its level taken; a shorter line after
  it makes the writer panic.
\<close>

section \<open>Text without brackets\<close>

text \<open>
  The lines of a text: the parts ended by a newline, and the last part unless it is empty.  \<open>text_end\<close> is the
  last part, \<open>text_lines\<close> the others.
\<close>

fun cut_lines :: "string \<Rightarrow> string \<Rightarrow> string list \<times> string" where
  "cut_lines acc [] = ([], acc)"
| "cut_lines acc (c # s) = (if c = newline then apfst ((#) acc) (cut_lines [] s) else cut_lines (acc @ [c]) s)"

definition text_lines :: "string \<Rightarrow> string list" where
  "text_lines s = (case cut_lines [] s of (ls, e) \<Rightarrow> ls @ (if e = [] then [] else [e]))"

lemma cut_lines_append:
  "cut_lines acc (s @ t) = (case cut_lines acc s of (ls, e) \<Rightarrow> apfst ((@) ls) (cut_lines e t))"
  by (induction acc s rule: cut_lines.induct) (auto simp: prod_eq_iff split: prod.splits)

lemma cut_lines_plain: "newline \<notin> set s \<Longrightarrow> cut_lines acc s = ([], acc @ s)"
  by (induction acc s rule: cut_lines.induct) auto

lemma cut_lines_line: "newline \<notin> set s \<Longrightarrow> cut_lines acc (s @ newline # t) = apfst ((#) (acc @ s)) (cut_lines [] t)"
  by (simp add: cut_lines_append cut_lines_plain apfst_compose comp_def prod_eq_iff)

lemma Check_plain: "CHR ''['' \<notin> set bs \<Longrightarrow> Writer_Check z w bs = (w_Level w, False, 0)"
  by (simp add: Writer_Check_def IndexByte_def Index_char_None [THEN iffD2])

lemma IndexByte_split: "IndexByte s c = Some i \<Longrightarrow> s = take i s @ c # drop (i + 1) s \<and> c \<notin> set (take i s)"
  unfolding IndexByte_def
proof (induction s arbitrary: i)
  case (Cons a s)
  then show ?case by (cases i) (auto split: if_splits)
qed simp

text \<open>A logger that takes every entry of the level.\<close>

definition takes_all :: "'l zapw \<Rightarrow> 'l \<Rightarrow> bool" where
  "takes_all z l \<longleftrightarrow> w_Enabled z l \<and> (\<forall>m. w_Entry z l m = Some (Ret ()))"

lemma Writer_log_plain: "takes_all z l \<Longrightarrow> Writer_log z b l 0 w = (w\<lparr>logged := logged w @ [(l, b)]\<rparr>, Ret ())"
  by (simp add: Writer_log_def takes_all_def)

lemma writeLine_plain:
  assumes "takes_all z (w_Level w)" "IndexByte bs newline = Some i" "CHR ''['' \<notin> set (buff w @ take i bs)"
  shows "writeLine z bs (w_Level w) 0 w =
    (w\<lparr>buff := [], logged := logged w @ [(w_Level w, buff w @ take i bs)]\<rparr>, Ret (drop (i + 1) bs))"
proof (cases "buff w = []")
  case True
  have "w\<lparr>buff := [], logged := x\<rparr> = w\<lparr>logged := x\<rparr>" for x using True by (cases w) simp
  with True show ?thesis using assms by (simp add: writeLine_def Writer_log_plain)
next
  case False
  then show ?thesis using assms(1,2) by (simp add: Check_plain [OF assms(3)] writeLine_def Writer_flush_def Writer_log_plain Let_def)
qed

lemma cut_lines_end: "set (snd (cut_lines acc s)) \<subseteq> set acc \<union> set s"
  by (induction acc s rule: cut_lines.induct) auto

lemma writeLine_head:
  assumes "newline \<notin> set s" "buff w = []"
  shows "writeLine z (s @ newline # t) lvl i w = (case Writer_log z s lvl i w of (w', r) \<Rightarrow> (w', go_bind r (\<lambda>_. Ret t)))"
  using Index_append_sep [OF assms(1), of t] assms(2) by (simp add: writeLine_def IndexByte_def)

lemma write_loop_plain:
  assumes "takes_all z (w_Level w)" "CHR ''['' \<notin> set bs" "CHR ''['' \<notin> set (buff w)"
  shows "write_loop z bs (w_Level w) 0 w =
    (case cut_lines (buff w) bs of (ls, e) \<Rightarrow> (w\<lparr>buff := e, logged := logged w @ map (Pair (w_Level w)) ls\<rparr>, Ret ()))"
  using assms
proof (induction "length bs" arbitrary: bs w rule: less_induct)
  case less
  show ?case
  proof (cases "bs = []")
    case True
    then show ?thesis by (simp add: write_loop.simps)
  next
    case False
    show ?thesis
    proof (cases "IndexByte bs newline")
      case None
      then have "newline \<notin> set bs" by (simp add: IndexByte_def Index_char_None)
      with False None show ?thesis
        by (simp add: write_loop.simps [of z bs] write_loop.simps [of z "[]"] writeLine_def cut_lines_plain)
    next
      case (Some i)
      let ?w = "w\<lparr>buff := [], logged := logged w @ [(w_Level w, buff w @ take i bs)]\<rparr>"
      have bs: "bs = take i bs @ newline # drop (i + 1) bs" and nl: "newline \<notin> set (take i bs)"
        using IndexByte_split [OF Some] by simp_all
      have line: "CHR ''['' \<notin> set (buff w @ take i bs)" using less.prems(2,3) by (auto dest: in_set_takeD)
      have "writeLine z bs (w_Level w) 0 w = (?w, Ret (drop (i + 1) bs))"
        by (rule writeLine_plain [OF less.prems(1) Some line])
      then have "write_loop z bs (w_Level w) 0 w = write_loop z (drop (i + 1) bs) (w_Level ?w) 0 ?w"
        using False by (simp add: write_loop.simps [of z bs])
      also have "\<dots> = (case cut_lines (buff ?w) (drop (i + 1) bs) of
          (ls, e) \<Rightarrow> (?w\<lparr>buff := e, logged := logged ?w @ map (Pair (w_Level ?w)) ls\<rparr>, Ret ()))"
      proof (rule less.hyps)
        show "length (drop (i + 1) bs) < length bs" using False by (cases bs) simp_all
      qed (use less.prems in \<open>auto dest: in_set_dropD\<close>)
      also have "\<dots> = (case cut_lines (buff w) (take i bs @ newline # drop (i + 1) bs) of
          (ls, e) \<Rightarrow> (w\<lparr>buff := e, logged := logged w @ map (Pair (w_Level w)) ls\<rparr>, Ret ()))"
        by (subst cut_lines_line [OF nl]) (simp split: prod.split)
      finally show ?thesis using bs by simp
    qed
  qed
qed

text \<open>
  C23: the writer does not depend on how a text is cut into writes.  For pieces without brackets, every write
  reports its full length, and after \<open>Sync\<close> the entries are the lines of the whole text, in order, at the
  writer's level; an incomplete last line is an entry if it is not empty.
\<close>

theorem writer_chunks:
  assumes "takes_all z l" "\<forall>c \<in> set cs. CHR ''['' \<notin> set c"
  shows "logged (fst (Writer_Sync z (fold (\<lambda>c w. fst (Writer_Write z c w)) cs \<lparr>w_Level = l, buff = [], logged = []\<rparr>)))
      = map (Pair l) (text_lines (concat cs))
    \<and> (\<forall>i < length cs. snd (Writer_Write z (cs ! i)
          (fold (\<lambda>c w. fst (Writer_Write z c w)) (take i cs) \<lparr>w_Level = l, buff = [], logged = []\<rparr>)) = Ret (length (cs ! i)))"
proof -
  let ?w0 = "\<lparr>w_Level = l, buff = [], logged = []\<rparr>" and ?run = "fold (\<lambda>c w. fst (Writer_Write z c w))"
  have step: "Writer_Write z c w = (case cut_lines (buff w) c of (ls, e) \<Rightarrow> (w\<lparr>buff := e, logged := logged w @ map (Pair l) ls\<rparr>, Ret (length c)))"
    if "w_Level w = l" "CHR ''['' \<notin> set c" "CHR ''['' \<notin> set (buff w)" for w c
    using write_loop_plain [of z w c] that assms(1) Check_plain [OF that(2), of z w]
    by (simp add: Writer_Write_def takes_all_def split: prod.split)
  have run: "?run cs' ?w0 = (case cut_lines [] (concat cs') of (ls, e) \<Rightarrow> \<lparr>w_Level = l, buff = e, logged = map (Pair l) ls\<rparr>)"
    if "set cs' \<subseteq> set cs" for cs'
    using that
  proof (induction cs' rule: rev_induct)
    case (snoc c cs')
    obtain ls e where p: "cut_lines [] (concat cs') = (ls, e)" by fastforce
    have "set e \<subseteq> set (concat cs')" using cut_lines_end [of "[]" "concat cs'"] p by simp
    then have "CHR ''['' \<notin> set e" using snoc.prems assms(2) by auto
    with snoc p assms(2) show ?case by (simp add: step cut_lines_append split: prod.split)
  qed simp
  have ok: "CHR ''['' \<notin> set (buff (?run (take i cs) ?w0))" for i
  proof -
    obtain ls e where p: "cut_lines [] (concat (take i cs)) = (ls, e)" by fastforce
    have "set e \<subseteq> set (concat (take i cs))" using cut_lines_end [of "[]" "concat (take i cs)"] p by simp
    then have "CHR ''['' \<notin> set e" using assms(2) by (auto dest: in_set_takeD)
    then show ?thesis using run [of "take i cs"] p by (simp add: set_take_subset)
  qed
  have lev: "w_Level (?run (take i cs) ?w0) = l" for i
    using run [of "take i cs"] by (simp add: set_take_subset split: prod.split)
  have "snd (Writer_Write z (cs ! i) (?run (take i cs) ?w0)) = Ret (length (cs ! i))" if "i < length cs" for i
    using step [OF lev _ ok, of "cs ! i" i] that assms(2) by (simp split: prod.split)
  moreover have "logged (fst (Writer_Sync z (?run cs ?w0))) = map (Pair l) (text_lines (concat cs))"
    using run [of cs] assms(1)
    by (simp add: Writer_Sync_def Writer_flush_def Writer_log_plain text_lines_def split: prod.split)
  ultimately show ?thesis by blast
qed

theorem writer_chunks_witness:
  "\<exists>z. logged (fst (Writer_Sync z (fold (\<lambda>c w. fst (Writer_Write z c w)) [''ab'', ''c'' @ [newline], ''d'']
      \<lparr>w_Level = (0::nat), buff = [], logged = []\<rparr>))) = [(0, ''abc''), (0, ''d'')]"
proof -
  let ?z = "\<lparr>lvl_Set = (\<lambda>_. None), w_Enabled = (\<lambda>_. True), w_Entry = (\<lambda>_ _. Some (Ret ()))\<rparr>"
  have "takes_all ?z (0::nat)" by (simp add: takes_all_def)
  moreover have "\<forall>c \<in> set [''ab'', ''c'' @ [newline], ''d'']. CHR ''['' \<notin> set c" by (simp add: newline_def)
  ultimately have "logged (fst (Writer_Sync ?z (fold (\<lambda>c w. fst (Writer_Write ?z c w)) [''ab'', ''c'' @ [newline], ''d'']
      \<lparr>w_Level = (0::nat), buff = [], logged = []\<rparr>))) = map (Pair 0) (text_lines (concat [''ab'', ''c'' @ [newline], ''d'']))"
    by (rule conjunct1 [OF writer_chunks])
  also have "text_lines (concat [''ab'', ''c'' @ [newline], ''d'']) = [''abc'', ''d'']"
    by (simp add: text_lines_def newline_def)
  finally show ?thesis by (intro exI [of _ ?z]) simp
qed

section \<open>Text with a bracketed word\<close>

lemma Writer_Check_bracket:
  assumes "CHR ''['' \<notin> set pre" "CHR '']'' \<notin> set word"
  shows "Writer_Check z w (pre @ ''['' @ word @ '']'' @ t)
    = (case lvl_Set z word of None \<Rightarrow> w_Level w | Some l \<Rightarrow> l, lvl_Set z word = None, length pre + length word + 2)"
proof -
  have "IndexByte (pre @ ''['' @ word @ '']'' @ t) (CHR ''['') = Some (length pre)"
    using Index_append_sep [OF assms(1)] by (simp add: IndexByte_def)
  moreover have "IndexByte (drop (length pre) (pre @ ''['' @ word @ '']'' @ t)) (CHR '']'') = Some (length word + 1)"
    using Index_append_sep [of "CHR '']''" "''['' @ word"] assms(2) by (simp add: IndexByte_def)
  ultimately show ?thesis by (simp add: Writer_Check_def split: option.split)
qed

text \<open>
  A single line with a bracketed word.  The entry has the level that the word names, or the writer's level if
  it names none, and its message is what follows the bracket, without leading spaces; what stands before the
  bracket, and the word itself, are not logged.
\<close>

theorem writer_bracket_line:
  assumes "buff w = []" "CHR ''['' \<notin> set pre" "CHR '']'' \<notin> set word"
    and "newline \<notin> set (pre @ word @ rest)" "l = (case lvl_Set z word of None \<Rightarrow> w_Level w | Some l \<Rightarrow> l)" "takes_all z l"
  shows "Writer_Write z (pre @ ''['' @ word @ '']'' @ rest @ [newline]) w
    = (w\<lparr>logged := logged w @ [(l, dropWhile isSpace rest)]\<rparr>, Ret (length pre + length word + length rest + 3))"
proof -
  let ?body = "pre @ ''['' @ word @ '']'' @ rest" and ?i = "length pre + length word + 2"
  have check: "Writer_Check z w (?body @ [newline]) = (l, lvl_Set z word = None, ?i)"
    using Writer_Check_bracket [OF assms(2,3), of z w "rest @ [newline]"] by (simp add: assms(5) split: option.split)
  have nl: "newline \<notin> set ?body" using assms(4) by (auto simp: newline_def)
  have "writeLine z (?body @ [newline]) l ?i w = (w\<lparr>logged := logged w @ [(l, dropWhile isSpace rest)]\<rparr>, Ret [])"
    unfolding writeLine_head [OF nl assms(1)] using assms(6) by (simp add: Writer_log_def takes_all_def)
  then have "write_loop z (?body @ [newline]) l ?i w = (w\<lparr>logged := logged w @ [(l, dropWhile isSpace rest)]\<rparr>, Ret ())"
    by (subst write_loop.simps) (simp add: write_loop.simps [of z "[]"])
  with check show ?thesis using assms(6) by (simp add: Writer_Write_def takes_all_def)
qed


theorem writer_bracket_line_witness:
  "\<exists>z. Writer_Write z (''http: '' @ ''['' @ ''::1'' @ '']'' @ '' refused'' @ [newline]) \<lparr>w_Level = (0::nat), buff = [], logged = []\<rparr>
    = (\<lparr>w_Level = 0, buff = [], logged = [(0, ''refused'')]\<rparr>, Ret 20)"
proof -
  let ?z = "\<lparr>lvl_Set = (\<lambda>_. None), w_Enabled = (\<lambda>_. True), w_Entry = (\<lambda>_ _. Some (Ret ()))\<rparr>" and
    ?w = "\<lparr>w_Level = (0::nat), buff = [], logged = []\<rparr>"
  have "takes_all ?z (0::nat)" by (simp add: takes_all_def)
  then have "Writer_Write ?z (''http: '' @ ''['' @ ''::1'' @ '']'' @ '' refused'' @ [newline]) ?w
      = (?w\<lparr>logged := logged ?w @ [(0, dropWhile isSpace '' refused'')]\<rparr>, Ret (length ''http: '' + length ''::1'' + length '' refused'' + 3))"
    by (intro writer_bracket_line) (simp_all add: newline_def)
  then show ?thesis by (intro exI [of _ ?z]) (simp add: isSpace_def)
qed

text \<open>
  two lines in one write.  The index of the message was found in the first line but cuts every line of the
  write: if the second line is shorter than the text up to the bracket, the writer panics after the first
  entry.
\<close>

theorem writer_short_line_panics:
  assumes "buff w = []" "CHR ''['' \<notin> set pre" "CHR '']'' \<notin> set word"
    and "newline \<notin> set (pre @ word @ rest)" "lvl_Set z word = Some l" "takes_all z l"
    and "newline \<notin> set short" "length short < length pre + length word + 2"
  shows "Writer_Write z ((pre @ ''['' @ word @ '']'' @ rest) @ newline # short @ [newline]) w
    = (w\<lparr>logged := logged w @ [(l, dropWhile isSpace rest)]\<rparr>, Panic ''slice bounds out of range'')"
proof -
  let ?body = "pre @ ''['' @ word @ '']'' @ rest" and ?i = "length pre + length word + 2"
    and ?w = "w\<lparr>logged := logged w @ [(l, dropWhile isSpace rest)]\<rparr>"
  have check: "Writer_Check z w (?body @ newline # short @ [newline]) = (l, False, ?i)"
    using Writer_Check_bracket [OF assms(2,3), of z w "rest @ newline # short @ [newline]"] assms(5) by simp
  have nl: "newline \<notin> set ?body" using assms(4) by (auto simp: newline_def)
  have "writeLine z (?body @ newline # short @ [newline]) l ?i w = (?w, Ret (short @ [newline]))"
    unfolding writeLine_head [OF nl assms(1)] using assms(6) by (simp add: Writer_log_def takes_all_def)
  moreover have "writeLine z (short @ [newline]) l ?i ?w = (?w, Panic ''slice bounds out of range'')"
    using assms(1,8) by (simp add: writeLine_head [OF assms(7)] Writer_log_def)
  ultimately have "write_loop z (?body @ newline # short @ [newline]) l ?i w = (?w, Panic ''slice bounds out of range'')"
    by (subst write_loop.simps, subst write_loop.simps) simp
  with check show ?thesis using assms(6) by (simp add: Writer_Write_def takes_all_def)
qed

theorem writer_short_line_panics_witness:
  "\<exists>z. snd (Writer_Write z ((''[error]'' @ '' x'') @ newline # ''y'' @ [newline]) \<lparr>w_Level = (0::nat), buff = [], logged = []\<rparr>)
    = Panic ''slice bounds out of range''"
proof -
  let ?z = "\<lparr>lvl_Set = (\<lambda>_. Some 2), w_Enabled = (\<lambda>_. True), w_Entry = (\<lambda>_ _. Some (Ret ()))\<rparr>" and
    ?w = "\<lparr>w_Level = (0::nat), buff = [], logged = []\<rparr>"
  have "takes_all ?z (2::nat)" by (simp add: takes_all_def)
  then have "Writer_Write ?z (([] @ ''['' @ ''error'' @ '']'' @ '' x'') @ newline # ''y'' @ [newline]) ?w
      = (?w\<lparr>logged := logged ?w @ [(2, dropWhile isSpace '' x'')]\<rparr>, Panic ''slice bounds out of range'')"
    by (intro writer_short_line_panics) (simp_all add: newline_def)
  then show ?thesis by (intro exI [of _ ?z]) simp
qed

end
