(* ===== verification/LogComp.thy ===== *)
theory LogComp
  imports Prelude
begin

text \<open>
  Model of \<open>pkg/log/logger.go\<close> and \<open>component.go\<close>: loggers, the global logger, and components that follow it
  or have a logger of their own, with the pooled loggers that carry a context.  Loggers and pooled objects
  are shared by pointer, so they are objects of a store, named by their position in it.
\<close>

section \<open>Loggers\<close>

text \<open>
  The zap library: \<open>'z\<close> are its loggers, \<open>'f\<close> its fields, \<open>'o\<close> its options.  \<open>z_Log\<close> is what writing an entry
  ends with.  \<open>c_LogFields\<close> are the fields that a context logger set by the user logs for those it is given.
\<close>

datatype 'c ctxlogger = DefaultContextLogger | UserContextLogger 'c

record ('z, 'c) Logger =
  zap :: 'z
  lg_WithTraceID :: bool
  lg_TraceIDKey :: string
  contextLogger :: "'c ctxlogger"
  logLevels :: "nat list"

record ('z, 'f, 'o, 'c, 'x) zapenv =
  z_nil :: 'z
  z_NewProduction :: "'o list \<Rightarrow> 'z"
  z_With :: "'f list \<Rightarrow> 'z \<Rightarrow> 'z"
  z_WithOptions :: "'o list \<Rightarrow> 'z \<Rightarrow> 'z"
  z_Log :: "'z \<Rightarrow> int \<Rightarrow> string \<Rightarrow> 'f list \<Rightarrow> unit outcome"
  z_String :: "string \<Rightarrow> string \<Rightarrow> 'f"
  z_AddCallerSkip :: "nat \<Rightarrow> 'o"
  c_LogFields :: "'c \<Rightarrow> ('z, 'c) Logger \<Rightarrow> 'x option \<Rightarrow> int \<Rightarrow> string \<Rightarrow> 'f list \<Rightarrow> 'f list"

definition CallerSkip :: nat where "CallerSkip = 1"
definition TraceIDKey :: string where "TraceIDKey = ''trace_id''"
definition ComponentKey :: string where "ComponentKey = ''component''"

record 'f component =
  cp_logger :: "nat option"
  cp_l :: "nat option"
  cp_cl :: "nat option"
  builtInFields :: "'f list"
  useGlobal :: bool

record 'x LoggerWithCtx =
  lc_ctx :: "'x option"
  lc_l :: "nat option"

text \<open>
  The package's variables: all loggers, the global one, the components by name, the logger that zap has as its
  global one, the values of the levels that loggers share, the pool, and the entries written, each with the
  zap logger it went to.
\<close>

record ('z, 'f, 'c, 'x) log_state =
  loggers :: "('z, 'c) Logger list"
  global :: "nat option"
  globalComponent :: "'f component"
  components :: "string \<Rightarrow> 'f component option"
  zapGlobal :: "'z option"
  levels :: "int list"
  withctx :: "'x LoggerWithCtx list"
  ctx_pool :: "nat list"
  written :: "('z \<times> int \<times> string \<times> 'f list) list"

type_synonym ('z, 'f, 'c, 'x, 'a) logop = "('z, 'f, 'c, 'x) log_state \<Rightarrow> ('z, 'f, 'c, 'x) log_state \<times> 'a"

definition new_logger :: "('z, 'c) Logger \<Rightarrow> ('z, 'f, 'c, 'x, nat) logop" where
  "new_logger lg st = (st\<lparr>loggers := loggers st @ [lg]\<rparr>, length (loggers st))"

definition New_log :: "'z \<Rightarrow> ('z, 'f, 'c, 'x, nat) logop" where
  "New_log zl = new_logger \<lparr>zap = zl, lg_WithTraceID = False, lg_TraceIDKey = TraceIDKey, contextLogger = DefaultContextLogger, logLevels = []\<rparr>"

definition Logger_With :: "('z, 'f, 'o, 'c, 'x) zapenv \<Rightarrow> nat \<Rightarrow> 'f list \<Rightarrow> ('z, 'f, 'c, 'x, nat) logop" where
  "Logger_With e l flds st = new_logger ((loggers st ! l)\<lparr>zap := z_With e flds (zap (loggers st ! l))\<rparr>) st"

definition Logger_WithOptions :: "('z, 'f, 'o, 'c, 'x) zapenv \<Rightarrow> nat \<Rightarrow> 'o list \<Rightarrow> ('z, 'f, 'c, 'x, nat) logop" where
  "Logger_WithOptions e l opts st = new_logger ((loggers st ! l)\<lparr>zap := z_WithOptions e opts (zap (loggers st ! l))\<rparr>) st"

definition SetContextLogger :: "nat \<Rightarrow> 'c ctxlogger \<Rightarrow> ('z, 'f, 'c, 'x) log_state \<Rightarrow> ('z, 'f, 'c, 'x) log_state" where
  "SetContextLogger l f st = st\<lparr>loggers := (loggers st)[l := (loggers st ! l)\<lparr>contextLogger := f\<rparr>]\<rparr>"

definition ContextLogger :: "nat \<Rightarrow> ('z, 'f, 'c, 'x) log_state \<Rightarrow> 'c ctxlogger" where
  "ContextLogger l st = contextLogger (loggers st ! l)"

text \<open>\<open>ParseLevel\<close> of zap is a parameter; the levels of a logger's cores are shared with those made from it.\<close>

definition SetLevel :: "(string \<Rightarrow> int outcome) \<Rightarrow> nat \<Rightarrow> string \<Rightarrow> ('z, 'f, 'c, 'x, unit outcome) logop" where
  "SetLevel ParseLevel l lvl st =
     (case ParseLevel lvl of
        Ret level \<Rightarrow> (st\<lparr>levels := fold (\<lambda>i ls. ls[i := level]) (logLevels (loggers st ! l)) (levels st)\<rparr>, Ret ())
      | Fail err \<Rightarrow> (st, Fail err)
      | Panic m \<Rightarrow> (st, Panic m))"

section \<open>Components\<close>

definition SetLogger :: "('z, 'f, 'o, 'c, 'x) zapenv \<Rightarrow> 'f component \<Rightarrow> nat \<Rightarrow> ('z, 'f, 'c, 'x, 'f component) logop" where
  "SetLogger e c logger st =
     (let c = c\<lparr>useGlobal := (Some logger = global st)\<rparr> in
      if cp_logger c \<noteq> Some logger then
        (case Logger_With e logger (builtInFields c) st of
           (st, l) \<Rightarrow>
             (case Logger_WithOptions e l [z_AddCallerSkip e (CallerSkip + 1)] st of
                (st, cl) \<Rightarrow> (st, c\<lparr>cp_logger := Some logger, cp_l := Some l, cp_cl := Some cl\<rparr>)))
      else (st, c))"

definition Component_Init :: "('z, 'f, 'o, 'c, 'x) zapenv \<Rightarrow> 'f component \<Rightarrow> ('z, 'f, 'c, 'x, 'f component) logop" where
  "Component_Init e c st = (if cp_logger c = None then SetLogger e c (the (global st)) st else (st, c))"

definition Component :: "('z, 'f, 'o, 'c, 'x) zapenv \<Rightarrow> string \<Rightarrow> 'f list \<Rightarrow> ('z, 'f, 'c, 'x, 'f component) logop" where
  "Component e name flds st =
     (case components st name of
        Some cData \<Rightarrow> (st, cData)
      | None \<Rightarrow>
          (case Component_Init e \<lparr>cp_logger = None, cp_l = None, cp_cl = None,
                  builtInFields = flds @ [z_String e ComponentKey name], useGlobal = True\<rparr> st of
             (st, c) \<Rightarrow> (st\<lparr>components := (components st)(name \<mapsto> c)\<rparr>, c)))"

text \<open>A component is a pointer: \<open>SetLogger\<close> called on the component of a name changes it for all who hold it.\<close>

definition Component_SetLogger :: "('z, 'f, 'o, 'c, 'x) zapenv \<Rightarrow> string \<Rightarrow> nat \<Rightarrow> ('z, 'f, 'c, 'x) log_state \<Rightarrow> ('z, 'f, 'c, 'x) log_state" where
  "Component_SetLogger e name logger st =
     (case components st name of
        None \<Rightarrow> st
      | Some c \<Rightarrow> (case SetLogger e c logger st of (st, c) \<Rightarrow> st\<lparr>components := (components st)(name \<mapsto> c)\<rparr>))"

text \<open>\<open>order\<close> is the order in which the loop ranges over the map.\<close>

definition follow_global :: "('z, 'f, 'o, 'c, 'x) zapenv \<Rightarrow> nat \<Rightarrow> string \<Rightarrow> ('z, 'f, 'c, 'x) log_state \<Rightarrow> ('z, 'f, 'c, 'x) log_state" where
  "follow_global e l name st =
     (case components st name of
        None \<Rightarrow> st
      | Some cp \<Rightarrow> if useGlobal cp then Component_SetLogger e name l st else st)"

definition Logger_AsGlobal :: "('z, 'f, 'o, 'c, 'x) zapenv \<Rightarrow> string list \<Rightarrow> nat \<Rightarrow> ('z, 'f, 'c, 'x) log_state \<Rightarrow> ('z, 'f, 'c, 'x) log_state" where
  "Logger_AsGlobal e order l st =
     (case SetLogger e (globalComponent st) l (st\<lparr>global := Some l\<rparr>) of
        (st, gc) \<Rightarrow>
          (let st = fold (follow_global e l) order (st\<lparr>globalComponent := gc\<rparr>) in
           st\<lparr>zapGlobal := map_option (\<lambda>g. zap (loggers st ! g)) (global st)\<rparr>))"

definition InitGlobalLogger :: "('z, 'f, 'o, 'c, 'x) zapenv \<Rightarrow> string list \<Rightarrow> ('z, 'f, 'c, 'x) log_state \<Rightarrow> ('z, 'f, 'c, 'x) log_state" where
  "InitGlobalLogger e order st =
     (case New_log (z_NewProduction e [z_AddCallerSkip e CallerSkip]) st of (st, l) \<Rightarrow> Logger_AsGlobal e order l st)"

text \<open>The state after \<open>init\<close>.\<close>

definition log_init :: "('z, 'f, 'o, 'c, 'x) zapenv \<Rightarrow> ('z, 'f, 'c, 'x) log_state" where
  "log_init e = InitGlobalLogger e []
     \<lparr>loggers = [], global = None,
      globalComponent = \<lparr>cp_logger = None, cp_l = None, cp_cl = None, builtInFields = [], useGlobal = True\<rparr>,
      components = Map.empty, zapGlobal = None, levels = [], withctx = [], ctx_pool = [], written = []\<rparr>"

text \<open>
  \<open>Apply\<close> with what its configuration has been read and built to: the zap logger, the levels of its cores, and
  the settings of trace identifiers.
\<close>

record 'z log_config =
  cf_zap :: "'z outcome"
  cf_levels :: "int list"
  cf_WithTraceID :: bool
  cf_TraceIDKey :: string

definition Logger_Apply :: "'z log_config \<Rightarrow> nat \<Rightarrow> ('z, 'f, 'c, 'x, unit outcome) logop" where
  "Logger_Apply config l st =
     (case cf_zap config of
        Ret zl \<Rightarrow>
          (let lg = (loggers st ! l)\<lparr>logLevels := [length (levels st)..<length (levels st) + length (cf_levels config)],
                      zap := zl, lg_WithTraceID := cf_WithTraceID config\<rparr>;
               lg = (if cf_TraceIDKey config \<noteq> [] then lg\<lparr>lg_TraceIDKey := cf_TraceIDKey config\<rparr> else lg) in
           (st\<lparr>levels := levels st @ cf_levels config, loggers := (loggers st)[l := lg]\<rparr>, Ret ()))
      | Fail err \<Rightarrow> (st, Panic ''apply log configuration err'')
      | Panic m \<Rightarrow> (st, Panic m))"

definition NewFromConf_log :: "('z, 'f, 'o, 'c, 'x) zapenv \<Rightarrow> 'z log_config \<Rightarrow> ('z, 'f, 'c, 'x, nat outcome) logop" where
  "NewFromConf_log e cfg st =
     (case New_log (z_nil e) st of
        (st, l) \<Rightarrow> (case Logger_Apply cfg l st of (st, r) \<Rightarrow> (st, go_bind r (\<lambda>_. Ret l))))"

section \<open>Entries\<close>

definition write_entry :: "('z, 'f, 'o, 'c, 'x) zapenv \<Rightarrow> 'z \<Rightarrow> int \<Rightarrow> string \<Rightarrow> 'f list \<Rightarrow> ('z, 'f, 'c, 'x, unit outcome) logop" where
  "write_entry e zl lvl msg flds st = (st\<lparr>written := written st @ [(zl, lvl, msg, flds)]\<rparr>, z_Log e zl lvl msg flds)"

abbreviation nil_deref :: "'a outcome" where
  "nil_deref \<equiv> Panic ''nil pointer dereference''"

text \<open>\<open>Debug\<close> to \<open>Fatal\<close> of a component, by their level.\<close>

definition component_log :: "('z, 'f, 'o, 'c, 'x) zapenv \<Rightarrow> 'f component \<Rightarrow> int \<Rightarrow> string \<Rightarrow> 'f list \<Rightarrow> ('z, 'f, 'c, 'x, unit outcome) logop" where
  "component_log e c lvl msg flds st =
     (case cp_l c of None \<Rightarrow> (st, nil_deref) | Some l \<Rightarrow> write_entry e (zap (loggers st ! l)) lvl msg flds st)"

text \<open>
  \<open>Debug\<close> to \<open>Fatal\<close> of the package, which write through the global logger; \<open>msg\<close> is the message that the sugared
  logger of zap makes of the arguments.
\<close>

definition package_log :: "('z, 'f, 'o, 'c, 'x) zapenv \<Rightarrow> int \<Rightarrow> string \<Rightarrow> ('z, 'f, 'c, 'x, unit outcome) logop" where
  "package_log e lvl msg st =
     (case global st of None \<Rightarrow> (st, nil_deref) | Some g \<Rightarrow> write_entry e (zap (loggers st ! g)) lvl msg [] st)"

datatype logger_option = WithOriginalLogger | WithContextLogger

definition Component_Logger :: "logger_option list \<Rightarrow> 'f component \<Rightarrow> nat option" where
  "Component_Logger opts c =
     (if WithContextLogger \<in> set opts then cp_cl c else if WithOriginalLogger \<in> set opts then cp_logger c else cp_l c)"

section \<open>Loggers with a context\<close>

text \<open>\<open>pick\<close> is the object that the pool gives, or \<open>None\<close> if it makes a new one, as a pool may always do.\<close>

definition GetLoggerWithCtx :: "nat option \<Rightarrow> 'x option \<Rightarrow> nat option \<Rightarrow> ('z, 'f, 'c, 'x, nat) logop" where
  "GetLoggerWithCtx pick ctx l st =
     (case pick of
        Some a \<Rightarrow> (st\<lparr>ctx_pool := remove1 a (ctx_pool st), withctx := (withctx st)[a := \<lparr>lc_ctx = ctx, lc_l = l\<rparr>]\<rparr>, a)
      | None \<Rightarrow> (st\<lparr>withctx := withctx st @ [\<lparr>lc_ctx = ctx, lc_l = l\<rparr>]\<rparr>, length (withctx st)))"

definition PutLoggerWithCtx :: "nat \<Rightarrow> ('z, 'f, 'c, 'x) log_state \<Rightarrow> ('z, 'f, 'c, 'x) log_state" where
  "PutLoggerWithCtx lc st =
     st\<lparr>withctx := (withctx st)[lc := \<lparr>lc_ctx = None, lc_l = None\<rparr>], ctx_pool := lc # ctx_pool st\<rparr>"

definition Logger_Ctx :: "nat option \<Rightarrow> 'x \<Rightarrow> nat \<Rightarrow> ('z, 'f, 'c, 'x, nat) logop" where
  "Logger_Ctx pick ctx l = GetLoggerWithCtx pick (Some ctx) (Some l)"

definition Component_Ctx :: "nat option \<Rightarrow> 'x \<Rightarrow> 'f component \<Rightarrow> ('z, 'f, 'c, 'x, nat) logop" where
  "Component_Ctx pick ctx c = GetLoggerWithCtx pick (Some ctx) (cp_cl c)"

definition LogFields :: "('z, 'f, 'o, 'c, 'x) zapenv \<Rightarrow> nat \<Rightarrow> 'x option \<Rightarrow> int \<Rightarrow> string \<Rightarrow> 'f list \<Rightarrow> ('z, 'f, 'c, 'x, unit outcome) logop" where
  "LogFields e l ctx lvl msg flds st =
     (let lg = loggers st ! l;
          flds = (case contextLogger lg of DefaultContextLogger \<Rightarrow> flds | UserContextLogger c \<Rightarrow> c_LogFields e c lg ctx lvl msg flds) in
      write_entry e (zap lg) lvl msg flds st)"

text \<open>The deferred call puts the object back also when the logger is nil and the call panics.\<close>

definition logFields :: "('z, 'f, 'o, 'c, 'x) zapenv \<Rightarrow> nat \<Rightarrow> int \<Rightarrow> string \<Rightarrow> 'f list \<Rightarrow> ('z, 'f, 'c, 'x, unit outcome) logop" where
  "logFields e lc lvl msg flds st =
     (let c = withctx st ! lc in
      case (case lc_l c of
              None \<Rightarrow> (st, nil_deref)
            | Some l \<Rightarrow> LogFields e l (lc_ctx c) lvl msg flds st) of
        (st, r) \<Rightarrow> (PutLoggerWithCtx lc st, r))"

definition WithCtx_WithOptions :: "('z, 'f, 'o, 'c, 'x) zapenv \<Rightarrow> nat \<Rightarrow> 'o list \<Rightarrow> ('z, 'f, 'c, 'x, unit outcome) logop" where
  "WithCtx_WithOptions e lc opts st =
     (case lc_l (withctx st ! lc) of
        None \<Rightarrow> (st, nil_deref)
      | Some l \<Rightarrow>
          (case Logger_WithOptions e l opts st of
             (st, l') \<Rightarrow> (st\<lparr>withctx := (withctx st)[lc := (withctx st ! lc)\<lparr>lc_l := Some l'\<rparr>]\<rparr>, Ret ())))"

end
