(* ===== verification/LogCompProps.thy ===== *)
theory LogCompProps
  imports LogComp
begin

text \<open>
  What components and pooled loggers promise: a component without a logger of its own writes through the global
  logger with its own fields, whatever was replaced before; and the entry of a logger with a context has that
  context, whichever object the pool gave for it.
\<close>

section \<open>Components follow the global logger\<close>

text \<open>Loggers are only added, and those that exist keep their zap logger.\<close>

definition grows :: "('z, 'f, 'c, 'x) log_state \<Rightarrow> ('z, 'f, 'c, 'x) log_state \<Rightarrow> bool" where
  "grows st st' \<longleftrightarrow> length (loggers st) \<le> length (loggers st')
     \<and> (\<forall>i < length (loggers st). zap (loggers st' ! i) = zap (loggers st ! i))"

lemma grows_refl [simp]: "loggers st' = loggers st \<Longrightarrow> grows st st'"
  by (simp add: grows_def)

lemma grows_trans: "grows a b \<Longrightarrow> grows b c \<Longrightarrow> grows a c"
  by (simp add: grows_def)

lemma grows_add: "loggers st' = loggers st @ xs \<Longrightarrow> grows st st'"
  by (simp add: grows_def nth_append)

definition added :: "('z, 'f, 'c, 'x) log_state \<Rightarrow> ('z, 'f, 'c, 'x) log_state \<Rightarrow> bool" where
  "added st st' \<longleftrightarrow> (\<exists>xs. st' = st\<lparr>loggers := loggers st @ xs\<rparr>)"

lemma added_refl [simp]: "added st st"
  unfolding added_def by (rule exI [of _ "[]"]) simp

lemma added_grows: "added st st' \<Longrightarrow> grows st st'"
  unfolding added_def by (erule exE) (rule grows_add, simp)

lemma added_same: "added st st' \<Longrightarrow> global st' = global st \<and> globalComponent st' = globalComponent st
    \<and> components st' = components st \<and> zapGlobal st' = zapGlobal st"
  by (auto simp: added_def)

definition built :: "('z, 'f, 'o, 'c, 'x) zapenv \<Rightarrow> ('z, 'f, 'c, 'x) log_state \<Rightarrow> 'f component \<Rightarrow> bool" where
  "built e st c \<longleftrightarrow> (\<exists>a b d. cp_logger c = Some a \<and> cp_l c = Some b \<and> cp_cl c = Some d
     \<and> a < length (loggers st) \<and> b < length (loggers st) \<and> d < length (loggers st)
     \<and> zap (loggers st ! b) = z_With e (builtInFields c) (zap (loggers st ! a))
     \<and> zap (loggers st ! d) = z_WithOptions e [z_AddCallerSkip e (CallerSkip + 1)] (zap (loggers st ! b)))"

lemma built_grows:
  assumes "built e st c" "grows st st'"
  shows "built e st' c"
proof -
  from assms(1) obtain a b d where c: "cp_logger c = Some a" "cp_l c = Some b" "cp_cl c = Some d"
    and i: "a < length (loggers st)" "b < length (loggers st)" "d < length (loggers st)"
    and z: "zap (loggers st ! b) = z_With e (builtInFields c) (zap (loggers st ! a))"
    "zap (loggers st ! d) = z_WithOptions e [z_AddCallerSkip e (CallerSkip + 1)] (zap (loggers st ! b))"
    unfolding built_def by blast
  have "i < length (loggers st') \<and> zap (loggers st' ! i) = zap (loggers st ! i)" if "i < length (loggers st)" for i
    using that assms(2) by (auto simp: grows_def)
  with i have "a < length (loggers st')" "b < length (loggers st')" "d < length (loggers st')"
    "zap (loggers st' ! a) = zap (loggers st ! a)" "zap (loggers st' ! b) = zap (loggers st ! b)" "zap (loggers st' ! d) = zap (loggers st ! d)"
    by blast+
  with c z show ?thesis unfolding built_def by simp
qed

lemma SetLogger_spec:
  assumes "SetLogger e c l st = (st', c')" "l < length (loggers st)" "cp_logger c = None \<or> built e st c"
  shows "built e st' c' \<and> cp_logger c' = Some l \<and> useGlobal c' = (Some l = global st) \<and> builtInFields c' = builtInFields c
    \<and> added st st'"
proof (cases "cp_logger c = Some l")
  case True
  then have "st' = st" "c' = c\<lparr>useGlobal := (Some l = global st)\<rparr>"
    using assms(1) by (auto simp: SetLogger_def Let_def)
  then show ?thesis using True assms(3) by (auto simp: built_def)
next
  case False
  then obtain lg lg' where st': "st' = st\<lparr>loggers := loggers st @ [lg, lg']\<rparr>"
    and c': "c' = c\<lparr>useGlobal := (Some l = global st), cp_logger := Some l, cp_l := Some (length (loggers st)), cp_cl := Some (Suc (length (loggers st)))\<rparr>"
    and "zap lg = z_With e (builtInFields c) (zap (loggers st ! l))" "zap lg' = z_WithOptions e [z_AddCallerSkip e (CallerSkip + 1)] (zap lg)"
    using assms(1) by (auto simp: SetLogger_def Let_def Logger_With_def Logger_WithOptions_def new_logger_def)
  then have "built e st' c'" using assms(2) unfolding built_def by (simp add: nth_append)
  then show ?thesis using st' c' by (auto simp: added_def)
qed

text \<open>The invariant, and the part of it that a change of the global logger keeps.\<close>

definition all_built :: "('z, 'f, 'o, 'c, 'x) zapenv \<Rightarrow> ('z, 'f, 'c, 'x) log_state \<Rightarrow> bool" where
  "all_built e st \<longleftrightarrow> built e st (globalComponent st) \<and> (\<forall>n c. components st n = Some c \<longrightarrow> built e st c)"

definition follows :: "('z, 'f, 'c, 'x) log_state \<Rightarrow> 'f component \<Rightarrow> bool" where
  "follows st c \<longleftrightarrow> (useGlobal c \<longrightarrow> cp_logger c = global st)"

definition log_inv :: "('z, 'f, 'o, 'c, 'x) zapenv \<Rightarrow> ('z, 'f, 'c, 'x) log_state \<Rightarrow> bool" where
  "log_inv e st \<longleftrightarrow> all_built e st \<and> (\<exists>g. global st = Some g \<and> g < length (loggers st) \<and> zapGlobal st = Some (zap (loggers st ! g)))
     \<and> follows st (globalComponent st) \<and> (\<forall>n c. components st n = Some c \<longrightarrow> follows st c)"

lemma log_inv_frame:
  assumes "log_inv e st" "grows st st'" "global st' = global st" "globalComponent st' = globalComponent st"
    "components st' = components st" "zapGlobal st' = zapGlobal st"
  shows "log_inv e st'"
proof -
  obtain g where g: "global st = Some g" "g < length (loggers st)" "zapGlobal st = Some (zap (loggers st ! g))"
    using assms(1) by (auto simp: log_inv_def)
  have "all_built e st'"
    using assms(1,4,5) by (auto simp: log_inv_def all_built_def intro!: built_grows [OF _ assms(2)])
  moreover have "g < length (loggers st')" "zapGlobal st' = Some (zap (loggers st' ! g))"
    using g assms(2,6) by (auto simp: grows_def)
  ultimately show ?thesis using assms(1,3-5) g(1) by (auto simp: log_inv_def follows_def)
qed

lemma log_inv_component:
  assumes "log_inv e st" "SetLogger e c l st = (st', c')" "l < length (loggers st)" "cp_logger c = None \<or> built e st c"
  shows "log_inv e (st'\<lparr>components := (components st')(name \<mapsto> c')\<rparr>)"
proof -
  have c': "built e st' c'" "follows st c'" and ex: "added st st'"
    using SetLogger_spec [OF assms(2-4)] by (auto simp: follows_def)
  have inv: "log_inv e st'"
    by (rule log_inv_frame [OF assms(1) added_grows [OF ex]]) (simp_all add: added_same [OF ex])
  have eq: "built e (st'\<lparr>components := f\<rparr>) x = built e st' x" "follows (st'\<lparr>components := f\<rparr>) x = follows st' x" for f x
    by (simp_all add: built_def follows_def)
  have "follows st' c'" using c'(2) added_same [OF ex] by (auto simp: follows_def)
  then show ?thesis using inv c'(1) unfolding log_inv_def all_built_def eq by (simp add: eq)
qed

lemma component_step:
  assumes "log_inv e st"
  shows "log_inv e (fst (Component e name flds st))"
proof (cases "components st name")
  case None
  let ?c = "\<lparr>cp_logger = None, cp_l = None, cp_cl = None, builtInFields = flds @ [z_String e ComponentKey name], useGlobal = True\<rparr>"
  obtain g where g: "global st = Some g" "g < length (loggers st)" using assms by (auto simp: log_inv_def)
  obtain st' c' where s: "SetLogger e ?c g st = (st', c')" by fastforce
  show ?thesis using log_inv_component [OF assms s g(2)] None s g(1) by (simp add: Component_def Component_Init_def)
qed (simp add: Component_def assms)

lemma set_logger_step:
  assumes "log_inv e st" "l < length (loggers st)"
  shows "log_inv e (Component_SetLogger e name l st)"
proof (cases "components st name")
  case (Some c)
  then have "built e st c" using assms(1) by (auto simp: log_inv_def all_built_def)
  moreover obtain st' c' where s: "SetLogger e c l st = (st', c')" by fastforce
  ultimately show ?thesis using log_inv_component [OF assms(1) s assms(2)] Some s by (simp add: Component_SetLogger_def)
qed (simp add: Component_SetLogger_def assms)

text \<open>Components with a logger of their own stay as they are, the others keep following, with the same fields.\<close>

definition kept :: "('z, 'f, 'c, 'x) log_state \<Rightarrow> ('z, 'f, 'c, 'x) log_state \<Rightarrow> bool" where
  "kept st st' \<longleftrightarrow> (\<forall>n c. components st n = Some c \<longrightarrow>
     (\<exists>c'. components st' n = Some c' \<and> (if useGlobal c then useGlobal c' \<and> builtInFields c' = builtInFields c else c' = c)))"

lemma kept_refl: "components st' = components st \<Longrightarrow> kept st st'"
  by (simp add: kept_def)

lemma kept_trans:
  assumes "kept a b" "kept b c"
  shows "kept a c"
  unfolding kept_def
proof (intro allI impI)
  fix n x assume "components a n = Some x"
  with assms(1) obtain y where y: "components b n = Some y" "if useGlobal x then useGlobal y \<and> builtInFields y = builtInFields x else y = x"
    unfolding kept_def by blast
  with assms(2) obtain z where "components c n = Some z" "if useGlobal y then useGlobal z \<and> builtInFields z = builtInFields y else z = y"
    unfolding kept_def by blast
  with y show "\<exists>c'. components c n = Some c' \<and> (if useGlobal x then useGlobal c' \<and> builtInFields c' = builtInFields x else c' = x)"
    by (auto split: if_splits)
qed

text \<open>The loop over the components, while the global logger is already the new one.\<close>

lemma follow_global_spec:
  assumes "all_built e st" "l < length (loggers st)" "global st = Some l"
  shows "all_built e (follow_global e l name st) \<and> grows st (follow_global e l name st)
    \<and> global (follow_global e l name st) = Some l \<and> globalComponent (follow_global e l name st) = globalComponent st
    \<and> (\<forall>n c. components (follow_global e l name st) n = Some c \<longrightarrow> useGlobal c \<longrightarrow> n = name \<longrightarrow> cp_logger c = Some l)
    \<and> (\<forall>n. n \<noteq> name \<longrightarrow> components (follow_global e l name st) n = components st n) \<and> kept st (follow_global e l name st)"
proof (cases "\<exists>c. components st name = Some c \<and> useGlobal c")
  case False
  then have "follow_global e l name st = st" by (auto simp: follow_global_def split: option.split)
  then show ?thesis using assms False kept_refl [of st st] by auto
next
  case True
  then obtain c where c: "components st name = Some c" "useGlobal c" by blast
  then have b: "built e st c" using assms(1) by (auto simp: all_built_def)
  obtain st' c' where s: "SetLogger e c l st = (st', c')" by fastforce
  have sp: "built e st' c' \<and> cp_logger c' = Some l \<and> useGlobal c' = (Some l = global st) \<and> builtInFields c' = builtInFields c
    \<and> added st st'"
    using SetLogger_spec [OF s assms(2)] b by simp
  then have ad: "added st st'" and ex: "grows st st'" using added_grows by blast+
  have f: "follow_global e l name st = st'\<lparr>components := (components st)(name \<mapsto> c')\<rparr>"
    using c s added_same [OF ad] by (simp add: follow_global_def Component_SetLogger_def)
  have eq: "built e (st'\<lparr>components := f\<rparr>) x = built e st' x" for f x by (simp add: built_def)
  have "all_built e (follow_global e l name st)"
    using assms(1) sp added_same [OF ad] unfolding f all_built_def eq by (auto intro: built_grows [OF _ ex])
  moreover have "grows st (follow_global e l name st)" using ex unfolding f grows_def by simp
  moreover have "kept st (follow_global e l name st)" using sp c assms(3) unfolding f kept_def by auto
  ultimately show ?thesis using sp c assms(3) added_same [OF ad] unfolding f by auto
qed

lemma follow_all:
  assumes "all_built e st" "l < length (loggers st)" "global st = Some l"
    and "\<And>n c. components st n = Some c \<Longrightarrow> useGlobal c \<Longrightarrow> n \<in> set order \<or> cp_logger c = Some l"
  shows "all_built e (fold (follow_global e l) order st) \<and> grows st (fold (follow_global e l) order st)
    \<and> global (fold (follow_global e l) order st) = Some l
    \<and> globalComponent (fold (follow_global e l) order st) = globalComponent st
    \<and> (\<forall>n c. components (fold (follow_global e l) order st) n = Some c \<longrightarrow> useGlobal c \<longrightarrow> cp_logger c = Some l)
    \<and> kept st (fold (follow_global e l) order st)"
  using assms
proof (induction order arbitrary: st)
  case Nil
  then show ?case by (simp add: kept_refl)
next
  case (Cons name order)
  let ?s = "follow_global e l name st"
  note sp = follow_global_spec [OF Cons.prems(1-3), of name]
  have l: "l < length (loggers ?s)" using sp Cons.prems(2) by (auto simp: grows_def)
  have o: "n \<in> set order \<or> cp_logger c = Some l" if "components ?s n = Some c" "useGlobal c" for n c
    using that sp Cons.prems(4) [of n c] by (cases "n = name") auto
  note IH = Cons.IH [of ?s, OF conjunct1 [OF sp] l conjunct1 [OF conjunct2 [OF conjunct2 [OF sp]]] o]
  then show ?case using sp grows_trans [of st ?s] kept_trans [of st ?s] by simp
qed


lemma as_global_spec:
  assumes "all_built e st" "l < length (loggers st)" "\<And>n. components st n \<noteq> None \<Longrightarrow> n \<in> set order"
  shows "log_inv e (Logger_AsGlobal e order l st) \<and> global (Logger_AsGlobal e order l st) = Some l
    \<and> kept st (Logger_AsGlobal e order l st) \<and> grows st (Logger_AsGlobal e order l st)"
proof -
  let ?g = "st\<lparr>global := Some l\<rparr>"
  obtain s gc where s: "SetLogger e (globalComponent st) l ?g = (s, gc)" by fastforce
  have eq: "built e (st\<lparr>global := x\<rparr>) c = built e st c" for x c by (simp add: built_def)
  have sp: "built e s gc \<and> cp_logger gc = Some l \<and> useGlobal gc = (Some l = global ?g) \<and> builtInFields gc = builtInFields (globalComponent st)
      \<and> added ?g s"
    using SetLogger_spec [OF s] assms(1,2) by (simp add: eq all_built_def)
  then have ex: "grows ?g s" and same: "global s = Some l" "components s = components st"
    using added_grows [of ?g s] added_same [of ?g s] by simp_all
  let ?s = "s\<lparr>globalComponent := gc\<rparr>" and ?f = "fold (follow_global e l) order (s\<lparr>globalComponent := gc\<rparr>)"
  have eq2: "built e (s\<lparr>globalComponent := x\<rparr>) c = built e s c" for x c by (simp add: built_def)
  have "built e s c" if "components st n = Some c" for n c
    using built_grows [OF _ ex, of e c] assms(1) that by (simp add: eq all_built_def)
  then have "all_built e ?s" using sp same unfolding all_built_def eq2 by simp
  moreover have "l < length (loggers ?s)" "global ?s = Some l" using ex assms(2) same by (simp_all add: grows_def)
  ultimately have f: "all_built e ?f \<and> grows ?s ?f \<and> global ?f = Some l \<and> globalComponent ?f = globalComponent ?s
      \<and> (\<forall>n c. components ?f n = Some c \<longrightarrow> useGlobal c \<longrightarrow> cp_logger c = Some l) \<and> kept ?s ?f"
    by (rule follow_all) (use assms(3) same in auto)
  then have len: "l < length (loggers ?f)" using \<open>l < length (loggers ?s)\<close> by (auto simp: grows_def)
  have r: "Logger_AsGlobal e order l st = ?f\<lparr>zapGlobal := Some (zap (loggers ?f ! l))\<rparr>"
    using s f by (simp add: Logger_AsGlobal_def Let_def)
  have eq3: "built e (t\<lparr>zapGlobal := x\<rparr>) c = built e t c" "follows (t\<lparr>zapGlobal := x\<rparr>) c = follows t c" for t x c
    by (simp_all add: built_def follows_def)
  have inv: "log_inv e (t\<lparr>zapGlobal := Some (zap (loggers t ! l))\<rparr>)"
    if "all_built e t" "global t = Some l" "globalComponent t = gc" "l < length (loggers t)"
      "\<forall>n c. components t n = Some c \<longrightarrow> useGlobal c \<longrightarrow> cp_logger c = Some l" for t
    using that sp unfolding log_inv_def all_built_def eq3 by (simp add: follows_def eq3)
  have "log_inv e (?f\<lparr>zapGlobal := Some (zap (loggers ?f ! l))\<rparr>)"
    by (rule inv) (use f len in simp_all)
  moreover have "kept st (?f\<lparr>zapGlobal := x\<rparr>)" for x using f same unfolding kept_def by simp
  moreover have "grows st (?f\<lparr>zapGlobal := x\<rparr>)" for x using f ex by (auto simp: grows_def)
  ultimately show ?thesis using f unfolding r by simp
qed

lemma init_inv: "log_inv e (log_init e)"
proof -
  let ?s0 = "\<lparr>loggers = [], global = None,
      globalComponent = \<lparr>cp_logger = None, cp_l = None, cp_cl = None, builtInFields = [], useGlobal = True\<rparr>,
      components = Map.empty, zapGlobal = None, levels = [], withctx = [], ctx_pool = [], written = []\<rparr>"
  show ?thesis
    by (simp add: log_init_def InitGlobalLogger_def New_log_def new_logger_def Logger_AsGlobal_def SetLogger_def Let_def
        Logger_With_def Logger_WithOptions_def log_inv_def all_built_def built_def follows_def)
qed

text \<open>
  Everything that can happen to the package's variables, except \<open>Apply\<close> on a logger that is in use already.  A
  range over the components meets each of them.
\<close>

inductive log_step :: "('z, 'f, 'o, 'c, 'x) zapenv \<Rightarrow> ('z, 'f, 'c, 'x) log_state \<Rightarrow> ('z, 'f, 'c, 'x) log_state \<Rightarrow> bool" for e where
  l_new: "log_step e st (fst (New_log zl st))"
| l_conf: "log_step e st (fst (NewFromConf_log e cfg st))"
| l_with: "log_step e st (fst (Logger_With e l flds st))"
| l_options: "log_step e st (fst (Logger_WithOptions e l opts st))"
| l_context: "log_step e st (SetContextLogger l f st)"
| l_level: "log_step e st (fst (SetLevel ParseLevel l lvl st))"
| l_component: "log_step e st (fst (Component e name flds st))"
| l_set: "l < length (loggers st) \<Longrightarrow> log_step e st (Component_SetLogger e name l st)"
| l_global: "l < length (loggers st) \<Longrightarrow> \<forall>n \<in> dom (components st). n \<in> set order \<Longrightarrow> log_step e st (Logger_AsGlobal e order l st)"
| l_init: "\<forall>n \<in> dom (components st). n \<in> set order \<Longrightarrow> log_step e st (InitGlobalLogger e order st)"
| l_log: "log_step e st (fst (component_log e c lvl msg flds st))"
| l_package: "log_step e st (fst (package_log e lvl msg st))"
| l_get: "log_step e st (fst (GetLoggerWithCtx pick ctx l st))"
| l_ctx_log: "log_step e st (fst (logFields e lc lvl msg flds st))"
| l_ctx_options: "log_step e st (fst (WithCtx_WithOptions e lc opts st))"

lemma log_inv_other:
  assumes "log_inv e st" "loggers st' = loggers st" "global st' = global st" "globalComponent st' = globalComponent st"
    "components st' = components st" "zapGlobal st' = zapGlobal st"
  shows "log_inv e st'"
  by (rule log_inv_frame [OF assms(1)]) (use assms in simp_all)

lemma log_step_inv:
  assumes "log_step e st st'" "log_inv e st"
  shows "log_inv e st'"
  using assms(1)
proof cases
  case (l_new zl)
  show ?thesis unfolding l_new
    by (rule log_inv_frame [OF assms(2)]) (simp_all add: New_log_def new_logger_def grows_def nth_append)
next
  case (l_conf cfg)
  have "grows st (fst (NewFromConf_log e cfg st))"
    by (simp add: NewFromConf_log_def New_log_def new_logger_def Logger_Apply_def Let_def grows_def nth_append split: outcome.split)
  then show ?thesis unfolding l_conf
    by (rule log_inv_frame [OF assms(2)])
      (simp_all add: NewFromConf_log_def New_log_def new_logger_def Logger_Apply_def Let_def split: outcome.split)
next
  case (l_with l flds)
  show ?thesis unfolding l_with
    by (rule log_inv_frame [OF assms(2)]) (simp_all add: Logger_With_def new_logger_def grows_def nth_append)
next
  case (l_options l opts)
  show ?thesis unfolding l_options
    by (rule log_inv_frame [OF assms(2)]) (simp_all add: Logger_WithOptions_def new_logger_def grows_def nth_append)
next
  case (l_context l f)
  have "zap ((loggers st)[l := (loggers st ! l)\<lparr>contextLogger := f\<rparr>] ! i) = zap (loggers st ! i)" if "i < length (loggers st)" for i
    using that by (cases "i = l") simp_all
  then show ?thesis unfolding l_context
    by (intro log_inv_frame [OF assms(2)]) (simp_all add: SetContextLogger_def grows_def)
next
  case (l_level ParseLevel l lvl)
  show ?thesis unfolding l_level by (rule log_inv_other [OF assms(2)]) (simp_all add: SetLevel_def split: outcome.split)
next
  case (l_component name flds)
  show ?thesis unfolding l_component by (rule component_step [OF assms(2)])
next
  case (l_set l name)
  show ?thesis unfolding l_set(1) by (rule set_logger_step [OF assms(2) l_set(2)])
next
  case (l_global l order)
  then show ?thesis using as_global_spec [of e st l order] assms(2) by (auto simp: log_inv_def dom_def)
next
  case (l_init order)
  let ?s = "fst (New_log (z_NewProduction e [z_AddCallerSkip e CallerSkip]) st)"
  have n: "log_inv e ?s"
    by (rule log_inv_frame [OF assms(2)]) (simp_all add: New_log_def new_logger_def grows_def nth_append)
  have "length (loggers st) < length (loggers ?s)" "components ?s = components st" by (simp_all add: New_log_def new_logger_def)
  then have "log_inv e (Logger_AsGlobal e order (length (loggers st)) ?s)"
    using as_global_spec [of e ?s "length (loggers st)" order] n l_init(2) by (auto simp: log_inv_def dom_def)
  then show ?thesis unfolding l_init(1) by (simp add: InitGlobalLogger_def New_log_def new_logger_def)
next
  case (l_log c lvl msg flds)
  show ?thesis unfolding l_log
    by (rule log_inv_other [OF assms(2)]) (simp_all add: component_log_def write_entry_def split: option.split)
next
  case (l_package lvl msg)
  show ?thesis unfolding l_package
    by (rule log_inv_other [OF assms(2)]) (simp_all add: package_log_def write_entry_def split: option.split)
next
  case (l_get pick ctx l)
  show ?thesis unfolding l_get by (rule log_inv_other [OF assms(2)]) (simp_all add: GetLoggerWithCtx_def split: option.split)
next
  case (l_ctx_log lc lvl msg flds)
  show ?thesis unfolding l_ctx_log
    by (rule log_inv_other [OF assms(2)]) (simp_all add: logFields_def LogFields_def write_entry_def PutLoggerWithCtx_def Let_def split: option.split)
next
  case (l_ctx_options lc opts)
  show ?thesis unfolding l_ctx_options
    by (rule log_inv_frame [OF assms(2)])
      (simp_all add: WithCtx_WithOptions_def Logger_WithOptions_def new_logger_def grows_def nth_append split: option.split)
qed

lemma log_reachable: "(log_step e)\<^sup>*\<^sup>* (log_init e) st \<Longrightarrow> log_inv e st"
  by (induction rule: rtranclp_induct) (auto intro: init_inv log_step_inv)



definition demo_zap :: "(string list, string, nat, unit, nat) zapenv" where
  "demo_zap = \<lparr>z_nil = [], z_NewProduction = (\<lambda>_. [''production'']), z_With = (\<lambda>flds z. z @ flds), z_WithOptions = (\<lambda>_ z. z),
     z_Log = (\<lambda>_ _ _ _. Ret ()), z_String = (\<lambda>k v. k @ ''='' @ v), z_AddCallerSkip = id, c_LogFields = (\<lambda>_ _ _ _ _ flds. flds)\<rparr>"


section \<open>Loggers with a context\<close>

text \<open>
  Uses of \<open>Ctx\<close>, interleaved in any way, each followed by at most one entry.  \<open>pend\<close> records for every logger
  that was handed out and not used yet the context and the logger it was made with.
\<close>

inductive ctx_step :: "('z, 'f, 'o, 'c, 'x) zapenv \<Rightarrow> ('z, 'f, 'c, 'x) log_state \<times> (nat \<rightharpoonup> 'x \<times> nat) \<Rightarrow>
    ('z, 'f, 'c, 'x) log_state \<times> (nat \<rightharpoonup> 'x \<times> nat) \<Rightarrow> bool" for e where
  x_get: "\<forall>a \<in> set_option pick. a \<in> set (ctx_pool st) \<Longrightarrow> Logger_Ctx pick ctx l st = (st', h) \<Longrightarrow>
     ctx_step e (st, pend) (st', pend(h \<mapsto> (ctx, l)))"
| x_log: "pend h \<noteq> None \<Longrightarrow> logFields e h lvl msg flds st = (st', r) \<Longrightarrow> ctx_step e (st, pend) (st', pend(h := None))"
| x_other: "withctx st' = withctx st \<Longrightarrow> ctx_pool st' = ctx_pool st \<Longrightarrow> ctx_step e (st, pend) (st', pend)"

definition pool_inv :: "('z, 'f, 'c, 'x) log_state \<times> (nat \<rightharpoonup> 'x \<times> nat) \<Rightarrow> bool" where
  "pool_inv = (\<lambda>(st, pend). distinct (ctx_pool st) \<and> set (ctx_pool st) \<subseteq> {..<length (withctx st)} \<and> set (ctx_pool st) \<inter> dom pend = {}
     \<and> (\<forall>h x l. pend h = Some (x, l) \<longrightarrow> h < length (withctx st) \<and> withctx st ! h = \<lparr>lc_ctx = Some x, lc_l = Some l\<rparr>))"

lemma logFields_store:
  "withctx (fst (logFields e h lvl msg flds st)) = (withctx st)[h := \<lparr>lc_ctx = None, lc_l = None\<rparr>]
    \<and> ctx_pool (fst (logFields e h lvl msg flds st)) = h # ctx_pool st"
  by (simp add: logFields_def Let_def LogFields_def write_entry_def PutLoggerWithCtx_def split: option.split prod.split)

lemma ctx_step_inv:
  assumes "ctx_step e s s'" "pool_inv s"
  shows "pool_inv s'"
  using assms
proof cases
  case (x_get pick st ctx l st' h pend)
  show ?thesis
  proof (cases pick)
    case None
    then show ?thesis using x_get assms(2)
      by (fastforce simp: pool_inv_def Logger_Ctx_def GetLoggerWithCtx_def nth_append dom_def)
  next
    case (Some a)
    then have a: "a \<in> set (ctx_pool st)" "h = a" and st': "ctx_pool st' = remove1 a (ctx_pool st)"
      "withctx st' = (withctx st)[a := \<lparr>lc_ctx = Some ctx, lc_l = Some l\<rparr>]"
      using x_get by (auto simp: Logger_Ctx_def GetLoggerWithCtx_def)
    have inv: "distinct (ctx_pool st)" "set (ctx_pool st) \<subseteq> {..<length (withctx st)}" "set (ctx_pool st) \<inter> dom pend = {}"
      "\<And>h x l. pend h = Some (x, l) \<Longrightarrow> h < length (withctx st) \<and> withctx st ! h = \<lparr>lc_ctx = Some x, lc_l = Some l\<rparr>"
      using assms(2) x_get(1) by (auto simp: pool_inv_def)
    have other: "h' \<noteq> a" if "pend h' = Some p" for h' p using inv(3) a(1) that by auto
    show ?thesis
      using inv a other unfolding x_get(2) pool_inv_def st'
      by (auto simp: st' set_remove1_distinct nth_list_update)
  qed
next
  case (x_log pend h lvl msg flds st st' r)
  then have h: "h < length (withctx st)" "h \<notin> set (ctx_pool st)" using assms(2) by (auto simp: pool_inv_def)
  have "withctx st' = (withctx st)[h := \<lparr>lc_ctx = None, lc_l = None\<rparr>]" "ctx_pool st' = h # ctx_pool st"
    using logFields_store [of e h lvl msg flds st] x_log(4) by simp_all
  then show ?thesis using assms(2) h unfolding x_log(1,2) pool_inv_def by (auto simp: nth_list_update split: if_splits)
next
  case (x_other st' st pend)
  then show ?thesis using assms(2) by (simp add: pool_inv_def)
qed



text \<open>
  Used a second time, the same object panics and is put into the pool twice, so that two later callers get the
  same object and the entry of the first has the context of the second.
\<close>

lemma used_twice:
  assumes "h < length (withctx st)" and st1_def: "st1 = fst (logFields e h lvl msg flds st)"
    and st2_def: "st2 = fst (logFields e h lvl msg flds st1)" and st3_def: "st3 = fst (Logger_Ctx (Some h) x l st2)"
  shows "snd (logFields e h lvl msg flds st1) = nil_deref"
    and "h \<in> set (ctx_pool st2)" and "h \<in> set (ctx_pool st3)"
    and "withctx (fst (Logger_Ctx (Some h) x' l' st3)) ! h = \<lparr>lc_ctx = Some x', lc_l = Some l'\<rparr>"
proof -
  have 1: "withctx st1 = (withctx st)[h := \<lparr>lc_ctx = None, lc_l = None\<rparr>]" "ctx_pool st1 = h # ctx_pool st"
    using logFields_store [of e h lvl msg flds st] by (simp_all add: st1_def)
  have 2: "withctx st2 = (withctx st1)[h := \<lparr>lc_ctx = None, lc_l = None\<rparr>]" "ctx_pool st2 = h # ctx_pool st1"
    using logFields_store [of e h lvl msg flds st1] by (simp_all add: st2_def)
  show "snd (logFields e h lvl msg flds st1) = nil_deref" using 1 assms(1) by (simp add: logFields_def Let_def)
  show "h \<in> set (ctx_pool st2)" using 2 by simp
  show "h \<in> set (ctx_pool st3)" using 1 2 by (simp add: st3_def Logger_Ctx_def GetLoggerWithCtx_def)
  show "withctx (fst (Logger_Ctx (Some h) x' l' st3)) ! h = \<lparr>lc_ctx = Some x', lc_l = Some l'\<rparr>"
    using 1 2 assms(1) by (simp add: st3_def Logger_Ctx_def GetLoggerWithCtx_def)
qed

text \<open>
  A context logger that is set on the global logger after its components were made is not seen by them: they
  hold copies of the logger.
\<close>

lemma context_logger_not_seen:
  assumes "cp_cl c = Some b" "b \<noteq> g"
  shows "\<forall>b \<in> set_option (cp_cl c). contextLogger (loggers (SetContextLogger g f st) ! b) = contextLogger (loggers st ! b)"
  using assms by (simp add: SetContextLogger_def)

end
