(* ===== verification/LogConfig.thy ===== *)
theory LogConfig
  imports GoPath
begin

text \<open>
  Model of \<open>pkg/log/config.go\<close>: reading the configuration of a logger, the output paths, and building the zap
  logger, with the registrations that happen once per process.  What zap builds is a parameter.
\<close>

section \<open>Output paths\<close>

definition rotateSchema :: string where "rotateSchema = ''Rotate''"
definition StacktraceKey :: string where "StacktraceKey = ''stacktrace''"

text \<open>
  The scheme that \<open>url.Parse\<close> finds in front of a colon; the parameter \<open>url_rest\<close> is the rest of parsing and
  printing it again: an error, or what \<open>String\<close> prints after the scheme.
\<close>

definition scheme_letter :: "char \<Rightarrow> bool" where
  "scheme_letter c \<longleftrightarrow> (97 \<le> byte c \<and> byte c \<le> 122) \<or> (65 \<le> byte c \<and> byte c \<le> 90)"

definition scheme_other :: "char \<Rightarrow> bool" where
  "scheme_other c \<longleftrightarrow> (48 \<le> byte c \<and> byte c \<le> 57) \<or> c = CHR ''+'' \<or> c = CHR ''-'' \<or> c = CHR ''.''"

fun scan_scheme :: "string \<Rightarrow> string \<Rightarrow> string \<Rightarrow> (string \<times> string) outcome" where
  "scan_scheme raw acc [] = Ret ([], raw)"
| "scan_scheme raw acc (c # s) =
     (if scheme_letter c then scan_scheme raw (acc @ [c]) s
      else if scheme_other c then (if acc = [] then Ret ([], raw) else scan_scheme raw (acc @ [c]) s)
      else if c = CHR '':'' then (if acc = [] then Fail (Errorf ''missing protocol scheme'') else Ret (acc, s))
      else Ret ([], raw))"

definition getScheme :: "string \<Rightarrow> (string \<times> string) outcome" where
  "getScheme rawURL = scan_scheme rawURL [] rawURL"

definition url_Parse :: "(string \<Rightarrow> string \<Rightarrow> string outcome) \<Rightarrow> string \<Rightarrow> (string \<times> string) outcome" where
  "url_Parse url_rest raw =
     go_bind (getScheme raw) (\<lambda>(scheme, rest). go_bind (url_rest scheme rest) (\<lambda>s. Ret (ToLower scheme, s)))"

text \<open>
  The deferred part of \<open>convertPath\<close>: the directory of a file is made, and with rotation the path becomes a URL.
  The result has the directories made.
\<close>

definition convert_file :: "(string \<Rightarrow> unit outcome) \<Rightarrow> bool \<Rightarrow> bool \<Rightarrow> string \<Rightarrow> string list \<times> string outcome" where
  "convert_file MkdirAll windows useRotate cp =
     ([filepath_Dir cp],
      go_bind (MkdirAll (filepath_Dir cp))
        (\<lambda>_. Ret (if useRotate then (if windows then rotateSchema @ '':///'' @ cp else rotateSchema @ ''://'' @ cp) else cp)))"

definition convertPath :: "(string \<Rightarrow> unit outcome) \<Rightarrow> (string \<Rightarrow> string \<Rightarrow> string outcome) \<Rightarrow> bool \<Rightarrow>
    string \<Rightarrow> string \<Rightarrow> bool \<Rightarrow> string list \<times> string outcome" where
  "convertPath MkdirAll url_rest windows path base useRotate =
     (if path = ''stdout'' \<or> path = ''stderr'' then ([], Ret path)
      else if IsAbs path then convert_file MkdirAll windows useRotate path
      else
        (case url_Parse url_rest path of
           Ret (scheme, rest) \<Rightarrow>
             if scheme = [] then convert_file MkdirAll windows useRotate (filepath_Join [base, path])
             else ([], Ret (rotateSchema @ '':'' @ rest))
         | Fail err \<Rightarrow> ([], Fail (Errorf ''can't parse as a URL''))
         | Panic m \<Rightarrow> ([], Panic m)))"

section \<open>Configurations\<close>

text \<open>The settings of one zap core that the code reads or sets.\<close>

record zap_Config =
  OutputPaths :: "string list"
  zc_StacktraceKey :: string
  DisableCaller :: bool
  DisableStacktrace :: bool
  zc_Development :: bool
  Sampling :: bool

record rotate =
  rt_Filename :: string
  MaxSize :: int
  MaxAge :: int
  MaxBackups :: int
  LocalTime :: bool
  rt_Compress :: bool

record log_Config =
  ZapConfigs :: "zap_Config list"
  Rotate :: "rotate option"
  lc_WithTraceID :: bool
  lc_TraceIDKey :: string
  callerSkip :: int
  useRotate :: bool
  basedir :: string

text \<open>
  What is read of the configuration: the number of sections of \<open>cores\<close>, the base directory and the development
  mode of the root, single settings, and the decoder, which writes the settings over the defaults.
\<close>

record log_settings =
  n_cores :: nat
  root_basedir :: string
  root_Development :: bool
  set_callerSkip :: "int option"
  disableSampling :: bool
  has_rotate :: bool
  decode :: "log_Config \<Rightarrow> log_Config outcome"

definition defaultZapConfig :: "zap_Config \<Rightarrow> log_settings \<Rightarrow> zap_Config" where
  "defaultZapConfig production cnf =
     production\<lparr>zc_Development := root_Development cnf, Sampling := (Sampling production \<and> \<not> disableSampling cnf)\<rparr>"

definition NewConfig :: "zap_Config \<Rightarrow> log_settings \<Rightarrow> log_Config outcome" where
  "NewConfig production cnf =
     (if n_cores cnf = 0 then Fail (Errorf ''none logger config,plz set up section: cores'')
      else
        (let v = \<lparr>ZapConfigs = replicate (n_cores cnf) (defaultZapConfig production cnf), Rotate = None, lc_WithTraceID = False,
                   lc_TraceIDKey = ''trace_id'', callerSkip = (case set_callerSkip cnf of None \<Rightarrow> 1 | Some n \<Rightarrow> n),
                   useRotate = False, basedir = root_basedir cnf\<rparr> in
         go_bind (decode cnf v)
           (\<lambda>v. Ret (if Rotate v \<noteq> None \<or> has_rotate cnf then v\<lparr>useRotate := True\<rparr> else v))))"

fun convert_paths :: "(string \<Rightarrow> unit outcome) \<Rightarrow> (string \<Rightarrow> string \<Rightarrow> string outcome) \<Rightarrow> bool \<Rightarrow> log_Config \<Rightarrow>
    string list \<Rightarrow> string list \<times> string list outcome" where
  "convert_paths MkdirAll url_rest windows c [] = ([], Ret [])"
| "convert_paths MkdirAll url_rest windows c (path # paths) =
     (case convertPath MkdirAll url_rest windows path (basedir c) (useRotate c) of
        (dirs, Ret u) \<Rightarrow>
          (case convert_paths MkdirAll url_rest windows c paths of
             (dirs', r) \<Rightarrow> (dirs @ dirs', go_bind r (\<lambda>us. Ret (u # us))))
      | (dirs, Fail err) \<Rightarrow> (dirs, Fail err)
      | (dirs, Panic m) \<Rightarrow> (dirs, Panic m))"

definition fixZapConfig :: "(string \<Rightarrow> unit outcome) \<Rightarrow> (string \<Rightarrow> string \<Rightarrow> string outcome) \<Rightarrow> bool \<Rightarrow> log_Config \<Rightarrow>
    zap_Config \<Rightarrow> string list \<times> zap_Config outcome" where
  "fixZapConfig MkdirAll url_rest windows c zc =
     (case convert_paths MkdirAll url_rest windows c (OutputPaths zc) of
        (dirs, r) \<Rightarrow> (dirs, go_bind r (\<lambda>otps. Ret (zc\<lparr>OutputPaths := otps, zc_StacktraceKey := StacktraceKey\<rparr>))))"

datatype zap_option = ZapAddCaller | ZapAddStacktrace int | ZapOther nat

definition buildZapOptions :: "zap_Config \<Rightarrow> zap_option list" where
  "buildZapOptions cfg =
     (if DisableCaller cfg then [] else [ZapAddCaller])
       @ (if DisableStacktrace cfg then [] else [ZapAddStacktrace (if zc_Development cfg then 1 else 2)])"

text \<open>\<open>newRotateWriter\<close> reads the rotation settings through a pointer.\<close>

definition newRotateWriter :: "log_Config \<Rightarrow> rotate outcome" where
  "newRotateWriter c =
     (case Rotate c of
        None \<Rightarrow> Panic ''nil pointer dereference''
      | Some r \<Rightarrow> Ret (r\<lparr>rt_Filename := []\<rparr>))"

record sink_url =
  su_User :: bool
  su_Fragment :: string
  su_RawQuery :: string
  su_Port :: string
  su_Hostname :: string
  su_Path :: string

definition rotate_sink :: "bool \<Rightarrow> log_Config \<Rightarrow> sink_url \<Rightarrow> rotate outcome" where
  "rotate_sink windows c u =
     (if su_User u then Fail (Errorf ''user and password not allowed with file URLs'')
      else if su_Fragment u \<noteq> [] then Fail (Errorf ''fragments not allowed with file URLs'')
      else if su_RawQuery u \<noteq> [] then Fail (Errorf ''query parameters not allowed with file URLs'')
      else if su_Port u \<noteq> [] then Fail (Errorf ''ports not allowed with file URLs'')
      else if su_Hostname u \<noteq> [] \<and> su_Hostname u \<noteq> ''localhost'' then Fail (Errorf ''file URLs must leave host empty or use localhost'')
      else go_bind (newRotateWriter c)
        (\<lambda>l. Ret (l\<lparr>rt_Filename :=
           (if windows then (if HasPrefix (su_Path u) ''/'' then drop 1 (su_Path u) else su_Path u) else su_Path u)\<rparr>)))"

section \<open>Building\<close>

text \<open>
  What \<open>once\<close> guards: whether it ran, the configuration whose encoder is registered as \<open>text\<close>, and the one whose
  rotation is registered.
\<close>

record zap_registry =
  once_done :: bool
  text_encoder :: "log_Config option"
  sink :: "log_Config option"

definition register_once :: "log_Config \<Rightarrow> zap_registry \<Rightarrow> zap_registry" where
  "register_once c reg =
     (if once_done reg then reg
      else reg\<lparr>once_done := True, text_encoder := Some c, sink := (if useRotate c then Some c else sink reg)\<rparr>)"

text \<open>\<open>z_Build\<close> is \<open>Build\<close> of a zap configuration, which opens the sinks that are registered.\<close>

fun build_cores :: "(zap_registry \<Rightarrow> zap_Config \<Rightarrow> 'core outcome) \<Rightarrow> (string \<Rightarrow> unit outcome) \<Rightarrow> (string \<Rightarrow> string \<Rightarrow> string outcome) \<Rightarrow> bool \<Rightarrow>
    zap_registry \<Rightarrow> log_Config \<Rightarrow> zap_Config list \<Rightarrow> ('core \<times> zap_option list) list outcome" where
  "build_cores z_Build MkdirAll url_rest windows reg c [] = Ret []"
| "build_cores z_Build MkdirAll url_rest windows reg c (zc # zcs) =
     go_bind (snd (fixZapConfig MkdirAll url_rest windows c zc)) (\<lambda>zc.
     go_bind (z_Build reg zc) (\<lambda>core.
     go_bind (build_cores z_Build MkdirAll url_rest windows reg c zcs) (\<lambda>cores.
     Ret ((core, buildZapOptions zc) # cores))))"

definition BuildZap :: "(zap_registry \<Rightarrow> zap_Config \<Rightarrow> 'core outcome) \<Rightarrow> (string \<Rightarrow> unit outcome) \<Rightarrow> (string \<Rightarrow> string \<Rightarrow> string outcome) \<Rightarrow> bool \<Rightarrow>
    log_Config \<Rightarrow> zap_option list \<Rightarrow> zap_registry \<Rightarrow> zap_registry \<times> ('core list \<times> zap_option list) outcome" where
  "BuildZap z_Build MkdirAll url_rest windows c opts reg =
     (let reg = register_once c reg in
      (reg, go_bind (build_cores z_Build MkdirAll url_rest windows reg c (ZapConfigs c))
         (\<lambda>cores. Ret (map fst cores, opts @ (case cores of [] \<Rightarrow> [] | (_, copts) # _ \<Rightarrow> copts)))))"

section \<open>What is built\<close>

definition usable :: "(string \<Rightarrow> unit outcome) \<Rightarrow> bool \<Rightarrow> string list \<Rightarrow> string \<Rightarrow> bool" where
  "usable MkdirAll rot dirs u \<longleftrightarrow> u = ''stdout'' \<or> u = ''stderr'' \<or> HasPrefix u (rotateSchema @ '':'')
     \<or> (\<not> rot \<and> filepath_Dir u \<in> set dirs \<and> MkdirAll (filepath_Dir u) = Ret ())"

lemma usable_mono: "usable MkdirAll rot dirs u \<Longrightarrow> set dirs \<subseteq> set dirs' \<Longrightarrow> usable MkdirAll rot dirs' u"
  unfolding usable_def by blast

lemma convertPath_output:
  assumes "convertPath MkdirAll url_rest False path base rot = (dirs, Ret u)"
  shows "usable MkdirAll rot dirs u"
  unfolding usable_def using assms
  by (auto simp: convertPath_def convert_file_def HasPrefix_iff go_bind_Ret_iff split: if_splits outcome.splits)

text \<open>
  Where a logger writes.  If the output paths of a core are accepted, there is one output for each: a standard
  stream, a URL of the rotation sink, or, without rotation, a file whose directory has been made.
\<close>

theorem outputs_usable:
  assumes "convert_paths MkdirAll url_rest False c paths = (dirs, Ret us)"
  shows "length us = length paths \<and> (\<forall>u \<in> set us. usable MkdirAll (useRotate c) dirs u)"
  using assms
proof (induction paths arbitrary: dirs us)
  case (Cons path paths)
  obtain ds r where p: "convertPath MkdirAll url_rest False path (basedir c) (useRotate c) = (ds, r)" by fastforce
  obtain ds' r' where ps: "convert_paths MkdirAll url_rest False c paths = (ds', r')" by fastforce
  from Cons.prems p ps obtain u us' where u: "r = Ret u" "r' = Ret us'" "us = u # us'" "dirs = ds @ ds'"
    by (cases r; cases r') auto
  have "usable MkdirAll (useRotate c) dirs x" if "usable MkdirAll (useRotate c) ds x \<or> usable MkdirAll (useRotate c) ds' x" for x
    using that usable_mono [of _ _ ds x dirs] usable_mono [of _ _ ds' x dirs] unfolding u(4) by auto
  moreover have "length us' = length paths \<and> (\<forall>u \<in> set us'. usable MkdirAll (useRotate c) ds' u)"
    by (rule Cons.IH) (simp add: ps u(2))
  moreover have "usable MkdirAll (useRotate c) ds u"
    by (rule convertPath_output [OF p [unfolded u(1)]])
  ultimately show ?case unfolding u(3) by simp
qed simp

theorem outputs_usable_witness:
  "\<exists>dirs us. convert_paths (\<lambda>_. Ret ()) (\<lambda>s r. Ret r) False
     \<lparr>ZapConfigs = [], Rotate = None, lc_WithTraceID = False, lc_TraceIDKey = [], callerSkip = 1, useRotate = False, basedir = ''/srv''\<rparr>
     [''stdout'', ''/log/a''] = (dirs, Ret us) \<and> length us = 2"
proof -
  let ?c = "\<lparr>ZapConfigs = [], Rotate = None, lc_WithTraceID = False, lc_TraceIDKey = [], callerSkip = 1, useRotate = False, basedir = ''/srv''\<rparr>"
  have "convert_paths (\<lambda>_. Ret ()) (\<lambda>s r. Ret r) False ?c [''stdout'', ''/log/a''] = ([filepath_Dir ''/log/a''], Ret [''stdout'', ''/log/a''])"
    by (simp add: convertPath_def convert_file_def IsAbs_def)
  with outputs_usable [OF this] show ?thesis by simp
qed

text \<open>
  A path with a scheme becomes a URL of the rotation sink also when rotation is not configured and the sink is
  not registered; and a configuration built after the first one registers nothing.
\<close>

lemma scheme_path_needs_rotation:
  assumes "path \<notin> {''stdout'', ''stderr''}" "\<not> IsAbs path" "url_Parse url_rest path = Ret (s, rest)" "s \<noteq> []" "\<not> useRotate c"
  shows "convertPath MkdirAll url_rest w path base (useRotate c) = ([], Ret (''Rotate:'' @ rest))"
    "sink (register_once c \<lparr>once_done = False, text_encoder = None, sink = None\<rparr>) = None"
  using assms by (simp_all add: convertPath_def rotateSchema_def register_once_def)

lemma later_rotation_not_registered:
  "once_done reg \<Longrightarrow> fst (BuildZap z_Build MkdirAll url_rest w c opts reg) = reg"
  by (simp add: BuildZap_def register_once_def Let_def)

text \<open>With a section for rotation that is empty, the first file that is opened panics.\<close>

lemma empty_rotation_panics:
  assumes "Rotate c = None" "\<not> su_User u" "su_Fragment u = []" "su_RawQuery u = []" "su_Port u = []" "su_Hostname u = []"
  shows "rotate_sink w c u = Panic ''nil pointer dereference''"
  using assms by (simp add: rotate_sink_def newRotateWriter_def)

end
