(* ===== verification/WebServer.thy ===== *)
theory WebServer
  imports Prelude
begin

text \<open>
  Model of the web server's assembly in \<open>web\<close>: the handler manager of \<open>handler_mgr.go\<close>, the router of
  \<open>router.go\<close>, the options of \<open>option.go\<close> and the server of \<open>server.go\<close>, with the middlewares made from functions
  in \<open>web/handler/middleware.go\<close>.  The calls made on the gin engine are recorded in their order.
\<close>

section \<open>Middlewares and their manager\<close>

text \<open>
  A middleware: its name, the handler that it makes of a configuration \<open>'c\<close> (making one may panic), and whether
  it implements \<open>Shutdown\<close>.  Calling a function for a new middleware gives a middleware.
\<close>

record ('c, 'h) Middleware =
  mw_Name :: string
  mw_ApplyFunc :: "'c \<Rightarrow> 'h outcome"
  mw_Shutdown :: bool

definition NewSimpleMiddleware :: "string \<Rightarrow> ('c \<Rightarrow> 'h outcome) \<Rightarrow> ('c, 'h) Middleware" where
  "NewSimpleMiddleware name applyFunc = \<lparr>mw_Name = name, mw_ApplyFunc = applyFunc, mw_Shutdown = False\<rparr>"

definition WrapMiddlewareApplyFunc :: "string \<Rightarrow> ('c \<Rightarrow> 'h outcome) \<Rightarrow> unit \<Rightarrow> ('c, 'h) Middleware" where
  "WrapMiddlewareApplyFunc name applyFunc = (\<lambda>_. NewSimpleMiddleware name applyFunc)"

record ('c, 'h) HandlerManager =
  newFuncs :: "string \<Rightarrow> (unit \<Rightarrow> ('c, 'h) Middleware) option"
  middlewares :: "string \<Rightarrow> ('c, 'h) Middleware option"

definition HM_Register :: "string \<Rightarrow> (unit \<Rightarrow> ('c, 'h) Middleware) \<Rightarrow> ('c, 'h) HandlerManager \<Rightarrow> ('c, 'h) HandlerManager" where
  "HM_Register name f m = m\<lparr>newFuncs := (newFuncs m)(name \<mapsto> f)\<rparr>"

definition GetMiddlewareKey :: "string \<Rightarrow> string \<Rightarrow> string" where
  "GetMiddlewareKey grp name = (if grp = ''/'' then ''default'' else grp) @ '':'' @ name"

definition RegisterMiddleware :: "string \<Rightarrow> ('c, 'h) Middleware \<Rightarrow> ('c, 'h) HandlerManager \<Rightarrow> ('c, 'h) HandlerManager outcome" where
  "RegisterMiddleware key mid m =
     (if middlewares m key \<noteq> None then Panic ''middleware could not override''
      else Ret (m\<lparr>middlewares := (middlewares m)(key \<mapsto> mid)\<rparr>))"

definition HM_Get :: "string \<Rightarrow> ('c, 'h) HandlerManager \<Rightarrow> (unit \<Rightarrow> ('c, 'h) Middleware) option" where
  "HM_Get name m = newFuncs m name"

definition GetMiddleware :: "string \<Rightarrow> ('c, 'h) HandlerManager \<Rightarrow> ('c, 'h) Middleware option" where
  "GetMiddleware key m = middlewares m key"

text \<open>The middlewares that are always registered; \<open>builtin\<close> are their functions.\<close>

definition integration :: "string list" where
  "integration = [''recovery'', ''jwt'', ''accessLog'', ''errorHandle'', ''gzip'', ''keyAuth'', ''cors'']"

definition registerIntegrationHandler :: "(string \<Rightarrow> unit \<Rightarrow> ('c, 'h) Middleware) \<Rightarrow> ('c, 'h) HandlerManager \<Rightarrow> ('c, 'h) HandlerManager" where
  "registerIntegrationHandler builtin m = fold (\<lambda>s. HM_Register s (builtin s)) integration m"

definition NewHandlerManager :: "(string \<Rightarrow> unit \<Rightarrow> ('c, 'h) Middleware) \<Rightarrow> ('c, 'h) HandlerManager" where
  "NewHandlerManager builtin = registerIntegrationHandler builtin \<lparr>newFuncs = Map.empty, middlewares = Map.empty\<rparr>"

text \<open>\<open>order\<close> is the order in which the loop ranges over the map; the result has the names shut down.\<close>

fun HM_Shutdown :: "string list \<Rightarrow> ('c, 'h) HandlerManager \<Rightarrow> ('c, 'h) HandlerManager \<times> string list" where
  "HM_Shutdown [] m = (m, [])"
| "HM_Shutdown (key # order) m =
     (case middlewares m key of
        None \<Rightarrow> HM_Shutdown order m
      | Some mid \<Rightarrow>
          (case HM_Shutdown order (m\<lparr>middlewares := (middlewares m)(key := None)\<rparr>) of
             (m', keys) \<Rightarrow> (m', if mw_Shutdown mid then key # keys else keys)))"

section \<open>The router\<close>

text \<open>
  The calls on gin: a group is made from its path, and handlers are attached to the engine or to the group with
  the given number.  \<open>group_path\<close> is the base path that gin computes for a group.
\<close>

datatype 'h gin_call = EngineGroup string | EngineUse "'h list" | GroupUse nat "'h list"

record RouterGroup =
  rg_Group :: "nat option"
  rg_basePath :: string

record 'h Router =
  gin_calls :: "'h gin_call list"
  Groups :: "RouterGroup list"

definition NewRouter :: "'h Router" where
  "NewRouter = \<lparr>gin_calls = [], Groups = []\<rparr>"

text \<open>The entries of \<open>routerGroups\<close> and their \<open>middlewares\<close>, in order.\<close>

record 'c group_conf =
  gc_name :: string
  gc_basePath :: string
  gc_middlewares :: "(string \<times> 'c) list"

record 'c router_conf =
  unmarshal_engine :: "unit outcome"
  routerGroups :: "'c group_conf list"

fun apply_middlewares :: "string \<Rightarrow> (string \<times> 'c) list \<Rightarrow> ('c, 'h) HandlerManager \<Rightarrow> ('c, 'h) HandlerManager \<times> 'h list outcome" where
  "apply_middlewares path [] m = (m, Ret [])"
| "apply_middlewares path ((name, cfg) # mws) m =
     (case HM_Get name m of
        None \<Rightarrow> apply_middlewares path mws m
      | Some hf \<Rightarrow>
          (let mw = hf () in
           case RegisterMiddleware (GetMiddlewareKey path name) mw m of
             Ret m \<Rightarrow>
               (case mw_ApplyFunc mw cfg of
                  Ret h \<Rightarrow> (case apply_middlewares path mws m of (m', r) \<Rightarrow> (m', go_bind r (\<lambda>hs. Ret (h # hs))))
                | Fail e \<Rightarrow> (m, Fail e)
                | Panic p \<Rightarrow> (m, Panic p))
           | Fail e \<Rightarrow> (m, Fail e)
           | Panic p \<Rightarrow> (m, Panic p)))"

text \<open>One entry of \<open>routerGroups\<close>; \<open>err\<close> is the variable that the closure of \<open>Apply\<close> assigns.\<close>

definition apply_group :: "(string \<Rightarrow> string) \<Rightarrow> 'c group_conf \<Rightarrow> 'h Router \<times> ('c, 'h) HandlerManager \<times> go_error option \<Rightarrow>
    ('h Router \<times> ('c, 'h) HandlerManager \<times> go_error option) \<times> unit outcome" where
  "apply_group group_path g = (\<lambda>(r, m, err).
     (let default = (gc_name g = ''default'');
          base = (if default \<and> gc_basePath g = [] then ''/'' else gc_basePath g);
          err = (if \<not> default \<and> gc_basePath g = [] then Some (Errorf ''router group must have a basePath'') else err);
          n = length (filter (\<lambda>c. case c of EngineGroup _ \<Rightarrow> True | _ \<Rightarrow> False) (gin_calls r));
          r = (if default then r else r\<lparr>gin_calls := gin_calls r @ [EngineGroup base]\<rparr>);
          path = (if default then ''/'' else group_path base) in
      case apply_middlewares path (gc_middlewares g) m of
        (m, Ret mdl) \<Rightarrow>
          ((r\<lparr>gin_calls := gin_calls r @ [if default then EngineUse mdl else GroupUse n mdl],
              Groups := Groups r @ [\<lparr>rg_Group = (if default then None else Some n), rg_basePath = base\<rparr>]\<rparr>, m, err), Ret ())
      | (m, Fail e) \<Rightarrow> ((r, m, err), Fail e)
      | (m, Panic p) \<Rightarrow> ((r, m, err), Panic p)))"

fun apply_groups :: "(string \<Rightarrow> string) \<Rightarrow> 'c group_conf list \<Rightarrow> 'h Router \<times> ('c, 'h) HandlerManager \<times> go_error option \<Rightarrow>
    ('h Router \<times> ('c, 'h) HandlerManager \<times> go_error option) \<times> unit outcome" where
  "apply_groups group_path [] s = (s, Ret ())"
| "apply_groups group_path (g # gs) s =
     (case apply_group group_path g s of
        (s, Ret u) \<Rightarrow> apply_groups group_path gs s
      | (s, Fail e) \<Rightarrow> (s, Fail e)
      | (s, Panic p) \<Rightarrow> (s, Panic p))"

text \<open>\<open>Apply\<close> ends with \<open>return nil\<close>, which overwrites \<open>err\<close>.\<close>

definition Router_Apply :: "(string \<Rightarrow> string) \<Rightarrow> ('c, 'h) HandlerManager option \<Rightarrow> 'c router_conf \<Rightarrow> 'h Router \<Rightarrow>
    ('h Router \<times> ('c, 'h) HandlerManager option) \<times> unit outcome" where
  "Router_Apply group_path serverOptions cnf r =
     (case serverOptions of
        None \<Rightarrow> ((r, None), Fail (Errorf ''router apply must apply after Server''))
      | Some m \<Rightarrow>
          (case unmarshal_engine cnf of
             Ret _ \<Rightarrow>
               (case apply_groups group_path (routerGroups cnf) (r, m, None) of
                  ((r, m, err), Ret u) \<Rightarrow> ((r, Some m), Ret u)
                | ((r, m, err), x) \<Rightarrow> ((r, Some m), x))
           | Fail e \<Rightarrow> ((r, Some m), Fail e)
           | Panic p \<Rightarrow> ((r, Some m), Panic p)))"

definition FindGroup :: "string \<Rightarrow> 'h Router \<Rightarrow> RouterGroup option" where
  "FindGroup basePath r =
     (let basePath = (if basePath = [] then ''/'' else basePath) in find (\<lambda>g. rg_basePath g = basePath) (Groups r))"

section \<open>The server\<close>

text \<open>
  \<open>'t\<close> are TLS settings.  A configuration of the server has an optional section for the options, which the
  decoder writes over the address and the TLS settings, one for TLS alone, and one for the router.
\<close>

record ('c, 't) server_conf =
  sv_server :: "(string \<times> 't option \<Rightarrow> (string \<times> 't option) outcome) option"
  sv_tls :: "'t option"
  sv_engine :: "'c router_conf option"

record ('c, 'h, 't) ServerOptions =
  Addr :: string
  so_TLS :: "'t option"
  so_configuration :: "('c, 't) server_conf option"
  handlerManager :: "('c, 'h) HandlerManager"
  gracefulStop :: bool

type_synonym ('c, 'h, 't) server_option = "('c, 'h, 't) ServerOptions \<Rightarrow> ('c, 'h, 't) ServerOptions"

definition WithServerConfiguration :: "('c, 't) server_conf \<Rightarrow> ('c, 'h, 't) server_option" where
  "WithServerConfiguration cfg s = s\<lparr>so_configuration := Some cfg\<rparr>"

definition WithMiddlewareNewFunc :: "string \<Rightarrow> (unit \<Rightarrow> ('c, 'h) Middleware) \<Rightarrow> ('c, 'h, 't) server_option" where
  "WithMiddlewareNewFunc name newFunc s = s\<lparr>handlerManager := HM_Register name newFunc (handlerManager s)\<rparr>"

definition WithMiddlewareApplyFunc :: "string \<Rightarrow> ('c \<Rightarrow> 'h outcome) \<Rightarrow> ('c, 'h, 't) server_option" where
  "WithMiddlewareApplyFunc name handlerFunc s =
     s\<lparr>handlerManager := HM_Register name (WrapMiddlewareApplyFunc name handlerFunc) (handlerManager s)\<rparr>"

definition WithGracefulStop :: "('c, 'h, 't) server_option" where
  "WithGracefulStop s = s\<lparr>gracefulStop := True\<rparr>"

record ('c, 'h, 't) Server =
  sv_opts :: "('c, 'h, 't) ServerOptions"
  sv_router :: "'h Router"
  httpSrv_Addr :: string

definition Server_Apply :: "(string \<Rightarrow> string) \<Rightarrow> ('c, 't) server_conf \<Rightarrow> ('c, 'h, 't) Server \<Rightarrow> ('c, 'h, 't) Server outcome" where
  "Server_Apply group_path cfg s =
     go_bind
       (case sv_server cfg of
          None \<Rightarrow> Ret s
        | Some unmarshal \<Rightarrow>
            go_bind (unmarshal (Addr (sv_opts s), so_TLS (sv_opts s)))
              (\<lambda>(a, t). Ret (s\<lparr>sv_opts := (sv_opts s)\<lparr>Addr := a, so_TLS := t\<rparr>\<rparr>))) (\<lambda>s.
     let s = (case sv_tls cfg of None \<Rightarrow> s | Some t \<Rightarrow> s\<lparr>sv_opts := (sv_opts s)\<lparr>so_TLS := Some t\<rparr>\<rparr>) in
     case sv_engine cfg of
       None \<Rightarrow> Ret s
     | Some sub \<Rightarrow>
         (case Router_Apply group_path (Some (handlerManager (sv_opts s))) sub (sv_router s) of
            ((r, m), x) \<Rightarrow>
              go_bind x (\<lambda>_. Ret (s\<lparr>sv_router := r, sv_opts := (sv_opts s)\<lparr>handlerManager := the m\<rparr>\<rparr>))))"

definition New_server :: "(string \<Rightarrow> unit \<Rightarrow> ('c, 'h) Middleware) \<Rightarrow> (string \<Rightarrow> string) \<Rightarrow> ('c, 'h, 't) server_option list \<Rightarrow>
    ('c, 'h, 't) Server outcome" where
  "New_server builtin group_path opts =
     (let o0 = \<lparr>Addr = '':8080'', so_TLS = None, so_configuration = None, handlerManager = NewHandlerManager builtin,
                gracefulStop = False\<rparr>;
          s = \<lparr>sv_opts = fold (\<lambda>f. f) opts o0, sv_router = NewRouter, httpSrv_Addr = []\<rparr> in
      go_bind
        (case so_configuration (sv_opts s) of
           None \<Rightarrow> Ret s
         | Some cfg \<Rightarrow>
             (case Server_Apply group_path cfg s of
                Ret s \<Rightarrow> Ret s
              | Fail err \<Rightarrow> Panic ''apply server configuration''
              | Panic p \<Rightarrow> Panic p))
        (\<lambda>s. Ret (s\<lparr>httpSrv_Addr := Addr (sv_opts s)\<rparr>)))"

text \<open>The HTTP server below: what listening, serving, shutting down and closing end with.\<close>

record 't httpsrv =
  hs_Listen :: "string \<Rightarrow> string outcome"
  hs_Serve :: go_error
  hs_ServeTLS :: "'t \<Rightarrow> go_error"
  hs_Shutdown :: "go_error option"
  hs_Close :: "go_error option"

definition ErrServerClosed :: go_error where "ErrServerClosed = Sentinel ''http: Server closed''"

definition ListenAndServe :: "'t httpsrv \<Rightarrow> ('c, 'h, 't) Server \<Rightarrow> ('c, 'h, 't) Server \<times> go_error" where
  "ListenAndServe hs s =
     (case hs_Listen hs (Addr (sv_opts s)) of
        Ret addr \<Rightarrow>
          (s\<lparr>sv_opts := (sv_opts s)\<lparr>Addr := addr\<rparr>\<rparr>,
           (case so_TLS (sv_opts s) of Some tls \<Rightarrow> hs_ServeTLS hs tls | None \<Rightarrow> hs_Serve hs))
      | Fail err \<Rightarrow> (s, err)
      | Panic p \<Rightarrow> (s, Errorf p))"

definition Server_Start :: "'t httpsrv \<Rightarrow> ('c, 'h, 't) Server \<Rightarrow> ('c, 'h, 't) Server \<times> go_error option" where
  "Server_Start hs s =
     (case ListenAndServe hs s of (s, err) \<Rightarrow> (s, if errors_is err ErrServerClosed then None else Some err))"

text \<open>The second part is whether the error was logged.\<close>

definition httpServerStop :: "'t httpsrv \<Rightarrow> ('c, 'h, 't) Server \<Rightarrow> go_error option \<times> bool" where
  "httpServerStop hs s =
     (let err = (if gracefulStop (sv_opts s) then hs_Shutdown hs else hs_Close hs) in
      (None, (case err of None \<Rightarrow> False | Some e \<Rightarrow> \<not> errors_is e ErrServerClosed)))"

definition Server_Stop :: "'t httpsrv \<Rightarrow> string list \<Rightarrow> ('c, 'h, 't) Server \<Rightarrow> ('c, 'h, 't) Server \<times> go_error option" where
  "Server_Stop hs order s =
     (case httpServerStop hs s of
        (err, logged) \<Rightarrow>
          (s\<lparr>sv_opts := (sv_opts s)\<lparr>handlerManager := fst (HM_Shutdown order (handlerManager (sv_opts s)))\<rparr>\<rparr>, None))"

text \<open>What \<open>Run\<close> waits for: a signal, or the return of \<open>Start\<close>, whose channel is closed when there is no error.\<close>

datatype run_event = QuitSignal | StartReturned "go_error option"

definition Server_Run :: "'t httpsrv \<Rightarrow> string list \<Rightarrow> run_event \<Rightarrow> ('c, 'h, 't) Server \<Rightarrow> ('c, 'h, 't) Server \<times> go_error option" where
  "Server_Run hs order ev s =
     (case ev of
        QuitSignal \<Rightarrow> (fst (Server_Stop hs order s), None)
      | StartReturned (Some err) \<Rightarrow> (fst (Server_Stop hs order s), Some err)
      | StartReturned None \<Rightarrow> (s, None))"

end
