(* ===== verification/WebServerProps.thy ===== *)
theory WebServerProps
  imports WebServer
begin

text \<open>
  What the assembly of a web server promises: which middleware instances are registered, under which keys, and
  which handlers the engine and the groups get, in which order.
\<close>

section \<open>Keys\<close>

lemma key_injective:
  assumes "GetMiddlewareKey g n = GetMiddlewareKey g' n'" "CHR '':'' \<notin> set n" "CHR '':'' \<notin> set n'"
  shows "n = n' \<and> (g = g' \<or> {g, g'} \<subseteq> {''/'', ''default''})"
proof -
  let ?f = "\<lambda>g. if g = ''/'' then ''default'' else g"
  have eq: "rev n @ CHR '':'' # rev (?f g) = rev n' @ CHR '':'' # rev (?f g')"
    using arg_cong [OF assms(1), of rev] by (simp add: GetMiddlewareKey_def)
  have cut: "xs = ys \<and> us = vs" if "xs @ c # us = ys @ c # vs" "c \<notin> set xs" "c \<notin> set ys" for xs ys us vs :: string and c
    using that
  proof (induction xs arbitrary: ys)
    case Nil
    then show ?case by (cases ys) auto
  next
    case (Cons x xs)
    then show ?case by (cases ys) auto
  qed
  from cut [OF eq] assms(2,3) show ?thesis by (auto split: if_splits)
qed

section \<open>Applying a configuration\<close>

text \<open>
  The instances that a configuration asks for: the key, the instance and the configuration for every middleware
  whose name is known.
\<close>

definition group_base :: "'c group_conf \<Rightarrow> string" where
  "group_base g = (if gc_name g = ''default'' \<and> gc_basePath g = [] then ''/'' else gc_basePath g)"

definition group_key_path :: "(string \<Rightarrow> string) \<Rightarrow> 'c group_conf \<Rightarrow> string" where
  "group_key_path group_path g = (if gc_name g = ''default'' then ''/'' else group_path (group_base g))"

definition planned_mws :: "(string \<Rightarrow> (unit \<Rightarrow> ('c, 'h) Middleware) option) \<Rightarrow> string \<Rightarrow> (string \<times> 'c) list \<Rightarrow>
    (string \<times> ('c, 'h) Middleware \<times> 'c) list" where
  "planned_mws nf path mws = map (\<lambda>(name, cfg). (GetMiddlewareKey path name, the (nf name) (), cfg)) (filter (\<lambda>(name, cfg). nf name \<noteq> None) mws)"

definition planned :: "(string \<Rightarrow> string) \<Rightarrow> (string \<Rightarrow> (unit \<Rightarrow> ('c, 'h) Middleware) option) \<Rightarrow> 'c group_conf list \<Rightarrow>
    (string \<times> ('c, 'h) Middleware \<times> 'c) list" where
  "planned group_path nf gs = concat (map (\<lambda>g. planned_mws nf (group_key_path group_path g) (gc_middlewares g)) gs)"

text \<open>Adding the instances; they are fresh if no key occurs twice or is taken.\<close>

definition add_planned :: "(string \<times> ('c, 'h) Middleware \<times> 'c) list \<Rightarrow> ('c, 'h) HandlerManager \<Rightarrow> ('c, 'h) HandlerManager" where
  "add_planned ps m = fold (\<lambda>(k, mw, c) m. m\<lparr>middlewares := (middlewares m)(k \<mapsto> mw)\<rparr>) ps m"

definition fresh :: "(string \<times> ('c, 'h) Middleware \<times> 'c) list \<Rightarrow> ('c, 'h) HandlerManager \<Rightarrow> bool" where
  "fresh ps m \<longleftrightarrow> distinct (map fst ps) \<and> (\<forall>k \<in> set (map fst ps). middlewares m k = None)"

lemma add_planned_simps [simp]:
  "add_planned [] m = m"
  "add_planned ((k, mw, c) # ps) m = add_planned ps (m\<lparr>middlewares := (middlewares m)(k \<mapsto> mw)\<rparr>)"
  "add_planned (ps @ qs) m = add_planned qs (add_planned ps m)"
  by (simp_all add: add_planned_def)

lemma newFuncs_add [simp]: "newFuncs (add_planned ps m) = newFuncs m"
  by (induction ps arbitrary: m) auto

lemma middlewares_add: "middlewares (add_planned ps m) k = None \<longleftrightarrow> middlewares m k = None \<and> k \<notin> set (map fst ps)"
proof (induction ps arbitrary: m)
  case (Cons p ps)
  obtain k' mw c where "p = (k', mw, c)" by (cases p) auto
  then show ?case using Cons.IH by auto
qed simp

lemma fresh_simps [simp]:
  "fresh [] m"
  "fresh ((k, mw, c) # ps) m \<longleftrightarrow> middlewares m k = None \<and> fresh ps (m\<lparr>middlewares := (middlewares m)(k \<mapsto> mw)\<rparr>)"
  "fresh (ps @ qs) m \<longleftrightarrow> fresh ps m \<and> fresh qs (add_planned ps m)"
  by (force simp: fresh_def middlewares_add)+

text \<open>The handler that is made of an instance, where making it returns.\<close>

definition made :: "string \<times> ('c, 'h) Middleware \<times> 'c \<Rightarrow> 'h" where
  "made p = (case p of (k, mw, c) \<Rightarrow> (case mw_ApplyFunc mw c of Ret h \<Rightarrow> h | _ \<Rightarrow> undefined))"

definition all_made :: "(string \<times> ('c, 'h) Middleware \<times> 'c) list \<Rightarrow> bool" where
  "all_made ps \<longleftrightarrow> (\<forall>(k, mw, c) \<in> set ps. returns (mw_ApplyFunc mw c))"

lemma apply_middlewares_planned:
  assumes "all_made (planned_mws (newFuncs m) path mws)"
  shows "if fresh (planned_mws (newFuncs m) path mws) m
    then apply_middlewares path mws m = (add_planned (planned_mws (newFuncs m) path mws) m, Ret (map made (planned_mws (newFuncs m) path mws)))
    else snd (apply_middlewares path mws m) = Panic ''middleware could not override''"
  using assms
proof (induction mws arbitrary: m)
  case (Cons mw mws)
  obtain name cfg where mw: "mw = (name, cfg)" by fastforce
  show ?case
  proof (cases "newFuncs m name")
    case None
    then show ?thesis using Cons.IH [of m] Cons.prems mw by (simp add: HM_Get_def planned_mws_def)
  next
    case (Some hf)
    let ?k = "GetMiddlewareKey path name"
    let ?m = "m\<lparr>middlewares := (middlewares m)(?k \<mapsto> hf ())\<rparr>"
    have ps: "planned_mws (newFuncs m) path (mw # mws) = (?k, hf (), cfg) # planned_mws (newFuncs ?m) path mws"
      using Some mw by (simp add: planned_mws_def)
    have all: "all_made (planned_mws (newFuncs ?m) path mws)" and "returns (mw_ApplyFunc (hf ()) cfg)"
      using Cons.prems unfolding ps all_made_def by simp_all
    then obtain h where h: "mw_ApplyFunc (hf ()) cfg = Ret h" by (auto simp: returns_iff)
    show ?thesis
    proof (cases "middlewares m ?k")
      case None
      then show ?thesis using Cons.IH [OF all] Some mw h unfolding ps
        by (auto simp: HM_Get_def RegisterMiddleware_def made_def Let_def split: prod.split)
    next
      case taken: (Some old)
      then show ?thesis using Some mw unfolding ps by (simp add: HM_Get_def RegisterMiddleware_def Let_def)
    qed
  qed
qed (simp add: planned_mws_def)

text \<open>The calls on gin and the groups that a configuration leads to; \<open>n\<close> is the number of the next group.\<close>

fun expected :: "(string \<Rightarrow> string) \<Rightarrow> (string \<Rightarrow> (unit \<Rightarrow> ('c, 'h) Middleware) option) \<Rightarrow> nat \<Rightarrow> 'c group_conf list \<Rightarrow>
    ('h gin_call list \<times> RouterGroup) list" where
  "expected group_path nf n [] = []"
| "expected group_path nf n (g # gs) =
     (let hs = map made (planned_mws nf (group_key_path group_path g) (gc_middlewares g)) in
      if gc_name g = ''default''
      then ([EngineUse hs], \<lparr>rg_Group = None, rg_basePath = group_base g\<rparr>) # expected group_path nf n gs
      else ([EngineGroup (group_base g), GroupUse n hs], \<lparr>rg_Group = Some n, rg_basePath = group_base g\<rparr>) # expected group_path nf (Suc n) gs)"

definition n_groups :: "'h Router \<Rightarrow> nat" where
  "n_groups r = length (filter (\<lambda>c. case c of EngineGroup _ \<Rightarrow> True | _ \<Rightarrow> False) (gin_calls r))"

definition extend :: "'h Router \<Rightarrow> ('h gin_call list \<times> RouterGroup) list \<Rightarrow> 'h Router" where
  "extend r xs = r\<lparr>gin_calls := gin_calls r @ concat (map fst xs), Groups := Groups r @ map snd xs\<rparr>"

lemma apply_group_cases:
  assumes "apply_middlewares (group_key_path group_path g) (gc_middlewares g) m = (m', z)"
  shows "z = Ret hs \<Longrightarrow> \<exists>err'. apply_group group_path g (r, m, err) =
      ((extend r [if gc_name g = ''default'' then ([EngineUse hs], \<lparr>rg_Group = None, rg_basePath = group_base g\<rparr>)
          else ([EngineGroup (group_base g), GroupUse (n_groups r) hs], \<lparr>rg_Group = Some (n_groups r), rg_basePath = group_base g\<rparr>)],
        m', err'), Ret ())"
    and "z = Panic p \<Longrightarrow> snd (apply_group group_path g (r, m, err)) = Panic p"
proof -
  have d: "apply_middlewares ''/'' (gc_middlewares g) m = (m', z)" if "gc_name g = ''default''"
    using assms that by (simp add: group_key_path_def)
  have n: "apply_middlewares (group_path (gc_basePath g)) (gc_middlewares g) m = (m', z)" if "gc_name g \<noteq> ''default''"
    using assms that by (simp add: group_key_path_def group_base_def)
  show "\<exists>err'. apply_group group_path g (r, m, err) =
      ((extend r [if gc_name g = ''default'' then ([EngineUse hs], \<lparr>rg_Group = None, rg_basePath = group_base g\<rparr>)
          else ([EngineGroup (group_base g), GroupUse (n_groups r) hs], \<lparr>rg_Group = Some (n_groups r), rg_basePath = group_base g\<rparr>)],
        m', err'), Ret ())" if "z = Ret hs"
    by (cases "gc_name g = ''default''") (simp_all add: apply_group_def Let_def d n that extend_def n_groups_def group_base_def)
  show "snd (apply_group group_path g (r, m, err)) = Panic p" if "z = Panic p"
    by (cases "gc_name g = ''default''") (simp_all add: apply_group_def Let_def d n that)
qed

lemma apply_groups_planned:
  assumes "all_made (planned group_path (newFuncs m) gs)"
  shows "if fresh (planned group_path (newFuncs m) gs) m
    then \<exists>err'. apply_groups group_path gs (r, m, err)
      = ((extend r (expected group_path (newFuncs m) (n_groups r) gs), add_planned (planned group_path (newFuncs m) gs) m, err'), Ret ())
    else snd (apply_groups group_path gs (r, m, err)) = Panic ''middleware could not override''"
  using assms
proof (induction gs arbitrary: r m err)
  case Nil
  then show ?case by (simp add: planned_def extend_def)
next
  case (Cons g gs)
  let ?ps = "planned_mws (newFuncs m) (group_key_path group_path g) (gc_middlewares g)"
  let ?m = "add_planned ?ps m" and ?r = "extend r [hd (expected group_path (newFuncs m) (n_groups r) (g # gs))]"
  have ps: "planned group_path (newFuncs m) (g # gs) = ?ps @ planned group_path (newFuncs m) gs" by (simp add: planned_def)
  then have all: "all_made ?ps" "all_made (planned group_path (newFuncs ?m) gs)" using Cons.prems by (auto simp: all_made_def)
  note mws = apply_middlewares_planned [OF all(1)]
  show ?case
  proof (cases "fresh ?ps m")
    case False
    obtain m' z where a': "apply_middlewares (group_key_path group_path g) (gc_middlewares g) m = (m', z)" by fastforce
    have "z = Panic ''middleware could not override''" using mws unfolding a' if_not_P [OF False] by simp
    note a = a' [unfolded this]
    obtain s x where g: "apply_group group_path g (r, m, err) = (s, x)" by fastforce
    then have "x = Panic ''middleware could not override''" using apply_group_cases(2) [OF a refl, of r err] by simp
    with g False show ?thesis unfolding ps by simp
  next
    case True
    then have a: "apply_middlewares (group_key_path group_path g) (gc_middlewares g) m = (?m, Ret (map made ?ps))" using mws by simp
    obtain err' where ag: "apply_group group_path g (r, m, err) = ((?r, ?m, err'), Ret ())"
      using apply_group_cases(1) [OF a refl, of r err] by (auto simp: Let_def split: if_splits)
    have n: "n_groups ?r = (if gc_name g = ''default'' then n_groups r else Suc (n_groups r))"
      by (simp add: n_groups_def extend_def Let_def)
    have ex: "extend ?r (expected group_path (newFuncs ?m) (n_groups ?r) gs) = extend r (expected group_path (newFuncs m) (n_groups r) (g # gs))"
      unfolding n by (simp add: extend_def Let_def)
    show ?thesis using Cons.IH [OF all(2), of ?r err'] True unfolding ps ex by (auto simp: ag)
  qed
qed

text \<open>
  C32: building the router.  If the configured middlewares can be made, the configuration is accepted exactly if
  no middleware occurs twice under the same key; then the manager has one instance for every known name under
  the key of its group, the engine and the groups get the handlers in the order of the configuration, and
  unknown names are left out.
\<close>

theorem router_apply:
  assumes "unmarshal_engine cnf = Ret ()" "all_made (planned group_path (newFuncs m) (routerGroups cnf))"
  shows "if fresh (planned group_path (newFuncs m) (routerGroups cnf)) m
    then Router_Apply group_path (Some m) cnf NewRouter
      = ((extend NewRouter (expected group_path (newFuncs m) 0 (routerGroups cnf)),
          Some (add_planned (planned group_path (newFuncs m) (routerGroups cnf)) m)), Ret ())
    else snd (Router_Apply group_path (Some m) cnf NewRouter) = Panic ''middleware could not override''"
proof -
  have n: "n_groups NewRouter = 0" by (simp add: n_groups_def NewRouter_def)
  note groups = apply_groups_planned [OF assms(2), of NewRouter None, unfolded n]
  show ?thesis
  proof (cases "fresh (planned group_path (newFuncs m) (routerGroups cnf)) m")
    case True
    with groups obtain err' where "apply_groups group_path (routerGroups cnf) (NewRouter, m, None)
      = ((extend NewRouter (expected group_path (newFuncs m) 0 (routerGroups cnf)),
          add_planned (planned group_path (newFuncs m) (routerGroups cnf)) m, err'), Ret ())" by auto
    with True show ?thesis by (simp add: Router_Apply_def assms(1))
  next
    case False
    obtain r' m' err' x where a: "apply_groups group_path (routerGroups cnf) (NewRouter, m, None) = ((r', m', err'), x)"
      by (cases "apply_groups group_path (routerGroups cnf) (NewRouter, m, None)") auto
    with False groups have "x = Panic ''middleware could not override''" by simp
    with False a show ?thesis by (simp add: Router_Apply_def assms(1))
  qed
qed

definition demo_manager :: "(nat, nat) HandlerManager" where
  "demo_manager = HM_Register ''m'' (WrapMiddlewareApplyFunc ''m'' (\<lambda>c. Ret (c + 1))) \<lparr>newFuncs = Map.empty, middlewares = Map.empty\<rparr>"

theorem router_apply_witness:
  "snd (Router_Apply id (Some demo_manager) \<lparr>unmarshal_engine = Ret (),
      routerGroups = [\<lparr>gc_name = ''a'', gc_basePath = ''/x'', gc_middlewares = [(''m'', 1)]\<rparr>,
                      \<lparr>gc_name = ''b'', gc_basePath = ''/x'', gc_middlewares = [(''m'', 2)]\<rparr>]\<rparr> NewRouter)
    = Panic ''middleware could not override''"
proof -
  let ?cnf = "\<lparr>unmarshal_engine = Ret (),
      routerGroups = [\<lparr>gc_name = ''a'', gc_basePath = ''/x'', gc_middlewares = [(''m'', 1)]\<rparr>,
                      \<lparr>gc_name = ''b'', gc_basePath = ''/x'', gc_middlewares = [(''m'', 2)]\<rparr>]\<rparr> :: nat router_conf"
  have p: "planned id (newFuncs demo_manager) (routerGroups ?cnf)
      = [(''/x:m'', NewSimpleMiddleware ''m'' (\<lambda>c. Ret (c + 1)), 1), (''/x:m'', NewSimpleMiddleware ''m'' (\<lambda>c. Ret (c + 1)), 2)]"
    by (simp add: planned_def planned_mws_def demo_manager_def HM_Register_def group_key_path_def group_base_def
        GetMiddlewareKey_def WrapMiddlewareApplyFunc_def)
  have "all_made (planned id (newFuncs demo_manager) (routerGroups ?cnf))"
    unfolding p by (simp add: all_made_def NewSimpleMiddleware_def returns_def)
  from router_apply [OF _ this] show ?thesis unfolding p by (simp add: fresh_def)
qed

text \<open>A group without a base path is accepted: the error of the closure is lost when \<open>Apply\<close> returns nil.\<close>

lemma missing_base_path_accepted:
  "snd (Router_Apply group_path (Some m) \<lparr>unmarshal_engine = Ret (),
      routerGroups = [\<lparr>gc_name = ''api'', gc_basePath = [], gc_middlewares = []\<rparr>]\<rparr> r) = Ret ()"
  by (simp add: Router_Apply_def apply_group_def Let_def)

text \<open>Groups are found by the base path as configured.\<close>

lemma find_group_default: "FindGroup [] r = FindGroup ''/'' r"
  by (simp add: FindGroup_def)

lemma find_group_found:
  "FindGroup p r = Some g \<Longrightarrow> g \<in> set (Groups r) \<and> rg_basePath g = (if p = [] then ''/'' else p)"
  by (auto simp: FindGroup_def Let_def find_Some_iff split: if_splits)

section \<open>Stopping\<close>

text \<open>
  Shutting down goes through all instances once and leaves none; the order of the loop only orders the calls.
\<close>

lemma shutdown_all:
  assumes "dom (middlewares m) \<subseteq> set order"
  shows "middlewares (fst (HM_Shutdown order m)) = Map.empty"
  using assms
proof (induction order m rule: HM_Shutdown.induct)
  case (1 m)
  then show ?case by simp
next
  case (2 key order m)
  show ?case
  proof (cases "middlewares m key")
    case None
    then have "dom (middlewares m) \<subseteq> set order" using 2(3) by auto
    with None 2 show ?thesis by simp
  next
    case (Some mid)
    have "dom (\<lambda>a. if a = key then None else middlewares m a) \<subseteq> set order" using 2(3) by (force simp: dom_def split: if_splits)
    with Some 2 show ?thesis by (auto split: prod.splits)
  qed
qed

lemma shutdown_once:
  assumes "distinct order"
  shows "distinct (snd (HM_Shutdown order m))
    \<and> set (snd (HM_Shutdown order m)) = {k \<in> set order. \<exists>mid. middlewares m k = Some mid \<and> mw_Shutdown mid}"
  using assms
proof (induction order arbitrary: m)
  case (Cons key order)
  show ?case
  proof (cases "middlewares m key")
    case None
    then show ?thesis using Cons by auto
  next
    case (Some mid)
    let ?m = "m\<lparr>middlewares := (middlewares m)(key := None)\<rparr>"
    have IH: "distinct (snd (HM_Shutdown order ?m))"
      "set (snd (HM_Shutdown order ?m)) = {k \<in> set order. \<exists>mid. middlewares ?m k = Some mid \<and> mw_Shutdown mid}"
      using Cons.IH [of ?m] Cons.prems by simp_all
    have "{k \<in> set order. \<exists>mid. middlewares ?m k = Some mid \<and> mw_Shutdown mid}
        = {k \<in> set order. \<exists>mid. middlewares m k = Some mid \<and> mw_Shutdown mid}"
      using Cons.prems by auto
    with IH have IH2: "set (snd (HM_Shutdown order ?m)) = {k \<in> set order. \<exists>mid. middlewares m k = Some mid \<and> mw_Shutdown mid}" by simp
    have r: "snd (HM_Shutdown (key # order) m) = (if mw_Shutdown mid then [key] else []) @ snd (HM_Shutdown order ?m)"
      by (simp add: Some split: prod.split)
    show ?thesis unfolding r set_append distinct_append IH2 using IH(1) Cons.prems Some by auto
  qed
qed simp

text \<open>Whatever shutting the server down ends with, \<open>Stop\<close> returns no error.\<close>

lemma stop_never_fails: "snd (Server_Stop hs order s) = None"
  by (simp add: Server_Stop_def split: prod.split)

end
