(* ===== verification/HttpClient.thy ===== *)
theory HttpClient
  imports HttpSign Cache
begin

text \<open>
  Model of \<open>pkg/httpx/client.go\<close> and \<open>option.go\<close>: the configuration of HTTP clients, the chain of round
  trippers that a client is built of, and token sources with a store for their tokens.  The oauth2 library,
  the network and the caches are parameters; what round trippers and token sources are made of is kept as data.
\<close>

section \<open>Configurations\<close>

record BasicAuth =
  ba_Username :: string
  ba_Password :: string

record Authorization =
  HeaderName :: string
  HeaderPrefix :: string

record ProxyConfig =
  ProxyURL :: string
  NoProxy :: string
  ProxyConnectHeader :: "(string \<times> string list) list"

text \<open>The exported settings of an \<open>OAuth2Config\<close>; \<open>'tl\<close> are TLS settings.\<close>

record oauth2_settings =
  ClientID :: string
  ClientSecret :: string
  TokenURL :: string
  Scopes :: "string list"
  StoreKey :: string
  EndpointParams :: "(string \<Rightarrow> string list) option"
  TokenHeader :: "(string \<times> string list) list"
  oa_Username :: string
  oa_Password :: string

text \<open>A token storage is one of the user's or a key of a cache \<open>'c\<close>.\<close>

datatype 'c storage = UserStorage nat | CacheStorage 'c string

text \<open>
  Round trippers and token sources.  \<open>Transport\<close> is made by \<open>NewTransport\<close> of built TLS settings and a proxy;
  numbers stand for what the user supplies; \<open>ReuseTS\<close>, \<open>OAuth2RT\<close> and \<open>ClientCredentialsTS\<close> are of the oauth2
  library.  Sources that request tokens do it through a client with a transport, or the default one.
\<close>

datatype ('c, 'tl, 't) rt =
    DefaultTransport
  | Transport "'tl option" "ProxyConfig option"
  | UserRT nat
  | MiddlewareRT nat "('c, 'tl, 't) rt"
  | BaseAuthRT string string "('c, 'tl, 't) rt"
  | TokenHeaderRT "(string \<times> string list) list" "('c, 'tl, 't) rt option"
  | OAuth2RT "('c, 'tl, 't) rt" "('c, 'tl, 't) ts"
  | AuthRT "('c, 'tl, 't) rt" "('c, 'tl, 't) ts" string string
and ('c, 'tl, 't) ts =
    UserTS nat
  | ReuseTS oauth2_settings 't
  | PasswordTS oauth2_settings "('c, 'tl, 't) rt option"
  | ClientCredentialsTS oauth2_settings "('c, 'tl, 't) rt option"
  | StoredTS "'c storage option" "('c, 'tl, 't) ts"

record ('c, 'tl, 't) OAuth2Config =
  oa_settings :: oauth2_settings
  oa_ts :: "('c, 'tl, 't) ts option"
  oa_storage :: "'c storage option"

record ('c, 'tl, 't) ClientConfig =
  cc_Proxy :: "ProxyConfig option"
  cc_TLS :: "'tl option"
  Timeout :: int
  cc_BasicAuth :: "BasicAuth option"
  cc_Authorization :: "Authorization option"
  cc_OAuth2 :: "('c, 'tl, 't) OAuth2Config option"
  cc_base :: "('c, 'tl, 't) rt option"

definition grant_type :: "oauth2_settings \<Rightarrow> string" where
  "grant_type oa =
     (case EndpointParams oa of
        None \<Rightarrow> []
      | Some ps \<Rightarrow> (case ps ''grant_type'' of [] \<Rightarrow> [] | v # _ \<Rightarrow> v))"

definition GrantTypePassword :: string where "GrantTypePassword = ''password''"

definition ClientConfig_Validate :: "('c, 'tl, 't) ClientConfig \<Rightarrow> ('c, 'tl, 't) ClientConfig \<times> unit outcome" where
  "ClientConfig_Validate c =
     (let c = (case cc_Authorization c of
                 Some a \<Rightarrow> if HeaderName a = []
                   then c\<lparr>cc_Authorization := Some \<lparr>HeaderName = ''Authorization'', HeaderPrefix = ''Bearer''\<rparr>\<rparr> else c
               | None \<Rightarrow> c) in
      (c,
       if (case cc_BasicAuth c of Some b \<Rightarrow> ba_Username b = [] | None \<Rightarrow> False)
       then Fail (Errorf ''basicAuth.username must be configured'')
       else (case cc_OAuth2 c of
               None \<Rightarrow> Ret ()
             | Some o2 \<Rightarrow>
                 (let oa = oa_settings o2 in
                  if ClientID oa = [] then Fail (Errorf ''oauth2 clientId must be configured'')
                  else if ClientSecret oa = [] then Fail (Errorf ''either oauth2 clientSecret must be configured'')
                  else if TokenURL oa = [] then Fail (Errorf ''oauth2 tokenUrl must be configured'')
                  else if EndpointParams oa \<noteq> None \<and> grant_type oa = GrantTypePassword \<and> oa_Username oa = []
                  then Fail (Errorf ''username must be configured for password grant type'')
                  else Ret ()))))"

text \<open>\<open>url.ParseRequestURI\<close> is a parameter; the transport does not call \<open>Validate\<close> of a proxy.\<close>

definition ProxyConfig_Validate :: "(string \<Rightarrow> unit outcome) \<Rightarrow> ProxyConfig \<Rightarrow> unit outcome" where
  "ProxyConfig_Validate ParseRequestURI p =
     (if ProxyURL p \<noteq> [] then
        (case ParseRequestURI (ProxyURL p) of
           Fail err \<Rightarrow> Fail (Wrapf (''proxyUrl '' @ ProxyURL p @ '' is invalid'') err)
         | r \<Rightarrow> r)
      else Ret ())"

section \<open>Options\<close>

type_synonym ('c, 'tl, 't) client_option = "('c, 'tl, 't) ClientConfig \<Rightarrow> ('c, 'tl, 't) ClientConfig outcome"

definition chain :: "('c, 'tl, 't) rt option \<Rightarrow> (('c, 'tl, 't) rt \<Rightarrow> ('c, 'tl, 't) rt) list \<Rightarrow> ('c, 'tl, 't) rt" where
  "chain r middlewares = fold (\<lambda>m r. m r) middlewares (case r of None \<Rightarrow> DefaultTransport | Some r \<Rightarrow> r)"

definition BaseAuth :: "string \<Rightarrow> string \<Rightarrow> ('c, 'tl, 't) rt \<Rightarrow> ('c, 'tl, 't) rt" where
  "BaseAuth username password r = BaseAuthRT username password r"

definition WithBaseTransport :: "('c, 'tl, 't) rt \<Rightarrow> ('c, 'tl, 't) client_option" where
  "WithBaseTransport b c = Ret (c\<lparr>cc_base := Some b\<rparr>)"

definition set_oauth2 :: "(('c, 'tl, 't) OAuth2Config \<Rightarrow> ('c, 'tl, 't) OAuth2Config) \<Rightarrow> ('c, 'tl, 't) client_option" where
  "set_oauth2 f c =
     (case cc_OAuth2 c of
        None \<Rightarrow> Panic ''nil pointer dereference''
      | Some oa \<Rightarrow> Ret (c\<lparr>cc_OAuth2 := Some (f oa)\<rparr>))"

definition WithTokenSource :: "('c, 'tl, 't) ts \<Rightarrow> ('c, 'tl, 't) client_option" where
  "WithTokenSource source = set_oauth2 (\<lambda>oa. oa\<lparr>oa_ts := Some source\<rparr>)"

definition WithTokenStorage :: "'c storage \<Rightarrow> ('c, 'tl, 't) client_option" where
  "WithTokenStorage storage = set_oauth2 (\<lambda>oa. oa\<lparr>oa_storage := Some storage\<rparr>)"

definition WithMiddleware :: "(('c, 'tl, 't) rt \<Rightarrow> ('c, 'tl, 't) rt) list \<Rightarrow> ('c, 'tl, 't) client_option" where
  "WithMiddleware middleware c = Ret (c\<lparr>cc_base := Some (chain (cc_base c) middleware)\<rparr>)"

definition SetOAuthStorage :: "'c storage \<Rightarrow> ('c, 'tl, 't) OAuth2Config \<Rightarrow> ('c, 'tl, 't) OAuth2Config" where
  "SetOAuthStorage st oa = oa\<lparr>oa_storage := Some st\<rparr>"

definition SetTokenSource :: "('c, 'tl, 't) ts \<Rightarrow> ('c, 'tl, 't) OAuth2Config \<Rightarrow> ('c, 'tl, 't) OAuth2Config" where
  "SetTokenSource source oa =
     (if oa_storage oa \<noteq> None then oa\<lparr>oa_ts := Some (StoredTS (oa_storage oa) source)\<rparr> else oa\<lparr>oa_ts := Some source\<rparr>)"

text \<open>The key of a client's token; \<open>hash\<close> is the hash library.\<close>

definition tokenKey :: "(oauth2_settings \<Rightarrow> nat outcome) \<Rightarrow> oauth2_settings \<Rightarrow> string outcome" where
  "tokenKey hash config =
     (case hash config of
        Ret h \<Rightarrow> Ret (ClientID config @ '':token:'' @ nat_digits h)
      | Fail err \<Rightarrow> Panic ''hash''
      | Panic m \<Rightarrow> Panic m)"

definition newCacheTokenStorage :: "(oauth2_settings \<Rightarrow> nat outcome) \<Rightarrow> 'c manager \<Rightarrow> oauth2_settings \<Rightarrow> 'c storage outcome" where
  "newCacheTokenStorage hash mgr oa =
     go_bind (GetCache (StoreKey oa) mgr) (\<lambda>dc. go_bind (tokenKey hash oa) (\<lambda>k. Ret (CacheStorage dc k)))"

fun apply_client_options :: "('c, 'tl, 't) client_option list \<Rightarrow> ('c, 'tl, 't) client_option" where
  "apply_client_options [] c = Ret c"
| "apply_client_options (opt # opts) c = go_bind (opt c) (apply_client_options opts)"

definition NewClientConfig :: "(oauth2_settings \<Rightarrow> nat outcome) \<Rightarrow> 'c manager \<Rightarrow> ('c, 'tl, 't) ClientConfig outcome \<Rightarrow>
    ('c, 'tl, 't) client_option list \<Rightarrow> ('c, 'tl, 't) ClientConfig outcome" where
  "NewClientConfig hash mgr unmarshal opts =
     go_bind unmarshal (\<lambda>cfg.
     go_bind (case ClientConfig_Validate cfg of (cfg, r) \<Rightarrow> go_bind r (\<lambda>_. Ret cfg)) (\<lambda>cfg.
     go_bind (apply_client_options opts cfg) (\<lambda>cfg.
     let cfg = (case cc_BasicAuth cfg of
                  Some b \<Rightarrow> cfg\<lparr>cc_base := Some (chain (cc_base cfg) [BaseAuth (ba_Username b) (ba_Password b)])\<rparr>
                | None \<Rightarrow> cfg) in
     case cc_OAuth2 cfg of
       Some oa \<Rightarrow>
         if StoreKey (oa_settings oa) \<noteq> [] then
           go_bind (newCacheTokenStorage hash mgr (oa_settings oa)) (\<lambda>storage.
             Ret (cfg\<lparr>cc_OAuth2 := Some (oa\<lparr>oa_storage := Some storage\<rparr>)\<rparr>))
         else Ret cfg
     | None \<Rightarrow> Ret cfg)))"

section \<open>Clients\<close>

definition NewTransport :: "('tl \<Rightarrow> 'tl outcome) \<Rightarrow> 'tl option \<Rightarrow> ProxyConfig option \<Rightarrow> ('c, 'tl, 't) rt outcome" where
  "NewTransport BuildTlsConfig tls proxy =
     (case tls of
        None \<Rightarrow> Ret (Transport None proxy)
      | Some t \<Rightarrow> go_bind (BuildTlsConfig t) (\<lambda>t. Ret (Transport (Some t) proxy)))"

definition TokenSource_of :: "('c, 'tl, 't) ClientConfig \<Rightarrow> ('c, 'tl, 't) ts outcome" where
  "TokenSource_of c =
     (case cc_OAuth2 c of
        None \<Rightarrow> Panic ''nil pointer dereference''
      | Some oa \<Rightarrow>
          (case oa_ts oa of
             Some source \<Rightarrow> Ret source
           | None \<Rightarrow>
               (let cfg = oa_settings oa;
                    baseTransport = (if TokenHeader cfg \<noteq> [] then Some (TokenHeaderRT (TokenHeader cfg) (cc_base c)) else cc_base c);
                    source = (if grant_type cfg = GrantTypePassword then PasswordTS cfg baseTransport
                              else ClientCredentialsTS cfg baseTransport) in
                Ret (StoredTS (oa_storage oa) source))))"

definition useCustomAuth :: "Authorization option \<Rightarrow> bool" where
  "useCustomAuth a =
     (case a of
        None \<Rightarrow> False
      | Some a \<Rightarrow> (HeaderName a \<noteq> [] \<and> HeaderName a \<noteq> ''Authorization'') \<or> (HeaderPrefix a \<noteq> [] \<and> HeaderPrefix a \<noteq> ''Bearer''))"

text \<open>A client is its transport and its timeout; the configuration is changed by the call.\<close>

definition NewClient :: "('tl \<Rightarrow> 'tl outcome) \<Rightarrow> ('c, 'tl, 't) ClientConfig \<Rightarrow>
    (('c, 'tl, 't) ClientConfig \<times> ('c, 'tl, 't) rt \<times> int) outcome" where
  "NewClient BuildTlsConfig cfg =
     go_bind (case cc_base cfg of Some b \<Rightarrow> Ret b | None \<Rightarrow> NewTransport BuildTlsConfig (cc_TLS cfg) (cc_Proxy cfg)) (\<lambda>b.
     let cfg = cfg\<lparr>cc_base := Some b\<rparr> in
     case cc_OAuth2 cfg of
       None \<Rightarrow> Ret (cfg, b, Timeout cfg)
     | Some oa \<Rightarrow>
         go_bind (TokenSource_of cfg) (\<lambda>source.
         let cfg = cfg\<lparr>cc_OAuth2 := Some (oa\<lparr>oa_ts := Some source\<rparr>)\<rparr> in
         Ret (cfg,
              (case cc_Authorization cfg of
                 Some a \<Rightarrow> if useCustomAuth (Some a) then AuthRT b source (HeaderName a) (HeaderPrefix a) else OAuth2RT b source
               | None \<Rightarrow> OAuth2RT b source),
              Timeout cfg)))"

definition Client :: "('tl \<Rightarrow> 'tl outcome) \<Rightarrow> 't option \<Rightarrow> ('c, 'tl, 't) ClientConfig \<Rightarrow>
    (('c, 'tl, 't) ClientConfig \<times> ('c, 'tl, 't) rt \<times> int) outcome" where
  "Client BuildTlsConfig t c =
     (case (t, cc_OAuth2 c) of
        (Some _, None) \<Rightarrow> Fail (Errorf ''oauth2 config not found'')
      | (Some tk, Some oa) \<Rightarrow>
          NewClient BuildTlsConfig
            (if oa_ts oa = None then c\<lparr>cc_OAuth2 := Some (oa\<lparr>oa_ts := Some (ReuseTS (oa_settings oa) tk)\<rparr>)\<rparr> else c)
      | (None, _) \<Rightarrow> NewClient BuildTlsConfig c)"

section \<open>Tokens and requests\<close>

text \<open>
  The surroundings, with a state \<open>'s\<close> that holds the clock, the caches and the remote side: tokens and their
  expiry, what the sources of the oauth2 library and of the user give, user storages, the calls of a cache,
  and what comes back when a request leaves through a transport.  \<open>oauth2_value\<close> is the header value that the
  oauth2 library makes of a token, \<open>basic\<close> the base64 encoding.
\<close>

record ('c, 'tl, 't, 's, 'x) clientenv =
  now_of :: "'s \<Rightarrow> int"
  tk_Valid :: "int \<Rightarrow> 't \<Rightarrow> bool"
  tk_Expiry :: "'t \<Rightarrow> int option"
  AccessToken :: "'t \<Rightarrow> string"
  oauth2_value :: "'t \<Rightarrow> string"
  source_Token :: "('c, 'tl, 't) ts \<Rightarrow> 's \<Rightarrow> 's \<times> 't option outcome"
  user_Token :: "nat \<Rightarrow> 's \<Rightarrow> 's \<times> 't option outcome"
  user_SetToken :: "nat \<Rightarrow> 't option \<Rightarrow> 's \<Rightarrow> 's \<times> unit outcome"
  cache_Get :: "'c \<Rightarrow> string \<Rightarrow> 's \<Rightarrow> 's \<times> 't outcome"
  cache_Set :: "'c \<Rightarrow> string \<Rightarrow> 't \<Rightarrow> int \<Rightarrow> 's \<Rightarrow> 's \<times> unit outcome"
  basic :: "string \<Rightarrow> string"
  transmit :: "('c, 'tl, 't) rt \<Rightarrow> Request \<Rightarrow> 's \<Rightarrow> 's \<times> 'x outcome"
  middleware :: "nat \<Rightarrow> Request \<Rightarrow> Request"

definition Valid :: "('c, 'tl, 't, 's, 'x) clientenv \<Rightarrow> 's \<Rightarrow> 't option \<Rightarrow> bool" where
  "Valid e st t = (case t of None \<Rightarrow> False | Some t \<Rightarrow> tk_Valid e (now_of e st) t)"

text \<open>\<open>time.Until\<close>, which saturates; the zero time of a token that does not expire lies too far back.\<close>

definition Until :: "int \<Rightarrow> int option \<Rightarrow> int" where
  "Until now expiry =
     (case expiry of None \<Rightarrow> - (2 ^ 63) | Some t \<Rightarrow> max (- (2 ^ 63)) (min (2 ^ 63 - 1) (t - now)))"

definition storage_Token :: "('c, 'tl, 't, 's, 'x) clientenv \<Rightarrow> 'c storage \<Rightarrow> 's \<Rightarrow> 's \<times> 't option outcome" where
  "storage_Token e sto st =
     (case sto of
        UserStorage n \<Rightarrow> user_Token e n st
      | CacheStorage c key \<Rightarrow> (case cache_Get e c key st of (st, r) \<Rightarrow> (st, go_bind r (\<lambda>t. Ret (Some t)))))"

definition storage_SetToken :: "('c, 'tl, 't, 's, 'x) clientenv \<Rightarrow> 'c storage \<Rightarrow> 't option \<Rightarrow> 's \<Rightarrow> 's \<times> unit outcome" where
  "storage_SetToken e sto t st =
     (case sto of
        UserStorage n \<Rightarrow> user_SetToken e n t st
      | CacheStorage c key \<Rightarrow>
          (case t of
             None \<Rightarrow> (st, Fail (Errorf ''invalid token''))
           | Some tk \<Rightarrow>
               if \<not> Valid e st t then (st, Fail (Errorf ''invalid token''))
               else cache_Set e c key tk (Until (now_of e st) (tk_Expiry e tk)) st))"

fun TokenSource_Token :: "('c, 'tl, 't, 's, 'x) clientenv \<Rightarrow> ('c, 'tl, 't) ts \<Rightarrow> 's \<Rightarrow> 's \<times> 't option outcome" where
  "TokenSource_Token e (StoredTS None base) st = TokenSource_Token e base st"
| "TokenSource_Token e (StoredTS (Some sto) base) st =
     (case storage_Token e sto st of
        (st, Panic m) \<Rightarrow> (st, Panic m)
      | (st, r) \<Rightarrow>
          (case (case r of Ret t \<Rightarrow> t | _ \<Rightarrow> None) of
             t \<Rightarrow>
               if Valid e st t then (st, Ret t)
               else
                 (case TokenSource_Token e base st of
                    (st, Ret t) \<Rightarrow> (case storage_SetToken e sto t st of (st, r) \<Rightarrow> (st, go_bind r (\<lambda>_. Ret t)))
                  | (st, Fail err) \<Rightarrow> (st, Fail err)
                  | (st, Panic m) \<Rightarrow> (st, Panic m))))"
| "TokenSource_Token e source st = source_Token e source st"

definition Exchange :: "('c, 'tl, 't, 's, 'x) clientenv \<Rightarrow> ('s \<Rightarrow> 's \<times> 't option outcome) \<Rightarrow> ('c, 'tl, 't) ClientConfig \<Rightarrow> 's \<Rightarrow>
    's \<times> 't option outcome" where
  "Exchange e exchange c st =
     (case cc_OAuth2 c of
        None \<Rightarrow> (st, Fail (Errorf ''oauth2 config not found''))
      | Some oa \<Rightarrow>
          (case exchange st of
             (st, Ret tk) \<Rightarrow>
               (case oa_storage oa of
                  None \<Rightarrow> (st, Ret tk)
                | Some sto \<Rightarrow> (case storage_SetToken e sto tk st of (st, r) \<Rightarrow> (st, go_bind r (\<lambda>_. Ret tk))))
           | (st, Fail err) \<Rightarrow> (st, Fail err)
           | (st, Panic m) \<Rightarrow> (st, Panic m)))"

definition SetBasicAuth :: "('c, 'tl, 't, 's, 'x) clientenv \<Rightarrow> string \<Rightarrow> string \<Rightarrow> Request \<Rightarrow> Request" where
  "SetBasicAuth e u p req = req\<lparr>Header := Header_Set (Header req) ''Authorization'' (''Basic '' @ basic e (u @ '':'' @ p))\<rparr>"

definition add_headers :: "(string \<times> string list) list \<Rightarrow> Request \<Rightarrow> Request" where
  "add_headers hs req = fold (\<lambda>(key, vs) req. fold (\<lambda>v req. req\<lparr>Header := Header_Add (Header req) key v\<rparr>) vs req) hs req"

definition auth_header :: "('c, 'tl, 't, 's, 'x) clientenv \<Rightarrow> string \<Rightarrow> string \<Rightarrow> 't \<Rightarrow> Request \<Rightarrow> Request" where
  "auth_header e name prefix token req =
     req\<lparr>Header := Header_Set (Header req) name (if prefix \<noteq> [] then prefix @ '' '' @ AccessToken e token else AccessToken e token)\<rparr>"

fun RoundTrip :: "('c, 'tl, 't, 's, 'x) clientenv \<Rightarrow> ('c, 'tl, 't) rt \<Rightarrow> Request \<Rightarrow> 's \<Rightarrow> 's \<times> 'x outcome" where
  "RoundTrip e (MiddlewareRT n r) req st = RoundTrip e r (middleware e n req) st"
| "RoundTrip e (BaseAuthRT u p r) req st = RoundTrip e r (SetBasicAuth e u p req) st"
| "RoundTrip e (TokenHeaderRT hs (Some r)) req st = RoundTrip e r (add_headers hs req) st"
| "RoundTrip e (TokenHeaderRT hs None) req st = (st, Panic ''nil pointer dereference'')"
| "RoundTrip e (OAuth2RT r source) req st =
     (case TokenSource_Token e source st of
        (st, Ret (Some t)) \<Rightarrow> RoundTrip e r (req\<lparr>Header := Header_Set (Header req) ''Authorization'' (oauth2_value e t)\<rparr>) st
      | (st, Ret None) \<Rightarrow> (st, Panic ''nil pointer dereference'')
      | (st, Fail err) \<Rightarrow> (st, Fail err)
      | (st, Panic m) \<Rightarrow> (st, Panic m))"
| "RoundTrip e (AuthRT r source name prefix) req st =
     (case TokenSource_Token e source st of
        (st, Ret (Some t)) \<Rightarrow> RoundTrip e r (auth_header e name prefix t req) st
      | (st, Ret None) \<Rightarrow> (st, Panic ''nil pointer dereference'')
      | (st, Fail err) \<Rightarrow> (st, Fail err)
      | (st, Panic m) \<Rightarrow> (st, Panic m))"
| "RoundTrip e r req st = transmit e r req st"

end
