(* ===== verification/HttpClientProps.thy ===== *)
theory HttpClientProps
  imports HttpClient LFUProps
begin

text \<open>
  What the clients of \<open>pkg/httpx\<close> promise: a token source with a store gives only valid tokens and asks for a
  new one only when the stored one is gone or no longer valid, for any store that keeps the contract
  \<open>token_keeper\<close>, which the storage on the in-process cache does; and what a client sends.
\<close>

section \<open>The contract of a token storage\<close>

text \<open>\<open>Token\<close> of a source with a storage, over the operations of the storage.\<close>

definition stored_token :: "('s \<Rightarrow> 's \<times> 't option outcome) \<Rightarrow> ('t option \<Rightarrow> 's \<Rightarrow> 's \<times> unit outcome) \<Rightarrow> ('s \<Rightarrow> 't option \<Rightarrow> bool) \<Rightarrow>
    ('s \<Rightarrow> 's \<times> 't option outcome) \<Rightarrow> 's \<Rightarrow> 's \<times> 't option outcome" where
  "stored_token get put valid fetch st =
     (case get st of
        (st, Panic m) \<Rightarrow> (st, Panic m)
      | (st, r) \<Rightarrow>
          (case (case r of Ret t \<Rightarrow> t | _ \<Rightarrow> None) of
             t \<Rightarrow>
               if valid st t then (st, Ret t)
               else
                 (case fetch st of
                    (st, Ret t) \<Rightarrow> (case put t st of (st, r) \<Rightarrow> (st, go_bind r (\<lambda>_. Ret t)))
                  | (st, Fail err) \<Rightarrow> (st, Fail err)
                  | (st, Panic m) \<Rightarrow> (st, Panic m))))"

lemma Token_stored:
  "TokenSource_Token e (StoredTS (Some sto) src) = stored_token (storage_Token e sto) (storage_SetToken e sto) (Valid e) (TokenSource_Token e src)"
  by (rule ext) (simp add: stored_token_def split: prod.split outcome.split)

text \<open>
  \<open>holds s t\<close>: the storage has the token \<open>t\<close> and will give it as long as it is valid.  A storage accepts valid
  tokens only.
\<close>

locale token_keeper =
  fixes get :: "'s \<Rightarrow> 's \<times> 't option outcome" and put :: "'t option \<Rightarrow> 's \<Rightarrow> 's \<times> unit outcome"
    and valid :: "'s \<Rightarrow> 't option \<Rightarrow> bool" and holds :: "'s \<Rightarrow> 't \<Rightarrow> bool" and ok :: "'s \<Rightarrow> 't \<Rightarrow> bool"
  assumes put_valid: "put tk s = (s', Ret ()) \<Longrightarrow> valid s tk"
    and put_holds: "put (Some t) s = (s', Ret ()) \<Longrightarrow> ok s t \<Longrightarrow> holds s' t"
    and get_holds: "holds s t \<Longrightarrow> valid s (Some t) \<Longrightarrow> \<exists>s'. get s = (s', Ret (Some t)) \<and> holds s' t \<and> valid s' = valid s"
begin

lemma held_is_given:
  assumes "holds s t" "valid s (Some t)"
  shows "\<exists>s'. stored_token get put valid fetch s = (s', Ret (Some t)) \<and> get s = (s', Ret (Some t)) \<and> holds s' t"
  using get_holds [OF assms] assms(2) by (auto simp: stored_token_def)

lemma fetched_is_held:
  assumes "get s = (s1, Fail err)" "\<And>s. \<not> valid s None" "fetch s1 = (s2, Ret (Some t))" "ok s2 t"
    and "stored_token get put valid fetch s = (s', r)" "r = Ret (Some t) \<or> returns r"
  shows "r = Ret (Some t) \<and> holds s' t"
  using assms put_holds
  by (auto simp: stored_token_def go_bind_Ret_iff returns_iff split: prod.splits if_splits outcome.splits)

end

section \<open>The storage on the in-process cache\<close>

text \<open>
  Clients whose tokens are stored in an in-process cache.  The state is the remote side \<open>'r\<close>, the clock and the
  cache; \<open>enc\<close> and \<open>dec\<close> are the token as a value that the codec writes, \<open>zero\<close> is the empty token that \<open>Token\<close>
  reads into.
\<close>

definition lfu_get_token :: "('st, 'o) env \<Rightarrow> 'o gval \<Rightarrow> ('o gval \<Rightarrow> 't) \<Rightarrow> unit \<Rightarrow> string \<Rightarrow> 'r \<times> int \<times> 'st TinyLFU \<Rightarrow>
    ('r \<times> int \<times> 'st TinyLFU) \<times> 't outcome" where
  "lfu_get_token ev zero dec u key = (\<lambda>(r, now, c).
     (case Get_lfu ev now 0 c key (VPtr (type_of zero) zero) [] of
        (c, x) \<Rightarrow> ((r, now, c), go_bind x (\<lambda>v. case v of VPtr _ v \<Rightarrow> Ret (dec v) | _ \<Rightarrow> Panic ''receiver''))))"

definition lfu_set_token :: "('st, 'o) env \<Rightarrow> ('t \<Rightarrow> 'o gval) \<Rightarrow> unit \<Rightarrow> string \<Rightarrow> 't \<Rightarrow> int \<Rightarrow> 'r \<times> int \<times> 'st TinyLFU \<Rightarrow>
    ('r \<times> int \<times> 'st TinyLFU) \<times> unit outcome" where
  "lfu_set_token ev enc u key t ttl = (\<lambda>(r, now, c).
     (case Set_lfu ev now 0 c key (enc t) [WithTTL ttl] of (c, x) \<Rightarrow> ((r, now, c), x)))"

text \<open>Any surroundings, with the cache of the storage being this one.\<close>

definition on_lfu :: "('st, 'o) env \<Rightarrow> ('t \<Rightarrow> 'o gval) \<Rightarrow> ('o gval \<Rightarrow> 't) \<Rightarrow> 'o gval \<Rightarrow>
    (unit, 'tl, 't, 'r \<times> int \<times> 'st TinyLFU, 'x) clientenv \<Rightarrow> (unit, 'tl, 't, 'r \<times> int \<times> 'st TinyLFU, 'x) clientenv" where
  "on_lfu ev enc dec zero e = e\<lparr>now_of := (\<lambda>(r, now, c). now), cache_Get := lfu_get_token ev zero dec, cache_Set := lfu_set_token ev enc\<rparr>"

text \<open>What is relied on of tokens: a valid token has not expired; the codec can carry them.\<close>

definition token_laws :: "('st, 'o) env \<Rightarrow> ('t \<Rightarrow> 'o gval) \<Rightarrow> ('o gval \<Rightarrow> 't) \<Rightarrow> 'o gval \<Rightarrow> ('c, 'tl, 't, 's, 'x) clientenv \<Rightarrow> bool" where
  "token_laws ev enc dec zero e \<longleftrightarrow> tinylfu_laws (lib ev)
     \<and> (\<forall>now t x. tk_Valid e now t \<longrightarrow> tk_Expiry e t = Some x \<longrightarrow> now < x)
     \<and> (\<forall>t. dec (enc t) = t) \<and> codec_laws (codecs ev) (range enc)
     \<and> (\<forall>t. storable (enc t) \<and> zero_receiver (enc t) (VPtr (type_of zero) zero))"

definition lfu_ok :: "'st TinyLFU \<Rightarrow> bool" where
  "lfu_ok c \<longleftrightarrow> cache_ok c \<and> \<not> Subsidiary (config c)"

definition lfu_holds :: "('st, 'o) env \<Rightarrow> ('t \<Rightarrow> 'o gval) \<Rightarrow> ('o gval \<Rightarrow> 't) \<Rightarrow> 'o gval \<Rightarrow> (unit, 'tl, 't, 'r \<times> int \<times> 'st TinyLFU, 'x) clientenv \<Rightarrow>
    string \<Rightarrow> 'r \<times> int \<times> 'st TinyLFU \<Rightarrow> 't \<Rightarrow> bool" where
  "lfu_holds ev enc dec zero e key s t \<longleftrightarrow> (case s of (r, now, c) \<Rightarrow>
     token_laws ev enc dec zero e \<and> (\<exists>x. tk_Expiry e t = Some x
       \<and> (\<forall>now' \<ge> now. now' < x \<longrightarrow> (\<exists>v. stored_form ev False (enc t) = Some v \<and> found ev now' c key = Some v))))"

definition lfu_accepts :: "('st, 'o) env \<Rightarrow> ('t \<Rightarrow> 'o gval) \<Rightarrow> ('o gval \<Rightarrow> 't) \<Rightarrow> 'o gval \<Rightarrow> (unit, 'tl, 't, 'r \<times> int \<times> 'st TinyLFU, 'x) clientenv \<Rightarrow>
    'r \<times> int \<times> 'st TinyLFU \<Rightarrow> 't \<Rightarrow> bool" where
  "lfu_accepts ev enc dec zero e s t \<longleftrightarrow> (case s of (r, now, c) \<Rightarrow>
     token_laws ev enc dec zero e \<and> lfu_ok c \<and> (\<exists>x. tk_Expiry e t = Some x \<and> x - now < 2 ^ 62))"

lemma Valid_lfu: "Valid (on_lfu ev enc dec zero e) (r, now, c) t = (case t of None \<Rightarrow> False | Some t \<Rightarrow> tk_Valid e now t)"
  by (cases t) (simp_all add: Valid_def on_lfu_def)

lemma storage_Token_lfu: "storage_Token (on_lfu ev enc dec zero e) (CacheStorage u key) st =
    (case lfu_get_token ev zero dec u key st of (st, r) \<Rightarrow> (st, go_bind r (\<lambda>t. Ret (Some t))))"
  by (simp add: storage_Token_def on_lfu_def)

lemma ttl_options: "TTL (ApplyOptions [WithTTL n]) = n" "\<not> Raw (ApplyOptions [WithTTL n])"
  "\<not> SetXX (ApplyOptions [WithTTL n])" "\<not> SetNX (ApplyOptions [WithTTL n])"
  by (simp_all add: ApplyOptions_def WithTTL_def)

lemma fixTTL_plain: "lfu_ok c \<Longrightarrow> 0 < ttl \<Longrightarrow> fixTTL c rnd ttl opt = Ret ttl"
  by (simp add: lfu_ok_def cache_ok_def fixTTL_def)

interpretation lfu_keeper: token_keeper "storage_Token (on_lfu ev enc dec zero e) (CacheStorage () key)"
  "storage_SetToken (on_lfu ev enc dec zero e) (CacheStorage () key)" "Valid (on_lfu ev enc dec zero e)"
  "lfu_holds ev enc dec zero e key" "lfu_accepts ev enc dec zero e"
  for ev :: "('st, 'o) env" and enc dec zero and e :: "(unit, 'tl, 't, 'r \<times> int \<times> 'st TinyLFU, 'x) clientenv" and key
proof unfold_locales
  let ?e = "on_lfu ev enc dec zero e"
  fix t s and s' :: "'r \<times> int \<times> 'st TinyLFU"
  assume "storage_SetToken ?e (CacheStorage () key) t s = (s', Ret ())"
  then show "Valid ?e s t" by (auto simp: storage_SetToken_def split: option.splits if_splits)
next
  let ?e = "on_lfu ev enc dec zero e"
  fix t and s s' :: "'r \<times> int \<times> 'st TinyLFU"
  assume p: "storage_SetToken ?e (CacheStorage () key) (Some t) s = (s', Ret ())" and a: "lfu_accepts ev enc dec zero e s t"
  obtain r now c where s: "s = (r, now, c)" by (cases s) auto
  from a obtain x where laws: "token_laws ev enc dec zero e" and ok: "lfu_ok c" and x: "tk_Expiry e t = Some x" "x - now < 2 ^ 62"
    by (auto simp: lfu_accepts_def s)
  from p have "Valid ?e s (Some t)" by (auto simp: storage_SetToken_def split: if_splits)
  then have "now < x" using laws x(1) by (auto simp: token_laws_def Valid_lfu s)
  then have u: "Until now (tk_Expiry e t) = x - now" using x by (simp add: Until_def)
  obtain c' y where st: "Set_lfu ev now 0 c key (enc t) [WithTTL (x - now)] = (c', y)" by fastforce
  with p u have s': "s' = (r, now, c')" "y = Ret ()"
    by (auto simp: storage_SetToken_def on_lfu_def lfu_set_token_def s split: if_splits)
  have "setValue ev now c key (enc t) (x - now) False = (c', Ret ())"
    using st s'(2) \<open>now < x\<close> by (simp add: Set_lfu_def setOptions_def Let_def ttl_options fixTTL_plain [OF ok])
  from setValue_spec [OF _ this] laws obtain v where "stored_form ev False (enc t) = Some v"
    "\<forall>now'. now \<le> now' \<longrightarrow> (x - now = 0 \<or> now' < now + (x - now)) \<longrightarrow> found ev now' c' key = Some v"
    by (auto simp: token_laws_def)
  then show "lfu_holds ev enc dec zero e key s' t" using laws x(1) by (auto simp: lfu_holds_def s')
next
  let ?e = "on_lfu ev enc dec zero e"
  fix t and s :: "'r \<times> int \<times> 'st TinyLFU"
  assume h: "lfu_holds ev enc dec zero e key s t" and v: "Valid ?e s (Some t)"
  obtain r now c where s: "s = (r, now, c)" by (cases s) auto
  from h obtain x where laws: "token_laws ev enc dec zero e" and x: "tk_Expiry e t = Some x"
    and f: "\<And>now'. now \<le> now' \<Longrightarrow> now' < x \<Longrightarrow> \<exists>v. stored_form ev False (enc t) = Some v \<and> found ev now' c key = Some v"
    by (auto simp: lfu_holds_def s)
  have "now < x" using laws x v by (auto simp: token_laws_def Valid_lfu s)
  then obtain w where w: "stored_form ev False (enc t) = Some w" "found ev now c key = Some w" using f [of now] by auto
  have g: "Get_lfu ev now 0 c key (VPtr (type_of zero) zero) [] = GetInner ev now c key (VPtr (type_of zero) zero) False"
    using Get_lfu_no_getter [of "[]"] by (simp add: ApplyOptions_def)
  obtain c' y where gi: "GetInner ev now c key (VPtr (type_of zero) zero) False = (c', y)" by fastforce
  have "y = Ret (VPtr (type_of (enc t)) (enc t))"
    using GetInner_stored [of ev "range enc" "enc t" "VPtr (type_of zero) zero" w now c key] laws w gi by (simp add: token_laws_def)
  moreover have "found ev now' c' key = found ev now' c key" if "now \<le> now'" for now'
    using GetInner_spec(1) [OF _ gi that] laws by (simp add: token_laws_def)
  moreover have "Valid ?e (r, now, c') = Valid ?e (r, now, c)" by (rule ext) (simp add: Valid_lfu)
  ultimately show "\<exists>s'. storage_Token ?e (CacheStorage () key) s = (s', Ret (Some t))
      \<and> lfu_holds ev enc dec zero e key s' t \<and> Valid ?e s' = Valid ?e s"
    using laws x f g gi
    by (auto simp: storage_Token_lfu lfu_get_token_def s lfu_holds_def token_laws_def)
qed



text \<open>Surroundings whose calls take no time.\<close>

definition still :: "('c, 'tl, 't, 's, 'x) clientenv \<Rightarrow> bool" where
  "still e \<longleftrightarrow> (\<forall>ts st. now_of e (fst (source_Token e ts st)) = now_of e st)
     \<and> (\<forall>n st. now_of e (fst (user_Token e n st)) = now_of e st) \<and> (\<forall>n t st. now_of e (fst (user_SetToken e n t st)) = now_of e st)
     \<and> (\<forall>c k st. now_of e (fst (cache_Get e c k st)) = now_of e st)
     \<and> (\<forall>c k t d st. now_of e (fst (cache_Set e c k t d st)) = now_of e st)"

lemma storage_clock:
  assumes "still e"
  shows "now_of e (fst (storage_Token e sto st)) = now_of e st" "now_of e (fst (storage_SetToken e sto t st)) = now_of e st"
  using assms by (simp_all add: still_def storage_Token_def storage_SetToken_def split: storage.split prod.split option.split)
    (metis fst_conv)+


lemma stored_token_cases:
  assumes "stored_token get put valid fetch st = (st', r)" "get st = (s1, y)"
  shows "(st' = s1 \<and> (\<forall>t. r = Ret t \<longrightarrow> valid s1 t)) \<or> (\<exists>s2 z. fetch s1 = (s2, z)
    \<and> ((st' = s2 \<and> \<not> returns r) \<or> (\<exists>t w. z = Ret t \<and> put t s2 = (st', w) \<and> r = go_bind w (\<lambda>_. Ret t))))"
proof (cases "(\<exists>m. y = Panic m) \<or> valid s1 (case y of Ret t \<Rightarrow> t | _ \<Rightarrow> None)")
  case True
  then show ?thesis using assms by (cases y) (auto simp: stored_token_def)
next
  case False
  obtain s2 z where f: "fetch s1 = (s2, z)" by fastforce
  have "(case z of Ret t \<Rightarrow> (case put t s2 of (s, w) \<Rightarrow> (s, go_bind w (\<lambda>_. Ret t))) | Fail err \<Rightarrow> (s2, Fail err) | Panic m \<Rightarrow> (s2, Panic m)) = (st', r)"
    using False assms f by (cases y; cases z) (auto simp: stored_token_def)
  then show ?thesis using f by (cases z) (auto simp: returns_def split: prod.splits)
qed

lemma Token_clock: "still e \<Longrightarrow> now_of e (fst (TokenSource_Token e src st)) = now_of e st"
proof (induction "size src" arbitrary: src st rule: less_induct)
  case less
  show ?case
  proof (cases src)
    case (StoredTS o' b)
    then have IH: "now_of e (fst (TokenSource_Token e b s)) = now_of e s" for s by (intro less) simp_all
    show ?thesis
    proof (cases o')
      case None
      with StoredTS IH show ?thesis by simp
    next
      case (Some sto)
      obtain s1 y where g: "storage_Token e sto st = (s1, y)" by fastforce
      obtain st' r where t: "TokenSource_Token e src st = (st', r)" by fastforce
      from t [unfolded StoredTS Some Token_stored] have "(st' = s1) \<or> (\<exists>s2 z. TokenSource_Token e b s1 = (s2, z)
          \<and> (st' = s2 \<or> (\<exists>t w. storage_SetToken e sto t s2 = (st', w))))"
        using stored_token_cases [of "storage_Token e sto" "storage_SetToken e sto" "Valid e" "TokenSource_Token e b" st st' r s1 y, OF _ g] by blast
      then show ?thesis
        using IH [of s1] g t storage_clock(1) [OF less.prems, of sto st] storage_clock(2) [OF less.prems, of sto] by (metis fst_conv)
    qed
  qed (use less.prems in \<open>simp_all add: still_def\<close>)
qed



text \<open>
  Concrete surroundings: one token, which expires at a hundred seconds, given by every source, and an in-process
  cache with a TTL of a minute.
\<close>

definition demo_client :: "(unit, unit, unit, nat \<times> int \<times> unit demo_state TinyLFU, Request) clientenv" where
  "demo_client =
     \<lparr>now_of = (\<lambda>(r, now, c). now), tk_Valid = (\<lambda>now t. now < 100 * second), tk_Expiry = (\<lambda>t. Some (100 * second)),
      AccessToken = (\<lambda>t. ''secret''), oauth2_value = (\<lambda>t. ''Bearer secret''),
      source_Token = (\<lambda>ts (r, now, c). ((Suc r, now, c), Ret (Some ()))), user_Token = (\<lambda>n st. (st, Ret None)),
      user_SetToken = (\<lambda>n t st. (st, Ret ())), cache_Get = lfu_get_token demo_env (VInt 0) (\<lambda>_. ()),
      cache_Set = lfu_set_token demo_env (\<lambda>_. VInt 7), basic = id, transmit = (\<lambda>r req st. (st, Ret req)), middleware = (\<lambda>n req. req)\<rparr>"

definition demo_cache :: "unit demo_state TinyLFU" where
  "demo_cache = \<lparr>config = default_config, lfu = [], offset = 0\<rparr>"

lemma codec_laws_subset: "codec_laws cd V \<Longrightarrow> W \<subseteq> V \<Longrightarrow> codec_laws cd W"
  unfolding codec_laws_def by blast

lemma demo_client_laws: "token_laws demo_env (\<lambda>_. VInt 7) (\<lambda>_. ()) (VInt 0) demo_client" "lfu_ok demo_cache"
  "on_lfu demo_env (\<lambda>_. VInt 7) (\<lambda>_. ()) (VInt 0) demo_client = demo_client"
proof -
  have "codec_laws (codecs demo_env) (range (\<lambda>_ :: unit. VInt 7))"
    by (rule codec_laws_subset [OF demo_env_laws(2)]) (auto simp: demo_values_def)
  then show "token_laws demo_env (\<lambda>_. VInt 7) (\<lambda>_. ()) (VInt 0) demo_client"
    using demo_env_laws(1) by (auto simp: token_laws_def demo_client_def storable_def zero_receiver_def)
  show "lfu_ok demo_cache" by (simp add: lfu_ok_def cache_ok_def demo_cache_def default_config_def defaultTTL_def second_def)
  show "on_lfu demo_env (\<lambda>_. VInt 7) (\<lambda>_. ()) (VInt 0) demo_client = demo_client" by (simp add: on_lfu_def demo_client_def)
qed

lemma demo_nothing_stored:
  "storage_Token demo_client (CacheStorage () ''k'') (0, 0, demo_cache) = ((0, 0, demo_cache), Fail ErrCacheMiss)"
  by (simp add: storage_Token_def demo_client_def lfu_get_token_def Get_lfu_def GetInner_def lfu_get_def demo_cache_def Let_def no_options
      demo_env_def demo_table_def)

lemma demo_stored:
  "\<exists>c. TokenSource_Token demo_client (StoredTS (Some (CacheStorage () ''k'')) (UserTS 0)) (0, 0, demo_cache) = ((1, 0, c), Ret (Some ()))"
proof -
  have m: "DefaultMarshalFunc (codecs demo_env) (VInt 7) = Ret [CHR ''7'', noCompression]"
    by (simp add: DefaultMarshalFunc_def demo_codec_def Itoa_def nat_digits.simps compress_def compressionThreshold_def
        noCompression_def char_of_def bit_0 demo_env_def)
  have t: "TokenSource_Token demo_client (UserTS 0) (0, 0, demo_cache) = ((1, 0, demo_cache), Ret (Some ()))"
    by (simp add: demo_client_def)
  have v: "Valid demo_client s None = False" "Valid demo_client (1, 0, demo_cache) (Some ())" for s
    by (simp_all add: Valid_def demo_client_def second_def)
  have "snd (Set_lfu demo_env 0 0 demo_cache ''k'' (VInt 7) [WithTTL (100 * second)]) = Ret ()"
    by (simp add: Set_lfu_def setOptions_def Let_def ttl_options setValue_def m second_def fixTTL_plain [OF demo_client_laws(2)])
  moreover have "Until 0 (tk_Expiry demo_client ()) = 100 * second" by (simp add: Until_def demo_client_def second_def)
  ultimately have "\<exists>c. storage_SetToken demo_client (CacheStorage () ''k'') (Some ()) (1, 0, demo_cache) = ((1, 0, c), Ret ())"
    using v(2) by (auto simp: storage_SetToken_def) (auto simp: demo_client_def lfu_set_token_def split: prod.splits)
  then show ?thesis using demo_nothing_stored t v(1) by (auto simp: Token_stored stored_token_def)
qed



section \<open>What a client sends\<close>

text \<open>
  the authorization of a client.  A client built from a configuration with OAuth2 and neither basic
  authentication nor transports of the user sends every request with the token of its source in the configured
  header with the configured prefix, or, if these are the usual ones, as the oauth2 library writes it; a source
  without a token stops the request.
\<close>

theorem client_sends_token:
  fixes cfg :: "('c, 'tl, 't) ClientConfig" and e :: "('c, 'tl, 't, 's, 'x) clientenv"
  assumes "NewClient tls cfg = Ret (cfg', r, tmo)" "cc_OAuth2 cfg = Some oa" "cc_base cfg = None"
  shows "\<exists>src t. TokenSource_of cfg' = Ret src
    \<and> NewTransport tls (cc_TLS cfg) (cc_Proxy cfg) = Ret (Transport t (cc_Proxy cfg) :: ('c, 'tl, 't) rt)
    \<and> RoundTrip e r req st = (case TokenSource_Token e src st of
        (st, Ret (Some tk)) \<Rightarrow>
          transmit e (Transport t (cc_Proxy cfg))
            (if useCustomAuth (cc_Authorization cfg)
             then auth_header e (HeaderName (the (cc_Authorization cfg))) (HeaderPrefix (the (cc_Authorization cfg))) tk req
             else req\<lparr>Header := Header_Set (Header req) ''Authorization'' (oauth2_value e tk)\<rparr>) st
      | (st, Ret None) \<Rightarrow> (st, Panic ''nil pointer dereference'')
      | (st, Fail err) \<Rightarrow> (st, Fail err)
      | (st, Panic m) \<Rightarrow> (st, Panic m))"
proof -
  from assms obtain b :: "('c, 'tl, 't) rt" where b: "NewTransport tls (cc_TLS cfg) (cc_Proxy cfg) = Ret b"
    by (auto simp: NewClient_def go_bind_Ret_iff)
  then obtain t where t: "b = Transport t (cc_Proxy cfg)"
    by (auto simp: NewTransport_def go_bind_Ret_iff split: option.splits)
  let ?c = "cfg\<lparr>cc_base := Some b\<rparr>"
  obtain src where src: "TokenSource_of ?c = Ret src" and c': "cfg' = ?c\<lparr>cc_OAuth2 := Some (oa\<lparr>oa_ts := Some src\<rparr>)\<rparr>"
    and r: "r = (case cc_Authorization cfg of
      Some a \<Rightarrow> if useCustomAuth (Some a) then AuthRT b src (HeaderName a) (HeaderPrefix a) else OAuth2RT b src | None \<Rightarrow> OAuth2RT b src)"
    using assms b by (auto simp: NewClient_def go_bind_Ret_iff Let_def)
  have "TokenSource_of cfg' = Ret src" using c' by (simp add: TokenSource_of_def)
  moreover have "RoundTrip e r req st = (case TokenSource_Token e src st of
        (st, Ret (Some tk)) \<Rightarrow>
          transmit e (Transport t (cc_Proxy cfg))
            (if useCustomAuth (cc_Authorization cfg)
             then auth_header e (HeaderName (the (cc_Authorization cfg))) (HeaderPrefix (the (cc_Authorization cfg))) tk req
             else req\<lparr>Header := Header_Set (Header req) ''Authorization'' (oauth2_value e tk)\<rparr>) st
      | (st, Ret None) \<Rightarrow> (st, Panic ''nil pointer dereference'')
      | (st, Fail err) \<Rightarrow> (st, Fail err)
      | (st, Panic m) \<Rightarrow> (st, Panic m))"
    unfolding r t by (auto simp: useCustomAuth_def split: option.split prod.split outcome.split)
  ultimately show ?thesis using b t by blast
qed

definition demo_oauth2 :: oauth2_settings where
  "demo_oauth2 = \<lparr>ClientID = ''id'', ClientSecret = ''s'', TokenURL = ''/token'', Scopes = [], StoreKey = [], EndpointParams = None,
     TokenHeader = [], oa_Username = [], oa_Password = []\<rparr>"

theorem client_sends_token_witness:
  "\<exists>r cfg'. NewClient (\<lambda>t. Ret t) \<lparr>cc_Proxy = None, cc_TLS = None, Timeout = 0, cc_BasicAuth = None,
      cc_Authorization = Some \<lparr>HeaderName = ''X-TokenSource_Token'', HeaderPrefix = []\<rparr>,
      cc_OAuth2 = Some \<lparr>oa_settings = demo_oauth2, oa_ts = Some (UserTS 0), oa_storage = None\<rparr>, cc_base = None\<rparr> = Ret (cfg', r, 0)
    \<and> (\<forall>req. snd (RoundTrip demo_client r req (0, 0, demo_cache)) = Ret (req\<lparr>Header := Header_Set (Header req) ''X-TokenSource_Token'' ''secret''\<rparr>))"
proof -
  let ?cfg = "\<lparr>cc_Proxy = None, cc_TLS = None, Timeout = 0, cc_BasicAuth = None,
      cc_Authorization = Some \<lparr>HeaderName = ''X-TokenSource_Token'', HeaderPrefix = []\<rparr>,
      cc_OAuth2 = Some \<lparr>oa_settings = demo_oauth2, oa_ts = Some (UserTS 0), oa_storage = None\<rparr>, cc_base = None\<rparr>
        :: (unit, unit, unit) ClientConfig"
  obtain r cfg' where n: "NewClient (\<lambda>t. Ret t) ?cfg = Ret (cfg', r, 0)"
    by (simp add: NewClient_def NewTransport_def TokenSource_of_def Let_def)
  then have c: "TokenSource_of cfg' = Ret (UserTS 0)"
    by (auto simp: NewClient_def NewTransport_def TokenSource_of_def Let_def)
  have "snd (RoundTrip demo_client r req (0, 0, demo_cache)) = Ret (req\<lparr>Header := Header_Set (Header req) ''X-TokenSource_Token'' ''secret''\<rparr>)"
    for req
    using client_sends_token [OF n, of _ demo_client req "(0, 0, demo_cache)"] c
    by (auto simp: useCustomAuth_def auth_header_def demo_client_def)
  with n show ?thesis by blast
qed

text \<open>
  Basic authentication replaces the default transport before the client is built, so its TLS and proxy settings
  are not used; and as it acts below the token, it overwrites the token's header.
\<close>

lemma basic_auth_ignores_transport:
  assumes "NewClientConfig hash mgr (Ret cfg) [] = Ret cfg'" "cc_base cfg = None" "cc_BasicAuth cfg = Some b" "cc_OAuth2 cfg = None"
  shows "NewClient tls cfg' = Ret (cfg', BaseAuthRT (ba_Username b) (ba_Password b) DefaultTransport, Timeout cfg)"
  using assms
  by (auto simp: NewClientConfig_def ClientConfig_Validate_def Let_def go_bind_Ret_iff NewClient_def chain_def BaseAuth_def
      split: option.splits if_splits)

lemma basic_auth_overrides_token:
  assumes "TokenSource_Token e src st = (st', Ret (Some tk))"
  shows "RoundTrip e (OAuth2RT (BaseAuthRT u p r) src) req st = RoundTrip e r (SetBasicAuth e u p req) st'"
  using assms by (simp add: SetBasicAuth_def Header_Set_def)

text \<open>
  An empty prefix with the header \<open>Authorization\<close> is treated as the usual one, and a prefix without a header
  name is replaced.
\<close>

lemma empty_prefix_is_bearer: "\<not> useCustomAuth (Some \<lparr>HeaderName = ''Authorization'', HeaderPrefix = []\<rparr>)"
  by (simp add: useCustomAuth_def)

lemma prefix_without_name_is_lost:
  assumes "cc_Authorization c = Some \<lparr>HeaderName = [], HeaderPrefix = p\<rparr>"
  shows "cc_Authorization (fst (ClientConfig_Validate c)) = Some \<lparr>HeaderName = ''Authorization'', HeaderPrefix = ''Bearer''\<rparr>"
  using assms by (simp add: ClientConfig_Validate_def Let_def)

text \<open>
  \<open>TokenSource\<close> called before a client is built: with headers for the token request its transport has no base,
  and without OAuth2 settings it panics.
\<close>

lemma token_header_without_base_panics:
  assumes "TokenHeader (oa_settings oa) \<noteq> []" "oa_ts oa = None" "cc_OAuth2 c = Some oa" "cc_base c = None"
    and "grant_type (oa_settings oa) = GrantTypePassword" "oa_storage oa = None"
  shows "\<exists>r. TokenSource_of c = Ret (StoredTS None (PasswordTS (oa_settings oa) (Some r)))
    \<and> RoundTrip e r req st = (st, Panic ''nil pointer dereference'')"
  using assms by (simp add: TokenSource_of_def Let_def)

lemma token_source_without_oauth2_panics: "cc_OAuth2 c = None \<Longrightarrow> TokenSource_of c = Panic ''nil pointer dereference''"
  by (simp add: TokenSource_of_def)

end
