(* ===== verification/GrpcInterceptor.thy ===== *)
theory GrpcInterceptor
  imports AccessLog JwtAuth LogComp
begin

text \<open>
  Model of the interceptors of gRPC servers in \<open>rpc/grpcx/interceptor\<close>: \<open>jwt.go\<close>, \<open>logger.go\<close>,
  \<open>recovery.go\<close> and the wrapped streams of \<open>interceptor.go\<close>.  A handler is a function of the context and the request
  that changes the state of the calls: the carriers of log fields, the wrapped streams and the entries logged.
  It returns a response and an error, panics, or ends its goroutine.
\<close>

section \<open>Contexts, states and results\<close>

text \<open>
  What the interceptors read of a context: the incoming metadata (whose keys the library lower-cases), the
  principal, the address of the carrier of log fields, the deadline and the peer.
\<close>

record callctx =
  cx_md :: "(string \<Rightarrow> string list option) option"
  cx_values :: "jwtclaims gocontext"
  cx_carrier :: "nat option"
  cx_deadline :: "int option"
  cx_peer :: "string option"

text \<open>A server stream is the library's, with its context, or a wrapped one, which is an object of a store.\<close>

datatype 'b sstream = RawStream 'b callctx | WrapStream nat

record 'b WrappedServerStream =
  ServerStream :: "'b sstream"
  WrappedContext :: callctx

text \<open>The entries given to the loggers: those of the access log with context, level and message, and errors.\<close>

datatype 'm rpc_entry = AccessEntry callctx int string "'m zfield list" | ErrorEntry string "'m zfield list"

record ('m, 'b) rpcst =
  rs_carriers :: "'m carriers"
  rs_fresh :: nat
  rs_streams :: "'b WrappedServerStream list"
  rs_log :: "'m rpc_entry list"

datatype ('r, 'v) hresult = HRet 'r "go_error option" | HPanic "'v panicval" | HGoexit

type_synonym ('r, 'v, 'm, 'b) call = "('m, 'b) rpcst \<Rightarrow> ('m, 'b) rpcst \<times> ('r, 'v) hresult"
type_synonym ('q, 'r, 'v, 'm, 'b) unary_handler = "callctx \<Rightarrow> 'q \<Rightarrow> ('r option, 'v, 'm, 'b) call"
type_synonym ('s, 'v, 'm, 'b) stream_handler = "'s \<Rightarrow> 'b sstream \<Rightarrow> (unit, 'v, 'm, 'b) call"

text \<open>A panic of the run-time system has an error as its value.\<close>

abbreviation runtime_panic :: "string \<Rightarrow> ('r, 'v) hresult" where
  "runtime_panic m \<equiv> HPanic (PanicError (Errorf m))"

section \<open>Wrapped streams\<close>

definition stream_Context :: "'b sstream \<Rightarrow> ('m, 'b) rpcst \<Rightarrow> callctx" where
  "stream_Context ss st = (case ss of RawStream _ ctx \<Rightarrow> ctx | WrapStream a \<Rightarrow> WrappedContext (rs_streams st ! a))"

definition WrapServerStream :: "'b sstream \<Rightarrow> ('m, 'b) rpcst \<Rightarrow> ('m, 'b) rpcst \<times> nat" where
  "WrapServerStream ss st =
     (case ss of
        WrapStream a \<Rightarrow> (st, a)
      | RawStream _ ctx \<Rightarrow>
          (st\<lparr>rs_streams := rs_streams st @ [\<lparr>ServerStream = ss, WrappedContext = ctx\<rparr>]\<rparr>, length (rs_streams st)))"

definition set_WrappedContext :: "nat \<Rightarrow> callctx \<Rightarrow> ('m, 'b) rpcst \<Rightarrow> ('m, 'b) rpcst" where
  "set_WrappedContext a ctx st = st\<lparr>rs_streams := (rs_streams st)[a := (rs_streams st ! a)\<lparr>WrappedContext := ctx\<rparr>]\<rparr>"

section \<open>Tokens\<close>

record 'k GrpcJWTOptions =
  gj_JWTOptions :: "(callctx, 'k) JWTOptions"
  gj_Exclude :: "string list"

definition NewGrpcJWTOptions :: "'k GrpcJWTOptions" where
  "NewGrpcJWTOptions = \<lparr>gj_JWTOptions = NewJWTOptions, gj_Exclude = []\<rparr>"

definition JWTOptions_Apply ::
  "'k jwtenv \<Rightarrow> ('k GrpcJWTOptions \<Rightarrow> 'k GrpcJWTOptions outcome) \<Rightarrow> 'k GrpcJWTOptions \<Rightarrow> 'k GrpcJWTOptions outcome" where
  "JWTOptions_Apply e unmarshal mw =
     (case unmarshal mw of
        Fail err \<Rightarrow> Panic ''Unmarshal''
      | Panic m \<Rightarrow> Panic m
      | Ret mw \<Rightarrow>
          (case Init e (gj_JWTOptions mw) of
             Fail err \<Rightarrow> Panic ''Init''
           | Panic m \<Rightarrow> Panic m
           | Ret o' \<Rightarrow> Ret (mw\<lparr>gj_JWTOptions := o'\<rparr>)))"

text \<open>The loop over the values of the metadata key.\<close>

definition metadata_value :: "string \<Rightarrow> string \<Rightarrow> string option" where
  "metadata_value valuePrefix value =
     (let prefixLen = length valuePrefix in
      if prefixLen = 0 then Some value
      else if prefixLen < length value \<and> EqualFold (take prefixLen value) valuePrefix then Some (drop prefixLen value)
      else None)"

definition valuesFromMetadata :: "string \<Rightarrow> string \<Rightarrow> callctx \<Rightarrow> string list outcome" where
  "valuesFromMetadata key valuePrefix ctx =
     (case cx_md ctx of
        None \<Rightarrow> Fail ErrJWTMissing
      | Some md \<Rightarrow>
          (case md key of
             None \<Rightarrow> Fail ErrJWTMissing
           | Some values \<Rightarrow>
               (let result = List.map_filter (metadata_value valuePrefix) values in
                if result = [] then
                  (if 0 < length valuePrefix then Fail (Errorf ''invalid value in request metadata'')
                   else Fail (Errorf ''missing value in request metadata''))
                else Ret result)))"

definition createExtractor :: "'k GrpcJWTOptions \<Rightarrow> callctx \<Rightarrow> string list outcome" where
  "createExtractor itcp ctx =
     (let scheme = jwt_AuthScheme (gj_JWTOptions itcp);
          prefix = (if scheme = [] then [] else if HasSuffix scheme '' '' then scheme else scheme @ '' '') in
      valuesFromMetadata (TokenLookup (gj_JWTOptions itcp)) prefix ctx)"

text \<open>The loop of \<open>withToken\<close>; its third argument is \<open>lastTokenErr\<close>.\<close>

fun token_loop :: "(callctx \<Rightarrow> string \<Rightarrow> Token outcome) option \<Rightarrow> callctx \<Rightarrow> go_error option \<Rightarrow> string list \<Rightarrow> callctx outcome" where
  "token_loop parse ctx lastTokenErr [] =
     (case lastTokenErr of Some err \<Rightarrow> Fail err | None \<Rightarrow> Fail ErrJWTMissing)"
| "token_loop parse ctx lastTokenErr (s # authstr) =
     (case parse of
        None \<Rightarrow> Panic ''nil pointer dereference''
      | Some f \<Rightarrow>
          (case f ctx s of
             Fail err \<Rightarrow> token_loop parse ctx (Some err) authstr
           | Panic m \<Rightarrow> Panic m
           | Ret token \<Rightarrow>
               (case tok_Claims token of
                  OtherClaims _ \<Rightarrow> Fail ErrJWTClaims
                | MapClaims cs \<Rightarrow>
                    Ret (ctx\<lparr>cx_values := WithContext (cx_values ctx) (NewGenericPrincipalByClaims (MapClaims cs))\<rparr>))))"

definition withToken :: "(callctx \<Rightarrow> string list outcome) \<Rightarrow> 'k GrpcJWTOptions \<Rightarrow> callctx \<Rightarrow> callctx outcome" where
  "withToken extractor options ctx =
     (case extractor ctx of
        Fail err \<Rightarrow> Fail ErrJWTMissing
      | Panic m \<Rightarrow> Panic m
      | Ret authstr \<Rightarrow> token_loop (ParseTokenFunc (gj_JWTOptions options)) ctx None authstr)"

definition jwt_unary :: "'k GrpcJWTOptions \<Rightarrow> string \<Rightarrow> ('q, 'r, 'v, 'm, 'b) unary_handler \<Rightarrow> ('q, 'r, 'v, 'm, 'b) unary_handler" where
  "jwt_unary options FullMethod handler ctx req st =
     (if FullMethod \<in> set (gj_Exclude options) then handler ctx req st
      else case withToken (createExtractor options) options ctx of
             Fail err \<Rightarrow> (st, HRet None (Some err))
           | Panic m \<Rightarrow> (st, runtime_panic m)
           | Ret newctx \<Rightarrow> handler newctx req st)"

definition JWT_UnaryServerInterceptor ::
  "'k jwtenv \<Rightarrow> ('k GrpcJWTOptions \<Rightarrow> 'k GrpcJWTOptions outcome) \<Rightarrow>
   (string \<Rightarrow> ('q, 'r, 'v, 'm, 'b) unary_handler \<Rightarrow> ('q, 'r, 'v, 'm, 'b) unary_handler) outcome" where
  "JWT_UnaryServerInterceptor e unmarshal =
     go_bind (JWTOptions_Apply e unmarshal NewGrpcJWTOptions) (\<lambda>options. Ret (jwt_unary options))"

definition jwt_stream :: "'k GrpcJWTOptions \<Rightarrow> string \<Rightarrow> ('s, 'v, 'm, 'b) stream_handler \<Rightarrow> ('s, 'v, 'm, 'b) stream_handler" where
  "jwt_stream options FullMethod handler srv ss st =
     (if FullMethod \<in> set (gj_Exclude options) then handler srv ss st
      else case withToken (createExtractor options) options (stream_Context ss st) of
             Fail err \<Rightarrow> (st, HRet () (Some err))
           | Panic m \<Rightarrow> (st, runtime_panic m)
           | Ret newctx \<Rightarrow>
               (case WrapServerStream ss st of
                  (st, ws) \<Rightarrow> handler srv (WrapStream ws) (set_WrappedContext ws newctx st)))"

definition SteamServerInterceptor ::
  "'k jwtenv \<Rightarrow> ('k GrpcJWTOptions \<Rightarrow> 'k GrpcJWTOptions outcome) \<Rightarrow>
   (string \<Rightarrow> ('s, 'v, 'm, 'b) stream_handler \<Rightarrow> ('s, 'v, 'm, 'b) stream_handler) outcome" where
  "SteamServerInterceptor e unmarshal =
     go_bind (JWTOptions_Apply e unmarshal NewGrpcJWTOptions) (\<lambda>options. Ret (jwt_stream options))"

section \<open>Status codes\<close>

text \<open>
  The status package: the error made of a code and a text, the code of an error, and the text of an error.
  Codes are its numbers.
\<close>

record statuslib =
  status_Errorf :: "nat \<Rightarrow> string \<Rightarrow> go_error"
  status_Code :: "go_error option \<Rightarrow> nat"
  err_text :: "go_error \<Rightarrow> string"

abbreviation "codes_Unknown \<equiv> 2 :: nat"
abbreviation "codes_Internal \<equiv> 13 :: nat"

text \<open>zap's levels are -1 for debug, 0 for info, 1 for warnings and 2 for errors.\<close>

abbreviation "zap_InfoLevel \<equiv> 0 :: int"
abbreviation "zap_WarnLevel \<equiv> 1 :: int"
abbreviation "zap_ErrorLevel \<equiv> 2 :: int"

text \<open>
  The codes in the order of their numbers: OK, Canceled, Unknown, InvalidArgument, DeadlineExceeded, NotFound,
  AlreadyExists, PermissionDenied, ResourceExhausted, FailedPrecondition, Aborted, OutOfRange, Unimplemented,
  Internal, Unavailable, DataLoss, Unauthenticated.
\<close>

definition DefaultCodeToLevel :: "nat \<Rightarrow> int" where
  "DefaultCodeToLevel code =
     (if code \<in> {0, 1, 3, 5, 6, 16} then zap_InfoLevel
      else if code \<in> {4, 7, 8, 9, 10, 11, 14} then zap_WarnLevel
      else zap_ErrorLevel)"

section \<open>The access log\<close>

record GrpcLoggerOptions =
  gl_Format :: string
  gl_AppendFormat :: string
  gl_tags :: "string list"

definition grpcLoggerFormat :: string where
  "grpcLoggerFormat = ''grpc.start_time,grpc.service,grpc.method,grpc.request.deadline,status,error,latency,'' @ ''peer.address''"

definition defaultLoggerOptions :: GrpcLoggerOptions where
  "defaultLoggerOptions = \<lparr>gl_Format = grpcLoggerFormat, gl_AppendFormat = [], gl_tags = []\<rparr>"

definition AccessLogComponentName :: string where "AccessLogComponentName = ''grpc'' @ ''.accessLog''"

text \<open>
  The logger of the access log: the component's, with the context logger of the component \<open>grpc\<close>, set as the
  component's new logger.  \<open>stacktrace\<close> is the option that raises the level of stack traces above all.
\<close>

definition access_logger :: "('z, 'f, 'o, 'c, 'x) zapenv \<Rightarrow> 'o \<Rightarrow> ('z, 'f, 'c, 'x, unit outcome) logop" where
  "access_logger e stacktrace st =
     (case Component e AccessLogComponentName [] st of (st, lc) \<Rightarrow>
      case Component_Logger [WithOriginalLogger] lc of
        None \<Rightarrow> (st, nil_deref)
      | Some l \<Rightarrow>
          (case Logger_WithOptions e l [stacktrace] st of (st, operator) \<Rightarrow>
           case Component e ''grpc'' [] st of (st, gc) \<Rightarrow>
           case Component_Logger [] gc of
             None \<Rightarrow> (st, nil_deref)
           | Some lcl \<Rightarrow>
               (Component_SetLogger e AccessLogComponentName operator
                  (SetContextLogger operator (ContextLogger lcl st) st), Ret ())))"

definition LoggerOptions_Apply :: "(GrpcLoggerOptions \<Rightarrow> GrpcLoggerOptions outcome) \<Rightarrow> GrpcLoggerOptions \<Rightarrow> GrpcLoggerOptions outcome" where
  "LoggerOptions_Apply unmarshal opts =
     (case unmarshal opts of
        Fail err \<Rightarrow> Panic ''Unmarshal''
      | Panic m \<Rightarrow> Panic m
      | Ret opts \<Rightarrow>
          Ret (opts\<lparr>gl_tags := gl_tags opts @ filter (\<lambda>v. v \<noteq> []) (Split (gl_Format opts @ '','' @ gl_AppendFormat opts) '','')\<rparr>))"

definition newLoggerForCall :: "callctx \<Rightarrow> ('m, 'b) rpcst \<Rightarrow> ('m, 'b) rpcst \<times> callctx" where
  "newLoggerForCall ctx st =
     (let a = rs_fresh st;
          (c, h) = NewIncomingContext (cx_carrier ctx) a [] (NewCarrier a (rs_carriers st)) in
      (st\<lparr>rs_carriers := h, rs_fresh := Suc a\<rparr>, ctx\<lparr>cx_carrier := c\<rparr>))"

text \<open>
  The fields of a unary call; \<open>any\<close> makes the value of a field from a request, \<open>anyr\<close> from a response.
\<close>

definition unary_field ::
  "statuslib \<Rightarrow> ('q \<Rightarrow> 'm) \<Rightarrow> ('r option \<Rightarrow> 'm) \<Rightarrow> string \<Rightarrow> callctx \<Rightarrow> int \<Rightarrow> int \<Rightarrow> 'q \<Rightarrow> 'r option \<Rightarrow> go_error option \<Rightarrow> string \<Rightarrow> 'm zfield" where
  "unary_field lib any anyr FullMethod ctx start latency req resp err tag =
     (if tag = ''grpc.start_time'' then ZTime ''grpc.start_time'' start
      else if tag = ''grpc.request.deadline'' then
        (case cx_deadline ctx of Some d \<Rightarrow> ZTime ''grpc.request.deadline'' d | None \<Rightarrow> ZSkip)
      else if tag = ''peer.address'' then (case cx_peer ctx of Some a \<Rightarrow> ZString ''peer.address'' a | None \<Rightarrow> ZSkip)
      else if tag = ''grpc.service'' then ZString ''grpc.service'' (drop 1 (filepath_Dir FullMethod))
      else if tag = ''grpc.method'' then ZString ''grpc.method'' (path_Base FullMethod)
      else if tag = ''status'' then ZInt ''status'' (int (status_Code lib err))
      else if tag = ''error'' then (case err of Some er \<Rightarrow> ZError ''error'' er | None \<Rightarrow> ZSkip)
      else if tag = ''latency'' then ZDuration ''latency'' latency
      else if tag = ''request'' then ZAny ''request'' (any req)
      else if tag = ''response'' then ZAny ''response'' (anyr resp)
      else ZSkip)"

definition stream_field :: "statuslib \<Rightarrow> string \<Rightarrow> callctx \<Rightarrow> int \<Rightarrow> int \<Rightarrow> go_error option \<Rightarrow> string \<Rightarrow> 'm zfield" where
  "stream_field lib FullMethod ctx start latency err tag =
     (if tag = ''grpc.start_time'' then ZTime ''grpc.start_time'' start
      else if tag = ''grpc.request.deadline'' then
        (case cx_deadline ctx of Some d \<Rightarrow> ZTime ''grpc.request.deadline'' d | None \<Rightarrow> ZSkip)
      else if tag = ''peer.address'' then (case cx_peer ctx of Some a \<Rightarrow> ZString ''peer.address'' a | None \<Rightarrow> ZSkip)
      else if tag = ''grpc.service'' then ZString ''grpc.service'' (drop 1 (filepath_Dir FullMethod))
      else if tag = ''grpc.method'' then ZString ''grpc.method'' (path_Base FullMethod)
      else if tag = ''status'' then ZInt ''status'' (int (status_Code lib err))
      else if tag = ''error'' then (case err of Some er \<Rightarrow> ZError ''error'' er | None \<Rightarrow> ZSkip)
      else if tag = ''latency'' then ZDuration ''latency'' latency
      else ZSkip)"

text \<open>The message is the text of the error, if the loop meets the tag \<open>error\<close>.\<close>

definition access_msg :: "statuslib \<Rightarrow> string list \<Rightarrow> go_error option \<Rightarrow> string" where
  "access_msg lib tags err = (case err of Some e \<Rightarrow> if ''error'' \<in> set tags then err_text lib e else [] | None \<Rightarrow> [])"

text \<open>The fields of the carrier, as the handlers left them, go after those of the tags.\<close>

definition log_access :: "statuslib \<Rightarrow> callctx \<Rightarrow> string list \<Rightarrow> go_error option \<Rightarrow> 'm zfield list \<Rightarrow> ('m, 'b) rpcst \<Rightarrow> ('m, 'b) rpcst" where
  "log_access lib callCtx tags err flds st =
     (let carr = (case FromIncomingContext (cx_carrier callCtx) of Some a \<Rightarrow> rs_carriers st a | None \<Rightarrow> []) in
      st\<lparr>rs_log := rs_log st @ [AccessEntry callCtx (DefaultCodeToLevel (status_Code lib err)) (access_msg lib tags err) (flds @ carr)]\<rparr>)"

definition access_unary ::
  "statuslib \<Rightarrow> ('q \<Rightarrow> 'm) \<Rightarrow> ('r option \<Rightarrow> 'm) \<Rightarrow> GrpcLoggerOptions \<Rightarrow> int \<Rightarrow> int \<Rightarrow> string \<Rightarrow>
   ('q, 'r, 'v, 'm, 'b) unary_handler \<Rightarrow> ('q, 'r, 'v, 'm, 'b) unary_handler" where
  "access_unary lib any anyr opts start latency FullMethod handler ctx req st =
     (case newLoggerForCall ctx st of (st, callCtx) \<Rightarrow>
      case handler callCtx req st of
        (st, HRet resp err) \<Rightarrow>
          (log_access lib callCtx (gl_tags opts) err
             (map (unary_field lib any anyr FullMethod ctx start latency req resp err) (gl_tags opts)) st, HRet resp err)
      | (st, r) \<Rightarrow> (st, r))"

definition access_stream ::
  "statuslib \<Rightarrow> GrpcLoggerOptions \<Rightarrow> int \<Rightarrow> int \<Rightarrow> string \<Rightarrow> ('s, 'v, 'm, 'b) stream_handler \<Rightarrow> ('s, 'v, 'm, 'b) stream_handler" where
  "access_stream lib opts start latency FullMethod handler srv stream st =
     (let ctx = stream_Context stream st in
      case newLoggerForCall ctx st of (st, callCtx) \<Rightarrow>
      case WrapServerStream stream st of (st, wrapped) \<Rightarrow>
      case handler srv (WrapStream wrapped) (set_WrappedContext wrapped callCtx st) of
        (st, HRet u err) \<Rightarrow>
          (log_access lib callCtx (gl_tags opts) err
             (map (stream_field lib FullMethod ctx start latency err) (gl_tags opts)) st, HRet u err)
      | (st, r) \<Rightarrow> (st, r))"

definition AccessLogger_UnaryServerInterceptor ::
  "statuslib \<Rightarrow> ('q \<Rightarrow> 'm) \<Rightarrow> ('r option \<Rightarrow> 'm) \<Rightarrow> (GrpcLoggerOptions \<Rightarrow> GrpcLoggerOptions outcome) \<Rightarrow>
   (int \<Rightarrow> int \<Rightarrow> string \<Rightarrow> ('q, 'r, 'v, 'm, 'b) unary_handler \<Rightarrow> ('q, 'r, 'v, 'm, 'b) unary_handler) outcome" where
  "AccessLogger_UnaryServerInterceptor lib any anyr unmarshal =
     go_bind (LoggerOptions_Apply unmarshal defaultLoggerOptions) (\<lambda>opts. Ret (access_unary lib any anyr opts))"

definition AccessLogger_StreamServerInterceptor ::
  "statuslib \<Rightarrow> (GrpcLoggerOptions \<Rightarrow> GrpcLoggerOptions outcome) \<Rightarrow>
   (int \<Rightarrow> int \<Rightarrow> string \<Rightarrow> ('s, 'v, 'm, 'b) stream_handler \<Rightarrow> ('s, 'v, 'm, 'b) stream_handler) outcome" where
  "AccessLogger_StreamServerInterceptor lib unmarshal =
     go_bind (LoggerOptions_Apply unmarshal defaultLoggerOptions) (\<lambda>opts. Ret (access_stream lib opts))"

definition serverCallFields :: "string \<Rightarrow> 'm zfield list" where
  "serverCallFields fullMethodString =
     [ZString ''grpc.service'' (drop 1 (filepath_Dir fullMethodString)), ZString ''grpc.method'' (path_Base fullMethodString)]"

section \<open>The context logger\<close>

text \<open>The fields that the context logger of gRPC logs; a context is present, as every caller of it has one.\<close>

definition GrpcContextLogger_LogFields :: "(string \<Rightarrow> string \<Rightarrow> 'f) \<Rightarrow> ('z, 'c) Logger \<Rightarrow> callctx \<Rightarrow> 'f list \<Rightarrow> 'f list" where
  "GrpcContextLogger_LogFields zap_String logger ctx flds =
     (if lg_WithTraceID logger then
        (case cx_md ctx of
           Some md \<Rightarrow>
             (case md (ToLower TraceIDKey) of
                Some (tid # _) \<Rightarrow> flds @ [zap_String (lg_TraceIDKey logger) tid]
              | _ \<Rightarrow> flds)
         | None \<Rightarrow> flds)
      else flds)"

text \<open>\<open>g\<close> is the context logger that \<open>NewGrpcContextLogger\<close> makes.\<close>

definition UseContextLogger :: "('z, 'f, 'o, 'c, 'x) zapenv \<Rightarrow> 'c \<Rightarrow> ('z, 'f, 'c, 'x, nat option) logop" where
  "UseContextLogger e g st =
     (case Component e ''grpc'' [] st of (st, gc) \<Rightarrow>
      case Component_Logger [WithContextLogger] gc of
        None \<Rightarrow> (st, None)
      | Some glog \<Rightarrow>
          (if ContextLogger glog st = DefaultContextLogger then SetContextLogger glog (UserContextLogger g) st else st, Some glog))"

section \<open>Recovery\<close>

text \<open>\<open>p\<close> is what \<open>recover\<close> gives, which is nothing when the goroutine is ending.\<close>

definition handleRecoverError ::
  "statuslib \<Rightarrow> ('v \<Rightarrow> string) \<Rightarrow> callctx \<Rightarrow> 'v panicval option \<Rightarrow> int \<Rightarrow> ('m, 'b) rpcst \<Rightarrow> ('m, 'b) rpcst \<times> go_error" where
  "handleRecoverError lib vtext ctx p stackSkip st =
     (let err = (case p of
                   Some (PanicError e) \<Rightarrow> e
                 | Some (PanicValue v) \<Rightarrow> status_Errorf lib codes_Internal (vtext v)
                 | None \<Rightarrow> status_Errorf lib codes_Internal ''<nil>'') in
      case FromIncomingContext (cx_carrier ctx) of
        Some a \<Rightarrow>
          (st\<lparr>rs_carriers := (rs_carriers st)(a := rs_carriers st a @ [ZError ''panic'' err, ZStack ''stacktrace'' stackSkip])\<rparr>, err)
      | None \<Rightarrow> (st\<lparr>rs_log := rs_log st @ [ErrorEntry ''[Recovery from panic]'' [ZError ''error'' err]]\<rparr>, err))"

definition GrpcHandleRecoverError :: "statuslib \<Rightarrow> ('v \<Rightarrow> string) \<Rightarrow> callctx \<Rightarrow> 'v panicval option \<Rightarrow> ('m, 'b) rpcst \<Rightarrow> ('m, 'b) rpcst \<times> go_error" where
  "GrpcHandleRecoverError lib vtext ctx p = handleRecoverError lib vtext ctx p 2"

text \<open>The deferred function does not stop a goroutine that is ending.\<close>

definition recovery_unary :: "statuslib \<Rightarrow> ('v \<Rightarrow> string) \<Rightarrow> ('q, 'r, 'v, 'm, 'b) unary_handler \<Rightarrow> ('q, 'r, 'v, 'm, 'b) unary_handler" where
  "recovery_unary lib vtext handler ctx req st =
     (case handler ctx req st of
        (st, HRet resp err) \<Rightarrow> (st, HRet resp err)
      | (st, HPanic p) \<Rightarrow> (case handleRecoverError lib vtext ctx (Some p) (int CallerSkip + 2) st of (st, err) \<Rightarrow> (st, HRet None (Some err)))
      | (st, HGoexit) \<Rightarrow> (case handleRecoverError lib vtext ctx None (int CallerSkip + 2) st of (st, err) \<Rightarrow> (st, HGoexit)))"

definition recovery_stream :: "statuslib \<Rightarrow> ('v \<Rightarrow> string) \<Rightarrow> ('s, 'v, 'm, 'b) stream_handler \<Rightarrow> ('s, 'v, 'm, 'b) stream_handler" where
  "recovery_stream lib vtext handler srv stream st =
     (case handler srv stream st of
        (st, HRet u err) \<Rightarrow> (st, HRet u err)
      | (st, HPanic p) \<Rightarrow>
          (case handleRecoverError lib vtext (stream_Context stream st) (Some p) (int CallerSkip + 2) st of (st, err) \<Rightarrow> (st, HRet () (Some err)))
      | (st, HGoexit) \<Rightarrow>
          (case handleRecoverError lib vtext (stream_Context stream st) None (int CallerSkip + 2) st of (st, err) \<Rightarrow> (st, HGoexit)))"

end
