(* ===== verification/GrpcInterceptorProps.thy ===== *)
theory GrpcInterceptorProps
  imports GrpcInterceptor
begin

text \<open>
  Properties of the gRPC interceptors: which calls pass the token check, what a panic turns into and where it is
  logged, and the fields of the access log.
\<close>

section \<open>Tokens\<close>

lemma token_loop_Ret:
  assumes "token_loop (Some f) ctx e vs = Ret ctx'"
  shows "\<exists>i t cs. i < length vs \<and> (\<forall>j<i. \<exists>err. f ctx (vs ! j) = Fail err) \<and> f ctx (vs ! i) = Ret t \<and> tok_Claims t = MapClaims cs
    \<and> ctx' = ctx\<lparr>cx_values := WithContext (cx_values ctx) (NewGenericPrincipalByClaims (MapClaims cs))\<rparr>"
  using assms
proof (induction vs arbitrary: e)
  case (Cons v vs)
  show ?case
  proof (cases "f ctx v")
    case (Ret t)
    with Cons.prems show ?thesis by (intro exI [of _ 0]) (auto split: jwtclaims.splits)
  next
    case (Fail err)
    with Cons.prems Cons.IH [of "Some err"] obtain i t cs where i: "i < length vs" "\<forall>j<i. \<exists>err. f ctx (vs ! j) = Fail err"
      "f ctx (vs ! i) = Ret t" "tok_Claims t = MapClaims cs"
      "ctx' = ctx\<lparr>cx_values := WithContext (cx_values ctx) (NewGenericPrincipalByClaims (MapClaims cs))\<rparr>" by auto
    then have "\<forall>j<Suc i. \<exists>err. f ctx ((v # vs) ! j) = Fail err" using Fail by (auto simp: less_Suc_eq_0_disj)
    with i show ?thesis by (intro exI [of _ "Suc i"]) auto
  qed (use Cons.prems in simp)
qed (auto split: option.splits)

lemma valuesFromMetadata_Ret:
  "valuesFromMetadata key p ctx = Ret vs \<longleftrightarrow>
     (\<exists>md ws. cx_md ctx = Some md \<and> md key = Some ws \<and> vs = List.map_filter (metadata_value p) ws \<and> vs \<noteq> [])"
  by (auto simp: valuesFromMetadata_def Let_def split: option.splits)

lemma in_map_filter: "x \<in> set (List.map_filter f xs) \<longleftrightarrow> (\<exists>y\<in>set xs. f y = Some x)"
  by (induction xs) (auto simp: List.map_filter_def)

text \<open>What a context with a token is, for given options: the value of the metadata, the token, and the new context.\<close>

definition token_admits :: "'k jwtenv \<Rightarrow> 'k GrpcJWTOptions \<Rightarrow> callctx \<Rightarrow> callctx \<Rightarrow> bool" where
  "token_admits e mw ctx ctx' \<longleftrightarrow>
     (\<exists>md ws w p s kf t cs. cx_md ctx = Some md \<and> md (TokenLookup (gj_JWTOptions mw)) = Some ws \<and> w \<in> set ws
        \<and> metadata_value p w = Some s \<and> jwt_Parse e s kf = Ret t \<and> tok_Valid t \<and> tok_Alg t = SigningMethod (gj_JWTOptions mw)
        \<and> tok_Claims t = MapClaims cs
        \<and> ctx' = ctx\<lparr>cx_values := WithContext (cx_values ctx) (NewGenericPrincipalByClaims (MapClaims cs))\<rparr>)"

lemma Init_keeps: "Init e opts = Ret opts' \<Longrightarrow> SigningMethod opts' = SigningMethod opts \<and> SigningKeys opts' = SigningKeys opts"
  by (auto simp: Init_def go_simps Let_def split: if_splits)

lemma withToken_admits:
  assumes "Init e (gj_JWTOptions mw) = Ret jo" "parse_laws e"
    "KeyFunc (gj_JWTOptions mw) = None" "ParseTokenFunc (gj_JWTOptions mw) = None"
    "withToken (createExtractor (mw\<lparr>gj_JWTOptions := jo\<rparr>)) (mw\<lparr>gj_JWTOptions := jo\<rparr>) ctx = Ret ctx'"
  shows "token_admits e mw ctx ctx'"
proof -
  from Init_Ret [OF assms(1)] assms(3,4) obtain kf where kf: "kf = defaultKeyFunc ((gj_JWTOptions mw)\<lparr>SigningKey := SigningKey jo\<rparr>)"
    and pt: "ParseTokenFunc jo = Some (defaultParseToken e kf)" and lk: "TokenLookup jo = TokenLookup (gj_JWTOptions mw)"
    by auto
  from assms(5) pt obtain vs where vs: "createExtractor (mw\<lparr>gj_JWTOptions := jo\<rparr>) ctx = Ret vs"
    and l: "token_loop (Some (defaultParseToken e kf)) ctx None vs = Ret ctx'"
    by (auto simp: withToken_def split: outcome.splits)
  from token_loop_Ret [OF l] obtain i t cs where i: "i < length vs" and t: "defaultParseToken e kf ctx (vs ! i) = Ret t"
    and cs: "tok_Claims t = MapClaims cs" "ctx' = ctx\<lparr>cx_values := WithContext (cx_values ctx) (NewGenericPrincipalByClaims (MapClaims cs))\<rparr>"
    by blast
  from defaultParseToken_alg(1,2) [OF assms(2) t [unfolded kf]] have alg: "tok_Alg t = SigningMethod (gj_JWTOptions mw)" "tok_Valid t"
    by simp_all
  from t have p: "jwt_Parse e (vs ! i) kf = Ret t" by (auto simp: defaultParseToken_def go_simps split: if_splits)
  from vs obtain md ws q where md: "cx_md ctx = Some md" "md (TokenLookup jo) = Some ws" "vs = List.map_filter (metadata_value q) ws"
    by (auto simp: createExtractor_def Let_def valuesFromMetadata_Ret)
  then obtain w where "w \<in> set ws" "metadata_value q w = Some (vs ! i)" using nth_mem [OF i] by (auto simp: in_map_filter)
  then show ?thesis unfolding token_admits_def using md lk p alg cs by metis
qed


definition rpc_token :: Token where
  "rpc_token = \<lparr>tok_Alg = ''HS256'', tok_Header = Map.empty, tok_Claims = MapClaims [''sub'' \<mapsto> JString ''u1''], tok_Valid = True\<rparr>"

definition rpc_jwtenv :: "unit jwtenv" where
  "rpc_jwtenv =
     \<lparr>jwt_Parse = (\<lambda>s kf. if s = ''t1'' then go_bind (kf (rpc_token\<lparr>tok_Valid := False\<rparr>)) (\<lambda>_. Ret rpc_token)
        else Fail ErrJWTInvalid),
      rsa_public = (\<lambda>_. Ret ()), rsa_private = (\<lambda>_. Ret ()), url_path = Ret, os_ReadFile = Ret, windows = False, basedir = ''/app''\<rparr>"

lemma rpc_parse_laws: "parse_laws rpc_jwtenv"
  by (auto simp: parse_laws_def rpc_jwtenv_def go_simps split: if_splits)

definition rpc_jwt_options :: "unit GrpcJWTOptions \<Rightarrow> unit GrpcJWTOptions outcome" where
  "rpc_jwt_options mw =
     Ret (mw\<lparr>gj_JWTOptions := (gj_JWTOptions mw)\<lparr>SigningKey := BytesKey ''secret'', TokenLookup := ''authorization''\<rparr>,
             gj_Exclude := [''/svc/Open'']\<rparr>)"

definition rpc_ctx :: "string list \<Rightarrow> callctx" where
  "rpc_ctx vs = \<lparr>cx_md = Some [''authorization'' \<mapsto> vs], cx_values = Map.empty, cx_carrier = None, cx_deadline = None, cx_peer = None\<rparr>"

definition rpc_state :: "(unit, unit) rpcst" where
  "rpc_state = \<lparr>rs_carriers = (\<lambda>_. []), rs_fresh = 0, rs_streams = [], rs_log = []\<rparr>"

definition rpc_itcp :: "string \<Rightarrow> (unit, unit, unit, unit, unit) unary_handler \<Rightarrow> (unit, unit, unit, unit, unit) unary_handler" where
  "rpc_itcp = (case JWT_UnaryServerInterceptor rpc_jwtenv rpc_jwt_options of Ret i \<Rightarrow> i | _ \<Rightarrow> undefined)"

lemma rpc_itcp_run: "JWT_UnaryServerInterceptor rpc_jwtenv rpc_jwt_options = Ret rpc_itcp"
  by (simp add: rpc_itcp_def JWT_UnaryServerInterceptor_def JWTOptions_Apply_def rpc_jwt_options_def NewGrpcJWTOptions_def
      NewJWTOptions_def Init_def Let_def)


text \<open>Streams: the handler gets the stream, wrapped, with the new context; an excluded one gets it as it is.\<close>

lemma grpc_jwt_stream_admits:
  assumes "SteamServerInterceptor e unmarshal = Ret itcp" "unmarshal NewGrpcJWTOptions = Ret mw"
    "parse_laws e" "KeyFunc (gj_JWTOptions mw) = None" "ParseTokenFunc (gj_JWTOptions mw) = None" "m \<notin> set (gj_Exclude mw)"
  shows "(\<exists>ctx' st' a. token_admits e mw (stream_Context ss st) ctx' \<and> WrapServerStream ss st = (st', a)
        \<and> itcp m h srv ss st = h srv (WrapStream a) (set_WrappedContext a ctx' st'))
    \<or> (\<exists>err. itcp m h srv ss st = (st, HRet () (Some err)))
    \<or> (\<exists>p. itcp m h srv ss st = (st, runtime_panic p))"
proof -
  from assms(1,2) obtain jo where jo: "Init e (gj_JWTOptions mw) = Ret jo" and itcp: "itcp = jwt_stream (mw\<lparr>gj_JWTOptions := jo\<rparr>)"
    by (auto simp: SteamServerInterceptor_def JWTOptions_Apply_def go_bind_Ret_iff split: outcome.splits)
  obtain st' a where w: "WrapServerStream ss st = (st', a)" by fastforce
  have u: "itcp m h srv ss st =
      (case withToken (createExtractor (mw\<lparr>gj_JWTOptions := jo\<rparr>)) (mw\<lparr>gj_JWTOptions := jo\<rparr>) (stream_Context ss st) of
         Fail err \<Rightarrow> (st, HRet () (Some err)) | Panic p \<Rightarrow> (st, runtime_panic p)
       | Ret c \<Rightarrow> h srv (WrapStream a) (set_WrappedContext a c st'))"
    using assms(6) w by (simp add: itcp jwt_stream_def split: outcome.split)
  show ?thesis
    by (cases "withToken (createExtractor (mw\<lparr>gj_JWTOptions := jo\<rparr>)) (mw\<lparr>gj_JWTOptions := jo\<rparr>) (stream_Context ss st)")
      (auto simp: u w dest: withToken_admits [OF jo assms(3-5)])
qed

text \<open>A wrapped stream has the context that was set last, also for interceptors outside that wrapped it.\<close>

lemma wrapped_context:
  assumes "WrapServerStream ss st = (st', a)" "case ss of WrapStream b \<Rightarrow> b < length (rs_streams st) | RawStream _ _ \<Rightarrow> True"
  shows "stream_Context (WrapStream a) (set_WrappedContext a ctx st') = ctx"
  using assms by (auto simp: WrapServerStream_def set_WrappedContext_def stream_Context_def split: sstream.splits)

text \<open>
  With the default lookup no call passes: it is the name of a header as the web middleware has it, while the keys of metadata
  are lower-case.
\<close>

definition lower_keys :: "callctx \<Rightarrow> bool" where
  "lower_keys ctx \<longleftrightarrow> (\<forall>md k vs. cx_md ctx = Some md \<longrightarrow> md k = Some vs \<longrightarrow> ToLower k = k)"

lemma default_lookup_rejects:
  assumes "lower_keys ctx" "TokenLookup (gj_JWTOptions mw) = TokenLookup (NewJWTOptions :: (callctx, 'k) JWTOptions)" "m \<notin> set (gj_Exclude mw)"
  shows "jwt_unary (mw :: 'k GrpcJWTOptions) m h ctx req st = (st, HRet None (Some ErrJWTMissing))"
proof -
  have l: "TokenLookup (gj_JWTOptions mw) = ''header:Authorization''" using assms(2) by (simp add: NewJWTOptions_def)
  have "ToLower ''header:Authorization'' \<noteq> ''header:Authorization''" by code_simp
  then have "valuesFromMetadata (TokenLookup (gj_JWTOptions mw)) p ctx = Fail ErrJWTMissing" for p
    using assms(1) l by (auto simp: valuesFromMetadata_def lower_keys_def split: option.splits)
  then have "createExtractor mw ctx = Fail ErrJWTMissing" by (simp add: createExtractor_def Let_def)
  then show ?thesis using assms(3) by (simp add: jwt_unary_def withToken_def)
qed

section \<open>Panics and the access log\<close>

text \<open>What the status package documents: the code of an error made with it, and that other errors have the code Unknown.\<close>

definition status_laws :: "statuslib \<Rightarrow> bool" where
  "status_laws lib \<longleftrightarrow> status_Code lib None = 0 \<and> (\<forall>c m. c \<noteq> 0 \<longrightarrow> status_Code lib (Some (status_Errorf lib c m)) = c)
     \<and> (\<forall>m. status_Code lib (Some (Sentinel m)) = codes_Unknown)"

text \<open>The error of a panic.\<close>

definition panic_error :: "statuslib \<Rightarrow> ('v \<Rightarrow> string) \<Rightarrow> 'v panicval \<Rightarrow> go_error" where
  "panic_error lib vtext p = (case p of PanicError e \<Rightarrow> e | PanicValue v \<Rightarrow> status_Errorf lib codes_Internal (vtext v))"

lemma handleRecoverError_carrier:
  "cx_carrier ctx = Some a \<Longrightarrow> handleRecoverError lib vtext ctx (Some p) k st =
     (st\<lparr>rs_carriers := (rs_carriers st)(a := rs_carriers st a @ [ZError ''panic'' (panic_error lib vtext p), ZStack ''stacktrace'' k])\<rparr>,
      panic_error lib vtext p)"
  by (simp add: handleRecoverError_def panic_error_def FromIncomingContext_def Let_def split: panicval.splits)

lemma handleRecoverError_log:
  "cx_carrier ctx = None \<Longrightarrow> handleRecoverError lib vtext ctx (Some p) k st =
     (st\<lparr>rs_log := rs_log st @ [ErrorEntry ''[Recovery from panic]'' [ZError ''error'' (panic_error lib vtext p)]]\<rparr>, panic_error lib vtext p)"
  by (simp add: handleRecoverError_def panic_error_def FromIncomingContext_def Let_def split: panicval.splits)

lemma recovery_no_panic: "snd (recovery_unary lib vtext h ctx req st) \<noteq> HPanic p"
  by (auto simp: recovery_unary_def split: prod.splits hresult.splits)

lemma recovery_stream_no_panic: "snd (recovery_stream lib vtext h srv ss st) \<noteq> HPanic p"
  by (auto simp: recovery_stream_def split: prod.splits hresult.splits)

text \<open>
  A panic of a handler under the recovery interceptor becomes an error, without response: the panic's own
  error, or else one with the code Internal.  Inside the access log it is in that call's entry, with the fields the handler
  had carried, and at the level of the error's code.  Outside the access log, the access log has no entry of the call:
  only the recovery logs the panic.
\<close>

theorem panic_logged:
  assumes "h (ctx\<lparr>cx_carrier := Some (rs_fresh st)\<rparr>) req (fst (newLoggerForCall ctx st)) = (sp, HPanic p)" "cx_carrier ctx = None"
  shows "access_unary lib any anyr opts start latency m (recovery_unary lib vtext h) ctx req st =
      (let err = panic_error lib vtext p;
           carried = rs_carriers sp (rs_fresh st) @ [ZError ''panic'' err, ZStack ''stacktrace'' 3] in
       (sp\<lparr>rs_carriers := (rs_carriers sp)(rs_fresh st := carried),
            rs_log := rs_log sp @ [AccessEntry (ctx\<lparr>cx_carrier := Some (rs_fresh st)\<rparr>) (DefaultCodeToLevel (status_Code lib (Some err)))
              (access_msg lib (gl_tags opts) (Some err))
              (map (unary_field lib any anyr m ctx start latency req None (Some err)) (gl_tags opts) @ carried)]\<rparr>,
        HRet None (Some err)))
    \<and> recovery_unary lib vtext (access_unary lib any anyr opts start latency m h) ctx req st =
      (sp\<lparr>rs_log := rs_log sp @ [ErrorEntry ''[Recovery from panic]'' [ZError ''error'' (panic_error lib vtext p)]]\<rparr>,
       HRet None (Some (panic_error lib vtext p)))"
proof -
  obtain st0 where n: "newLoggerForCall ctx st = (st0, ctx\<lparr>cx_carrier := Some (rs_fresh st)\<rparr>)"
    by (simp add: newLoggerForCall_def NewIncomingContext_def Let_def)
  with assms(1) have h: "h (ctx\<lparr>cx_carrier := Some (rs_fresh st)\<rparr>) req st0 = (sp, HPanic p)" by simp
  have "recovery_unary lib vtext h (ctx\<lparr>cx_carrier := Some (rs_fresh st)\<rparr>) req st0 =
      (sp\<lparr>rs_carriers := (rs_carriers sp)(rs_fresh st := rs_carriers sp (rs_fresh st) @ [ZError ''panic'' (panic_error lib vtext p), ZStack ''stacktrace'' 3])\<rparr>,
       HRet None (Some (panic_error lib vtext p)))"
    by (simp add: recovery_unary_def h handleRecoverError_carrier CallerSkip_def)
  moreover have "access_unary lib any anyr opts start latency m h ctx req st = (sp, HPanic p)"
    by (simp add: access_unary_def n h)
  ultimately show ?thesis
    by (simp add: access_unary_def n log_access_def FromIncomingContext_def Let_def recovery_unary_def handleRecoverError_log assms(2))
qed

definition rpc_lib :: statuslib where
  "rpc_lib = \<lparr>status_Errorf = (\<lambda>c m. Wrapf (replicate c CHR ''#'') (Errorf m)),
     status_Code = (\<lambda>e. case e of None \<Rightarrow> 0 | Some (Wrapf c _) \<Rightarrow> length c | _ \<Rightarrow> codes_Unknown), err_text = (\<lambda>_. ''error'')\<rparr>"

lemma rpc_status_laws: "status_laws rpc_lib"
  by (simp add: status_laws_def rpc_lib_def)

text \<open>At the level of an error, for values that are not errors.\<close>

lemma panic_value_level: "status_laws lib \<Longrightarrow> DefaultCodeToLevel (status_Code lib (Some (panic_error lib vtext (PanicValue v)))) = zap_ErrorLevel"
  by (simp add: status_laws_def panic_error_def DefaultCodeToLevel_def)

theorem panic_logged_witness:
  "\<exists>st'. access_unary rpc_lib (\<lambda>_. ()) (\<lambda>_. ()) defaultLoggerOptions 0 5 ''/svc/Ping'' (recovery_unary rpc_lib (\<lambda>v. v) (\<lambda>c q st. (st, HPanic (PanicValue ''boom'') :: (unit option, string) hresult)))
      (rpc_ctx []) () rpc_state = (st', HRet None (Some (status_Errorf rpc_lib codes_Internal ''boom'')))
    \<and> (\<exists>c e. rs_log st' = [AccessEntry c zap_ErrorLevel [] [ZError ''panic'' e, ZStack ''stacktrace'' 3]])"
proof -
  let ?h = "\<lambda>c q st. (st, HPanic (PanicValue ''boom'') :: (unit option, string) hresult)"
  have c: "cx_carrier (rpc_ctx []) = None" by (simp add: rpc_ctx_def)
  note panic_logged [where h = ?h and ctx = "rpc_ctx []" and st = rpc_state and req = "()" and sp = "fst (newLoggerForCall (rpc_ctx []) rpc_state)"
    and p = "PanicValue ''boom''" and lib = rpc_lib and any = "\<lambda>_. ()" and anyr = "\<lambda>_. ()" and opts = defaultLoggerOptions and start = 0
    and latency = 5 and m = "''/svc/Ping''" and vtext = "\<lambda>v. v", OF refl c]
  with panic_value_level [OF rpc_status_laws, of "\<lambda>v. v" "''boom''"]
  show ?thesis
    by (simp add: rpc_ctx_def Let_def panic_error_def defaultLoggerOptions_def access_msg_def newLoggerForCall_def NewIncomingContext_def
        rpc_state_def NewCarrier_def)
qed

section \<open>Fields\<close>

text \<open>Unary and streaming calls log the same fields, except those that a stream has no request or response for.\<close>

lemma stream_field_is_unary:
  "tag \<noteq> ''request'' \<Longrightarrow> tag \<noteq> ''response'' \<Longrightarrow>
     stream_field lib m ctx start latency err tag = unary_field lib any anyr m ctx start latency req resp err tag"
  by (simp add: stream_field_def unary_field_def)

lemma stream_field_request: "tag \<in> {''request'', ''response''} \<Longrightarrow> stream_field lib m ctx start latency err tag = ZSkip"
  by (auto simp: stream_field_def)

text \<open>Every tag has one field, and tags are not trimmed: one with a space has no value.\<close>

lemma access_tags: "LoggerOptions_Apply Ret defaultLoggerOptions = Ret opts \<Longrightarrow> gl_tags opts = filter (\<lambda>v. v \<noteq> []) (Split (grpcLoggerFormat @ '','') '','')"
  by (auto simp: LoggerOptions_Apply_def defaultLoggerOptions_def)

lemma spaced_tag_skipped: "unary_field lib any anyr m ctx start latency req resp err ('' status'') = ZSkip"
  by (simp add: unary_field_def)

end
