(* ===== verification/GrpcRegistry.thy ===== *)
theory GrpcRegistry
  imports ConfTree
begin

text \<open>
  Model of service discovery and of the gRPC client: \<open>rpc/grpcx/registry/registry.go\<close>, the option manager of
  \<open>rpc/grpcx/grpcoption.go\<close> with the options of \<open>rpc/grpcx/option\<close>, and \<open>rpc/grpcx/client.go\<close>.  Options and interceptors of
  gRPC are values that the manager collects; dialing is the target and the list of options it is called with.
\<close>

section \<open>Services\<close>

record DialOptions =
  do_Namespace :: string
  do_ServiceName :: string
  do_Version :: string
  do_Metadata :: "string \<Rightarrow> string option"

record ServiceInfo =
  si_Name :: string
  si_Namespace :: string
  si_Version :: string
  si_Host :: string
  si_Port :: int
  si_Protocol :: string
  si_Metadata :: "string \<Rightarrow> string option"

definition OptionKey :: string where "OptionKey = ''options''"

definition RegisterDriver :: "string \<Rightarrow> 'd \<Rightarrow> (string \<Rightarrow> 'd option) \<Rightarrow> (string \<Rightarrow> 'd option)" where
  "RegisterDriver scheme drv driverManager = driverManager(scheme \<mapsto> drv)"

definition GetRegistry :: "string \<Rightarrow> (string \<Rightarrow> 'd option) \<Rightarrow> 'd option" where
  "GetRegistry scheme driverManager = driverManager scheme"

text \<open>A parsed target, and the libraries that read its query: the values of a query, base64 and JSON.\<close>

record target_url =
  u_Opaque :: string
  u_Host :: string
  u_Path :: string
  u_RawQuery :: string

record targetlib =
  url_Query :: "string \<Rightarrow> (string \<Rightarrow> string list option)"
  b64_Decode :: "string \<Rightarrow> string outcome"
  b64_Encode :: "string \<Rightarrow> string"
  json_Decode :: "string \<Rightarrow> DialOptions \<Rightarrow> DialOptions outcome"
  json_Encode :: "DialOptions \<Rightarrow> string outcome"

definition empty_DialOptions :: DialOptions where
  "empty_DialOptions = \<lparr>do_Namespace = [], do_ServiceName = [], do_Version = [], do_Metadata = Map.empty\<rparr>"

definition TargetToOptions :: "targetlib \<Rightarrow> target_url \<Rightarrow> DialOptions outcome" where
  "TargetToOptions lib u =
     (let options = empty_DialOptions in
      if 0 < length (u_RawQuery u) then
        (let optionsStr = (case url_Query lib (u_RawQuery u) OptionKey of Some (v # _) \<Rightarrow> v | _ \<Rightarrow> []) in
         if 0 < length optionsStr then
           (case b64_Decode lib optionsStr of
              Ret value \<Rightarrow>
                (case json_Decode lib value options of
                   Ret options \<Rightarrow> Ret options
                 | Fail err \<Rightarrow> Fail (Errorf (''TargetToOptions:fail to unmarshal options '' @ value))
                 | Panic m \<Rightarrow> Panic m)
            | Fail err \<Rightarrow> Fail (Errorf (''TargetToOptions:fail to decode endpoint '' @ u_Path u @ '', options '' @ optionsStr))
            | Panic m \<Rightarrow> Panic m)
         else Ret options)
      else Ret (options\<lparr>do_Namespace := u_Host u, do_ServiceName := (if u_Opaque u \<noteq> [] then u_Opaque u else u_Path u)\<rparr>))"

text \<open>Attributes are nil, or values by key; \<open>order\<close> is the order in which the loop ranges over the map.\<close>

definition WithValue :: "string \<Rightarrow> string \<Rightarrow> (string \<Rightarrow> string option) option \<Rightarrow> (string \<Rightarrow> string option) option" where
  "WithValue k v val = (case val of None \<Rightarrow> Some [k \<mapsto> v] | Some m \<Rightarrow> Some (m(k \<mapsto> v)))"

fun ToAttributes :: "string list \<Rightarrow> ServiceInfo \<Rightarrow> (string \<Rightarrow> string option) option \<Rightarrow> (string \<Rightarrow> string option) option" where
  "ToAttributes [] si val = val"
| "ToAttributes (k # order) si val =
     (case si_Metadata si k of None \<Rightarrow> ToAttributes order si val | Some v \<Rightarrow> ToAttributes order si (WithValue k v val))"

definition Address :: "ServiceInfo \<Rightarrow> string" where
  "Address si = si_Host si @ '':'' @ Itoa (si_Port si)"

definition nodePath :: "string \<Rightarrow> string \<Rightarrow> string \<Rightarrow> string \<Rightarrow> string" where
  "nodePath namespace name version addr =
     (let namespace = (if \<not> HasPrefix namespace ''/'' then ''/'' @ namespace else namespace) in
      Join [namespace, name, version, addr] ''/'')"

definition BuildKey :: "ServiceInfo \<Rightarrow> string" where
  "BuildKey si = nodePath (si_Namespace si) (si_Name si) (si_Version si) (Address si)"

section \<open>Options by name\<close>

text \<open>
  A part of the configuration that \<open>Each\<close> visits: its name, its configuration, and the parts that \<open>Each\<close> visits
  when it is called on that configuration with the part's name.
\<close>

datatype 'c part = Part (part_name: string) (part_cfg: 'c) (part_parts: "'c part list")

text \<open>
  Interceptors and options are made of a configuration, which may panic; an option may be nil.  \<open>'so\<close> and \<open>'co\<close> are the
  options of servers and of clients, \<open>'i\<close> interceptors.
\<close>

datatype ('so, 'i) server_opt = ServerOpt 'so | ChainUnary "'i list" | ChainStream "'i list"
datatype ('co, 'i) dial_opt = DialOpt 'co | ChainUnaryClient "'i list" | Insecure | WithResolvers string

record ('c, 'so, 'co, 'i) grpcOptionManager =
  om_so :: "string \<Rightarrow> ('c \<Rightarrow> ('so, 'i) server_opt option outcome) option"
  om_su :: "string \<Rightarrow> ('c \<Rightarrow> 'i outcome) option"
  om_ss :: "string \<Rightarrow> ('c \<Rightarrow> 'i outcome) option"
  om_cd :: "string \<Rightarrow> ('c \<Rightarrow> ('co, 'i) dial_opt option outcome) option"
  om_cu :: "string \<Rightarrow> ('c \<Rightarrow> 'i outcome) option"
  om_cs :: "string \<Rightarrow> ('c \<Rightarrow> 'i outcome) option"

definition newGrpcOptionManager :: "('c, 'so, 'co, 'i) grpcOptionManager" where
  "newGrpcOptionManager = \<lparr>om_so = Map.empty, om_su = Map.empty, om_ss = Map.empty, om_cd = Map.empty, om_cu = Map.empty, om_cs = Map.empty\<rparr>"

text \<open>The built-in functions by name, and the two registrations at start-up.\<close>

record ('c, 'so, 'co, 'i) builtins =
  bi_so :: "string \<Rightarrow> 'c \<Rightarrow> ('so, 'i) server_opt option outcome"
  bi_su :: "string \<Rightarrow> 'c \<Rightarrow> 'i outcome"
  bi_ss :: "string \<Rightarrow> 'c \<Rightarrow> 'i outcome"
  bi_cd :: "string \<Rightarrow> 'c \<Rightarrow> ('co, 'i) dial_opt option outcome"

definition registryIntegration :: "('c, 'so, 'co, 'i) builtins \<Rightarrow> ('c, 'so, 'co, 'i) grpcOptionManager \<Rightarrow> ('c, 'so, 'co, 'i) grpcOptionManager" where
  "registryIntegration b m = m\<lparr>
     om_so := map_of (map (\<lambda>n. (n, bi_so b n)) [''keepalive'', ''tls'', ''compression'']),
     om_su := map_of (map (\<lambda>n. (n, bi_su b n)) [''jwt'', ''accessLog'', ''recovery'']),
     om_ss := map_of (map (\<lambda>n. (n, bi_ss b n)) [''jwt'', ''accessLog'', ''recovery'']),
     om_cd := map_of (map (\<lambda>n. (n, bi_cd b n)) [''keepalive'', ''tls'', ''compression''])\<rparr>"

definition RegisterGrpcServerOption :: "string \<Rightarrow> ('c \<Rightarrow> ('so, 'i) server_opt option outcome) \<Rightarrow> ('c, 'so, 'co, 'i) grpcOptionManager \<Rightarrow> ('c, 'so, 'co, 'i) grpcOptionManager" where
  "RegisterGrpcServerOption name f m = m\<lparr>om_so := (om_so m)(name \<mapsto> f)\<rparr>"

definition RegisterGrpcUnaryInterceptor :: "string \<Rightarrow> ('c \<Rightarrow> 'i outcome) \<Rightarrow> ('c, 'so, 'co, 'i) grpcOptionManager \<Rightarrow> ('c, 'so, 'co, 'i) grpcOptionManager" where
  "RegisterGrpcUnaryInterceptor name f m = m\<lparr>om_su := (om_su m)(name \<mapsto> f)\<rparr>"

definition RegisterGrpcStreamInterceptor :: "string \<Rightarrow> ('c \<Rightarrow> 'i outcome) \<Rightarrow> ('c, 'so, 'co, 'i) grpcOptionManager \<Rightarrow> ('c, 'so, 'co, 'i) grpcOptionManager" where
  "RegisterGrpcStreamInterceptor name f m = m\<lparr>om_ss := (om_ss m)(name \<mapsto> f)\<rparr>"

definition RegisterDialOption :: "string \<Rightarrow> ('c \<Rightarrow> ('co, 'i) dial_opt option outcome) \<Rightarrow> ('c, 'so, 'co, 'i) grpcOptionManager \<Rightarrow> ('c, 'so, 'co, 'i) grpcOptionManager" where
  "RegisterDialOption name f m = m\<lparr>om_cd := (om_cd m)(name \<mapsto> f)\<rparr>"

definition RegisterUnaryClientInterceptor :: "string \<Rightarrow> ('c \<Rightarrow> 'i outcome) \<Rightarrow> ('c, 'so, 'co, 'i) grpcOptionManager \<Rightarrow> ('c, 'so, 'co, 'i) grpcOptionManager" where
  "RegisterUnaryClientInterceptor name f m = m\<lparr>om_cu := (om_cu m)(name \<mapsto> f)\<rparr>"

definition RegisterStreamClientInterceptor :: "string \<Rightarrow> ('c \<Rightarrow> 'i outcome) \<Rightarrow> ('c, 'so, 'co, 'i) grpcOptionManager \<Rightarrow> ('c, 'so, 'co, 'i) grpcOptionManager" where
  "RegisterStreamClientInterceptor name f m = m\<lparr>om_cs := (om_cs m)(name \<mapsto> f)\<rparr>"

definition registryWarp :: "('c, 'so, 'co, 'i) builtins \<Rightarrow> ('c, 'so, 'co, 'i) grpcOptionManager \<Rightarrow> ('c, 'so, 'co, 'i) grpcOptionManager" where
  "registryWarp b m =
     RegisterGrpcServerOption ''keepaliveEnforcementPolicy'' (bi_so b ''keepaliveEnforcementPolicy'')
       (RegisterDialOption ''connectParams'' (bi_cd b ''connectParams'')
         (RegisterDialOption ''serviceConfig'' (bi_cd b ''serviceConfig'')
           (RegisterDialOption ''block'' (bi_cd b ''block'') m)))"

text \<open>The interceptors of a list of parts: names that are not registered are passed over.\<close>

fun collect_named :: "(string \<Rightarrow> ('c \<Rightarrow> 'i outcome) option) \<Rightarrow> 'c part list \<Rightarrow> 'i list outcome" where
  "collect_named handlers [] = Ret []"
| "collect_named handlers (p # ps) =
     (case handlers (part_name p) of
        None \<Rightarrow> collect_named handlers ps
      | Some handler \<Rightarrow> go_bind (handler (part_cfg p)) (\<lambda>i. go_bind (collect_named handlers ps) (\<lambda>is. Ret (i # is))))"

definition buildServerChainUnary :: "('c, 'so, 'co, 'i) grpcOptionManager \<Rightarrow> 'c part \<Rightarrow> ('so, 'i) server_opt outcome" where
  "buildServerChainUnary m p = go_bind (collect_named (om_su m) (part_parts p)) (\<lambda>opts. Ret (ChainUnary opts))"

definition streamServerInterceptorHandler :: "('c, 'so, 'co, 'i) grpcOptionManager \<Rightarrow> 'c part \<Rightarrow> ('so, 'i) server_opt outcome" where
  "streamServerInterceptorHandler m p = go_bind (collect_named (om_ss m) (part_parts p)) (\<lambda>opts. Ret (ChainStream opts))"

definition buildClientChainUnary :: "('c, 'so, 'co, 'i) grpcOptionManager \<Rightarrow> 'c part \<Rightarrow> ('co, 'i) dial_opt outcome" where
  "buildClientChainUnary m p = go_bind (collect_named (om_cu m) (part_parts p)) (\<lambda>opts. Ret (ChainUnaryClient opts))"

fun BuildServerOptions :: "('c, 'so, 'co, 'i) grpcOptionManager \<Rightarrow> 'c part list \<Rightarrow> ('so, 'i) server_opt list outcome" where
  "BuildServerOptions m [] = Ret []"
| "BuildServerOptions m (p # ps) =
     go_bind
       (if part_name p = ''unaryInterceptors'' then go_bind (buildServerChainUnary m p) (\<lambda>so. Ret [so])
        else if part_name p = ''streamInterceptors'' then go_bind (streamServerInterceptorHandler m p) (\<lambda>so. Ret [so])
        else case om_so m (part_name p) of
               None \<Rightarrow> Ret []
             | Some optionFunc \<Rightarrow> go_bind (optionFunc (part_cfg p)) (\<lambda>so. Ret (case so of None \<Rightarrow> [] | Some so \<Rightarrow> [so])))
       (\<lambda>opts. go_bind (BuildServerOptions m ps) (\<lambda>more. Ret (opts @ more)))"

section \<open>The client\<close>

record ServerConfig =
  sc_Addr :: string
  sc_Namespace :: string
  sc_Version :: string

record ('co, 'i) GrpcClient =
  registryOptions :: DialOptions
  serverConfig :: ServerConfig
  dialOptions :: "('co, 'i) dial_opt list"
  cl_timeout :: int
  cl_scheme :: string
  withTransportCredentials :: bool

text \<open>\<open>duration\<close> reads the timeout of a part's configuration.  The case of TLS falls through to the default.\<close>

fun BuildDialOption ::
  "('c, 'so, 'co, 'i) grpcOptionManager \<Rightarrow> ('c \<Rightarrow> int) \<Rightarrow> 'c part list \<Rightarrow> ('co, 'i) GrpcClient \<Rightarrow>
   (('co, 'i) dial_opt list \<times> ('co, 'i) GrpcClient) outcome" where
  "BuildDialOption m duration [] client = Ret ([], client)"
| "BuildDialOption m duration (p # ps) client =
     go_bind
       (if part_name p = ''unaryInterceptors'' then go_bind (buildClientChainUnary m p) (\<lambda>d. Ret ([d], client))
        else if part_name p = ''timeout'' then Ret ([], client\<lparr>cl_timeout := duration (part_cfg p)\<rparr>)
        else
          (let client = (if part_name p = ''tls'' then client\<lparr>withTransportCredentials := True\<rparr> else client) in
           case om_cd m (part_name p) of
             None \<Rightarrow> Ret ([], client)
           | Some handler \<Rightarrow> go_bind (handler (part_cfg p)) (\<lambda>d. Ret (case d of None \<Rightarrow> [] | Some d \<Rightarrow> [d], client))))
       (\<lambda>(opts, client). go_bind (BuildDialOption m duration ps client) (\<lambda>(more, client). Ret (opts @ more, client)))"

text \<open>
  The client's configuration: the decoders of its sections, and the parts of \<open>client.dialOption\<close>.  A driver gives a
  resolver, named here by its configuration, and its own dial options.
\<close>

record ('co, 'i) driver =
  drv_ResolverBuilder :: "string \<Rightarrow> string outcome"
  drv_WithDialOptions :: "DialOptions \<Rightarrow> ('co, 'i) dial_opt list outcome"

record 'c client_conf =
  gc_Namespace :: string
  gc_server :: "ServerConfig \<Rightarrow> ServerConfig outcome"
  gc_target :: "(DialOptions \<Rightarrow> DialOptions outcome) option"
  gc_dialOption :: "'c part list option"
  gc_registry :: "(string \<times> string) option"

definition Client_Apply ::
  "('c, 'so, 'co, 'i) grpcOptionManager \<Rightarrow> ('c \<Rightarrow> int) \<Rightarrow> (string \<Rightarrow> ('co, 'i) driver option) \<Rightarrow> 'c client_conf \<Rightarrow>
   ('co, 'i) GrpcClient \<Rightarrow> ('co, 'i) GrpcClient outcome" where
  "Client_Apply m duration drivers cfg c =
     go_bind (gc_server cfg (serverConfig c)) (\<lambda>sc.
     let c = c\<lparr>serverConfig := sc\<rparr> in
     go_bind (case gc_target cfg of
                None \<Rightarrow> Ret c
              | Some unmarshal \<Rightarrow> go_bind (unmarshal (registryOptions c)) (\<lambda>o'. Ret (c\<lparr>registryOptions := o'\<rparr>))) (\<lambda>c.
     go_bind (case gc_dialOption cfg of
                None \<Rightarrow> Ret ([], c)
              | Some parts \<Rightarrow> BuildDialOption m duration parts c) (\<lambda>(pluginOptions, c).
     let (pluginOptions, c) =
           (if \<not> withTransportCredentials c then (pluginOptions @ [Insecure], c\<lparr>withTransportCredentials := True\<rparr>)
            else (pluginOptions, c)) in
     go_bind (case gc_registry cfg of
                None \<Rightarrow> Ret (pluginOptions, c)
              | Some (scheme, sub) \<Rightarrow>
                  (let c = c\<lparr>cl_scheme := scheme\<rparr> in
                   case GetRegistry scheme drivers of
                     None \<Rightarrow> Fail (Errorf (''registry driver not found:'' @ scheme))
                   | Some drv \<Rightarrow>
                       go_bind (drv_ResolverBuilder drv sub) (\<lambda>rb.
                       go_bind (drv_WithDialOptions drv (registryOptions c)) (\<lambda>rdo.
                       Ret (rdo @ pluginOptions @ [WithResolvers rb], c))))) (\<lambda>(pluginOptions, c).
     Ret (c\<lparr>dialOptions := pluginOptions @ dialOptions c\<rparr>)))))"

definition GrpcNewClient ::
  "('c, 'so, 'co, 'i) grpcOptionManager \<Rightarrow> ('c \<Rightarrow> int) \<Rightarrow> (string \<Rightarrow> ('co, 'i) driver option) \<Rightarrow> 'c client_conf \<Rightarrow> ('co, 'i) GrpcClient outcome" where
  "GrpcNewClient m duration drivers cfg =
     Client_Apply m duration drivers cfg
       \<lparr>registryOptions = empty_DialOptions\<lparr>do_Namespace := gc_Namespace cfg\<rparr>,
        serverConfig = \<lparr>sc_Addr = [], sc_Namespace = [], sc_Version = []\<rparr>, dialOptions = [], cl_timeout = 0, cl_scheme = [],
        withTransportCredentials = False\<rparr>"

definition targetPrefix :: "('co, 'i) GrpcClient \<Rightarrow> string" where
  "targetPrefix c = (if cl_scheme c = [] then [] else cl_scheme c @ ''://'')"

text \<open>The result is what \<open>grpc.DialContext\<close> is called with.\<close>

definition DialContext :: "targetlib \<Rightarrow> ('co, 'i) GrpcClient \<Rightarrow> string \<Rightarrow> ('co, 'i) dial_opt list \<Rightarrow> (string \<times> ('co, 'i) dial_opt list) outcome" where
  "DialContext lib c target opts =
     (let tarp = targetPrefix c;
          attach = (\<lambda>target.
            (case json_Encode lib (registryOptions c) of
               Fail err \<Rightarrow> Fail (Errorf ''DialContext:marshal dial options error'')
             | Panic m \<Rightarrow> Panic m
             | Ret jsonstr \<Rightarrow> Ret (target @ ''?'' @ OptionKey @ ''='' @ b64_Encode lib jsonstr, dialOptions c @ opts))) in
      if target = [] then
        (if tarp \<noteq> [] then attach (tarp @ do_ServiceName (registryOptions c))
         else Ret (sc_Addr (serverConfig c), dialOptions c @ opts))
      else if tarp = [] \<or> \<not> HasPrefix target tarp then Ret (target, dialOptions c @ opts)
      else attach target)"

text \<open>\<open>Dial\<close> differs from \<open>DialContext\<close> in the deadline of the context only.\<close>

definition Dial :: "targetlib \<Rightarrow> ('co, 'i) GrpcClient \<Rightarrow> string \<Rightarrow> ('co, 'i) dial_opt list \<Rightarrow> int option \<times> (string \<times> ('co, 'i) dial_opt list) outcome" where
  "Dial lib c target opts = (if cl_timeout c = 0 then None else Some (cl_timeout c), DialContext lib c target opts)"

section \<open>Options made of a configuration\<close>

text \<open>
  \<open>tls\<close> is what \<open>conf.NewTLS\<close> makes of the configuration.  The credentials made of certificate and key, and of a
  certificate, are parameters.
\<close>

definition TLS_ServerOption :: "(string \<Rightarrow> string \<Rightarrow> 'so outcome) \<Rightarrow> TLS \<Rightarrow> ('so, 'i) server_opt option outcome" where
  "TLS_ServerOption NewServerTLSFromFile tls =
     (if tls_Cert tls = [] \<or> tls_Key tls = [] then Panic ''tls cert or key is empty''
      else case NewServerTLSFromFile (tls_Cert tls) (tls_Key tls) of
             Ret tc \<Rightarrow> Ret (Some (ServerOpt tc)) | Fail err \<Rightarrow> Panic ''tls'' | Panic m \<Rightarrow> Panic m)"

definition TLS_DialOption :: "(string \<Rightarrow> 'co outcome) \<Rightarrow> TLS \<Rightarrow> ('co, 'i) dial_opt option outcome" where
  "TLS_DialOption NewClientTLSFromFile tls =
     (if tls_Cert tls = [] then Ret (Some Insecure)
      else case NewClientTLSFromFile (tls_Cert tls) of
             Ret tc \<Rightarrow> Ret (Some (DialOpt tc)) | Fail err \<Rightarrow> Panic ''tls'' | Panic m \<Rightarrow> Panic m)"

text \<open>Compression: \<open>known\<close> tells the compressors that are registered; setting the level of gzip may fail.\<close>

definition Compression_ServerOption :: "(string \<Rightarrow> bool) \<Rightarrow> (int \<Rightarrow> unit outcome) \<Rightarrow> string \<Rightarrow> int option \<Rightarrow> ('so, 'i) server_opt option outcome" where
  "Compression_ServerOption known SetLevel name level =
     (if \<not> known name then Panic ''compression not found,do you forget to import it?''
      else if name = ''gzip'' then
        (case level of
           None \<Rightarrow> Ret None
         | Some l \<Rightarrow> (case SetLevel l of Ret u \<Rightarrow> Ret None | Fail err \<Rightarrow> Panic ''level'' | Panic m \<Rightarrow> Panic m))
      else Ret None)"

text \<open>The keepalive options, which decode their parameters: \<open>mk\<close> makes the option of them.\<close>

definition unmarshalled_option :: "'p outcome \<Rightarrow> ('p \<Rightarrow> 'opt) \<Rightarrow> 'opt option outcome" where
  "unmarshalled_option unmarshal mk = (case unmarshal of Ret sp \<Rightarrow> Ret (Some (mk sp)) | Fail err \<Rightarrow> Panic ''Unmarshal'' | Panic m \<Rightarrow> Panic m)"

end
