(* ===== verification/GrpcRegistryProps.thy ===== *)
theory GrpcRegistryProps
  imports GrpcRegistry
begin

text \<open>
  Properties of service discovery and of the client: options read back from a dial target, keys of service instances, and
  the order and completeness of dial and server options.
\<close>

section \<open>Dial targets\<close>

text \<open>
  What is documented of the libraries: base64 and JSON are read back, the URL alphabet of base64 has no delimiter of a URL and text that
  is not empty has an encoding that is not empty; the query of a target is what follows the question mark, and the value of a single
  key is what follows its equals sign.
\<close>

definition target_laws :: "targetlib \<Rightarrow> (string \<Rightarrow> target_url) \<Rightarrow> bool" where
  "target_laws lib parse \<longleftrightarrow>
     (\<forall>s. b64_Decode lib (b64_Encode lib s) = Ret s) \<and> (\<forall>s. set (b64_Encode lib s) \<inter> {CHR ''?'', CHR ''#'', CHR ''&''} = {})
     \<and> (\<forall>s. s \<noteq> [] \<longrightarrow> b64_Encode lib s \<noteq> [])
     \<and> (\<forall>opts j. json_Encode lib opts = Ret j \<longrightarrow> j \<noteq> [] \<and> json_Decode lib j empty_DialOptions = Ret opts)
     \<and> (\<forall>t q. set t \<inter> {CHR ''?'', CHR ''#''} = {} \<longrightarrow> CHR ''#'' \<notin> set q \<longrightarrow> u_RawQuery (parse (t @ ''?'' @ q)) = q)
     \<and> (\<forall>s. url_Query lib (OptionKey @ ''='' @ b64_Encode lib s) OptionKey = Some [b64_Encode lib s])"


text \<open>A library with the laws: bytes are encoded in unary, and the options of a client of one service have an encoding.\<close>

definition demo_encode :: "string \<Rightarrow> string" where
  "demo_encode s = concat (map (\<lambda>c. replicate (of_char c) CHR ''a'' @ ''b'') s)"

fun demo_decode :: "nat \<Rightarrow> string \<Rightarrow> string" where
  "demo_decode n [] = []"
| "demo_decode n (c # cs) = (if c = CHR ''a'' then demo_decode (Suc n) cs else char_of n # demo_decode 0 cs)"

lemma demo_decode_replicate: "demo_decode n (replicate m CHR ''a'' @ cs) = demo_decode (n + m) cs"
  by (induction m arbitrary: n) simp_all

lemma demo_decode_encode: "demo_decode 0 (demo_encode s) = s"
  by (induction s) (simp_all add: demo_encode_def demo_decode_replicate)

lemma demo_encode_chars: "set (demo_encode s) \<subseteq> {CHR ''a'', CHR ''b''}"
  by (induction s) (auto simp: demo_encode_def)

lemma demo_encode_Nil: "demo_encode s = [] \<longleftrightarrow> s = []"
  by (cases s) (simp_all add: demo_encode_def)

definition demo_options :: DialOptions where
  "demo_options = empty_DialOptions\<lparr>do_Namespace := ''/ns'', do_ServiceName := ''svc''\<rparr>"

definition demo_target_lib :: targetlib where
  "demo_target_lib = \<lparr>url_Query = (\<lambda>q k. if k = OptionKey then Some [drop 8 q] else None),
     b64_Decode = (\<lambda>s. Ret (demo_decode 0 s)), b64_Encode = demo_encode,
     json_Decode = (\<lambda>s d. if s = ''j'' then Ret demo_options else Fail (Errorf ''json'')),
     json_Encode = (\<lambda>opts. if opts = demo_options then Ret ''j'' else Fail (Errorf ''json''))\<rparr>"

definition demo_parse :: "string \<Rightarrow> target_url" where
  "demo_parse t = \<lparr>u_Opaque = [], u_Host = [], u_Path = [], u_RawQuery = drop 1 (dropWhile (\<lambda>c. c \<noteq> CHR ''?'') t)\<rparr>"

lemma demo_target_laws: "target_laws demo_target_lib demo_parse"
proof -
  have "dropWhile (\<lambda>c. c \<noteq> CHR ''?'') (t @ CHR ''?'' # q) = CHR ''?'' # q" if "CHR ''?'' \<notin> set t" for t q
    using that by (induction t) auto
  then show ?thesis
    using demo_encode_chars
    by (auto simp: target_laws_def demo_target_lib_def demo_parse_def demo_decode_encode demo_encode_Nil OptionKey_def split: if_splits)
qed

definition demo_rpc_client :: "(unit, unit) GrpcClient" where
  "demo_rpc_client = \<lparr>registryOptions = demo_options, serverConfig = \<lparr>sc_Addr = [], sc_Namespace = [], sc_Version = []\<rparr>, dialOptions = [Insecure],
     cl_timeout = 0, cl_scheme = ''polaris'', withTransportCredentials = True\<rparr>"


section \<open>Keys of instances\<close>

lemma Join4: "Join [a, b, c, d] ''/'' = a @ ''/'' @ b @ ''/'' @ c @ ''/'' @ d"
  by simp

lemma append_slash_cancel:
  "CHR ''/'' \<notin> set a \<Longrightarrow> CHR ''/'' \<notin> set b \<Longrightarrow> a @ CHR ''/'' # x = b @ CHR ''/'' # y \<Longrightarrow> a = b \<and> x = y"
proof (induction a arbitrary: b)
  case Nil
  then show ?case by (cases b) auto
next
  case (Cons c a)
  then show ?case by (cases b) auto
qed

text \<open>
  Instances of a namespace with different keys fields have different keys, if no field but the namespace contains a slash.
\<close>

lemma build_key_injective:
  assumes "BuildKey a = BuildKey b" "si_Namespace a = si_Namespace b"
    "\<And>s. s \<in> {si_Name a, si_Version a, si_Name b, si_Version b} \<Longrightarrow> CHR ''/'' \<notin> set s"
  shows "si_Name a = si_Name b \<and> si_Version a = si_Version b \<and> Address a = Address b"
proof -
  have "si_Name a @ CHR ''/'' # si_Version a @ CHR ''/'' # Address a = si_Name b @ CHR ''/'' # si_Version b @ CHR ''/'' # Address b"
    using assms(1,2) by (simp add: BuildKey_def nodePath_def Let_def)
  then have n: "si_Name a = si_Name b" and r: "si_Version a @ CHR ''/'' # Address a = si_Version b @ CHR ''/'' # Address b"
    using append_slash_cancel assms(3) by blast+
  from append_slash_cancel [OF _ _ r] assms(3) n show ?thesis by blast
qed

text \<open>A namespace is the same with and without its leading slash.\<close>

lemma namespace_slash: "BuildKey (si\<lparr>si_Namespace := ''/ns''\<rparr>) = BuildKey (si\<lparr>si_Namespace := ''ns''\<rparr>)"
  by (simp add: BuildKey_def nodePath_def Let_def Address_def)

section \<open>Options\<close>

text \<open>Names that are not registered are passed over, also those of interceptors that protect the server.\<close>

lemma unknown_interceptor_ignored:
  "om_su m (part_name p) = None \<Longrightarrow> collect_named (om_su m) (ps @ p # qs) = collect_named (om_su m) (ps @ qs)"
  by (induction ps) (auto split: option.split)

text \<open>Interceptors for streams of clients can be registered, but no client uses them.\<close>

lemma client_stream_interceptors_unused:
  "BuildDialOption (m\<lparr>om_cs := f\<rparr>) duration ps c = BuildDialOption m duration ps c"
proof (induction ps arbitrary: c)
  case (Cons p ps)
  then show ?case by (simp add: buildClientChainUnary_def Let_def cong: option.case_cong if_cong)
qed simp

lemma BuildDialOption_keeps:
  "BuildDialOption m duration ps c = Ret (opts, c') \<Longrightarrow> ''tls'' \<notin> part_name ` set ps \<Longrightarrow>
     withTransportCredentials c' = withTransportCredentials c \<and> dialOptions c' = dialOptions c \<and> registryOptions c' = registryOptions c"
proof (induction ps arbitrary: c opts)
  case (Cons p ps)
  from Cons.prems(1) obtain o1 c1 o2 where s: "BuildDialOption m duration ps c1 = Ret (o2, c')"
    and c1: "withTransportCredentials c1 = withTransportCredentials c" "dialOptions c1 = dialOptions c" "registryOptions c1 = registryOptions c"
    using Cons.prems(2) by (auto simp: go_bind_Ret_iff Let_def split: if_splits option.splits)
  from Cons.IH [OF s] Cons.prems(2) c1 show ?case by simp
qed simp

text \<open>
  Without a part \<open>tls\<close> the options of a client end, before those of the caller, with insecure credentials: gRPC takes the last
  credentials of the list, so credentials that another dial option or the registry's driver has configured are not used.
\<close>

lemma insecure_is_last:
  assumes "Client_Apply m duration drivers cfg c = Ret c'" "gc_registry cfg = None" "gc_dialOption cfg = Some ps"
    "''tls'' \<notin> part_name ` set ps" "\<not> withTransportCredentials c"
  shows "\<exists>configured. dialOptions c' = configured @ [Insecure] @ dialOptions c"
  using assms
  by (auto simp: Client_Apply_def go_bind_Ret_iff Let_def dest!: BuildDialOption_keeps split: option.splits if_splits)

lemma driver_credentials_overridden:
  assumes "Client_Apply m duration drivers cfg c = Ret c'" "gc_registry cfg = Some (scheme, sub)" "gc_dialOption cfg = None"
    "\<not> withTransportCredentials c" "GetRegistry scheme drivers = Some drv"
  shows "\<exists>rdo rb. drv_WithDialOptions drv (registryOptions c') = Ret rdo \<and> dialOptions c' = rdo @ [Insecure, WithResolvers rb] @ dialOptions c"
  using assms by (auto simp: Client_Apply_def go_bind_Ret_iff Let_def split: option.splits if_splits)

end
