(* ===== verification/GrpcServer.thy ===== *)
theory GrpcServer
  imports GrpcRegistry
begin

text \<open>
  Model of the gRPC server in \<open>rpc/grpcx/server.go\<close> with its options in \<open>option.go\<close>: construction, the
  registration of its services, and the protocol between \<open>ListenAndServe\<close>, the goroutine that keeps the registration
  alive, the registrations it starts, and \<open>Stop\<close>.
\<close>

section \<open>The registry interface\<close>

text \<open>
  What the server relies on: after a registration that succeeds the service is live, after a deregistration that succeeds it
  is not, and neither makes another one live.
\<close>

locale service_registry =
  fixes Register :: "ServiceInfo \<Rightarrow> 'r \<Rightarrow> 'r \<times> go_error option"
    and Unregister :: "ServiceInfo \<Rightarrow> 'r \<Rightarrow> 'r \<times> go_error option"
    and live :: "'r \<Rightarrow> ServiceInfo set"
  assumes register_live: "Register i r = (r', None) \<Longrightarrow> i \<in> live r'"
    and register_only: "live (fst (Register i r)) \<subseteq> insert i (live r)"
    and unregister_dead: "Unregister i r = (r', None) \<Longrightarrow> i \<notin> live r'"
    and unregister_only: "live (fst (Unregister i r)) \<subseteq> live r"

text \<open>The registry in memory of \<open>test/mock/registry\<close>: services by name.\<close>

definition mock_Register :: "ServiceInfo \<Rightarrow> (string \<Rightarrow> ServiceInfo option) \<Rightarrow> (string \<Rightarrow> ServiceInfo option) \<times> go_error option" where
  "mock_Register info data = (data(si_Name info \<mapsto> info), None)"

definition mock_Unregister :: "ServiceInfo \<Rightarrow> (string \<Rightarrow> ServiceInfo option) \<Rightarrow> (string \<Rightarrow> ServiceInfo option) \<times> go_error option" where
  "mock_Unregister info data = (data(si_Name info := None), None)"

definition mock_live :: "(string \<Rightarrow> ServiceInfo option) \<Rightarrow> ServiceInfo set" where
  "mock_live data = {i. data (si_Name i) = Some i}"

interpretation mock: service_registry mock_Register mock_Unregister mock_live
  by unfold_locales (auto simp: mock_Register_def mock_Unregister_def mock_live_def split: if_splits)

section \<open>The server\<close>

text \<open>\<open>'l\<close> are listeners; \<open>'g\<close> are gRPC server options.\<close>

record ('l, 'g) serverOptions =
  gs_Network :: string
  gs_Addr :: string
  gs_UseIPv6 :: bool
  gs_Namespace :: string
  gs_Version :: string
  gs_RegistryMeta :: "string \<Rightarrow> string option"
  gs_listener :: "'l option"
  gs_host :: string
  gs_port :: int
  gs_grpcOptions :: "'g list"
  gs_gracefulStop :: bool

type_synonym ('l, 'g) grpc_option = "('l, 'g) serverOptions \<Rightarrow> ('l, 'g) serverOptions"

definition WithGrpcOption :: "'g list \<Rightarrow> ('l, 'g) grpc_option" where
  "WithGrpcOption opts s = s\<lparr>gs_grpcOptions := gs_grpcOptions s @ opts\<rparr>"

definition GrpcWithGracefulStop :: "('l, 'g) grpc_option" where
  "GrpcWithGracefulStop s = s\<lparr>gs_gracefulStop := True\<rparr>"

definition WithListener :: "'l \<Rightarrow> ('l, 'g) grpc_option" where
  "WithListener lis s = s\<lparr>gs_listener := Some lis\<rparr>"

record ('l, 'g, 'q) GrpcServer =
  sv_options :: "('l, 'g) serverOptions"
  sv_registry :: "'q option"

text \<open>
  The configuration: the namespace and version of its root, the decoder of the section \<open>server\<close>, the scheme and
  configuration of the registry, and the options that the manager builds of the section \<open>engine\<close>.
\<close>

record ('l, 'g) grpc_conf =
  gcf_Version :: string
  gcf_Namespace :: string
  gcf_server :: "('l, 'g) serverOptions \<Rightarrow> ('l, 'g) serverOptions outcome"
  gcf_registry :: "(string \<times> string) option"
  gcf_engine :: "'g list outcome option"

definition GrpcServer_Apply ::
  "(string \<Rightarrow> (string \<Rightarrow> 'q outcome) option) \<Rightarrow> ('l, 'g) grpc_conf \<Rightarrow> ('l, 'g, 'q) GrpcServer \<Rightarrow> ('l, 'g, 'q) GrpcServer outcome" where
  "GrpcServer_Apply drivers cfg s =
     (case gcf_server cfg (sv_options s) of
        Fail err \<Rightarrow> Panic ''Unmarshal''
      | Panic m \<Rightarrow> Panic m
      | Ret o' \<Rightarrow>
          (let s = s\<lparr>sv_options := o'\<rparr> in
           go_bind (case gcf_registry cfg of
                      None \<Rightarrow> Ret s
                    | Some (scheme, rgcfg) \<Rightarrow>
                        (case GetRegistry scheme drivers of
                           None \<Rightarrow> Fail (Errorf (''registry driver not found:'' @ scheme))
                         | Some CreateRegistry \<Rightarrow> go_bind (CreateRegistry rgcfg) (\<lambda>q. Ret (s\<lparr>sv_registry := Some q\<rparr>)))) (\<lambda>s.
           case gcf_engine cfg of
             None \<Rightarrow> Ret s
           | Some build \<Rightarrow>
               go_bind build (\<lambda>cnfOpts. Ret (s\<lparr>sv_options := (sv_options s)\<lparr>gs_grpcOptions := cnfOpts @ gs_grpcOptions (sv_options s)\<rparr>\<rparr>)))))"

text \<open>
  \<open>conf\<close> is the configuration given by an option, or else the part \<open>grpc\<close> of the global one.  The result has the
  options that the engine is made with.
\<close>

definition New_grpc ::
  "(string \<Rightarrow> (string \<Rightarrow> 'q outcome) option) \<Rightarrow> ('l, 'g) grpc_option list \<Rightarrow> ('l, 'g) grpc_conf option \<Rightarrow> ('l, 'g, 'q) GrpcServer outcome" where
  "New_grpc drivers opts conf =
     (let o0 = \<lparr>gs_Network = ''tcp'', gs_Addr = '':9080'', gs_UseIPv6 = False, gs_Namespace = [], gs_Version = [],
                gs_RegistryMeta = Map.empty, gs_listener = None, gs_host = [], gs_port = 9080, gs_grpcOptions = [], gs_gracefulStop = False\<rparr>;
          s = \<lparr>sv_options = fold (\<lambda>f. f) opts o0, sv_registry = None\<rparr> in
      case conf of
        None \<Rightarrow> Ret s
      | Some cnf \<Rightarrow>
          (case GrpcServer_Apply drivers cnf (s\<lparr>sv_options := (sv_options s)\<lparr>gs_Version := gcf_Version cnf, gs_Namespace := gcf_Namespace cnf\<rparr>\<rparr>) of
             Fail err \<Rightarrow> Panic ''Apply'' | Panic m \<Rightarrow> Panic m | Ret s \<Rightarrow> Ret s))"

text \<open>
  The network: listening, the address of a listener with the TCP part if it has one (text of the IP, whether it is a loopback,
  port), and the address of this machine.
\<close>

record 'l netlib =
  net_Listen :: "string \<Rightarrow> string \<Rightarrow> 'l outcome"
  lis_Addr :: "'l \<Rightarrow> string"
  lis_TCP :: "'l \<Rightarrow> (string \<times> bool \<times> int) option"
  conf_GetIP :: "bool \<Rightarrow> string outcome"

definition applyNetwork :: "'l netlib \<Rightarrow> ('l, 'g) serverOptions \<Rightarrow> ('l, 'g) serverOptions outcome" where
  "applyNetwork net s =
     go_bind (case gs_listener s of
                Some l \<Rightarrow> Ret (s, l)
              | None \<Rightarrow>
                  (let s = (if gs_Network s = [] then s\<lparr>gs_Network := ''tcp''\<rparr> else s) in
                   go_bind (net_Listen net (gs_Network s) (gs_Addr s)) (\<lambda>l. Ret (s\<lparr>gs_listener := Some l\<rparr>, l)))) (\<lambda>(s, l).
     let s = s\<lparr>gs_Addr := lis_Addr net l\<rparr> in
     case lis_TCP net l of
       None \<Rightarrow> Ret s
     | Some (ip, loopback, port) \<Rightarrow>
         go_bind (conf_GetIP net (gs_UseIPv6 s)) (\<lambda>host.
           Ret (s\<lparr>gs_port := port, gs_host := (if loopback then ip else host)\<rparr>)))"

text \<open>The service infos made of the names of the services that the engine has; their order is that of a map.\<close>

definition service_info :: "('l, 'g) serverOptions \<Rightarrow> string \<Rightarrow> ServiceInfo" where
  "service_info s name =
     \<lparr>si_Name = name, si_Namespace = gs_Namespace s, si_Version = gs_Version s, si_Host = gs_host s, si_Port = gs_port s,
      si_Protocol = gs_Network s, si_Metadata = gs_RegistryMeta s\<rparr>"

fun deregisterServices :: "(ServiceInfo \<Rightarrow> 'r \<Rightarrow> 'r \<times> go_error option) \<Rightarrow> ServiceInfo list \<Rightarrow> 'r \<Rightarrow> 'r" where
  "deregisterServices unreg [] r = r"
| "deregisterServices unreg (i # is) r = deregisterServices unreg is (fst (unreg i r))"

text \<open>The loop that registers the services; at the first error all are deregistered.\<close>

fun register_services ::
  "(ServiceInfo \<Rightarrow> 'r \<Rightarrow> 'r \<times> go_error option) \<Rightarrow> (ServiceInfo \<Rightarrow> 'r \<Rightarrow> 'r \<times> go_error option) \<Rightarrow> ServiceInfo list \<Rightarrow> ServiceInfo list \<Rightarrow>
   'r \<Rightarrow> 'r \<times> go_error option" where
  "register_services rg unreg all [] r = (r, None)"
| "register_services rg unreg all (i # is) r =
     (case rg i r of
        (r, None) \<Rightarrow> register_services rg unreg all is r
      | (r, Some err) \<Rightarrow> (deregisterServices unreg all r, Some err))"

section \<open>The protocol of serving and stopping\<close>

text \<open>
  The threads: \<open>ListenAndServe\<close>, the goroutine of its loop, the registrations that the loop starts at every tick, and the
  calls of \<open>Stop\<close>, by number.  The loop receives a stopper's channel, deregisters, and answers.  \<open>RunErr\<close> has the
  error of the registration.
\<close>

datatype starter = Starting | Locking | Serving | RunDone | RunErr go_error
datatype reg_loop = NoLoop | Select | Dereg nat "ServiceInfo list" | Answer nat | LoopEnd
datatype stopper = Idle | Locked | Sending | Waiting | Stopping | Returned

record 'r grpc_sys =
  registry :: 'r
  ServiceInfos :: "ServiceInfo list"
  registryDone :: bool
  starter :: starter
  loop :: reg_loop
  pending :: "ServiceInfo list"
  stoppers :: "nat \<Rightarrow> stopper"
  engineStopped :: bool

text \<open>The read lock is held by every call of \<open>Stop\<close> that runs; setting \<open>registryDone\<close> takes the write lock.\<close>

definition readers :: "'r grpc_sys \<Rightarrow> nat set" where
  "readers s = {b. stoppers s b \<notin> {Idle, Returned}}"

text \<open>
  One step of a server with a registry.  \<open>ttl\<close> tells whether the registry wants services to be registered at every tick.
  The registrations of the start are one step: only they change the registry then.  Without services \<open>registryDone\<close> is not set,
  but the loop runs.
\<close>

inductive grpc_step ::
  "(ServiceInfo \<Rightarrow> 'r \<Rightarrow> 'r \<times> go_error option) \<Rightarrow> (ServiceInfo \<Rightarrow> 'r \<Rightarrow> 'r \<times> go_error option) \<Rightarrow> bool \<Rightarrow> 'r grpc_sys \<Rightarrow> 'r grpc_sys \<Rightarrow> bool"
  for Register Unregister ttl where
  register_all: "starter s = Starting \<Longrightarrow> register_services Register Unregister (ServiceInfos s) (ServiceInfos s) (registry s) = (r, None) \<Longrightarrow>
     grpc_step Register Unregister ttl s (s\<lparr>registry := r, starter := Locking\<rparr>)"
| register_fails: "starter s = Starting \<Longrightarrow> register_services Register Unregister (ServiceInfos s) (ServiceInfos s) (registry s) = (r, Some err) \<Longrightarrow>
     grpc_step Register Unregister ttl s (s\<lparr>registry := r, starter := RunErr err\<rparr>)"
| set_done: "starter s = Locking \<Longrightarrow> ServiceInfos s \<noteq> [] \<Longrightarrow> readers s = {} \<Longrightarrow>
     grpc_step Register Unregister ttl s (s\<lparr>registryDone := True, starter := Serving, loop := Select\<rparr>)"
| no_services: "starter s = Locking \<Longrightarrow> ServiceInfos s = [] \<Longrightarrow>
     grpc_step Register Unregister ttl s (s\<lparr>starter := Serving, loop := Select\<rparr>)"
| serve_ends: "starter s = Serving \<Longrightarrow> engineStopped s \<Longrightarrow> grpc_step Register Unregister ttl s (s\<lparr>starter := RunDone\<rparr>)"
| tick: "loop s = Select \<Longrightarrow> ttl \<Longrightarrow> grpc_step Register Unregister ttl s (s\<lparr>pending := pending s @ ServiceInfos s\<rparr>)"
| refresh: "i < length (pending s) \<Longrightarrow> grpc_step Register Unregister ttl s
     (s\<lparr>registry := fst (Register (pending s ! i) (registry s)), pending := take i (pending s) @ drop (Suc i) (pending s)\<rparr>)"
| stop_called: "stoppers s b = Idle \<Longrightarrow> grpc_step Register Unregister ttl s (s\<lparr>stoppers := (stoppers s)(b := Locked)\<rparr>)"
| stop_reads: "stoppers s b = Locked \<Longrightarrow>
     grpc_step Register Unregister ttl s (s\<lparr>stoppers := (stoppers s)(b := if registryDone s then Sending else Stopping)\<rparr>)"
| exit_received: "loop s = Select \<Longrightarrow> stoppers s b = Sending \<Longrightarrow>
     grpc_step Register Unregister ttl s (s\<lparr>loop := Dereg b (ServiceInfos s), stoppers := (stoppers s)(b := Waiting)\<rparr>)"
| deregister: "loop s = Dereg b (i # is) \<Longrightarrow>
     grpc_step Register Unregister ttl s (s\<lparr>registry := fst (Unregister i (registry s)), loop := Dereg b is\<rparr>)"
| deregistered: "loop s = Dereg b [] \<Longrightarrow> grpc_step Register Unregister ttl s (s\<lparr>loop := Answer b\<rparr>)"
| answer: "loop s = Answer b \<Longrightarrow> stoppers s b = Waiting \<Longrightarrow>
     grpc_step Register Unregister ttl s (s\<lparr>loop := LoopEnd, stoppers := (stoppers s)(b := Stopping)\<rparr>)"
| stop_engine: "stoppers s b = Stopping \<Longrightarrow>
     grpc_step Register Unregister ttl s (s\<lparr>engineStopped := True, stoppers := (stoppers s)(b := Returned)\<rparr>)"

definition initial_sys :: "ServiceInfo list \<Rightarrow> 'r \<Rightarrow> 'r grpc_sys" where
  "initial_sys infos r =
     \<lparr>registry = r, ServiceInfos = infos, registryDone = False, starter = Starting, loop = NoLoop, pending = [], stoppers = (\<lambda>_. Idle),
      engineStopped = False\<rparr>"

abbreviation grpc_reach where
  "grpc_reach Register Unregister ttl infos r s \<equiv> (grpc_step Register Unregister ttl)\<^sup>*\<^sup>* (initial_sys infos r) s"

text \<open>What \<open>Run\<close> waits for: a signal, or the return of \<open>Start\<close>; the result is whether \<open>Stop\<close> is called, and the error.\<close>

datatype grpc_run_event = GrpcQuit | GrpcStartReturned "go_error option"

definition GrpcServer_Run :: "grpc_run_event \<Rightarrow> bool \<times> go_error option" where
  "GrpcServer_Run ev =
     (case ev of
        GrpcQuit \<Rightarrow> (True, None)
      | GrpcStartReturned (Some err) \<Rightarrow> (True, Some err)
      | GrpcStartReturned None \<Rightarrow> (False, None))"

end
