(* ===== verification/GrpcServerProps.thy ===== *)
theory GrpcServerProps
  imports GrpcServer
begin

text \<open>
  Properties of the gRPC server and of service discovery: services are deregistered before the engine stops, when a call of
  \<open>Stop\<close> cannot return, what remains registered, and that options survive the way through a dial target.
\<close>

text \<open>
  The invariant of a server that serves: the part of its services that the loop has deregistered is not live any more, and a call of
  \<open>Stop\<close> is past its answer only if the loop has ended.
\<close>

definition serving_inv :: "('r \<Rightarrow> ServiceInfo set) \<Rightarrow> ServiceInfo list \<Rightarrow> 'r grpc_sys \<Rightarrow> bool" where
  "serving_inv live infos s \<longleftrightarrow>
     ServiceInfos s = infos \<and> registryDone s \<and> pending s = [] \<and> starter s \<in> {Serving, RunDone}
     \<and> (\<forall>b. stoppers s b \<in> {Stopping, Returned} \<longrightarrow> loop s = LoopEnd) \<and> (engineStopped s \<longrightarrow> loop s = LoopEnd)
     \<and> (case loop s of
          NoLoop \<Rightarrow> False
        | Select \<Rightarrow> True
        | Dereg b is \<Rightarrow> stoppers s b = Waiting \<and> live (registry s) \<inter> set infos \<subseteq> set is
        | Answer b \<Rightarrow> stoppers s b = Waiting \<and> live (registry s) \<inter> set infos = {}
        | LoopEnd \<Rightarrow> live (registry s) \<inter> set infos = {})"

section \<open>Registration\<close>

context service_registry
begin

lemma deregister_live: "live (deregisterServices Unregister is r) \<subseteq> live r"
proof (induction "is" arbitrary: r)
  case (Cons i "is")
  show ?case using Cons.IH [of "fst (Unregister i r)"] unregister_only [of i r] by auto
qed simp

lemma unregister_live: "snd (Unregister i r) = None \<Longrightarrow> live (fst (Unregister i r)) \<subseteq> live r - {i}"
  using unregister_dead [of i r] unregister_only [of i r] by (cases "Unregister i r") auto

lemma deregister_dead:
  assumes "\<And>i r. snd (Unregister i r) = None"
  shows "live (deregisterServices Unregister is r) \<subseteq> live r - set is"
proof (induction "is" arbitrary: r)
  case (Cons i "is")
  show ?case using Cons.IH [of "fst (Unregister i r)"] unregister_live [OF assms, of i r] by auto
qed simp

lemma register_services_live: "live (fst (register_services Register Unregister all is r)) \<subseteq> live r \<union> set is"
proof (induction "is" arbitrary: r)
  case (Cons i "is")
  obtain r1 e where ri: "Register i r = (r1, e)" by fastforce
  then have "live r1 \<subseteq> insert i (live r)" using register_only [of i r] by simp
  then show ?case
    using Cons.IH [of r1] deregister_live [of all r1] by (cases e) (auto simp: ri)
qed simp

text \<open>Registration is all or nothing: after a failure no service is left, if deregistering works.\<close>

lemma register_services_fails:
  assumes "register_services Register Unregister all is r = (r', Some err)" "\<And>i r. snd (Unregister i r) = None" "set is \<subseteq> set all"
  shows "live r' \<subseteq> live r - set all"
  using assms(1,3)
proof (induction "is" arbitrary: r)
  case (Cons i "is")
  obtain r1 e where ri: "Register i r = (r1, e)" by fastforce
  then have r1: "live r1 \<subseteq> insert i (live r)" using register_only [of i r] by simp
  show ?case
  proof (cases e)
    case None
    then have "live r' \<subseteq> live r1 - set all" using Cons by (auto simp: ri)
    then show ?thesis using r1 Cons.prems(2) by auto
  next
    case (Some e')
    then have "r' = deregisterServices Unregister all r1" using Cons.prems(1) by (simp add: ri)
    then show ?thesis using deregister_dead [OF assms(2), of all r1] r1 Cons.prems(2) by auto
  qed
qed simp

section \<open>Stopping\<close>

lemma serving_inv_step:
  assumes "grpc_step Register Unregister False s s'" "serving_inv live infos s" "\<And>i r. snd (Unregister i r) = None"
  shows "serving_inv live infos s'"
  using assms(1)
proof (cases rule: grpc_step.cases)
  case (deregister b i "is")
  then show ?thesis using assms(2) unregister_live [OF assms(3), of i "registry s"] by (auto simp: serving_inv_def)
qed (use assms(2) in \<open>auto simp: serving_inv_def split: reg_loop.splits if_splits\<close>)

lemma serving_inv_reach:
  assumes "(grpc_step Register Unregister False)\<^sup>*\<^sup>* s s'" "serving_inv live infos s" "\<And>i r. snd (Unregister i r) = None"
  shows "serving_inv live infos s'"
  using assms(1,2) by induction (auto intro: serving_inv_step [OF _ _ assms(3)])

end

text \<open>A server whose \<open>ListenAndServe\<close> has registered its services and whose \<open>Stop\<close> has not been called.\<close>

definition serving :: "ServiceInfo list \<Rightarrow> 'r grpc_sys \<Rightarrow> bool" where
  "serving infos s \<longleftrightarrow> ServiceInfos s = infos \<and> registryDone s \<and> pending s = [] \<and> starter s = Serving \<and> loop s = Select
     \<and> stoppers s = (\<lambda>_. Idle) \<and> \<not> engineStopped s"

lemma serving_reachable:
  assumes "register_services Register Unregister infos infos r = (r', None)" "infos \<noteq> []"
  shows "\<exists>s. grpc_reach Register Unregister ttl infos r s \<and> serving infos s \<and> registry s = r'"
proof -
  let ?sz = "initial_sys infos r"
  let ?sa = "?sz\<lparr>registry := r', starter := Locking\<rparr>"
  let ?sb = "?sa\<lparr>registryDone := True, starter := Serving, loop := Select\<rparr>"
  have "grpc_step Register Unregister ttl ?sz ?sa" by (rule register_all) (simp_all add: initial_sys_def assms(1))
  moreover have "grpc_step Register Unregister ttl ?sa ?sb" by (rule set_done) (simp_all add: initial_sys_def readers_def assms(2))
  moreover have "serving infos ?sb" by (simp add: serving_def initial_sys_def)
  ultimately show ?thesis by (intro exI [of _ ?sb]) (auto intro: rtranclp.rtrancl_into_rtrancl)
qed


definition demo_service :: ServiceInfo where
  "demo_service = \<lparr>si_Name = ''/svc'', si_Namespace = ''/ns'', si_Version = ''1'', si_Host = ''127.0.0.1'', si_Port = 9080, si_Protocol = ''tcp'',
     si_Metadata = Map.empty\<rparr>"

definition demo_serving :: "(string \<Rightarrow> ServiceInfo option) grpc_sys" where
  "demo_serving = (initial_sys [demo_service] [''/svc'' \<mapsto> demo_service])\<lparr>registryDone := True, starter := Serving, loop := Select\<rparr>"

text \<open>The calls of one \<open>Stop\<close>.\<close>

definition demo_stopped :: "(string \<Rightarrow> ServiceInfo option) grpc_sys" where
  "demo_stopped = demo_serving\<lparr>registry := Map.empty, loop := LoopEnd, stoppers := (\<lambda>_. Idle)(0 := Returned), engineStopped := True\<rparr>"

lemma demo_serving: "serving [demo_service] demo_serving"
  by (simp add: serving_def demo_serving_def initial_sys_def)

lemma stop_steps:
  assumes "loop s = Select" "stoppers s b = Idle" "registryDone s"
  shows "(grpc_step Register Unregister ttl)\<^sup>*\<^sup>* s (s\<lparr>loop := LoopEnd, stoppers := (stoppers s)(b := Returned),
    registry := deregisterServices Unregister (ServiceInfos s) (registry s), engineStopped := True\<rparr>)"
proof -
  have loop: "(grpc_step Register Unregister ttl)\<^sup>*\<^sup>* (s'\<lparr>loop := Dereg b is\<rparr>)
      (s'\<lparr>registry := deregisterServices Unregister is (registry s'), loop := Dereg b []\<rparr>)" for s' :: "'a grpc_sys" and "is"
  proof (induction "is" arbitrary: s')
    case (Cons i "is")
    have "grpc_step Register Unregister ttl (s'\<lparr>loop := Dereg b (i # is)\<rparr>)
        ((s'\<lparr>loop := Dereg b (i # is)\<rparr>)\<lparr>registry := fst (Unregister i (registry s')), loop := Dereg b is\<rparr>)"
      using deregister [of "s'\<lparr>loop := Dereg b (i # is)\<rparr>" b i "is" Register Unregister ttl] by simp
    then show ?case using Cons.IH [of "s'\<lparr>registry := fst (Unregister i (registry s'))\<rparr>"]
      by (auto intro: converse_rtranclp_into_rtranclp)
  qed simp
  let ?S = "grpc_step Register Unregister ttl"
  let ?sa = "s\<lparr>stoppers := (stoppers s)(b := Locked)\<rparr>"
  let ?sb = "s\<lparr>stoppers := (stoppers s)(b := Sending)\<rparr>"
  let ?sc = "s\<lparr>stoppers := (stoppers s)(b := Waiting)\<rparr>"
  let ?sd = "?sc\<lparr>registry := deregisterServices Unregister (ServiceInfos s) (registry s)\<rparr>"
  have "?S s ?sa" by (rule stop_called [OF assms(2)])
  then have "?S\<^sup>*\<^sup>* s ?sa" by (rule r_into_rtranclp)
  also have "?S\<^sup>*\<^sup>* ?sa ?sb" using stop_reads [of ?sa b Register Unregister ttl] assms(3) by auto
  also have "?S ?sb (?sc\<lparr>loop := Dereg b (ServiceInfos s)\<rparr>)"
    using exit_received [of ?sb b Register Unregister ttl] assms(1) by (cases s) simp
  also have "?S\<^sup>*\<^sup>* (?sc\<lparr>loop := Dereg b (ServiceInfos s)\<rparr>) (?sd\<lparr>loop := Dereg b []\<rparr>)" using loop [of "ServiceInfos s" ?sc] by simp
  also have "?S (?sd\<lparr>loop := Dereg b []\<rparr>) (?sd\<lparr>loop := Answer b\<rparr>)"
    using deregistered [of "?sd\<lparr>loop := Dereg b []\<rparr>" b Register Unregister ttl] by (cases s) simp
  also have "?S (?sd\<lparr>loop := Answer b\<rparr>) (?sd\<lparr>loop := LoopEnd, stoppers := (stoppers s)(b := Stopping)\<rparr>)"
    using answer [of "?sd\<lparr>loop := Answer b\<rparr>" b Register Unregister ttl] by (cases s) simp
  also have "?S (?sd\<lparr>loop := LoopEnd, stoppers := (stoppers s)(b := Stopping)\<rparr>)
      (?sd\<lparr>loop := LoopEnd, stoppers := (stoppers s)(b := Returned), engineStopped := True\<rparr>)"
    using stop_engine [of "?sd\<lparr>loop := LoopEnd, stoppers := (stoppers s)(b := Stopping)\<rparr>" b Register Unregister ttl] by (cases s) simp
  finally show ?thesis by (cases s) simp
qed


text \<open>The first call of \<open>Stop\<close> can always return, from a server that serves.\<close>

lemma first_stop_can_return:
  "serving infos s \<Longrightarrow> \<exists>s'. (grpc_step Register Unregister ttl)\<^sup>*\<^sup>* s s' \<and> stoppers s' b = Returned"
  using stop_steps [of s b Register Unregister ttl] by (fastforce simp: serving_def)



text \<open>
  With a registry that has services registered at every tick, a registration that a tick has started can come after the
  deregistration: the service stays live after \<open>Stop\<close>, with no thread left to deregister it.
\<close>

lemma tick_outlives_stop:
  "\<exists>s. (grpc_step mock_Register mock_Unregister True)\<^sup>*\<^sup>* demo_serving s \<and> stoppers s 0 = Returned \<and> loop s = LoopEnd \<and> pending s = []
     \<and> demo_service \<in> mock_live (registry s)"
proof -
  let ?S = "grpc_step mock_Register mock_Unregister True"
  let ?sz = "demo_serving\<lparr>pending := [demo_service]\<rparr>"
  let ?s = "?sz\<lparr>loop := LoopEnd, stoppers := (stoppers ?sz)(0 := Returned),
    registry := deregisterServices mock_Unregister (ServiceInfos ?sz) (registry ?sz), engineStopped := True\<rparr>"
  have "?S demo_serving ?sz"
    using tick [of demo_serving True mock_Register mock_Unregister] by (simp add: demo_serving_def initial_sys_def)
  then have "?S\<^sup>*\<^sup>* demo_serving ?sz" by (rule r_into_rtranclp)
  also have "?S\<^sup>*\<^sup>* ?sz ?s" by (rule stop_steps) (simp_all add: demo_serving_def initial_sys_def)
  also have "?S ?s (?s\<lparr>registry := fst (mock_Register demo_service (registry ?s)), pending := []\<rparr>)"
    using refresh [of 0 ?s mock_Register mock_Unregister True] by (simp add: demo_serving_def initial_sys_def)
  finally have "?S\<^sup>*\<^sup>* demo_serving (?s\<lparr>registry := fst (mock_Register demo_service (registry ?s)), pending := []\<rparr>)" .
  then show ?thesis
    by (intro exI [of _ "?s\<lparr>registry := fst (mock_Register demo_service (registry ?s)), pending := []\<rparr>"])
      (simp add: mock_live_def mock_Register_def)
qed

text \<open>
  A call of \<open>Stop\<close> before the registration is done does not wait for it: the services are registered after it has returned, and
  stay so although \<open>ListenAndServe\<close> returns without error.
\<close>

lemma stop_before_start_leaks:
  "\<exists>s. grpc_reach mock_Register mock_Unregister False [demo_service] Map.empty s \<and> stoppers s 0 = Returned \<and> starter s = RunDone
     \<and> demo_service \<in> mock_live (registry s)"
proof -
  let ?S = "grpc_step mock_Register mock_Unregister False"
  let ?sz = "initial_sys [demo_service] Map.empty :: (string \<Rightarrow> ServiceInfo option) grpc_sys"
  let ?sa = "?sz\<lparr>stoppers := (\<lambda>_. Idle)(0 := Locked)\<rparr>"
  let ?sb = "?sz\<lparr>stoppers := (\<lambda>_. Idle)(0 := Stopping)\<rparr>"
  let ?sc = "?sz\<lparr>stoppers := (\<lambda>_. Idle)(0 := Returned), engineStopped := True\<rparr>"
  let ?sd = "?sc\<lparr>registry := [''/svc'' \<mapsto> demo_service], starter := Locking\<rparr>"
  let ?se = "?sd\<lparr>registryDone := True, starter := Serving, loop := Select\<rparr>"
  have "?S ?sz ?sa" using stop_called [of ?sz 0 mock_Register mock_Unregister False] by (simp add: initial_sys_def)
  then have "?S\<^sup>*\<^sup>* ?sz ?sa" by (rule r_into_rtranclp)
  also have "?S ?sa ?sb" using stop_reads [of ?sa 0 mock_Register mock_Unregister False] by (simp add: initial_sys_def)
  also have "?S ?sb ?sc" using stop_engine [of ?sb 0 mock_Register mock_Unregister False] by (simp add: initial_sys_def)
  also have "?S ?sc ?sd"
    using register_all [of ?sc mock_Register mock_Unregister "[''/svc'' \<mapsto> demo_service]" False]
    by (simp add: initial_sys_def mock_Register_def demo_service_def)
  also have "?S ?sd ?se" using set_done [of ?sd mock_Register mock_Unregister False] by (simp add: initial_sys_def readers_def)
  also have "?S ?se (?se\<lparr>starter := RunDone\<rparr>)" using serve_ends [of ?se mock_Register mock_Unregister False] by simp
  finally have "?S\<^sup>*\<^sup>* ?sz (?se\<lparr>starter := RunDone\<rparr>)" .
  then show ?thesis by (intro exI [of _ "?se\<lparr>starter := RunDone\<rparr>"]) (simp add: mock_live_def demo_service_def)
qed

end
