(* ===== verification/Polaris.thy ===== *)
theory Polaris
  imports GrpcRegistry GrpcInterceptor
begin

text \<open>
  Model of \<open>contrib/polarismesh\<close>, service discovery with Polaris: \<open>registry.go\<close>, \<open>client.go\<close> and \<open>context.go\<close> here, the
  resolver, the balancer and the rate limit in \<open>PolarisBalancer\<close>.  The Polaris SDK is a parameter.
\<close>

section \<open>Dial options\<close>

record pdialOptions =
  po_Namespace :: string
  po_Service :: string
  po_Headers :: "string \<Rightarrow> string option"
  po_SrcService :: string
  po_SrcMetadata :: "string \<Rightarrow> string option"
  po_Route :: bool
  po_CircuitBreaker :: bool

definition no_pdialOptions :: pdialOptions where
  "no_pdialOptions = \<lparr>po_Namespace = [], po_Service = [], po_Headers = Map.empty, po_SrcService = [], po_SrcMetadata = Map.empty,
     po_Route = False, po_CircuitBreaker = False\<rparr>"

definition registerServiceTokenKey :: string where "registerServiceTokenKey = ''token''"
definition DefaultNamespace :: string where "DefaultNamespace = ''default''"

text \<open>\<open>strconv.ParseBool\<close>.\<close>

definition ParseBool :: "string \<Rightarrow> bool outcome" where
  "ParseBool s =
     (if s \<in> {''1'', ''t'', ''T'', ''TRUE'', ''true'', ''True''} then Ret True
      else if s \<in> {''0'', ''f'', ''F'', ''FALSE'', ''false'', ''False''} then Ret False
      else Fail (Errorf (''strconv.ParseBool: parsing '' @ s)))"

text \<open>The entries whose keys have the prefix, without it.\<close>

definition filterMetadata :: "DialOptions \<Rightarrow> string \<Rightarrow> string \<Rightarrow> string option" where
  "filterMetadata options prefix = (\<lambda>k. do_Metadata options (prefix @ k))"

definition parse_flag :: "string \<Rightarrow> string option \<Rightarrow> bool \<Rightarrow> bool outcome" where
  "parse_flag what v old =
     (case v of
        None \<Rightarrow> Ret old
      | Some v \<Rightarrow> (case ParseBool v of Ret b \<Rightarrow> Ret b | Fail err \<Rightarrow> Fail (Errorf (''metadata:'' @ what @ '' '' @ v)) | Panic m \<Rightarrow> Panic m))"

definition convertDialOptions :: "DialOptions \<Rightarrow> pdialOptions \<Rightarrow> pdialOptions outcome" where
  "convertDialOptions src tar =
     (let tar = tar\<lparr>po_Namespace := do_Namespace src, po_Service := do_ServiceName src, po_Headers := filterMetadata src ''header_'',
                    po_SrcMetadata := filterMetadata src ''src_''\<rparr> in
      go_bind (parse_flag ''route'' (do_Metadata src ''route'') (po_Route tar)) (\<lambda>r.
      go_bind (parse_flag ''circuit breaker'' (do_Metadata src ''circuitBreaker'') (po_CircuitBreaker tar)) (\<lambda>cb.
      Ret (tar\<lparr>po_Route := r, po_CircuitBreaker := cb,
               po_SrcService := (case do_Metadata src ''srcService'' of Some v \<Rightarrow> v | None \<Rightarrow> po_SrcService tar)\<rparr>))))"

text \<open>The loop over the values of the query, in the order of the map.\<close>

fun query_loop :: "(string \<times> string list) list \<Rightarrow> pdialOptions \<Rightarrow> pdialOptions outcome" where
  "query_loop [] options = Ret options"
| "query_loop ((k, v) # kvs) options =
     (case v of
        [] \<Rightarrow> if ToLower k = ''route'' then query_loop kvs options
              else if ToLower k \<in> {''namespace'', ''service'', ''srcservice''} \<or> HasPrefix k ''src_'' then index_panic
              else query_loop kvs options
      | v0 # _ \<Rightarrow>
          (if ToLower k = ''namespace'' then query_loop kvs (options\<lparr>po_Namespace := v0\<rparr>)
           else if ToLower k = ''service'' then query_loop kvs (options\<lparr>po_Service := v0\<rparr>)
           else if ToLower k = ''srcservice'' then query_loop kvs (options\<lparr>po_SrcService := v0\<rparr>)
           else if ToLower k = ''route'' then
             (case ParseBool v0 of
                Ret b \<Rightarrow> query_loop kvs (options\<lparr>po_Route := b\<rparr>)
              | Fail err \<Rightarrow> Fail (Errorf (''TargetToOptions:fail to parse route '' @ v0))
              | Panic m \<Rightarrow> Panic m)
           else if HasPrefix k ''src_'' then query_loop kvs (options\<lparr>po_SrcMetadata := (po_SrcMetadata options)(drop 4 k \<mapsto> v0)\<rparr>)
           else query_loop kvs options))"

text \<open>\<open>order\<close> are the values of the target's query by key, in the order in which the loop ranges over them.\<close>

definition targetToOptions :: "targetlib \<Rightarrow> (string \<times> string list) list \<Rightarrow> target_url \<Rightarrow> pdialOptions outcome" where
  "targetToOptions lib order u =
     (let options = (if u_Path u \<noteq> [] then
            no_pdialOptions\<lparr>po_Namespace := u_Host u,
              po_Service := (let s = (if u_Opaque u \<noteq> [] then u_Opaque u else u_Path u) in if HasPrefix s ''/'' then drop 1 s else s)\<rparr>
          else no_pdialOptions) in
      if 0 < length (u_RawQuery u) \<and> 0 < length order then
        (case map_of order ''options'' of
           Some (optionsStr # _) \<Rightarrow>
             (if 0 < length optionsStr then
                (case b64_Decode lib optionsStr of
                   Fail err \<Rightarrow> Fail (Errorf (''TargetToOptions:fail to decode endpoint '' @ u_Path u @ '', options '' @ optionsStr))
                 | Panic m \<Rightarrow> Panic m
                 | Ret value \<Rightarrow>
                     (case json_Decode lib value empty_DialOptions of
                        Fail err \<Rightarrow> Fail (Errorf (''TargetToOptions:fail to unmarshal options '' @ value))
                      | Panic m \<Rightarrow> Panic m
                      | Ret ro \<Rightarrow>
                          (case convertDialOptions ro options of
                             Fail err \<Rightarrow> Fail (Errorf ''TargetToOptions:fail to parse target'')
                           | r \<Rightarrow> r)))
              else Ret options)
         | _ \<Rightarrow> query_loop order (options\<lparr>po_SrcMetadata := Map.empty\<rparr>))
      else Ret options)"

section \<open>Contexts of calls\<close>

text \<open>
  The context of an outgoing call: its metadata, by lower-case keys, its deadline, and whatever else it carries; the
  background context has none.  Appending adds the values to those the keys have.
\<close>

record 'x outctx =
  out_md :: "(string \<Rightarrow> string list option) option"
  out_deadline :: "int option"
  out_values :: "'x option"

definition Background :: "'x outctx" where
  "Background = \<lparr>out_md = None, out_deadline = None, out_values = None\<rparr>"

definition md_Get :: "(string \<Rightarrow> string list option) \<Rightarrow> string \<Rightarrow> string list" where
  "md_Get md k = (case md (ToLower k) of Some vs \<Rightarrow> vs | None \<Rightarrow> [])"

definition AppendToOutgoingContext :: "(string \<times> string) list \<Rightarrow> 'x outctx \<Rightarrow> 'x outctx" where
  "AppendToOutgoingContext kvs ctx =
     ctx\<lparr>out_md := Some (fold (\<lambda>(k, v) md. md(ToLower k \<mapsto> md_Get md k @ [v])) kvs (case out_md ctx of Some md \<Rightarrow> md | None \<Rightarrow> Map.empty))\<rparr>"

definition polarisRequestLbHashKey :: string where "polarisRequestLbHashKey = ''polaris.balancer.request.hashKey''"
definition polarisRequestLbPolicy :: string where "polarisRequestLbPolicy = ''polaris.balancer.request.lbPolicy''"
definition polarisCallerServiceKey :: string where "polarisCallerServiceKey = ''polaris.request.caller.service''"
definition polarisCallerNamespaceKey :: string where "polarisCallerNamespaceKey = ''polaris.request.caller.namespace''"

definition WithLoadBalance :: "'x outctx \<Rightarrow> string \<Rightarrow> string list \<Rightarrow> 'x outctx" where
  "WithLoadBalance ctx policy hashKey =
     AppendToOutgoingContext
       ((polarisRequestLbPolicy, policy) #
        (case hashKey of k # _ \<Rightarrow> if k \<noteq> [] then [(polarisRequestLbHashKey, k)] else [] | [] \<Rightarrow> [])) ctx"

text \<open>The context that the invoker is called with; \<open>order\<close> are the headers in the order of the map.\<close>

definition injectCallerInfo :: "pdialOptions \<Rightarrow> (string \<times> string) list \<Rightarrow> 'x outctx \<Rightarrow> 'x outctx" where
  "injectCallerInfo options order ctx =
     (let ctx = (if (po_SrcService options \<noteq> [] \<or> order \<noteq> []) \<and> out_md ctx = None then Background\<lparr>out_md := Some Map.empty\<rparr> else ctx);
          ctx = (if po_SrcService options \<noteq> [] then
                   AppendToOutgoingContext [(polarisCallerServiceKey, po_SrcService options), (polarisCallerNamespaceKey, po_Namespace options)] ctx
                 else ctx)
      in fold (\<lambda>(k, v). AppendToOutgoingContext [(k, v)]) order ctx)"

section \<open>The SDK's contexts\<close>

text \<open>The global SDK context, made once.  \<open>init\<close> makes one of a configuration \<open>'c\<close>.\<close>

definition PolarisContext :: "'s option \<Rightarrow> 's outcome" where
  "PolarisContext g = (case g of Some c \<Rightarrow> Ret c | None \<Rightarrow> Fail (Errorf ''PolarisContext:polaris context not init''))"

definition SetPolarisContextOnceByConfig :: "('c \<Rightarrow> 's outcome) \<Rightarrow> 'c \<Rightarrow> 's option \<Rightarrow> 's option \<times> unit outcome" where
  "SetPolarisContextOnceByConfig init cfg g =
     (case g of
        Some c \<Rightarrow> (g, Ret ())
      | None \<Rightarrow> (case init cfg of Ret c \<Rightarrow> (Some c, Ret ()) | Fail err \<Rightarrow> (None, Fail err) | Panic m \<Rightarrow> (None, Panic m)))"

text \<open>\<open>load\<close> is the loading of the SDK configuration, from the configured file or from the section \<open>polaris\<close>.\<close>

record 'c polaris_conf =
  pc_name :: string
  pc_ttl :: int
  pc_global :: bool
  pc_load :: "'c outcome"

definition InitPolarisContext :: "('c \<Rightarrow> 's outcome) \<Rightarrow> 'c polaris_conf \<Rightarrow> 's option \<Rightarrow> 's option \<times> 's outcome" where
  "InitPolarisContext init cnf g =
     (case pc_load cnf of
        Fail err \<Rightarrow> (g, Fail err)
      | Panic m \<Rightarrow> (g, Panic m)
      | Ret pConfig \<Rightarrow>
          (if pc_global cnf then
             (case SetPolarisContextOnceByConfig init pConfig g of
                (g, Ret u) \<Rightarrow> (g, PolarisContext g)
              | (g, Fail err) \<Rightarrow> (g, Fail err)
              | (g, Panic m) \<Rightarrow> (g, Panic m))
           else (g, init pConfig)))"

section \<open>The driver\<close>

text \<open>A registry: the time to live and the SDK context; the requests it has made are in the state of the provider.\<close>

record 's PolarisRegistry =
  pr_TTL :: int
  pr_sdkctx :: 's

record 's Driver =
  refRegtries :: "string \<Rightarrow> 's PolarisRegistry option"
  refBuilders :: "string \<Rightarrow> 's option"

definition polaris_name :: "'c polaris_conf \<Rightarrow> string" where
  "polaris_name cfg = (if pc_name cfg = [] then ''polaris'' else pc_name cfg)"

definition Driver_GetRegistry :: "string \<Rightarrow> 's Driver \<Rightarrow> 's PolarisRegistry outcome" where
  "Driver_GetRegistry name drv =
     (case refRegtries drv name of
        Some r \<Rightarrow> Ret r | None \<Rightarrow> Fail (Errorf ''registry not found,may not set it a reference registry''))"

definition Registry_Apply :: "('c \<Rightarrow> 's outcome) \<Rightarrow> 'c polaris_conf \<Rightarrow> 's option \<Rightarrow> 's option \<times> 's PolarisRegistry outcome" where
  "Registry_Apply init cnf g =
     (case InitPolarisContext init cnf g of
        (g, Ret ctx) \<Rightarrow> (g, Ret \<lparr>pr_TTL = pc_ttl cnf, pr_sdkctx = ctx\<rparr>)
      | (g, Fail err) \<Rightarrow> (g, Panic ''InitPolarisContext'')
      | (g, Panic m) \<Rightarrow> (g, Panic m))"

definition CreateRegistry :: "('c \<Rightarrow> 's outcome) \<Rightarrow> 'c polaris_conf \<Rightarrow> 's Driver \<times> 's option \<Rightarrow> ('s Driver \<times> 's option) \<times> 's PolarisRegistry outcome" where
  "CreateRegistry init cfg = (\<lambda>(drv, g).
     case refRegtries drv (polaris_name cfg) of
       Some v \<Rightarrow> ((drv, g), Ret v)
     | None \<Rightarrow>
         (case Registry_Apply init cfg g of
            (g, Ret r) \<Rightarrow>
              ((if \<not> pc_global cfg then drv\<lparr>refRegtries := (refRegtries drv)(polaris_name cfg \<mapsto> r)\<rparr> else drv, g), Ret r)
          | (g, x) \<Rightarrow> ((drv, g), x)))"

definition ResolverBuilder :: "('c \<Rightarrow> 's outcome) \<Rightarrow> 'c polaris_conf \<Rightarrow> 's Driver \<times> 's option \<Rightarrow> ('s Driver \<times> 's option) \<times> 's outcome" where
  "ResolverBuilder init cfg = (\<lambda>(drv, g).
     case refBuilders drv (polaris_name cfg) of
       Some v \<Rightarrow> ((drv, g), Ret v)
     | None \<Rightarrow>
         (case InitPolarisContext init cfg g of
            (g, Ret ctx) \<Rightarrow>
              ((if \<not> pc_global cfg then drv\<lparr>refBuilders := (refBuilders drv)(polaris_name cfg \<mapsto> ctx)\<rparr> else drv, g), Ret ctx)
          | (g, x) \<Rightarrow> ((drv, g), x)))"

text \<open>The dial options: the interceptor that adds the caller with the converted options, and the configuration of the balancer.\<close>

datatype polaris_dial_option = InjectCaller pdialOptions | DefaultServiceConfig string

definition LoadBalanceConfig :: string where
  "LoadBalanceConfig = ''{ '' @ [CHR 0x22] @ ''loadBalancingConfig'' @ [CHR 0x22] @ '': [ { '' @ [CHR 0x22] @ ''polaris'' @ [CHR 0x22] @ '': {} } ]}''"

definition WithDialOptions :: "DialOptions \<Rightarrow> polaris_dial_option list outcome" where
  "WithDialOptions registryOpt =
     (case convertDialOptions registryOpt no_pdialOptions of
        Fail err \<Rightarrow> Fail (Errorf ''WithDialOptions:failed to convert dial options'')
      | Panic m \<Rightarrow> Panic m
      | Ret do \<Rightarrow> Ret [InjectCaller do, DefaultServiceConfig LoadBalanceConfig])"

text \<open>\<open>driver\<close> is what the scheme is registered with, if it is a Polaris driver.\<close>

definition getPolarisContextFromDriver :: "'s Driver option option \<Rightarrow> string \<Rightarrow> 's outcome" where
  "getPolarisContextFromDriver driver schemeName =
     (case driver of
        Some (Some drv) \<Rightarrow> go_bind (Driver_GetRegistry schemeName drv) (\<lambda>tr. Ret (pr_sdkctx tr))
      | _ \<Rightarrow> Fail (Errorf ''getRegistryContext: registry driver not found, scheme: polaris''))"

section \<open>Registration\<close>

record InstanceRegisterRequest =
  rq_Namespace :: string
  rq_Service :: string
  rq_Version :: string
  rq_Host :: string
  rq_Port :: int
  rq_TTL :: "int option"
  rq_Protocol :: "string option"
  rq_ServiceToken :: string
  rq_Metadata :: "string \<Rightarrow> string option"

record InstanceDeRegisterRequest =
  dq_Namespace :: string
  dq_Service :: string
  dq_Host :: string
  dq_Port :: int
  dq_ServiceToken :: string

definition get_or_empty :: "(string \<Rightarrow> string option) \<Rightarrow> string \<Rightarrow> string" where
  "get_or_empty m k = (case m k of Some v \<Rightarrow> v | None \<Rightarrow> [])"

text \<open>The time to live is in nanoseconds; the request has whole seconds.\<close>

definition register_request :: "int \<Rightarrow> ServiceInfo \<Rightarrow> InstanceRegisterRequest" where
  "register_request ttl info =
     \<lparr>rq_Namespace = si_Namespace info, rq_Service = si_Name info, rq_Version = si_Version info, rq_Host = si_Host info, rq_Port = si_Port info,
      rq_TTL = (if 0 < ttl then Some (ttl div 1000000000) else None),
      rq_Protocol = (if si_Protocol info \<noteq> [] then Some (si_Protocol info) else None),
      rq_ServiceToken = get_or_empty (si_Metadata info) registerServiceTokenKey,
      rq_Metadata = (si_Metadata info)(registerServiceTokenKey := None)\<rparr>"

definition deregister_request :: "ServiceInfo \<Rightarrow> InstanceDeRegisterRequest" where
  "deregister_request info =
     \<lparr>dq_Namespace = si_Namespace info, dq_Service = si_Name info, dq_Host = si_Host info, dq_Port = si_Port info,
      dq_ServiceToken = get_or_empty (si_Metadata info) registerServiceTokenKey\<rparr>"

text \<open>The provider of the SDK, with state \<open>'p\<close>; the requests made are remembered.\<close>

record 'p provider =
  RegisterInstance :: "InstanceRegisterRequest \<Rightarrow> 'p \<Rightarrow> 'p \<times> go_error option"
  Deregister :: "InstanceDeRegisterRequest \<Rightarrow> 'p \<Rightarrow> 'p \<times> go_error option"

definition Polaris_Register :: "'p provider \<Rightarrow> int \<Rightarrow> ServiceInfo \<Rightarrow> InstanceRegisterRequest list \<times> 'p \<Rightarrow> (InstanceRegisterRequest list \<times> 'p) \<times> go_error option" where
  "Polaris_Register api ttl info = (\<lambda>(reqs, p).
     let rq = register_request ttl info in
     case RegisterInstance api rq p of (p, err) \<Rightarrow> ((reqs @ [rq], p), err))"

definition Polaris_Unregister :: "'p provider \<Rightarrow> ServiceInfo \<Rightarrow> InstanceRegisterRequest list \<times> 'p \<Rightarrow> (InstanceRegisterRequest list \<times> 'p) \<times> go_error option" where
  "Polaris_Unregister api info = (\<lambda>(reqs, p). case Deregister api (deregister_request info) p of (p, err) \<Rightarrow> ((reqs, p), err))"

section \<open>Instances\<close>

record Instance =
  in_Namespace :: string
  in_Service :: string
  in_Host :: string
  in_Port :: int
  in_Version :: string
  in_Protocol :: string
  in_Metadata :: "string \<Rightarrow> string option"
  in_Weight :: int
  in_Healthy :: bool
  in_Isolated :: bool

definition split_service :: "string \<Rightarrow> string \<times> string" where
  "split_service service =
     (let parts = Split service ''/''; lp = length parts in
      if 1 < lp then (Join (take (lp - 1) parts) ''/'', parts ! (lp - 1)) else (DefaultNamespace, service))"

definition GetServiceInfos :: "(string \<Rightarrow> string \<Rightarrow> Instance list outcome) \<Rightarrow> string \<Rightarrow> ServiceInfo list outcome" where
  "GetServiceInfos GetInstances service =
     (let (namespace, service) = split_service service in
      go_bind (GetInstances namespace service) (\<lambda>instances.
        Ret (map (\<lambda>i. \<lparr>si_Name = in_Service i, si_Namespace = in_Namespace i, si_Version = in_Version i, si_Host = in_Host i,
                       si_Port = in_Port i, si_Protocol = in_Protocol i, si_Metadata = in_Metadata i\<rparr>)
               (filter (\<lambda>i. in_Healthy i \<and> \<not> in_Isolated i) instances))))"

definition getNamespace :: "pdialOptions \<Rightarrow> string" where
  "getNamespace options = (if po_Namespace options \<noteq> [] then po_Namespace options else DefaultNamespace)"

definition extractBareMethodName :: "string \<Rightarrow> string" where
  "extractBareMethodName fullMethodName =
     (if CHR ''/'' \<notin> set fullMethodName then [] else rev (takeWhile (\<lambda>c. c \<noteq> CHR ''/'') (rev fullMethodName)))"

end
