(* ===== verification/PolarisBalancer.thy ===== *)
theory PolarisBalancer
  imports Polaris
begin

text \<open>
  Model of the resolver, the balancer and the rate limit of \<open>contrib/polarismesh\<close>: \<open>resolver.go\<close>, \<open>balancer.go\<close>,
  \<open>balancer_config.go\<close> and \<open>ratelimit.go\<close>.
\<close>

section \<open>The resolver\<close>

text \<open>Instances of a service with the sum of their weights, and the cluster if the SDK has given it.\<close>

record 'cl InstancesResponse =
  ir_Instances :: "Instance list"
  ir_TotalWeight :: int
  ir_Cluster :: "'cl option"

definition instance_addr :: "Instance \<Rightarrow> string" where
  "instance_addr i = in_Host i @ '':'' @ Itoa (in_Port i)"

text \<open>The state that the connection gets: the options and the response as attributes, and the addresses.\<close>

record 'cl resolver_state =
  st_options :: "pdialOptions option"
  st_response :: "'cl InstancesResponse option"
  st_Addresses :: "string list"

datatype 'cl conn_call = ReportError go_error | UpdateState "'cl resolver_state"

definition usable_instances :: "'cl InstancesResponse \<Rightarrow> 'cl InstancesResponse" where
  "usable_instances resp =
     (let used = filter (\<lambda>i. in_Healthy i \<and> \<not> in_Isolated i) (ir_Instances resp) in
      resp\<lparr>ir_Instances := used, ir_TotalWeight := sum_list (map in_Weight used)\<rparr>)"

definition onInstancesUpdate :: "(string \<Rightarrow> string \<Rightarrow> bool \<Rightarrow> 'cl InstancesResponse outcome) \<Rightarrow> pdialOptions \<Rightarrow> bool \<Rightarrow> 'cl conn_call outcome" where
  "onInstancesUpdate GetInstances options skipRouteFilter =
     (case GetInstances (getNamespace options) (po_Service options) skipRouteFilter of
        Fail err \<Rightarrow> Ret (ReportError err)
      | Panic m \<Rightarrow> Panic m
      | Ret resp \<Rightarrow>
          (let resp = (if skipRouteFilter then usable_instances resp else resp) in
           Ret (UpdateState \<lparr>st_options = Some options, st_response = Some resp, st_Addresses = map instance_addr (ir_Instances resp)\<rparr>)))"

definition Resolver_Build :: "'s outcome \<Rightarrow> 's option \<Rightarrow> pdialOptions outcome \<Rightarrow> ('s \<times> pdialOptions) outcome" where
  "Resolver_Build gctx sdkCtx target =
     go_bind target (\<lambda>options.
       if po_Service options = [] then Fail (Errorf ''resolver need a target host or service name'')
       else go_bind (case sdkCtx of Some c \<Rightarrow> Ret c | None \<Rightarrow> gctx) (\<lambda>c. Ret (c, options)))"

text \<open>
  The goroutine \<open>Watch\<close>: the channel \<open>rn\<close> holds at most one request to resolve; each is served by an update and a new watcher.
  \<open>watcherResp\<close> is the last watcher, \<open>active\<close> are those that are not cancelled.  Watching may fail, and then the goroutine ends.
\<close>

record watch_state =
  w_rn :: bool
  w_done :: bool
  w_running :: bool
  w_resp :: "nat option"
  w_active :: "nat list"
  w_next :: nat

definition start_watch :: watch_state where
  "start_watch = \<lparr>w_rn = False, w_done = False, w_running = True, w_resp = None, w_active = [], w_next = 0\<rparr>"

definition ResolveNow :: "watch_state \<Rightarrow> watch_state" where
  "ResolveNow w = w\<lparr>w_rn := True\<rparr>"

definition Resolver_Close :: "watch_state \<Rightarrow> watch_state" where
  "Resolver_Close w = w\<lparr>w_active := (case w_resp w of Some a \<Rightarrow> remove1 a (w_active w) | None \<Rightarrow> w_active w), w_done := True\<rparr>"

inductive watch_step :: "watch_state \<Rightarrow> watch_state \<Rightarrow> bool" where
  cancelled: "w_running w \<Longrightarrow> w_done w \<Longrightarrow> watch_step w (w\<lparr>w_running := False\<rparr>)"
| watched: "w_running w \<Longrightarrow> w_rn w \<Longrightarrow>
     watch_step w (w\<lparr>w_rn := False, w_resp := Some (w_next w), w_active := w_active w @ [w_next w], w_next := Suc (w_next w)\<rparr>)"
| watch_fails: "w_running w \<Longrightarrow> w_rn w \<Longrightarrow> watch_step w (w\<lparr>w_rn := False, w_running := False\<rparr>)"
| resolve: "watch_step w (ResolveNow w)"
| close: "\<not> w_done w \<Longrightarrow> watch_step w (Resolver_Close w)"

section \<open>The balancer\<close>

record LBConfig =
  lb_HashKey :: string
  lb_LbPolicy :: string

record 'cl polarisBalancer =
  pb_options :: "pdialOptions option"
  pb_response :: "'cl InstancesResponse option"
  pb_lbCfg :: "LBConfig option"

definition new_polarisBalancer :: "'cl polarisBalancer" where
  "new_polarisBalancer = \<lparr>pb_options = None, pb_response = None, pb_lbCfg = None\<rparr>"

text \<open>
  \<open>attributes\<close> are the options and the response in the state, if it has attributes at all; a value that is absent does not have the
  asserted type.
\<close>

definition UpdateClientConnState ::
  "(pdialOptions option \<times> 'cl InstancesResponse option) option \<Rightarrow> LBConfig option \<Rightarrow> 'cl polarisBalancer \<Rightarrow> 'cl polarisBalancer outcome" where
  "UpdateClientConnState attributes config p =
     go_bind
       (case attributes of
          None \<Rightarrow> Ret p
        | Some (opts, resp) \<Rightarrow>
            go_bind (if pb_options p = None then
                       (case opts of None \<Rightarrow> Panic ''interface conversion'' | Some o' \<Rightarrow> Ret (p\<lparr>pb_options := Some o'\<rparr>))
                     else Ret p) (\<lambda>p.
            case resp of
              None \<Rightarrow> Panic ''interface conversion''
            | Some resp \<Rightarrow>
                (if ir_Cluster resp = None then
                   (case pb_response p of
                      None \<Rightarrow> Panic ''nil pointer dereference''
                    | Some old \<Rightarrow> Ret (p\<lparr>pb_response := Some (resp\<lparr>ir_Cluster := ir_Cluster old\<rparr>)\<rparr>))
                 else Ret (p\<lparr>pb_response := Some resp\<rparr>))))
       (\<lambda>p. Ret (case config of Some c \<Rightarrow> p\<lparr>pb_lbCfg := Some c\<rparr> | None \<Rightarrow> p))"

record ('sc, 'cl) polarisNamingPicker =
  pk_readySCs :: "string \<Rightarrow> 'sc option"
  pk_options :: "pdialOptions option"
  pk_lbCfg :: "LBConfig option"
  pk_response :: "'cl InstancesResponse"

datatype ('sc, 'cl) picker = ErrPicker | NamingPicker "('sc, 'cl) polarisNamingPicker"

text \<open>\<open>ready\<close> are the connections that are ready with their addresses, in the order of the map.\<close>

definition Picker_Build :: "'cl polarisBalancer \<Rightarrow> ('sc \<times> string) list \<Rightarrow> ('sc, 'cl) picker" where
  "Picker_Build pb ready =
     (if length ready = 0 then ErrPicker
      else
        (let scs = fold (\<lambda>(sc, addr) m. m(addr \<mapsto> sc)) ready Map.empty;
             copyR = (case pb_response pb of
                        None \<Rightarrow> \<lparr>ir_Instances = [], ir_TotalWeight = 0, ir_Cluster = None\<rparr>
                      | Some r \<Rightarrow>
                          (let readyInstances = filter (\<lambda>i. scs (instance_addr i) \<noteq> None) (ir_Instances r) in
                           r\<lparr>ir_Instances := readyInstances, ir_TotalWeight := sum_list (map in_Weight readyInstances)\<rparr>))
         in NamingPicker \<lparr>pk_readySCs = scs, pk_options = pb_options pb, pk_lbCfg = pb_lbCfg pb, pk_response = copyR\<rparr>))"

section \<open>Routing\<close>

text \<open>A routing has inbound and outbound rules, a rule has sources, a source has metadata by label.\<close>

record Routing =
  rt_Inbounds :: "(string \<Rightarrow> string option) list list"
  rt_Outbounds :: "(string \<Rightarrow> string option) list list"

definition collectRouteLabels :: "Routing \<Rightarrow> string set" where
  "collectRouteLabels routing =
     (\<Union>rs\<in>set (rt_Inbounds routing). \<Union>s\<in>set rs. dom s) \<union> (\<Union>rs\<in>set (rt_Outbounds routing). \<Union>s\<in>set rs. dom s)"

datatype argument = PathArgument string | LabelArgument string string

text \<open>
  The labels of the SDK are parameters: that of the path and the prefix of those of headers.  \<open>labels\<close> is the set collected, in the order
  in which the loop ranges over it.
\<close>

record route_labels =
  LabelKeyPath :: string
  LabelKeyHeader :: string

fun traffic_arguments :: "route_labels \<Rightarrow> (string \<Rightarrow> string list option) \<Rightarrow> string \<Rightarrow> string list \<Rightarrow> argument list" where
  "traffic_arguments lk header fullMethodName [] = []"
| "traffic_arguments lk header fullMethodName (label # labels) =
     (if label = LabelKeyPath lk then
        PathArgument (extractBareMethodName fullMethodName) # traffic_arguments lk header fullMethodName labels
      else if HasPrefix label (LabelKeyHeader lk) then
        (case md_Get header (drop (length (LabelKeyHeader lk)) label) of
           v # _ \<Rightarrow> LabelArgument label v # traffic_arguments lk header fullMethodName labels
         | [] \<Rightarrow> traffic_arguments lk header fullMethodName labels)
      else traffic_arguments lk header fullMethodName labels)"

definition ErrorPolarisServiceRouteRuleEmpty :: go_error where
  "ErrorPolarisServiceRouteRuleEmpty = Sentinel ''service route rule is empty''"

text \<open>\<open>rule\<close> is what the SDK knows of the service's routing; \<open>order\<close> lists the labels of a routing.\<close>

definition addTrafficLabels ::
  "route_labels \<Rightarrow> (Routing \<Rightarrow> string list) \<Rightarrow> (string \<Rightarrow> string \<Rightarrow> Routing option outcome) \<Rightarrow> pdialOptions \<Rightarrow> 'x outctx \<Rightarrow> string \<Rightarrow> argument list outcome" where
  "addTrafficLabels lk order rule options ctx fullMethodName =
     (case rule (getNamespace options) (po_Service options) of
        Fail err \<Rightarrow> Fail err
      | Panic m \<Rightarrow> Panic m
      | Ret None \<Rightarrow> Fail ErrorPolarisServiceRouteRuleEmpty
      | Ret (Some routing) \<Rightarrow>
          Ret (traffic_arguments lk (case out_md ctx of Some md \<Rightarrow> md | None \<Rightarrow> Map.empty) fullMethodName (order routing)))"

record 'cl LoadBalanceRequest =
  lr_DstInstances :: "'cl InstancesResponse"
  lr_LbPolicy :: string
  lr_HashKey :: "string option"

definition buildLoadBalanceRequest :: "LBConfig option \<Rightarrow> 'x outctx \<Rightarrow> 'cl InstancesResponse \<Rightarrow> 'cl LoadBalanceRequest" where
  "buildLoadBalanceRequest lbCfg ctx destIns =
     (let lbReq = \<lparr>lr_DstInstances = destIns, lr_LbPolicy = [], lr_HashKey = None\<rparr>;
          lbReq = (case lbCfg of
                     None \<Rightarrow> lbReq
                   | Some cfg \<Rightarrow>
                       (let lbReq = (if lb_LbPolicy cfg \<noteq> [] then lbReq\<lparr>lr_LbPolicy := lb_LbPolicy cfg\<rparr> else lbReq) in
                        if lb_HashKey cfg \<noteq> [] then lbReq\<lparr>lr_HashKey := Some (lb_HashKey cfg)\<rparr> else lbReq))
      in case out_md ctx of
           None \<Rightarrow> lbReq
         | Some md \<Rightarrow>
             (let lbReq = (case md_Get md polarisRequestLbPolicy of v # _ \<Rightarrow> lbReq\<lparr>lr_LbPolicy := v\<rparr> | [] \<Rightarrow> lbReq) in
              case md_Get md polarisRequestLbHashKey of v # _ \<Rightarrow> lbReq\<lparr>lr_HashKey := Some v\<rparr> | [] \<Rightarrow> lbReq))"

section \<open>Picking\<close>

text \<open>
  The router of the SDK: from the caller's service and the arguments the instances to use, and of a request the instance picked.  A result
  of \<open>Pick\<close> is the connection with what is reported when the call is done.
\<close>

record 'cl routerAPI =
  ProcessRouters :: "(string \<times> string \<times> (string \<Rightarrow> string option)) option \<Rightarrow> argument list \<Rightarrow> 'cl InstancesResponse \<Rightarrow> 'cl InstancesResponse outcome"
  ProcessLoadBalance :: "'cl LoadBalanceRequest \<Rightarrow> Instance outcome"

record resultReporter =
  rr_instance :: Instance
  rr_sourceService :: "(string \<times> string \<times> (string \<Rightarrow> string option)) option"
  rr_circuitBreaker :: bool

definition ErrNoSubConnAvailable :: go_error where "ErrNoSubConnAvailable = Sentinel ''no SubConn is available''"

definition source_service :: "pdialOptions \<Rightarrow> (string \<times> string \<times> (string \<Rightarrow> string option)) option" where
  "source_service options =
     (if po_SrcService options \<noteq> [] then Some (po_SrcService options, getNamespace options, po_SrcMetadata options) else None)"

text \<open>
  \<open>labels\<close> is \<open>addTrafficLabels\<close> for the call; its error is logged only, and then there are no arguments.
\<close>

definition routed_instances ::
  "'cl routerAPI \<Rightarrow> (pdialOptions \<Rightarrow> argument list outcome) \<Rightarrow> pdialOptions \<Rightarrow> 'cl InstancesResponse \<Rightarrow> 'cl InstancesResponse outcome" where
  "routed_instances api labels options response =
     (if po_Route options then
        go_bind (if po_SrcMetadata options = Map.empty then
                   (case labels options of Ret args \<Rightarrow> Ret args | Fail err \<Rightarrow> Ret [] | Panic m \<Rightarrow> Panic m)
                 else Ret [])
          (\<lambda>args. ProcessRouters api (source_service options) args response)
      else Ret response)"

definition Pick ::
  "'cl routerAPI \<Rightarrow> (pdialOptions \<Rightarrow> argument list outcome) \<Rightarrow> ('sc, 'cl) polarisNamingPicker \<Rightarrow> 'x outctx \<Rightarrow> ('sc \<times> resultReporter) outcome" where
  "Pick api labels pnp ctx =
     (case pk_options pnp of
        None \<Rightarrow> Panic ''nil pointer dereference''
      | Some options \<Rightarrow>
          go_bind
            (routed_instances api labels options (pk_response pnp)) (\<lambda>resp.
          go_bind (ProcessLoadBalance api (buildLoadBalanceRequest (pk_lbCfg pnp) ctx resp)) (\<lambda>target.
          case pk_readySCs pnp (instance_addr target) of
            Some subSc \<Rightarrow>
              Ret (subSc, \<lparr>rr_instance = target, rr_sourceService = source_service options, rr_circuitBreaker = po_CircuitBreaker options\<rparr>)
          | None \<Rightarrow> Fail ErrNoSubConnAvailable)))"

text \<open>What is reported of a call: nothing if it has received no bytes.\<close>

definition reportInfoAnalyzer :: "(go_error \<Rightarrow> nat) \<Rightarrow> go_error option \<Rightarrow> bool \<times> nat" where
  "reportInfoAnalyzer code err = (case err of Some e \<Rightarrow> (False, code e) | None \<Rightarrow> (True, 0))"

definition report ::
  "(go_error option \<Rightarrow> bool \<times> nat) \<Rightarrow> resultReporter \<Rightarrow> bool \<Rightarrow> go_error option \<Rightarrow> (Instance \<times> bool \<times> nat \<times> (string \<times> string \<times> (string \<Rightarrow> string option)) option) option" where
  "report analyzer r BytesReceived err =
     (if \<not> BytesReceived then None
      else case analyzer err of (retStatus, code) \<Rightarrow> Some (rr_instance r, retStatus, code, rr_sourceService r))"

section \<open>Rate limits\<close>

datatype MatchArgument = MatchCallerService | MatchHeader string | MatchCallerIP | MatchOther

datatype quota_argument = CallerServiceArgument string string | HeaderArgument string string | CallerIPArgument string

record QuotaRequest =
  qr_Namespace :: string
  qr_Service :: string
  qr_Method :: string
  qr_Arguments :: "quota_argument list"

text \<open>What the SDK knows of a service: no rules, rules with their arguments, or a value of another type.\<close>

datatype limit_rule = NoRule | RateLimit "MatchArgument list list" | OtherRule

definition fetchArguments :: "(string \<Rightarrow> string \<Rightarrow> limit_rule outcome) \<Rightarrow> string \<Rightarrow> string \<Rightarrow> MatchArgument list option" where
  "fetchArguments rules namespace service =
     (case rules namespace service of Ret (RateLimit rs) \<Rightarrow> Some (concat rs) | _ \<Rightarrow> None)"

definition quota_arguments :: "callctx \<Rightarrow> MatchArgument \<Rightarrow> quota_argument list" where
  "quota_arguments ctx item =
     (let header = (case cx_md ctx of Some md \<Rightarrow> md | None \<Rightarrow> Map.empty) in
      case item of
        MatchCallerService \<Rightarrow>
          (case (md_Get header polarisCallerServiceKey, md_Get header polarisCallerNamespaceKey) of
             (s # _, n # _) \<Rightarrow> [CallerServiceArgument n s] | _ \<Rightarrow> [])
      | MatchHeader key \<Rightarrow> (case md_Get header key of v # _ \<Rightarrow> [HeaderArgument key v] | [] \<Rightarrow> [])
      | MatchCallerIP \<Rightarrow>
          (case cx_peer ctx of
             Some address \<Rightarrow> (case Split address '':'' of [clientIP, _] \<Rightarrow> [CallerIPArgument clientIP] | _ \<Rightarrow> [])
           | None \<Rightarrow> [])
      | MatchOther \<Rightarrow> [])"

definition buildQuotaRequest :: "(string \<Rightarrow> string \<Rightarrow> limit_rule outcome) \<Rightarrow> string \<Rightarrow> callctx \<Rightarrow> string \<Rightarrow> QuotaRequest option" where
  "buildQuotaRequest rules namespace ctx fullMethodName =
     (case Split fullMethodName ''/'' of
        [_, service, method] \<Rightarrow>
          Some \<lparr>qr_Namespace = namespace, qr_Service = service, qr_Method = method,
                qr_Arguments = (case fetchArguments rules namespace service of
                                  None \<Rightarrow> [] | Some matchs \<Rightarrow> concat (map (quota_arguments ctx) matchs))\<rparr>
      | _ \<Rightarrow> None)"

text \<open>The answer of the quota: whether the call is limited, with the text of the status.\<close>

definition rate_limit_unary ::
  "statuslib \<Rightarrow> (string \<Rightarrow> string \<Rightarrow> limit_rule outcome) \<Rightarrow> (QuotaRequest \<Rightarrow> (bool \<times> string) outcome) \<Rightarrow> string \<Rightarrow> string \<Rightarrow>
   ('q, 'r, 'v, 'm, 'b) unary_handler \<Rightarrow> ('q, 'r, 'v, 'm, 'b) unary_handler" where
  "rate_limit_unary lib rules GetQuota namespace fullMethodName handler ctx req st =
     (case buildQuotaRequest rules namespace ctx fullMethodName of
        None \<Rightarrow> handler ctx req st
      | Some quotaReq \<Rightarrow>
          (case GetQuota quotaReq of
             Fail err \<Rightarrow> handler ctx req st
           | Panic m \<Rightarrow> (st, runtime_panic m)
           | Ret (limited, info) \<Rightarrow>
               if limited then (st, HRet None (Some (status_Errorf lib 8 info))) else handler ctx req st))"

end
