(* ===== verification/PolarisProps.thy ===== *)
theory PolarisProps
  imports PolarisBalancer
begin

text \<open>
  Properties of the Polaris binding: instances that are picked are ready, what calls carry to the balancer and to the
  rate limit, registration, and the contexts and watchers of the SDK.
\<close>

section \<open>Picking\<close>

lemma ready_map_dom: "fold (\<lambda>(sc, addr) m. m(addr \<mapsto> sc)) ready m0 a = Some sc \<Longrightarrow> (sc, a) \<in> set ready \<or> m0 a = Some sc"
proof (induction ready arbitrary: m0)
  case (Cons x ready)
  obtain s a' where x: "x = (s, a')" by fastforce
  from Cons.IH [of "m0(a' \<mapsto> s)"] Cons.prems show ?case by (auto simp: x split: if_splits)
qed simp

lemma Picker_Build_ready:
  assumes "Picker_Build pb ready = NamingPicker pk" "pk_readySCs pk a = Some sc"
  shows "(sc, a) \<in> set ready"
proof -
  have "pk_readySCs pk = fold (\<lambda>(sc, addr) m. m(addr \<mapsto> sc)) ready Map.empty"
    using assms(1) by (auto simp: Picker_Build_def Let_def split: if_splits)
  with assms(2) ready_map_dom [of ready Map.empty a sc] show ?thesis by auto
qed

lemma Picker_Build_instances:
  assumes "Picker_Build pb ready = NamingPicker pk" "i \<in> set (ir_Instances (pk_response pk))"
  shows "\<exists>sc. pk_readySCs pk (instance_addr i) = Some sc" "\<exists>r. pb_response pb = Some r \<and> i \<in> set (ir_Instances r)"
  using assms by (auto simp: Picker_Build_def Let_def split: if_splits option.splits)

text \<open>The total weight of a picker's instances is theirs.\<close>

lemma Picker_Build_weight:
  "Picker_Build pb ready = NamingPicker pk \<Longrightarrow> ir_TotalWeight (pk_response pk) = sum_list (map in_Weight (ir_Instances (pk_response pk)))"
  by (auto simp: Picker_Build_def Let_def split: if_splits option.splits)

text \<open>What the SDK documents: routing selects instances, and balancing picks one of those it is given.\<close>

definition router_laws :: "'cl routerAPI \<Rightarrow> bool" where
  "router_laws api \<longleftrightarrow>
     (\<forall>src args r r'. ProcessRouters api src args r = Ret r' \<longrightarrow> set (ir_Instances r') \<subseteq> set (ir_Instances r))
     \<and> (\<forall>rq i. ProcessLoadBalance api rq = Ret i \<longrightarrow> i \<in> set (ir_Instances (lr_DstInstances rq)))"

lemma buildLoadBalanceRequest_dst [simp]: "lr_DstInstances (buildLoadBalanceRequest cfg ctx r) = r"
  by (simp add: buildLoadBalanceRequest_def Let_def split: option.split list.split)

lemma picked_of:
  "router_laws api \<Longrightarrow> ProcessLoadBalance api (buildLoadBalanceRequest cfg ctx r) = Ret i \<Longrightarrow> i \<in> set (ir_Instances r)"
  by (fastforce simp: router_laws_def)

lemma routed_subset:
  "router_laws api \<Longrightarrow> routed_instances api labels options r = Ret r' \<Longrightarrow> set (ir_Instances r') \<subseteq> set (ir_Instances r)"
  unfolding router_laws_def routed_instances_def by (auto simp: go_bind_Ret_iff split: if_splits; blast)

text \<open>
  C31: A picker of the Polaris balancer picks only connections that are ready: the connection belongs to the address of the
  instance that is reported, the instance is one of the last response, and the picker never answers that there is no connection for the
  instance that the SDK has chosen.
\<close>

theorem pick_ready:
  assumes "router_laws api" "Picker_Build pb ready = NamingPicker pk"
  shows "case Pick api labels pk ctx of
      Ret (sc, rr) \<Rightarrow> (sc, instance_addr (rr_instance rr)) \<in> set ready
        \<and> (\<exists>r. pb_response pb = Some r \<and> rr_instance rr \<in> set (ir_Instances r))
    | Fail err \<Rightarrow> (\<exists>src args. ProcessRouters api src args (pk_response pk) = Fail err) \<or> (\<exists>rq. ProcessLoadBalance api rq = Fail err)
    | Panic m \<Rightarrow> True"
proof (cases "pk_options pk")
  case None
  then show ?thesis by (simp add: Pick_def)
next
  case (Some options)
  note o' = Some
  show ?thesis
  proof (cases "routed_instances api labels options (pk_response pk)")
    case (Ret resp)
    let ?lb = "ProcessLoadBalance api (buildLoadBalanceRequest (pk_lbCfg pk) ctx resp)"
    show ?thesis
    proof (cases ?lb)
      case (Ret i)
      have "i \<in> set (ir_Instances (pk_response pk))"
        using routed_subset [OF assms(1) \<open>routed_instances _ _ _ _ = Ret resp\<close>] picked_of [OF assms(1) Ret] by auto
      from Picker_Build_instances [OF assms(2) this] obtain sc r
        where sc: "pk_readySCs pk (instance_addr i) = Some sc" "pb_response pb = Some r" "i \<in> set (ir_Instances r)" by blast
      with Picker_Build_ready [OF assms(2)] show ?thesis
        by (auto simp: Pick_def o' \<open>routed_instances _ _ _ _ = Ret resp\<close> Ret)
    qed (auto simp: Pick_def o' Ret)
  next
    case (Fail err)
    then have "\<exists>src args. ProcessRouters api src args (pk_response pk) = Fail err"
      by (cases "labels options") (auto simp: routed_instances_def split: if_splits)
    then show ?thesis by (simp add: Pick_def o' Fail)
  qed (simp add: Pick_def o')
qed

definition demo_instance :: Instance where
  "demo_instance = \<lparr>in_Namespace = ''ns'', in_Service = ''svc'', in_Host = ''h'', in_Port = 1, in_Version = [], in_Protocol = [], in_Metadata = Map.empty,
     in_Weight = 100, in_Healthy = True, in_Isolated = False\<rparr>"

definition demo_router :: "unit routerAPI" where
  "demo_router = \<lparr>ProcessRouters = (\<lambda>src args r. Ret r),
     ProcessLoadBalance = (\<lambda>rq. case ir_Instances (lr_DstInstances rq) of i # _ \<Rightarrow> Ret i | [] \<Rightarrow> Fail (Errorf ''none''))\<rparr>"

definition demo_balancer :: "unit polarisBalancer" where
  "demo_balancer = \<lparr>pb_options = Some no_pdialOptions,
     pb_response = Some \<lparr>ir_Instances = [demo_instance], ir_TotalWeight = 100, ir_Cluster = None\<rparr>, pb_lbCfg = None\<rparr>"

lemma demo_router_laws: "router_laws demo_router"
  by (auto simp: router_laws_def demo_router_def split: list.splits)

theorem pick_ready_witness:
  "\<exists>pk rr. Picker_Build demo_balancer [(7 :: nat, ''h:1'')] = NamingPicker pk
     \<and> Pick demo_router (\<lambda>_. Ret []) pk (Background :: unit outctx) = Ret (7, rr) \<and> (7, instance_addr (rr_instance rr)) \<in> set [(7 :: nat, ''h:1'')]"
proof -
  have a: "instance_addr demo_instance = ''h:1''" by code_simp
  obtain pk where pk: "Picker_Build demo_balancer [(7 :: nat, ''h:1'')] = NamingPicker pk" by (simp add: Picker_Build_def Let_def)
  then have f: "pk_options pk = Some no_pdialOptions" "ir_Instances (pk_response pk) = [demo_instance]" "pk_readySCs pk ''h:1'' = Some 7"
    by (auto simp: Picker_Build_def Let_def demo_balancer_def a)
  then obtain rr where p: "Pick demo_router (\<lambda>_. Ret []) pk (Background :: unit outctx) = Ret (7, rr)"
    by (simp add: Pick_def routed_instances_def demo_router_def no_pdialOptions_def a)
  from pick_ready [OF demo_router_laws pk, of "\<lambda>_. Ret []" "Background :: unit outctx"] p pk show ?thesis by auto
qed

text \<open>What is reported does not depend on the option \<open>circuitBreaker\<close>.\<close>

lemma circuit_breaker_unused: "report an (r\<lparr>rr_circuitBreaker := b\<rparr>) received err = report an r received err"
  by (simp add: report_def split: prod.split)

section \<open>Updates\<close>

text \<open>The first update panics if the SDK has given no cluster.\<close>

lemma first_update_without_cluster_panics:
  "ir_Cluster resp = None \<Longrightarrow> UpdateClientConnState (Some (Some opts, Some resp)) cfg new_polarisBalancer = Panic ''nil pointer dereference''"
  by (simp add: UpdateClientConnState_def new_polarisBalancer_def)

text \<open>
  From the SDK to the picker: what the resolver reports has exactly the instances that are healthy and not isolated, and a picker built
  of it when all its addresses are ready has them all.
\<close>

lemma resolved_instances_are_picked:
  assumes "onInstancesUpdate GetInstances opts True = Ret (UpdateState rs)"
    "UpdateClientConnState (Some (st_options rs, st_response rs)) cfg pb = Ret pb'" "set (st_Addresses rs) \<subseteq> snd ` set ready" "ready \<noteq> []"
  shows "\<exists>resp pk. GetInstances (getNamespace opts) (po_Service opts) True = Ret resp \<and> Picker_Build pb' ready = NamingPicker pk
    \<and> ir_Instances (pk_response pk) = filter (\<lambda>i. in_Healthy i \<and> \<not> in_Isolated i) (ir_Instances resp)"
proof -
  have dom: "(\<exists>sc. fold (\<lambda>(sc, addr) m. m(addr \<mapsto> sc)) ready m0 a = Some sc)" if "a \<in> snd ` set ready \<or> m0 a \<noteq> None" for a and m0 :: "string \<Rightarrow> 'b option"
    using that by (induction ready arbitrary: m0) (auto split: if_splits)
  from assms(1) obtain resp where g: "GetInstances (getNamespace opts) (po_Service opts) True = Ret resp"
    and rs: "st_response rs = Some (usable_instances resp)" "st_Addresses rs = map instance_addr (ir_Instances (usable_instances resp))"
    by (auto simp: onInstancesUpdate_def Let_def split: outcome.splits)
  from assms(2) rs(1) obtain r where r: "pb_response pb' = Some r" "ir_Instances r = ir_Instances (usable_instances resp)"
    by (auto simp: UpdateClientConnState_def go_bind_Ret_iff split: option.splits if_splits)
  have all: "filter (\<lambda>i. fold (\<lambda>(sc, addr) m. m(addr \<mapsto> sc)) ready Map.empty (instance_addr i) \<noteq> None) (ir_Instances r) = ir_Instances r"
  proof (rule filter_True, rule ballI)
    fix i
    assume "i \<in> set (ir_Instances r)"
    then have "instance_addr i \<in> set (st_Addresses rs)" by (simp add: rs(2) r(2))
    with assms(3) have "instance_addr i \<in> snd ` set ready" by blast
    with dom [of "instance_addr i" Map.empty] show "fold (\<lambda>(sc, addr) m. m(addr \<mapsto> sc)) ready Map.empty (instance_addr i) \<noteq> None" by blast
  qed
  obtain pk where pk: "Picker_Build pb' ready = NamingPicker pk" using assms(4) by (simp add: Picker_Build_def Let_def)
  then have "ir_Instances (pk_response pk) =
      filter (\<lambda>i. fold (\<lambda>(sc, addr) m. m(addr \<mapsto> sc)) ready Map.empty (instance_addr i) \<noteq> None) (ir_Instances r)"
    using r(1) by (auto simp: Picker_Build_def Let_def split: if_splits)
  also note all
  also have "ir_Instances r = filter (\<lambda>i. in_Healthy i \<and> \<not> in_Isolated i) (ir_Instances resp)"
    by (simp add: r(2) usable_instances_def Let_def)
  finally show ?thesis using g pk by blast
qed

section \<open>Calls\<close>

lemma policy_key_differs: "ToLower polarisRequestLbPolicy \<noteq> ToLower polarisRequestLbHashKey"
  by code_simp

lemma hash_key_differs: "ToLower polarisRequestLbHashKey \<noteq> ToLower polarisRequestLbPolicy"
  by code_simp

text \<open>
  The policy and the key that a caller sets are those of the request, over those of the configuration; a policy set before wins over
  one that is set later.
\<close>

lemma load_balance_of_context:
  assumes "out_md ctx = None" "hk \<noteq> []"
  shows "lr_LbPolicy (buildLoadBalanceRequest cfg (WithLoadBalance ctx p [hk]) r) = p"
    "lr_HashKey (buildLoadBalanceRequest cfg (WithLoadBalance ctx p [hk]) r) = Some hk"
  using assms
  by (simp_all add: buildLoadBalanceRequest_def WithLoadBalance_def AppendToOutgoingContext_def md_Get_def policy_key_differs hash_key_differs Let_def)

lemma first_load_balance_wins:
  assumes "out_md ctx = None"
  shows "lr_LbPolicy (buildLoadBalanceRequest cfg (WithLoadBalance (WithLoadBalance ctx p []) q []) r) = p"
  using assms
  by (simp add: buildLoadBalanceRequest_def WithLoadBalance_def AppendToOutgoingContext_def md_Get_def policy_key_differs hash_key_differs Let_def
      split: list.split)

lemma append_deadline [simp]: "out_deadline (AppendToOutgoingContext kvs ctx) = out_deadline ctx"
  "out_values (AppendToOutgoingContext kvs ctx) = out_values ctx"
  by (simp_all add: AppendToOutgoingContext_def)

lemma append_all_deadline [simp]:
  "out_deadline (fold (\<lambda>(k, v). AppendToOutgoingContext [(k, v)]) order ctx) = out_deadline ctx"
  "out_values (fold (\<lambda>(k, v). AppendToOutgoingContext [(k, v)]) order ctx) = out_values ctx"
  by (induction order arbitrary: ctx) (auto split: prod.split)

text \<open>
  The interceptor that adds the caller keeps the context of a call only if that has outgoing metadata already, or if there is nothing
  to add.  Otherwise the call goes out with the background context: without the caller's deadline and values, and so
  without its cancellation.
\<close>

theorem caller_info_context:
  "out_deadline (injectCallerInfo options order ctx) =
     (if out_md ctx = None \<and> \<not> (po_SrcService options = [] \<and> order = []) then None else out_deadline ctx)
   \<and> out_values (injectCallerInfo options order ctx) =
     (if out_md ctx = None \<and> \<not> (po_SrcService options = [] \<and> order = []) then None else out_values ctx)"
  by (auto simp: injectCallerInfo_def Let_def Background_def)

text \<open>The caller's namespace is sent as it is configured, which may be empty, while everything else uses the default one then.\<close>

lemma caller_namespace_not_defaulted:
  "out_md ctx = None \<Longrightarrow> po_SrcService options = s \<Longrightarrow> s \<noteq> [] \<Longrightarrow> po_Namespace options = [] \<Longrightarrow>
     (case out_md (injectCallerInfo options [] ctx) of Some md \<Rightarrow> md_Get md polarisCallerNamespaceKey = [[]] | None \<Rightarrow> False)
   \<and> getNamespace options = DefaultNamespace"
proof -
  have "ToLower polarisCallerNamespaceKey \<noteq> ToLower polarisCallerServiceKey" by code_simp
  then show "out_md ctx = None \<Longrightarrow> po_SrcService options = s \<Longrightarrow> s \<noteq> [] \<Longrightarrow> po_Namespace options = [] \<Longrightarrow>
     (case out_md (injectCallerInfo options [] ctx) of Some md \<Rightarrow> md_Get md polarisCallerNamespaceKey = [[]] | None \<Rightarrow> False)
   \<and> getNamespace options = DefaultNamespace"
    by (simp add: injectCallerInfo_def AppendToOutgoingContext_def md_Get_def Background_def Let_def getNamespace_def)
qed

section \<open>Rate limits\<close>

text \<open>
  A call is refused exactly if its method has a service and a method part, and the quota of its request is used up; otherwise
  it goes to the handler, also when the quota fails.
\<close>

lemma rate_limit_decision:
  assumes "\<And>q m. GetQuota q \<noteq> Panic m"
  shows "rate_limit_unary lib rules GetQuota ns m handler ctx req st =
    (case buildQuotaRequest rules ns ctx m of
       Some q \<Rightarrow> (case GetQuota q of
                    Ret (True, info) \<Rightarrow> (st, HRet None (Some (status_Errorf lib 8 info)))
                  | _ \<Rightarrow> handler ctx req st)
     | None \<Rightarrow> handler ctx req st)"
  using assms by (auto simp: rate_limit_unary_def split: option.split outcome.split)

text \<open>The address of a caller over IPv6 has more than one colon, and its IP is not an argument.\<close>

lemma ipv6_caller_unlimited: "cx_peer ctx = Some ''[::1]:80'' \<Longrightarrow> quota_arguments ctx MatchCallerIP = []"
proof -
  have "length (Split ''[::1]:80'' '':'') \<noteq> 2" by code_simp
  then show "cx_peer ctx = Some ''[::1]:80'' \<Longrightarrow> quota_arguments ctx MatchCallerIP = []"
    by (auto simp: quota_arguments_def Let_def split: list.split)
qed

section \<open>Registration and contexts\<close>

text \<open>An instance is deregistered under what it was registered under, and the token is not in its metadata.\<close>

lemma deregister_matches_register:
  "dq_Namespace (deregister_request i) = rq_Namespace (register_request ttl i) \<and> dq_Service (deregister_request i) = rq_Service (register_request ttl i)
   \<and> dq_Host (deregister_request i) = rq_Host (register_request ttl i) \<and> dq_Port (deregister_request i) = rq_Port (register_request ttl i)
   \<and> dq_ServiceToken (deregister_request i) = rq_ServiceToken (register_request ttl i)
   \<and> rq_Metadata (register_request ttl i) registerServiceTokenKey = None"
  by (simp add: deregister_request_def register_request_def)

text \<open>A time to live below a second is sent as none.\<close>

lemma short_ttl_is_zero: "0 < ttl \<Longrightarrow> ttl < 1000000000 \<Longrightarrow> rq_TTL (register_request ttl i) = Some 0"
  by (simp add: register_request_def)

text \<open>The global context, once made, stays.\<close>

lemma global_context_once: "g = Some c \<Longrightarrow> fst (InitPolarisContext init cnf g) = Some c"
  by (auto simp: InitPolarisContext_def SetPolarisContextOnceByConfig_def split: outcome.split)

text \<open>A registry of a name is made once: a later configuration with that name gets it, whatever it says.\<close>

lemma create_registry_once:
  assumes "CreateRegistry init cfg (drv, g) = ((drv', g'), Ret r)" "\<not> pc_global cfg" "polaris_name cfg' = polaris_name cfg"
  shows "CreateRegistry init cfg' (drv', g') = ((drv', g'), Ret r)"
  using assms by (auto simp: CreateRegistry_def split: option.splits prod.splits outcome.splits)

text \<open>Every request to resolve starts a watcher, and closing cancels the last one only.\<close>

lemma watchers_leak:
  "\<exists>w. watch_step\<^sup>*\<^sup>* start_watch w \<and> \<not> w_running w \<and> w_done w \<and> w_active w = [0]"
proof -
  let ?w1 = "ResolveNow start_watch"
  let ?w2 = "?w1\<lparr>w_rn := False, w_resp := Some 0, w_active := [0], w_next := 1\<rparr>"
  let ?w3 = "ResolveNow ?w2"
  let ?w4 = "?w3\<lparr>w_rn := False, w_resp := Some 1, w_active := [0, 1], w_next := 2\<rparr>"
  let ?w5 = "Resolver_Close ?w4"
  have "watch_step start_watch ?w1" by (rule resolve)
  then have "watch_step\<^sup>*\<^sup>* start_watch ?w1" by (rule r_into_rtranclp)
  also have "watch_step ?w1 ?w2" using watched [of ?w1] by (simp add: start_watch_def ResolveNow_def)
  also have "watch_step ?w2 ?w3" by (rule resolve)
  also have "watch_step ?w3 ?w4" using watched [of ?w3] by (simp add: start_watch_def ResolveNow_def numeral_2_eq_2)
  also have "watch_step ?w4 ?w5" using close [of ?w4] by (simp add: start_watch_def ResolveNow_def)
  also have "watch_step ?w5 (?w5\<lparr>w_running := False\<rparr>)"
    using cancelled [of ?w5] by (simp add: start_watch_def ResolveNow_def Resolver_Close_def)
  finally have "watch_step\<^sup>*\<^sup>* start_watch (?w5\<lparr>w_running := False\<rparr>)" .
  then show ?thesis by (intro exI [of _ "?w5\<lparr>w_running := False\<rparr>"]) (simp add: Resolver_Close_def ResolveNow_def)
qed

section \<open>Targets\<close>

text \<open>Options that a gRPC client attaches to its target are read back and converted.\<close>

lemma polaris_target_options:
  assumes "b64_Decode lib e = Ret j" "json_Decode lib j empty_DialOptions = Ret opts" "e \<noteq> []" "u_RawQuery u \<noteq> []" "u_Path u = []"
    "convertDialOptions opts no_pdialOptions = Ret po"
  shows "targetToOptions lib [(''options'', [e])] u = Ret po"
  using assms by (simp add: targetToOptions_def Let_def)

text \<open>Options written out in the query have no circuit breaker.\<close>

lemma query_has_no_circuit_breaker: "query_loop kvs opts = Ret opts' \<Longrightarrow> po_CircuitBreaker opts' = po_CircuitBreaker opts"
  by (induction kvs opts rule: query_loop.induct) (auto split: list.splits if_splits outcome.splits)

end
