(* ===== verification/Gql.thy ===== *)
theory Gql
  imports AccessLog WebServer
begin

text \<open>
  Model of \<open>contrib/gql\<close>, GraphQL servers on the web server: \<open>graphql.go\<close>, \<open>checker.go\<close> and \<open>logger.go\<close>.  The gqlgen
  library is a parameter; of the gin context a record has what the code reads and writes.
\<close>

section \<open>Contexts and errors\<close>

text \<open>A GraphQL error: message, wrapped error, and the entries \<open>code\<close> and \<open>meta\<close> of its extensions.\<close>

record 'm gqlError =
  gq_Message :: string
  gq_Err :: "go_error option"
  gq_code :: "int option"
  gq_meta :: "'m hval option"

text \<open>An error as the presenter sees it: its text, itself, and the GraphQL and gin errors that \<open>errors.As\<close> finds in it.\<close>

record 'm perr =
  pe_text :: string
  pe_self :: go_error
  pe_gql :: "'m gqlError option"
  pe_gin :: "'m ginError option"

text \<open>The gin context; an error in its list may be a nil pointer.\<close>

record ('x, 'm) gqlgin =
  gg_stream :: bool
  gg_derivative :: "'x option"
  gg_Errors :: "'m perr option list"
  gg_status :: int
  gg_aborted :: bool
  gg_Method :: string
  gg_carrier :: "'m zfield list option"

definition ErrMissGinContext :: go_error where "ErrMissGinContext = Sentinel ''could not retrieve gin.Context''"

text \<open>The package variables: the public error and its message.\<close>

record gql_public =
  errPublic :: "string option"
  publicErrorMsg :: string

definition init_public :: gql_public where "init_public = \<lparr>errPublic = None, publicErrorMsg = []\<rparr>"

section \<open>The middleware\<close>

record GqlOptions =
  QueryPath :: string
  WebSocketPath :: string
  DocPath :: string
  Group :: string
  Endpoint :: string
  WithAuthorization :: bool
  AppCode :: string
  PublicErrorMsg :: string
  isSupportStream :: bool

definition defaultOptions :: GqlOptions where
  "defaultOptions = \<lparr>QueryPath = ''/query'', WebSocketPath = ''/query'', DocPath = ''/'', Group = [], Endpoint = [], WithAuthorization = False,
     AppCode = [], PublicErrorMsg = [], isSupportStream = False\<rparr>"

definition CheckStreamConnection :: "bool \<Rightarrow> string \<Rightarrow> bool" where
  "CheckStreamConnection websocket accept = (if websocket then True else Contains (ToLower accept) ''text/event-stream'')"

text \<open>The options that result, with the package variables; \<open>authorizer\<close> tells whether there is a default one.\<close>

definition Gql_ApplyFunc ::
  "(GqlOptions \<Rightarrow> GqlOptions outcome) \<Rightarrow> bool \<Rightarrow> (string \<Rightarrow> GqlOptions option) \<times> gql_public \<Rightarrow> (GqlOptions \<times> (string \<Rightarrow> GqlOptions option) \<times> gql_public) outcome" where
  "Gql_ApplyFunc unmarshal authorizer = (\<lambda>(optionCache, pub).
     case unmarshal defaultOptions of
       Fail err \<Rightarrow> Panic ''Unmarshal''
     | Panic m \<Rightarrow> Panic m
     | Ret opts \<Rightarrow>
         (if WithAuthorization opts \<and> \<not> authorizer then Panic ''security.DefaultAuthorizer is nil''
          else
            (let opts = (if Endpoint opts = [] then opts\<lparr>Endpoint := Group opts @ QueryPath opts\<rparr> else opts);
                 pub = pub\<lparr>publicErrorMsg := PublicErrorMsg opts\<rparr>;
                 pub = (if publicErrorMsg pub \<noteq> [] then pub\<lparr>errPublic := Some (publicErrorMsg pub)\<rparr> else pub)
             in Ret (opts, optionCache(Group opts \<mapsto> opts), pub))))"

definition gql_handler :: "GqlOptions \<Rightarrow> bool \<Rightarrow> string \<Rightarrow> (('x, 'm) gqlgin \<Rightarrow> ('x, 'm) gqlgin outcome) \<Rightarrow> ('x, 'm) gqlgin \<Rightarrow> ('x, 'm) gqlgin outcome" where
  "gql_handler opts websocket accept next c =
     next (if isSupportStream opts \<and> CheckStreamConnection websocket accept then c\<lparr>gg_stream := True\<rparr> else c)"

section \<open>Presenting errors\<close>

definition present ::
  "error_maps \<Rightarrow> (go_error \<Rightarrow> string) \<Rightarrow> gql_public \<Rightarrow> 'm perr \<Rightarrow> 'm gqlError" where
  "present maps etext pub e =
     (let g = (case pe_gql e of Some q \<Rightarrow> q | None \<Rightarrow> \<lparr>gq_Message = pe_text e, gq_Err = Some (pe_self e), gq_code = None, gq_meta = None\<rparr>) in
      case pe_gin e of
        Some ginErr \<Rightarrow>
          (let gcode = ge_Type ginErr;
               (code, errTxt) = LookupErrorCode maps etext gcode (ge_Err ginErr);
               (g, code) =
                 (if code > 0 then (g\<lparr>gq_Err := Some (Errorf errTxt), gq_Message := errTxt\<rparr>, code)
                  else (if ge_Type ginErr = ErrorTypePublic then g\<lparr>gq_Err := Some (ge_Err ginErr), gq_Message := etext (ge_Err ginErr)\<rparr>
                        else (case errPublic pub of
                                Some p \<Rightarrow> g\<lparr>gq_Err := Some (Errorf p), gq_Message := publicErrorMsg pub\<rparr>
                              | None \<Rightarrow> g), sint gcode));
               g = g\<lparr>gq_code := Some code\<rparr>
           in case ge_Meta ginErr of Some m \<Rightarrow> g\<lparr>gq_meta := Some m\<rparr> | None \<Rightarrow> g)
      | None \<Rightarrow>
          (let underlyingErr = (case gq_Err g of Some er \<Rightarrow> er | None \<Rightarrow> pe_self e);
               (code, errTxt) = LookupErrorCode maps etext 0 underlyingErr
           in if errTxt \<noteq> [] then g\<lparr>gq_Err := Some (Errorf errTxt), gq_Message := errTxt\<rparr>
              else (case errPublic pub of
                      Some p \<Rightarrow> g\<lparr>gq_Err := Some (Errorf p), gq_Message := publicErrorMsg pub\<rparr>
                    | None \<Rightarrow> g)))"

text \<open>The original text goes to the carrier of the access log.\<close>

definition ErrorPresenter ::
  "error_maps \<Rightarrow> (go_error \<Rightarrow> string) \<Rightarrow> gql_public \<Rightarrow> 'm perr option \<Rightarrow> ('x, 'm) gqlgin \<Rightarrow> (('x, 'm) gqlgin \<times> 'm gqlError) outcome" where
  "ErrorPresenter maps etext pub err c =
     (case err of
        None \<Rightarrow> Panic ''nil pointer dereference''
      | Some e \<Rightarrow>
          Ret (case gg_carrier c of Some fs \<Rightarrow> c\<lparr>gg_carrier := Some (fs @ [ZError ''error'' (Errorf (pe_text e))])\<rparr> | None \<Rightarrow> c,
               present maps etext pub e))"

fun present_all ::
  "error_maps \<Rightarrow> (go_error \<Rightarrow> string) \<Rightarrow> gql_public \<Rightarrow> 'm perr option list \<Rightarrow> ('x, 'm) gqlgin \<Rightarrow> (('x, 'm) gqlgin \<times> 'm gqlError list) outcome" where
  "present_all maps etext pub [] c = Ret (c, [])"
| "present_all maps etext pub (e # es) c =
     go_bind (ErrorPresenter maps etext pub e c) (\<lambda>(c, g). go_bind (present_all maps etext pub es c) (\<lambda>(c, gs). Ret (c, g # gs)))"

section \<open>Web handlers as GraphQL middlewares\<close>

text \<open>
  A web handler runs on the gin context with the GraphQL context as its derivative one; if there are errors on the context then, they
  are the response.  \<open>own\<close> is the gin context as a context.
\<close>

definition doWebHandler ::
  "error_maps \<Rightarrow> (go_error \<Rightarrow> string) \<Rightarrow> gql_public \<Rightarrow> (('x, 'm) gqlgin \<Rightarrow> 'x) \<Rightarrow> (('x, 'm) gqlgin \<Rightarrow> ('x, 'm) gqlgin outcome) \<Rightarrow> 'x \<Rightarrow> ('x, 'm) gqlgin \<Rightarrow>
   (('x, 'm) gqlgin \<times> 'x \<times> 'm gqlError list option) outcome" where
  "doWebHandler maps etext pub own handlerFunc ctx c =
     go_bind (handlerFunc (c\<lparr>gg_derivative := Some ctx\<rparr>)) (\<lambda>c.
       let ctx = (case gg_derivative c of Some x \<Rightarrow> x | None \<Rightarrow> own c) in
       if gg_Errors c \<noteq> [] then
         go_bind (present_all maps etext pub (gg_Errors c) c) (\<lambda>(c, errList).
           Ret (if gg_stream c then c\<lparr>gg_Errors := []\<rparr> else c, ctx, Some errList))
       else Ret (c, ctx, None))"

text \<open>What a middleware ends with: the next handler is called with a context, or there is a response.\<close>

datatype ('x, 'm) gql_next = CallNext 'x | Respond "'m gqlError list" | RespondOnce "'m gqlError list"

definition doOperationHandler ::
  "error_maps \<Rightarrow> (go_error \<Rightarrow> string) \<Rightarrow> gql_public \<Rightarrow> (('x, 'm) gqlgin \<Rightarrow> 'x) \<Rightarrow> (('x, 'm) gqlgin \<Rightarrow> ('x, 'm) gqlgin outcome) \<Rightarrow> 'x \<Rightarrow>
   ('x, 'm) gqlgin option \<Rightarrow> (('x, 'm) gqlgin option \<times> ('x, 'm) gql_next) outcome" where
  "doOperationHandler maps etext pub own handlerFunc ctx gin =
     (case gin of
        None \<Rightarrow> Ret (None, CallNext ctx)
      | Some c \<Rightarrow>
          go_bind (doWebHandler maps etext pub own handlerFunc ctx c) (\<lambda>(c, ctx, res).
            Ret (Some c, case res of
                           Some r \<Rightarrow> (if gg_stream c then RespondOnce r else Respond r)
                         | None \<Rightarrow> CallNext ctx)))"

definition doResponseHandler ::
  "error_maps \<Rightarrow> (go_error \<Rightarrow> string) \<Rightarrow> gql_public \<Rightarrow> (('x, 'm) gqlgin \<Rightarrow> 'x) \<Rightarrow> (('x, 'm) gqlgin \<Rightarrow> ('x, 'm) gqlgin outcome) \<Rightarrow> 'x \<Rightarrow>
   ('x, 'm) gqlgin option \<Rightarrow> (('x, 'm) gqlgin option \<times> ('x, 'm) gql_next) outcome" where
  "doResponseHandler maps etext pub own handlerFunc ctx gin =
     (case gin of
        None \<Rightarrow> Ret (None, CallNext ctx)
      | Some c \<Rightarrow>
          go_bind (doWebHandler maps etext pub own handlerFunc ctx c) (\<lambda>(c, ctx, res).
            Ret (Some c, case res of Some r \<Rightarrow> Respond r | None \<Rightarrow> CallNext ctx)))"

section \<open>Permissions\<close>

text \<open>The parts of the operation's selection set: fields by name, or fragments.\<close>

datatype selection = Field string | Fragment

definition field_error :: "string \<Rightarrow> string \<Rightarrow> 'm gqlError" where
  "field_error name text = \<lparr>gq_Message = ''action '' @ name @ '' is not allowed'' @ text, gq_Err = None, gq_code = None, gq_meta = None\<rparr>"

fun check_fields ::
  "('x, 'u) Authorizer option \<Rightarrow> 'x \<Rightarrow> string \<Rightarrow> string \<Rightarrow> (go_error \<Rightarrow> string) \<Rightarrow> selection list \<Rightarrow> 'm gqlError list outcome" where
  "check_fields d gctx app meth etext [] = Ret []"
| "check_fields d gctx app meth etext (Fragment # sels) = Panic ''interface conversion''"
| "check_fields d gctx app meth etext (Field n # sels) =
     (if n = ''__type'' \<or> n = ''__schema'' then check_fields d gctx app meth etext sels
      else
        (case IsAllowed d gctx ArnKindGql [app, meth, n] of
           Panic m \<Rightarrow> Panic m
         | Fail err \<Rightarrow>
             go_bind (check_fields d gctx app meth etext sels) (\<lambda>es. Ret (field_error n ('' due to err:'' @ etext err @ '' '') # es))
         | Ret allowed \<Rightarrow>
             go_bind (check_fields d gctx app meth etext sels) (\<lambda>es. Ret (if \<not> allowed then field_error n [] # es else es))))"

text \<open>Without a gin context the errors go to a nil context, which the check for streams dereferences.\<close>

definition envResponseError :: "('x, 'm) gqlgin option \<Rightarrow> 'm gqlError list \<Rightarrow> (('x, 'm) gqlgin option \<times> ('x, 'm) gql_next) outcome" where
  "envResponseError gin errList =
     (case gin of
        None \<Rightarrow> Panic ''nil pointer dereference''
      | Some c \<Rightarrow> if gg_stream c then Ret (Some (c\<lparr>gg_Errors := []\<rparr>), RespondOnce errList) else Ret (Some c, Respond errList))"

definition CheckPermissions ::
  "('x, 'u) Authorizer option \<Rightarrow> (('x, 'm) gqlgin \<Rightarrow> 'x) \<Rightarrow> GqlOptions \<Rightarrow> (go_error \<Rightarrow> string) \<Rightarrow> selection list \<Rightarrow> 'x \<Rightarrow> ('x, 'm) gqlgin option \<Rightarrow>
   (('x, 'm) gqlgin option \<times> ('x, 'm) gql_next) outcome" where
  "CheckPermissions d own opt etext sels ctx gin =
     (case gin of
        None \<Rightarrow> envResponseError None [\<lparr>gq_Message = etext ErrMissGinContext, gq_Err = None, gq_code = None, gq_meta = None\<rparr>]
      | Some c \<Rightarrow>
          go_bind (check_fields d (own c) (AppCode opt) (gg_Method c) etext sels) (\<lambda>errList.
            if 0 < length errList then envResponseError (Some (c\<lparr>gg_status := 403, gg_aborted := True\<rparr>)) errList
            else Ret (Some c, CallNext ctx)))"

section \<open>Recovery\<close>

text \<open>
  The function for panics: the error of the panic is recorded on the gin context, whose errors are then cleared with \<open>clear\<close>, which
  sets the elements of the list to nil and keeps its length.  \<open>panicked\<close> is the error that the recovery records.
\<close>

definition clear_errors :: "('x, 'm) gqlgin \<Rightarrow> ('x, 'm) gqlgin" where
  "clear_errors c = c\<lparr>gg_Errors := map (\<lambda>_. None) (gg_Errors c)\<rparr>"

definition gql_recover :: "('v \<Rightarrow> string) \<Rightarrow> 'v panicval \<Rightarrow> 'm perr \<Rightarrow> ('x, 'm) gqlgin option \<Rightarrow> ('x, 'm) gqlgin option \<times> go_error" where
  "gql_recover vtext p panicked gin =
     (case gin of
        None \<Rightarrow> (None, Errorf ''gql.SetRecoverFunc'')
      | Some c \<Rightarrow>
          (Some (clear_errors (c\<lparr>gg_Errors := gg_Errors c @ [Some panicked], gg_status := 500, gg_aborted := True\<rparr>)),
           (case p of PanicError e \<Rightarrow> e | PanicValue v \<Rightarrow> Errorf (vtext v))))"

section \<open>Registration\<close>

text \<open>
  The servers, of which some are nil, get the router groups that have the middleware, in order: the result lists the numbers of a server and
  of its group.  \<open>has\<close> tells which groups have it.
\<close>

fun find_group :: "(nat \<Rightarrow> bool) \<Rightarrow> nat \<Rightarrow> nat \<Rightarrow> nat option" where
  "find_group has j 0 = None"
| "find_group has j (Suc n) = (if has j then Some j else find_group has (Suc j) n)"

fun assign_groups :: "(nat \<Rightarrow> bool) \<Rightarrow> nat \<Rightarrow> nat \<Rightarrow> (nat \<times> bool) list \<Rightarrow> (nat \<times> nat) list" where
  "assign_groups has groups index [] = []"
| "assign_groups has groups index ((s, there) # servers) =
     (if \<not> there then assign_groups has groups index servers
      else (case find_group has index (groups - index) of
              Some j \<Rightarrow> (s, j) # assign_groups has groups (Suc j) servers
            | None \<Rightarrow> assign_groups has groups index servers))"

text \<open>The calls on a GraphQL server and on the router, in their order.\<close>

datatype 'h gql_call =
    AroundOperations 'h | AroundResponses 'h | AroundStreamLog | AroundPermissions | RoutePOST string | RouteGET string | UseIntrospection
  | RouteDoc string

text \<open>The response middlewares: the access log is the stream logger, the others are web middlewares.\<close>

fun apply_responses :: "string \<Rightarrow> (string \<times> 'c) list \<Rightarrow> ('c, 'h) HandlerManager \<Rightarrow> ('c, 'h) HandlerManager \<times> 'h gql_call list outcome" where
  "apply_responses path [] m = (m, Ret [])"
| "apply_responses path ((name, cfg) # mws) m =
     (if name = ''accessLog'' then (case apply_responses path mws m of (m, r) \<Rightarrow> (m, go_bind r (\<lambda>cs. Ret (AroundStreamLog # cs))))
      else (case apply_middlewares path [(name, cfg)] m of
              (m, Ret hs) \<Rightarrow> (case apply_responses path mws m of (m, r) \<Rightarrow> (m, go_bind r (\<lambda>cs. Ret (map AroundResponses hs @ cs))))
            | (m, Fail e) \<Rightarrow> (m, Fail e)
            | (m, Panic p) \<Rightarrow> (m, Panic p)))"

definition gql_routes :: "GqlOptions \<Rightarrow> 'h gql_call list" where
  "gql_routes opt =
     [RoutePOST (QueryPath opt)] @ (if WebSocketPath opt \<noteq> [] then [RouteGET (WebSocketPath opt)] else [])
     @ (if DocPath opt \<noteq> [] then [UseIntrospection, RouteDoc (DocPath opt)] else [])"

definition buildGraphqlServer ::
  "string \<Rightarrow> (string \<times> 'c) list \<Rightarrow> (string \<times> 'c) list \<Rightarrow> GqlOptions \<Rightarrow> ('c, 'h) HandlerManager \<Rightarrow> ('c, 'h) HandlerManager \<times> 'h gql_call list outcome" where
  "buildGraphqlServer base operations responses opt m =
     (case apply_middlewares base operations m of
        (m, Ret ops) \<Rightarrow>
          (case apply_responses base responses m of
             (m, r) \<Rightarrow>
               (m, go_bind r (\<lambda>resps.
                  Ret (map AroundOperations ops @ resps @ (if WithAuthorization opt then [AroundPermissions] else []) @ gql_routes opt))))
      | (m, Fail e) \<Rightarrow> (m, Fail e)
      | (m, Panic p) \<Rightarrow> (m, Panic p))"

section \<open>Streams\<close>

text \<open>A response that says that the transport is not supported, by status and body.\<close>

definition checkSupportedResponse :: "int \<times> string \<Rightarrow> bool" where
  "checkSupportedResponse w = (\<not> (fst w = 400 \<and> Contains (snd w) ''transport not supported''))"

definition SupportStream :: "int \<times> string \<Rightarrow> int \<times> string \<Rightarrow> bool" where
  "SupportStream websocket sse = (if checkSupportedResponse websocket then True else if checkSupportedResponse sse then True else False)"

text \<open>The log of a response in a stream; \<open>errs\<close> is the text of its errors, if it has any.\<close>

definition stream_log_field :: "(int \<Rightarrow> string) \<Rightarrow> string \<Rightarrow> string \<Rightarrow> int \<Rightarrow> string option \<Rightarrow> 'm \<Rightarrow> loggerTag \<Rightarrow> 'm zfield" where
  "stream_log_field dtext ip host latency errs data tag =
     (let k = FullKey tag in
      if k = ''remoteIp'' then ZString ''remoteIp'' ip
      else if k = ''latency'' then ZDuration ''latency'' latency
      else if k = ''latencyHuman'' then ZString ''latencyHuman'' (dtext latency)
      else if k = ''error'' then (case errs of Some t \<Rightarrow> ZString ''error'' t | None \<Rightarrow> ZSkip)
      else if k = ''host'' then ZString ''host'' host
      else if k = ''resp'' then ZAny ''resp'' data
      else ZSkip)"

definition stream_log ::
  "(int \<Rightarrow> string) \<Rightarrow> string \<Rightarrow> string \<Rightarrow> int \<Rightarrow> 'c LoggerConfig \<Rightarrow> 'm zfield list option \<Rightarrow> bool \<Rightarrow> (string option \<times> 'm) option \<Rightarrow> (zlevel \<times> 'm zfield list) option" where
  "stream_log dtext ip host latency cfg carrier stream resp =
     (if \<not> stream then None
      else case resp of
        None \<Rightarrow> None
      | Some (errs, data) \<Rightarrow>
          (let flds = map (stream_log_field dtext ip host latency errs data) (Tags cfg);
               flds = (case carrier of Some fs \<Rightarrow> if 0 < length fs then flds @ fs else flds | None \<Rightarrow> flds)
           in Some (if errs \<noteq> None then ErrorLevel else InfoLevel, flds)))"

end
