(* ===== verification/GqlProps.thy ===== *)
theory GqlProps
  imports Gql
begin

text \<open>
  Properties of the GraphQL servers: which operations pass the permission check, what the presenter shows of an error, what a panic leaves
  behind, and how servers and router groups are paired.
\<close>

section \<open>Permissions\<close>

text \<open>A selection that the check lets pass.\<close>

definition op_allowed :: "('x, 'u) Authorizer option \<Rightarrow> 'x \<Rightarrow> string \<Rightarrow> string \<Rightarrow> selection \<Rightarrow> bool" where
  "op_allowed d gctx app meth s =
     (case s of
        Fragment \<Rightarrow> False
      | Field n \<Rightarrow> n = ''__type'' \<or> n = ''__schema'' \<or> IsAllowed d gctx ArnKindGql [app, meth, n] = Ret True)"

lemma op_allowed_simps [simp]:
  "\<not> op_allowed d gctx app meth Fragment"
  "op_allowed d gctx app meth (Field n) = (n = ''__type'' \<or> n = ''__schema'' \<or> IsAllowed d gctx ArnKindGql [app, meth, n] = Ret True)"
  by (simp_all add: op_allowed_def)

text \<open>What the check does with one selection, and the check as the collection of it over all of them.\<close>

definition verdict :: "('x, 'u) Authorizer option \<Rightarrow> 'x \<Rightarrow> string \<Rightarrow> string \<Rightarrow> (go_error \<Rightarrow> string) \<Rightarrow> selection \<Rightarrow> 'm gqlError list outcome" where
  "verdict d gctx app meth etext s =
     (case s of
        Fragment \<Rightarrow> Panic ''interface conversion''
      | Field n \<Rightarrow>
          (if n = ''__type'' \<or> n = ''__schema'' then Ret []
           else (case IsAllowed d gctx ArnKindGql [app, meth, n] of
                   Panic m \<Rightarrow> Panic m
                 | Fail err \<Rightarrow> Ret [field_error n ('' due to err:'' @ etext err @ '' '')]
                 | Ret b \<Rightarrow> Ret (if b then [] else [field_error n []]))))"

fun collect :: "'a list outcome list \<Rightarrow> 'a list outcome" where
  "collect [] = Ret []"
| "collect (v # vs) = go_bind v (\<lambda>e. go_bind (collect vs) (\<lambda>es. Ret (e @ es)))"

lemma go_bind_Ret_id: "go_bind x (\<lambda>y. Ret y) = x"
  by (cases x) auto

lemma go_bind_Fail_iff: "go_bind x f = Fail e \<longleftrightarrow> x = Fail e \<or> (\<exists>a. x = Ret a \<and> f a = Fail e)"
  by (cases x) auto

lemma check_fields_collect: "check_fields d gctx app meth etext sels = collect (map (verdict d gctx app meth etext) sels)"
  by (induction d gctx app meth etext sels rule: check_fields.induct)
    (simp_all add: verdict_def go_bind_Ret_id split: outcome.split)

lemma collect_Nil: "collect vs = Ret [] \<longleftrightarrow> list_all (\<lambda>v. v = Ret []) vs"
  by (induction vs) (auto simp: go_bind_Ret_iff)

lemma collect_not_Fail: "list_all (\<lambda>v. \<forall>e. v \<noteq> Fail e) vs \<Longrightarrow> collect vs \<noteq> Fail e"
  by (induction vs) (auto simp: go_bind_Fail_iff)

lemma collect_Panic: "Panic m \<in> set vs \<Longrightarrow> list_all (\<lambda>v. \<forall>e. v \<noteq> Fail e) vs \<Longrightarrow> \<exists>m. collect vs = Panic m"
proof (induction vs)
  case (Cons v vs)
  then show ?case by (cases v) auto
qed simp

lemma verdict_not_Fail: "verdict d gctx app meth etext s \<noteq> Fail e"
  by (simp add: verdict_def split: selection.split outcome.split)

lemma verdict_Nil: "verdict d gctx app meth etext s = Ret [] \<longleftrightarrow> op_allowed d gctx app meth s"
  by (cases s) (auto simp: verdict_def split: outcome.split)

lemma check_fields_allowed: "check_fields d gctx app meth etext sels = Ret [] \<longleftrightarrow> list_all (op_allowed d gctx app meth) sels"
  by (simp add: check_fields_collect collect_Nil list.pred_map comp_def verdict_Nil)

lemma check_fields_not_Fail: "check_fields d gctx app meth etext sels \<noteq> Fail e"
  by (simp add: check_fields_collect collect_not_Fail list.pred_map comp_def verdict_not_Fail list.pred_True)

text \<open>A fragment at the top level stops the check by a failed type assertion, wherever it is.\<close>

lemma check_fields_fragment:
  assumes "Fragment \<in> set sels"
  shows "\<exists>m. check_fields d gctx app meth etext sels = Panic m"
proof -
  have "Panic ''interface conversion'' \<in> set (map (verdict d gctx app meth etext) sels)"
    using assms by (force simp: verdict_def)
  then show ?thesis
    unfolding check_fields_collect by (rule collect_Panic) (simp add: list.pred_map comp_def verdict_not_Fail list.pred_True)
qed

text \<open>What the answer to a denied operation says: the fields at the top level that the policy denies, in their order.\<close>

lemma check_fields_denied:
  assumes "\<And>n. n \<in> set ns \<Longrightarrow> \<exists>b. IsAllowed d gctx ArnKindGql [app, meth, n] = Ret b"
  shows "check_fields d gctx app meth etext (map Field ns) =
           Ret (map (\<lambda>n. field_error n []) (filter (\<lambda>n. \<not> op_allowed d gctx app meth (Field n)) ns))"
  using assms by (induction ns) (force simp: go_simps split: outcome.split)+

text \<open>
  C33: The permission check of GraphQL calls the next handler, with its own context and an unchanged gin context, exactly when every
  selection at the top level of the operation is a field that is introspection or that the policy allows for the application, the method and
  the field's name.  Otherwise it either responds with at least one error after aborting the request with status 403, through the stream when
  the connection is one, or it panics; it never fails silently.  Without a gin context it panics too.
\<close>

theorem gql_permissions:
  fixes c :: "('x, 'm) gqlgin"
  shows "(CheckPermissions d own opt etext sels ctx (Some c) = Ret (Some c, CallNext ctx)) =
           list_all (op_allowed d (own c) (AppCode opt) (gg_Method c)) sels
       \<and> (case CheckPermissions d own opt etext sels ctx (Some c) of
            Ret (Some c', CallNext x) \<Rightarrow> c' = c \<and> x = ctx
          | Ret (Some c', Respond es) \<Rightarrow> es \<noteq> [] \<and> gg_status c' = 403 \<and> gg_aborted c' \<and> \<not> gg_stream c
          | Ret (Some c', RespondOnce es) \<Rightarrow> es \<noteq> [] \<and> gg_status c' = 403 \<and> gg_aborted c' \<and> gg_stream c
          | Ret (None, r) \<Rightarrow> False
          | Fail e \<Rightarrow> False
          | Panic m \<Rightarrow> \<not> list_all (op_allowed d (own c) (AppCode opt) (gg_Method c)) sels)
       \<and> CheckPermissions d own opt etext sels ctx (None :: ('x, 'm) gqlgin option) = Panic ''nil pointer dereference''"
proof -
  let ?r = "check_fields d (own c) (AppCode opt) (gg_Method c) etext sels :: 'm gqlError list outcome"
  have all: "?r = Ret [] \<longleftrightarrow> list_all (op_allowed d (own c) (AppCode opt) (gg_Method c)) sels" by (rule check_fields_allowed)
  show ?thesis
  proof (cases ?r)
    case (Ret es)
    show ?thesis
    proof (cases es)
      case Nil
      with Ret all show ?thesis by (simp add: CheckPermissions_def envResponseError_def)
    next
      case (Cons e es')
      with Ret all show ?thesis by (simp add: CheckPermissions_def envResponseError_def)
    qed
  next
    case (Fail e)
    then show ?thesis by (simp add: check_fields_not_Fail)
  next
    case (Panic m)
    with all show ?thesis by (simp add: CheckPermissions_def envResponseError_def)
  qed
qed

section \<open>Masking\<close>

text \<open>An error that no error map knows and that is not public.\<close>

definition masked_error :: "error_maps \<Rightarrow> (go_error \<Rightarrow> string) \<Rightarrow> 'm perr \<Rightarrow> bool" where
  "masked_error maps etext e =
     (case pe_gin e of
        Some ge \<Rightarrow> ge_Type ge \<noteq> ErrorTypePublic \<and> fst (LookupErrorCode maps etext (ge_Type ge) (ge_Err ge)) \<le> 0
      | None \<Rightarrow> snd (LookupErrorCode maps etext 0 (case pe_gql e of Some q \<Rightarrow> (case gq_Err q of Some er \<Rightarrow> er | None \<Rightarrow> pe_self e) | None \<Rightarrow> pe_self e)) = [])"

text \<open>With a public error, nothing of such an error's own text is presented.\<close>

lemma presented_masked:
  assumes "masked_error maps etext e" and "errPublic pub = Some p"
  shows "gq_Message (present maps etext pub e) = publicErrorMsg pub" and "gq_Err (present maps etext pub e) = Some (Errorf p)"
  using assms by (auto simp: masked_error_def present_def Let_def split: option.split prod.split)

text \<open>Without one, a plain error is presented by its own text.\<close>

lemma presented_plain:
  assumes "masked_error maps etext e" and "errPublic pub = None" and "pe_gql e = None"
  shows "gq_Message (present maps etext pub e) = pe_text e"
  using assms by (auto simp: masked_error_def present_def Let_def split: option.split prod.split)

text \<open>A mapped error is presented by the text of the map.\<close>

lemma presented_mapped:
  assumes "pe_gin e = Some ge" and "LookupErrorCode maps etext (ge_Type ge) (ge_Err ge) = (code, txt)" and "0 < code"
  shows "gq_Message (present maps etext pub e) = txt" and "gq_code (present maps etext pub e) = Some code"
  using assms by (auto simp: present_def Let_def split: option.split prod.split)

text \<open>
  The masking error survives a later middleware that has no public message, while the message does not: an error that is masked then has an
  empty message.
\<close>

lemma stale_public_error:
  assumes a: "Gql_ApplyFunc u1 au (cache, pub) = Ret (o1, cache1, pub1)" and m: "PublicErrorMsg o1 \<noteq> []"
    and b: "Gql_ApplyFunc u2 au (cache1, pub1) = Ret (o2, cache2, pub2)" and n: "PublicErrorMsg o2 = []"
    and e: "masked_error maps etext e"
  shows "gq_Message (present maps etext pub2 e) = []"
proof -
  have "errPublic pub1 = Some (PublicErrorMsg o1)"
    using a m by (auto simp: Gql_ApplyFunc_def Let_def split: outcome.splits if_splits)
  then have "errPublic pub2 = Some (PublicErrorMsg o1)" and "publicErrorMsg pub2 = []"
    using b n by (auto simp: Gql_ApplyFunc_def Let_def split: outcome.splits if_splits)
  then show ?thesis using presented_masked(1) [OF e] by simp
qed

section \<open>After a panic\<close>

lemma present_all_nil: "present_all maps etext pub (None # es) c = Panic ''nil pointer dereference''"
  by (simp add: ErrorPresenter_def)

text \<open>
  The recovery sets the errors of the gin context to nil pointers and keeps their number, so that the next web handler that runs on the
  context, as for the next operation of the same stream, dereferences one.
\<close>

lemma recovered_errors_panic:
  assumes "gql_recover vtext p panicked (Some c) = (Some c', e)"
  shows "doWebHandler maps etext pub own (\<lambda>c. Ret c) ctx c' = Panic ''nil pointer dereference''"
proof -
  have "gg_Errors c' = map (\<lambda>_. None) (gg_Errors c) @ [None]"
    using assms by (auto simp: gql_recover_def clear_errors_def)
  then obtain es where "gg_Errors c' = None # es" by (cases "gg_Errors c") auto
  then show ?thesis by (simp add: doWebHandler_def present_all_nil del: present_all.simps)
qed

text \<open>A web handler that records no error on a clean context lets the operation through with the context it derived.\<close>

lemma web_handler_passes:
  assumes "handlerFunc (c\<lparr>gg_derivative := Some ctx\<rparr>) = Ret c'" and "gg_Errors c' = []" and "gg_derivative c' = Some x"
  shows "doOperationHandler maps etext pub own handlerFunc ctx (Some c) = Ret (Some c', CallNext x)"
  using assms by (simp add: doOperationHandler_def doWebHandler_def)

text \<open>One that records an error stops it: the next handler is not called.\<close>

lemma web_handler_stops:
  assumes "handlerFunc (c\<lparr>gg_derivative := Some ctx\<rparr>) = Ret c'" and "gg_Errors c' \<noteq> []"
  shows "doOperationHandler maps etext pub own handlerFunc ctx (Some c) \<noteq> Ret (g, CallNext x)"
  using assms
  by (cases "present_all maps etext pub (gg_Errors c') c'") (auto simp: doOperationHandler_def doWebHandler_def split: prod.split)

section \<open>Pairing of servers and groups\<close>

lemma find_group_filter:
  "find_group has j n = (case filter has [j..<j + n] of [] \<Rightarrow> None | i # _ \<Rightarrow> Some i)"
  by (induction has j n rule: find_group.induct) (auto simp: upt_conv_Cons simp del: upt_Suc)

lemma find_group_rest:
  assumes "find_group has j n = Some i"
  shows "i < j + n \<and> filter has [j..<j + n] = i # filter has [Suc i..<j + n]"
  using assms by (induction has j n rule: find_group.induct) (auto simp: upt_conv_Cons simp del: upt_Suc split: if_splits)

lemma find_group_none: "find_group has j n = None \<longleftrightarrow> filter has [j..<j + n] = []"
  by (simp add: find_group_filter split: list.split)

text \<open>
  The servers that are not nil get the groups that have the middleware, one each, in the order of both; the servers that are left over are
  not registered, and nothing is said of it.
\<close>

theorem assign_groups_zip:
  "index \<le> groups \<Longrightarrow> assign_groups has groups index servers = zip (map fst (filter snd servers)) (filter has [index..<groups])"
proof (induction has groups index servers rule: assign_groups.induct)
  case (1 has groups index)
  then show ?case by simp
next
  case (2 has groups index s there servers)
  show ?case
  proof (cases "there \<and> find_group has index (groups - index) \<noteq> None")
    case True
    then obtain j where j: "find_group has index (groups - index) = Some j" by auto
    from find_group_rest [OF j] 2(4) have "j < groups" "filter has [index..<groups] = j # filter has [Suc j..<groups]" by simp_all
    with True j 2 show ?thesis by simp
  next
    case False
    with 2 find_group_none [of has index "groups - index"] show ?thesis by (auto split: option.split)
  qed
qed

end
