(* ===== verification/WebGzip.thy ===== *)
theory WebGzip
  imports GoStrings GoPath
begin

text \<open>
  Model of \<open>web/handler/gzip\<close>: which requests are compressed, the response writer that compresses and is reused through a pool, and what
  the client reads.  The compressor is a parameter; of the server's response writer the model has its headers, the headers that were sent
  and the body.
\<close>

section \<open>Configuration\<close>

definition defaultExcludedExtensions :: "string list" where
  "defaultExcludedExtensions = [''.png'', ''gif'', ''jpg'', ''jpeg'']"

record GzipConfig =
  MinSize :: int
  Level :: int
  ExcludedExtensions :: "string list"
  excludedExtensionsMap :: "string \<rightharpoonup> bool"

text \<open>The levels of the compressor are a pair.\<close>

definition validate_gzip :: "int \<times> int \<Rightarrow> GzipConfig \<Rightarrow> go_error option" where
  "validate_gzip levels c =
     (if Level c < fst levels \<or> Level c > snd levels then Some (Errorf ''invalid compression level requested'')
      else if MinSize c < 0 then Some (Errorf ''minimum size must be more than zero'')
      else None)"

fun convertToMap :: "string list \<Rightarrow> (string \<rightharpoonup> bool) \<Rightarrow> (string \<rightharpoonup> bool)" where
  "convertToMap [] m = m"
| "convertToMap (s # exts) m = convertToMap exts (m(s \<mapsto> True))"

definition Gzip_ApplyFunc :: "int \<times> int \<Rightarrow> (GzipConfig \<Rightarrow> GzipConfig outcome) \<Rightarrow> GzipConfig outcome" where
  "Gzip_ApplyFunc levels unmarshal =
     (let opt = \<lparr>MinSize = 1024, Level = -1, ExcludedExtensions = defaultExcludedExtensions, excludedExtensionsMap = Map.empty\<rparr> in
      case unmarshal opt of
        Panic m \<Rightarrow> Panic m
      | Fail err \<Rightarrow> Panic ''Unmarshal''
      | Ret opt \<Rightarrow>
          (case validate_gzip levels opt of
             Some err \<Rightarrow> Panic ''validate''
           | None \<Rightarrow> Ret (opt\<lparr>excludedExtensionsMap := convertToMap (ExcludedExtensions opt) Map.empty\<rparr>)))"

record gz_request =
  rq_Method :: string
  rq_AcceptEncoding :: string
  rq_Path :: string

definition shouldCompress :: "gz_request \<Rightarrow> GzipConfig \<Rightarrow> bool" where
  "shouldCompress req opt =
     (if rq_Method req = ''HEAD'' \<or> \<not> Contains (rq_AcceptEncoding req) ''gzip'' then False
      else if excludedExtensionsMap opt (filepath_Ext (rq_Path req)) \<noteq> None then False
      else True)"

section \<open>The response writer\<close>

text \<open>The compressor: a new one of a level, a write and the close, each with what it writes to the writer below.\<close>

record 'z ziplib =
  z_New :: "int \<Rightarrow> 'z"
  z_Write :: "string \<Rightarrow> 'z \<Rightarrow> 'z \<times> string list"
  z_Close :: "'z \<Rightarrow> string list"

record httpw =
  hw_Header :: "string \<rightharpoonup> string"
  hw_sent :: "(string \<rightharpoonup> string) option"
  hw_body :: string

text \<open>The first write sends the headers as they are then.\<close>

definition hw_write :: "string \<Rightarrow> httpw \<Rightarrow> httpw" where
  "hw_write d w = w\<lparr>hw_sent := Some (case hw_sent w of Some h \<Rightarrow> h | None \<Rightarrow> hw_Header w), hw_body := hw_body w @ d\<rparr>"

record 'z gzWriter =
  gz_ResponseWriter :: httpw
  gzipWriter :: "'z option"
  gz_minSize :: int
  useZip :: bool

definition gz_Write :: "'z ziplib \<Rightarrow> string \<Rightarrow> 'z gzWriter \<Rightarrow> 'z gzWriter outcome" where
  "gz_Write lib data r =
     (let r = r\<lparr>useZip := int (length data) \<ge> gz_minSize r\<rparr> in
      if \<not> useZip r then Ret (r\<lparr>gz_ResponseWriter := hw_write data (gz_ResponseWriter r)\<rparr>)
      else
        (let w = gz_ResponseWriter r;
             w = w\<lparr>hw_Header := (hw_Header w)(''Content-Length'' := None, ''Content-Encoding'' \<mapsto> ''gzip'')\<rparr>
         in case gzipWriter r of
              None \<Rightarrow> Panic ''invalid memory address or nil pointer dereference''
            | Some z \<Rightarrow>
                (case z_Write lib data z of
                   (z, chunks) \<Rightarrow> Ret (r\<lparr>gz_ResponseWriter := fold hw_write chunks w, gzipWriter := Some z\<rparr>))))"

definition gz_Close :: "'z ziplib \<Rightarrow> 'z gzWriter \<Rightarrow> 'z gzWriter outcome" where
  "gz_Close lib r =
     (if useZip r then
        (case gzipWriter r of
           None \<Rightarrow> Panic ''invalid memory address or nil pointer dereference''
         | Some z \<Rightarrow> Ret (r\<lparr>gz_ResponseWriter := fold hw_write (z_Close lib z) (gz_ResponseWriter r), gzipWriter := None\<rparr>))
      else Ret (r\<lparr>gzipWriter := None\<rparr>))"

fun gz_writes :: "'z ziplib \<Rightarrow> string list \<Rightarrow> 'z gzWriter \<Rightarrow> 'z gzWriter outcome" where
  "gz_writes lib [] r = Ret r"
| "gz_writes lib (d # ds) r = go_bind (gz_Write lib d r) (gz_writes lib ds)"

text \<open>The length of a body that was written, set on the headers at the end.\<close>

definition set_length :: "httpw \<Rightarrow> httpw" where
  "set_length w =
     (if 0 < length (hw_body w) then w\<lparr>hw_Header := (hw_Header w)(''Content-Length'' \<mapsto> Itoa (int (length (hw_body w))))\<rparr> else w)"

lemma set_length_sel [simp]: "hw_body (set_length w) = hw_body w" "hw_sent (set_length w) = hw_sent w"
  by (simp_all add: set_length_def)

text \<open>
  The middleware for one request: \<open>gw\<close> is the writer that the pool gives, \<open>ds\<close> are the writes of the handlers that follow.  Afterwards the
  writer goes back to the pool while the context still has it.
\<close>

definition gz_handler :: "'z ziplib \<Rightarrow> GzipConfig \<Rightarrow> gz_request \<Rightarrow> 'z gzWriter \<Rightarrow> string list \<Rightarrow> httpw \<Rightarrow> ('z gzWriter \<times> httpw) outcome" where
  "gz_handler lib opt req gw ds w =
     (if \<not> shouldCompress req opt then Ret (gw, fold hw_write ds w)
      else
        (let gw = gw\<lparr>gz_ResponseWriter := w, gzipWriter := Some (z_New lib (Level opt)), gz_minSize := MinSize opt\<rparr>;
             gw = gw\<lparr>gz_ResponseWriter := w\<lparr>hw_Header := (hw_Header w)(''Vary'' \<mapsto> ''Accept-Encoding'')\<rparr>\<rparr>
         in go_bind (gz_writes lib ds gw) (\<lambda>gw. go_bind (gz_Close lib gw) (\<lambda>gw.
              let w = set_length (gz_ResponseWriter gw) in Ret (gw\<lparr>gz_ResponseWriter := w\<rparr>, w)))))"

text \<open>What a client reads: it decompresses a body that is announced as compressed.\<close>

definition client_reads :: "(string \<Rightarrow> string option) \<Rightarrow> httpw \<Rightarrow> string option" where
  "client_reads gunzip w =
     (case hw_sent w of
        None \<Rightarrow> Some []
      | Some h \<Rightarrow> if h ''Content-Encoding'' = Some ''gzip'' then gunzip (hw_body w) else Some (hw_body w))"

section \<open>Laws of the compressor\<close>

fun z_run :: "'z ziplib \<Rightarrow> string list \<Rightarrow> 'z \<Rightarrow> 'z \<times> string list" where
  "z_run lib [] z = (z, [])"
| "z_run lib (d # ds) z = (case z_Write lib d z of (z, cs) \<Rightarrow> (case z_run lib ds z of (z, cs') \<Rightarrow> (z, cs @ cs')))"

text \<open>
  What was written and then closed decompresses to what was written; the close writes the end of the stream.
\<close>

definition zip_laws :: "'z ziplib \<Rightarrow> (string \<Rightarrow> string option) \<Rightarrow> bool" where
  "zip_laws lib gunzip \<longleftrightarrow>
     (\<forall>level ds. case z_run lib ds (z_New lib level) of (z, cs) \<Rightarrow> gunzip (concat cs @ concat (z_Close lib z)) = Some (concat ds) \<and> concat (z_Close lib z) \<noteq> [])"

section \<open>Which requests are compressed\<close>

lemma filepath_Ext_dot: "filepath_Ext p = [] \<or> hd (filepath_Ext p) = CHR ''.''"
  by (auto simp: filepath_Ext_def Let_def split: list.split)

lemma convertToMap_apply: "convertToMap exts m s = (if s \<in> set exts then Some True else m s)"
  by (induction exts arbitrary: m) simp_all

lemma apply_excludes:
  assumes "Gzip_ApplyFunc levels unmarshal = Ret opt"
  shows "excludedExtensionsMap opt e \<noteq> None \<longleftrightarrow> e \<in> set (ExcludedExtensions opt)" and "0 \<le> MinSize opt"
proof -
  from assms obtain o1 where o: "opt = o1\<lparr>excludedExtensionsMap := convertToMap (ExcludedExtensions o1) Map.empty\<rparr>"
    and v: "validate_gzip levels o1 = None"
    by (auto simp: Gzip_ApplyFunc_def Let_def split: outcome.splits option.splits)
  show "excludedExtensionsMap opt e \<noteq> None \<longleftrightarrow> e \<in> set (ExcludedExtensions opt)"
    by (auto simp: o convertToMap_apply)
  show "0 \<le> MinSize opt" using v by (simp add: o validate_gzip_def split: if_splits)
qed

text \<open>
  Of the excluded extensions of the default only the one with a dot has an effect: pictures of the other kinds are compressed.
\<close>

lemma default_exclusions:
  assumes "Gzip_ApplyFunc levels unmarshal = Ret opt" and "ExcludedExtensions opt = defaultExcludedExtensions"
    and "rq_Method req \<noteq> ''HEAD''" and "Contains (rq_AcceptEncoding req) ''gzip''"
  shows "shouldCompress req opt \<longleftrightarrow> filepath_Ext (rq_Path req) \<noteq> ''.png''"
proof -
  have "filepath_Ext (rq_Path req) = [] \<or> hd (filepath_Ext (rq_Path req)) = CHR ''.''" by (rule filepath_Ext_dot)
  then have "filepath_Ext (rq_Path req) \<noteq> ''gif'' \<and> filepath_Ext (rq_Path req) \<noteq> ''jpg'' \<and> filepath_Ext (rq_Path req) \<noteq> ''jpeg''" by auto
  then have "excludedExtensionsMap opt (filepath_Ext (rq_Path req)) \<noteq> None \<longleftrightarrow> filepath_Ext (rq_Path req) = ''.png''"
    using apply_excludes(1) [OF assms(1)] assms(2) by (simp add: defaultExcludedExtensions_def)
  then show ?thesis using assms(3,4) by (simp add: shouldCompress_def)
qed

section \<open>What the client reads\<close>

lemma hw_write_sel [simp]:
  "hw_body (hw_write d w) = hw_body w @ d" "hw_Header (hw_write d w) = hw_Header w"
  "hw_sent (hw_write d w) = Some (case hw_sent w of Some h \<Rightarrow> h | None \<Rightarrow> hw_Header w)"
  by (simp_all add: hw_write_def)

lemma fold_write_body [simp]: "hw_body (fold hw_write ds w) = hw_body w @ concat ds"
  by (induction ds arbitrary: w) simp_all

lemma fold_write_header [simp]: "hw_Header (fold hw_write ds w) = hw_Header w"
  by (induction ds arbitrary: w) simp_all

lemma fold_write_sent [simp]:
  "hw_sent (fold hw_write ds w) = (if ds = [] then hw_sent w else Some (case hw_sent w of Some h \<Rightarrow> h | None \<Rightarrow> hw_Header w))"
  by (induction ds arbitrary: w) (simp_all split: option.split)

text \<open>Writes of at least the minimal size.\<close>

lemma big_writes:
  assumes "list_all (\<lambda>d. gz_minSize r \<le> int (length d)) ds" and "gzipWriter r = Some z" and "z_run lib ds z = (z', cs)"
    and "hw_sent (gz_ResponseWriter r) = None \<or> hw_sent (gz_ResponseWriter r) = Some h \<and> h ''Content-Encoding'' = Some ''gzip''"
  shows "\<exists>r'. gz_writes lib ds r = Ret r' \<and> gzipWriter r' = Some z' \<and> hw_body (gz_ResponseWriter r') = hw_body (gz_ResponseWriter r) @ concat cs
            \<and> (ds \<noteq> [] \<longrightarrow> useZip r' \<and> hw_Header (gz_ResponseWriter r') ''Content-Encoding'' = Some ''gzip'')
            \<and> (\<forall>h'. hw_sent (gz_ResponseWriter r') = Some h' \<longrightarrow> h' ''Content-Encoding'' = Some ''gzip'')"
  using assms
proof (induction ds arbitrary: r z cs h)
  case (Cons d ds)
  obtain z1 c1 where d: "z_Write lib d z = (z1, c1)" by fastforce
  with Cons.prems obtain c2 where ds: "z_run lib ds z1 = (z', c2)" and cs: "cs = c1 @ c2" by (auto split: prod.splits)
  define w where "w = (gz_ResponseWriter r)\<lparr>hw_Header := (hw_Header (gz_ResponseWriter r))(''Content-Length'' := None, ''Content-Encoding'' \<mapsto> ''gzip'')\<rparr>"
  define r1 where "r1 = r\<lparr>useZip := True, gz_ResponseWriter := fold hw_write c1 w, gzipWriter := Some z1\<rparr>"
  have wr: "gz_Write lib d r = Ret r1"
    using Cons.prems by (simp add: gz_Write_def d r1_def w_def Let_def)
  have sent: "hw_sent (gz_ResponseWriter r1) = None \<or>
      hw_sent (gz_ResponseWriter r1) = Some (the (hw_sent (gz_ResponseWriter r1))) \<and> the (hw_sent (gz_ResponseWriter r1)) ''Content-Encoding'' = Some ''gzip''"
    using Cons.prems(4) by (auto simp: r1_def w_def)
  have "list_all (\<lambda>d. gz_minSize r1 \<le> int (length d)) ds" using Cons.prems(1) by (simp add: r1_def)
  from Cons.IH [OF this _ ds sent] obtain r' where r': "gz_writes lib ds r1 = Ret r'" "gzipWriter r' = Some z'"
      "hw_body (gz_ResponseWriter r') = hw_body (gz_ResponseWriter r1) @ concat c2"
      "ds \<noteq> [] \<longrightarrow> useZip r' \<and> hw_Header (gz_ResponseWriter r') ''Content-Encoding'' = Some ''gzip''"
      "\<forall>h'. hw_sent (gz_ResponseWriter r') = Some h' \<longrightarrow> h' ''Content-Encoding'' = Some ''gzip''"
    by (auto simp: r1_def)
  moreover have "useZip r' \<and> hw_Header (gz_ResponseWriter r') ''Content-Encoding'' = Some ''gzip''"
    using r' by (cases ds) (auto simp: r1_def w_def)
  ultimately show ?case by (auto simp: wr cs r1_def w_def)
qed auto

text \<open>Writes below the minimal size go through unchanged.\<close>

lemma small_writes:
  assumes "ds \<noteq> []" and "list_all (\<lambda>d. int (length d) < gz_minSize r) ds"
  shows "gz_writes lib ds r = Ret (r\<lparr>useZip := False, gz_ResponseWriter := fold hw_write ds (gz_ResponseWriter r)\<rparr>)"
  using assms
proof (induction ds arbitrary: r rule: list_nonempty_induct)
  case (single d)
  then show ?case by (simp add: gz_Write_def Let_def)
next
  case (cons d ds)
  then show ?case by (simp add: gz_Write_def Let_def)
qed

lemma zip_lawsD:
  assumes "zip_laws lib gunzip" and "z_run lib ds (z_New lib level) = (z, cs)"
  shows "gunzip (concat cs @ concat (z_Close lib z)) = Some (concat ds) \<and> concat (z_Close lib z) \<noteq> []"
  using assms(1) [unfolded zip_laws_def, rule_format, of ds level] assms(2) by simp

text \<open>A response that nobody has written to yet.\<close>

definition fresh_response :: "httpw \<Rightarrow> bool" where
  "fresh_response w \<longleftrightarrow> hw_sent w = None \<and> hw_Header w ''Content-Encoding'' = None \<and> hw_body w = []"

text \<open>
  C26: If the writes of a response to a request that accepts compression are all of at least the minimal size, or all below it, the client reads
  exactly what was written, whichever writer the pool gives and however the compressor cuts its output.
\<close>

theorem gzip_response:
  assumes laws: "zip_laws lib gunzip" and req: "shouldCompress req opt" and w: "fresh_response w" and ne: "ds \<noteq> []"
    and same: "list_all (\<lambda>d. (MinSize opt \<le> int (length d)) = big) ds"
  shows "\<exists>gw' w'. gz_handler lib opt req gw ds w = Ret (gw', w') \<and> client_reads gunzip w' = Some (concat ds) \<and> useZip gw' = big \<and> gzipWriter gw' = None"
proof -
  define r where "r = gw\<lparr>gzipWriter := Some (z_New lib (Level opt)), gz_minSize := MinSize opt,
    gz_ResponseWriter := w\<lparr>hw_Header := (hw_Header w)(''Vary'' \<mapsto> ''Accept-Encoding'')\<rparr>\<rparr>"
  have run: "gz_handler lib opt req gw ds w = go_bind (gz_writes lib ds r) (\<lambda>gw. go_bind (gz_Close lib gw) (\<lambda>gw.
      let w = set_length (gz_ResponseWriter gw) in Ret (gw\<lparr>gz_ResponseWriter := w\<rparr>, w)))"
    using req by (simp add: gz_handler_def r_def Let_def)
  show ?thesis
  proof (cases big)
    case True
    obtain z cs where z: "z_run lib ds (z_New lib (Level opt)) = (z, cs)" by fastforce
    from zip_lawsD [OF laws z] have dec: "gunzip (concat cs @ concat (z_Close lib z)) = Some (concat ds)" and close: "z_Close lib z \<noteq> []"
      by auto
    have "list_all (\<lambda>d. gz_minSize r \<le> int (length d)) ds" using same True by (simp add: r_def)
    from big_writes [OF this _ z] w obtain r' where r': "gz_writes lib ds r = Ret r'" "gzipWriter r' = Some z"
        "hw_body (gz_ResponseWriter r') = concat cs" "useZip r'" "hw_Header (gz_ResponseWriter r') ''Content-Encoding'' = Some ''gzip''"
        "\<forall>h'. hw_sent (gz_ResponseWriter r') = Some h' \<longrightarrow> h' ''Content-Encoding'' = Some ''gzip''"
      using ne by (auto simp: r_def fresh_response_def)
    then show ?thesis using True close dec
      by (simp add: run gz_Close_def Let_def client_reads_def split: option.split)
  next
    case False
    have "list_all (\<lambda>d. int (length d) < gz_minSize r) ds" using same False by (simp add: r_def not_le)
    from small_writes [OF ne this] show ?thesis using w ne False
      by (simp add: run gz_Close_def Let_def client_reads_def r_def fresh_response_def)
  qed
qed

text \<open>
  Whether to compress is decided for every write, and by the last one for the close.  With a small write after a big one the small one goes
  out uncompressed behind what the compressor has written by then, and the compressed stream is never closed.
\<close>

lemma mixed_writes:
  assumes "z_Write lib b (z_New lib (Level opt)) = (z, cs)" and "MinSize opt \<le> int (length b)" and "int (length s) < MinSize opt"
    and "shouldCompress req opt" and "fresh_response w"
  shows "\<exists>gw' w'. gz_handler lib opt req gw [b, s] w = Ret (gw', w') \<and> hw_body w' = concat cs @ s"
  using assms by (simp add: gz_handler_def gz_Write_def gz_Close_def Let_def fresh_response_def)

text \<open>With a big write after a small one the compressed part follows the plain one, and the headers, sent before, do not announce it.\<close>

lemma mixed_writes_unannounced:
  assumes "z_Write lib b (z_New lib (Level opt)) = (z, cs)" and "MinSize opt \<le> int (length b)" and "int (length s) < MinSize opt"
    and "shouldCompress req opt" and "fresh_response w"
  shows "\<exists>gw' w'. gz_handler lib opt req gw [s, b] w = Ret (gw', w') \<and> client_reads gunzip w' = Some (s @ concat cs @ concat (z_Close lib z))"
  using assms by (simp add: gz_handler_def gz_Write_def gz_Close_def Let_def fresh_response_def client_reads_def)

text \<open>
  The flag of a writer is not reset when the pool gives it again: a response without a body, as for status 204 or 304, that gets the writer of
  a compressed one has an empty compressed stream for a body, without a header that says so.
\<close>

lemma stale_flag_writes_body:
  assumes laws: "zip_laws lib gunzip" and req: "shouldCompress req opt" and gw: "useZip gw" and w: "fresh_response w"
  shows "\<exists>gw' w' body. gz_handler lib opt req gw [] w = Ret (gw', w') \<and> client_reads gunzip w' = Some body \<and> body \<noteq> []"
proof -
  have close: "concat (z_Close lib (z_New lib (Level opt))) \<noteq> []"
    using zip_lawsD [OF laws, of "[]"] by simp
  then have "z_Close lib (z_New lib (Level opt)) \<noteq> []" by auto
  with close show ?thesis using gw w req
    by (simp add: gz_handler_def gz_Close_def Let_def fresh_response_def client_reads_def)
qed

text \<open>
  A handler outside the middleware that writes after it, as the one for errors does, still has the pooled writer: without a compressor a big
  write panics.
\<close>

lemma late_write_panics:
  assumes "gz_handler lib opt req gw ds w = Ret (gw', w')" and "shouldCompress req opt" and "gz_minSize gw' \<le> int (length d)"
  shows "gz_Write lib d gw' = Panic ''invalid memory address or nil pointer dereference''"
  using assms by (auto simp: gz_handler_def gz_Write_def gz_Close_def Let_def go_bind_Ret_iff split: if_splits option.splits)

text \<open>An instance: a compressor that collects its input and writes it behind a header at the close.\<close>

definition demo_zip :: "string ziplib" where
  "demo_zip = \<lparr>z_New = (\<lambda>level. []), z_Write = (\<lambda>d z. (z @ d, [])), z_Close = (\<lambda>z. [CHR ''Z'' # z])\<rparr>"

definition demo_unzip :: "string \<Rightarrow> string option" where
  "demo_unzip body = (case body of c # rest \<Rightarrow> if c = CHR ''Z'' then Some rest else None | [] \<Rightarrow> None)"

lemma demo_zip_run: "z_run demo_zip ds z = (z @ concat ds, [])"
  by (induction ds arbitrary: z) (simp_all add: demo_zip_def)

lemma demo_zip_laws: "zip_laws demo_zip demo_unzip"
  unfolding zip_laws_def by (simp add: demo_zip_run) (simp add: demo_zip_def demo_unzip_def)

definition demo_gzip :: GzipConfig where
  "demo_gzip = \<lparr>MinSize = 2, Level = -1, ExcludedExtensions = [], excludedExtensionsMap = Map.empty\<rparr>"

lemma gzip_response_witness:
  "\<exists>gw' w'. gz_handler demo_zip demo_gzip \<lparr>rq_Method = ''GET'', rq_AcceptEncoding = ''gzip'', rq_Path = ''/a''\<rparr>
      \<lparr>gz_ResponseWriter = \<lparr>hw_Header = Map.empty, hw_sent = None, hw_body = []\<rparr>, gzipWriter = None, gz_minSize = 0, useZip = False\<rparr>
      [''hello'', ''world''] \<lparr>hw_Header = Map.empty, hw_sent = None, hw_body = []\<rparr> = Ret (gw', w')
    \<and> client_reads demo_unzip w' = Some ''helloworld'' \<and> useZip gw' = True \<and> gzipWriter gw' = None"
  using gzip_response [OF demo_zip_laws, of "\<lparr>rq_Method = ''GET'', rq_AcceptEncoding = ''gzip'', rq_Path = ''/a''\<rparr>" demo_gzip
      "\<lparr>hw_Header = Map.empty, hw_sent = None, hw_body = []\<rparr>" "[''hello'', ''world'']" True
      "\<lparr>gz_ResponseWriter = \<lparr>hw_Header = Map.empty, hw_sent = None, hw_body = []\<rparr>, gzipWriter = None, gz_minSize = 0, useZip = False\<rparr>"]
  by (simp add: shouldCompress_def demo_gzip_def fresh_response_def Contains_def)

end
