(* ===== verification/WebCsrf.thy ===== *)
theory WebCsrf
  imports WebExtractor
begin

text \<open>
  Model of the middlewares that configure other packages: \<open>web/handler/csrf\<close>, protection against forged requests with the package gorilla/csrf,
  and \<open>web/handler/cors.go\<close>, access from other origins with gin-contrib/cors.  What these packages do is a parameter; modelled is what they
  are given and what becomes of their verdicts.
\<close>

section \<open>Protection against forged requests\<close>

record CookieConfig =
  ck_Name :: string
  ck_Path :: string
  ck_Domain :: string
  ck_MaxAge :: int
  ck_Secure :: bool
  ck_HttpOnly :: bool
  ck_SameSite :: int

record 'c CsrfConfig =
  cs_Skipper :: "'c Skipper option"
  cs_Exclude :: "string list"
  TokenLength :: "8 word"
  AuthKey :: string
  RequestHeader :: string
  Cookie :: "CookieConfig option"
  TrustedOrigins :: "string list option"

definition NewMiddleware_csrf :: "'c CsrfConfig" where
  "NewMiddleware_csrf = \<lparr>cs_Skipper = None, cs_Exclude = [], TokenLength = 32, AuthKey = [], RequestHeader = ''X-CSRF-Token'',
     Cookie = None, TrustedOrigins = None\<rparr>"

text \<open>The options of the package.\<close>

datatype csrf_option =
    OptRequestHeader string | OptCookieName string | OptDomain string | OptPath string | OptMaxAge int | OptSecure bool | OptHttpOnly bool
  | OptSameSite int | OptTrustedOrigins "string list" | OptErrorHandler

definition csrf_options :: "'c CsrfConfig \<Rightarrow> csrf_option list" where
  "csrf_options cfg =
     (if RequestHeader cfg \<noteq> [] then [OptRequestHeader (RequestHeader cfg)] else []) @
     (case Cookie cfg of
        None \<Rightarrow> []
      | Some ck \<Rightarrow>
          (if ck_Name ck \<noteq> [] then [OptCookieName (ck_Name ck)] else []) @
          (if ck_Domain ck \<noteq> [] then [OptDomain (ck_Domain ck)] else []) @
          (if ck_Path ck \<noteq> [] then [OptPath (ck_Path ck)] else []) @
          (if ck_MaxAge ck \<noteq> 0 then [OptMaxAge (ck_MaxAge ck)] else []) @
          (if ck_Secure ck then [OptSecure (ck_Secure ck)] else []) @
          (if ck_HttpOnly ck then [OptHttpOnly (ck_HttpOnly ck)] else []) @
          (if ck_SameSite ck \<noteq> 0 then [OptSameSite (ck_SameSite ck)] else []) @
          (case TrustedOrigins cfg of Some os \<Rightarrow> [OptTrustedOrigins os] | None \<Rightarrow> [])) @
     [OptErrorHandler]"

text \<open>
  The package's verdict on a request, with the options and the key; the inner handler adds the token to the headers of the answer.
\<close>

record 'c csrflib =
  cl_Protect :: "string \<Rightarrow> csrf_option list \<Rightarrow> 'c \<Rightarrow> go_error option"
  cl_Token :: "'c \<Rightarrow> string"
  cl_AddHeader :: "string \<Rightarrow> string \<Rightarrow> 'c \<Rightarrow> 'c"

definition csrf_ServeHTTP :: "'c gin \<Rightarrow> 'c csrflib \<Rightarrow> 'c CsrfConfig \<Rightarrow> 'c \<Rightarrow> 'c" where
  "csrf_ServeHTTP g lib cfg c =
     (if Method (c_Request g c) = ''GET'' then cl_AddHeader lib (RequestHeader cfg) (cl_Token lib c) c else c)"

definition csrf_handler :: "'c gin \<Rightarrow> 'c csrflib \<Rightarrow> 'c CsrfConfig \<Rightarrow> 'c Skipper \<Rightarrow> 'c \<Rightarrow> 'c" where
  "csrf_handler g lib cfg skip c =
     (if skip c then c
      else (case cl_Protect lib (AuthKey cfg) (csrf_options cfg) c of
              Some err \<Rightarrow> c_AbortWithError g 403 err c
            | None \<Rightarrow> csrf_ServeHTTP g lib cfg c))"

definition csrf_ApplyFunc ::
  "'c gin \<Rightarrow> 'c csrflib \<Rightarrow> ('c CsrfConfig \<Rightarrow> 'c CsrfConfig outcome) \<Rightarrow> 'c CsrfConfig \<Rightarrow> ('c CsrfConfig \<times> ('c \<Rightarrow> 'c)) outcome" where
  "csrf_ApplyFunc g lib unmarshal cfg =
     (case unmarshal cfg of
        Panic m \<Rightarrow> Panic m
      | Fail err \<Rightarrow> Panic ''Unmarshal''
      | Ret cfg \<Rightarrow>
          (let skip = (case cs_Skipper cfg of None \<Rightarrow> PathSkipper g (cs_Exclude cfg) | Some k \<Rightarrow> k);
               cfg = cfg\<lparr>cs_Skipper := Some skip\<rparr>
           in Ret (cfg, csrf_handler g lib cfg skip)))"

definition csrf_laws :: "'c gin \<Rightarrow> 'c csrflib \<Rightarrow> bool" where
  "csrf_laws g lib \<longleftrightarrow>
     gin_laws g \<and> (\<forall>k v c. c_IsAborted g (cl_AddHeader lib k v c) = c_IsAborted g c)"

text \<open>A request goes on exactly if it is excluded or the package accepts it under the configured key and options.\<close>

lemma csrf_admits:
  assumes "csrf_laws g lib" and "csrf_ApplyFunc g lib unmarshal cfg0 = Ret (cfg, h)" and "\<not> c_IsAborted g c"
  shows "\<not> c_IsAborted g (h c) \<longleftrightarrow> the (cs_Skipper cfg) c \<or> cl_Protect lib (AuthKey cfg) (csrf_options cfg) c = None"
proof -
  from assms(2) obtain skip where "cs_Skipper cfg = Some skip" and "h = csrf_handler g lib cfg skip"
    by (auto simp: csrf_ApplyFunc_def Let_def simp del: not_None_eq split: outcome.splits)
  with assms(1,3) show ?thesis
    by (simp add: csrf_handler_def csrf_ServeHTTP_def csrf_laws_def gin_lawsD split: option.split)
qed

text \<open>The trusted origins reach the package only together with a part for the cookie.\<close>

lemma trusted_origins_need_cookie:
  "(\<exists>os. OptTrustedOrigins os \<in> set (csrf_options cfg)) \<longleftrightarrow> Cookie cfg \<noteq> None \<and> TrustedOrigins cfg \<noteq> None"
  by (cases "Cookie cfg"; cases "TrustedOrigins cfg") (auto simp: csrf_options_def)

text \<open>A cookie cannot be configured to be insecure or readable by scripts: only true reaches the package, which is its default.\<close>

lemma cookie_flags_only_set: "OptSecure False \<notin> set (csrf_options cfg)" "OptHttpOnly False \<notin> set (csrf_options cfg)"
  by (auto simp: csrf_options_def split: option.split)

text \<open>The length of tokens has no effect.\<close>

lemma token_length_unused: "csrf_options (cfg\<lparr>TokenLength := n\<rparr>) = csrf_options cfg"
  by (cases "Cookie cfg") (simp_all add: csrf_options_def)

section \<open>Access from other origins\<close>

record CorsConfig =
  AllowAllOrigins :: bool
  AllowOrigins :: "string list"
  AllowOriginFunc :: "(string \<Rightarrow> bool) option"
  AllowMethods :: "string list"
  AllowHeaders :: "string list"
  cors_MaxAge :: int

definition cors_default :: CorsConfig where
  "cors_default = \<lparr>AllowAllOrigins = True, AllowOrigins = [], AllowOriginFunc = None,
     AllowMethods = [''GET'', ''POST'', ''PUT'', ''PATCH'', ''DELETE'', ''HEAD'', ''OPTIONS''],
     AllowHeaders = [''Origin'', ''Content-Length'', ''Content-Type''], cors_MaxAge = 12 * 3600 * 1000000000\<rparr>"

text \<open>\<open>slices\<close> is \<open>StringSlice\<close> of the configuration, for a key that is set: lists of the defaults are replaced, not merged.\<close>

definition cors_lists :: "(string \<Rightarrow> string list option) \<Rightarrow> CorsConfig \<Rightarrow> CorsConfig" where
  "cors_lists slices config =
     (let config = (case slices ''allowHeaders'' of Some l \<Rightarrow> config\<lparr>AllowHeaders := l\<rparr> | None \<Rightarrow> config);
          config = (case slices ''allowMethods'' of Some l \<Rightarrow> config\<lparr>AllowMethods := l\<rparr> | None \<Rightarrow> config)
      in if length (AllowOrigins config) \<noteq> 0 \<or> AllowOriginFunc config \<noteq> None then config\<lparr>AllowAllOrigins := False\<rparr> else config)"

definition CORS :: "(CorsConfig \<Rightarrow> CorsConfig outcome) \<Rightarrow> (string \<Rightarrow> string list option) \<Rightarrow> (CorsConfig \<Rightarrow> 'h outcome) \<Rightarrow> 'h outcome" where
  "CORS unmarshal slices cors_New =
     (case unmarshal cors_default of
        Panic m \<Rightarrow> Panic m
      | Fail err \<Rightarrow> Panic ''Unmarshal''
      | Ret config \<Rightarrow> cors_New (cors_lists slices config))"

text \<open>
  The package never gets a configuration that allows all origins beside a list or a function for them, and gets exactly the headers that are
  configured, if any are.
\<close>

lemma cors_lists_spec:
  "AllowAllOrigins (cors_lists slices c0) \<longleftrightarrow> AllowAllOrigins c0 \<and> AllowOrigins c0 = [] \<and> AllowOriginFunc c0 = None"
  "AllowHeaders (cors_lists slices c0) = (case slices ''allowHeaders'' of Some l \<Rightarrow> l | None \<Rightarrow> AllowHeaders c0)"
  "AllowMethods (cors_lists slices c0) = (case slices ''allowMethods'' of Some l \<Rightarrow> l | None \<Rightarrow> AllowMethods c0)"
  "AllowOrigins (cors_lists slices c0) = AllowOrigins c0"
  by (auto simp: cors_lists_def Let_def split: option.split)

end
