(* ===== verification/Sqlx.thy ===== *)
theory Sqlx
  imports GoStrings
begin

text \<open>
  Model of \<open>pkg/store/sqlx\<close>: databases opened by a configuration whose password may be encrypted.  AES, its Galois counter mode, base64 and
  \<open>database/sql\<close> are parameters.
\<close>

section \<open>Encryptors\<close>

record Encryptor =
  Encrypt :: "string \<Rightarrow> string outcome"
  Decrypt :: "string \<Rightarrow> string outcome"

text \<open>The libraries: ciphers of a key, the mode on a cipher with the size of its nonces, sealing and opening, and base64.\<close>

record ('b, 'k) aeslib =
  NewCipher :: "string \<Rightarrow> 'b outcome"
  NewGCM :: "'b \<Rightarrow> 'k outcome"
  NonceSize :: "'k \<Rightarrow> nat"
  Seal :: "'k \<Rightarrow> string \<Rightarrow> string \<Rightarrow> string"
  Open :: "'k \<Rightarrow> string \<Rightarrow> string \<Rightarrow> string outcome"
  b64_Encode :: "string \<Rightarrow> string"
  b64_Decode :: "string \<Rightarrow> string outcome"

text \<open>\<open>key\<close> is the value of the environment variable; \<open>random\<close> reads a number of bytes.  The nonce is the destination that is appended to.\<close>

definition aes_Encrypt :: "('b, 'k) aeslib \<Rightarrow> string \<Rightarrow> (nat \<Rightarrow> string outcome) \<Rightarrow> string \<Rightarrow> string outcome" where
  "aes_Encrypt lib key random text =
     go_bind (NewCipher lib key) (\<lambda>block.
     go_bind (NewGCM lib block) (\<lambda>gcm.
     go_bind (random (NonceSize lib gcm)) (\<lambda>nonce.
       let ciphertext = nonce @ Seal lib gcm nonce text in Ret (b64_Encode lib ciphertext))))"

definition aes_Decrypt :: "('b, 'k) aeslib \<Rightarrow> string \<Rightarrow> string \<Rightarrow> string outcome" where
  "aes_Decrypt lib key text =
     go_bind (NewCipher lib key) (\<lambda>block.
     go_bind (NewGCM lib block) (\<lambda>gcm.
     go_bind (b64_Decode lib text) (\<lambda>ciphertext.
       if length ciphertext < NonceSize lib gcm then Fail (Errorf ''malformed ciphertext'')
       else (let nonce = take (NonceSize lib gcm) ciphertext; ciphertext = drop (NonceSize lib gcm) ciphertext in Open lib gcm nonce ciphertext))))"

definition aesEncryptor :: "('b, 'k) aeslib \<Rightarrow> string \<Rightarrow> (nat \<Rightarrow> string outcome) \<Rightarrow> Encryptor" where
  "aesEncryptor lib key random = \<lparr>Encrypt = aes_Encrypt lib key random, Decrypt = aes_Decrypt lib key\<rparr>"

definition RegisterEncryptor :: "string \<Rightarrow> Encryptor option \<Rightarrow> (string \<rightharpoonup> Encryptor) \<Rightarrow> (string \<rightharpoonup> Encryptor)" where
  "RegisterEncryptor name e encryptors = encryptors(name := e)"

definition init_encryptors :: "('b, 'k) aeslib \<Rightarrow> string \<Rightarrow> (nat \<Rightarrow> string outcome) \<Rightarrow> (string \<rightharpoonup> Encryptor)" where
  "init_encryptors lib key random = RegisterEncryptor ''aes-gcm'' (Some (aesEncryptor lib key random)) Map.empty"

section \<open>Databases\<close>

definition pwdTpl :: string where "pwdTpl = ''${password}''"

record encryptionConfig =
  enc_Method :: string
  enc_Password :: string

text \<open>\<open>strings.ReplaceAll\<close> for a text to replace that is not empty.\<close>

definition ReplaceAll :: "string \<Rightarrow> string \<Rightarrow> string \<Rightarrow> string" where
  "ReplaceAll s old new = Join (Split s old) new"

text \<open>
  The configuration of a database; the part for the encryption is its \<open>Unmarshal\<close> on the defaults, and settings that are not set are \<open>None\<close>.
\<close>

record dbconfig =
  cfg_dsn :: string
  cfg_driverName :: string
  cfg_encryption :: "(encryptionConfig \<Rightarrow> encryptionConfig outcome) option"
  cfg_maxIdleConns :: "int option"
  cfg_maxOpenConns :: "int option"
  cfg_connMaxLifetime :: "int option"

record 'd sqldb =
  sql_Open :: "string \<Rightarrow> string \<Rightarrow> 'd outcome"
  SetMaxIdleConns :: "int \<Rightarrow> 'd \<Rightarrow> 'd"
  SetMaxOpenConns :: "int \<Rightarrow> 'd \<Rightarrow> 'd"
  SetConnMaxLifetime :: "int \<Rightarrow> 'd \<Rightarrow> 'd"

definition processDSN :: "(string \<rightharpoonup> Encryptor) \<Rightarrow> string \<Rightarrow> (encryptionConfig \<Rightarrow> encryptionConfig outcome) \<Rightarrow> string outcome" where
  "processDSN encryptors original unmarshal =
     go_bind (unmarshal \<lparr>enc_Method = ''aes-gcm'', enc_Password = []\<rparr>) (\<lambda>encConfig.
       if enc_Password encConfig = [] then Ret original
       else (case encryptors (enc_Method encConfig) of
               None \<Rightarrow> Fail (Errorf (''encryptor '' @ enc_Method encConfig @ '' not registered''))
             | Some encryptor \<Rightarrow>
                 go_bind (Decrypt encryptor (enc_Password encConfig)) (\<lambda>pwd. Ret (ReplaceAll original pwdTpl pwd))))"

definition set_opt :: "('v \<Rightarrow> 'd \<Rightarrow> 'd) \<Rightarrow> 'v option \<Rightarrow> 'd \<Rightarrow> 'd" where
  "set_opt f v d = (case v of Some x \<Rightarrow> f x d | None \<Rightarrow> d)"

text \<open>The database of a source name, with the limits that are set.\<close>

definition open_db :: "'d sqldb \<Rightarrow> dbconfig \<Rightarrow> string \<Rightarrow> 'd outcome" where
  "open_db sql cfg dsn =
     (case sql_Open sql (cfg_driverName cfg) dsn of
        Panic m \<Rightarrow> Panic m
      | Fail err \<Rightarrow> Panic ''sql.Open''
      | Ret db \<Rightarrow>
          Ret (set_opt (SetConnMaxLifetime sql) (cfg_connMaxLifetime cfg)
                (set_opt (SetMaxOpenConns sql) (cfg_maxOpenConns cfg) (set_opt (SetMaxIdleConns sql) (cfg_maxIdleConns cfg) db))))"

definition NewSqlDB :: "(string \<rightharpoonup> Encryptor) \<Rightarrow> 'd sqldb \<Rightarrow> dbconfig \<Rightarrow> 'd outcome" where
  "NewSqlDB encryptors sql cfg =
     (case (case cfg_encryption cfg of None \<Rightarrow> Ret (cfg_dsn cfg) | Some u \<Rightarrow> processDSN encryptors (cfg_dsn cfg) u) of
        Panic m \<Rightarrow> Panic m
      | Fail err \<Rightarrow> Panic ''processDSN''
      | Ret dsn \<Rightarrow> open_db sql cfg dsn)"

lemma open_db_update [simp]:
  "open_db sql (cfg\<lparr>cfg_encryption := u\<rparr>) dsn = open_db sql cfg dsn" "open_db sql (cfg\<lparr>cfg_dsn := d\<rparr>) dsn = open_db sql cfg dsn"
  by (simp_all add: open_db_def cong: outcome.case_cong)

section \<open>Properties\<close>

text \<open>
  What the libraries document: base64 decodes what it encodes, opening with the key and the nonce gives what was sealed, and the reader of
  random bytes gives as many as are asked for.
\<close>

definition aes_laws :: "('b, 'k) aeslib \<Rightarrow> (nat \<Rightarrow> string outcome) \<Rightarrow> bool" where
  "aes_laws lib random \<longleftrightarrow>
     (\<forall>s. b64_Decode lib (b64_Encode lib s) = Ret s)
     \<and> (\<forall>k nonce t. length nonce = NonceSize lib k \<longrightarrow> Open lib k nonce (Seal lib k nonce t) = Ret t)
     \<and> (\<forall>n s. random n = Ret s \<longrightarrow> length s = n)"

text \<open>What was encrypted with a key is decrypted with it, whatever the nonce.\<close>

lemma encrypt_decrypt:
  assumes "aes_laws lib random" and "aes_Encrypt lib key random text = Ret c"
  shows "aes_Decrypt lib key c = Ret text"
proof -
  from assms(2) obtain block gcm nonce where lib: "NewCipher lib key = Ret block" "NewGCM lib block = Ret gcm"
    and "random (NonceSize lib gcm) = Ret nonce" and c: "c = b64_Encode lib (nonce @ Seal lib gcm nonce text)"
    by (auto simp: aes_Encrypt_def Let_def go_bind_Ret_iff)
  with assms(1) have "length nonce = NonceSize lib gcm" "b64_Decode lib c = Ret (nonce @ Seal lib gcm nonce text)"
      "Open lib gcm nonce (Seal lib gcm nonce text) = Ret text"
    by (simp_all add: aes_laws_def)
  with lib show ?thesis by (simp add: aes_Decrypt_def)
qed

text \<open>A short ciphertext is refused instead of being cut out of range.\<close>

lemma decrypt_short:
  assumes "NewCipher lib key = Ret block" and "NewGCM lib block = Ret gcm" and "b64_Decode lib text = Ret ct" and "length ct < NonceSize lib gcm"
  shows "aes_Decrypt lib key text = Fail (Errorf ''malformed ciphertext'')"
  using assms by (simp add: aes_Decrypt_def)

text \<open>
  A database whose password was encrypted with the key of the environment is opened with the configured source name, every placeholder of
  which is replaced by the password.
\<close>

theorem encrypted_password_opens:
  assumes "aes_laws lib random" and "aes_Encrypt lib key random pwd = Ret c" and "c \<noteq> []"
    and "u \<lparr>enc_Method = ''aes-gcm'', enc_Password = []\<rparr> = Ret \<lparr>enc_Method = ''aes-gcm'', enc_Password = c\<rparr>"
  shows "NewSqlDB (init_encryptors lib key random) sql (cfg\<lparr>cfg_encryption := Some u\<rparr>) =
           NewSqlDB (init_encryptors lib key random) sql (cfg\<lparr>cfg_dsn := ReplaceAll (cfg_dsn cfg) pwdTpl pwd, cfg_encryption := None\<rparr>)"
  using assms(3,4) encrypt_decrypt [OF assms(1,2)]
  by (simp add: NewSqlDB_def processDSN_def init_encryptors_def RegisterEncryptor_def aesEncryptor_def)

text \<open>An unknown method, a wrong key or a broken password ends in a panic, never in a connection with the placeholder or the ciphertext.\<close>

lemma bad_encryption_panics:
  assumes "cfg_encryption cfg = Some u" and "u \<lparr>enc_Method = ''aes-gcm'', enc_Password = []\<rparr> = Ret e" and "enc_Password e \<noteq> []"
    and "encryptors (enc_Method e) = None \<or> (\<exists>x err. encryptors (enc_Method e) = Some x \<and> Decrypt x (enc_Password e) = Fail err)"
  shows "NewSqlDB encryptors sql cfg = Panic ''processDSN''"
  using assms by (auto simp: NewSqlDB_def processDSN_def)

text \<open>A part for the encryption without a password leaves the placeholder in the source name.\<close>

lemma missing_password_keeps_placeholder:
  assumes "u \<lparr>enc_Method = ''aes-gcm'', enc_Password = []\<rparr> = Ret e" and "enc_Password e = []"
  shows "NewSqlDB encryptors sql (cfg\<lparr>cfg_encryption := Some u\<rparr>) = NewSqlDB encryptors sql (cfg\<lparr>cfg_encryption := None\<rparr>)"
  using assms by (simp add: NewSqlDB_def processDSN_def)

lemma replace_example: "ReplaceAll ''root:${password}@tcp(h)'' pwdTpl ''s3'' = ''root:s3@tcp(h)''"
  by code_simp

end
