(* ===== verification/Telemetry.thy ===== *)
theory Telemetry
  imports GoStrings "HOL-Library.Word"
begin

text \<open>
  Model of \<open>contrib/telemetry\<close>: the configuration of tracing and metrics (\<open>telemetry.go\<close>), the providers (\<open>provider.go\<close>) and the functions for
  attributes, carriers and spans (\<open>funcs.go\<close>).  The OpenTelemetry libraries are a parameter.
\<close>

section \<open>Attributes\<close>

text \<open>
  Values by what the type switches see of them: the types of the first switch, then the kinds of the others.  A sequence is \<open>plain\<close> if its type
  is the slice type of its element kind, which a named type is not.  Of the rest there are their JSON, if they have one, and their print.
\<close>

datatype 'f elems = EBools "bool list" | EInts "64 word list" | EInt64s "64 word list" | EFloats "'f list" | EStrings "string list" | EOthers

datatype 'f goval =
    VNil | VString string | VInt "64 word" | VInt64 "64 word" | VUint64 "64 word" | VFloat64 'f | VBool bool | VStringer string
  | VSeq bool "'f elems" | KBool bool | KInt "64 word" | KFloat64 'f | KString string | VOther "string option" string

datatype 'f attrval =
    AString string | AInt int | AFloat 'f | ABool bool | ABools "bool list" | AInts "int list" | AFloats "'f list" | AStrings "string list" | AInvalid

type_synonym 'f keyValue = "string \<times> 'f attrval"

definition seq_attribute :: "string \<Rightarrow> bool \<Rightarrow> 'f elems \<Rightarrow> 'f keyValue outcome" where
  "seq_attribute key plain es =
     (case es of
        EOthers \<Rightarrow> Ret (key, AInvalid)
      | _ \<Rightarrow>
          (if \<not> plain then Panic ''interface conversion''
           else Ret (key, case es of
                            EBools bs \<Rightarrow> ABools bs
                          | EInts ws \<Rightarrow> AInts (map sint ws)
                          | EInt64s ws \<Rightarrow> AInts (map sint ws)
                          | EFloats fs \<Rightarrow> AFloats fs
                          | EStrings ss \<Rightarrow> AStrings ss
                          | EOthers \<Rightarrow> AInvalid)))"

fun Attribute :: "string \<Rightarrow> 'f goval \<Rightarrow> 'f keyValue outcome" where
  "Attribute key VNil = Ret (key, AString ''<nil>'')"
| "Attribute key (VString s) = Ret (key, AString s)"
| "Attribute key (VInt w) = Ret (key, AInt (sint w))"
| "Attribute key (VInt64 w) = Ret (key, AInt (sint w))"
| "Attribute key (VUint64 w) = Ret (key, AInt (sint w))"
| "Attribute key (VFloat64 f) = Ret (key, AFloat f)"
| "Attribute key (VBool b) = Ret (key, ABool b)"
| "Attribute key (VStringer s) = Ret (key, AString s)"
| "Attribute key (VSeq plain es) = seq_attribute key plain es"
| "Attribute key (KBool b) = Ret (key, ABool b)"
| "Attribute key (KInt w) = Ret (key, AInt (sint w))"
| "Attribute key (KFloat64 f) = Ret (key, AFloat f)"
| "Attribute key (KString s) = Ret (key, AString s)"
| "Attribute key (VOther json text) = Ret (key, AString (case json of Some b \<Rightarrow> b | None \<Rightarrow> text))"

section \<open>Configuration\<close>

text \<open>What a shutdown function shuts down.\<close>

datatype ('p, 'e, 'n) tshutdown = ShutProvider 'p | ShutExporter 'e | ShutExporterClose 'e 'n | ShutOption nat

text \<open>
  \<open>'r\<close> are resources, \<open>'p\<close> providers and propagators, \<open>'o\<close> options of providers, \<open>'e\<close> exporters and \<open>'n\<close> connections.
\<close>

record ('r, 'p, 'o, 'e, 'n) TConfig =
  ServiceName :: string
  ServiceNamespace :: string
  ServiceVersion :: string
  AttributesEnvKeys :: string
  TraceExporter :: string
  MetricExporter :: string
  MetricPeriodicReaderInterval :: int
  Propagator :: string
  Resource :: "'r option"
  TracerProvider :: "'p option"
  Tracer :: "('p \<times> string) option"
  MeterProvider :: "'p option"
  Meter :: "('p \<times> string) option"
  TextMapPropagator :: "'p option"
  Headers :: "string \<rightharpoonup> string"
  resourceAttributes :: "(string \<rightharpoonup> string) option"
  mops :: "'o list"
  tops :: "'o list"
  shutdowns :: "('p, 'e, 'n) tshutdown list"
  asGlobal :: bool

record ('r, 'p, 'o, 'e, 'n) tellib =
  tl_Dial :: "string \<Rightarrow> 'n outcome"
  tl_OtlpTrace :: "'n \<Rightarrow> (string \<rightharpoonup> string) \<Rightarrow> 'e outcome"
  tl_OtlpMetric :: "'n \<Rightarrow> (string \<rightharpoonup> string) \<Rightarrow> 'e outcome"
  tl_StdTrace :: "'e outcome"
  tl_StdMetric :: "'e outcome"
  tl_TracerOf :: "'r option \<Rightarrow> 'e \<Rightarrow> 'p"
  tl_MeterOf :: "'r option \<Rightarrow> 'e \<Rightarrow> int \<Rightarrow> 'p"
  tl_TracerOpts :: "'o list \<Rightarrow> 'p"
  tl_MeterOpts :: "'o list \<Rightarrow> 'p"
  tl_WithResource :: "'r option \<Rightarrow> 'o"
  tl_RuntimeStart :: "'p \<Rightarrow> go_error option"
  tl_Merge :: "'r \<Rightarrow> 'r \<Rightarrow> 'r outcome"
  tl_Default :: "string \<Rightarrow> string \<Rightarrow> string \<Rightarrow> 'r"
  tl_Environment :: 'r
  tl_Attributes :: "(string \<rightharpoonup> string) \<Rightarrow> 'r"
  tl_b3 :: 'p

subsection \<open>Providers\<close>

definition NewStdTracer :: "('r, 'p, 'o, 'e, 'n) tellib \<Rightarrow> ('r, 'p, 'o, 'e, 'n) TConfig \<Rightarrow> ('p \<times> ('p, 'e, 'n) tshutdown) outcome" where
  "NewStdTracer lib c = go_bind (tl_StdTrace lib) (\<lambda>exporter. let tp = tl_TracerOf lib (Resource c) exporter in Ret (tp, ShutProvider tp))"

definition initMetric :: "('r, 'p, 'o, 'e, 'n) tellib \<Rightarrow> ('r, 'p, 'o, 'e, 'n) TConfig \<Rightarrow> 'e \<Rightarrow> 'p outcome" where
  "initMetric lib c exporter =
     (let meterProvider = tl_MeterOf lib (Resource c) exporter (MetricPeriodicReaderInterval c) in
      case tl_RuntimeStart lib meterProvider of None \<Rightarrow> Ret meterProvider | Some err \<Rightarrow> Fail err)"

definition NewStdMetric :: "('r, 'p, 'o, 'e, 'n) tellib \<Rightarrow> ('r, 'p, 'o, 'e, 'n) TConfig \<Rightarrow> ('p \<times> ('p, 'e, 'n) tshutdown) outcome" where
  "NewStdMetric lib c = go_bind (tl_StdMetric lib) (\<lambda>exporter. go_bind (initMetric lib c exporter) (\<lambda>mp. Ret (mp, ShutExporter exporter)))"

definition NewOtlpTracer :: "('r, 'p, 'o, 'e, 'n) tellib \<Rightarrow> ('r, 'p, 'o, 'e, 'n) TConfig \<Rightarrow> ('p \<times> ('p, 'e, 'n) tshutdown) outcome" where
  "NewOtlpTracer lib c =
     go_bind (tl_Dial lib (TraceExporter c)) (\<lambda>conn.
     go_bind (tl_OtlpTrace lib conn (Headers c)) (\<lambda>exporter.
       Ret (tl_TracerOf lib (Resource c) exporter, ShutExporterClose exporter conn)))"

definition NewOtlpMetric :: "('r, 'p, 'o, 'e, 'n) tellib \<Rightarrow> ('r, 'p, 'o, 'e, 'n) TConfig \<Rightarrow> ('p \<times> ('p, 'e, 'n) tshutdown) outcome" where
  "NewOtlpMetric lib c =
     go_bind (tl_Dial lib (MetricExporter c)) (\<lambda>conn.
     go_bind (tl_OtlpMetric lib conn (Headers c)) (\<lambda>exporter.
     go_bind (initMetric lib c exporter) (\<lambda>mp. Ret (mp, ShutExporter exporter))))"

definition NewTraceInOption ::
  "('r, 'p, 'o, 'e, 'n) tellib \<Rightarrow> ('r, 'p, 'o, 'e, 'n) TConfig \<Rightarrow> ('r, 'p, 'o, 'e, 'n) TConfig \<times> 'p \<times> ('p, 'e, 'n) tshutdown" where
  "NewTraceInOption lib c =
     (let c = c\<lparr>tops := tl_WithResource lib (Resource c) # tops c\<rparr>; tp = tl_TracerOpts lib (tops c) in (c, tp, ShutProvider tp))"

definition NewMetricInOption ::
  "('r, 'p, 'o, 'e, 'n) tellib \<Rightarrow> ('r, 'p, 'o, 'e, 'n) TConfig \<Rightarrow> ('r, 'p, 'o, 'e, 'n) TConfig \<times> 'p \<times> ('p, 'e, 'n) tshutdown" where
  "NewMetricInOption lib c =
     (let c = c\<lparr>mops := tl_WithResource lib (Resource c) # mops c\<rparr>; mp = tl_MeterOpts lib (mops c); c = c\<lparr>MeterProvider := None\<rparr> in (c, mp, ShutProvider mp))"

definition applyTracerProvider :: "('r, 'p, 'o, 'e, 'n) tellib \<Rightarrow> ('r, 'p, 'o, 'e, 'n) TConfig \<Rightarrow> ('r, 'p, 'o, 'e, 'n) TConfig outcome" where
  "applyTracerProvider lib c =
     (if TraceExporter c = ''otlp'' \<or> TraceExporter c = ''stdout'' then
        (case (if TraceExporter c = ''otlp'' then NewOtlpTracer lib c else NewStdTracer lib c) of
           Ret (tp, shutdown) \<Rightarrow> Ret (c\<lparr>TracerProvider := Some tp, shutdowns := shutdowns c @ [shutdown]\<rparr>)
         | Fail err \<Rightarrow> Panic ''failed to create tracer provider''
         | Panic m \<Rightarrow> Panic m)
      else if TracerProvider c = None \<and> 0 < length (tops c) then
        (case NewTraceInOption lib c of (c, tp, shutdown) \<Rightarrow> Ret (c\<lparr>TracerProvider := Some tp, shutdowns := shutdowns c @ [shutdown]\<rparr>))
      else Ret c)"

definition applyMetricProvider :: "('r, 'p, 'o, 'e, 'n) tellib \<Rightarrow> ('r, 'p, 'o, 'e, 'n) TConfig \<Rightarrow> ('r, 'p, 'o, 'e, 'n) TConfig outcome" where
  "applyMetricProvider lib c =
     (if MetricExporter c = ''otlp'' \<or> MetricExporter c = ''stdout'' then
        (case (if MetricExporter c = ''otlp'' then NewOtlpMetric lib c else NewStdMetric lib c) of
           Ret (mp, shutdown) \<Rightarrow> Ret (c\<lparr>MeterProvider := Some mp, shutdowns := shutdowns c @ [shutdown]\<rparr>)
         | Fail err \<Rightarrow> Panic ''failed to create metric provider''
         | Panic m \<Rightarrow> Panic m)
      else if MeterProvider c = None \<and> 0 < length (mops c) then
        (case NewMetricInOption lib c of (c, mp, shutdown) \<Rightarrow> Ret (c\<lparr>MeterProvider := Some mp, shutdowns := shutdowns c @ [shutdown]\<rparr>))
      else Ret c)"

subsection \<open>Resources\<close>

text \<open>The attributes from the environment; \<open>env\<close> gives the empty text for what is not set.  A nil map cannot be written.\<close>

fun env_attributes :: "(string \<Rightarrow> string) \<Rightarrow> string list \<Rightarrow> (string \<rightharpoonup> string) option \<Rightarrow> (string \<rightharpoonup> string) option outcome" where
  "env_attributes env [] m = Ret m"
| "env_attributes env (k # ks) m =
     (let key = TrimSpace k; val = env key in
      if val \<noteq> [] then (case m of None \<Rightarrow> Panic ''assignment to entry in nil map'' | Some f \<Rightarrow> env_attributes env ks (Some (f(key \<mapsto> val))))
      else env_attributes env ks m)"

definition parseEnvKeys :: "(string \<Rightarrow> string) \<Rightarrow> ('r, 'p, 'o, 'e, 'n) TConfig \<Rightarrow> ('r, 'p, 'o, 'e, 'n) TConfig outcome" where
  "parseEnvKeys env c =
     (if AttributesEnvKeys c = [] then Ret c
      else go_bind (env_attributes env (Split (AttributesEnvKeys c) ''|'') (resourceAttributes c)) (\<lambda>m. Ret (c\<lparr>resourceAttributes := m\<rparr>)))"

definition getDefaultResource :: "('r, 'p, 'o, 'e, 'n) tellib \<Rightarrow> ('r, 'p, 'o, 'e, 'n) TConfig \<Rightarrow> 'r" where
  "getDefaultResource lib c = tl_Default lib (ServiceName c) (ServiceNamespace c) (ServiceVersion c)"

definition mergeResource :: "('r, 'p, 'o, 'e, 'n) tellib \<Rightarrow> 'r \<Rightarrow> ('r, 'p, 'o, 'e, 'n) TConfig \<Rightarrow> ('r, 'p, 'o, 'e, 'n) TConfig outcome" where
  "mergeResource lib res c =
     go_bind (tl_Merge lib (getDefaultResource lib c) res) (\<lambda>r.
     go_bind (tl_Merge lib r (tl_Environment lib)) (\<lambda>r.
     go_bind (tl_Merge lib r (tl_Attributes lib (case resourceAttributes c of Some m \<Rightarrow> m | None \<Rightarrow> Map.empty))) (\<lambda>r.
       Ret (c\<lparr>Resource := Some r\<rparr>))))"

subsection \<open>Applying a configuration\<close>

text \<open>The state outside: the global providers of the library, and the global configuration of the package.\<close>

record ('r, 'p, 'o, 'e, 'n) telworld =
  otel_tracer :: 'p
  otel_meter :: 'p
  otel_propagator :: 'p
  globalConfig :: "('r, 'p, 'o, 'e, 'n) TConfig option"

definition apply_names :: "string \<times> string \<times> string \<Rightarrow> ('r, 'p, 'o, 'e, 'n) TConfig \<Rightarrow> ('r, 'p, 'o, 'e, 'n) TConfig" where
  "apply_names root c =
     (case root of (appName, version, namespace) \<Rightarrow>
        (let c = (if ServiceName c = [] then c\<lparr>ServiceName := appName\<rparr> else c);
             c = (if ServiceVersion c = [] then c\<lparr>ServiceVersion := version\<rparr> else c)
         in if ServiceNamespace c = [] then c\<lparr>ServiceNamespace := namespace\<rparr> else c))"

definition SetGlobalConfig ::
  "('r, 'p, 'o, 'e, 'n) TConfig \<Rightarrow> ('r, 'p, 'o, 'e, 'n) telworld \<Rightarrow> ('r, 'p, 'o, 'e, 'n) telworld" where
  "SetGlobalConfig c w = w\<lparr>globalConfig := Some c\<rparr>"

text \<open>The end of \<open>Apply\<close>: what is set becomes global, what is not is taken from there.\<close>

definition apply_globals ::
  "('r, 'p, 'o, 'e, 'n) tellib \<Rightarrow> ('r, 'p, 'o, 'e, 'n) TConfig \<times> ('r, 'p, 'o, 'e, 'n) telworld \<Rightarrow>
   ('r, 'p, 'o, 'e, 'n) TConfig \<times> ('r, 'p, 'o, 'e, 'n) telworld" where
  "apply_globals lib = (\<lambda>(c, w).
     let (c, w) = (case TracerProvider c of Some p \<Rightarrow> (c, w\<lparr>otel_tracer := p\<rparr>) | None \<Rightarrow> (c\<lparr>TracerProvider := Some (otel_tracer w)\<rparr>, w));
         c = c\<lparr>Tracer := Some (the (TracerProvider c), ServiceName c)\<rparr>;
         (c, w) = (case MeterProvider c of Some p \<Rightarrow> (c, w\<lparr>otel_meter := p\<rparr>) | None \<Rightarrow> (c\<lparr>MeterProvider := Some (otel_meter w)\<rparr>, w));
         c = c\<lparr>Meter := Some (the (MeterProvider c), ServiceName c)\<rparr>;
         c = (if Propagator c = ''b3'' then c\<lparr>TextMapPropagator := Some (tl_b3 lib)\<rparr> else c);
         (c, w) = (case TextMapPropagator c of Some p \<Rightarrow> (c, w\<lparr>otel_propagator := p\<rparr>) | None \<Rightarrow> (c\<lparr>TextMapPropagator := Some (otel_propagator w)\<rparr>, w))
     in (c, if globalConfig w = None then SetGlobalConfig c w else w))"

text \<open>\<open>if err != nil { panic(err) }\<close>.\<close>

definition or_panic :: "string \<Rightarrow> 'a outcome \<Rightarrow> 'a outcome" where
  "or_panic m r = (case r of Ret x \<Rightarrow> Ret x | Fail err \<Rightarrow> Panic m | Panic p \<Rightarrow> Panic p)"

lemma or_panic_Ret: "or_panic m r = Ret x \<longleftrightarrow> r = Ret x"
  by (cases r) (simp_all add: or_panic_def)

definition TConfig_Apply ::
  "('r, 'p, 'o, 'e, 'n) tellib \<Rightarrow> (string \<Rightarrow> string) \<Rightarrow> (('r, 'p, 'o, 'e, 'n) TConfig \<Rightarrow> ('r, 'p, 'o, 'e, 'n) TConfig outcome) \<Rightarrow>
   string \<times> string \<times> string \<Rightarrow> ('r, 'p, 'o, 'e, 'n) TConfig \<times> ('r, 'p, 'o, 'e, 'n) telworld \<Rightarrow>
   (('r, 'p, 'o, 'e, 'n) TConfig \<times> ('r, 'p, 'o, 'e, 'n) telworld) outcome" where
  "TConfig_Apply lib env unmarshal root = (\<lambda>(c, w).
     go_bind (or_panic ''Unmarshal'' (unmarshal c)) (\<lambda>c.
       let c = apply_names root c;
           res = (case Resource c of Some r \<Rightarrow> r | None \<Rightarrow> getDefaultResource lib c)
       in go_bind (parseEnvKeys env c) (\<lambda>c.
          go_bind (or_panic ''mergeResource'' (mergeResource lib res c)) (\<lambda>c.
          go_bind (applyTracerProvider lib c) (\<lambda>c.
          go_bind (applyMetricProvider lib c) (\<lambda>c. Ret (apply_globals lib (c, w))))))))"

text \<open>The options, applied before the configuration.\<close>

datatype ('r, 'p, 'o, 'e, 'n) TOption =
    WithName string | WithTracerProvider "'p option" "('p, 'e, 'n) tshutdown option" | WithTracerProviderOptions "'o list"
  | WithMeterProviderOptions "'o list" | WithMeterProvider "'p option" "('p, 'e, 'n) tshutdown option" | WithPropagator "'p option"
  | WithResource "'r option" | WithResourceAttributes "(string \<rightharpoonup> string) option"

definition add_shutdown :: "('p, 'e, 'n) tshutdown option \<Rightarrow> ('r, 'p, 'o, 'e, 'n) TConfig \<Rightarrow> ('r, 'p, 'o, 'e, 'n) TConfig" where
  "add_shutdown s c = (case s of Some f \<Rightarrow> c\<lparr>shutdowns := shutdowns c @ [f]\<rparr> | None \<Rightarrow> c)"

fun apply_option :: "('r, 'p, 'o, 'e, 'n) TOption \<Rightarrow> ('r, 'p, 'o, 'e, 'n) TConfig \<Rightarrow> ('r, 'p, 'o, 'e, 'n) TConfig" where
  "apply_option (WithName n) c = c\<lparr>ServiceName := n\<rparr>"
| "apply_option (WithTracerProvider p s) c = add_shutdown s (case p of Some x \<Rightarrow> c\<lparr>TracerProvider := Some x\<rparr> | None \<Rightarrow> c)"
| "apply_option (WithTracerProviderOptions os) c = c\<lparr>tops := os\<rparr>"
| "apply_option (WithMeterProviderOptions os) c = c\<lparr>mops := os\<rparr>"
| "apply_option (WithMeterProvider p s) c = add_shutdown s (case p of Some x \<Rightarrow> c\<lparr>MeterProvider := Some x\<rparr> | None \<Rightarrow> c)"
| "apply_option (WithPropagator p) c = (case p of Some x \<Rightarrow> c\<lparr>TextMapPropagator := Some x\<rparr> | None \<Rightarrow> c)"
| "apply_option (WithResource r) c = c\<lparr>Resource := r\<rparr>"
| "apply_option (WithResourceAttributes m) c = c\<lparr>resourceAttributes := m\<rparr>"

definition new_config :: "('r, 'p, 'o, 'e, 'n) TConfig" where
  "new_config = \<lparr>ServiceName = [], ServiceNamespace = [], ServiceVersion = [], AttributesEnvKeys = [], TraceExporter = [], MetricExporter = [],
     MetricPeriodicReaderInterval = 30 * 1000000000, Propagator = [], Resource = None, TracerProvider = None, Tracer = None, MeterProvider = None,
     Meter = None, TextMapPropagator = None, Headers = Map.empty, resourceAttributes = Some Map.empty, mops = [], tops = [], shutdowns = [], asGlobal = True\<rparr>"

definition NewTelConfig ::
  "('r, 'p, 'o, 'e, 'n) tellib \<Rightarrow> (string \<Rightarrow> string) \<Rightarrow> (('r, 'p, 'o, 'e, 'n) TConfig \<Rightarrow> ('r, 'p, 'o, 'e, 'n) TConfig outcome) \<Rightarrow>
   string \<times> string \<times> string \<Rightarrow> ('r, 'p, 'o, 'e, 'n) TOption list \<Rightarrow> ('r, 'p, 'o, 'e, 'n) telworld \<Rightarrow>
   (('r, 'p, 'o, 'e, 'n) TConfig \<times> ('r, 'p, 'o, 'e, 'n) telworld) outcome" where
  "NewTelConfig lib env unmarshal root opts w = TConfig_Apply lib env unmarshal root (fold apply_option opts new_config, w)"

text \<open>The shutdown runs every function once; their errors are logged only.  \<open>run\<close> is the result of one.\<close>

definition TConfig_Shutdown :: "(('p, 'e, 'n) tshutdown \<Rightarrow> go_error option) \<Rightarrow> ('r, 'p, 'o, 'e, 'n) TConfig \<Rightarrow> go_error list" where
  "TConfig_Shutdown run c = List.map_filter run (shutdowns c)"

section \<open>Carriers and spans\<close>

text \<open>A carrier of texts from a context, if there is a global configuration with a propagator; \<open>'x\<close> are contexts and \<open>'s\<close> spans.\<close>

record ('p, 'x, 's) tracing =
  tr_Inject :: "'p \<Rightarrow> 'x \<Rightarrow> (string \<rightharpoonup> string)"
  tr_Extract :: "'p \<Rightarrow> 'x \<Rightarrow> (string \<rightharpoonup> string) \<Rightarrow> 'x"
  tr_Start :: "'p \<times> string \<Rightarrow> 'x \<Rightarrow> string \<Rightarrow> 'x \<times> 's"
  tr_noop :: 's

definition Inject :: "('p, 'x, 's) tracing \<Rightarrow> ('r, 'p, 'o, 'e, 'n) telworld \<Rightarrow> 'x \<Rightarrow> (string \<rightharpoonup> string) option" where
  "Inject tr w ctx =
     (case globalConfig w of
        None \<Rightarrow> None
      | Some c \<Rightarrow> (case TextMapPropagator c of None \<Rightarrow> None | Some p \<Rightarrow> Some (tr_Inject tr p ctx)))"

definition StartWith ::
  "('p, 'x, 's) tracing \<Rightarrow> ('r, 'p, 'o, 'e, 'n) telworld \<Rightarrow> 'x \<Rightarrow> string \<Rightarrow> (string \<rightharpoonup> string) option \<Rightarrow> ('x \<times> 's) outcome" where
  "StartWith tr w ctx spanName carrier =
     (case globalConfig w of
        None \<Rightarrow> Ret (ctx, tr_noop tr)
      | Some c \<Rightarrow>
          (case Tracer c of
             None \<Rightarrow> Ret (ctx, tr_noop tr)
           | Some t \<Rightarrow>
               (case carrier of
                  None \<Rightarrow> Ret (tr_Start tr t ctx spanName)
                | Some m \<Rightarrow>
                    (case TextMapPropagator c of
                       None \<Rightarrow> Panic ''invalid memory address or nil pointer dereference''
                     | Some p \<Rightarrow> Ret (tr_Start tr t (tr_Extract tr p ctx m) spanName)))))"

end
