(* ===== verification/Otel.thy ===== *)
theory Otel
  imports Telemetry
begin

text \<open>
  Model of the users of the telemetry: the web middleware that traces requests (\<open>contrib/telemetry/otelweb\<close>) and the logger that adds log
  entries to spans (\<open>contrib/telemetry/otellog\<close>), with the properties of these and of the configuration.
\<close>

section \<open>The web middleware\<close>

datatype 'f spanEvent =
    SpanAttributes "'f keyValue list" | SpanStatus string string | SpanError go_error | SpanLog "'f keyValue list" | SpanEnd

text \<open>A request body: none, or bytes that end with an error or, without one, with the end of the stream.\<close>

datatype reqBody = NoBody | ReqBody string "go_error option"

text \<open>What the middleware changes and reads of the gin context and its request; \<open>'x\<close> are contexts.\<close>

record ('x, 'f) webreq =
  wr_ctx :: 'x
  wr_body :: reqBody
  wr_FullPath :: string
  wr_Method :: string
  wr_Status :: int
  wr_Errors :: "go_error list"
  wr_span :: "'f spanEvent list"

record otelMiddleware =
  RecordRequestBody :: bool
  MaxBodySize :: int

definition New_otelweb :: otelMiddleware where "New_otelweb = \<lparr>RecordRequestBody = False, MaxBodySize = 4096\<rparr>"

definition span_add :: "'f spanEvent list \<Rightarrow> ('x, 'f) webreq \<Rightarrow> ('x, 'f) webreq" where
  "span_add es c = c\<lparr>wr_span := wr_span c @ es\<rparr>"

definition spanName :: "('x, 'f) webreq \<Rightarrow> string" where
  "spanName c = (if wr_FullPath c = [] then ''HTTP '' @ wr_Method c @ '' route not found'' else wr_FullPath c)"

text \<open>The body is read to its end or its error, recorded up to a size, and put back as far as it was read.\<close>

definition record_body :: "otelMiddleware \<Rightarrow> ('x, 'f) webreq \<Rightarrow> ('x, 'f) webreq \<times> string option" where
  "record_body h c =
     (if \<not> RecordRequestBody h then (c, None)
      else (case wr_body c of
              NoBody \<Rightarrow> (c, None)
            | ReqBody body err \<Rightarrow>
                (if int (length body) > MaxBodySize h then
                   (if MaxBodySize h < 0 then (c\<lparr>wr_body := ReqBody [] None\<rparr>, Some ''slice bounds out of range'')
                    else ((span_add [SpanAttributes [(''http.request.body'', AString (take (nat (MaxBodySize h)) body))]] c)\<lparr>wr_body := ReqBody body None\<rparr>, None))
                 else ((span_add [SpanAttributes [(''http.request.body'', AString body)]] c)\<lparr>wr_body := ReqBody body None\<rparr>, None))))"

text \<open>After the handlers: the status and the recorded errors.  \<open>etext\<close> is the text of the list of errors.\<close>

definition span_result :: "(int \<Rightarrow> 'f keyValue list) \<Rightarrow> (int \<Rightarrow> string \<times> string) \<Rightarrow> (go_error list \<Rightarrow> string) \<Rightarrow> ('x, 'f) webreq \<Rightarrow> ('x, 'f) webreq" where
  "span_result attrs status etext c =
     (let c = span_add [SpanAttributes (attrs (wr_Status c)), (case status (wr_Status c) of (s, m) \<Rightarrow> SpanStatus s m)] c in
      if 0 < length (wr_Errors c) then span_add (SpanStatus ''Error'' (etext (wr_Errors c)) # map SpanError (wr_Errors c)) c else c)"

text \<open>
  The handler: \<open>extract\<close> reads the headers into a context, \<open>start\<close> starts a span in it, \<open>next\<close> is the rest of the chain, which may panic.  The
  deferred functions end the span and restore the context in any case.
\<close>

definition otel_middleware ::
  "otelMiddleware \<Rightarrow> ('x \<Rightarrow> 'x) \<Rightarrow> (string \<Rightarrow> 'x \<Rightarrow> 'x) \<Rightarrow> (int \<Rightarrow> 'f keyValue list) \<Rightarrow> (int \<Rightarrow> string \<times> string) \<Rightarrow> (go_error list \<Rightarrow> string) \<Rightarrow>
   (('x, 'f) webreq \<Rightarrow> ('x, 'f) webreq \<times> string option) \<Rightarrow> ('x, 'f) webreq \<Rightarrow> ('x, 'f) webreq \<times> string option" where
  "otel_middleware h extract start attrs status etext next c =
     (let savedCtx = wr_ctx c;
          ctx = start (spanName c) (extract savedCtx);
          (c, p) = record_body h c;
          (c, p) = (case p of
                      Some m \<Rightarrow> (c, Some m)
                    | None \<Rightarrow> (case next (c\<lparr>wr_ctx := ctx\<rparr>) of
                                 (c, Some m) \<Rightarrow> (c, Some m)
                               | (c, None) \<Rightarrow> (span_result attrs status etext c, None)));
          c = span_add [SpanEnd] c
      in (c\<lparr>wr_ctx := savedCtx\<rparr>, p))"

lemma span_add_sel [simp]: "wr_span (span_add es c) = wr_span c @ es" "wr_ctx (span_add es c) = wr_ctx c" "wr_body (span_add es c) = wr_body c"
  by (simp_all add: span_add_def)

text \<open>The span is ended last and the context of the request restored, also when a handler or the middleware itself panics.\<close>

lemma span_always_ended:
  assumes "otel_middleware h extract start attrs status etext next c = (c', p)"
  shows "wr_span c' \<noteq> [] \<and> last (wr_span c') = SpanEnd \<and> wr_ctx c' = wr_ctx c"
  using assms by (auto simp: otel_middleware_def Let_def split: prod.splits option.splits)

text \<open>The handlers get the body that was sent, when it could be read.\<close>

lemma handlers_read_body:
  assumes "wr_body c = ReqBody body None" and "0 \<le> MaxBodySize h"
  shows "wr_body (fst (record_body h c)) = wr_body c" and "snd (record_body h c) = None"
  using assms by (auto simp: record_body_def)

text \<open>
  If the body ends with an error, as when the client breaks off, the recording drops the error: the handlers read the first part of the
  body as if it were all of it.
\<close>

lemma truncated_body_looks_complete:
  assumes "wr_body c = ReqBody body (Some err)" and "RecordRequestBody h" and "0 \<le> MaxBodySize h"
  shows "wr_body (fst (record_body h c)) = ReqBody body None" and "snd (record_body h c) = None"
  using assms by (auto simp: record_body_def)

section \<open>The logger\<close>

text \<open>
  Fields by their types, byte strings among the strings; the texts of complex numbers, times, arrays, objects and other values are what the text encoder makes of them, or its error.
\<close>

datatype 'f zapField =
    FNamespace string | FSkip | FBool string int | FInteger string int | FFloat string 'f | FEncoded string string | FString string string
  | FStringer string string | FTime string int | FError string string string | FReflect string "'f goval"
  | FArray string "string outcome" | FObject string "string outcome" | FUnknown string "string outcome"

fun appendField :: "'f keyValue list \<Rightarrow> 'f zapField \<Rightarrow> (go_error \<Rightarrow> string) \<Rightarrow> 'f keyValue list outcome" where
  "appendField attrs (FNamespace k) etext = Ret attrs"
| "appendField attrs FSkip etext = Ret attrs"
| "appendField attrs (FBool k i) etext = Ret (attrs @ [(k, ABool (i = 1))])"
| "appendField attrs (FInteger k i) etext = Ret (attrs @ [(k, AInt i)])"
| "appendField attrs (FFloat k f) etext = Ret (attrs @ [(k, AFloat f)])"
| "appendField attrs (FEncoded k s) etext = Ret (attrs @ [(k, AString s)])"
| "appendField attrs (FString k s) etext = Ret (attrs @ [(k, AString s)])"
| "appendField attrs (FStringer k s) etext = Ret (attrs @ [(k, AString s)])"
| "appendField attrs (FTime k i) etext = Ret (attrs @ [(k, AInt i)])"
| "appendField attrs (FError k typ msg) etext = Ret (attrs @ [(''exception.type'', AString typ), (''exception.message'', AString msg)])"
| "appendField attrs (FReflect k v) etext = go_bind (Attribute k v) (\<lambda>a. Ret (attrs @ [a]))"
| "appendField attrs (FArray k r) etext =
     (case r of Ret s \<Rightarrow> Ret (attrs @ [(k, AString s)])
      | Fail e \<Rightarrow> Ret (attrs @ [(k @ ''_error'', AString (''otelzap: unable to marshal array: '' @ etext e))]) | Panic m \<Rightarrow> Panic m)"
| "appendField attrs (FObject k r) etext =
     (case r of Ret s \<Rightarrow> Ret (attrs @ [(k, AString s)])
      | Fail e \<Rightarrow> Ret (attrs @ [(k @ ''_error'', AString ''otelzap: zapcore.ObjectMarshalerType is not implemented'')]) | Panic m \<Rightarrow> Panic m)"
| "appendField attrs (FUnknown k r) etext =
     (case r of Ret s \<Rightarrow> Ret (attrs @ [(k, AString s)])
      | Fail e \<Rightarrow> Ret (attrs @ [(k @ ''_error'', AString (''otelzap: unable to encode field: '' @ etext e))]) | Panic m \<Rightarrow> Panic m)"

fun appendFields :: "'f keyValue list \<Rightarrow> 'f zapField list \<Rightarrow> (go_error \<Rightarrow> string) \<Rightarrow> 'f keyValue list outcome" where
  "appendFields attrs [] etext = Ret attrs"
| "appendFields attrs (f # fs) etext = go_bind (appendField attrs f etext) (\<lambda>attrs. appendFields attrs fs etext)"

text \<open>Levels are zap's numbers.\<close>

definition CapitalString :: "int \<Rightarrow> string" where
  "CapitalString l =
     (if l = -1 then ''DEBUG'' else if l = 0 then ''INFO'' else if l = 1 then ''WARN'' else if l = 2 then ''ERROR''
      else if l = 3 then ''DPANIC'' else if l = 4 then ''PANIC'' else if l = 5 then ''FATAL'' else ''LEVEL('' @ Itoa l @ '')'')"

definition levelString :: "int \<Rightarrow> string" where
  "levelString lvl = (if lvl = 3 then ''PANIC'' else CapitalString lvl)"

text \<open>The entry that the logger's check gives: the caller, if it is defined, and the stack.\<close>

record checkedEntry =
  ce_Caller :: "(string \<times> string \<times> int) option"
  ce_Stack :: string

definition log_attributes :: "checkedEntry \<Rightarrow> int \<Rightarrow> string \<Rightarrow> 'f keyValue list" where
  "log_attributes ce lvl msg =
     [(''log.severity'', AString (levelString lvl)), (''log.message'', AString msg)]
     @ (case ce_Caller ce of
          Some (file, f, line) \<Rightarrow> [(''code.filepath'', AString file), (''code.function'', AString f), (''code.lineno'', AInt line)]
        | None \<Rightarrow> [])
     @ (if ce_Stack ce \<noteq> [] then [(''exception.stacktrace'', AString (ce_Stack ce))] else [])"

text \<open>
  Logging in a context with the events on its span, if it is recording, and the fields of the entry, if it is enabled: \<open>check\<close> tells whether
  it is, \<open>trace\<close> is the key and the number of the trace, if the logger adds it.
\<close>

definition SpanLogFields ::
  "(go_error \<Rightarrow> string) \<Rightarrow> bool \<Rightarrow> (int \<Rightarrow> string \<Rightarrow> checkedEntry option) \<Rightarrow> (string \<times> string) option \<Rightarrow> int \<Rightarrow> string \<Rightarrow> 'f zapField list \<Rightarrow>
   ('f spanEvent list \<times> 'f zapField list option) outcome" where
  "SpanLogFields etext recording check trace lvl msg flds =
     (if \<not> recording then Ret ([], if check lvl msg \<noteq> None then Some flds else None)
      else go_bind (appendFields (replicate (length flds) ([], AInvalid)) flds etext) (\<lambda>attrs.
        case check lvl msg of
          None \<Rightarrow> Ret ([], None)
        | Some ce \<Rightarrow>
            Ret ([SpanLog (attrs @ log_attributes ce lvl msg)] @ (if lvl \<ge> 2 then [SpanStatus ''Error'' msg] else []),
                 Some (flds @ (case trace of Some (k, t) \<Rightarrow> [FString k t] | None \<Rightarrow> [])))))"

text \<open>Every field adds its attributes behind those that are there.\<close>

lemma appendField_prefix: "appendField attrs f etext = go_bind (appendField [] f etext) (\<lambda>as. Ret (attrs @ as))"
  by (cases f) (auto split: outcome.split simp: go_bind_assoc)

lemma appendFields_prefix: "appendFields attrs fs etext = go_bind (appendFields [] fs etext) (\<lambda>as. Ret (attrs @ as))"
proof (induction fs arbitrary: attrs)
  case (Cons f fs)
  show ?case
  proof (cases "appendField [] f etext")
    case (Ret as)
    have "appendFields (attrs @ as) fs etext = go_bind (appendFields [] fs etext) (\<lambda>bs. Ret ((attrs @ as) @ bs))" by (rule Cons)
    moreover have "appendFields as fs etext = go_bind (appendFields [] fs etext) (\<lambda>bs. Ret (as @ bs))" by (rule Cons)
    ultimately show ?thesis
      by (simp add: appendField_prefix [of attrs] Ret) (cases "appendFields [] fs etext"; simp)
  qed (simp_all add: appendField_prefix [of attrs])
qed simp

text \<open>
  The list of attributes starts with as many empty ones as there are fields: it is made with that length and then appended to.
\<close>

lemma empty_attributes_first:
  assumes "SpanLogFields etext True check trace lvl msg flds = Ret (SpanLog attrs # es, out)"
  shows "take (length flds) attrs = replicate (length flds) ([], AInvalid)"
proof -
  obtain as where "appendFields (replicate (length flds) ([], AInvalid)) flds etext = Ret as"
      and a: "take (length as) attrs = as"
    using assms by (auto simp: SpanLogFields_def go_bind_Ret_iff split: option.splits)
  moreover from this(1) obtain bs where "as = replicate (length flds) ([], AInvalid) @ bs"
    by (subst (asm) appendFields_prefix) (auto simp: go_bind_Ret_iff)
  ultimately show ?thesis by (metis append_eq_conv_conj length_replicate min.absorb1 length_append le_add1 take_take)
qed

text \<open>On a span that does not record, and for an entry that is not enabled, nothing is added.\<close>

lemma no_event:
  assumes "SpanLogFields etext recording check trace lvl msg flds = Ret (es, out)" and "\<not> recording \<or> check lvl msg = None"
  shows "es = []"
  using assms by (auto simp: SpanLogFields_def go_bind_Ret_iff split: if_splits option.splits)

section \<open>Attributes and configuration\<close>

text \<open>Integers keep their value as attributes, but for the upper half of the unsigned ones, which come out negative.\<close>

lemma sint_of_uint: "sint (w :: 64 word) = (if uint w < 2 ^ 63 then uint w else uint w - 2 ^ 64)"
proof -
  have "uint w < 2 ^ 64" and "0 \<le> uint w" using uint_lt2p [of w] by simp_all
  moreover from this have "(uint w + 2 ^ 63) mod 2 ^ 64 = (if uint w < 2 ^ 63 then uint w + 2 ^ 63 else uint w + 2 ^ 63 - 2 ^ 64)"
    by (simp add: mod_pos_geq)
  ultimately show ?thesis by (simp add: sint_uint signed_take_bit_eq_take_bit_shift take_bit_eq_mod)
qed

lemma unsigned_attribute:
  "Attribute k (VUint64 w) = Ret (k, AInt (if uint w < 2 ^ 63 then uint w else uint w - 2 ^ 64))"
  by (simp add: sint_of_uint)

text \<open>A sequence of a supported kind whose type has a name makes the conversion panic.\<close>

lemma named_sequence_panics:
  "es \<noteq> EOthers \<Longrightarrow> Attribute k (VSeq False es) = Panic ''interface conversion''"
  by (cases es) (simp_all add: seq_attribute_def)

text \<open>
  With resources as maps where the second of a merge wins, an attribute of the options or the environment keys comes before the standard
  environment, this before the resource of the options, and this before the defaults.
\<close>

lemma resource_priority:
  assumes "\<And>a b. tl_Merge lib a b = Ret (a ++ b)" and "\<And>m. tl_Attributes lib m = m"
    and "mergeResource lib res c = Ret c'" and "resourceAttributes c = Some m"
  shows "the (Resource c') k = (case m k of Some v \<Rightarrow> Some v | None \<Rightarrow> (case tl_Environment lib k of Some v \<Rightarrow> Some v
           | None \<Rightarrow> (case res k of Some v \<Rightarrow> Some v | None \<Rightarrow> getDefaultResource lib c k)))"
  using assms by (auto simp: mergeResource_def map_add_def split: option.splits)

text \<open>A provider that an exporter replaces is still shut down, before the new one; shutdowns are only ever added.\<close>

lemma tracer_shutdowns:
  assumes "applyTracerProvider lib c = Ret c'"
  shows "\<exists>ss. shutdowns c' = shutdowns c @ ss \<and> length ss \<le> 1"
  using assms by (auto simp: applyTracerProvider_def NewTraceInOption_def Let_def split: if_splits outcome.splits prod.splits)

text \<open>
  The providers for OTLP are not shut down themselves: the function that is registered shuts their exporter down, and what the provider has
  collected and not yet exported is lost.  That of the metrics leaves the connection open too.
\<close>

lemma otlp_shutdowns:
  "NewOtlpTracer lib c = Ret (tp, s) \<Longrightarrow> \<exists>e n. s = ShutExporterClose e n"
  "NewOtlpMetric lib c = Ret (mp, s) \<Longrightarrow> \<exists>e. s = ShutExporter e"
  by (auto simp: NewOtlpTracer_def NewOtlpMetric_def go_bind_Ret_iff)

text \<open>
  After a configuration was applied its tracer, meter and propagator are set and are the global ones of the library; the global configuration is the
  first that was applied.
\<close>

lemma apply_globals_spec:
  assumes "apply_globals lib (c, w) = (c', w')"
  shows "TracerProvider c' = Some (otel_tracer w')" and "Tracer c' = Some (otel_tracer w', ServiceName c')"
    and "MeterProvider c' = Some (otel_meter w')" and "TextMapPropagator c' = Some (otel_propagator w')"
    and "globalConfig w' = (case globalConfig w of None \<Rightarrow> Some c' | Some g \<Rightarrow> Some g)"
  using assms by (auto simp: apply_globals_def Let_def SetGlobalConfig_def split: option.splits prod.splits if_splits)

text \<open>So spans can be started from any carrier once a configuration was applied.\<close>

lemma start_never_panics:
  assumes "TConfig_Apply lib env unmarshal root (c, w) = Ret (c', w')" and "globalConfig w = None"
  shows "StartWith tr w' ctx n carrier \<noteq> Panic m"
proof -
  obtain c0 where "apply_globals lib (c0, w) = (c', w')"
    using assms(1) by (auto simp: TConfig_Apply_def Let_def go_bind_Ret_iff or_panic_Ret)
  from apply_globals_spec [OF this] assms(2) show ?thesis by (simp add: StartWith_def split: option.split)
qed

text \<open>A nil map for the attributes makes the reading of environment keys panic, as soon as one of them is set.\<close>

lemma nil_attributes_panic:
  assumes "resourceAttributes c = None" and "AttributesEnvKeys c = k" and "Split k ''|'' = [k]" and "k \<noteq> []" and "env (TrimSpace k) \<noteq> []"
  shows "parseEnvKeys env c = Panic ''assignment to entry in nil map''"
  using assms by (simp add: parseEnvKeys_def)

text \<open>An exporter with another name than the two known ones changes nothing, without an error.\<close>

lemma unknown_exporter_ignored:
  assumes "TraceExporter c \<noteq> ''otlp''" and "TraceExporter c \<noteq> ''stdout''" and "tops c = []"
  shows "applyTracerProvider lib c = Ret c"
  using assms by (simp add: applyTracerProvider_def)

end
