(* ===== verification/WocoTypes.thy ===== *)
theory WocoTypes
  imports GoStrings GoPath "HOL-Library.Word"
begin

text \<open>
  Model of \<open>cmd/woco/code\<close>, the part on types: the comparison of Go types (\<open>compare.go\<close>), the names of packages and types (\<open>util.go\<close>) and the
  types of fields (\<open>type.go\<close>).
\<close>

section \<open>Names\<close>

text \<open>\<open>github.com/package/blah.Type\<close> into package and type.\<close>

definition PkgAndType :: "string \<Rightarrow> string \<times> string" where
  "PkgAndType name =
     (let parts = Split name ''.'' in
      if length parts = 1 then ([], name) else (Join (butlast parts) ''.'', last parts))"

text \<open>The stars and brackets in front of a type: the longest match of \<open>(\*|\[\])*\<close>.\<close>

fun modifiers :: "string \<Rightarrow> string" where
  "modifiers (c # s) =
     (if c = CHR ''*'' then c # modifiers s
      else if c = CHR ''['' then (case s of d # r \<Rightarrow> if d = CHR '']'' then c # d # modifiers r else [] | [] \<Rightarrow> []) else [])"
| "modifiers [] = []"

definition NormalizeVendor :: "string \<Rightarrow> string" where
  "NormalizeVendor pkg =
     (let m = modifiers pkg; rest = drop (length m) pkg; parts = Split rest ''/vendor/'' in m @ last parts)"

definition PkgShortName :: "string \<Rightarrow> string" where
  "PkgShortName pkgPath = last (Split pkgPath ''/'')"

text \<open>The part of a text before and behind the last character of a set.\<close>

fun split_last :: "(char \<Rightarrow> bool) \<Rightarrow> string \<Rightarrow> (string \<times> string) option" where
  "split_last p [] = None"
| "split_last p (c # s) =
     (case split_last p s of Some (a, b) \<Rightarrow> Some (c # a, b) | None \<Rightarrow> if p c then Some ([], s) else None)"

abbreviation is_dot :: "char \<Rightarrow> bool" where "is_dot c \<equiv> c = CHR ''.''"
abbreviation is_modifier :: "char \<Rightarrow> bool" where "is_modifier c \<equiv> c = CHR '']'' \<or> c = CHR ''*''"

definition PkgName :: "string \<Rightarrow> string" where
  "PkgName ident =
     (case split_last is_dot ident of
        None \<Rightarrow> []
      | Some (s, _) \<Rightarrow> (case split_last is_modifier s of Some (_, t) \<Rightarrow> t | None \<Rightarrow> s))"

definition TypeName :: "string \<Rightarrow> string" where
  "TypeName ident =
     (case split_last is_modifier ident of
        None \<Rightarrow> (case split_last is_dot ident of Some (_, t) \<Rightarrow> t | None \<Rightarrow> ident)
      | Some (_, t) \<Rightarrow> t)"

text \<open>\<open>[^\w]\<close> replaced by an underscore, rune by rune.\<close>

definition is_word_byte :: "nat \<Rightarrow> bool" where
  "is_word_byte r \<longleftrightarrow> (97 \<le> r \<and> r \<le> 122) \<or> (65 \<le> r \<and> r \<le> 90) \<or> (48 \<le> r \<and> r \<le> 57) \<or> r = 95"

definition SanitizePackageName :: "string \<Rightarrow> string" where
  "SanitizePackageName pkg = concat (map (\<lambda>(r, bs). if is_word_byte r then bs else ''_'') (runes (path_Base pkg)))"

section \<open>Comparison of types\<close>

text \<open>
  The types of \<open>go/types\<close>.  A named type has the path of its package, which a predeclared one as \<open>error\<close> lacks, and its name; what is below
  it is not compared.  \<open>TOther\<close> are the remaining kinds, by the name of their Go type.
\<close>

datatype gotype =
    is_TPointer: TPointer (ptr_elem: gotype) | TSlice gotype | TArray int gotype | TBasic nat string | TStruct "(string \<times> gotype) list"
  | TTuple "gotype list" | TSignature "gotype list" "gotype list" | TInterface "(string \<times> gotype) list" | TMap gotype gotype | TChan nat gotype
  | TNamed "string option" string | TOther string

definition InvalidKind :: nat where "InvalidKind = 0"

abbreviation mismatch :: "unit outcome" where "mismatch \<equiv> Fail (Errorf ''type mismatch'')"

function (sequential) CompatibleTypes :: "gotype \<Rightarrow> gotype \<Rightarrow> unit outcome"
  and compat_fields :: "string \<Rightarrow> (string \<times> gotype) list \<Rightarrow> (string \<times> gotype) list \<Rightarrow> unit outcome"
  and compat_tuple :: "gotype list \<Rightarrow> gotype list \<Rightarrow> unit outcome" where
  "CompatibleTypes expected actual =
     (if is_TPointer expected \<and> is_TPointer actual then CompatibleTypes (ptr_elem expected) (ptr_elem actual)
      else if is_TPointer expected \<and> \<not> is_TPointer actual then CompatibleTypes (ptr_elem expected) actual
      else if \<not> is_TPointer expected \<and> is_TPointer actual then CompatibleTypes expected (ptr_elem actual)
      else
        (case expected of
           TSlice e \<Rightarrow> (case actual of TSlice a \<Rightarrow> CompatibleTypes e a | _ \<Rightarrow> mismatch)
         | TArray n e \<Rightarrow>
             (case actual of
                TArray m a \<Rightarrow> (if n \<noteq> m then Fail (Errorf ''array length differs'') else CompatibleTypes e a)
              | _ \<Rightarrow> mismatch)
         | TBasic k n \<Rightarrow>
             (case actual of
                TBasic k' n' \<Rightarrow> (if k' \<noteq> k then Fail (Errorf (''basic kind differs, '' @ n @ '' != '' @ n')) else Ret ())
              | _ \<Rightarrow> mismatch)
         | TStruct fs \<Rightarrow>
             (case actual of
                TStruct gs \<Rightarrow>
                  (if length fs \<noteq> length gs then Fail (Errorf ''number of struct fields differ'')
                   else compat_fields ''struct field'' fs gs)
              | _ \<Rightarrow> mismatch)
         | TTuple es \<Rightarrow> (case actual of TTuple as \<Rightarrow> compat_tuple es as | _ \<Rightarrow> mismatch)
         | TSignature ps rs \<Rightarrow>
             (case actual of
                TSignature ps' rs' \<Rightarrow> go_bind (compat_tuple ps ps') (\<lambda>_. compat_tuple rs rs')
              | _ \<Rightarrow> mismatch)
         | TInterface ms \<Rightarrow>
             (case actual of
                TInterface ns \<Rightarrow>
                  (if length ms \<noteq> length ns then Fail (Errorf ''interface method count differs'')
                   else compat_fields ''interface method'' ms ns)
              | _ \<Rightarrow> mismatch)
         | TMap k e \<Rightarrow>
             (case actual of TMap k' e' \<Rightarrow> go_bind (CompatibleTypes k k') (\<lambda>_. CompatibleTypes e e') | _ \<Rightarrow> mismatch)
         | TChan d e \<Rightarrow> (case actual of TChan d' a \<Rightarrow> CompatibleTypes e a | _ \<Rightarrow> mismatch)
         | TNamed p n \<Rightarrow>
             (case actual of
                TNamed p' n' \<Rightarrow>
                  (case (p, p') of
                     (Some q, Some q') \<Rightarrow>
                       (if NormalizeVendor q \<noteq> NormalizeVendor q' then Fail (Errorf ''package name of named type differs'')
                        else if n \<noteq> n' then Fail (Errorf ''named type name differs'')
                        else Ret ())
                   | _ \<Rightarrow> Panic ''invalid memory address or nil pointer dereference'')
              | TBasic k _ \<Rightarrow> (if k = InvalidKind then Ret () else mismatch)
              | _ \<Rightarrow> mismatch)
         | _ \<Rightarrow> Fail (Errorf ''missing support'')))"
| "compat_fields what ((n, e) # es) ((n', a) # as) =
     (if n \<noteq> n' then Fail (Errorf (what @ '' name differs''))
      else go_bind (CompatibleTypes e a) (\<lambda>_. compat_fields what es as))"
| "compat_fields what es as = Ret ()"
| "compat_tuple es as =
     (if length es \<noteq> length as then Fail (Errorf ''tuple length differs'')
      else (case es of
              [] \<Rightarrow> Ret ()
            | e # es' \<Rightarrow> (case as of [] \<Rightarrow> Ret () | a # as' \<Rightarrow> go_bind (CompatibleTypes e a) (\<lambda>_. compat_tuple es' as'))))"
  by pat_completeness auto
termination
  by (relation "measure (\<lambda>x. case x of
        Inl (e, a) \<Rightarrow> size e + size a
      | Inr (Inl (w, fs, gs)) \<Rightarrow> size_list (size_prod (\<lambda>_. 0) size) fs + size_list (size_prod (\<lambda>_. 0) size) gs
      | Inr (Inr (es, as)) \<Rightarrow> size_list size es + size_list size as)")
    (auto simp: is_TPointer_def)

declare CompatibleTypes.simps [simp del] compat_tuple.simps [simp del]

text \<open>
  The shape of a type is what is left of it without its pointers, the directions of its channels and the vendor directories of its packages.
\<close>

primrec shape :: "gotype \<Rightarrow> gotype" where
  "shape (TPointer t) = shape t"
| "shape (TSlice t) = TSlice (shape t)"
| "shape (TArray n t) = TArray n (shape t)"
| "shape (TBasic k n) = TBasic k []"
| "shape (TStruct fs) = TStruct (map (map_prod id shape) fs)"
| "shape (TTuple ts) = TTuple (map shape ts)"
| "shape (TSignature ps rs) = TSignature (map shape ps) (map shape rs)"
| "shape (TInterface ms) = TInterface (map (map_prod id shape) ms)"
| "shape (TMap k e) = TMap (shape k) (shape e)"
| "shape (TChan d e) = TChan 0 (shape e)"
| "shape (TNamed p n) = TNamed (map_option NormalizeVendor p) n"
| "shape (TOther s) = TOther s"

text \<open>Types that can be compared: no unsupported kinds, every named type in a package, and no references that are not resolved.\<close>

fun ready :: "gotype \<Rightarrow> bool" where
  "ready (TPointer t) = ready t"
| "ready (TSlice t) = ready t"
| "ready (TArray n t) = ready t"
| "ready (TBasic k n) = (k \<noteq> InvalidKind)"
| "ready (TStruct fs) = (\<forall>f \<in> set fs. ready (snd f))"
| "ready (TTuple ts) = (\<forall>t \<in> set ts. ready t)"
| "ready (TSignature ps rs) = ((\<forall>t \<in> set ps. ready t) \<and> (\<forall>t \<in> set rs. ready t))"
| "ready (TInterface ms) = (\<forall>f \<in> set ms. ready (snd f))"
| "ready (TMap k e) = (ready k \<and> ready e)"
| "ready (TChan d e) = ready e"
| "ready (TNamed p n) = (p \<noteq> None)"
| "ready (TOther s) = False"

text \<open>The type behind all pointers: the comparison does not see the pointers.\<close>

fun strip :: "gotype \<Rightarrow> gotype" where
  "strip (TPointer t) = strip t"
| "strip t = t"

lemma strip_simps [simp]: "\<not> is_TPointer (strip t)" "shape (strip t) = shape t" "ready (strip t) = ready t"
  by (induction t rule: strip.induct) auto

lemma strip_pointer: "is_TPointer t \<Longrightarrow> strip t = strip (ptr_elem t) \<and> size (ptr_elem t) < size t"
  by (cases t) auto

lemma strip_other: "\<not> is_TPointer t \<Longrightarrow> strip t = t"
  by (cases t) auto

lemma compatible_pointers:
  "is_TPointer e \<Longrightarrow> is_TPointer a \<Longrightarrow> CompatibleTypes e a = CompatibleTypes (ptr_elem e) (ptr_elem a)"
  "is_TPointer e \<Longrightarrow> \<not> is_TPointer a \<Longrightarrow> CompatibleTypes e a = CompatibleTypes (ptr_elem e) a"
  "\<not> is_TPointer e \<Longrightarrow> is_TPointer a \<Longrightarrow> CompatibleTypes e a = CompatibleTypes e (ptr_elem a)"
  by (subst CompatibleTypes.simps, simp)+

lemma compatible_strip: "CompatibleTypes e a = CompatibleTypes (strip e) (strip a)"
proof (induction "size e + size a" arbitrary: e a rule: less_induct)
  case less
  consider (both) "is_TPointer e" "is_TPointer a" | (left) "is_TPointer e" "\<not> is_TPointer a" | (right) "\<not> is_TPointer e" "is_TPointer a"
    | (none) "\<not> is_TPointer e" "\<not> is_TPointer a" by blast
  then show ?case
  proof cases
    case both
    then show ?thesis using less [of "ptr_elem e" "ptr_elem a"] strip_pointer [of e] strip_pointer [of a]
      by (simp add: compatible_pointers(1))
  next
    case left
    then show ?thesis using less [of "ptr_elem e" a] strip_pointer [of e] by (simp add: compatible_pointers(2))
  next
    case right
    then show ?thesis using less [of e "ptr_elem a"] strip_pointer [of a] by (simp add: compatible_pointers(3))
  next
    case none
    then show ?thesis by (simp add: strip_other)
  qed
qed

text \<open>Lists of types and of fields, given that their types are compared by shape.\<close>

definition by_shape :: "gotype \<Rightarrow> bool" where
  "by_shape t \<longleftrightarrow> (\<forall>a. ready t \<longrightarrow> ready a \<longrightarrow> (CompatibleTypes t a = Ret () \<longleftrightarrow> shape t = shape a))"

lemma compatible_tuples:
  assumes "\<forall>t \<in> set es. by_shape t \<and> ready t" and "\<forall>t \<in> set as. ready t"
  shows "compat_tuple es as = Ret () \<longleftrightarrow> map shape es = map shape as"
  using assms
proof (induction es arbitrary: as)
  case Nil
  then show ?case by (simp add: compat_tuple.simps [of "[]"])
next
  case (Cons e es)
  show ?case
  proof (cases as)
    case Nil
    then show ?thesis by (simp add: compat_tuple.simps [of "e # es"])
  next
    case (Cons a as')
    have "compat_tuple es as' = Ret () \<longleftrightarrow> map shape es = map shape as'" using Cons.IH Cons.prems Cons by simp
    moreover have "CompatibleTypes e a = Ret () \<longleftrightarrow> shape e = shape a" using Cons.prems Cons by (simp add: by_shape_def)
    moreover have "map shape es = map shape as' \<Longrightarrow> length es = length as'" by (rule map_eq_imp_length_eq)
    ultimately show ?thesis using Cons by (auto simp: compat_tuple.simps [of "e # es"] go_bind_Ret_iff)
  qed
qed

lemma compatible_fields:
  assumes "\<forall>f \<in> set fs. by_shape (snd f) \<and> ready (snd f)" and "\<forall>f \<in> set gs. ready (snd f)" and "length fs = length gs"
  shows "compat_fields w fs gs = Ret () \<longleftrightarrow> map (map_prod id shape) fs = map (map_prod id shape) gs"
  using assms
proof (induction fs arbitrary: gs)
  case (Cons f fs)
  then obtain n t m u gs' where "f = (n, t)" "gs = (m, u) # gs'" by (cases f; cases gs) auto
  with Cons show ?case by (auto simp: go_bind_Ret_iff by_shape_def)
qed simp

lemma map_length_differ: "length xs \<noteq> length ys \<Longrightarrow> map f xs \<noteq> map g ys"
  by (metis length_map)

text \<open>For a type that is not a pointer only types of the same kind need to be looked at.\<close>

lemma by_shapeI:
  assumes "\<not> is_TPointer e" and "\<And>a. ready e \<Longrightarrow> ready a \<Longrightarrow> \<not> is_TPointer a \<Longrightarrow> CompatibleTypes e a = Ret () \<longleftrightarrow> shape e = shape a"
  shows "by_shape e"
  unfolding by_shape_def
proof (intro allI impI)
  fix a
  assume "ready e" "ready a"
  then have "CompatibleTypes e (strip a) = Ret () \<longleftrightarrow> shape e = shape (strip a)" by (intro assms(2)) simp_all
  moreover have "CompatibleTypes e a = CompatibleTypes e (strip a)"
    using compatible_strip [of e a] compatible_strip [of e "strip a"] strip_other [of "strip a"] by simp
  ultimately show "CompatibleTypes e a = Ret () \<longleftrightarrow> shape e = shape a" by simp
qed

lemma shapes_compared: "by_shape e"
proof (induction e)
  case (TPointer e)
  have "CompatibleTypes (TPointer e) a = CompatibleTypes e a" for a
    using compatible_strip [of "TPointer e" a] compatible_strip [of e a] by simp
  with TPointer show ?case by (simp add: by_shape_def)
next
  case (TSlice e)
  show ?case by (rule by_shapeI, simp, rename_tac a, case_tac a) (use TSlice in \<open>simp_all add: by_shape_def CompatibleTypes.simps [of "TSlice _"]\<close>)
next
  case (TArray n e)
  show ?case by (rule by_shapeI, simp, rename_tac a, case_tac a) (use TArray in \<open>simp_all add: by_shape_def CompatibleTypes.simps [of "TArray _ _"]\<close>)
next
  case (TBasic k n)
  show ?case by (rule by_shapeI, simp, rename_tac a, case_tac a) (auto simp: CompatibleTypes.simps [of "TBasic _ _"])
next
  case (TStruct fs)
  then have "\<forall>f \<in> set fs. by_shape (snd f)" by (auto simp: prod_set_simps)
  then show ?case
    by (intro by_shapeI, simp, rename_tac a, case_tac a) (auto simp: CompatibleTypes.simps [of "TStruct _"] compatible_fields map_length_differ)
next
  case (TTuple ts)
  then show ?case
    by (intro by_shapeI, simp, rename_tac a, case_tac a) (simp_all add: CompatibleTypes.simps [of "TTuple _"] compatible_tuples)
next
  case (TSignature ps rs)
  then show ?case
    by (intro by_shapeI, simp, rename_tac a, case_tac a) (simp_all add: CompatibleTypes.simps [of "TSignature _ _"] compatible_tuples go_bind_Ret_iff)
next
  case (TInterface ms)
  then have "\<forall>f \<in> set ms. by_shape (snd f)" by (auto simp: prod_set_simps)
  then show ?case
    by (intro by_shapeI, simp, rename_tac a, case_tac a) (auto simp: CompatibleTypes.simps [of "TInterface _"] compatible_fields map_length_differ)
next
  case (TMap k e)
  then show ?case
    by (intro by_shapeI, simp, rename_tac a, case_tac a) (simp_all add: by_shape_def CompatibleTypes.simps [of "TMap _ _"] go_bind_Ret_iff)
next
  case (TChan d e)
  show ?case by (rule by_shapeI, simp, rename_tac a, case_tac a) (use TChan in \<open>simp_all add: by_shape_def CompatibleTypes.simps [of "TChan _ _"]\<close>)
next
  case (TNamed p n)
  show ?case by (rule by_shapeI, simp, rename_tac a, case_tac a) (auto simp: CompatibleTypes.simps [of "TNamed _ _"] split: option.splits)
next
  case (TOther s)
  show ?case by (simp add: by_shape_def)
qed

text \<open>
  Types that can be compared are compatible exactly if they have the same shape; so compatibility is an equivalence on them.
\<close>

theorem compatible_iff_shape:
  assumes "ready e" and "ready a"
  shows "CompatibleTypes e a = Ret () \<longleftrightarrow> shape e = shape a"
  using assms shapes_compared [of e] by (simp add: by_shape_def)

lemma compatible_refl: "ready t \<Longrightarrow> CompatibleTypes t t = Ret ()"
  by (simp add: compatible_iff_shape)

text \<open>A reference that is not resolved yet is accepted for a named type, but not the other way round.\<close>

lemma unresolved_reference:
  "CompatibleTypes (TNamed p n) (TBasic InvalidKind i) = Ret ()" "CompatibleTypes (TBasic InvalidKind i) (TNamed p n) = mismatch"
  by (simp_all add: CompatibleTypes.simps [of "TNamed p n"] CompatibleTypes.simps [of "TBasic InvalidKind i"])

text \<open>A predeclared named type, as \<open>error\<close>, has no package: the comparison with a named type dereferences it.\<close>

lemma predeclared_panics:
  "CompatibleTypes (TNamed None ''error'') (TNamed None ''error'') = Panic ''invalid memory address or nil pointer dereference''"
  by (simp add: CompatibleTypes.simps [of "TNamed None ''error''"])

section \<open>Types of fields\<close>

text \<open>A type is its number; the names are in the order of the numbers.\<close>

type_synonym fieldType = "8 word"

definition endTypes :: fieldType where "endTypes = 21"

definition typeNames :: "string list" where
  "typeNames =
     [''invalid'', ''bool'', ''time.Time'', ''json.RawMessage'', ''[16]byte'', ''[]byte'', ''string'', ''string'', ''other'', ''int8'', ''int16'',
      ''int32'', ''int'', ''int64'', ''uint8'', ''uint16'', ''uint32'', ''uint'', ''uint64'', ''float32'', ''float64'']"

definition constNames :: "string list" where
  "constNames = [[], [], ''TypeTime'', ''TypeJSON'', ''TypeUUID'', ''TypeBytes'', ''TypeEnum'', [], ''TypeOther'']"

definition Type_String :: "fieldType \<Rightarrow> string" where
  "Type_String t = (if t < endTypes then typeNames ! unat t else typeNames ! 0)"

definition Type_Numeric :: "fieldType \<Rightarrow> bool" where "Type_Numeric t \<longleftrightarrow> t \<ge> 9 \<and> t < endTypes"
definition Type_Float :: "fieldType \<Rightarrow> bool" where "Type_Float t \<longleftrightarrow> t = 19 \<or> t = 20"
definition Type_Integer :: "fieldType \<Rightarrow> bool" where "Type_Integer t \<longleftrightarrow> Type_Numeric t \<and> \<not> Type_Float t"
definition Type_Valid :: "fieldType \<Rightarrow> bool" where "Type_Valid t \<longleftrightarrow> t > 0 \<and> t < endTypes"

text \<open>\<open>title\<close> capitalises the words of a text.\<close>

definition Type_ConstName :: "(string \<Rightarrow> string) \<Rightarrow> fieldType \<Rightarrow> string" where
  "Type_ConstName title t =
     (if \<not> Type_Valid t then typeNames ! 0
      else if unat t < length constNames \<and> constNames ! unat t \<noteq> [] then constNames ! unat t
      else ''Type'' @ title (typeNames ! unat t))"

text \<open>
  Types as reflection shows them: named and unnamed base types by kind, name, package and text, pointers, slices, arrays and maps.  The other
  composed types have no name and no package.
\<close>

datatype rtyp = RBase nat string string string | RPtr rtyp | RSlice rtyp | RArray nat rtyp | RMap rtyp rtyp

definition KindArray :: nat where "KindArray = 17"
definition KindMap :: nat where "KindMap = 21"
definition KindPtr :: nat where "KindPtr = 22"
definition KindSlice :: nat where "KindSlice = 23"

fun rKind :: "rtyp \<Rightarrow> nat" where
  "rKind (RBase k n p s) = k" | "rKind (RPtr t) = KindPtr" | "rKind (RSlice t) = KindSlice" | "rKind (RArray n t) = KindArray" | "rKind (RMap k e) = KindMap"

fun rName :: "rtyp \<Rightarrow> string" where "rName (RBase k n p s) = n" | "rName t = []"
fun rPkgPath :: "rtyp \<Rightarrow> string" where "rPkgPath (RBase k n p s) = p" | "rPkgPath t = []"

fun rString :: "rtyp \<Rightarrow> string" where
  "rString (RBase k n p s) = s"
| "rString (RPtr t) = CHR ''*'' # rString t"
| "rString (RSlice t) = ''[]'' @ rString t"
| "rString (RArray n t) = ''['' @ Itoa (int n) @ '']'' @ rString t"
| "rString (RMap k e) = ''map['' @ rString k @ '']'' @ rString e"

fun Indirect :: "rtyp \<Rightarrow> rtyp" where "Indirect (RPtr t) = Indirect t" | "Indirect t = t"

fun pkgPath :: "rtyp \<Rightarrow> string" where
  "pkgPath (RBase k n p s) = p" | "pkgPath (RPtr t) = pkgPath t" | "pkgPath (RSlice t) = pkgPath t" | "pkgPath (RArray n t) = pkgPath t" | "pkgPath (RMap k e) = pkgPath e"

text \<open>What is kept of a type; arguments and results of methods have no methods of their own.\<close>

record RArg =
  ra_Name :: string
  ra_Ident :: string
  ra_Kind :: nat
  ra_PkgPath :: string

record RType = RArg +
  rt_Methods :: "string \<rightharpoonup> RArg list \<times> RArg list"
  rt_rtype :: rtyp

definition TypeEqual :: "'a RArg_scheme \<Rightarrow> rtyp \<Rightarrow> bool" where
  "TypeEqual r t = (let tv = Indirect t in ra_Name r = rName tv \<and> ra_Kind r = rKind t \<and> ra_PkgPath r = rPkgPath tv)"

definition arg_of :: "rtyp \<Rightarrow> RArg" where
  "arg_of t = \<lparr>ra_Name = rName t, ra_Ident = rString t, ra_Kind = rKind t, ra_PkgPath = rPkgPath t\<rparr>"

text \<open>The methods of the pointer to a type; \<open>mset\<close> lists the methods of a type with the receiver as first argument.\<close>

definition methods :: "(rtyp \<Rightarrow> (string \<times> rtyp list \<times> rtyp list) list) \<Rightarrow> rtyp \<Rightarrow> (string \<rightharpoonup> RArg list \<times> RArg list)" where
  "methods mset t =
     (let t = (if rKind t \<noteq> KindPtr then RPtr t else t) in
      fold (\<lambda>(n, ins, outs) m. m(n \<mapsto> (map arg_of (drop 1 ins), map arg_of outs))) (mset t) Map.empty)"

definition ParseGoType :: "(rtyp \<Rightarrow> (string \<times> rtyp list \<times> rtyp list) list) \<Rightarrow> rtyp \<Rightarrow> RType" where
  "ParseGoType mset t =
     (let tv = Indirect t in
      \<lparr>ra_Name = rName tv, ra_Ident = rString tv, ra_Kind = rKind t, ra_PkgPath = rPkgPath tv, rt_Methods = methods mset t, rt_rtype = t\<rparr>)"

text \<open>Whether a type has the methods of an interface, given without receivers.\<close>

definition implements :: "RType option \<Rightarrow> (string \<times> rtyp list \<times> rtyp list) list \<Rightarrow> bool" where
  "implements r iface =
     (case r of
        None \<Rightarrow> False
      | Some r \<Rightarrow>
          list_all (\<lambda>(n, ins, outs). case rt_Methods r n of
              None \<Rightarrow> False
            | Some (ins', outs') \<Rightarrow>
                length ins' = length ins \<and> length outs' = length outs \<and> list_all2 TypeEqual ins' ins \<and> list_all2 TypeEqual outs' outs) iface)"

record TypeInfo =
  ti_Type :: fieldType
  ti_Ident :: string
  ti_PkgPath :: string
  ti_PkgName :: string
  ti_Nillable :: bool
  ti_RType :: "RType option"

definition GoType :: "(rtyp \<Rightarrow> (string \<times> rtyp list \<times> rtyp list) list) \<Rightarrow> rtyp \<Rightarrow> TypeInfo \<Rightarrow> TypeInfo" where
  "GoType mset typeOf t =
     (let tv = Indirect typeOf in
      \<lparr>ti_Type = ti_Type t, ti_Ident = rString typeOf, ti_PkgPath = rPkgPath tv, ti_PkgName = PkgName (rString tv),
       ti_Nillable = (rKind typeOf = KindSlice \<or> rKind typeOf = KindPtr \<or> rKind typeOf = KindMap), ti_RType = Some (ParseGoType mset typeOf)\<rparr>)"

definition TypeInfo_String :: "TypeInfo \<Rightarrow> string" where
  "TypeInfo_String t =
     (if ti_Ident t \<noteq> [] then ti_Ident t else if ti_Type t < endTypes then typeNames ! unat (ti_Type t) else typeNames ! 0)"

definition Comparable :: "TypeInfo \<Rightarrow> bool" where
  "Comparable t =
     (if ti_Type t \<in> {1, 2, 4, 6, 7} then True else if ti_Type t = 8 then True else Type_Numeric (ti_Type t))"

definition AsPointer :: "TypeInfo \<Rightarrow> TypeInfo" where
  "AsPointer t =
     (if ti_Nillable t then t
      else
        (let t = t\<lparr>ti_Nillable := True\<rparr> in
         if ti_Ident t \<noteq> [] then (if \<not> HasPrefix (ti_Ident t) ''*'' then t\<lparr>ti_Ident := ''*'' @ ti_Ident t\<rparr> else t)
         else t\<lparr>ti_Ident := ''*'' @ TypeInfo_String t\<rparr>))"

text \<open>The numeric types are the integers and the floats, without overlap, and are valid.\<close>

lemma numeric_types: "Type_Numeric t \<longleftrightarrow> Type_Integer t \<or> Type_Float t" "Type_Numeric t \<Longrightarrow> Type_Valid t"
  unfolding Type_Integer_def Type_Numeric_def Type_Float_def Type_Valid_def endTypes_def
  by (auto simp: word_le_nat_alt word_less_nat_alt)

text \<open>A pointer to a type is nillable, is made once, and is written with a star unless the type could be nil before.\<close>

lemma AsPointer_spec:
  "ti_Nillable (AsPointer t)" "AsPointer (AsPointer t) = AsPointer t" "\<not> ti_Nillable t \<Longrightarrow> HasPrefix (ti_Ident (AsPointer t)) ''*''"
  by (auto simp: AsPointer_def Let_def HasPrefix_iff)

text \<open>
  An argument that is a pointer is kept without a name, while the comparison looks behind the pointer: a method with a pointer to a named type in
  its signature is never found to implement an interface.
\<close>

lemma pointer_argument_differs:
  "rName (Indirect t) \<noteq> [] \<Longrightarrow> \<not> TypeEqual (arg_of (RPtr t)) (RPtr t)"
  by (simp add: TypeEqual_def arg_of_def)

text \<open>Slices of any elements are found to be equal.\<close>

lemma slices_equal: "TypeEqual (arg_of (RSlice t)) (RSlice u)"
  by (simp add: TypeEqual_def arg_of_def)

text \<open>The methods of a base type are found by what they are, as long as their arguments and results are base types.\<close>

lemma base_types_equal: "TypeEqual (arg_of (RBase k n p s)) (RBase k' n' p' s') \<longleftrightarrow> k = k' \<and> n = n' \<and> p = p'"
  by (auto simp: TypeEqual_def arg_of_def)

section \<open>Properties of the names\<close>

lemma modifiers_prefix: "\<exists>r. s = modifiers s @ r"
proof (induction s rule: modifiers.induct)
  case (1 c s)
  show ?case
  proof (cases "c = CHR ''*''")
    case True
    with 1(1) show ?thesis by auto
  next
    case False
    with 1(2) show ?thesis by (cases s) auto
  qed
qed simp

text \<open>A path without a vendor directory is not changed.\<close>

lemma Index_drop_None: "Index s sub = None \<Longrightarrow> Index (drop n s) sub = None"
proof (induction n arbitrary: s)
  case (Suc n)
  then show ?case by (cases s) (auto split: if_splits)
qed simp

lemma NormalizeVendor_id:
  assumes "\<not> Contains s ''/vendor/''"
  shows "NormalizeVendor s = s"
proof -
  obtain r where r: "s = modifiers s @ r" using modifiers_prefix by blast
  then have d: "drop (length (modifiers s)) s = r" by (metis append_eq_conv_conj)
  then have "Index r ''/vendor/'' = None" using assms Index_drop_None [of s "''/vendor/''" "length (modifiers s)"] by (simp add: Contains_def)
  then show ?thesis using r d by (simp add: NormalizeVendor_def Split_def split_sep.simps [of r "''/vendor/''"])
qed

lemma split_last_char:
  "split_last p s = None \<longleftrightarrow> (\<forall>c \<in> set s. \<not> p c)"
  by (induction s) (auto split: option.splits)

lemma split_last_append: "\<forall>c \<in> set t. \<not> p c \<Longrightarrow> p d \<Longrightarrow> split_last p (s @ d # t) = Some (s, t)"
proof (induction s)
  case Nil
  then show ?case using split_last_char [of p t] by simp
qed simp

text \<open>The names of a qualified type, also behind stars and brackets.\<close>

lemma names_of_qualified:
  assumes "CHR ''.'' \<notin> set t" and "\<forall>c \<in> set t. \<not> is_modifier c" and "\<forall>c \<in> set p. \<not> is_modifier c"
  shows "PkgName (p @ ''.'' @ t) = p" and "TypeName (p @ ''.'' @ t) = t"
    and "PkgName (''*'' @ p @ ''.'' @ t) = p" and "TypeName (''*'' @ p @ ''.'' @ t) = p @ ''.'' @ t"
proof -
  have dot: "split_last is_dot (q @ ''.'' @ t) = Some (q, t)" for q
    using split_last_append [of t is_dot "CHR ''.''" q] assms(1) by auto
  have none: "split_last is_modifier p = None" "split_last is_modifier (p @ ''.'' @ t) = None"
    using assms(2,3) by (auto simp: split_last_char)
  have star: "split_last is_modifier (''*'' @ q) = Some ([], q)" if "split_last is_modifier q = None" for q
    using that by simp
  show "PkgName (p @ ''.'' @ t) = p" using dot [of p] none by (simp add: PkgName_def)
  show "TypeName (p @ ''.'' @ t) = t" using dot [of p] none by (simp add: TypeName_def)
  show "PkgName (''*'' @ p @ ''.'' @ t) = p" using dot [of "''*'' @ p"] star [OF none(1)] by (simp add: PkgName_def)
  show "TypeName (''*'' @ p @ ''.'' @ t) = p @ ''.'' @ t" using star [OF none(2)] by (simp add: TypeName_def)
qed

end
