(* ===== verification/WocoPkgs.thy ===== *)
theory WocoPkgs
  imports WocoTypes "HOL-Library.AList"
begin

text \<open>
  Model of the rest of \<open>cmd/woco/code\<close>: the search for the root of a Go module with its cache (\<open>imports.go\<close>) and the cache of loaded packages
  (\<open>packages.go\<close>).  Absolute directories are lists of their elements; the files and the loader of packages are parameters.
\<close>

section \<open>Module roots\<close>

definition is_space_class :: "char \<Rightarrow> bool" where
  "is_space_class c \<longleftrightarrow> byte c = 9 \<or> byte c = 10 \<or> byte c = 12 \<or> byte c = 13 \<or> byte c = 32"

definition trim_blank :: "string \<Rightarrow> string" where
  "trim_blank s = rev (dropWhile (\<lambda>c. byte c = 32 \<or> byte c = 9) (rev (dropWhile (\<lambda>c. byte c = 32 \<or> byte c = 9) s)))"

text \<open>Complete lines that are empty or comments are passed over; a line without its end is not a complete one.\<close>

function skip_comments :: "string \<Rightarrow> string" where
  "skip_comments content =
     (if CHR 0x0A \<notin> set content then content
      else (let line = takeWhile (\<lambda>c. c \<noteq> CHR 0x0A) content;
                line = (if line \<noteq> [] \<and> byte (last line) = 13 then butlast line else line);
                s = trim_blank line
            in if s \<noteq> [] \<and> \<not> HasPrefix s ''//'' then content else skip_comments (drop 1 (dropWhile (\<lambda>c. c \<noteq> CHR 0x0A) content))))"
  by pat_completeness auto
termination
proof (relation "measure length", simp)
  fix content :: string
  assume "\<not> CHR 0x0A \<notin> set content"
  then have "dropWhile (\<lambda>c. c \<noteq> CHR 0x0A) content \<noteq> []" by (auto simp: dropWhile_eq_Nil_conv)
  then have "length (drop 1 (dropWhile (\<lambda>c. c \<noteq> CHR 0x0A) content)) < length content"
    using length_dropWhile_le [of "\<lambda>c. c \<noteq> CHR 0x0A" content] by (cases "dropWhile (\<lambda>c. c \<noteq> CHR 0x0A) content") auto
  then show "(drop 1 (dropWhile (\<lambda>c. c \<noteq> CHR 0x0A) content), content) \<in> measure length" by simp
qed

declare skip_comments.simps [simp del]

text \<open>The first match of \<open>module ([^\s]*)\<close>; without one its group is indexed all the same.\<close>

definition extractModuleName :: "string \<Rightarrow> string outcome" where
  "extractModuleName content =
     (let c = skip_comments content in
      case Index c ''module '' of
        None \<Rightarrow> Panic ''index out of range''
      | Some i \<Rightarrow> Ret (takeWhile (\<lambda>c. \<not> is_space_class c) (drop (i + 7) c)))"

type_synonym dirPath = "string list"

record goModuleSearchResult =
  ms_path :: string
  ms_goModPath :: dirPath
  ms_moduleName :: string

definition no_module :: goModuleSearchResult where "no_module = \<lparr>ms_path = [], ms_goModPath = [], ms_moduleName = []\<rparr>"

type_synonym modCache = "dirPath \<rightharpoonup> goModuleSearchResult"

text \<open>
  The climb from a directory: \<open>fs\<close> gives the content of the file \<open>go.mod\<close> of a directory, \<open>visited\<close> are the directories below \<open>m\<close>.  The cache
  is asked for the directory of the search, not for the one that is reached.
\<close>

function climb ::
  "(dirPath \<rightharpoonup> string) \<Rightarrow> dirPath \<Rightarrow> dirPath \<Rightarrow> dirPath list \<Rightarrow> modCache \<Rightarrow> (goModuleSearchResult \<times> dirPath list \<times> modCache) outcome" where
  "climb fs dir m visited cache =
     (case cache dir of
        Some val \<Rightarrow> Ret (val, visited, cache)
      | None \<Rightarrow>
          (case fs m of
             Some content \<Rightarrow>
               go_bind (extractModuleName content) (\<lambda>moduleName.
                 let result = \<lparr>ms_path = moduleName, ms_goModPath = m, ms_moduleName = moduleName\<rparr> in Ret (result, visited, cache(m \<mapsto> result)))
           | None \<Rightarrow>
               (if m = [] then Ret (no_module, visited, cache(m \<mapsto> no_module))
                else climb fs dir (butlast m) (visited @ [m]) cache)))"
  by pat_completeness auto
termination by (relation "measure (\<lambda>(fs, dir, m, visited, cache). length m)") auto

declare climb.simps [simp del]

text \<open>\<open>filepath.Rel\<close> of a directory below another.\<close>

definition rel_path :: "dirPath \<Rightarrow> dirPath \<Rightarrow> string" where
  "rel_path base d = (if d = base then ''.'' else Join (drop (length base) d) ''/'')"

definition sub_result :: "goModuleSearchResult \<Rightarrow> dirPath \<Rightarrow> goModuleSearchResult" where
  "sub_result result d =
     (if ms_moduleName result = [] then result
      else
        (let path = ms_moduleName result; relPath = rel_path (ms_goModPath result) d;
             path = (if \<not> HasSuffix relPath ''/'' then path @ ''/'' else path)
         in \<lparr>ms_path = path @ relPath, ms_goModPath = ms_goModPath result, ms_moduleName = ms_moduleName result\<rparr>))"

definition goModuleRoot :: "(dirPath \<rightharpoonup> string) \<Rightarrow> modCache \<Rightarrow> dirPath \<Rightarrow> (modCache \<times> string option) outcome" where
  "goModuleRoot fs cache dir =
     go_bind (climb fs dir dir [] cache) (\<lambda>(result, visited, cache).
       let cache = fold (\<lambda>d c. c(d \<mapsto> sub_result result d)) visited cache;
           res = (case cache dir of Some r \<Rightarrow> r | None \<Rightarrow> no_module)
       in Ret (cache, if ms_moduleName res = [] then None else Some (ms_path res)))"

text \<open>The import path of a directory: below its module, or below a directory of the Go path.\<close>

fun gopath_import :: "string list \<Rightarrow> string \<Rightarrow> string" where
  "gopath_import [] dir = []"
| "gopath_import (gopath # rest) dir =
     (if length gopath < length dir \<and> EqualFold gopath (take (length gopath) dir) then drop (length gopath + 1) dir
      else gopath_import rest dir)"

definition ImportPathForDir :: "(dirPath \<rightharpoonup> string) \<Rightarrow> string list \<Rightarrow> modCache \<Rightarrow> dirPath \<Rightarrow> (modCache \<times> string) outcome" where
  "ImportPathForDir fs gopaths cache dir =
     go_bind (goModuleRoot fs cache dir) (\<lambda>(cache, r).
       Ret (cache, case r of Some modDir \<Rightarrow> modDir | None \<Rightarrow> gopath_import gopaths (''/'' @ Join dir ''/'')))"

text \<open>In a module import paths are not changed; otherwise the build context may qualify them.\<close>

definition QualifyPackagePath :: "(dirPath \<rightharpoonup> string) \<Rightarrow> dirPath \<Rightarrow> (string \<Rightarrow> string outcome) \<Rightarrow> modCache \<Rightarrow> string \<Rightarrow> (modCache \<times> string) outcome" where
  "QualifyPackagePath fs wd build_Import cache importPath =
     go_bind (goModuleRoot fs cache wd) (\<lambda>(cache, r).
       case r of
         Some m \<Rightarrow> Ret (cache, importPath)
       | None \<Rightarrow> (case build_Import importPath of Ret p \<Rightarrow> Ret (cache, p) | Fail e \<Rightarrow> Ret (cache, importPath) | Panic m \<Rightarrow> Panic m))"

text \<open>
  The name of the package in a directory: that of the first Go file that has one, or one made of the directory's name.  \<open>files\<close> are the entries
  with the name of the package in them, if it can be read.
\<close>

fun first_package :: "(string \<times> string option) list \<Rightarrow> string option" where
  "first_package [] = None"
| "first_package ((n, p) # fs) = (if \<not> HasSuffix (ToLower n) ''.go'' then first_package fs else case p of Some q \<Rightarrow> Some q | None \<Rightarrow> first_package fs)"

definition NameForDir :: "(string \<times> string option) list option \<Rightarrow> string \<Rightarrow> string" where
  "NameForDir files dir =
     (case files of
        None \<Rightarrow> SanitizePackageName (path_Base dir)
      | Some fs \<Rightarrow> (case first_package fs of Some n \<Rightarrow> n | None \<Rightarrow> SanitizePackageName (path_Base dir)))"

section \<open>The cache of module roots is sound\<close>

text \<open>The search without a cache: the nearest directory upwards with a module file.\<close>

function nearest :: "(dirPath \<rightharpoonup> string) \<Rightarrow> dirPath \<Rightarrow> (dirPath \<times> string) option" where
  "nearest fs m = (case fs m of Some c \<Rightarrow> Some (m, c) | None \<Rightarrow> if m = [] then None else nearest fs (butlast m))"
  by pat_completeness auto
termination by (relation "measure (\<lambda>(fs, m). length m)") auto

declare nearest.simps [simp del]

definition module_of :: "(dirPath \<rightharpoonup> string) \<Rightarrow> dirPath \<Rightarrow> goModuleSearchResult" where
  "module_of fs d =
     (case nearest fs d of
        None \<Rightarrow> no_module
      | Some (m, c) \<Rightarrow>
          (case extractModuleName c of
             Ret n \<Rightarrow> (let r = \<lparr>ms_path = n, ms_goModPath = m, ms_moduleName = n\<rparr> in if d = m then r else sub_result r d)
           | _ \<Rightarrow> no_module))"

definition cache_sound :: "(dirPath \<rightharpoonup> string) \<Rightarrow> modCache \<Rightarrow> bool" where
  "cache_sound fs cache \<longleftrightarrow> (\<forall>d v. cache d = Some v \<longrightarrow> v = module_of fs d)"

definition named_modules :: "(dirPath \<rightharpoonup> string) \<Rightarrow> bool" where
  "named_modules fs \<longleftrightarrow> (\<forall>m c. fs m = Some c \<longrightarrow> (\<exists>n. extractModuleName c = Ret n))"

text \<open>What the climb finds, for a directory that is not cached.\<close>

lemma climb_spec:
  assumes "cache dir = None" and "named_modules fs"
  shows "\<exists>result visited' m'. climb fs dir m visited cache = Ret (result, visited @ visited', cache(m' \<mapsto> result))
           \<and> (case nearest fs m of None \<Rightarrow> m' = [] \<and> result = no_module
              | Some (k, c) \<Rightarrow> m' = k \<and> extractModuleName c = Ret (ms_moduleName result) \<and> result = \<lparr>ms_path = ms_moduleName result, ms_goModPath = k, ms_moduleName = ms_moduleName result\<rparr>)
           \<and> list_all (\<lambda>d. nearest fs d = nearest fs m \<and> d \<noteq> m' \<and> fs d = None) visited' \<and> (m \<noteq> m' \<longrightarrow> m \<in> set visited') \<and> fs m' = map_option snd (nearest fs m)"
  using assms(1)
proof (induction m arbitrary: visited rule: length_induct)
  case (1 m)
  show ?case
  proof (cases "fs m")
    case (Some c)
    with assms(2) obtain n where "extractModuleName c = Ret n" by (auto simp: named_modules_def)
    with Some 1(2) show ?thesis
      by (intro exI [of _ "\<lparr>ms_path = n, ms_goModPath = m, ms_moduleName = n\<rparr>"] exI [of _ "[] :: dirPath list"] exI [of _ m])
        (simp add: climb.simps [of fs dir m] nearest.simps [of fs m] Let_def fun_upd_def)
  next
    case None
    show ?thesis
    proof (cases "m = []")
      case True
      with None 1(2) show ?thesis
        by (intro exI [of _ no_module] exI [of _ "[] :: dirPath list"] exI [of _ m]) (simp add: climb.simps [of fs dir "[]"] nearest.simps [of fs "[]"] fun_upd_def)
    next
      case False
      then have "length (butlast m) < length m" by (cases m) auto
      with 1 obtain result v m' where r: "climb fs dir (butlast m) (visited @ [m]) cache = Ret (result, (visited @ [m]) @ v, cache(m' \<mapsto> result))"
          "case nearest fs (butlast m) of None \<Rightarrow> m' = [] \<and> result = no_module
              | Some (k, c) \<Rightarrow> m' = k \<and> extractModuleName c = Ret (ms_moduleName result) \<and> result = \<lparr>ms_path = ms_moduleName result, ms_goModPath = k, ms_moduleName = ms_moduleName result\<rparr>"
          "list_all (\<lambda>d. nearest fs d = nearest fs (butlast m) \<and> d \<noteq> m' \<and> fs d = None) v" "fs m' = map_option snd (nearest fs (butlast m))"
        by blast
      have n: "nearest fs m = nearest fs (butlast m)" using None False by (simp add: nearest.simps [of fs m])
      have "m \<noteq> m'"
        using r(2,4) None False n by (auto split: option.splits)
      with r n None False 1(2) show ?thesis
        by (intro exI [of _ result] exI [of _ "m # v"] exI [of _ m']) (simp add: climb.simps [of fs dir m] fun_upd_def)
    qed
  qed
qed

lemma fold_updates: "fold (\<lambda>d c. c(d \<mapsto> f d)) ds c = (\<lambda>d. if d \<in> set ds then Some (f d) else c d)"
  by (induction ds arbitrary: c) (auto simp: fun_eq_iff)

text \<open>
  With a sound cache the search finds the path of the directory below the nearest module upwards, as the search without a cache does, and leaves
  a sound cache; it never panics if every module file names its module.
\<close>

theorem module_root_sound:
  assumes "cache_sound fs cache" and "named_modules fs"
  shows "\<exists>cache'. goModuleRoot fs cache dir = Ret (cache', if ms_moduleName (module_of fs dir) = [] then None else Some (ms_path (module_of fs dir)))
           \<and> cache_sound fs cache'"
proof (cases "cache dir")
  case (Some v)
  with assms(1) show ?thesis by (auto simp: goModuleRoot_def climb.simps [of fs dir dir] cache_sound_def)
next
  case None
  from climb_spec [where cache = cache and dir = dir and fs = fs and m = dir and visited = "[]", OF this assms(2)] obtain result vs m' where
    run: "climb fs dir dir [] cache = Ret (result, vs, cache(m' \<mapsto> result))"
    and res: "case nearest fs dir of None \<Rightarrow> m' = [] \<and> result = no_module
              | Some (k, c) \<Rightarrow> m' = k \<and> extractModuleName c = Ret (ms_moduleName result) \<and> result = \<lparr>ms_path = ms_moduleName result, ms_goModPath = k, ms_moduleName = ms_moduleName result\<rparr>"
    and vs: "list_all (\<lambda>d. nearest fs d = nearest fs dir \<and> d \<noteq> m' \<and> fs d = None) vs" "dir \<noteq> m' \<longrightarrow> dir \<in> set vs"
    and m': "fs m' = map_option snd (nearest fs dir)"
    by auto
  define cache' where "cache' = fold (\<lambda>d c. c(d \<mapsto> sub_result result d)) vs (cache(m' \<mapsto> result))"
  have cache': "cache' = (\<lambda>d. if d \<in> set vs then Some (sub_result result d) else (cache(m' \<mapsto> result)) d)"
    unfolding cache'_def by (rule fold_updates)
  have sub: "module_of fs d = sub_result result d" if "d \<in> set vs" for d
  proof -
    from vs(1) that have "nearest fs d = nearest fs dir" "d \<noteq> m'" by (auto simp: list_all_iff)
    with res show ?thesis by (auto simp: module_of_def sub_result_def no_module_def split: option.splits)
  qed
  have top: "module_of fs m' = result"
  proof (cases "nearest fs dir")
    case None
    with m' res show ?thesis by (simp add: module_of_def nearest.simps [of fs "[]"])
  next
    case (Some x)
    with m' res show ?thesis by (cases x) (simp add: module_of_def nearest.simps [of fs m'])
  qed
  have sound: "cache_sound fs cache'"
    unfolding cache_sound_def cache' using assms(1) sub top by (auto simp: cache_sound_def)
  have "cache' dir = Some (module_of fs dir)"
    using vs(2) sub top by (auto simp: cache')
  then show ?thesis using sound run by (simp add: goModuleRoot_def cache'_def)
qed

lemma empty_cache_sound: "cache_sound fs Map.empty"
  by (simp add: cache_sound_def)

text \<open>A module file without a module line makes the search panic.\<close>

lemma nameless_module_panics:
  assumes "cache dir = None" and "fs dir = Some content" and "Index (skip_comments content) ''module '' = None"
  shows "goModuleRoot fs cache dir = Panic ''index out of range''"
  using assms by (simp add: goModuleRoot_def climb.simps [of fs dir dir] extractModuleName_def)

text \<open>
  Below the Go path the separator after it is not looked at: the import path of a directory beside it, whose name begins with its, is cut.
\<close>

lemma sibling_of_gopath: "gopath_import [''/go/src''] ''/go/srcfoo/x'' = ''oo/x''"
  by code_simp

section \<open>Loaded packages\<close>

text \<open>A package: path, name, whether its module and its type information are there, its imports and its errors.\<close>

datatype package = Package (PkgPath: string) (Name: string) (has_Module: bool) (has_TypesInfo: bool) (Imports: "package list") (Errors: "go_error list")

text \<open>The wrapper: the cached packages in an order of the map, the names, the errors and the numbers of calls of the loader.\<close>

record Packages =
  packages :: "(string \<times> package) list"
  importToName :: "string \<rightharpoonup> string"
  loadErrors :: "go_error list"
  numLoadCalls :: nat
  numNameCalls :: nat

text \<open>A package is cached with all that it imports, as far as these are not cached.\<close>

function addToCache :: "package \<Rightarrow> (string \<times> package) list \<Rightarrow> (string \<times> package) list"
  and addImports :: "package list \<Rightarrow> (string \<times> package) list \<Rightarrow> (string \<times> package) list" where
  "addToCache pkg c = addImports (Imports pkg) (AList.update (NormalizeVendor (PkgPath pkg)) pkg c)"
| "addImports [] c = c"
| "addImports (imp # imps) c =
     addImports imps (if map_of c (NormalizeVendor (PkgPath imp)) = None then addToCache imp c else c)"
  by pat_completeness auto
termination
proof (relation "measure (\<lambda>x. case x of Inl (p, c) \<Rightarrow> 2 * size p | Inr (ps, c) \<Rightarrow> 2 * size_list size ps + 1)")
  show "(Inr (Imports pkg, c'), Inl (pkg, c)) \<in> measure (\<lambda>x. case x of Inl (p, c) \<Rightarrow> 2 * size p | Inr (ps, c) \<Rightarrow> 2 * size_list size ps + 1)"
    for pkg and c c' :: "(string \<times> package) list"
    by (cases pkg) simp
qed auto

text \<open>
  Loading all packages of a list: those that are not cached under the path as it is given are loaded, a second time if a module is missing.
  \<open>load\<close> is the loader, with the number of its call.
\<close>

definition checkModuleLoaded :: "package list \<Rightarrow> bool" where
  "checkModuleLoaded pkgs = list_all has_Module pkgs"

definition add_error :: "go_error option \<Rightarrow> Packages \<Rightarrow> Packages" where
  "add_error err p = (case err of Some e \<Rightarrow> p\<lparr>loadErrors := loadErrors p @ [e]\<rparr> | None \<Rightarrow> p)"

definition LoadAll :: "(nat \<Rightarrow> string list \<Rightarrow> package list \<times> go_error option) \<Rightarrow> string list \<Rightarrow> Packages \<Rightarrow> Packages \<times> package option list" where
  "LoadAll load importPaths p =
     (let missing = filter (\<lambda>path. map_of (packages p) path = None) importPaths;
          p = (if 0 < length missing then
                 (let p = p\<lparr>numLoadCalls := numLoadCalls p + 1\<rparr>;
                      (pkgs, err) = load 0 missing;
                      (pkgs, err) = (if \<not> checkModuleLoaded pkgs then load 1 missing else (pkgs, err));
                      p = add_error err p
                  in p\<lparr>packages := fold addToCache pkgs (packages p)\<rparr>)
               else p)
      in (p, map (\<lambda>path. map_of (packages p) (NormalizeVendor path)) importPaths))"

definition Load_package :: "(nat \<Rightarrow> string list \<Rightarrow> package list \<times> go_error option) \<Rightarrow> string \<Rightarrow> Packages \<Rightarrow> Packages \<times> package option" where
  "Load_package load importPath p =
     (case map_of (packages p) importPath of
        Some pkg \<Rightarrow> (p, Some pkg)
      | None \<Rightarrow> (case LoadAll load [importPath] p of (p, r # _) \<Rightarrow> (p, r) | (p, []) \<Rightarrow> (p, None)))"

text \<open>The name of a package: the cached name, that of the cached package, that of a loader for names, or one made of the path.\<close>

definition NameForPackage :: "(string \<Rightarrow> go_error + package) \<Rightarrow> string \<Rightarrow> Packages \<Rightarrow> (Packages \<times> string) outcome" where
  "NameForPackage loadName importPath p =
     (if importPath = [] then Panic ''import path can not be empty''
      else
        (let importPath = NormalizeVendor importPath in
         case (case importToName p importPath of Some n \<Rightarrow> n | None \<Rightarrow> []) of
           n # ns \<Rightarrow> Ret (p, n # ns)
         | [] \<Rightarrow>
             (let (p, pkg) = (case map_of (packages p) importPath of
                                Some pkg \<Rightarrow> (p, Some pkg)
                              | None \<Rightarrow>
                                  (let p = p\<lparr>numNameCalls := numNameCalls p + 1\<rparr> in
                                   case loadName importPath of Inr pkg \<Rightarrow> (p, Some pkg) | Inl e \<Rightarrow> (add_error (Some e) p, None)))
              in case pkg of
                   None \<Rightarrow> Ret (p, SanitizePackageName (path_Base importPath))
                 | Some pkg \<Rightarrow>
                     (if Name pkg = [] then Ret (p, SanitizePackageName (path_Base importPath))
                      else Ret (p\<lparr>importToName := (importToName p)(importPath \<mapsto> Name pkg)\<rparr>, Name pkg)))))"

subsection \<open>Evicting a package\<close>

text \<open>
  A package is deleted with all that import it.  The range over the map visits the keys that are left when their turn comes; the recursion has
  fuel.
\<close>

function Evict :: "nat \<Rightarrow> string \<Rightarrow> (string \<times> package) list \<Rightarrow> (string \<times> package) list option"
  and evict_importers :: "nat \<Rightarrow> string \<Rightarrow> string list \<Rightarrow> (string \<times> package) list \<Rightarrow> (string \<times> package) list option"
  and evict_imported :: "nat \<Rightarrow> string \<Rightarrow> string \<Rightarrow> package list \<Rightarrow> (string \<times> package) list \<Rightarrow> (string \<times> package) list option" where
  "Evict 0 importPath c = None"
| "Evict (Suc n) importPath c = (let c = AList.delete importPath c in evict_importers n importPath (map fst c) c)"
| "evict_importers n importPath [] c = Some c"
| "evict_importers n importPath (k # ks) c =
     (case map_of c k of
        None \<Rightarrow> evict_importers n importPath ks c
      | Some pkg \<Rightarrow>
          (case evict_imported n importPath (PkgPath pkg) (Imports pkg) c of
             None \<Rightarrow> None
           | Some c \<Rightarrow> evict_importers n importPath ks c))"
| "evict_imported n importPath self [] c = Some c"
| "evict_imported n importPath self (imported # imps) c =
     (if PkgPath imported = importPath then
        (case Evict n self c of None \<Rightarrow> None | Some c \<Rightarrow> evict_imported n importPath self imps c)
      else evict_imported n importPath self imps c)"
  by pat_completeness auto
termination
  by (relation "measures
        [\<lambda>x. case x of Inl (n, _) \<Rightarrow> n | Inr (Inl (n, _)) \<Rightarrow> n | Inr (Inr (n, _)) \<Rightarrow> n,
         \<lambda>x. case x of Inl _ \<Rightarrow> 0 | Inr (Inl _) \<Rightarrow> 2 | Inr (Inr _) \<Rightarrow> 1,
         \<lambda>x. case x of Inl _ \<Rightarrow> 0 | Inr (Inl (_, _, ks, _)) \<Rightarrow> length ks | Inr (Inr (_, _, _, imps, _)) \<Rightarrow> length imps]") auto

definition Evict_packages :: "string \<Rightarrow> Packages \<Rightarrow> Packages" where
  "Evict_packages importPath p = p\<lparr>packages := the (Evict (length (packages p) + 2) importPath (packages p))\<rparr>"

subsection \<open>What is left after an eviction\<close>

abbreviation keys :: "(string \<times> package) list \<Rightarrow> string set" where "keys c \<equiv> fst ` set c"

definition imports_of :: "package \<Rightarrow> string set" where "imports_of p = PkgPath ` set (Imports p)"

text \<open>Packages cached under their own path, as they are without vendor directories.\<close>

definition keyed :: "(string \<times> package) list \<Rightarrow> bool" where
  "keyed c \<longleftrightarrow> distinct (map fst c) \<and> (\<forall>(k, p) \<in> set c. k = PkgPath p)"

text \<open>A part of a cache is left, and imports nothing of what was deleted.\<close>

definition closed_part :: "(string \<times> package) list \<Rightarrow> (string \<times> package) list \<Rightarrow> bool" where
  "closed_part c c' \<longleftrightarrow> (\<exists>q. c' = filter q c) \<and> (\<forall>k \<in> keys c - keys c'. \<forall>p \<in> snd ` set c'. k \<notin> imports_of p)"

lemma closed_part_refl: "closed_part c c"
  by (auto simp: closed_part_def intro: exI [of _ "\<lambda>_. True"])

lemma closed_part_trans:
  assumes "closed_part c c'" and "closed_part c' c''"
  shows "closed_part c c''"
proof -
  obtain q q' where c: "c' = filter q c" "c'' = filter q' c'" using assms by (auto simp: closed_part_def)
  then have sub: "set c'' \<subseteq> set c'" by auto
  show ?thesis unfolding closed_part_def
  proof (intro conjI ballI)
    show "\<exists>q. c'' = filter q c" using c by (auto intro: exI [of _ "\<lambda>x. q x \<and> q' x"] simp: conj_commute)
    fix k p
    assume "k \<in> keys c - keys c''" "p \<in> snd ` set c''"
    then show "k \<notin> imports_of p" using assms sub unfolding closed_part_def by (cases "k \<in> keys c'") blast+
  qed
qed

lemma closed_partD:
  assumes "closed_part c c'"
  shows "set c' \<subseteq> set c" "length c' \<le> length c" "keyed c \<Longrightarrow> keyed c'"
  using assms by (auto simp: closed_part_def keyed_def intro: distinct_map_filter)

lemma closed_part_shorter:
  assumes "closed_part c c'" and "k \<in> keys c" and "k \<notin> keys c'"
  shows "length c' < length c"
proof -
  obtain q where q: "c' = filter q c" using assms(1) by (auto simp: closed_part_def)
  obtain x where "x \<in> set c" "\<not> q x" using assms(2,3) q by force
  then show ?thesis unfolding q by (rule length_filter_less)
qed

definition evicts :: "nat \<Rightarrow> bool" where
  "evicts n \<longleftrightarrow>
     (\<forall>i c. keyed c \<longrightarrow> length c + (if i \<in> keys c then 0 else 1) < n \<longrightarrow>
        (\<exists>c'. Evict n i c = Some c' \<and> closed_part c c' \<and> i \<notin> keys c' \<and> (\<forall>p \<in> snd ` set c'. i \<notin> imports_of p)))"

lemma evicts_imported:
  assumes "evicts n" and "keyed c" and "(self \<in> keys c \<and> length c < n) \<or> length c + 1 < n"
  shows "\<exists>c'. evict_imported n i self imps c = Some c' \<and> closed_part c c' \<and> (i \<in> PkgPath ` set imps \<longrightarrow> self \<notin> keys c')"
  using assms(2,3)
proof (induction imps arbitrary: c)
  case Nil
  then show ?case by (simp add: closed_part_refl)
next
  case (Cons imp imps)
  show ?case
  proof (cases "PkgPath imp = i")
    case True
    have "length c + (if self \<in> keys c then 0 else 1) < n" using Cons.prems(2) by auto
    with assms(1) Cons.prems(1) obtain c1 where c1: "Evict n self c = Some c1" "closed_part c c1" "self \<notin> keys c1"
      unfolding evicts_def by blast
    have "length c1 + 1 < n" using Cons.prems(2) closed_part_shorter [OF c1(2) _ c1(3)] closed_partD(2) [OF c1(2)] by fastforce
    with Cons.IH [of c1] closed_partD(3) [OF c1(2) Cons.prems(1)] obtain c2 where
      c2: "evict_imported n i self imps c1 = Some c2" "closed_part c1 c2" by blast
    have "self \<notin> keys c2" using c1(3) closed_partD(1) [OF c2(2)] by auto
    then show ?thesis using True c1 c2 closed_part_trans by auto
  next
    case False
    then show ?thesis using Cons by auto
  qed
qed

lemma evicts_importers:
  assumes "evicts n" and "keyed c" and "length c < n"
  shows "\<exists>c'. evict_importers n i ks c = Some c' \<and> closed_part c c' \<and> (\<forall>(k, p) \<in> set c'. k \<in> set ks \<longrightarrow> i \<notin> imports_of p)"
  using assms(2,3)
proof (induction ks arbitrary: c)
  case Nil
  then show ?case by (simp add: closed_part_refl)
next
  case (Cons k ks)
  show ?case
  proof (cases "map_of c k")
    case None
    from Cons.IH [OF Cons.prems] obtain c' where c': "evict_importers n i ks c = Some c'" "closed_part c c'"
        "\<forall>(k, p) \<in> set c'. k \<in> set ks \<longrightarrow> i \<notin> imports_of p" by blast
    moreover have "k \<notin> keys c'" using None closed_partD(1) [OF c'(2)] by (auto simp: map_of_eq_None_iff)
    ultimately show ?thesis using None by force
  next
    case (Some pkg)
    then have k: "(k, pkg) \<in> set c" by (rule map_of_SomeD)
    with Cons.prems(1) have self: "PkgPath pkg = k" by (auto simp: keyed_def)
    have "k \<in> keys c" using k by force
    with evicts_imported [OF assms(1) Cons.prems(1), of "PkgPath pkg" i "Imports pkg"] Cons.prems(2) self obtain c1 where
      c1: "evict_imported n i (PkgPath pkg) (Imports pkg) c = Some c1" "closed_part c c1" "i \<in> imports_of pkg \<longrightarrow> k \<notin> keys c1"
      by (auto simp: imports_of_def)
    have "keyed c1" "length c1 < n" using closed_partD [OF c1(2)] Cons.prems by auto
    from Cons.IH [OF this] obtain c' where c': "evict_importers n i ks c1 = Some c'" "closed_part c1 c'"
        "\<forall>(k, p) \<in> set c'. k \<in> set ks \<longrightarrow> i \<notin> imports_of p" by blast
    have "i \<notin> imports_of p" if "(k, p) \<in> set c'" for p
    proof
      assume "i \<in> imports_of p"
      have "(k, p) \<in> set c1" "(k, p) \<in> set c" using that closed_partD(1) [OF c'(2)] closed_partD(1) [OF c1(2)] by auto
      moreover from this(2) k Cons.prems(1) have "p = pkg" by (auto simp: keyed_def dest: eq_key_imp_eq_value)
      ultimately show False using c1(3) \<open>i \<in> imports_of p\<close> by force
    qed
    then show ?thesis using Some c1 c' closed_part_trans [OF c1(2) c'(2)] by auto
  qed
qed

lemma evicts_all: "evicts n"
proof (induction n)
  case 0
  then show ?case by (simp add: evicts_def)
next
  case (Suc n)
  show ?case unfolding evicts_def
  proof (intro allI impI)
    fix i and c :: "(string \<times> package) list"
    assume kc: "keyed c" and len: "length c + (if i \<in> keys c then 0 else 1) < Suc n"
    define c1 where "c1 = AList.delete i c"
    have del: "c1 = filter (\<lambda>x. fst x \<noteq> i) c" unfolding c1_def by (auto simp: AList.delete_eq case_prod_unfold intro!: filter_cong)
    then have "keyed c1" using kc by (auto simp: keyed_def intro: distinct_map_filter)
    moreover have "length c1 < n"
    proof (cases "i \<in> keys c")
      case True
      then obtain x where "x \<in> set c" "\<not> fst x \<noteq> i" by force
      then have "length c1 < length c" unfolding del by (rule length_filter_less)
      then show ?thesis using len True by simp
    next
      case False
      then have "length c < n" using len by simp
      then show ?thesis unfolding del by (rule le_less_trans [OF length_filter_le])
    qed
    ultimately obtain c' where c': "evict_importers n i (map fst c1) c1 = Some c'" "closed_part c1 c'"
        "\<forall>(k, p) \<in> set c'. k \<in> set (map fst c1) \<longrightarrow> i \<notin> imports_of p"
      using evicts_importers [OF Suc] by blast
    have i: "\<forall>p \<in> snd ` set c'. i \<notin> imports_of p" using c'(3) closed_partD(1) [OF c'(2)] by force
    have "i \<notin> keys c'" using closed_partD(1) [OF c'(2)] del by auto
    moreover have "closed_part c c'"
    proof -
      obtain q where "c' = filter q c1" using c'(2) by (auto simp: closed_part_def)
      then have "c' = filter (\<lambda>x. fst x \<noteq> i \<and> q x) c" by (simp add: del conj_commute)
      moreover have "k \<notin> imports_of p" if "k \<in> keys c - keys c'" "p \<in> snd ` set c'" for k p
        using that i c'(2) unfolding closed_part_def by (cases "k = i") (auto simp: del)
      ultimately show ?thesis unfolding closed_part_def by blast
    qed
    ultimately show "\<exists>c'. Evict (Suc n) i c = Some c' \<and> closed_part c c' \<and> i \<notin> keys c' \<and> (\<forall>p \<in> snd ` set c'. i \<notin> imports_of p)"
      using c'(1) i by (auto simp: c1_def)
  qed
qed

text \<open>
  An eviction returns, and what is left of the cache imports neither the package nor anything that was deleted with it.
\<close>

theorem evict_closed:
  assumes "keyed c"
  shows "\<exists>c'. Evict (length c + 2) i c = Some c' \<and> closed_part c c' \<and> i \<notin> keys c' \<and> (\<forall>p \<in> snd ` set c'. i \<notin> imports_of p)"
  using evicts_all [of "length c + 2"] assms by (simp add: evicts_def)

text \<open>
  A package from a vendor directory is cached under another path than its own, so that an eviction does not find it among the importers: it stays.
\<close>

lemma vendored_importer_stays:
  defines "a \<equiv> Package ''m/a'' ''a'' True True [] []"
  defines "v \<equiv> Package ''m/vendor/v'' ''v'' True True [a] []"
  shows "Evict 4 ''m/a'' (addToCache v []) = Some [(''v'', v)]"
  unfolding a_def v_def by code_simp

text \<open>Packages that are cached are not loaded again, unless they are asked for by a path with a vendor directory.\<close>

lemma cached_not_loaded:
  assumes "list_all (\<lambda>path. map_of (packages p) path \<noteq> None) importPaths"
  shows "fst (LoadAll load importPaths p) = p"
proof -
  have "filter (\<lambda>path. map_of (packages p) path = None) importPaths = []"
    using assms by (auto simp: filter_empty_conv list_all_iff)
  then show ?thesis by (simp add: LoadAll_def)
qed

end
