(* ===== verification/Spec2Isabelle.thy ===== *)
theory Spec2Isabelle
  imports TimeWheelProps TimeIntervalProps CacheProps RediscProps GdsRandom HttpSignProps JwtProps WebSignerProps
    LogTextProps AccessLogProps ConfProps AppRunProps LogWriterProps
    LogCompProps LogConfig WebServerProps HttpClientProps
    GrpcInterceptorProps GrpcRegistryProps GrpcServerProps PolarisProps GqlProps WebGzip WebCsrf Sqlx Otel WocoPkgs
begin

text \<open>
  A verification development for woocoo, a Go framework for web and RPC services.  It models the parts of the
  framework that decide something: the lifecycle of an application, configuration, logging, timers and time
  windows, caches, request signatures and clients, the web server with its handlers for authentication,
  authorization, errors, access log and compression, the RPC server and client with service discovery, the
  bindings to Polaris, GraphQL and telemetry, and the part of the tool \<open>woco\<close> that reads Go types and packages.
  All file names below are relative to \<open>src/\<close>.

  The program and its parts.  An application reads its configuration (\<open>pkg/conf\<close>), from which the other
  packages build themselves.  A web server is a chain of gin handlers (\<open>web/handler\<close>): each handler takes a
  context, may record errors on it, abort it, or call the next handlers.  Handlers that authenticate take
  credentials from the request with extractors, ask a validator, a JWT library or a signer
  (\<open>pkg/auth\<close>, \<open>pkg/httpx\<close>), and keep tokens or nonces in a cache (\<open>pkg/cache\<close>), which is an in-process
  table (\<open>lfu\<close>) or the same table in front of redis (\<open>redisc\<close>).  Principals travel in the context
  (\<open>pkg/security\<close>).  Errors recorded on the way are turned into a response and into log entries.  An RPC
  server is a chain of interceptors in the same manner, and registers its services with a registry that
  clients resolve them from.  \<open>app.go\<close> starts the servers, waits and stops them.

  Theories.
  \<^item> \<open>Prelude\<close>: Go's errors, panics (\<open>'a outcome\<close>: \<open>Ret\<close>, \<open>Fail\<close>, \<open>Panic\<close>) and 64-bit wrap-around.
    \<open>GoStrings\<close>, \<open>GoTime\<close>, \<open>GoPath\<close>: the functions of Go's \<open>strings\<close>, \<open>strconv\<close>, \<open>utf8\<close>, \<open>time\<close> and
    \<open>path/filepath\<close> that the code calls, on strings as byte lists and times as seconds in a zone.
  \<^item> \<open>Scheduler\<close>, \<open>TimeWheel\<close>, \<open>TimeWheelRefine\<close>, \<open>TimeWheelProps\<close>: \<open>pkg/gds/timewheel.go\<close>.  Slots are objects
    of an explicit heap, because the code moves tasks between objects; the event loop serves ticks and
    messages one at a time; the stop protocol is a step relation.  \<open>Scheduler\<close> states the contract, a
    countdown per key, as a locale; \<open>TimeWheelRefine\<close> proves the simulation and interprets the locale.
  \<^item> \<open>TimeInterval\<close>, \<open>TimeIntervalProps\<close>: \<open>pkg/gds/timeinterval\<close>, parsers and membership test.
  \<^item> \<open>GdsRandom\<close>: \<open>pkg/gds/random.go\<close>; the sampling loop is a \<open>partial_function (option)\<close>, \<open>None\<close> being a
    loop that never ends, and both outcomes are proved.
  \<^item> \<open>Cache\<close>, \<open>CacheProps\<close>: \<open>pkg/cache\<close> (values of type any, serialisation with its compression tag, options,
    driver registry).  \<open>LFU\<close>, \<open>LFUProps\<close>: \<open>pkg/cache/lfu\<close>.  \<open>Redisc\<close>, \<open>RediscProps\<close>: \<open>pkg/cache/redisc\<close>.
  \<^item> \<open>HttpSign\<close>, \<open>HttpSigner\<close>, \<open>HttpSignProps\<close>: \<open>pkg/httpx/util.go\<close> and \<open>signature.go\<close>, the three signers.
  \<^item> \<open>Security\<close>: \<open>pkg/security\<close>.  \<open>JwtAuth\<close>: \<open>pkg/auth/jwt.go\<close>.
  \<^item> \<open>WebExtractor\<close>, \<open>WebAuth\<close>, \<open>WebAuthProps\<close>, \<open>JwtProps\<close>: \<open>web/handler\<close>: \<open>middleware.go\<close>, \<open>extractor.go\<close>,
    \<open>option.go\<close>, \<open>keyauth.go\<close>, \<open>jwt.go\<close>, \<open>authz\<close>.  \<open>WebSigner\<close>, \<open>WebSignerProps\<close>: \<open>web/handler/signer\<close>.
  \<^item> \<open>WebErrors\<close>, \<open>WebErrorsProps\<close>: \<open>errorhandle.go\<close>.  \<open>AccessLog\<close>, \<open>AccessLogProps\<close>: \<open>logger.go\<close>,
    \<open>recovery.go\<close>, \<open>pkg/log/carrier.go\<close>.  \<open>LogText\<close>, \<open>LogTextProps\<close>: \<open>pkg/log/text.go\<close>.
  \<^item> \<open>Conf\<close>, \<open>ConfTree\<close>, \<open>ConfProps\<close>: \<open>pkg/conf\<close>.  Configurations are objects of a store with pointers to their
    roots; files, environment and the settings library are explicit.
  \<^item> \<open>AppRun\<close>, \<open>AppRunProps\<close>: \<open>app.go\<close>.  \<open>Run\<close> and groups of actors are step relations, one step being
    one action of one goroutine.
  \<^item> \<open>LogWriter\<close>, \<open>LogComp\<close>, \<open>LogConfig\<close> and their properties: the writer, the loggers with their components, and the
    configuration of \<open>pkg/log\<close>.  Loggers and pooled objects are objects of a store.
  \<^item> \<open>WebServer\<close>, \<open>WebServerProps\<close>: the handler manager, the router and the server of \<open>web\<close>.
  \<^item> \<open>WebGzip\<close>: \<open>web/handler/gzip\<close>, up to what a client reads.  \<open>WebCsrf\<close>: \<open>web/handler/csrf\<close> and \<open>cors.go\<close>.
  \<^item> \<open>HttpClient\<close>, \<open>HttpClientProps\<close>: \<open>pkg/httpx/client.go\<close> and \<open>option.go\<close>.  Round trippers and token sources are
    data; the contract of a token storage is a locale, interpreted on the storage in the in-process cache.
  \<^item> \<open>GrpcInterceptor\<close>, \<open>GrpcRegistry\<close>, \<open>GrpcServer\<close> and their properties: \<open>rpc/grpcx\<close>: the interceptors for tokens, access log
    and panics; service discovery, options and the client; the server, whose registration with a registry is a step
    relation of its listener, its ticks and its stop.  The contract of a registry is a locale, interpreted on the one of
    \<open>test/mock/registry\<close>.
  \<^item> \<open>Polaris\<close>, \<open>PolarisBalancer\<close>, \<open>PolarisProps\<close>: \<open>contrib/polarismesh\<close>: registry, contexts, resolver, balancer, rate limit.
  \<^item> \<open>Gql\<close>, \<open>GqlProps\<close>: \<open>contrib/gql\<close>: permissions, presented errors, web handlers as GraphQL middlewares, registration.
  \<^item> \<open>Telemetry\<close>, \<open>Otel\<close>: \<open>contrib/telemetry\<close>: configuration, providers and attributes; the web middleware, the logger on
    spans and the properties of both theories.
  \<^item> \<open>Sqlx\<close>: \<open>pkg/store/sqlx\<close>, databases with encrypted passwords.
  \<^item> \<open>WocoTypes\<close>, \<open>WocoPkgs\<close>: \<open>cmd/woco/code\<close>: the comparison of Go types and their names; the search for module roots and
    the cache of packages.

  Interfaces.  A locale states each contract that one part relies on, and is interpreted on the model of the
  part that provides it: the countdown scheduler on the time wheel, the value extractor on the header, query,
  parameter, cookie and form extractors, the token store and the nonce store of the JWT and the signature
  middleware and the token storage of the clients on the in-process cache, and the service registry on the
  in-memory registry.

  What the lemmas show.  The refinement of the wheel gives due times, absence of early calls and absence of
  panics; the interval test is equal to the declared interval; the caches return what was set, or a miss,
  never an older value; what is serialised, escaped or signed is read back, decoded or verified; a request
  that passes an authenticating handler was skipped or carries an accepted credential, which a revoked token
  and a replayed signature are not; private errors do not influence the response; an entry of the log is one
  line, whatever its text.  Some theorems state behaviour that the code hardly intends: a reset timer that
  its removal no longer cancels, a month of summer time that loses its last day, a string that comes back as
  other bytes, a random string that never returns, a refused key that passes, a replay that passes.

  Parameters.  Code that is not part of the repository is an argument of the definitions, with what is relied
  on as a named hypothesis: the tinylfu table (\<open>tinylfu_laws\<close>), msgpack and s2 (\<open>codec_laws\<close>), redis
  (\<open>redis_laws\<close>), digests and encoders (\<open>httpenv\<close>), the JWT library (\<open>parse_laws\<close>), the gin framework
  (\<open>gin_laws\<close>, \<open>ginw_laws\<close>), the configuration tree (\<open>koanf_laws\<close>), error groups (\<open>eg_laws\<close>), grpc's status
  and metadata, the URLs, base64 and JSON of dial targets, the Polaris and OpenTelemetry SDKs, gqlgen, the
  compressor (\<open>zip_laws\<close>), AES and \<open>database/sql\<close> (\<open>aes_laws\<close>), zap and the loader of Go packages.  The witnesses instantiate them with
  concrete functions.  The clock, random draws and the environment are arguments.

  Bounds.  Machine integers are kept at their width: \<open>wrap64\<close> writes the wrap-around of \<open>int\<close> and \<open>int64\<close>
  out, counters and error types are words.  Recursion is structural or has a termination proof, except the
  sampling loop above and the eviction of packages: that has fuel, two more than the cache has packages, which
  \<open>evict_closed\<close> shows to be enough.

  Not modelled.  Concurrency inside a handler or a cache (operations are sequential; the time wheel's messages,
  the lifecycle, the log pool and the registration of services are interleaved explicitly); pools of buffers and
  encoders; reflection that fills structures from configurations (\<open>Unmarshal\<close> is a parameter).  The generators of
  \<open>cmd/woco\<close> (\<open>oasgen\<close>, \<open>gen\<close>, \<open>project\<close>, \<open>internal/helper\<close>) fill templates from OpenAPI documents: their meaning is
  that of the text they write, which no model here could check; what they generate, as the petstore client and
  server and the protocol buffers under \<open>test\<close>, is not written by hand.  \<open>pkg/store/redisx\<close>, the gRPC part of the
  telemetry and the registration of the Polaris builders hand options to third-party constructors and decide
  nothing.  Test servers, recorders and test data are not part of the program.
\<close>

end
